(* ===== verification/Prelude.thy ===== *)
theory Prelude
  imports Main "HOL-Library.Word" "HOL-Library.Sublist"
begin

text \<open>
  Shared vocabulary of the development: the machine-integer types of the Rust sources, the
  error-as-value type, the byte-level standard-library routines the sources use
  (\<open>to_le_bytes\<close>, \<open>from_le_bytes\<close>, \<open>String::as_bytes\<close>, \<open>String::from_utf8\<close>, decimal formatting
  and \<open>parse::<u64>\<close>), and the generic lemmas on lists, options and words that the component
  theories rest on. The collection \<open>le_simps\<close> carries the little-endian codec laws.
\<close>

section \<open>Types and collections\<close>

type_synonym u8 = "8 word"
type_synonym u16 = "16 word"
type_synonym u32 = "32 word"
type_synonym u64 = "64 word"

text \<open>An \<open>i64\<close> is kept as its 64-bit pattern; \<open>sint\<close> reads it as two's complement.\<close>

type_synonym i64 = "64 word"
type_synonym bytes = "u8 list"

text \<open>Rust's \<open>Result<T, E>\<close>: \<open>Inl\<close> is \<open>Err\<close>, \<open>Inr\<close> is \<open>Ok\<close>.\<close>

type_synonym ('e, 'a) rresult = "'e + 'a"

text \<open>The \<open>?\<close> operator: return the error at once, or go on with the value.\<close>

definition rbind :: "('e, 'a) rresult \<Rightarrow> ('a \<Rightarrow> ('e, 'b) rresult) \<Rightarrow> ('e, 'b) rresult" where
  "rbind r f = (case r of Inl e \<Rightarrow> Inl e | Inr a \<Rightarrow> f a)"

lemma rbind_simps [simp]: "rbind (Inl e) f = Inl e" "rbind (Inr a) f = f a"
  by (simp_all add: rbind_def)

lemma rbind_Inr_iff: "rbind r f = Inr b \<longleftrightarrow> (\<exists>a. r = Inr a \<and> f a = Inr b)"
  by (cases r) auto

text \<open>The sub-slice \<open>xs[a..b]\<close>; the sources check \<open>b \<le> len\<close> before they take one.\<close>

definition subslice :: "'a list \<Rightarrow> nat \<Rightarrow> nat \<Rightarrow> 'a list" where
  "subslice xs a b = take (b - a) (drop a xs)"

lemma length_subslice [simp]: "length (subslice xs a b) = min (b - a) (length xs - a)"
  by (auto simp: subslice_def min.commute)

lemma subslice_append_right [simp]: "length xs \<le> a \<Longrightarrow> subslice (xs @ ys) a b = subslice ys (a - length xs) (b - length xs)"
  by (auto simp: subslice_def)

lemma subslice_full [simp]: "length xs = n \<Longrightarrow> subslice (xs @ ys) 0 n = xs"
  by (simp add: subslice_def)

lemma set_map_filter: "set (List.map_filter g xs) = {y. \<exists>x \<in> set xs. g x = Some y}"
  by (force simp: List.map_filter_def image_iff)

named_theorems le_simps \<open>little-endian codec laws\<close>
named_theorems wal_simps \<open>log-level facts of the write-ahead log\<close>
named_theorems txn_simps \<open>frame facts of the transaction manager\<close>

lemma unat_bound: "unat (w :: 'a::len word) < 2 ^ LENGTH('a)"
  by (fact unsigned_less)

text \<open>Incrementing a \<open>u64\<close> that has not reached its maximum.\<close>

lemma unat_u64_Suc: "unat (w :: u64) + 1 < 2 ^ 64 \<Longrightarrow> unat (w + 1) = unat w + 1"
  by (simp add: unat_word_ariths)

lemma u64_less_Suc: "unat (w :: u64) + 1 < 2 ^ 64 \<Longrightarrow> w < w + 1"
  by (simp add: word_less_nat_alt unat_u64_Suc)

section \<open>Fixed-width little-endian encoding\<close>

text \<open>\<open>nat_to_le n k\<close> is the \<open>n\<close> low bytes of \<open>k\<close>, least significant first.\<close>

fun nat_to_le :: "nat \<Rightarrow> nat \<Rightarrow> bytes" where
  "nat_to_le 0 k = []"
| "nat_to_le (Suc n) k = of_nat (k mod 256) # nat_to_le n (k div 256)"

fun nat_from_le :: "bytes \<Rightarrow> nat" where
  "nat_from_le [] = 0"
| "nat_from_le (b # bs) = unat b + 256 * nat_from_le bs"

definition u32_to_le_bytes :: "u32 \<Rightarrow> bytes" where
  "u32_to_le_bytes w = nat_to_le 4 (unat w)"

definition u64_to_le_bytes :: "u64 \<Rightarrow> bytes" where
  "u64_to_le_bytes w = nat_to_le 8 (unat w)"

definition u32_from_le_bytes :: "bytes \<Rightarrow> u32" where
  "u32_from_le_bytes bs = of_nat (nat_from_le bs)"

definition u64_from_le_bytes :: "bytes \<Rightarrow> u64" where
  "u64_from_le_bytes bs = of_nat (nat_from_le bs)"

lemma length_nat_to_le [simp]: "length (nat_to_le n k) = n"
  by (induction n arbitrary: k) auto

lemma nat_to_le_numeral:
  "nat_to_le (numeral n) k = of_nat (k mod 256) # nat_to_le (pred_numeral n) (k div 256)"
  by (simp only: numeral_eq_Suc [of n] nat_to_le.simps)

lemma unat_of_nat_byte [simp]: "unat (of_nat (k mod 256) :: u8) = k mod 256"
  by (simp add: unat_of_nat)

lemma nat_from_le_to_le: "nat_from_le (nat_to_le n k) = k mod 256 ^ n"
proof (induction n arbitrary: k)
  case 0
  then show ?case by simp
next
  case (Suc n)
  have "nat_from_le (nat_to_le (Suc n) k) = k mod 256 + 256 * (k div 256 mod 256 ^ n)"
    by (simp add: Suc.IH)
  also have "\<dots> = k mod (256 * 256 ^ n)"
    by (simp add: mod_mult2_eq)
  finally show ?case by simp
qed

lemma length_u32_le [simp, le_simps]: "length (u32_to_le_bytes w) = 4"
  by (simp add: u32_to_le_bytes_def)

lemma length_u64_le [simp, le_simps]: "length (u64_to_le_bytes w) = 8"
  by (simp add: u64_to_le_bytes_def)

lemma u32_le_roundtrip [simp, le_simps]: "u32_from_le_bytes (u32_to_le_bytes w) = w"
proof -
  have "unat w < 256 ^ 4" using unat_bound [of w] by simp
  then show ?thesis
    by (simp add: u32_from_le_bytes_def u32_to_le_bytes_def nat_from_le_to_le)
qed

lemma u64_le_roundtrip [simp, le_simps]: "u64_from_le_bytes (u64_to_le_bytes w) = w"
proof -
  have "unat w < 256 ^ 8" using unat_bound [of w] by simp
  then show ?thesis
    by (simp add: u64_from_le_bytes_def u64_to_le_bytes_def nat_from_le_to_le)
qed

lemma nat_to_le_from_le: "nat_to_le (length bs) (nat_from_le bs) = bs"
proof (induction bs)
  case Nil
  then show ?case by simp
next
  case (Cons b bs)
  have b: "unat b < 256" using unat_bound [of b] by simp
  then have "(unat b + 256 * nat_from_le bs) mod 256 = unat b"
    "(unat b + 256 * nat_from_le bs) div 256 = nat_from_le bs" by simp_all
  with Cons.IH show ?case by simp
qed

lemma nat_from_le_bound: "nat_from_le bs < 256 ^ length bs"
proof (induction bs)
  case Nil
  then show ?case by simp
next
  case (Cons b bs)
  have "unat b < 256" using unat_bound [of b] by simp
  with Cons.IH show ?case by simp
qed

lemma u64_le_roundtrip_bytes: "length bs = 8 \<Longrightarrow> u64_to_le_bytes (u64_from_le_bytes bs) = bs"
  using nat_from_le_bound [of bs] nat_to_le_from_le [of bs]
  by (simp add: u64_to_le_bytes_def u64_from_le_bytes_def unat_of_nat)

lemma u32_le_roundtrip_bytes: "length bs = 4 \<Longrightarrow> u32_to_le_bytes (u32_from_le_bytes bs) = bs"
  using nat_from_le_bound [of bs] nat_to_le_from_le [of bs]
  by (simp add: u32_to_le_bytes_def u32_from_le_bytes_def unat_of_nat)

text \<open>Reading a field off the front of a buffer that starts with its encoding.\<close>

lemma take_u32_le [simp, le_simps]: "take 4 (u32_to_le_bytes w @ xs) = u32_to_le_bytes w"
  by simp

lemma drop_u32_le [simp, le_simps]: "drop 4 (u32_to_le_bytes w @ xs) = xs"
  by simp

lemma take_u64_le [simp, le_simps]: "take 8 (u64_to_le_bytes w @ xs) = u64_to_le_bytes w"
  by simp

lemma drop_u64_le [simp, le_simps]: "drop 8 (u64_to_le_bytes w @ xs) = xs"
  by simp

lemma take_add_drop: "take n (drop k xs) @ drop (k + n) xs = drop k xs"
  by (metis add.commute append_take_drop_id drop_drop)

section \<open>Strings as bytes\<close>

text \<open>
  A Rust \<open>String\<close> is a sequence of bytes that is well-formed UTF-8. It is modelled by
  \<open>string\<close>, whose characters are bytes; \<open>as_bytes\<close> and \<open>from_utf8\<close> convert, the latter
  rejecting ill-formed sequences as the standard library does.
\<close>

definition byte_of_char :: "char \<Rightarrow> u8" where
  "byte_of_char c = of_nat (of_char c)"

definition char_of_byte :: "u8 \<Rightarrow> char" where
  "char_of_byte b = char_of (unat b)"

lemma char_of_byte_of_char [simp]: "char_of_byte (byte_of_char c) = c"
  by (simp add: char_of_byte_def byte_of_char_def unat_of_nat)

lemma byte_of_char_of_byte [simp]: "byte_of_char (char_of_byte b) = b"
proof -
  have "unat b < 256" using unat_bound [of b] by simp
  then show ?thesis
    by (simp add: char_of_byte_def byte_of_char_def)
qed

definition as_bytes :: "string \<Rightarrow> bytes" where
  "as_bytes s = map byte_of_char s"

definition continuation_byte :: "u8 \<Rightarrow> bool" where
  "continuation_byte b \<longleftrightarrow> 0x80 \<le> b \<and> b \<le> 0xBF"

text \<open>Well-formed UTF-8 (Unicode, table 3-7), the check \<open>String::from_utf8\<close> makes.\<close>

fun valid_utf8 :: "bytes \<Rightarrow> bool" where
  "valid_utf8 [] = True"
| "valid_utf8 (b # bs) =
    (if b \<le> 0x7F then valid_utf8 bs
     else if 0xC2 \<le> b \<and> b \<le> 0xDF then
       (case bs of c1 # r \<Rightarrow> continuation_byte c1 \<and> valid_utf8 r | _ \<Rightarrow> False)
     else if 0xE0 \<le> b \<and> b \<le> 0xEF then
       (case bs of c1 # c2 # r \<Rightarrow>
          continuation_byte c1 \<and> (b = 0xE0 \<longrightarrow> 0xA0 \<le> c1) \<and> (b = 0xED \<longrightarrow> c1 \<le> 0x9F)
          \<and> continuation_byte c2 \<and> valid_utf8 r
        | _ \<Rightarrow> False)
     else if 0xF0 \<le> b \<and> b \<le> 0xF4 then
       (case bs of c1 # c2 # c3 # r \<Rightarrow>
          continuation_byte c1 \<and> (b = 0xF0 \<longrightarrow> 0x90 \<le> c1) \<and> (b = 0xF4 \<longrightarrow> c1 \<le> 0x8F)
          \<and> continuation_byte c2 \<and> continuation_byte c3 \<and> valid_utf8 r
        | _ \<Rightarrow> False)
     else False)"

definition from_utf8 :: "bytes \<Rightarrow> string option" where
  "from_utf8 bs = (if valid_utf8 bs then Some (map char_of_byte bs) else None)"

text \<open>The type invariant of a Rust \<open>String\<close>.\<close>

definition wf_string :: "string \<Rightarrow> bool" where
  "wf_string s \<longleftrightarrow> valid_utf8 (as_bytes s)"

lemma length_as_bytes [simp]: "length (as_bytes s) = length s"
  by (simp add: as_bytes_def)

lemma as_bytes_append [simp]: "as_bytes (s @ t) = as_bytes s @ as_bytes t"
  by (simp add: as_bytes_def)

lemma as_bytes_inject [simp]: "as_bytes s = as_bytes t \<longleftrightarrow> s = t"
proof -
  have "inj byte_of_char" by (rule inj_on_inverseI [of _ char_of_byte]) simp
  then show ?thesis by (simp add: as_bytes_def inj_map_eq_map)
qed

lemma from_utf8_as_bytes [simp]: "wf_string s \<Longrightarrow> from_utf8 (as_bytes s) = Some s"
  by (simp add: from_utf8_def wf_string_def as_bytes_def comp_def)

lemma from_utf8_SomeD: "from_utf8 bs = Some s \<Longrightarrow> as_bytes s = bs \<and> wf_string s"
  by (auto simp: from_utf8_def wf_string_def as_bytes_def comp_def split: if_splits)

section \<open>Decimal numerals and string prefixes\<close>

text \<open>Decimal formatting of an unsigned integer and its inverse \<open>str::parse::<u64>\<close>.\<close>

definition digit_char :: "nat \<Rightarrow> char" where
  "digit_char d = char_of (48 + d)"

definition char_digit :: "char \<Rightarrow> nat option" where
  "char_digit c = (let n = of_char c :: nat in if 48 \<le> n \<and> n \<le> 57 then Some (n - 48) else None)"

fun dec_digits :: "nat \<Rightarrow> string" where
  "dec_digits n = (if n < 10 then [digit_char n] else dec_digits (n div 10) @ [digit_char (n mod 10)])"

declare dec_digits.simps [simp del]

text \<open>The format specification \<open>{:0w}\<close>: pad with zeros on the left to width \<open>w\<close>.\<close>

definition pad_zeros :: "nat \<Rightarrow> string \<Rightarrow> string" where
  "pad_zeros w s = replicate (w - length s) (CHR ''0'') @ s"

fun parse_digits :: "nat \<Rightarrow> string \<Rightarrow> nat option" where
  "parse_digits acc [] = Some acc"
| "parse_digits acc (c # cs) =
    (case char_digit c of None \<Rightarrow> None | Some d \<Rightarrow> parse_digits (10 * acc + d) cs)"

definition parse_u64 :: "string \<Rightarrow> u64 option" where
  "parse_u64 s =
    (let ds = (case s of c # c' # cs \<Rightarrow> if c = CHR ''+'' then c' # cs else s | _ \<Rightarrow> s)
     in if ds = [] then None
        else case parse_digits 0 ds of
               None \<Rightarrow> None
             | Some n \<Rightarrow> if n < 2 ^ 64 then Some (of_nat n) else None)"

text \<open>\<open>join\<close> on a list of strings.\<close>

fun join_with :: "string \<Rightarrow> string list \<Rightarrow> string" where
  "join_with sep [] = []"
| "join_with sep [x] = x"
| "join_with sep (x # y # xs) = x @ sep @ join_with sep (y # xs)"

definition strip_prefix :: "string \<Rightarrow> string \<Rightarrow> string option" where
  "strip_prefix p s = (if take (length p) s = p then Some (drop (length p) s) else None)"

definition strip_suffix :: "string \<Rightarrow> string \<Rightarrow> string option" where
  "strip_suffix p s =
    (if length p \<le> length s \<and> drop (length s - length p) s = p
     then Some (take (length s - length p) s) else None)"

lemma char_digit_digit_char [simp]: "d < 10 \<Longrightarrow> char_digit (digit_char d) = Some d"
  by (simp add: char_digit_def digit_char_def Let_def)

lemma parse_digits_append:
  "parse_digits acc (xs @ ys) = Option.bind (parse_digits acc xs) (\<lambda>a. parse_digits a ys)"
  by (induction xs arbitrary: acc) (auto split: option.splits)

lemma parse_digits_dec_digits: "parse_digits 0 (dec_digits n) = Some n"
proof (induction n rule: dec_digits.induct)
  case (1 n)
  then show ?case
    by (cases "n < 10") (simp_all add: dec_digits.simps [of n] parse_digits_append)
qed

lemma parse_digits_zeros: "parse_digits 0 (replicate k (CHR ''0'') @ s) = parse_digits 0 s"
  by (induction k) (simp_all add: char_digit_def Let_def)

lemma dec_digits_nonempty [simp]: "dec_digits n \<noteq> []"
  by (simp add: dec_digits.simps [of n])

lemma char_digit_plus [simp]: "char_digit (CHR ''+'') = None"
  by (simp add: char_digit_def Let_def)

text \<open>A non-empty digit string is parsed as its value; the \<open>+\<close> branch does not apply to it.\<close>

lemma parse_u64_digits:
  assumes "parse_digits 0 s = Some n" and "s \<noteq> []" and "n < 2 ^ 64"
  shows "parse_u64 s = Some (of_nat n)"
proof -
  from assms(1) have "\<nexists>cs. s = CHR ''+'' # cs" by auto
  then have "(case s of c # c' # cs \<Rightarrow> if c = CHR ''+'' then c' # cs else s | _ \<Rightarrow> s) = s"
    by (auto split: list.splits)
  with assms show ?thesis
    by (simp add: parse_u64_def Let_def)
qed

lemma parse_u64_padded: "parse_u64 (pad_zeros w (dec_digits (unat n))) = Some n"
proof -
  have "parse_digits 0 (pad_zeros w (dec_digits (unat n))) = Some (unat n)"
    by (simp add: pad_zeros_def parse_digits_zeros parse_digits_dec_digits)
  moreover have "unat n < 2 ^ 64" using unat_bound [of n] by simp
  ultimately show ?thesis
    using parse_u64_digits [of "pad_zeros w (dec_digits (unat n))" "unat n"]
    by (simp add: pad_zeros_def)
qed

lemma strip_prefix_append [simp]: "strip_prefix p (p @ s) = Some s"
  by (simp add: strip_prefix_def)

lemma strip_suffix_append [simp]: "strip_suffix p (s @ p) = Some s"
  by (simp add: strip_suffix_def)

end
