(* ===== verification/Wal_Entry.thy ===== *)
theory Wal_Entry
  imports Prelude
begin

text \<open>
  The write-ahead log's entry codec (\<open>verisim-wal/src/entry.rs\<close>, \<open>error.rs\<close>): the operation and
  modality bytes, the entry record, \<open>serialize\<close>, \<open>deserialize\<close> and \<open>parse_inner\<close>, with every early
  return as an \<open>Inl\<close> value. The CRC-32 routine (crate \<open>crc32fast\<close>) and the conversion between
  \<open>DateTime<Utc>\<close> and Unix milliseconds (crate \<open>chrono\<close>) are parameters, collected in the record
  \<open>wal_env\<close>; timestamps are values of an arbitrary type \<open>'ts\<close>. The clock is an argument.
\<close>

section \<open>Errors\<close>

datatype WalError =
    Io string
  | CrcMismatch u64 u32 u32
  | EntryTooLarge u64 u32 u32
  | InvalidOperation u8
  | InvalidModality u8
  | TruncatedEntry u64 string
  | Json string
  | InvalidEntityId
  | DirectoryNotFound string
  | UnexpectedEof u64

type_synonym 'a WalResult = "(WalError, 'a) rresult"

text \<open>The \<open>Display\<close> text of an error; \<open>utf8\<close> is the text of the standard library's decoding error. \<open>hex8\<close> is \<open>{:#010x}\<close>.\<close>

definition hex8 :: "u32 \<Rightarrow> string" where
  "hex8 x = ''0x'' @ map (\<lambda>k. ''0123456789abcdef'' ! (unat x div 16 ^ k mod 16)) (rev [0..<8])"

fun WalError_display :: "string \<Rightarrow> WalError \<Rightarrow> string" where
  "WalError_display utf8 (Io m) = ''WAL I/O error: '' @ m"
| "WalError_display utf8 (CrcMismatch sequence expected actual) =
     ''CRC mismatch at sequence '' @ dec_digits (unat sequence) @ '': expected '' @ hex8 expected @ '', got '' @ hex8 actual"
| "WalError_display utf8 (EntryTooLarge sequence len max_length) =
     ''Entry at sequence '' @ dec_digits (unat sequence) @ '' declares length '' @ dec_digits (unat len)
     @ '' bytes, exceeding maximum '' @ dec_digits (unat max_length)"
| "WalError_display utf8 (InvalidOperation b) = ''Invalid operation byte: '' @ dec_digits (unat b)"
| "WalError_display utf8 (InvalidModality b) = ''Invalid modality byte: '' @ dec_digits (unat b)"
| "WalError_display utf8 (TruncatedEntry offset segment) =
     ''Truncated entry at offset '' @ dec_digits (unat offset) @ '' in segment '' @ segment"
| "WalError_display utf8 (Json m) = ''JSON error in WAL payload: '' @ m"
| "WalError_display utf8 InvalidEntityId = ''Invalid UTF-8 in entity ID: '' @ utf8"
| "WalError_display utf8 (DirectoryNotFound m) = ''WAL directory not found or inaccessible: '' @ m"
| "WalError_display utf8 (UnexpectedEof offset) = ''Unexpected end of segment at offset '' @ dec_digits (unat offset)"

section \<open>Constants\<close>

definition MAX_ENTRY_SIZE :: u32 where
  "MAX_ENTRY_SIZE = 64 * 1024 * 1024"

definition FIXED_FIELDS_SIZE :: nat where
  "FIXED_FIELDS_SIZE = 8 + 8 + 1 + 1"

section \<open>Operation and modality bytes\<close>

datatype WalOperation = Insert | Update | Delete | Checkpoint

definition WalOperation_from_byte :: "u8 \<Rightarrow> WalOperation WalResult" where
  "WalOperation_from_byte byte =
    (if byte = 0 then Inr Insert
     else if byte = 1 then Inr Update
     else if byte = 2 then Inr Delete
     else if byte = 3 then Inr Checkpoint
     else Inl (InvalidOperation byte))"

fun WalOperation_to_byte :: "WalOperation \<Rightarrow> u8" where
  "WalOperation_to_byte Insert = 0"
| "WalOperation_to_byte Update = 1"
| "WalOperation_to_byte Delete = 2"
| "WalOperation_to_byte Checkpoint = 3"

datatype WalModality =
  Graph | Vector | Tensor | Semantic | Document | Temporal | Provenance | Spatial | All

definition WalModality_from_byte :: "u8 \<Rightarrow> WalModality WalResult" where
  "WalModality_from_byte byte =
    (if byte = 0 then Inr Graph
     else if byte = 1 then Inr Vector
     else if byte = 2 then Inr Tensor
     else if byte = 3 then Inr Semantic
     else if byte = 4 then Inr Document
     else if byte = 5 then Inr Temporal
     else if byte = 6 then Inr Provenance
     else if byte = 7 then Inr Spatial
     else if byte = 255 then Inr All
     else Inl (InvalidModality byte))"

fun WalModality_to_byte :: "WalModality \<Rightarrow> u8" where
  "WalModality_to_byte Graph = 0"
| "WalModality_to_byte Vector = 1"
| "WalModality_to_byte Tensor = 2"
| "WalModality_to_byte Semantic = 3"
| "WalModality_to_byte Document = 4"
| "WalModality_to_byte Temporal = 5"
| "WalModality_to_byte Provenance = 6"
| "WalModality_to_byte Spatial = 7"
| "WalModality_to_byte All = 255"

section \<open>Entries\<close>

record 'ts WalEntry =
  we_sequence :: u64
  we_timestamp :: 'ts
  we_operation :: WalOperation
  we_modality :: WalModality
  we_entity_id :: string
  we_payload :: bytes

text \<open>The third-party routines an entry depends on.\<close>

record 'ts wal_env =
  env_crc32 :: "bytes \<Rightarrow> u32"
  env_timestamp_millis :: "'ts \<Rightarrow> i64"
  env_timestamp_millis_opt :: "i64 \<Rightarrow> 'ts option"

definition compute_crc32 :: "'ts wal_env \<Rightarrow> bytes \<Rightarrow> u32" where
  "compute_crc32 env data = env_crc32 env data"

definition serialize_inner :: "'ts wal_env \<Rightarrow> 'ts WalEntry \<Rightarrow> bytes" where
  "serialize_inner env e =
     u64_to_le_bytes (we_sequence e)
     @ u64_to_le_bytes (env_timestamp_millis env (we_timestamp e))
     @ [WalOperation_to_byte (we_operation e)]
     @ [WalModality_to_byte (we_modality e)]
     @ u32_to_le_bytes (of_nat (length (as_bytes (we_entity_id e))))
     @ as_bytes (we_entity_id e)
     @ u32_to_le_bytes (of_nat (length (we_payload e)))
     @ we_payload e"

definition serialize :: "'ts wal_env \<Rightarrow> 'ts WalEntry \<Rightarrow> bytes" where
  "serialize env e =
    (let inner = serialize_inner env e;
         crc = compute_crc32 env inner;
         entry_length = of_nat (4 + length inner) :: u32
     in u32_to_le_bytes entry_length @ u32_to_le_bytes crc @ inner)"

definition parse_inner :: "'ts wal_env \<Rightarrow> 'ts \<Rightarrow> bytes \<Rightarrow> 'ts WalEntry WalResult" where
  "parse_inner env now inner =
    (let offset = 0 in
     if length inner < offset + 8 then Inl (UnexpectedEof (of_nat offset)) else
     let sequence = u64_from_le_bytes (subslice inner offset (offset + 8)); offset = offset + 8 in
     if length inner < offset + 8 then Inl (UnexpectedEof (of_nat offset)) else
     let timestamp_millis = u64_from_le_bytes (subslice inner offset (offset + 8));
         offset = offset + 8;
         timestamp = (case env_timestamp_millis_opt env timestamp_millis of
                        Some t \<Rightarrow> t | None \<Rightarrow> now) in
     if length inner < offset + 1 then Inl (UnexpectedEof (of_nat offset)) else
     rbind (WalOperation_from_byte (inner ! offset)) (\<lambda>operation.
     let offset = offset + 1 in
     if length inner < offset + 1 then Inl (UnexpectedEof (of_nat offset)) else
     rbind (WalModality_from_byte (inner ! offset)) (\<lambda>modality.
     let offset = offset + 1 in
     if length inner < offset + 4 then Inl (UnexpectedEof (of_nat offset)) else
     let entity_id_len = unat (u32_from_le_bytes (subslice inner offset (offset + 4)));
         offset = offset + 4 in
     if length inner < offset + entity_id_len then Inl (UnexpectedEof (of_nat offset)) else
     (case from_utf8 (subslice inner offset (offset + entity_id_len)) of
        None \<Rightarrow> Inl InvalidEntityId
      | Some entity_id \<Rightarrow>
     let offset = offset + entity_id_len in
     if length inner < offset + 4 then Inl (UnexpectedEof (of_nat offset)) else
     let payload_len = unat (u32_from_le_bytes (subslice inner offset (offset + 4)));
         offset = offset + 4 in
     if length inner < offset + payload_len then Inl (UnexpectedEof (of_nat offset)) else
     let payload = subslice inner offset (offset + payload_len) in
     Inr \<lparr>we_sequence = sequence, we_timestamp = timestamp, we_operation = operation,
          we_modality = modality, we_entity_id = entity_id, we_payload = payload\<rparr>))))"

definition deserialize ::
  "'ts wal_env \<Rightarrow> 'ts \<Rightarrow> bytes \<Rightarrow> u32 \<Rightarrow> 'ts WalEntry WalResult" where
  "deserialize env now data entry_length =
    (if (of_nat (length data) :: u32) < entry_length
     then Inl (UnexpectedEof (of_nat (length data)))
     else
     let data = take (unat entry_length) data in
     if length data < 4 then Inl (UnexpectedEof 0) else
     let stored_crc = u32_from_le_bytes (take 4 data);
         inner = drop 4 data;
         computed_crc = compute_crc32 env inner in
     if stored_crc \<noteq> computed_crc then
       Inl (CrcMismatch (if 8 \<le> length inner then u64_from_le_bytes (subslice inner 0 8) else 0)
              stored_crc computed_crc)
     else parse_inner env now inner)"

section \<open>Well-formed entries\<close>

text \<open>
  The entity id is a Rust \<open>String\<close>, the encoding fits the reader's size limit, and the timestamp
  survives the conversion to milliseconds. \<open>stored\<close> is what the log keeps of an entry: its
  timestamp at millisecond resolution.
\<close>

definition entry_size :: "'ts WalEntry \<Rightarrow> nat" where
  "entry_size e = 30 + length (we_entity_id e) + length (we_payload e)"

definition wf_entry :: "'ts wal_env \<Rightarrow> 'ts WalEntry \<Rightarrow> bool" where
  "wf_entry env e \<longleftrightarrow>
     wf_string (we_entity_id e)
     \<and> entry_size e \<le> unat MAX_ENTRY_SIZE
     \<and> env_timestamp_millis_opt env (env_timestamp_millis env (we_timestamp e)) \<noteq> None"

definition stored :: "'ts wal_env \<Rightarrow> 'ts WalEntry \<Rightarrow> 'ts WalEntry" where
  "stored env e = e\<lparr>we_timestamp :=
     the (env_timestamp_millis_opt env (env_timestamp_millis env (we_timestamp e)))\<rparr>"

section \<open>Codec lemmas\<close>

lemma MAX_ENTRY_SIZE_unat [simp]: "unat MAX_ENTRY_SIZE = 67108864"
  by (simp add: MAX_ENTRY_SIZE_def)

lemma operation_byte_roundtrip [simp]: "WalOperation_from_byte (WalOperation_to_byte op) = Inr op"
  by (cases op) (simp_all add: WalOperation_from_byte_def)

lemma modality_byte_roundtrip [simp]: "WalModality_from_byte (WalModality_to_byte m) = Inr m"
  by (cases m) (simp_all add: WalModality_from_byte_def)

lemma operation_from_byte_InrD:
  "WalOperation_from_byte b = Inr op \<Longrightarrow> WalOperation_to_byte op = b"
  by (auto simp: WalOperation_from_byte_def split: if_splits)

lemma modality_from_byte_InrD:
  "WalModality_from_byte b = Inr m \<Longrightarrow> WalModality_to_byte m = b"
  by (auto simp: WalModality_from_byte_def split: if_splits)

lemma length_serialize_inner [simp]:
  "length (serialize_inner env e) = 26 + length (we_entity_id e) + length (we_payload e)"
  by (simp add: serialize_inner_def)

lemma length_serialize [simp]:
  "length (serialize env e) = 4 + entry_size e"
  by (simp add: serialize_def Let_def entry_size_def)

lemma serialize_eq:
  "serialize env e = u32_to_le_bytes (of_nat (entry_size e))
     @ u32_to_le_bytes (compute_crc32 env (serialize_inner env e)) @ serialize_inner env e"
proof -
  have "4 + length (serialize_inner env e) = entry_size e"
    by (simp add: entry_size_def)
  then show ?thesis
    by (simp only: serialize_def Let_def)
qed

lemma entry_size_bounds [simp]: "30 \<le> entry_size e" "0 < entry_size e" "entry_size e \<noteq> 0"
  by (simp_all add: entry_size_def)

lemma serialize_nonempty [simp]: "serialize env e \<noteq> []"
  using length_serialize [of env e] by (cases "serialize env e") simp_all

lemma entry_size_frame [simp]:
  "entry_size (e\<lparr>we_sequence := n\<rparr>) = entry_size e" "entry_size (e\<lparr>we_timestamp := t\<rparr>) = entry_size e"
  by (simp_all add: entry_size_def)

lemma stored_sequence [simp]: "we_sequence (stored env e) = we_sequence e"
  by (simp add: stored_def)

lemma stored_operation [simp]: "we_operation (stored env e) = we_operation e"
  by (simp add: stored_def)

lemma unat_of_nat_u32: "n < 4294967296 \<Longrightarrow> unat (of_nat n :: u32) = n"
  by (simp add: unat_of_nat)

lemma wf_entry_with_sequence [simp]: "wf_entry env (e\<lparr>we_sequence := n\<rparr>) = wf_entry env e"
  by (simp add: wf_entry_def)

lemma parse_inner_serialize_inner:
  assumes "wf_entry env e"
  shows "parse_inner env now (serialize_inner env e) = Inr (stored env e)"
proof -
  from assms obtain t where
    t: "env_timestamp_millis_opt env (env_timestamp_millis env (we_timestamp e)) = Some t"
    and str: "wf_string (we_entity_id e)"
    and len: "30 + length (we_entity_id e) + length (we_payload e) \<le> 67108864"
    by (auto simp: wf_entry_def entry_size_def)
  have n: "unat (of_nat (length (we_entity_id e)) :: u32) = length (we_entity_id e)"
    and m: "unat (of_nat (length (we_payload e)) :: u32) = length (we_payload e)"
    using len by (simp_all add: unat_of_nat_u32)
  have idx: "serialize_inner env e ! 16 = WalOperation_to_byte (we_operation e)"
            "serialize_inner env e ! 17 = WalModality_to_byte (we_modality e)"
    by (simp_all add: serialize_inner_def nth_append)
  have sl: "subslice (serialize_inner env e) 0 8 = u64_to_le_bytes (we_sequence e)"
    "subslice (serialize_inner env e) 8 16 = u64_to_le_bytes (env_timestamp_millis env (we_timestamp e))"
    "subslice (serialize_inner env e) 18 22 = u32_to_le_bytes (of_nat (length (we_entity_id e)))"
    "subslice (serialize_inner env e) 22 (22 + length (we_entity_id e)) = as_bytes (we_entity_id e)"
    "subslice (serialize_inner env e) (22 + length (we_entity_id e)) (26 + length (we_entity_id e))
       = u32_to_le_bytes (of_nat (length (we_payload e)))"
    "subslice (serialize_inner env e) (26 + length (we_entity_id e))
       (26 + length (we_entity_id e) + length (we_payload e)) = we_payload e"
    by (simp_all add: serialize_inner_def subslice_def drop_Cons')
  show ?thesis
    unfolding parse_inner_def Let_def
    using t str
    by (simp add: sl idx n m stored_def)
qed

lemma wf_entry_unat_size: "wf_entry env e \<Longrightarrow> unat (of_nat (entry_size e) :: u32) = entry_size e"
  by (rule unat_of_nat_u32) (simp add: wf_entry_def)

lemma deserialize_serialize:
  assumes "wf_entry env e"
  shows "deserialize env now (drop 4 (serialize env e)) (of_nat (entry_size e)) = Inr (stored env e)"
proof -
  let ?inner = "serialize_inner env e"
  have d: "drop 4 (serialize env e) = u32_to_le_bytes (compute_crc32 env ?inner) @ ?inner"
    by (simp add: serialize_eq)
  have len: "length (u32_to_le_bytes (compute_crc32 env ?inner) @ ?inner) = entry_size e"
    by (simp add: entry_size_def)
  show ?thesis
    unfolding deserialize_def Let_def d len wf_entry_unat_size [OF assms]
    using parse_inner_serialize_inner [OF assms, of now] len by simp
qed

section \<open>Properties of the codec\<close>

text \<open>A concrete environment for examples: timestamps are milliseconds, the checksum is the last byte.\<close>

definition demo_env :: "i64 wal_env" where
  "demo_env = \<lparr>env_crc32 = (\<lambda>bs. if bs = [] then 0 else of_nat (unat (last bs))), env_timestamp_millis = id, env_timestamp_millis_opt = Some\<rparr>"

definition demo_entry :: "string \<Rightarrow> bytes \<Rightarrow> i64 WalEntry" where
  "demo_entry ident payload = \<lparr>we_sequence = 0, we_timestamp = 1700000000000, we_operation = Insert,
     we_modality = All, we_entity_id = ident, we_payload = payload\<rparr>"

text \<open>C3: Encoding and decoding an entry is the identity up to the millisecond resolution of its
  timestamp: the length field read back from the first four bytes is the length of the rest, and
  \<open>deserialize\<close> of the rest returns every field.
\<close>

theorem wal_entry_roundtrip:
  assumes "wf_entry env e"
  shows "unat (u32_from_le_bytes (take 4 (serialize env e))) = length (drop 4 (serialize env e)) \<and>
    deserialize env now (drop 4 (serialize env e)) (u32_from_le_bytes (take 4 (serialize env e)))
      = Inr (stored env e)"
proof -
  have len: "u32_from_le_bytes (take 4 (serialize env e)) = of_nat (entry_size e)"
    by (simp add: serialize_eq)
  show ?thesis
    unfolding len using deserialize_serialize [OF assms] wf_entry_unat_size [OF assms] by simp
qed

theorem wal_entry_roundtrip_witness:
  "deserialize demo_env 0 (drop 4 (serialize demo_env (demo_entry ''hexad-1'' [1, 2, 255])))
     (u32_from_le_bytes (take 4 (serialize demo_env (demo_entry ''hexad-1'' [1, 2, 255]))))
   = Inr (demo_entry ''hexad-1'' [1, 2, 255])"
proof -
  have "wf_entry demo_env (demo_entry ''hexad-1'' [1, 2, 255])"
    by (simp add: wf_entry_def wf_string_def as_bytes_def byte_of_char_def entry_size_def demo_env_def demo_entry_def)
  from wal_entry_roundtrip [OF this, of 0] show ?thesis
    by (simp add: stored_def demo_env_def demo_entry_def)
qed

lemma rbind_not_Inl: "r \<noteq> Inl e \<Longrightarrow> (\<And>a. r = Inr a \<Longrightarrow> f a \<noteq> Inl e) \<Longrightarrow> rbind r f \<noteq> Inl e"
  by (cases r) auto

lemma if_not_Inl: "(c \<Longrightarrow> x \<noteq> Inl e) \<Longrightarrow> (\<not> c \<Longrightarrow> y \<noteq> Inl e) \<Longrightarrow> (if c then x else y) \<noteq> Inl e"
  by simp

lemma parse_inner_no_crc_error: "parse_inner env now inner \<noteq> Inl (CrcMismatch q x y)"
proof -
  have op: "WalOperation_from_byte b \<noteq> Inl (CrcMismatch q x y)" for b
    by (simp add: WalOperation_from_byte_def)
  have m: "WalModality_from_byte b \<noteq> Inl (CrcMismatch q x y)" for b
    by (simp add: WalModality_from_byte_def)
  have str: "(case from_utf8 b of None \<Rightarrow> Inl InvalidEntityId | Some i \<Rightarrow> f i) \<noteq> Inl (CrcMismatch q x y)"
    if "\<And>i. f i \<noteq> Inl (CrcMismatch q x y)" for b and f :: "string \<Rightarrow> 'a WalEntry WalResult"
    using that by (cases "from_utf8 b") auto
  show ?thesis
    unfolding parse_inner_def Let_def
    by (intro if_not_Inl rbind_not_Inl op m str) simp_all
qed

lemma deserialize_checks_crc_iff:
  assumes "4 \<le> length data" and "length data < 2 ^ 32"
  shows "(u32_from_le_bytes (take 4 data) \<noteq> compute_crc32 env (drop 4 data) \<longleftrightarrow>
     (\<exists>q. deserialize env now data (of_nat (length data)) =
        Inl (CrcMismatch q (u32_from_le_bytes (take 4 data)) (compute_crc32 env (drop 4 data)))))"
proof -
  have n: "unat (of_nat (length data) :: u32) = length data"
    using assms(2) by (simp add: unat_of_nat_u32)
  from assms(1) show ?thesis
    unfolding deserialize_def n by (auto simp: Let_def parse_inner_no_crc_error)
qed

end
