(* ===== verification/Wal_Segment.thy ===== *)
theory Wal_Segment
  imports Wal_Entry
begin

text \<open>
  Segment files of the write-ahead log (\<open>verisim-wal/src/segment.rs\<close>): file names and their
  inverse, the directory listing, and pruning. The directory is a list of files in the order
  \<open>read_dir\<close> yields them; a file carries its bytes and how many of them an \<open>fsync\<close> has made
  durable. File-system calls that succeed are modelled; an I/O failure of the operating system is
  not a step of the model.
\<close>

record wal_file =
  fl_name :: string
  fl_content :: bytes
  fl_synced :: nat

text \<open>\<open>fs_files\<close> is \<open>None\<close> when the path is no directory; \<open>fs_blocked\<close> says that something else exists there.\<close>

record wal_fs =
  fs_path :: string
  fs_files :: "wal_file list option"
  fs_blocked :: bool

definition DEFAULT_MAX_SEGMENT_SIZE :: nat where
  "DEFAULT_MAX_SEGMENT_SIZE = 64 * 1024 * 1024"

definition SEGMENT_EXTENSION :: string where
  "SEGMENT_EXTENSION = ''log''"

definition SEGMENT_PREFIX :: string where
  "SEGMENT_PREFIX = ''wal-''"

record SegmentInfo =
  si_path :: string
  si_start_sequence :: u64
  si_file_size :: nat

definition SegmentInfo_is_full :: "SegmentInfo \<Rightarrow> nat \<Rightarrow> bool" where
  "SegmentInfo_is_full seg max_size \<longleftrightarrow> max_size \<le> si_file_size seg"

definition segment_filename :: "u64 \<Rightarrow> string" where
  "segment_filename start_sequence =
     SEGMENT_PREFIX @ pad_zeros 16 (dec_digits (unat start_sequence)) @ ''.'' @ SEGMENT_EXTENSION"

definition parse_segment_filename :: "string \<Rightarrow> u64 option" where
  "parse_segment_filename name =
    (case strip_prefix SEGMENT_PREFIX name of
       None \<Rightarrow> None
     | Some stripped \<Rightarrow>
       (case strip_suffix (''.'' @ SEGMENT_EXTENSION) stripped of
          None \<Rightarrow> None
        | Some num_str \<Rightarrow> parse_u64 num_str))"

definition segment_info :: "wal_file \<Rightarrow> SegmentInfo option" where
  "segment_info f =
    (case parse_segment_filename (fl_name f) of
       None \<Rightarrow> None
     | Some start_sequence \<Rightarrow>
         Some \<lparr>si_path = fl_name f, si_start_sequence = start_sequence,
               si_file_size = length (fl_content f)\<rparr>)"

text \<open>\<open>Vec::sort\<close> is stable, as \<open>sort_key\<close> is; the order of \<open>SegmentInfo\<close> is that of its start.\<close>

definition list_segments :: "wal_fs \<Rightarrow> SegmentInfo list WalResult" where
  "list_segments fs =
    (case fs_files fs of
       None \<Rightarrow> Inl (DirectoryNotFound (fs_path fs))
     | Some files \<Rightarrow> Inr (sort_key si_start_sequence (List.map_filter segment_info files)))"

definition fs_remove_file :: "string \<Rightarrow> wal_file list \<Rightarrow> wal_file list" where
  "fs_remove_file name files = filter (\<lambda>f. fl_name f \<noteq> name) files"

fun prune_loop ::
  "u64 \<Rightarrow> SegmentInfo list \<Rightarrow> SegmentInfo list \<Rightarrow> wal_file list \<Rightarrow> nat \<Rightarrow> wal_file list \<times> nat" where
  "prune_loop cp segments [] files removed = (files, removed)"
| "prune_loop cp segments (segment # rest) files removed =
    (if si_start_sequence segment < cp \<and> (\<exists>s\<in>set segments. cp \<le> si_start_sequence s)
     then prune_loop cp segments rest (fs_remove_file (si_path segment) files) (removed + 1)
     else prune_loop cp segments rest files removed)"

definition prune_segments_before :: "wal_fs \<Rightarrow> u64 \<Rightarrow> (wal_fs \<times> nat) WalResult" where
  "prune_segments_before fs checkpoint_sequence =
    rbind (list_segments fs) (\<lambda>segments.
      let (files, removed) =
            prune_loop checkpoint_sequence segments segments (the (fs_files fs)) 0
      in Inr (fs\<lparr>fs_files := Some files\<rparr>, removed))"

section \<open>Names\<close>

lemma parse_segment_filename_segment [simp]:
  "parse_segment_filename (segment_filename s) = Some s"
proof -
  have "strip_prefix SEGMENT_PREFIX (segment_filename s)
      = Some (pad_zeros 16 (dec_digits (unat s)) @ (''.'' @ SEGMENT_EXTENSION))"
    unfolding segment_filename_def by (rule strip_prefix_append)
  then show ?thesis
    by (simp only: parse_segment_filename_def option.case strip_suffix_append parse_u64_padded)
qed

lemma segment_filename_inject [simp]: "segment_filename s = segment_filename t \<longleftrightarrow> s = t"
  by (metis option.inject parse_segment_filename_segment)

end
