(* ===== verification/Wal_Reader.thy ===== *)
theory Wal_Reader
  imports Wal_Segment
begin

text \<open>
  Reading the log back (\<open>verisim-wal/src/reader.rs\<close>): the per-segment scan with its three stop
  conditions and its skipped entries, \<open>replay_from\<close>, \<open>find_last_checkpoint\<close>, \<open>entry_count\<close> and the
  entry iterator. The lemmas show what the scan returns on the concatenation of encoded entries
  followed by a torn tail.
\<close>

section \<open>The segment scan\<close>

function read_entries_loop ::
  "'ts wal_env \<Rightarrow> 'ts \<Rightarrow> bytes \<Rightarrow> nat \<Rightarrow> 'ts WalEntry list \<Rightarrow> 'ts WalEntry list" where
  "read_entries_loop env now data offset entries =
    (if offset + 4 \<le> length data then
       let entry_length = u32_from_le_bytes (subslice data offset (offset + 4)) in
       if entry_length = 0 then entries
       else if MAX_ENTRY_SIZE < entry_length then entries
       else
         let entry_end = offset + 4 + unat entry_length in
         if length data < entry_end then entries
         else
           let entry_data = subslice data (offset + 4) entry_end in
           read_entries_loop env now data entry_end
             (case deserialize env now entry_data entry_length of
                Inr entry \<Rightarrow> entries @ [entry]
              | Inl (CrcMismatch sequence expected actual) \<Rightarrow> entries
              | Inl other \<Rightarrow> entries)
     else entries)"
  by pat_completeness auto
termination
  by (relation "measure (\<lambda>(env, now, data, offset, entries). length data - offset)") auto

declare read_entries_loop.simps [simp del]

definition read_segment_entries :: "'ts wal_env \<Rightarrow> 'ts \<Rightarrow> bytes \<Rightarrow> 'ts WalEntry list" where
  "read_segment_entries env now data = read_entries_loop env now data 0 []"

text \<open>\<open>fs::read\<close> of a listed segment.\<close>

definition fs_read :: "wal_fs \<Rightarrow> string \<Rightarrow> bytes WalResult" where
  "fs_read fs name =
    (case find (\<lambda>f. fl_name f = name) (case fs_files fs of None \<Rightarrow> [] | Some files \<Rightarrow> files) of
       None \<Rightarrow> Inl (Io name)
     | Some f \<Rightarrow> Inr (fl_content f))"

section \<open>The reader\<close>

definition WalReader_open :: "wal_fs \<Rightarrow> unit WalResult" where
  "WalReader_open fs =
    (case fs_files fs of None \<Rightarrow> Inl (DirectoryNotFound (fs_path fs)) | Some _ \<Rightarrow> Inr ())"

fun collect_segments ::
  "'ts wal_env \<Rightarrow> 'ts \<Rightarrow> wal_fs \<Rightarrow> u64 \<Rightarrow> SegmentInfo list \<Rightarrow> 'ts WalEntry list
   \<Rightarrow> 'ts WalEntry list WalResult" where
  "collect_segments env now fs from_sequence [] all_entries = Inr all_entries"
| "collect_segments env now fs from_sequence (segment # segments) all_entries =
    rbind (fs_read fs (si_path segment)) (\<lambda>data.
      let entries = read_segment_entries env now data
      in collect_segments env now fs from_sequence segments
           (all_entries @ filter (\<lambda>entry. from_sequence \<le> we_sequence entry) entries))"

record 'ts WalEntryIterator =
  it_entries :: "'ts WalEntry list"
  it_position :: nat

definition WalReader_replay_from ::
  "'ts wal_env \<Rightarrow> 'ts \<Rightarrow> wal_fs \<Rightarrow> u64 \<Rightarrow> 'ts WalEntryIterator WalResult" where
  "WalReader_replay_from env now fs from_sequence =
    rbind (list_segments fs) (\<lambda>segments.
    rbind (collect_segments env now fs from_sequence segments []) (\<lambda>all_entries.
      Inr \<lparr>it_entries = sort_key we_sequence all_entries, it_position = 0\<rparr>))"

definition WalReader_replay_all ::
  "'ts wal_env \<Rightarrow> 'ts \<Rightarrow> wal_fs \<Rightarrow> 'ts WalEntryIterator WalResult" where
  "WalReader_replay_all env now fs = WalReader_replay_from env now fs 0"

definition WalEntryIterator_next ::
  "'ts WalEntryIterator \<Rightarrow> 'ts WalEntry option \<times> 'ts WalEntryIterator" where
  "WalEntryIterator_next it =
    (if it_position it < length (it_entries it)
     then (Some (it_entries it ! it_position it), it\<lparr>it_position := it_position it + 1\<rparr>)
     else (None, it))"

definition WalEntryIterator_size_hint :: "'ts WalEntryIterator \<Rightarrow> nat" where
  "WalEntryIterator_size_hint it = length (it_entries it) - it_position it"

text \<open>The scan for the last checkpoint: segments from the last to the first, entries likewise.\<close>

fun last_checkpoint_scan ::
  "'ts wal_env \<Rightarrow> 'ts \<Rightarrow> wal_fs \<Rightarrow> SegmentInfo list \<Rightarrow> u64 option WalResult" where
  "last_checkpoint_scan env now fs [] = Inr None"
| "last_checkpoint_scan env now fs (segment # segments) =
    rbind (fs_read fs (si_path segment)) (\<lambda>data.
      case find (\<lambda>entry. we_operation entry = Checkpoint) (rev (read_segment_entries env now data)) of
        Some entry \<Rightarrow> Inr (Some (we_sequence entry))
      | None \<Rightarrow> last_checkpoint_scan env now fs segments)"

definition WalReader_find_last_checkpoint ::
  "'ts wal_env \<Rightarrow> 'ts \<Rightarrow> wal_fs \<Rightarrow> u64 option WalResult" where
  "WalReader_find_last_checkpoint env now fs =
    rbind (list_segments fs) (\<lambda>segments. last_checkpoint_scan env now fs (rev segments))"

fun entry_count_loop ::
  "'ts wal_env \<Rightarrow> 'ts \<Rightarrow> wal_fs \<Rightarrow> SegmentInfo list \<Rightarrow> nat \<Rightarrow> nat WalResult" where
  "entry_count_loop env now fs [] count = Inr count"
| "entry_count_loop env now fs (segment # segments) count =
    rbind (fs_read fs (si_path segment)) (\<lambda>data.
      entry_count_loop env now fs segments (count + length (read_segment_entries env now data)))"

definition WalReader_entry_count :: "'ts wal_env \<Rightarrow> 'ts \<Rightarrow> wal_fs \<Rightarrow> nat WalResult" where
  "WalReader_entry_count env now fs =
    rbind (list_segments fs) (\<lambda>segments. entry_count_loop env now fs segments 0)"

section \<open>What the scan returns\<close>

lemma MAX_ENTRY_SIZE_less_iff: "MAX_ENTRY_SIZE < w \<longleftrightarrow> 67108864 < unat w"
  by (simp add: word_less_nat_alt)

lemma read_loop_entry:
  assumes "wf_entry env e"
  shows "read_entries_loop env now (pre @ serialize env e @ rest) (length pre) acc =
         read_entries_loop env now (pre @ serialize env e @ rest)
           (length pre + length (serialize env e)) (acc @ [stored env e])"
proof -
  let ?data = "pre @ serialize env e @ rest"
  have n: "unat (of_nat (entry_size e) :: u32) = entry_size e"
    using wf_entry_unat_size [OF assms] .
  have fld: "u32_from_le_bytes (subslice ?data (length pre) (length pre + 4)) = of_nat (entry_size e)"
    by (simp add: subslice_def serialize_eq)
  have nz: "(of_nat (entry_size e) :: u32) \<noteq> 0"
    using n by (metis entry_size_bounds(3) unat_0)
  have mx: "\<not> MAX_ENTRY_SIZE < (of_nat (entry_size e) :: u32)"
    using assms n by (simp add: MAX_ENTRY_SIZE_less_iff wf_entry_def)
  have body: "subslice ?data (length pre + 4) (length pre + 4 + entry_size e) = drop 4 (serialize env e)"
    by (simp add: subslice_def)
  have fits: "length pre + 4 + entry_size e \<le> length ?data" "length pre + 4 \<le> length ?data"
    by simp_all
  show ?thesis
    using deserialize_serialize [OF assms, of now] fits
    by (subst read_entries_loop.simps)
       (simp add: fld n nz mx body Let_def del: subslice_append_right flip: add.assoc)
qed

lemma read_loop_entries:
  assumes "list_all (wf_entry env) es"
  shows "read_entries_loop env now (pre @ concat (map (serialize env) es) @ rest) (length pre) acc =
         read_entries_loop env now (pre @ concat (map (serialize env) es) @ rest)
           (length pre + length (concat (map (serialize env) es))) (acc @ map (stored env) es)"
  using assms
proof (induction es arbitrary: pre acc)
  case Nil
  then show ?case by simp
next
  case (Cons e es)
  let ?tail = "concat (map (serialize env) es) @ rest"
  have "read_entries_loop env now (pre @ serialize env e @ ?tail) (length pre) acc =
      read_entries_loop env now (pre @ serialize env e @ ?tail)
        (length pre + length (serialize env e)) (acc @ [stored env e])"
    using Cons.prems by (intro read_loop_entry) simp
  with Cons.IH [of "pre @ serialize env e" "acc @ [stored env e]"] Cons.prems
  show ?case by (simp add: add.assoc)
qed

text \<open>A torn tail: fewer bytes than the entry whose encoding it starts.\<close>

lemma read_loop_torn:
  assumes "wf_entry env e" and "strict_prefix torn (serialize env e)"
  shows "read_entries_loop env now (pre @ torn) (length pre) acc = acc"
proof (cases "length torn < 4")
  case True
  then show ?thesis by (subst read_entries_loop.simps) simp
next
  case False
  from assms(2) obtain z where z: "serialize env e = torn @ z" "z \<noteq> []"
    by (auto simp: strict_prefix_def prefix_def)
  have len: "length torn < 4 + entry_size e"
    using z(2) arg_cong [OF z(1), of length] by simp
  have "take 4 torn = take 4 (serialize env e)"
    using z(1) False by simp
  then have fld: "u32_from_le_bytes (subslice (pre @ torn) (length pre) (length pre + 4)) = of_nat (entry_size e)"
    by (simp add: subslice_def serialize_eq)
  show ?thesis
    using len wf_entry_unat_size [OF assms(1)]
    by (subst read_entries_loop.simps)
       (simp add: fld Let_def del: subslice_append_right)
qed

theorem read_segment_entries_torn:
  assumes "list_all (wf_entry env) es" and "wf_entry env e" and "strict_prefix torn (serialize env e)"
  shows "read_segment_entries env now (concat (map (serialize env) es) @ torn) = map (stored env) es"
proof -
  let ?log = "concat (map (serialize env) es)"
  have "read_segment_entries env now (?log @ torn)
      = read_entries_loop env now (?log @ torn) (length ?log) (map (stored env) es)"
    using read_loop_entries [OF assms(1), of now "[]" torn "[]"]
    by (simp add: read_segment_entries_def)
  also have "\<dots> = map (stored env) es"
    using read_loop_torn [OF assms(2,3)] .
  finally show ?thesis .
qed

lemma read_segment_entries_complete:
  assumes "list_all (wf_entry env) es"
  shows "read_segment_entries env now (concat (map (serialize env) es)) = map (stored env) es"
proof (cases es)
  case Nil
  then show ?thesis by (simp add: read_segment_entries_def read_entries_loop.simps)
next
  case (Cons e es')
  with assms have "wf_entry env e" by simp
  moreover have "strict_prefix [] (serialize env e)"
    using length_serialize [of env e] by (cases "serialize env e") simp_all
  ultimately show ?thesis
    using read_segment_entries_torn [OF assms, of e "[]"] by simp
qed

end
