(* ===== verification/Wal_Writer.thy ===== *)
theory Wal_Writer
  imports Wal_Reader
begin

text \<open>
  The append-only writer (\<open>verisim-wal/src/writer.rs\<close>): opening and resuming a directory, \<open>append\<close>
  with segment rotation, \<open>sync\<close>, \<open>checkpoint\<close>, \<open>rotate\<close>, and the scan for the next sequence number.
  Each operation takes and returns the directory and the writer. \<open>Instant\<close> values are milliseconds
  of a monotonic clock passed as arguments; additions on \<open>u64\<close> wrap, as in a release build.
\<close>

section \<open>File operations\<close>

definition fs_create :: "string \<Rightarrow> wal_file list \<Rightarrow> wal_file list" where
  "fs_create name files =
    (if name \<in> set (map fl_name files)
     then map (\<lambda>f. if fl_name f = name then f\<lparr>fl_content := [], fl_synced := 0\<rparr> else f) files
     else files @ [\<lparr>fl_name = name, fl_content = [], fl_synced = 0\<rparr>])"

definition fs_write_all :: "string \<Rightarrow> bytes \<Rightarrow> wal_file list \<Rightarrow> wal_file list" where
  "fs_write_all name bs files =
    map (\<lambda>f. if fl_name f = name then f\<lparr>fl_content := fl_content f @ bs\<rparr> else f) files"

definition fs_sync_all :: "string \<Rightarrow> wal_file list \<Rightarrow> wal_file list" where
  "fs_sync_all name files =
    map (\<lambda>f. if fl_name f = name then f\<lparr>fl_synced := length (fl_content f)\<rparr> else f) files"

definition fs_map :: "(wal_file list \<Rightarrow> wal_file list) \<Rightarrow> wal_fs \<Rightarrow> wal_fs" where
  "fs_map g fs = fs\<lparr>fs_files := map_option g (fs_files fs)\<rparr>"

definition fs_create_dir_all :: "wal_fs \<Rightarrow> wal_fs" where
  "fs_create_dir_all fs = fs\<lparr>fs_files := Some []\<rparr>"

definition fs_path_exists :: "wal_fs \<Rightarrow> bool" where
  "fs_path_exists fs \<longleftrightarrow> fs_files fs \<noteq> None \<or> fs_blocked fs"

section \<open>The writer\<close>

datatype SyncMode = Fsync | Periodic nat | Async

record WalWriter =
  ww_current_segment :: SegmentInfo
  ww_next_sequence :: u64
  ww_max_segment_size :: nat
  ww_sync_mode :: SyncMode
  ww_last_sync :: nat

definition WalWriter_sync :: "nat \<Rightarrow> wal_fs \<Rightarrow> WalWriter \<Rightarrow> wal_fs \<times> WalWriter" where
  "WalWriter_sync instant fs w =
    (fs_map (fs_sync_all (si_path (ww_current_segment w))) fs, w\<lparr>ww_last_sync := instant\<rparr>)"

definition WalWriter_maybe_sync :: "nat \<Rightarrow> wal_fs \<Rightarrow> WalWriter \<Rightarrow> wal_fs \<times> WalWriter" where
  "WalWriter_maybe_sync instant fs w =
    (case ww_sync_mode w of
       Fsync \<Rightarrow> (fs_map (fs_sync_all (si_path (ww_current_segment w))) fs,
                 w\<lparr>ww_last_sync := instant\<rparr>)
     | Periodic interval \<Rightarrow>
         (if interval \<le> instant - ww_last_sync w
          then (fs_map (fs_sync_all (si_path (ww_current_segment w))) fs,
                w\<lparr>ww_last_sync := instant\<rparr>)
          else (fs, w))
     | Async \<Rightarrow> (fs, w))"

definition WalWriter_rotate :: "nat \<Rightarrow> wal_fs \<Rightarrow> WalWriter \<Rightarrow> wal_fs \<times> WalWriter" where
  "WalWriter_rotate instant fs w =
    (let (fs, w) = WalWriter_sync instant fs w;
         new_start = ww_next_sequence w;
         new_path = segment_filename new_start;
         fs = fs_map (fs_create new_path) fs
     in (fs, w\<lparr>ww_current_segment :=
               \<lparr>si_path = new_path, si_start_sequence = new_start, si_file_size = 0\<rparr>\<rparr>))"

definition WalWriter_append ::
  "'ts wal_env \<Rightarrow> nat \<Rightarrow> wal_fs \<Rightarrow> WalWriter \<Rightarrow> 'ts WalEntry \<Rightarrow> wal_fs \<times> WalWriter \<times> u64" where
  "WalWriter_append env instant fs w entry =
    (let sequence = ww_next_sequence w;
         entry = entry\<lparr>we_sequence := sequence\<rparr>;
         w = w\<lparr>ww_next_sequence := ww_next_sequence w + 1\<rparr>;
         bs = serialize env entry;
         (fs, w) = (if ww_max_segment_size w < si_file_size (ww_current_segment w) + length bs
                    then WalWriter_rotate instant fs w else (fs, w));
         fs = fs_map (fs_write_all (si_path (ww_current_segment w)) bs) fs;
         w = w\<lparr>ww_current_segment := (ww_current_segment w)
                 \<lparr>si_file_size := si_file_size (ww_current_segment w) + length bs\<rparr>\<rparr>;
         (fs, w) = WalWriter_maybe_sync instant fs w
     in (fs, w, sequence))"

definition WalWriter_checkpoint ::
  "'ts wal_env \<Rightarrow> 'ts \<Rightarrow> nat \<Rightarrow> wal_fs \<Rightarrow> WalWriter \<Rightarrow> wal_fs \<times> WalWriter \<times> u64" where
  "WalWriter_checkpoint env now instant fs w =
    (let entry = \<lparr>we_sequence = 0, we_timestamp = now, we_operation = Checkpoint,
                  we_modality = All, we_entity_id = [], we_payload = []\<rparr>;
         (fs, w, sequence) = WalWriter_append env instant fs w entry;
         (fs, w) = WalWriter_sync instant fs w
     in (fs, w, sequence))"

section \<open>Opening and resuming\<close>

function scan_loop :: "bytes \<Rightarrow> nat \<Rightarrow> u64 \<Rightarrow> u64" where
  "scan_loop data offset last_sequence =
    (if offset + 4 \<le> length data then
       let entry_length = u32_from_le_bytes (subslice data offset (offset + 4)) in
       if length data < offset + 4 + unat entry_length then last_sequence
       else
         let inner_start = offset + 4 + 4;
             last_sequence =
               (if inner_start + 8 \<le> length data then
                  let seq = u64_from_le_bytes (subslice data inner_start (inner_start + 8))
                  in if last_sequence \<le> seq then seq else last_sequence
                else last_sequence)
         in scan_loop data (offset + (4 + unat entry_length)) last_sequence
     else last_sequence)"
  by pat_completeness auto
termination
  by (relation "measure (\<lambda>(data, offset, last_sequence). length data - offset)") auto

declare scan_loop.simps [simp del]

definition WalWriter_scan_last_sequence :: "wal_fs \<Rightarrow> SegmentInfo \<Rightarrow> u64 WalResult" where
  "WalWriter_scan_last_sequence fs segment =
    (if si_file_size segment = 0 then Inr (si_start_sequence segment + 1)
     else rbind (fs_read fs (si_path segment)) (\<lambda>data.
            Inr (scan_loop data 0 (si_start_sequence segment) + 1)))"

definition WalWriter_open_with_max_size ::
  "nat \<Rightarrow> wal_fs \<Rightarrow> SyncMode \<Rightarrow> nat \<Rightarrow> (wal_fs \<times> WalWriter) WalResult" where
  "WalWriter_open_with_max_size instant fs sync_mode max_segment_size =
    (let fs = (if fs_path_exists fs then fs else fs_create_dir_all fs) in
     rbind (list_segments fs) (\<lambda>segments.
     rbind (if segments = [] then
              let start_seq = 0; path = segment_filename start_seq
              in Inr (fs_map (fs_create path) fs,
                      \<lparr>si_path = path, si_start_sequence = start_seq, si_file_size = 0\<rparr>, 1)
            else
              let last_seg = last segments
              in rbind (WalWriter_scan_last_sequence fs last_seg) (\<lambda>next_seq.
                   Inr (fs, last_seg, next_seq)))
       (\<lambda>(fs, current_segment, next_sequence).
          Inr (fs, \<lparr>ww_current_segment = current_segment, ww_next_sequence = next_sequence,
                    ww_max_segment_size = max_segment_size, ww_sync_mode = sync_mode,
                    ww_last_sync = instant\<rparr>))))"

definition WalWriter_open :: "nat \<Rightarrow> wal_fs \<Rightarrow> SyncMode \<Rightarrow> (wal_fs \<times> WalWriter) WalResult" where
  "WalWriter_open instant fs sync_mode =
     WalWriter_open_with_max_size instant fs sync_mode DEFAULT_MAX_SEGMENT_SIZE"

end
