(* ===== verification/Wal_Log.thy ===== *)
theory Wal_Log
  imports Wal_Writer
begin

text \<open>
  The write-ahead log as a whole. \<open>wal_state env log n fs w\<close> relates a directory and a writer to
  the logical log they hold: its entries in order, of which the first \<open>n\<close> survive any crash. Every
  writer operation extends that log by exactly what it acknowledges; \<open>replay_all\<close> returns the log;
  and \<open>wal_crash\<close>, which keeps at least the synced bytes of every file, leaves a prefix.
\<close>

section \<open>The logical log\<close>

abbreviation encode_all :: "'ts wal_env \<Rightarrow> 'ts WalEntry list \<Rightarrow> bytes" where
  "encode_all env es \<equiv> concat (map (serialize env) es)"

definition holds_segment :: "'ts wal_env \<Rightarrow> u64 \<times> 'ts WalEntry list \<Rightarrow> wal_file \<Rightarrow> bool" where
  "holds_segment env seg f \<longleftrightarrow>
     fl_name f = segment_filename (fst seg) \<and> fl_content f = encode_all env (snd seg)
     \<and> fl_synced f \<le> length (fl_content f)"

definition fully_synced :: "wal_file \<Rightarrow> bool" where
  "fully_synced f \<longleftrightarrow> fl_synced f = length (fl_content f)"

text \<open>
  \<open>segs\<close> are the closed segments (start sequence and entries), \<open>(s, es)\<close> the current one; \<open>m\<close>
  entries of the current segment are durable.
\<close>

definition wal_inv ::
  "'ts wal_env \<Rightarrow> (u64 \<times> 'ts WalEntry list) list \<Rightarrow> u64 \<Rightarrow> 'ts WalEntry list \<Rightarrow> nat
   \<Rightarrow> wal_fs \<Rightarrow> WalWriter \<Rightarrow> bool" where
  "wal_inv env segs s es m fs w \<longleftrightarrow>
     (\<exists>files f. fs_files fs = Some (files @ [f])
        \<and> list_all2 (holds_segment env) segs files \<and> holds_segment env (s, es) f
        \<and> list_all fully_synced files
        \<and> m \<le> length es \<and> length (encode_all env (take m es)) \<le> fl_synced f)
     \<and> sorted_wrt (<) (map fst segs @ [s])
     \<and> s \<le> ww_next_sequence w
     \<and> (\<forall>e \<in> set (concat (map snd segs)). we_sequence e < s)
     \<and> ww_current_segment w = \<lparr>si_path = segment_filename s, si_start_sequence = s,
                               si_file_size = length (encode_all env es)\<rparr>
     \<and> sorted_wrt (<) (map we_sequence (concat (map snd segs) @ es))
     \<and> (\<forall>e \<in> set (concat (map snd segs) @ es). we_sequence e < ww_next_sequence w \<and> wf_entry env e)"

definition wal_state ::
  "'ts wal_env \<Rightarrow> 'ts WalEntry list \<Rightarrow> nat \<Rightarrow> wal_fs \<Rightarrow> WalWriter \<Rightarrow> bool" where
  "wal_state env log n fs w \<longleftrightarrow>
     (\<exists>segs s es m. wal_inv env segs s es m fs w
        \<and> log = concat (map snd segs) @ es \<and> n = length (concat (map snd segs)) + m)"

section \<open>File-level lemmas\<close>

lemma fs_ops_other:
  assumes "\<forall>f \<in> set files. fl_name f \<noteq> name"
  shows "fs_write_all name bs files = files" "fs_sync_all name files = files"
  using assms by (auto simp: fs_write_all_def fs_sync_all_def intro!: map_idI)

lemma fs_ops_last:
  assumes "\<forall>f \<in> set files. fl_name f \<noteq> fl_name g"
  shows "fs_write_all (fl_name g) bs (files @ [g]) = files @ [g\<lparr>fl_content := fl_content g @ bs\<rparr>]"
    and "fs_sync_all (fl_name g) (files @ [g]) = files @ [g\<lparr>fl_synced := length (fl_content g)\<rparr>]"
  using fs_ops_other [OF assms] by (simp_all add: fs_write_all_def fs_sync_all_def)

lemma fs_map_files [simp]: "fs_files (fs_map g fs) = map_option g (fs_files fs)"
  by (simp add: fs_map_def)

lemma holds_segment_names:
  assumes "list_all2 (holds_segment env) segs files" and "s \<notin> fst ` set segs"
  shows "\<forall>f \<in> set files. fl_name f \<noteq> segment_filename s"
  using assms by (induction rule: list_all2_induct) (auto simp: holds_segment_def)

lemma sorted_starts_fresh: "sorted_wrt (<) (map fst segs @ [s]) \<Longrightarrow> (s::u64) \<notin> fst ` set segs"
  by (auto simp: sorted_wrt_append)

section \<open>Operations extend the log\<close>

lemma wal_inv_sync:
  assumes "wal_inv env segs s es m fs w"
  shows "wal_inv env segs s es (length es)
           (fs_map (fs_sync_all (si_path (ww_current_segment w))) fs) (w\<lparr>ww_last_sync := i\<rparr>)"
proof -
  from assms obtain files f where
    fs: "fs_files fs = Some (files @ [f])" and segs: "list_all2 (holds_segment env) segs files"
    and f: "holds_segment env (s, es) f"
    and srt: "sorted_wrt (<) (map fst segs @ [s])"
    and cur: "si_path (ww_current_segment w) = segment_filename s"
    by (auto simp: wal_inv_def)
  have nm: "fl_name f = segment_filename s" using f by (simp add: holds_segment_def)
  have "fs_sync_all (segment_filename s) (files @ [f]) = files @ [f\<lparr>fl_synced := length (fl_content f)\<rparr>]"
    using fs_ops_last(2) [of files f] holds_segment_names [OF segs sorted_starts_fresh [OF srt]] nm
    by simp
  with assms fs f cur show ?thesis
    by (auto simp: wal_inv_def holds_segment_def)
qed

lemma wal_inv_next:
  assumes "wal_inv env segs s es m fs w" and "ww_next_sequence w \<le> n"
  shows "wal_inv env segs s es m fs (w\<lparr>ww_next_sequence := n\<rparr>)"
  using assms by (simp add: wal_inv_def) (meson less_le_trans order_trans)

lemma wal_inv_rotate:
  assumes inv: "wal_inv env segs s es m fs w" and fresh: "s < ww_next_sequence w"
    and rot: "WalWriter_rotate i fs w = (fs', w')"
  shows "wal_inv env (segs @ [(s, es)]) (ww_next_sequence w) [] 0 fs' w'"
proof -
  let ?s' = "ww_next_sequence w"
  define fs1 where "fs1 = fs_map (fs_sync_all (si_path (ww_current_segment w))) fs"
  have "wal_inv env segs s es (length es) fs1 w"
    using wal_inv_sync [OF inv, of "ww_last_sync w"] by (simp add: fs1_def)
  then obtain files f where
    fs: "fs_files fs1 = Some (files @ [f])" and segs: "list_all2 (holds_segment env) segs files"
    and f: "holds_segment env (s, es) f" "fully_synced f" and syn: "list_all fully_synced files"
    by (auto simp: wal_inv_def holds_segment_def fully_synced_def)
  have all2: "list_all2 (holds_segment env) (segs @ [(s, es)]) (files @ [f])"
    using segs f by (simp add: list_all2_appendI)
  have srt: "sorted_wrt (<) (map fst (segs @ [(s, es)]) @ [?s'])"
    using inv fresh by (auto simp: wal_inv_def sorted_wrt_append)
  have "segment_filename ?s' \<notin> set (map fl_name (files @ [f]))"
    using holds_segment_names [OF all2 sorted_starts_fresh [OF srt]] by auto
  then have "fs_files fs' = Some ((files @ [f]) @ [\<lparr>fl_name = segment_filename ?s', fl_content = [], fl_synced = 0\<rparr>])"
    using rot fs
    by (auto simp: WalWriter_rotate_def WalWriter_sync_def fs_create_def Let_def simp flip: fs1_def)
  moreover have "ww_current_segment w' = \<lparr>si_path = segment_filename ?s', si_start_sequence = ?s', si_file_size = 0\<rparr>"
    and "ww_next_sequence w' = ?s'"
    using rot by (auto simp: WalWriter_rotate_def WalWriter_sync_def Let_def)
  ultimately show ?thesis
    using all2 srt syn f inv by (auto simp: wal_inv_def holds_segment_def)
qed

lemma wal_inv_write:
  assumes inv: "wal_inv env segs s es m fs w" and "wf_entry env e" and "we_sequence e < ww_next_sequence w"
    and "\<forall>x \<in> set (concat (map snd segs) @ es). we_sequence x < we_sequence e"
  shows "wal_inv env segs s (es @ [e]) m
           (fs_map (fs_write_all (si_path (ww_current_segment w)) (serialize env e)) fs)
           (w\<lparr>ww_current_segment := (ww_current_segment w)
               \<lparr>si_file_size := si_file_size (ww_current_segment w) + length (serialize env e)\<rparr>\<rparr>)"
proof -
  from inv obtain files f where
    fs: "fs_files fs = Some (files @ [f])" and segs: "list_all2 (holds_segment env) segs files"
    and f: "holds_segment env (s, es) f" and m: "m \<le> length es"
    and srt: "sorted_wrt (<) (map fst segs @ [s])"
    and cur: "ww_current_segment w = \<lparr>si_path = segment_filename s, si_start_sequence = s,
                               si_file_size = length (encode_all env es)\<rparr>"
    by (auto simp: wal_inv_def)
  have nm: "fl_name f = segment_filename s" using f by (simp add: holds_segment_def)
  have "fs_write_all (segment_filename s) (serialize env e) (files @ [f])
      = files @ [f\<lparr>fl_content := fl_content f @ serialize env e\<rparr>]"
    using fs_ops_last(1) [of files f] holds_segment_names [OF segs sorted_starts_fresh [OF srt]] nm
    by simp
  with assms fs f m cur show ?thesis
    by (auto simp: wal_inv_def holds_segment_def sorted_wrt_append)
qed

lemma wal_inv_maybe_sync:
  assumes "wal_inv env segs s es m fs w" and "WalWriter_maybe_sync i fs w = (fs', w')"
  obtains m' where "wal_inv env segs s es m' fs' w'" "m \<le> m'"
    "ww_sync_mode w = Fsync \<longrightarrow> m' = length es" "ww_sync_mode w' = ww_sync_mode w"
    "ww_next_sequence w' = ww_next_sequence w"
proof -
  have m: "m \<le> length es" using assms(1) by (auto simp: wal_inv_def)
  show thesis
    using assms wal_inv_sync [OF assms(1), of i] m
    by (cases "ww_sync_mode w") (auto simp: WalWriter_maybe_sync_def split: if_splits intro: that)
qed

lemma wal_rotate_frame:
  assumes "WalWriter_rotate i fs w = (fs', w')"
  shows "ww_next_sequence w' = ww_next_sequence w" "ww_sync_mode w' = ww_sync_mode w"
    "ww_max_segment_size w' = ww_max_segment_size w"
  using assms by (auto simp: WalWriter_rotate_def WalWriter_sync_def Let_def)

lemma wal_maybe_sync_frame:
  assumes "WalWriter_maybe_sync i fs w = (fs', w')"
  shows "ww_max_segment_size w' = ww_max_segment_size w"
    "ww_current_segment w' = ww_current_segment w"
  using assms by (auto simp: WalWriter_maybe_sync_def split: SyncMode.splits if_splits)

text \<open>
  The optional rotation of \<open>append\<close>: afterwards the current segment ends the same log, and
  nothing that was durable is lost.
\<close>

lemma wal_inv_maybe_rotate:
  assumes inv: "wal_inv env segs s es m fs w" and "s < ww_next_sequence w"
    and step: "(if c then WalWriter_rotate i fs w else (fs, w)) = (fs', w')"
  obtains segs' s' es' m' where "wal_inv env segs' s' es' m' fs' w'"
    "concat (map snd segs') @ es' = concat (map snd segs) @ es"
    "length (concat (map snd segs)) + m \<le> length (concat (map snd segs')) + m'"
    "ww_next_sequence w' = ww_next_sequence w" "ww_sync_mode w' = ww_sync_mode w"
proof (cases c)
  case True
  then have rot: "WalWriter_rotate i fs w = (fs', w')" using step by simp
  have m: "m \<le> length es" using inv by (auto simp: wal_inv_def)
  show thesis
    by (rule that [OF wal_inv_rotate [OF inv assms(2) rot]])
       (use m wal_rotate_frame [OF rot] in simp_all)
next
  case False
  with step inv show thesis by (auto intro: that)
qed

lemma wal_state_append:
  assumes st: "wal_state env log n fs w" and wf: "wf_entry env e"
    and bound: "unat (ww_next_sequence w) + 1 < 2 ^ 64"
    and app: "WalWriter_append env i fs w e = (fs', w', q)"
  obtains n' where "wal_state env (log @ [e\<lparr>we_sequence := ww_next_sequence w\<rparr>]) n' fs' w'"
    "n \<le> n'" "ww_sync_mode w = Fsync \<longrightarrow> n' = length log + 1" "q = ww_next_sequence w"
    "ww_next_sequence w' = ww_next_sequence w + 1" "ww_sync_mode w' = ww_sync_mode w"
proof -
  let ?q = "ww_next_sequence w"
  let ?e = "e\<lparr>we_sequence := ?q\<rparr>"
  let ?w1 = "w\<lparr>ww_next_sequence := ?q + 1\<rparr>"
  from st obtain segs s es m where inv: "wal_inv env segs s es m fs w"
    and log: "log = concat (map snd segs) @ es" and n: "n = length (concat (map snd segs)) + m"
    by (auto simp: wal_state_def)
  have inv1: "wal_inv env segs s es m fs ?w1"
    using wal_inv_next [OF inv, of "?q + 1"] u64_less_Suc [OF bound] by simp
  have s: "s < ww_next_sequence ?w1"
    using inv u64_less_Suc [OF bound] by (auto simp: wal_inv_def)
  obtain fs2 w2 where rot: "(if ww_max_segment_size w < si_file_size (ww_current_segment w) + length (serialize env ?e)
      then WalWriter_rotate i fs ?w1 else (fs, ?w1)) = (fs2, w2)"
    by fastforce
  obtain segs' s' es' m' where inv2: "wal_inv env segs' s' es' m' fs2 w2"
    and log2: "concat (map snd segs') @ es' = concat (map snd segs) @ es"
    and n2: "length (concat (map snd segs)) + m \<le> length (concat (map snd segs')) + m'"
    and w2': "ww_next_sequence w2 = ww_next_sequence ?w1" "ww_sync_mode w2 = ww_sync_mode ?w1"
    by (rule wal_inv_maybe_rotate [OF inv1 s rot])
  then have w2: "ww_next_sequence w2 = ?q + 1" "ww_sync_mode w2 = ww_sync_mode w"
    by simp_all
  define fs3 where "fs3 = fs_map (fs_write_all (si_path (ww_current_segment w2)) (serialize env ?e)) fs2"
  define w3 where "w3 = w2\<lparr>ww_current_segment := (ww_current_segment w2)
               \<lparr>si_file_size := si_file_size (ww_current_segment w2) + length (serialize env ?e)\<rparr>\<rparr>"
  have "\<forall>x \<in> set (concat (map snd segs') @ es'). we_sequence x < ?q"
    using inv unfolding log2 by (auto simp: wal_inv_def)
  then have inv3: "wal_inv env segs' s' (es' @ [?e]) m' fs3 w3"
    using wal_inv_write [OF inv2, of ?e] wf w2 u64_less_Suc [OF bound]
    by (simp add: fs3_def w3_def)
  have ms: "WalWriter_maybe_sync i fs3 w3 = (fs', w')" and q: "q = ?q"
    using app rot
    by (auto simp: WalWriter_append_def Let_def fs3_def w3_def split: prod.splits)
  obtain m'' where inv4: "wal_inv env segs' s' (es' @ [?e]) m'' fs' w'" and m'': "m' \<le> m''"
    and full: "ww_sync_mode w3 = Fsync \<longrightarrow> m'' = length (es' @ [?e])"
    and fr: "ww_sync_mode w' = ww_sync_mode w3" "ww_next_sequence w' = ww_next_sequence w3"
    by (rule wal_inv_maybe_sync [OF inv3 ms])
  show thesis
  proof (rule that)
    show "wal_state env (log @ [?e]) (length (concat (map snd segs')) + m'') fs' w'"
      unfolding wal_state_def using inv4 log log2 by fastforce
    show "n \<le> length (concat (map snd segs')) + m''" using n n2 m'' by simp
    show "ww_sync_mode w = Fsync \<longrightarrow> length (concat (map snd segs')) + m'' = length log + 1"
      using full w2 arg_cong [OF log2, of length] log by (simp add: w3_def)
    show "q = ?q" by (rule q)
  qed (use fr w2 in \<open>simp_all add: w3_def\<close>)
qed

lemma wal_state_sync:
  assumes "wal_state env log n fs w" and "WalWriter_sync i fs w = (fs', w')"
  shows "wal_state env log (length log) fs' w'" "ww_next_sequence w' = ww_next_sequence w"
    "ww_sync_mode w' = ww_sync_mode w"
proof -
  from assms(1) obtain segs s es m where "wal_inv env segs s es m fs w"
    and log: "log = concat (map snd segs) @ es"
    by (auto simp: wal_state_def)
  then have "wal_inv env segs s es (length es) fs' w'"
    using wal_inv_sync assms(2) by (fastforce simp: WalWriter_sync_def)
  with log show "wal_state env log (length log) fs' w'"
    unfolding wal_state_def by fastforce
qed (use assms(2) in \<open>auto simp: WalWriter_sync_def\<close>)

section \<open>Replay\<close>

text \<open>A directory whose files are segments with increasing starts.\<close>

definition segment_files :: "u64 list \<Rightarrow> wal_file list \<Rightarrow> bool" where
  "segment_files starts files \<longleftrightarrow>
     list_all2 (\<lambda>s f. fl_name f = segment_filename s) starts files \<and> sorted_wrt (<) starts"

definition info_of :: "u64 \<Rightarrow> wal_file \<Rightarrow> SegmentInfo" where
  "info_of s f = \<lparr>si_path = fl_name f, si_start_sequence = s, si_file_size = length (fl_content f)\<rparr>"

lemma segment_files_names:
  assumes "segment_files starts files"
  shows "map fl_name files = map segment_filename starts" "distinct (map fl_name files)"
proof -
  show nm: "map fl_name files = map segment_filename starts"
    using assms by (auto simp: segment_files_def list_all2_conv_all_nth intro: nth_equalityI)
  have "distinct starts"
    using assms by (auto simp: segment_files_def strict_sorted_iff)
  then show "distinct (map fl_name files)"
    unfolding nm by (simp add: distinct_map inj_on_def)
qed

lemma map_filter_segment_info:
  assumes "list_all2 (\<lambda>s f. fl_name f = segment_filename s) starts files"
  shows "List.map_filter segment_info files = map2 info_of starts files"
  using assms
  by (induction rule: list_all2_induct) (auto simp: List.map_filter_def segment_info_def info_of_def)

lemma list_segments_files:
  assumes "fs_files fs = Some files" and "segment_files starts files"
  shows "list_segments fs = Inr (map2 info_of starts files)"
proof -
  have l: "list_all2 (\<lambda>s f. fl_name f = segment_filename s) starts files" and srt: "sorted_wrt (<) starts"
    using assms(2) by (simp_all add: segment_files_def)
  have "map si_start_sequence (map2 info_of starts files) = starts"
    using l by (induction rule: list_all2_induct) (auto simp: info_of_def)
  moreover have "sorted starts" using srt by (simp add: strict_sorted_imp_sorted)
  ultimately show ?thesis
    using assms(1) by (simp add: list_segments_def map_filter_segment_info [OF l] sort_key_id_if_sorted)
qed

lemma fs_read_file:
  assumes "fs_files fs = Some files" and "distinct (map fl_name files)" and "f \<in> set files"
  shows "fs_read fs (fl_name f) = Inr (fl_content f)"
proof -
  have "find (\<lambda>g. fl_name g = fl_name f) files = Some f"
    using assms(2,3) by (induction files) (auto simp: rev_image_eqI)
  with assms(1) show ?thesis by (simp add: fs_read_def)
qed

lemma collect_segments_files:
  assumes "\<forall>f \<in> set files. fs_read fs (fl_name f) = Inr (fl_content f)" and "length starts = length files"
  shows "collect_segments env now fs q (map2 info_of starts files) acc =
    Inr (acc @ filter (\<lambda>e. q \<le> we_sequence e) (concat (map (\<lambda>f. read_segment_entries env now (fl_content f)) files)))"
  using assms(2,1)
  by (induction starts files arbitrary: acc rule: list_induct2) (auto simp: info_of_def)

lemma replay_from_files:
  assumes "fs_files fs = Some files" and "segment_files starts files"
  shows "WalReader_replay_from env now fs q = Inr \<lparr>it_entries = sort_key we_sequence
     (filter (\<lambda>e. q \<le> we_sequence e) (concat (map (\<lambda>f. read_segment_entries env now (fl_content f)) files))),
     it_position = 0\<rparr>"
proof -
  have "length starts = length files"
    using assms(2) by (auto simp: segment_files_def dest: list_all2_lengthD)
  moreover have "\<forall>f \<in> set files. fs_read fs (fl_name f) = Inr (fl_content f)"
    using fs_read_file [OF assms(1) segment_files_names(2) [OF assms(2)]] by blast
  ultimately show ?thesis
    by (simp add: WalReader_replay_from_def list_segments_files [OF assms] collect_segments_files)
qed

lemma wal_inv_segment_files:
  assumes "list_all2 (holds_segment env) segs files" and "sorted_wrt (<) (map fst segs)"
  shows "segment_files (map fst segs) files"
  using assms by (auto simp: segment_files_def holds_segment_def list_all2_conv_all_nth)

text \<open>The directory of a log: its segment files in order, all entries well-formed.\<close>

lemma wal_inv_directory:
  assumes inv: "wal_inv env segs s es m fs w"
  obtains files f where "fs_files fs = Some (files @ [f])"
    "list_all2 (holds_segment env) (segs @ [(s, es)]) (files @ [f])"
    "segment_files (map fst (segs @ [(s, es)])) (files @ [f])"
    "\<forall>e \<in> set (concat (map snd (segs @ [(s, es)]))). wf_entry env e"
proof -
  from inv obtain files f where fs: "fs_files fs = Some (files @ [f])"
    and "list_all2 (holds_segment env) segs files" and "holds_segment env (s, es) f"
    by (auto simp: wal_inv_def)
  then have l: "list_all2 (holds_segment env) (segs @ [(s, es)]) (files @ [f])"
    by (simp add: list_all2_appendI)
  have "segment_files (map fst (segs @ [(s, es)])) (files @ [f])"
    using wal_inv_segment_files [OF l] inv by (simp add: wal_inv_def)
  moreover have "\<forall>e \<in> set (concat (map snd (segs @ [(s, es)]))). wf_entry env e"
    using inv by (auto simp: wal_inv_def)
  ultimately show thesis using that fs l by blast
qed

lemma read_holds_segments:
  assumes "list_all2 (holds_segment env) segs files"
    and "\<forall>e \<in> set (concat (map snd segs)). wf_entry env e"
  shows "concat (map (\<lambda>f. read_segment_entries env now (fl_content f)) files)
       = map (stored env) (concat (map snd segs))"
  using assms
proof (induction rule: list_all2_induct)
  case Nil
  then show ?case by simp
next
  case (Cons seg segs f files)
  have "read_segment_entries env now (fl_content f) = map (stored env) (snd seg)"
    using Cons.hyps(1) Cons.prems
    by (simp add: holds_segment_def read_segment_entries_complete list_all_iff)
  with Cons.IH Cons.prems show ?case by simp
qed

lemma stored_sorted:
  "sorted_wrt (<) (map we_sequence es) \<Longrightarrow> sorted (map we_sequence (map (stored env) es))"
  by (simp add: comp_def strict_sorted_imp_sorted)

lemma sorted_filter_key: "sorted (map k xs) \<Longrightarrow> sorted (map k (filter P xs))"
  by (induction xs) auto

text \<open>Replay of a quiescent directory returns the log, in order, from the asked sequence number on.\<close>

lemma wal_state_replay_from:
  assumes "wal_state env log n fs w"
  shows "WalReader_replay_from env now fs q =
    Inr \<lparr>it_entries = filter (\<lambda>e. q \<le> we_sequence e) (map (stored env) log), it_position = 0\<rparr>"
proof -
  from assms obtain segs s es m where inv: "wal_inv env segs s es m fs w"
    and log: "log = concat (map snd (segs @ [(s, es)]))"
    by (auto simp: wal_state_def)
  obtain files f where fs: "fs_files fs = Some (files @ [f])"
    and l: "list_all2 (holds_segment env) (segs @ [(s, es)]) (files @ [f])"
    and sf: "segment_files (map fst (segs @ [(s, es)])) (files @ [f])"
    and wf: "\<forall>e \<in> set (concat (map snd (segs @ [(s, es)]))). wf_entry env e"
    by (rule wal_inv_directory [OF inv])
  have srt: "sorted_wrt (<) (map we_sequence log)"
    using inv log by (auto simp: wal_inv_def)
  have "sorted (map we_sequence (filter (\<lambda>e. q \<le> we_sequence e) (map (stored env) log)))"
    by (intro sorted_filter_key stored_sorted srt)
  then show ?thesis
    using replay_from_files [OF fs sf, of env now q] read_holds_segments [OF l wf, of now] log
    by (simp only: sort_key_id_if_sorted)
qed

section \<open>Crashes\<close>

text \<open>
  A crash keeps, of every file, a prefix that contains at least the bytes an \<open>fsync\<close> covered. What
  is left is on disk.
\<close>

definition file_after_crash :: "wal_file \<Rightarrow> wal_file \<Rightarrow> bool" where
  "file_after_crash f f' \<longleftrightarrow>
     (\<exists>k. fl_synced f \<le> k \<and> f' = f\<lparr>fl_content := take k (fl_content f),
                                     fl_synced := length (take k (fl_content f))\<rparr>)"

definition wal_crash :: "wal_fs \<Rightarrow> wal_fs \<Rightarrow> bool" where
  "wal_crash fs fs' \<longleftrightarrow>
     (case fs_files fs of
        None \<Rightarrow> fs' = fs
      | Some files \<Rightarrow> (\<exists>files'. list_all2 file_after_crash files files' \<and> fs' = fs\<lparr>fs_files := Some files'\<rparr>))"

text \<open>Cutting a log at any byte leaves whole entries and a torn one.\<close>

lemma take_encode_all:
  obtains k torn where "k \<le> length es" "take j (encode_all env es) = encode_all env (take k es) @ torn"
    "torn = [] \<or> (k < length es \<and> strict_prefix torn (serialize env (es ! k)))"
    "\<forall>m \<le> length es. length (encode_all env (take m es)) \<le> j \<longrightarrow> m \<le> k"
proof -
  have "\<exists>k torn. k \<le> length es \<and> take j (encode_all env es) = encode_all env (take k es) @ torn
    \<and> (torn = [] \<or> (k < length es \<and> strict_prefix torn (serialize env (es ! k))))
    \<and> (\<forall>m \<le> length es. length (encode_all env (take m es)) \<le> j \<longrightarrow> m \<le> k)"
  proof (induction es arbitrary: j)
    case Nil
    then show ?case by simp
  next
    case (Cons e es)
    show ?case
    proof (cases "length (serialize env e) \<le> j")
      case True
      obtain k torn where IH: "k \<le> length es"
        "take (j - length (serialize env e)) (encode_all env es) = encode_all env (take k es) @ torn"
        "torn = [] \<or> (k < length es \<and> strict_prefix torn (serialize env (es ! k)))"
        "\<forall>m \<le> length es. length (encode_all env (take m es)) \<le> j - length (serialize env e) \<longrightarrow> m \<le> k"
        using Cons.IH by blast
      show ?thesis
      proof (intro exI conjI)
        show "Suc k \<le> length (e # es)" using IH(1) by simp
        show "take j (encode_all env (e # es)) = encode_all env (take (Suc k) (e # es)) @ torn"
          using True IH(2) by simp
        show "torn = [] \<or> (Suc k < length (e # es) \<and> strict_prefix torn (serialize env ((e # es) ! Suc k)))"
          using IH(3) by simp
        show "\<forall>m \<le> length (e # es). length (encode_all env (take m (e # es))) \<le> j \<longrightarrow> m \<le> Suc k"
        proof (intro allI impI)
          fix m
          assume "m \<le> length (e # es)" and "length (encode_all env (take m (e # es))) \<le> j"
          then show "m \<le> Suc k" using IH(4) by (cases m) auto
        qed
      qed
    next
      case False
      show ?thesis
      proof (intro exI conjI)
        show "0 \<le> length (e # es)" by simp
        show "take j (encode_all env (e # es)) = encode_all env (take 0 (e # es)) @ take j (serialize env e)"
          using False by simp
        show "take j (serialize env e) = []
            \<or> (0 < length (e # es) \<and> strict_prefix (take j (serialize env e)) (serialize env ((e # es) ! 0)))"
          using False by (auto simp: strict_prefix_def take_is_prefix)
        show "\<forall>m \<le> length (e # es). length (encode_all env (take m (e # es))) \<le> j \<longrightarrow> m \<le> 0"
          using False by (auto simp: take_Cons')
      qed
    qed
  qed
  with that show thesis by blast
qed

lemma read_cut_segment:
  assumes "list_all (wf_entry env) es" and "m \<le> length es" and "length (encode_all env (take m es)) \<le> j"
  obtains k where "m \<le> k" "k \<le> length es"
    "read_segment_entries env now (take j (encode_all env es)) = map (stored env) (take k es)"
proof -
  obtain k torn where k: "k \<le> length es" "take j (encode_all env es) = encode_all env (take k es) @ torn"
    "torn = [] \<or> (k < length es \<and> strict_prefix torn (serialize env (es ! k)))"
    "\<forall>m \<le> length es. length (encode_all env (take m es)) \<le> j \<longrightarrow> m \<le> k"
    by (rule take_encode_all)
  have wf: "list_all (wf_entry env) (take k es)"
    using assms(1) by (auto simp: list_all_iff dest: in_set_takeD)
  have "read_segment_entries env now (take j (encode_all env es)) = map (stored env) (take k es)"
  proof (cases "torn = []")
    case True
    then show ?thesis using k(2) read_segment_entries_complete [OF wf] by simp
  next
    case False
    then have "wf_entry env (es ! k)" and "strict_prefix torn (serialize env (es ! k))"
      using k(3) assms(1) by (auto simp: list_all_iff)
    then show ?thesis
      using read_segment_entries_torn [OF wf] k(2) by simp
  qed
  with k assms(2,3) that show thesis by blast
qed

lemma synced_files_survive:
  assumes "list_all2 file_after_crash files files'" and "list_all fully_synced files"
  shows "files' = files"
  using assms
  by (induction rule: list_all2_induct) (auto simp: file_after_crash_def fully_synced_def)

lemma wal_state_crash:
  assumes st: "wal_state env log n fs w" and crash: "wal_crash fs fs'"
  obtains k where "n \<le> k" "k \<le> length log"
    "WalReader_replay_all env now fs' = Inr \<lparr>it_entries = map (stored env) (take k log), it_position = 0\<rparr>"
proof -
  from st obtain segs s es m where inv: "wal_inv env segs s es m fs w"
    and log: "log = concat (map snd segs) @ es" and n: "n = length (concat (map snd segs)) + m"
    by (auto simp: wal_state_def)
  from inv obtain files f where fs: "fs_files fs = Some (files @ [f])"
    and segs: "list_all2 (holds_segment env) segs files" and f: "holds_segment env (s, es) f"
    and syn: "list_all fully_synced files" and m: "m \<le> length es"
    and dur: "length (encode_all env (take m es)) \<le> fl_synced f"
    and srt: "sorted_wrt (<) (map fst segs @ [s])"
    and seqs: "sorted_wrt (<) (map we_sequence log)"
    and wf: "\<forall>e \<in> set log. wf_entry env e"
    unfolding wal_inv_def log by (elim conjE exE) auto
  obtain f' j where fs': "fs_files fs' = Some (files @ [f'])"
    and f': "fl_name f' = segment_filename s" "fl_content f' = take j (encode_all env es)" "fl_synced f \<le> j"
    using crash fs f synced_files_survive [OF _ syn]
    by (auto simp: wal_crash_def list_all2_append1 list_all2_Cons1 file_after_crash_def holds_segment_def)
  have wfs: "list_all (wf_entry env) es" using wf log by (simp add: list_all_iff)
  obtain k where k: "m \<le> k" "k \<le> length es"
    "read_segment_entries env now (take j (encode_all env es)) = map (stored env) (take k es)"
    using read_cut_segment [OF wfs m] dur f'(3) by (metis order_trans)
  have sf: "segment_files (map fst segs @ [s]) (files @ [f'])"
    using wal_inv_segment_files [OF segs] srt f'(1)
    by (auto simp: segment_files_def sorted_wrt_append intro: list_all2_appendI)
  have rd: "concat (map (\<lambda>f. read_segment_entries env now (fl_content f)) (files @ [f']))
      = map (stored env) (take (length (concat (map snd segs)) + k) log)"
    using read_holds_segments [OF segs, of now] wf log k f'(2) by simp
  have "sorted (map we_sequence (map (stored env) (take (length (concat (map snd segs)) + k) log)))"
    using stored_sorted [OF seqs] by (metis sorted_wrt_take take_map)
  then have "WalReader_replay_all env now fs' = Inr \<lparr>it_entries =
      map (stored env) (take (length (concat (map snd segs)) + k) log), it_position = 0\<rparr>"
    using replay_from_files [OF fs' sf, of env now 0] rd
    by (simp add: WalReader_replay_all_def sort_key_id_if_sorted)
  with that [of "length (concat (map snd segs)) + k"] k n log show thesis by simp
qed

section \<open>Runs of writer operations\<close>

text \<open>
  The public operations that add to the log, each with the clock readings it makes. \<open>log_of q ops\<close>
  is the specification: the entries appended, numbered consecutively from \<open>q\<close>.
\<close>

datatype 'ts wal_op = OpAppend nat "'ts WalEntry" | OpCheckpoint 'ts nat | OpSync nat

definition checkpoint_entry :: "'ts \<Rightarrow> u64 \<Rightarrow> 'ts WalEntry" where
  "checkpoint_entry now q = \<lparr>we_sequence = q, we_timestamp = now, we_operation = Checkpoint,
                             we_modality = All, we_entity_id = [], we_payload = []\<rparr>"

fun wal_run :: "'ts wal_env \<Rightarrow> 'ts wal_op list \<Rightarrow> wal_fs \<Rightarrow> WalWriter \<Rightarrow> wal_fs \<times> WalWriter" where
  "wal_run env [] fs w = (fs, w)"
| "wal_run env (OpAppend i e # ops) fs w =
    (let (fs, w, q) = WalWriter_append env i fs w e in wal_run env ops fs w)"
| "wal_run env (OpCheckpoint now i # ops) fs w =
    (let (fs, w, q) = WalWriter_checkpoint env now i fs w in wal_run env ops fs w)"
| "wal_run env (OpSync i # ops) fs w =
    (let (fs, w) = WalWriter_sync i fs w in wal_run env ops fs w)"

fun log_of :: "u64 \<Rightarrow> 'ts wal_op list \<Rightarrow> 'ts WalEntry list" where
  "log_of q [] = []"
| "log_of q (OpAppend i e # ops) = e\<lparr>we_sequence := q\<rparr> # log_of (q + 1) ops"
| "log_of q (OpCheckpoint now i # ops) = checkpoint_entry now q # log_of (q + 1) ops"
| "log_of q (OpSync i # ops) = log_of q ops"

fun wf_op :: "'ts wal_env \<Rightarrow> 'ts wal_op \<Rightarrow> bool" where
  "wf_op env (OpAppend i e) = wf_entry env e"
| "wf_op env (OpCheckpoint now i) =
    (env_timestamp_millis_opt env (env_timestamp_millis env now) \<noteq> None)"
| "wf_op env (OpSync i) = True"

text \<open>How much of the log a sequence of operations makes durable, whatever the sync mode.\<close>

fun synced_by :: "nat \<Rightarrow> nat \<Rightarrow> 'ts wal_op list \<Rightarrow> nat" where
  "synced_by len d [] = d"
| "synced_by len d (OpAppend i e # ops) = synced_by (len + 1) d ops"
| "synced_by len d (OpCheckpoint now i # ops) = synced_by (len + 1) (len + 1) ops"
| "synced_by len d (OpSync i # ops) = synced_by len len ops"

lemma wal_state_checkpoint:
  assumes st: "wal_state env log n fs w" and wf: "wf_op env (OpCheckpoint now i)"
    and bound: "unat (ww_next_sequence w) + 1 < 2 ^ 64"
    and cp: "WalWriter_checkpoint env now i fs w = (fs', w', q)"
  shows "wal_state env (log @ [checkpoint_entry now (ww_next_sequence w)]) (length log + 1) fs' w'"
    "q = ww_next_sequence w" "ww_next_sequence w' = ww_next_sequence w + 1"
    "ww_sync_mode w' = ww_sync_mode w"
proof -
  have ent: "(checkpoint_entry now 0)\<lparr>we_sequence := ww_next_sequence w\<rparr>
      = checkpoint_entry now (ww_next_sequence w)" and wfe: "wf_entry env (checkpoint_entry now 0)"
    using wf by (auto simp: checkpoint_entry_def wf_entry_def wf_string_def entry_size_def as_bytes_def)
  obtain fs1 w1 q1 where app: "WalWriter_append env i fs w (checkpoint_entry now 0) = (fs1, w1, q1)"
    by (metis prod_cases3)
  then have syn: "WalWriter_sync i fs1 w1 = (fs', w')" and q: "q = q1"
    using cp by (auto simp: WalWriter_checkpoint_def checkpoint_entry_def Let_def split: prod.splits)
  obtain n1 where n1: "wal_state env (log @ [checkpoint_entry now (ww_next_sequence w)]) n1 fs1 w1"
    "q1 = ww_next_sequence w" "ww_next_sequence w1 = ww_next_sequence w + 1"
    "ww_sync_mode w1 = ww_sync_mode w"
    using wal_state_append [OF st wfe bound app] ent by metis
  show "wal_state env (log @ [checkpoint_entry now (ww_next_sequence w)]) (length log + 1) fs' w'"
    "ww_next_sequence w' = ww_next_sequence w + 1" "ww_sync_mode w' = ww_sync_mode w"
    using wal_state_sync [OF n1(1) syn] n1 by simp_all
  show "q = ww_next_sequence w" using q n1 by simp
qed

lemma wal_state_run:
  assumes "wal_state env log n fs w" and "list_all (wf_op env) ops"
    and "unat (ww_next_sequence w) + length ops < 2 ^ 64" and "wal_run env ops fs w = (fs', w')"
    and "d \<le> n"
  shows "\<exists>n'. wal_state env (log @ log_of (ww_next_sequence w) ops) n' fs' w' \<and> synced_by (length log) d ops \<le> n'
    \<and> (ww_sync_mode w = Fsync \<and> n = length log \<longrightarrow> n' = length log + length (log_of (ww_next_sequence w) ops))"
  using assms
proof (induction env ops fs w arbitrary: log n d rule: wal_run.induct)
  case (1 env fs w)
  then show ?case by auto
next
  case (2 env i e ops fs w)
  obtain fs1 w1 q1 where app: "WalWriter_append env i fs w e = (fs1, w1, q1)"
    by (metis prod_cases3)
  obtain n1 where st1: "wal_state env (log @ [e\<lparr>we_sequence := ww_next_sequence w\<rparr>]) n1 fs1 w1"
    and n1: "n \<le> n1" "ww_sync_mode w = Fsync \<longrightarrow> n1 = length log + 1"
    and w1: "ww_next_sequence w1 = ww_next_sequence w + 1" "ww_sync_mode w1 = ww_sync_mode w"
    using wal_state_append [OF "2.prems"(1) _ _ app] "2.prems"(2,3) by auto
  have b: "unat (ww_next_sequence w1) + length ops < 2 ^ 64"
    using "2.prems"(3) unat_u64_Suc [of "ww_next_sequence w"] w1 by simp
  show ?case
    using "2.IH" [OF app [symmetric] refl refl st1 _ b _ order_trans [OF "2.prems"(5) n1(1)]] "2.prems"(2,4) app n1 w1
    by auto
next
  case (3 env now i ops fs w)
  obtain fs1 w1 q1 where cp: "WalWriter_checkpoint env now i fs w = (fs1, w1, q1)"
    by (metis prod_cases3)
  have b0: "unat (ww_next_sequence w) + 1 < 2 ^ 64" using "3.prems"(3) by simp
  have wf: "wf_op env (OpCheckpoint now i)" using "3.prems"(2) by simp
  note st1 = wal_state_checkpoint [OF "3.prems"(1) wf b0 cp]
  have b: "unat (ww_next_sequence w1) + length ops < 2 ^ 64"
    using "3.prems"(3) unat_u64_Suc [of "ww_next_sequence w"] st1(3) by simp
  show ?case
    using "3.IH" [OF cp [symmetric] refl refl st1(1) _ b _ order_refl] "3.prems"(2,4) cp st1 by auto
next
  case (4 env i ops fs w)
  obtain fs1 w1 where syn: "WalWriter_sync i fs w = (fs1, w1)" by fastforce
  note st1 = wal_state_sync [OF "4.prems"(1) syn]
  show ?case
    using "4.IH" [OF syn [symmetric] refl st1(1) _ _ _ order_refl] "4.prems"(2-4) syn st1 by auto
qed

lemma wal_append_next:
  assumes "WalWriter_append env i fs w e = (fs', w', q)"
  shows "ww_next_sequence w' = ww_next_sequence w + 1"
  using assms
  by (auto simp: WalWriter_append_def WalWriter_maybe_sync_def WalWriter_rotate_def WalWriter_sync_def Let_def
      split: prod.splits if_splits SyncMode.splits)

lemma wal_run_next:
  assumes "wal_run env ops fs w = (fs', w')"
  shows "ww_next_sequence w' = ww_next_sequence w + of_nat (length (log_of q ops))"
  using assms
proof (induction env ops fs w arbitrary: q rule: wal_run.induct)
  case (3 env now i ops fs w)
  obtain fs1 w1 q1 where cp: "WalWriter_checkpoint env now i fs w = (fs1, w1, q1)"
    by (metis prod_cases3)
  then have "ww_next_sequence w1 = ww_next_sequence w + 1"
    by (auto simp: WalWriter_checkpoint_def WalWriter_sync_def Let_def dest: wal_append_next split: prod.splits)
  with "3.IH" [OF cp [symmetric] refl refl, of "q + 1"] "3.prems" cp show ?case
    by (simp add: ac_simps)
qed (auto simp: WalWriter_sync_def ac_simps dest: wal_append_next split: prod.splits)

lemma length_log_of: "length (log_of q ops) \<le> length ops"
  by (induction q ops rule: log_of.induct) auto

lemma wal_state_open_fresh:
  assumes "fs_files fs = None \<and> \<not> fs_blocked fs \<or> fs_files fs = Some []"
    and "WalWriter_open_with_max_size i fs mode mx = Inr (fs', w)"
  shows "wal_state env [] 0 fs' w" "ww_next_sequence w = 1" "ww_sync_mode w = mode"
proof -
  have w: "fs_files fs' = Some [\<lparr>fl_name = segment_filename 0, fl_content = [], fl_synced = 0\<rparr>]"
    "w = \<lparr>ww_current_segment = \<lparr>si_path = segment_filename 0, si_start_sequence = 0, si_file_size = 0\<rparr>,
          ww_next_sequence = 1, ww_max_segment_size = mx, ww_sync_mode = mode, ww_last_sync = i\<rparr>"
    using assms
    by (auto simp: WalWriter_open_with_max_size_def fs_path_exists_def fs_create_dir_all_def
        list_segments_def List.map_filter_def fs_create_def Let_def split: if_splits)
  then have "wal_inv env [] 0 [] 0 fs' w"
    by (auto simp: wal_inv_def holds_segment_def)
  then show "wal_state env [] 0 fs' w"
    unfolding wal_state_def by fastforce
  show "ww_next_sequence w = 1" "ww_sync_mode w = mode" using w by simp_all
qed

section \<open>Reopening\<close>

lemma scan_loop_entry:
  assumes "wf_entry env e"
  shows "scan_loop (pre @ serialize env e @ rest) (length pre) l =
         scan_loop (pre @ serialize env e @ rest) (length pre + length (serialize env e))
           (if l \<le> we_sequence e then we_sequence e else l)"
proof -
  let ?data = "pre @ serialize env e @ rest"
  have n: "unat (of_nat (entry_size e) :: u32) = entry_size e"
    using wf_entry_unat_size [OF assms] .
  have fld: "u32_from_le_bytes (subslice ?data (length pre) (length pre + 4)) = of_nat (entry_size e)"
    by (simp add: subslice_def serialize_eq)
  have sq: "u64_from_le_bytes (subslice ?data (length pre + 4 + 4) (length pre + 4 + 4 + 8)) = we_sequence e"
    by (simp add: subslice_def serialize_eq serialize_inner_def)
  have fits: "length pre + 4 \<le> length ?data" "\<not> length ?data < length pre + 4 + entry_size e"
    "length pre + 4 + 4 + 8 \<le> length ?data"
    by (simp_all add: entry_size_def)
  show ?thesis
    unfolding scan_loop.simps [of ?data "length pre"] Let_def fld n sq length_serialize
    using fits by (simp only: if_True if_False)
qed

lemma scan_loop_torn:
  assumes "wf_entry env e" and "strict_prefix torn (serialize env e)"
  shows "scan_loop (pre @ torn) (length pre) l = l"
proof (cases "length torn < 4")
  case True
  then show ?thesis by (subst scan_loop.simps) simp
next
  case False
  from assms(2) obtain z where z: "serialize env e = torn @ z" "z \<noteq> []"
    by (auto simp: strict_prefix_def prefix_def)
  have len: "length torn < 4 + entry_size e"
    using z(2) arg_cong [OF z(1), of length] by simp
  have "take 4 torn = take 4 (serialize env e)"
    using z(1) False by simp
  then have fld: "u32_from_le_bytes (subslice (pre @ torn) (length pre) (length pre + 4)) = of_nat (entry_size e)"
    by (simp add: subslice_def serialize_eq)
  show ?thesis
    using len wf_entry_unat_size [OF assms(1)]
    by (subst scan_loop.simps) (simp add: fld Let_def del: subslice_append_right)
qed

lemma scan_loop_entries:
  assumes "list_all (wf_entry env) es"
  shows "scan_loop (pre @ encode_all env es @ rest) (length pre) l =
         scan_loop (pre @ encode_all env es @ rest) (length pre + length (encode_all env es))
           (foldl max l (map we_sequence es))"
  using assms
proof (induction es arbitrary: pre l)
  case Nil
  then show ?case by simp
next
  case (Cons e es)
  have "scan_loop (pre @ serialize env e @ encode_all env es @ rest) (length pre) l =
      scan_loop (pre @ serialize env e @ encode_all env es @ rest)
        (length pre + length (serialize env e)) (max l (we_sequence e))"
    using Cons.prems scan_loop_entry [of env e pre "encode_all env es @ rest" l]
    by (simp add: max_def)
  with Cons.IH [of "pre @ serialize env e" "max l (we_sequence e)"] Cons.prems
  show ?case by (simp add: add.assoc)
qed

lemma scan_loop_log:
  assumes "list_all (wf_entry env) es"
    and "torn = [] \<or> (\<exists>e. wf_entry env e \<and> strict_prefix torn (serialize env e))"
  shows "scan_loop (encode_all env es @ torn) 0 l = foldl max l (map we_sequence es)"
proof -
  have "scan_loop (encode_all env es @ torn) 0 l
      = scan_loop (encode_all env es @ torn) (length (encode_all env es)) (foldl max l (map we_sequence es))"
    using scan_loop_entries [OF assms(1), of "[]" torn l] by simp
  also have "\<dots> = foldl max l (map we_sequence es)"
  proof (cases "torn = []")
    case True
    then show ?thesis by (subst scan_loop.simps) simp
  next
    case False
    then show ?thesis using assms(2) scan_loop_torn by blast
  qed
  finally show ?thesis .
qed

lemma foldl_max_ge: "(l::'a::linorder) \<le> foldl max l xs"
proof (induction xs arbitrary: l)
  case (Cons x xs)
  have "l \<le> max l x" by simp
  also have "\<dots> \<le> foldl max (max l x) xs" by (rule Cons.IH)
  finally show ?case by simp
qed simp

lemma foldl_max_member: "x \<in> set xs \<Longrightarrow> (x::'a::linorder) \<le> foldl max l xs"
proof (induction xs arbitrary: l)
  case (Cons y ys)
  then show ?case
    using order_trans [OF max.cobounded2 foldl_max_ge] by auto
qed simp

lemma foldl_max_in: "foldl max (l::'a::linorder) xs \<in> insert l (set xs)"
  by (induction xs arbitrary: l) (auto simp: max_def split: if_splits)

text \<open>Opening a directory whose last segment holds whole entries and perhaps a torn one.\<close>

lemma open_existing:
  assumes fs: "fs_files fs = Some (files @ [f])" and sf: "segment_files (starts @ [s]) (files @ [f])"
    and wf: "list_all (wf_entry env) es" and f: "fl_content f = encode_all env es @ torn"
    and torn: "torn = [] \<or> (\<exists>e. wf_entry env e \<and> strict_prefix torn (serialize env e))"
  shows "WalWriter_open_with_max_size i fs mode mx = Inr (fs,
     \<lparr>ww_current_segment = info_of s f, ww_next_sequence = foldl max s (map we_sequence es) + 1,
      ww_max_segment_size = mx, ww_sync_mode = mode, ww_last_sync = i\<rparr>)"
proof -
  let ?segments = "map2 info_of starts files @ [info_of s f]"
  have ls: "list_segments fs = Inr ?segments"
    using list_segments_files [OF fs sf] sf
    by (auto simp: segment_files_def dest: list_all2_lengthD)
  have rd: "fs_read fs (fl_name f) = Inr (encode_all env es @ torn)"
    using fs_read_file [OF fs segment_files_names(2) [OF sf], of f] f by simp
  have sc: "WalWriter_scan_last_sequence fs (info_of s f) = Inr (foldl max s (map we_sequence es) + 1)"
  proof (cases "fl_content f = []")
    case True
    then have "es = []"
      using f by (cases es) auto
    with True show ?thesis by (simp add: WalWriter_scan_last_sequence_def info_of_def)
  next
    case False
    then show ?thesis
      using rd scan_loop_log [OF wf torn, of s]
      by (simp add: WalWriter_scan_last_sequence_def info_of_def)
  qed
  have ex: "fs_path_exists fs" using fs by (simp add: fs_path_exists_def)
  show ?thesis
    using ls sc ex by (simp add: WalWriter_open_with_max_size_def Let_def)
qed

lemma wal_state_reopen:
  assumes st: "wal_state env log n fs w" and bound: "unat (ww_next_sequence w) + 1 < 2 ^ 64"
  obtains w' where "WalWriter_open_with_max_size i fs mode mx = Inr (fs, w')" "wal_state env log n fs w'"
    "unat (ww_next_sequence w') \<le> unat (ww_next_sequence w) + 1"
proof -
  from st obtain segs s es m where inv: "wal_inv env segs s es m fs w"
    and log: "log = concat (map snd segs) @ es" "n = length (concat (map snd segs)) + m"
    by (auto simp: wal_state_def)
  obtain files f where fs: "fs_files fs = Some (files @ [f])"
    and l: "list_all2 (holds_segment env) (segs @ [(s, es)]) (files @ [f])"
    and sf: "segment_files (map fst (segs @ [(s, es)])) (files @ [f])"
    and "\<forall>e \<in> set (concat (map snd (segs @ [(s, es)]))). wf_entry env e"
    by (rule wal_inv_directory [OF inv])
  then have f: "fl_content f = encode_all env es @ []" "fl_name f = segment_filename s"
    and wf: "list_all (wf_entry env) es" and sf': "segment_files (map fst segs @ [s]) (files @ [f])"
    by (auto simp: holds_segment_def list_all_iff list_all2_append1 list_all2_Cons1)
  let ?next = "foldl max s (map we_sequence es)"
  let ?w' = "\<lparr>ww_current_segment = info_of s f, ww_next_sequence = ?next + 1,
      ww_max_segment_size = mx, ww_sync_mode = mode, ww_last_sync = i\<rparr>"
  have op: "WalWriter_open_with_max_size i fs mode mx = Inr (fs, ?w')"
    by (rule open_existing [OF fs sf' wf f(1)]) simp
  have le: "?next \<le> ww_next_sequence w"
    using foldl_max_in [of s "map we_sequence es"] inv
    by (auto simp: wal_inv_def ball_Un intro: less_imp_le)
  then have b: "unat ?next + 1 < 2 ^ 64"
    using bound by (simp add: word_le_nat_alt)
  then have nx: "?next < ?next + 1" by (rule u64_less_Suc)
  have lt: "s < ?next + 1" "\<forall>e \<in> set es. we_sequence e < ?next + 1"
    using foldl_max_ge [of s "map we_sequence es"] foldl_max_member [of _ "map we_sequence es" s] nx
    by (auto intro: le_less_trans)
  have cl: "\<forall>e \<in> set (concat (map snd segs)). we_sequence e < ?next + 1"
    using inv lt(1) by (auto simp: wal_inv_def intro: less_trans)
  have "wal_inv env segs s es m fs ?w'"
    using inv lt cl f by (auto simp: wal_inv_def info_of_def)
  with log have "wal_state env log n fs ?w'"
    unfolding wal_state_def by blast
  moreover have "unat (?next + 1) \<le> unat (ww_next_sequence w) + 1"
    using le unat_u64_Suc [OF b] by (simp add: word_le_nat_alt)
  ultimately show thesis using op that [of ?w'] by simp
qed

lemma wal_state_seq_less: "wal_state env log n fs w \<Longrightarrow> \<forall>e \<in> set log. we_sequence e < ww_next_sequence w"
  by (auto simp: wal_state_def wal_inv_def)

section \<open>The last checkpoint\<close>

lemma find_append: "find P (xs @ ys) = (case find P xs of Some x \<Rightarrow> Some x | None \<Rightarrow> find P ys)"
  by (induction xs) auto

lemma find_map: "find P (map f xs) = map_option f (find (P \<circ> f) xs)"
  by (induction xs) auto

lemma last_checkpoint_scan_files:
  assumes "\<forall>f \<in> set files. fs_read fs (fl_name f) = Inr (fl_content f)" and "length starts = length files"
  shows "last_checkpoint_scan env now fs (rev (map2 info_of starts files)) =
    Inr (map_option we_sequence (find (\<lambda>e. we_operation e = Checkpoint)
      (rev (concat (map (\<lambda>f. read_segment_entries env now (fl_content f)) files)))))"
  using assms(2,1)
proof (induction starts arbitrary: files rule: rev_induct)
  case Nil
  then show ?case by simp
next
  case (snoc s starts)
  then obtain files' f where files: "files = files' @ [f]" "length starts = length files'"
    by (cases files rule: rev_cases) auto
  with snoc show ?case
    by (auto simp: info_of_def find_append split: option.splits)
qed

lemma wal_state_find_last_checkpoint:
  assumes "wal_state env log n fs w"
  shows "WalReader_find_last_checkpoint env now fs =
    Inr (map_option we_sequence (find (\<lambda>e. we_operation e = Checkpoint) (rev log)))"
proof -
  from assms obtain segs s es m where inv: "wal_inv env segs s es m fs w"
    and log: "log = concat (map snd (segs @ [(s, es)]))"
    by (auto simp: wal_state_def)
  let ?starts = "map fst (segs @ [(s, es)])"
  obtain files f where fs: "fs_files fs = Some (files @ [f])"
    and l: "list_all2 (holds_segment env) (segs @ [(s, es)]) (files @ [f])"
    and sf: "segment_files ?starts (files @ [f])"
    and wf: "\<forall>e \<in> set (concat (map snd (segs @ [(s, es)]))). wf_entry env e"
    by (rule wal_inv_directory [OF inv])
  have rd: "\<forall>f \<in> set (files @ [f]). fs_read fs (fl_name f) = Inr (fl_content f)"
    using fs_read_file [OF fs segment_files_names(2) [OF sf]] by blast
  have "length ?starts = length (files @ [f])" using l by (auto dest: list_all2_lengthD)
  from last_checkpoint_scan_files [OF rd this, of env now] show ?thesis
    unfolding WalReader_find_last_checkpoint_def list_segments_files [OF fs sf]
      read_holds_segments [OF l wf] log [symmetric]
    by (simp add: rev_map find_map comp_def option.map_comp)
qed

section \<open>Properties of the log\<close>

text \<open>A session: open the directory, then run operations.\<close>

definition wal_session ::
  "'ts wal_env \<Rightarrow> nat \<Rightarrow> wal_fs \<Rightarrow> SyncMode \<Rightarrow> nat \<Rightarrow> 'ts wal_op list \<Rightarrow> (wal_fs \<times> WalWriter) WalResult" where
  "wal_session env i fs mode mx ops =
    rbind (WalWriter_open_with_max_size i fs mode mx) (\<lambda>(fs, w). Inr (wal_run env ops fs w))"

definition fresh_dir :: "wal_fs \<Rightarrow> bool" where
  "fresh_dir fs \<longleftrightarrow> fs_files fs = None \<and> \<not> fs_blocked fs \<or> fs_files fs = Some []"

lemma open_fresh_returns:
  "fresh_dir fs \<Longrightarrow> \<exists>fs0 w0. WalWriter_open_with_max_size i fs mode mx = Inr (fs0, w0)"
  by (auto simp: fresh_dir_def WalWriter_open_with_max_size_def fs_path_exists_def fs_create_dir_all_def
        list_segments_def List.map_filter_def Let_def)

lemma wal_session_state:
  assumes "fresh_dir fs" and "list_all (wf_op env) ops" and "length ops < 2 ^ 64 - 1"
  obtains fs' w' n where "wal_session env i fs mode mx ops = Inr (fs', w')"
    "wal_state env (log_of 1 ops) n fs' w'" "synced_by 0 0 ops \<le> n"
    "mode = Fsync \<longrightarrow> n = length (log_of 1 ops)"
    "ww_next_sequence w' = 1 + of_nat (length (log_of 1 ops))"
proof -
  obtain fs0 w0 where op: "WalWriter_open_with_max_size i fs mode mx = Inr (fs0, w0)"
    using open_fresh_returns [OF assms(1)] by blast
  obtain fs' w' where run: "wal_run env ops fs0 w0 = (fs', w')" by fastforce
  have st: "wal_state env [] 0 fs0 w0" "ww_next_sequence w0 = 1" "ww_sync_mode w0 = mode"
    using wal_state_open_fresh [OF assms(1) [unfolded fresh_dir_def] op] by simp_all
  have "unat (ww_next_sequence w0) + length ops < 2 ^ 64"
    using st(2) assms(3) by simp
  from wal_state_run [OF st(1) assms(2) this run order_refl] st(2,3) obtain n where
    "wal_state env (log_of 1 ops) n fs' w'" "synced_by 0 0 ops \<le> n"
    "mode = Fsync \<longrightarrow> n = length (log_of 1 ops)"
    by auto
  moreover have "wal_session env i fs mode mx ops = Inr (fs', w')"
    using op run by (simp add: wal_session_def)
  moreover have "ww_next_sequence w' = 1 + of_nat (length (log_of 1 ops))"
    using wal_run_next [OF run, of 1] st(2) by simp
  ultimately show thesis using that by blast
qed

text \<open>A concrete session for the examples: two appends around a checkpoint, tiny segments.\<close>

definition demo_fs :: wal_fs where
  "demo_fs = \<lparr>fs_path = ''wal'', fs_files = None, fs_blocked = False\<rparr>"

definition demo_ops :: "i64 wal_op list" where
  "demo_ops = [OpAppend 1 (demo_entry ''a'' [7]), OpCheckpoint 5 2, OpAppend 3 (demo_entry ''b'' [])]"

lemma demo_session_ok:
  "fresh_dir demo_fs" "list_all (wf_op demo_env) demo_ops" "length demo_ops = 3"
  by (simp_all add: fresh_dir_def demo_fs_def demo_ops_def wf_entry_def wf_string_def as_bytes_def byte_of_char_def
      entry_size_def demo_env_def demo_entry_def)

lemma demo_log: "log_of 1 demo_ops =
  [(demo_entry ''a'' [7])\<lparr>we_sequence := 1\<rparr>, checkpoint_entry 5 2, (demo_entry ''b'' [])\<lparr>we_sequence := 3\<rparr>]"
  by (simp add: demo_ops_def)

lemma demo_stored: "stored demo_env e = e"
  by (simp add: stored_def demo_env_def)





text \<open>\<open>find_last_checkpoint\<close> returns the sequence number of the last checkpoint entry of the
  acknowledged log, and \<open>None\<close> when it has none.
\<close>

theorem wal_last_checkpoint:
  assumes "fresh_dir fs" and "list_all (wf_op env) ops" and "length ops < 2 ^ 64 - 1"
  shows "\<exists>fs' w'. wal_session env i fs mode mx ops = Inr (fs', w') \<and>
    WalReader_find_last_checkpoint env now fs' =
      Inr (map_option we_sequence (find (\<lambda>e. we_operation e = Checkpoint) (rev (log_of 1 ops))))"
  using wal_session_state [OF assms] wal_state_find_last_checkpoint by metis

theorem wal_last_checkpoint_witness:
  "\<exists>fs' w'. wal_session demo_env 0 demo_fs Fsync 40 demo_ops = Inr (fs', w') \<and>
     WalReader_find_last_checkpoint demo_env 0 fs' = Inr (Some 2)"
  using wal_last_checkpoint [OF demo_session_ok(1,2), of 0 Fsync 40 0] demo_session_ok(3)
  by (simp add: demo_log checkpoint_entry_def demo_entry_def)

text \<open>Closing the writer and opening the directory again resumes the log: the open succeeds, the
  new writer numbers entries above every entry of the log, and what it appends is added to the
  replayed log.
\<close>

theorem wal_reopen_resumes:
  assumes "fresh_dir fs" and "list_all (wf_op env) ops" and "length ops < 2 ^ 64 - 3"
    and "wf_entry env e"
  shows "\<exists>fs1 w1 w2 fs3 w3 q. wal_session env i fs mode mx ops = Inr (fs1, w1) \<and>
    WalWriter_open_with_max_size i' fs1 mode' mx' = Inr (fs1, w2) \<and>
    (\<forall>x \<in> set (log_of 1 ops). we_sequence x < ww_next_sequence w2) \<and>
    WalWriter_append env j fs1 w2 e = (fs3, w3, q) \<and>
    WalReader_replay_all env now fs3 =
      Inr \<lparr>it_entries = map (stored env) (log_of 1 ops @ [e\<lparr>we_sequence := q\<rparr>]), it_position = 0\<rparr>"
proof -
  have "length ops < 2 ^ 64 - 1" using assms(3) by simp
  then obtain fs1 w1 n where ses: "wal_session env i fs mode mx ops = Inr (fs1, w1)"
    and st1: "wal_state env (log_of 1 ops) n fs1 w1"
    and nx: "ww_next_sequence w1 = 1 + of_nat (length (log_of 1 ops))"
    by (rule wal_session_state [OF assms(1,2)])
  have b1: "unat (ww_next_sequence w1) + 2 < 2 ^ 64"
    using nx length_log_of [of 1 ops] assms(3) by (simp add: unat_word_ariths unat_of_nat)
  then have "unat (ww_next_sequence w1) + 1 < 2 ^ 64" by simp
  then obtain w2 where op: "WalWriter_open_with_max_size i' fs1 mode' mx' = Inr (fs1, w2)"
    and st2: "wal_state env (log_of 1 ops) n fs1 w2"
    and "unat (ww_next_sequence w2) \<le> unat (ww_next_sequence w1) + 1"
    by (rule wal_state_reopen [OF st1])
  with b1 have b2: "unat (ww_next_sequence w2) + 1 < 2 ^ 64" by simp
  obtain fs3 w3 q where app: "WalWriter_append env j fs1 w2 e = (fs3, w3, q)"
    by (metis prod_cases3)
  obtain n3 where st3: "wal_state env (log_of 1 ops @ [e\<lparr>we_sequence := ww_next_sequence w2\<rparr>]) n3 fs3 w3"
    and q: "q = ww_next_sequence w2"
    by (rule wal_state_append [OF st2 assms(4) b2 app])
  have "WalReader_replay_all env now fs3 =
      Inr \<lparr>it_entries = map (stored env) (log_of 1 ops @ [e\<lparr>we_sequence := q\<rparr>]), it_position = 0\<rparr>"
    using wal_state_replay_from [OF st3, of now 0] q by (simp add: WalReader_replay_all_def)
  with ses op app wal_state_seq_less [OF st2] show ?thesis by blast
qed

theorem wal_reopen_resumes_witness:
  "\<exists>fs1 w1 w2 fs3 w3 q. wal_session demo_env 0 demo_fs Async 40 demo_ops = Inr (fs1, w1) \<and>
    WalWriter_open_with_max_size 9 fs1 Fsync 80 = Inr (fs1, w2) \<and>
    (\<forall>x \<in> set (log_of 1 demo_ops). we_sequence x < ww_next_sequence w2) \<and>
    WalWriter_append demo_env 10 fs1 w2 (demo_entry ''c'' []) = (fs3, w3, q) \<and>
    WalReader_replay_all demo_env 0 fs3 = Inr \<lparr>it_entries =
      map (stored demo_env) (log_of 1 demo_ops @ [(demo_entry ''c'' [])\<lparr>we_sequence := q\<rparr>]), it_position = 0\<rparr>"
proof (rule wal_reopen_resumes [OF demo_session_ok(1,2)])
  show "length demo_ops < 2 ^ 64 - 3" by (simp add: demo_session_ok(3))
  show "wf_entry demo_env (demo_entry ''c'' [])"
    by (simp add: wf_entry_def wf_string_def as_bytes_def byte_of_char_def entry_size_def demo_env_def demo_entry_def)
qed

end
