(* ===== verification/Wal_Limits.thy ===== *)
theory Wal_Limits
  imports Wal_Log
begin

text \<open>
  Damage and pruning (\<open>segment.rs\<close>, \<open>reader.rs\<close>, \<open>writer.rs\<close>): an entry with a bad checksum is
  skipped and nothing else is lost; what \<open>prune_segments_before\<close> removes, when it is safe, and
  concrete runs in which pruning, an explicit \<open>rotate\<close> or resuming after a torn write loses
  acknowledged entries.
\<close>

section \<open>A damaged entry\<close>

lemma read_loop_bad_crc:
  assumes "wf_entry env e" and "length bad = length (serialize_inner env e)"
    and "compute_crc32 env bad \<noteq> compute_crc32 env (serialize_inner env e)"
    and frame: "frame = u32_to_le_bytes (of_nat (entry_size e))
      @ u32_to_le_bytes (compute_crc32 env (serialize_inner env e)) @ bad"
  shows "read_entries_loop env now (pre @ frame @ rest) (length pre) acc =
         read_entries_loop env now (pre @ frame @ rest) (length pre + length frame) acc"
proof -
  let ?data = "pre @ frame @ rest"
  have n: "unat (of_nat (entry_size e) :: u32) = entry_size e"
    using wf_entry_unat_size [OF assms(1)] .
  have len: "length frame = 4 + entry_size e"
    using assms(2) by (simp add: frame entry_size_def)
  have fld: "u32_from_le_bytes (subslice ?data (length pre) (length pre + 4)) = of_nat (entry_size e)"
    by (simp add: subslice_def frame)
  have nz: "(of_nat (entry_size e) :: u32) \<noteq> 0"
    using n by (metis entry_size_bounds(3) unat_0)
  have mx: "\<not> MAX_ENTRY_SIZE < (of_nat (entry_size e) :: u32)"
    using assms(1) n by (simp add: MAX_ENTRY_SIZE_less_iff wf_entry_def)
  have body: "subslice ?data (length pre + 4) (length pre + 4 + entry_size e) = drop 4 frame"
    using len by (simp add: subslice_def)
  have "of_nat (length (drop 4 frame)) = (of_nat (entry_size e) :: u32)"
    using len by simp
  then have bad: "\<exists>q x y. deserialize env now (drop 4 frame) (of_nat (entry_size e)) = Inl (CrcMismatch q x y)"
    using deserialize_checks_crc_iff [of "drop 4 frame" env now] assms(1,3) len
    by (auto simp: frame wf_entry_def)
  show ?thesis
    using bad len
    by (subst read_entries_loop.simps)
       (auto simp add: fld n nz mx body Let_def simp del: subslice_append_right simp flip: add.assoc)
qed

text \<open>Damage to the bytes of one entry that its checksum detects costs that entry only: the scan
  of the segment returns every entry before it and every entry after it.
\<close>

theorem corrupt_entry_skipped:
  assumes "list_all (wf_entry env) (es1 @ [e] @ es2)"
    and "length bad = length (serialize_inner env e)"
    and "compute_crc32 env bad \<noteq> compute_crc32 env (serialize_inner env e)"
  shows "read_segment_entries env now
      (encode_all env es1 @ take 8 (serialize env e) @ bad @ encode_all env es2)
    = map (stored env) (es1 @ es2)"
proof -
  define frame where "frame = u32_to_le_bytes (of_nat (entry_size e))
      @ u32_to_le_bytes (compute_crc32 env (serialize_inner env e)) @ bad"
  have wf: "list_all (wf_entry env) es1" "wf_entry env e" "list_all (wf_entry env) es2"
    using assms(1) by simp_all
  let ?data = "encode_all env es1 @ frame @ encode_all env es2"
  have "read_entries_loop env now ?data 0 []
      = read_entries_loop env now ?data (length (encode_all env es1)) (map (stored env) es1)"
    using read_loop_entries [OF wf(1), of now "[]" "frame @ encode_all env es2" "[]"] by simp
  also have "\<dots> = read_entries_loop env now ?data (length (encode_all env es1 @ frame)) (map (stored env) es1)"
    using read_loop_bad_crc [OF wf(2) assms(2,3) frame_def, of now "encode_all env es1"] by simp
  also have "\<dots> = read_entries_loop env now ?data (length ?data) (map (stored env) (es1 @ es2))"
    using read_loop_entries [OF wf(3), of now "encode_all env es1 @ frame" "[]" "map (stored env) es1"]
    by (simp add: add.assoc)
  also have "\<dots> = map (stored env) (es1 @ es2)"
    by (subst read_entries_loop.simps) simp
  finally have "read_entries_loop env now ?data 0 [] = map (stored env) (es1 @ es2)" .
  moreover have "take 8 (serialize env e) @ bad @ encode_all env es2 = frame @ encode_all env es2"
    by (simp add: frame_def serialize_eq)
  ultimately show ?thesis
    by (simp only: read_segment_entries_def)
qed

theorem corrupt_entry_skipped_witness:
  "read_segment_entries demo_env 0
     (encode_all demo_env [demo_entry ''a'' [1]] @ take 8 (serialize demo_env (demo_entry ''b'' [9]))
      @ replicate 28 0 @ encode_all demo_env [demo_entry ''c'' []])
   = [demo_entry ''a'' [1], demo_entry ''c'' []]"
proof -
  have "list_all (wf_entry demo_env) ([demo_entry ''a'' [1]] @ [demo_entry ''b'' [9]] @ [demo_entry ''c'' []])"
    by (simp add: wf_entry_def wf_string_def as_bytes_def byte_of_char_def entry_size_def demo_env_def demo_entry_def)
  moreover have "length (replicate 28 0 :: bytes) = length (serialize_inner demo_env (demo_entry ''b'' [9]))"
    by (simp add: demo_entry_def)
  moreover have "compute_crc32 demo_env (replicate 28 0) \<noteq> compute_crc32 demo_env (serialize_inner demo_env (demo_entry ''b'' [9]))"
    by (simp add: compute_crc32_def demo_env_def demo_entry_def serialize_inner_def)
  ultimately show ?thesis
    using corrupt_entry_skipped [of demo_env "[demo_entry ''a'' [1]]" "demo_entry ''b'' [9]" "[demo_entry ''c'' []]" "replicate 28 0" 0]
    by (simp add: demo_stored)
qed

section \<open>Pruning\<close>

definition starts_before :: "u64 \<Rightarrow> wal_file \<Rightarrow> bool" where
  "starts_before cp f \<longleftrightarrow> (\<exists>s. parse_segment_filename (fl_name f) = Some s \<and> s < cp)"

lemma segment_info_Some:
  "segment_info f = Some i \<longleftrightarrow> (\<exists>s. parse_segment_filename (fl_name f) = Some s \<and>
     i = \<lparr>si_path = fl_name f, si_start_sequence = s, si_file_size = length (fl_content f)\<rparr>)"
  by (auto simp: segment_info_def split: option.splits)

lemma prune_loop_files:
  "fst (prune_loop cp segments rest files n) =
     (if \<exists>s \<in> set segments. cp \<le> si_start_sequence s
      then filter (\<lambda>f. \<forall>s \<in> set rest. si_start_sequence s < cp \<longrightarrow> fl_name f \<noteq> si_path s) files
      else files)"
  by (induction cp segments rest files n rule: prune_loop.induct)
     (auto simp: fs_remove_file_def intro!: filter_cong)

lemma prune_loop_count:
  "snd (prune_loop cp segments rest files n) =
     (if \<exists>s \<in> set segments. cp \<le> si_start_sequence s
      then n + length (filter (\<lambda>s. si_start_sequence s < cp) rest) else n)"
  by (induction cp segments rest files n rule: prune_loop.induct) auto

lemma prune_spec_aux:
  assumes "fs_files fs = Some files"
  shows "prune_segments_before fs cp =
    (if \<exists>f \<in> set files. \<exists>s. parse_segment_filename (fl_name f) = Some s \<and> cp \<le> s
     then Inr (fs\<lparr>fs_files := Some (filter (\<lambda>f. \<not> starts_before cp f) files)\<rparr>,
               length (filter (starts_before cp) files))
     else Inr (fs, 0))"
proof -
  let ?segs = "sort_key si_start_sequence (List.map_filter segment_info files)"
  have ls: "list_segments fs = Inr ?segs" using assms by (simp add: list_segments_def)
  have st: "set ?segs = {i. \<exists>f \<in> set files. segment_info f = Some i}"
    by (simp add: set_map_filter)
  have ex: "(\<exists>s \<in> set ?segs. cp \<le> si_start_sequence s) \<longleftrightarrow>
      (\<exists>f \<in> set files. \<exists>s. parse_segment_filename (fl_name f) = Some s \<and> cp \<le> s)"
    unfolding st by (fastforce simp: segment_info_Some)
  have fl: "filter (\<lambda>f. \<forall>s \<in> set ?segs. si_start_sequence s < cp \<longrightarrow> fl_name f \<noteq> si_path s) files
      = filter (\<lambda>f. \<not> starts_before cp f) files"
    unfolding st by (rule filter_cong [OF refl]) (fastforce simp: segment_info_Some starts_before_def)
  have "length (filter (\<lambda>s. si_start_sequence s < cp) (List.map_filter segment_info files))
      = length (filter (starts_before cp) files)"
    by (induction files)
       (auto simp: segment_info_def starts_before_def split: option.splits)
  then have ct: "length (filter (\<lambda>s. si_start_sequence s < cp) ?segs) = length (filter (starts_before cp) files)"
    by (simp add: filter_sort)
  have "prune_loop cp ?segs ?segs files 0 =
      (fst (prune_loop cp ?segs ?segs files 0), snd (prune_loop cp ?segs ?segs files 0))" by simp
  also have "\<dots> = (if \<exists>f \<in> set files. \<exists>s. parse_segment_filename (fl_name f) = Some s \<and> cp \<le> s
      then (filter (\<lambda>f. \<not> starts_before cp f) files, length (filter (starts_before cp) files)) else (files, 0))"
    unfolding prune_loop_files prune_loop_count ex fl ct by auto
  finally show ?thesis
    using assms by (auto simp: prune_segments_before_def ls split: if_splits)
qed

text \<open>
  What pruning does: when some segment starts at or after the checkpoint, exactly the segment
  files that start before it are removed, and the number returned is that of the segments removed;
  otherwise nothing changes. Files that are not segments are never touched.
\<close>

theorem prune_segments_spec:
  assumes "fs_files fs = Some files"
  shows "prune_segments_before fs cp =
    (if \<exists>f \<in> set files. \<exists>s. parse_segment_filename (fl_name f) = Some s \<and> cp \<le> s
     then Inr (fs\<lparr>fs_files := Some (filter (\<lambda>f. \<not> starts_before cp f) files)\<rparr>,
               length (filter (starts_before cp) files))
     else Inr (fs, 0))"
  by (rule prune_spec_aux [OF assms])

definition two_segments :: "bytes \<Rightarrow> bytes \<Rightarrow> wal_fs" where
  "two_segments a b = \<lparr>fs_path = ''wal'', fs_files = Some
     [\<lparr>fl_name = segment_filename 0, fl_content = a, fl_synced = 0\<rparr>,
      \<lparr>fl_name = segment_filename 5, fl_content = b, fl_synced = 0\<rparr>], fs_blocked = False\<rparr>"

theorem prune_segments_spec_witness:
  "prune_segments_before (two_segments [1] [2]) 3
   = Inr (\<lparr>fs_path = ''wal'', fs_files = Some [\<lparr>fl_name = segment_filename 5, fl_content = [2], fl_synced = 0\<rparr>],
           fs_blocked = False\<rparr>, 1)"
  using prune_segments_spec [of "two_segments [1] [2]"
     "[\<lparr>fl_name = segment_filename 0, fl_content = [1], fl_synced = 0\<rparr>,
       \<lparr>fl_name = segment_filename 5, fl_content = [2], fl_synced = 0\<rparr>]" 3]
  by (simp add: two_segments_def starts_before_def word_le_nat_alt word_less_nat_alt)

text \<open>Pruning at the start of the writer's current segment is safe: whatever was logged, every
  entry from that sequence number on is still replayed afterwards.
\<close>

theorem prune_at_current_segment_safe:
  assumes "fresh_dir fs" and "list_all (wf_op env) ops" and "length ops < 2 ^ 64 - 1"
  shows "\<exists>fs1 w1 fs2 n. wal_session env i fs mode mx ops = Inr (fs1, w1) \<and>
    (let cp = si_start_sequence (ww_current_segment w1) in
     prune_segments_before fs1 cp = Inr (fs2, n) \<and>
     WalReader_replay_from env now fs2 cp = Inr \<lparr>it_entries =
        filter (\<lambda>e. cp \<le> we_sequence e) (map (stored env) (log_of 1 ops)), it_position = 0\<rparr>)"
proof -
  obtain fs1 w1 n where ses: "wal_session env i fs mode mx ops = Inr (fs1, w1)"
    and "wal_state env (log_of 1 ops) n fs1 w1"
    by (rule wal_session_state [OF assms])
  then obtain segs s es m where inv: "wal_inv env segs s es m fs1 w1"
    and log: "log_of 1 ops = concat (map snd segs) @ es"
    by (auto simp: wal_state_def)
  from inv obtain files f where fs: "fs_files fs1 = Some (files @ [f])"
    and segs: "list_all2 (holds_segment env) segs files" and f: "holds_segment env (s, es) f"
    and srt: "sorted_wrt (<) (map fst segs @ [s])"
    and old: "\<forall>e \<in> set (concat (map snd segs)). we_sequence e < s"
    and cur: "si_start_sequence (ww_current_segment w1) = s"
    and wf: "list_all (wf_entry env) es" and seq: "sorted_wrt (<) (map we_sequence es)"
    unfolding wal_inv_def by (elim conjE exE) (auto simp: sorted_wrt_append list_all_iff)
  have nm: "fl_name f = segment_filename s" and ct: "fl_content f = encode_all env es"
    using f by (simp_all add: holds_segment_def)
  have "\<forall>g \<in> set files. starts_before s g"
    using segs srt by (auto simp: list_all2_conv_all_nth set_conv_nth starts_before_def holds_segment_def
        sorted_wrt_append)
  then have "filter (\<lambda>g. \<not> starts_before s g) (files @ [f]) = [f]"
    using nm by (simp add: starts_before_def)
  then have pr: "\<exists>n. prune_segments_before fs1 s = Inr (fs1\<lparr>fs_files := Some [f]\<rparr>, n)"
    using prune_spec_aux [OF fs, of s] nm by auto
  have "filter (\<lambda>e. s \<le> we_sequence e) (map (stored env) (concat (map snd segs))) = []"
    using old by (fastforce simp: filter_empty_conv)
  moreover have "sorted (map we_sequence (filter (\<lambda>e. s \<le> we_sequence e) (map (stored env) es)))"
    using sorted_filter_key [OF stored_sorted [OF seq]] .
  moreover have "segment_files [s] [f]" using nm by (simp add: segment_files_def)
  ultimately have "WalReader_replay_from env now (fs1\<lparr>fs_files := Some [f]\<rparr>) s = Inr \<lparr>it_entries =
        filter (\<lambda>e. s \<le> we_sequence e) (map (stored env) (log_of 1 ops)), it_position = 0\<rparr>"
    using replay_from_files [of "fs1\<lparr>fs_files := Some [f]\<rparr>" "[f]" "[s]" env now s]
      read_segment_entries_complete [OF wf, of now]
    by (simp add: log ct sort_key_id_if_sorted del: filter_map)
  with ses pr cur show ?thesis by (fastforce simp: Let_def)
qed

theorem prune_at_current_segment_safe_witness:
  "\<exists>fs1 w1 fs2 n. wal_session demo_env 0 demo_fs Fsync 40 demo_ops = Inr (fs1, w1) \<and>
    (let cp = si_start_sequence (ww_current_segment w1) in
     prune_segments_before fs1 cp = Inr (fs2, n) \<and>
     WalReader_replay_from demo_env 0 fs2 cp = Inr \<lparr>it_entries =
        filter (\<lambda>e. cp \<le> we_sequence e) (map (stored demo_env) (log_of 1 demo_ops)), it_position = 0\<rparr>)"
  by (rule prune_at_current_segment_safe [OF demo_session_ok(1,2)]) (simp add: demo_session_ok(3))

section \<open>Runs that lose acknowledged entries\<close>

lemma demo_entry_facts [simp]:
  "wf_entry demo_env (demo_entry ''a'' [])" "entry_size (demo_entry ''a'' []) = 31"
  by (simp_all add: wf_entry_def wf_string_def as_bytes_def byte_of_char_def entry_size_def demo_env_def demo_entry_def)

lemmas writer_run_simps =
  wal_session_def WalWriter_open_with_max_size_def fs_path_exists_def fs_create_dir_all_def
  list_segments_def List.map_filter_def fs_create_def WalWriter_append_def WalWriter_rotate_def
  WalWriter_sync_def WalWriter_maybe_sync_def fs_write_all_def fs_sync_all_def fs_map_def Let_def

abbreviation numbered :: "u64 \<Rightarrow> i64 WalEntry" where
  "numbered q \<equiv> (demo_entry ''a'' [])\<lparr>we_sequence := q\<rparr>"

text \<open>
  \<open>prune_segments_before\<close> can remove entries after the checkpoint, although its documentation
  says that only segments entirely before it go: four appends with three entries to a segment,
  pruned at sequence number 2, replay as the fourth entry only; entries 2 and 3 are gone.
\<close>

theorem prune_loses_entries:
  "\<exists>fs1 w1 fs2. wal_session demo_env 0 demo_fs Fsync 105 (replicate 4 (OpAppend 0 (demo_entry ''a'' []))) = Inr (fs1, w1)
    \<and> WalReader_replay_from demo_env 0 fs1 2 = Inr \<lparr>it_entries = [numbered 2, numbered 3, numbered 4], it_position = 0\<rparr>
    \<and> prune_segments_before fs1 2 = Inr (fs2, 1)
    \<and> WalReader_replay_from demo_env 0 fs2 2 = Inr \<lparr>it_entries = [numbered 4], it_position = 0\<rparr>"
proof -
  let ?f0 = "\<lparr>fl_name = segment_filename 0, fl_content = encode_all demo_env [numbered 1, numbered 2, numbered 3], fl_synced = 105\<rparr>"
  let ?f5 = "\<lparr>fl_name = segment_filename 5, fl_content = encode_all demo_env [numbered 4], fl_synced = 35\<rparr>"
  let ?fs1 = "demo_fs\<lparr>fs_files := Some [?f0, ?f5]\<rparr>"
  let ?fs2 = "demo_fs\<lparr>fs_files := Some [?f5]\<rparr>"
  have run: "\<exists>w1. wal_session demo_env 0 demo_fs Fsync 105 (replicate 4 (OpAppend 0 (demo_entry ''a'' []))) = Inr (?fs1, w1)"
  proof -
    have "replicate 4 x = [x, x, x, x]" for x :: "i64 wal_op" by (simp add: numeral_eq_Suc)
    then show ?thesis by (simp add: writer_run_simps demo_fs_def)
  qed
  have wf: "list_all (wf_entry demo_env) [numbered 1, numbered 2, numbered 3]" "list_all (wf_entry demo_env) [numbered 4]"
    by simp_all
  have sf: "segment_files [0, 5] [?f0, ?f5]" "segment_files [5] [?f5]"
    by (simp_all add: segment_files_def)
  note rd = read_segment_entries_complete [OF wf(1), of 0] read_segment_entries_complete [OF wf(2), of 0]
  have r1: "WalReader_replay_from demo_env 0 ?fs1 2 = Inr \<lparr>it_entries = [numbered 2, numbered 3, numbered 4], it_position = 0\<rparr>"
    using replay_from_files [OF _ sf(1), of ?fs1 demo_env 0 2] rd
    by (simp add: demo_stored word_le_nat_alt)
  have p: "prune_segments_before ?fs1 2 = Inr (?fs2, 1)"
    using prune_spec_aux [of ?fs1 "[?f0, ?f5]" 2]
    by (simp add: starts_before_def word_le_nat_alt word_less_nat_alt)
  have r2: "WalReader_replay_from demo_env 0 ?fs2 2 = Inr \<lparr>it_entries = [numbered 4], it_position = 0\<rparr>"
    using replay_from_files [OF _ sf(2), of ?fs2 demo_env 0 2] rd
    by (simp add: demo_stored word_le_nat_alt)
  from run r1 p r2 show ?thesis by blast
qed

text \<open>
  An explicit \<open>rotate\<close> directly after an append that rotated creates the same file again and
  truncates it: the entry just acknowledged and synced is lost.
\<close>

theorem rotate_after_rotation_loses_entry:
  "\<exists>fs1 w1. wal_session demo_env 0 demo_fs Fsync 40 [OpAppend 0 (demo_entry ''a'' []), OpAppend 0 (demo_entry ''a'' [])] = Inr (fs1, w1)
    \<and> WalReader_replay_all demo_env 0 fs1 = Inr \<lparr>it_entries = [numbered 1, numbered 2], it_position = 0\<rparr>
    \<and> WalReader_replay_all demo_env 0 (fst (WalWriter_rotate 1 fs1 w1)) = Inr \<lparr>it_entries = [numbered 1], it_position = 0\<rparr>"
proof -
  let ?f0 = "\<lparr>fl_name = segment_filename 0, fl_content = encode_all demo_env [numbered 1], fl_synced = 35\<rparr>"
  let ?f3 = "\<lparr>fl_name = segment_filename 3, fl_content = encode_all demo_env [numbered 2], fl_synced = 35\<rparr>"
  let ?e3 = "\<lparr>fl_name = segment_filename 3, fl_content = encode_all demo_env [], fl_synced = 0\<rparr>"
  let ?w1 = "\<lparr>ww_current_segment = \<lparr>si_path = segment_filename 3, si_start_sequence = 3, si_file_size = 35\<rparr>,
     ww_next_sequence = 3, ww_max_segment_size = 40, ww_sync_mode = Fsync, ww_last_sync = 0\<rparr>"
  let ?fs1 = "demo_fs\<lparr>fs_files := Some [?f0, ?f3]\<rparr>"
  let ?fs2 = "demo_fs\<lparr>fs_files := Some [?f0, ?e3]\<rparr>"
  have run: "wal_session demo_env 0 demo_fs Fsync 40 [OpAppend 0 (demo_entry ''a'' []), OpAppend 0 (demo_entry ''a'' [])] = Inr (?fs1, ?w1)"
    by (simp add: writer_run_simps demo_fs_def)
  have rot: "fst (WalWriter_rotate 1 ?fs1 ?w1) = ?fs2"
    by (simp add: writer_run_simps demo_fs_def)
  have wf: "list_all (wf_entry demo_env) [numbered 1]" "list_all (wf_entry demo_env) [numbered 2]" "list_all (wf_entry demo_env) []"
    by simp_all
  have sf: "segment_files [0, 3] [?f0, ?f3]" "segment_files [0, 3] [?f0, ?e3]"
    by (simp_all add: segment_files_def)
  note rd = read_segment_entries_complete [OF wf(1), of 0] read_segment_entries_complete [OF wf(2), of 0]
    read_segment_entries_complete [OF wf(3), of 0]
  have "WalReader_replay_all demo_env 0 ?fs1 = Inr \<lparr>it_entries = [numbered 1, numbered 2], it_position = 0\<rparr>"
    using replay_from_files [OF _ sf(1), of ?fs1 demo_env 0 0] rd
    by (simp add: demo_stored WalReader_replay_all_def word_le_nat_alt)
  moreover have "WalReader_replay_all demo_env 0 ?fs2 = Inr \<lparr>it_entries = [numbered 1], it_position = 0\<rparr>"
    using replay_from_files [OF _ sf(2), of ?fs2 demo_env 0 0] rd
    by (simp add: demo_stored WalReader_replay_all_def)
  ultimately show ?thesis using run rot by metis
qed

lemma read_loop_short:
  assumes "u32_from_le_bytes (take 4 rest) = n" and "length rest < 4 + unat n"
  shows "read_entries_loop env now (pre @ rest) (length pre) acc = acc"
  using assms by (subst read_entries_loop.simps) (simp add: subslice_def Let_def)

lemma torn_length_field:
  "take 2 (serialize demo_env (numbered q)) = [31, 0]"
  "u32_from_le_bytes (take 4 ([31, 0] @ serialize demo_env (numbered q))) = 2031647"
proof -
  have "u32_to_le_bytes 31 = [31, 0, 0, 0]"
    by (simp add: u32_to_le_bytes_def nat_to_le_numeral)
  moreover have "unat (31 :: u8) = 31" by simp
  ultimately show "take 2 (serialize demo_env (numbered q)) = [31, 0]"
    "u32_from_le_bytes (take 4 ([31, 0] @ serialize demo_env (numbered q))) = 2031647"
    by (simp_all add: serialize_eq u32_from_le_bytes_def)
qed

text \<open>
  Reopening a log after a crash that tore the last write appends behind the torn bytes: an
  entry acknowledged and synced after recovery is not replayed.
\<close>

theorem resume_after_torn_write_loses_entry:
  "\<exists>fs1 w1 fs2 w2 fs3 w3.
     wal_session demo_env 0 demo_fs Async 105 [OpAppend 0 (demo_entry ''a'' []), OpAppend 0 (demo_entry ''a'' [])] = Inr (fs1, w1)
     \<and> wal_crash fs1 fs2 \<and> WalWriter_open_with_max_size 0 fs2 Fsync 105 = Inr (fs2, w2)
     \<and> WalWriter_append demo_env 0 fs2 w2 (demo_entry ''a'' []) = (fs3, w3, 2)
     \<and> WalReader_replay_all demo_env 0 fs3 = Inr \<lparr>it_entries = [numbered 1], it_position = 0\<rparr>"
proof -
  let ?f1 = "\<lparr>fl_name = segment_filename 0, fl_content = encode_all demo_env [numbered 1, numbered 2], fl_synced = 0\<rparr>"
  let ?f2 = "\<lparr>fl_name = segment_filename 0, fl_content = encode_all demo_env [numbered 1] @ [31, 0], fl_synced = 37\<rparr>"
  let ?f3 = "\<lparr>fl_name = segment_filename 0,
     fl_content = serialize demo_env (numbered 1) @ [31, 0] @ serialize demo_env (numbered 2), fl_synced = 72\<rparr>"
  let ?fs1 = "demo_fs\<lparr>fs_files := Some [?f1]\<rparr>"
  let ?fs2 = "demo_fs\<lparr>fs_files := Some [?f2]\<rparr>"
  let ?fs3 = "demo_fs\<lparr>fs_files := Some [?f3]\<rparr>"
  let ?w2 = "\<lparr>ww_current_segment = info_of 0 ?f2, ww_next_sequence = 2, ww_max_segment_size = 105,
     ww_sync_mode = Fsync, ww_last_sync = 0\<rparr>"
  have run: "\<exists>w1. wal_session demo_env 0 demo_fs Async 105 [OpAppend 0 (demo_entry ''a'' []), OpAppend 0 (demo_entry ''a'' [])] = Inr (?fs1, w1)"
    by (simp add: writer_run_simps demo_fs_def)
  have "take 37 (encode_all demo_env [numbered 1, numbered 2]) = encode_all demo_env [numbered 1] @ [31, 0]"
    by (simp add: torn_length_field(1))
  then have "file_after_crash ?f1 ?f2"
    by (auto simp: file_after_crash_def intro!: exI [of _ 37])
  then have crash: "wal_crash ?fs1 ?fs2"
    by (auto simp: wal_crash_def intro!: exI [of _ "[?f2]"])
  have "length [31 :: u8, 0] \<noteq> length (serialize demo_env (numbered 2))" by simp
  then have "strict_prefix [31, 0] (serialize demo_env (numbered 2))"
    unfolding strict_prefix_def
    using take_is_prefix [of 2 "serialize demo_env (numbered 2)"] torn_length_field(1) [of 2] by metis
  then have torn: "[31, 0] = [] \<or> (\<exists>e. wf_entry demo_env e \<and> strict_prefix [31, 0] (serialize demo_env e))"
    using demo_entry_facts(1) wf_entry_with_sequence by blast
  have op: "WalWriter_open_with_max_size 0 ?fs2 Fsync 105 = Inr (?fs2, ?w2)"
    using open_existing [of ?fs2 "[]" ?f2 "[]" 0 demo_env "[numbered 1]" "[31, 0]" 0 Fsync 105] torn
    by (simp add: segment_files_def)
  have app: "\<exists>w3. WalWriter_append demo_env 0 ?fs2 ?w2 (demo_entry ''a'' []) = (?fs3, w3, 2)"
    by (simp add: writer_run_simps demo_fs_def info_of_def)
  have "read_entries_loop demo_env 0 (fl_content ?f3) 0 []
      = read_entries_loop demo_env 0 (fl_content ?f3) 35 [numbered 1]"
    using read_loop_entry [of demo_env "numbered 1" 0 "[]" "[31, 0] @ serialize demo_env (numbered 2)" "[]"]
    by (simp add: demo_stored)
  also have "\<dots> = [numbered 1]"
    using read_loop_short [OF torn_length_field(2) [of 2], of demo_env 0 "serialize demo_env (numbered 1)"] by simp
  finally have "WalReader_replay_all demo_env 0 ?fs3 = Inr \<lparr>it_entries = [numbered 1], it_position = 0\<rparr>"
    using replay_from_files [of ?fs3 "[?f3]" "[0]" demo_env 0 0]
    by (simp add: segment_files_def WalReader_replay_all_def read_segment_entries_def)
  with run crash op app show ?thesis by blast
qed

end
