(* ===== verification/Lock_Table.thy ===== *)
theory Lock_Table
  imports Prelude "HOL-Library.AList"
begin

text \<open>
  The lock table of the transaction manager (\<open>verisim-hexad/src/transaction.rs\<close>): \<open>acquire\<close> with
  its five actions, \<open>release_all\<close>, and the breadth-first deadlock detector over the wait-for graph.
  Hash maps are maps or association lists; the order in which a hash set is iterated is the
  parameter \<open>iter\<close>. The locale \<open>lock_service\<close> is what the manager relies on: the invariant that
  holders of one key are compatible, and what acquiring and releasing do to the holders.
\<close>

section \<open>Types\<close>

type_synonym uuid = "128 word"

datatype TransactionState = Active | Committed | RolledBack

datatype IsolationLevel = ReadCommitted | Serializable

datatype LockType = Shared | Exclusive

datatype TransactionError =
    InvalidState uuid TransactionState string
  | LockConflict string string uuid
  | DeadlockDetected uuid "uuid list"
  | TransactionNotFound uuid
  | InvalidModality string
  | VersionConflict string u64 u64

text \<open>The \<open>Display\<close> text of an error; \<open>ud\<close> is the text of an identifier (crate \<open>uuid\<close>).\<close>

fun TransactionState_debug :: "TransactionState \<Rightarrow> string" where
  "TransactionState_debug Active = ''Active''"
| "TransactionState_debug Committed = ''Committed''"
| "TransactionState_debug RolledBack = ''RolledBack''"

fun TransactionError_display :: "(uuid \<Rightarrow> string) \<Rightarrow> TransactionError \<Rightarrow> string" where
  "TransactionError_display ud (InvalidState t current expected) =
     ''Transaction '' @ ud t @ '': state is '' @ TransactionState_debug current @ '', expected '' @ expected"
| "TransactionError_display ud (LockConflict entity_id modality held_by) =
     ''Lock conflict on '' @ entity_id @ ''/'' @ modality @ '' held by '' @ ud held_by"
| "TransactionError_display ud (DeadlockDetected t cycle) =
     ''Deadlock detected for '' @ ud t @ '': cycle ['' @ join_with '', '' (map ud cycle) @ '']''"
| "TransactionError_display ud (TransactionNotFound t) = ''Transaction not found: '' @ ud t"
| "TransactionError_display ud (InvalidModality m) = ''Invalid modality: '' @ m"
| "TransactionError_display ud (VersionConflict entity_id expected_version actual_version) =
     ''Version conflict on '' @ entity_id @ '': expected v'' @ dec_digits (unat expected_version)
     @ '', found v'' @ dec_digits (unat actual_version)"

record LockKey =
  lk_entity_id :: string
  lk_modality :: string

record LockInfo =
  li_holder :: uuid
  li_lock_type :: LockType

type_synonym wait_graph = "(uuid \<times> uuid list) list"

record LockTable =
  lt_locks :: "LockKey \<rightharpoonup> LockInfo list"
  lt_wait_for :: wait_graph

definition LockTable_new :: LockTable where
  "LockTable_new = \<lparr>lt_locks = Map.empty, lt_wait_for = []\<rparr>"

section \<open>Deadlock detection\<close>

definition neighbors :: "wait_graph \<Rightarrow> uuid \<Rightarrow> uuid list" where
  "neighbors g t = (case map_of g t of None \<Rightarrow> [] | Some ns \<Rightarrow> ns)"

function bfs_cycle ::
  "(uuid list \<Rightarrow> uuid list) \<Rightarrow> wait_graph \<Rightarrow> uuid \<Rightarrow> uuid set \<Rightarrow> uuid list list \<Rightarrow> uuid list option" where
  "bfs_cycle iter g start visited [] = None"
| "bfs_cycle iter g start visited (path # queue) =
    (if path = [] then bfs_cycle iter g start visited queue
     else
       let current = last path in
       if current = start then Some path
       else if current \<in> visited then bfs_cycle iter g start visited queue
       else case map_of g current of
              Some ns \<Rightarrow> bfs_cycle iter g start (insert current visited)
                           (queue @ map (\<lambda>neighbor. path @ [neighbor]) (iter ns))
            | None \<Rightarrow> bfs_cycle iter g start (insert current visited) queue)"
  by pat_completeness auto
termination
proof (relation "measures [\<lambda>(iter, g, start, visited, queue). card (fst ` set g - visited),
                           \<lambda>(iter, g, start, visited, queue). length queue]", goal_cases)
  case (5 iter g start visited path queue current ns)
  then have "current \<in> fst ` set g - visited"
    by (metis DiffI map_of_eq_None_iff option.distinct(1))
  then have "card (fst ` set g - insert current visited) < card (fst ` set g - visited)"
    by (intro psubset_card_mono) auto
  then show ?case by simp
next
  case (4 iter g start visited path queue current)
  have "card (fst ` set g - insert current visited) \<le> card (fst ` set g - visited)"
    by (intro card_mono) auto
  then show ?case by auto
qed auto

definition LockTable_detect_cycle :: "(uuid list \<Rightarrow> uuid list) \<Rightarrow> LockTable \<Rightarrow> uuid \<Rightarrow> uuid list option" where
  "LockTable_detect_cycle iter lt start =
    (let queue = (case map_of (lt_wait_for lt) start of
                    Some ns \<Rightarrow> map (\<lambda>neighbor. [start, neighbor]) (iter ns)
                  | None \<Rightarrow> [])
     in bfs_cycle iter (lt_wait_for lt) start {} queue)"

section \<open>Acquiring and releasing\<close>

datatype AcquireAction = AlreadyHeld | Upgrade | UpgradeConflict uuid | Conflict uuid | Grant

definition conflicts :: "LockType \<Rightarrow> LockType \<Rightarrow> bool" where
  "conflicts held wanted \<longleftrightarrow> \<not> (held = Shared \<and> wanted = Shared)"

text \<open>The loop of phase 1 over \<open>holders\<close>; the second list is what is left of it.\<close>

fun acquire_action :: "uuid \<Rightarrow> LockType \<Rightarrow> LockInfo list \<Rightarrow> LockInfo list \<Rightarrow> AcquireAction" where
  "acquire_action transaction_id lock_type holders [] = Grant"
| "acquire_action transaction_id lock_type holders (info # rest) =
    (if li_holder info = transaction_id then
       (if li_lock_type info = Shared \<and> lock_type = Exclusive then
          (if length holders = 1 then Upgrade
           else UpgradeConflict
             (case find (\<lambda>h. li_holder h \<noteq> transaction_id) holders of
                Some h \<Rightarrow> li_holder h | None \<Rightarrow> transaction_id))
        else AlreadyHeld)
     else if conflicts (li_lock_type info) lock_type then Conflict (li_holder info)
     else acquire_action transaction_id lock_type holders rest)"

definition LockTable_acquire ::
  "(uuid list \<Rightarrow> uuid list) \<Rightarrow> LockTable \<Rightarrow> uuid \<Rightarrow> string \<Rightarrow> string \<Rightarrow> LockType
   \<Rightarrow> LockTable \<times> (TransactionError, unit) rresult" where
  "LockTable_acquire iter lt transaction_id entity_id modality lock_type =
    (let key = \<lparr>lk_entity_id = entity_id, lk_modality = modality\<rparr>;
         holders = (case lt_locks lt key of Some v \<Rightarrow> v | None \<Rightarrow> []);
         granted = (lt\<lparr>lt_locks := (lt_locks lt)(key \<mapsto>
                         filter (\<lambda>info. li_holder info \<noteq> transaction_id) holders
                         @ [\<lparr>li_holder = transaction_id, li_lock_type = lock_type\<rparr>]),
                       lt_wait_for := AList.delete transaction_id (lt_wait_for lt)\<rparr>,
                    Inr ())
     in case acquire_action transaction_id lock_type holders holders of
          AlreadyHeld \<Rightarrow> (lt, Inr ())
        | UpgradeConflict other_holder \<Rightarrow> (lt, Inl (LockConflict entity_id modality other_holder))
        | Conflict blocker \<Rightarrow>
            let lt = lt\<lparr>lt_wait_for := AList.update transaction_id
                         (List.insert blocker (neighbors (lt_wait_for lt) transaction_id))
                         (lt_wait_for lt)\<rparr>
            in (case LockTable_detect_cycle iter lt transaction_id of
                  Some cycle \<Rightarrow>
                    (lt\<lparr>lt_wait_for := AList.delete transaction_id (lt_wait_for lt)\<rparr>,
                     Inl (DeadlockDetected transaction_id cycle))
                | None \<Rightarrow> (lt, Inl (LockConflict entity_id modality blocker)))
        | Upgrade \<Rightarrow> granted
        | Grant \<Rightarrow> granted)"

definition LockTable_release_all :: "LockTable \<Rightarrow> uuid \<Rightarrow> LockTable" where
  "LockTable_release_all lt transaction_id =
    lt\<lparr>lt_locks := (\<lambda>key. case lt_locks lt key of
                      None \<Rightarrow> None
                    | Some holders \<Rightarrow>
                        let holders = filter (\<lambda>info. li_holder info \<noteq> transaction_id) holders
                        in if holders = [] then None else Some holders),
       lt_wait_for := map (\<lambda>(t, waiters). (t, filter (\<lambda>x. x \<noteq> transaction_id) waiters))
                        (AList.delete transaction_id (lt_wait_for lt))\<rparr>"

definition LockTable_is_locked :: "LockTable \<Rightarrow> string \<Rightarrow> string \<Rightarrow> bool" where
  "LockTable_is_locked lt entity_id modality =
    (case lt_locks lt \<lparr>lk_entity_id = entity_id, lk_modality = modality\<rparr> of
       Some h \<Rightarrow> h \<noteq> [] | None \<Rightarrow> False)"

definition LockTable_holders :: "LockTable \<Rightarrow> string \<Rightarrow> string \<Rightarrow> (uuid \<times> LockType) list" where
  "LockTable_holders lt entity_id modality =
    (case lt_locks lt \<lparr>lk_entity_id = entity_id, lk_modality = modality\<rparr> of
       Some holders \<Rightarrow> map (\<lambda>info. (li_holder info, li_lock_type info)) holders
     | None \<Rightarrow> [])"

section \<open>The detector is exact\<close>

definition walk :: "wait_graph \<Rightarrow> uuid list \<Rightarrow> bool" where
  "walk g = successively (\<lambda>a b. b \<in> set (neighbors g a))"

definition is_cycle :: "wait_graph \<Rightarrow> uuid \<Rightarrow> uuid list \<Rightarrow> bool" where
  "is_cycle g start c \<longleftrightarrow> 2 \<le> length c \<and> hd c = start \<and> last c = start \<and> walk g c"

lemma walk_snoc: "xs \<noteq> [] \<Longrightarrow> walk g (xs @ [n]) \<longleftrightarrow> walk g xs \<and> n \<in> set (neighbors g (last xs))"
  by (auto simp: walk_def successively_append_iff)

lemma walk_suffix: "walk g (xs @ ys) \<Longrightarrow> walk g ys"
  by (auto simp: walk_def successively_append_iff)

text \<open>
  \<open>covers g start visited queue\<close>: every cycle has a queued path that some walk through unvisited
  nodes completes to a cycle no longer. \<open>level\<close>: the queue is sorted by length, within one level.
\<close>

definition completes :: "wait_graph \<Rightarrow> uuid \<Rightarrow> uuid set \<Rightarrow> uuid list \<Rightarrow> uuid list \<Rightarrow> bool" where
  "completes g start visited q r \<longleftrightarrow> r \<noteq> [] \<and> hd r = last q \<and> last r = start \<and> walk g r \<and> set r \<inter> visited = {}"

definition covers :: "wait_graph \<Rightarrow> uuid \<Rightarrow> uuid set \<Rightarrow> uuid list list \<Rightarrow> bool" where
  "covers g start visited queue \<longleftrightarrow>
    (\<forall>c. is_cycle g start c \<longrightarrow> (\<exists>q \<in> set queue. \<exists>r. completes g start visited q r
        \<and> length q + length r \<le> length c + 1))"

definition level :: "uuid list list \<Rightarrow> bool" where
  "level queue \<longleftrightarrow> sorted (map length queue) \<and>
     (\<forall>p \<in> set queue. length p \<le> length (hd queue) + 1)"

definition from_start :: "wait_graph \<Rightarrow> uuid \<Rightarrow> uuid list \<Rightarrow> bool" where
  "from_start g start p \<longleftrightarrow> 2 \<le> length p \<and> hd p = start \<and> walk g p"

lemma level_tl: "level (p # queue) \<Longrightarrow> level queue"
  by (cases queue) (auto simp: level_def intro: order_trans)

lemma sorted_map_const: "sorted (map (\<lambda>x. c) xs)"
  by (induction xs) auto

lemma level_push:
  assumes "level (p # queue)"
  shows "level (queue @ map (\<lambda>n. p @ [n]) ns)"
proof -
  from assms have le: "\<forall>q \<in> set queue. length p \<le> length q \<and> length q \<le> length p + 1"
    and s: "sorted (map length queue)"
    by (auto simp: level_def)
  have "sorted (map length (queue @ map (\<lambda>n. p @ [n]) ns))"
    using le s by (auto simp: sorted_append comp_def sorted_map_const)
  moreover have "length q \<le> length (hd (queue @ map (\<lambda>n. p @ [n]) ns)) + 1"
    if "q \<in> set (queue @ map (\<lambda>n. p @ [n]) ns)" for q
    using le that by (cases queue; cases ns) auto
  ultimately show ?thesis by (auto simp: level_def)
qed

lemma covers_shortest:
  assumes "covers g start visited (p # queue)" and "level (p # queue)" and "is_cycle g start c"
  shows "length p \<le> length c"
proof -
  obtain q r where q: "q \<in> set (p # queue)" and "completes g start visited q r"
    and r: "length q + length r \<le> length c + 1"
    using assms(1,3) unfolding covers_def by blast
  then have ne: "r \<noteq> []" by (simp add: completes_def)
  have "length p \<le> length q" using assms(2) q by (auto simp: level_def)
  with r ne show ?thesis by (cases r) auto
qed

lemma covers_skip:
  assumes "covers g start visited (p # queue)" and "last p \<in> visited"
  shows "covers g start visited queue"
  using assms unfolding covers_def completes_def by (metis disjoint_iff hd_in_set set_ConsD)

lemma covers_push:
  assumes cov: "covers g start visited (p # queue)" and lev: "level (p # queue)"
    and new: "last p \<noteq> start" "last p \<notin> visited" and ns: "set ns = set (neighbors g (last p))"
  shows "covers g start (insert (last p) visited) (queue @ map (\<lambda>n. p @ [n]) ns)"
  unfolding covers_def
proof (intro allI impI)
  fix c assume "is_cycle g start c"
  with cov obtain q r where q: "q \<in> set (p # queue)" and "completes g start visited q r"
    and len: "length q + length r \<le> length c + 1"
    unfolding covers_def by blast
  then have r: "r \<noteq> []" "hd r = last q" "last r = start" "walk g r" "set r \<inter> visited = {}"
    by (simp_all add: completes_def)
  let ?u = "last p"
  show "\<exists>q \<in> set (queue @ map (\<lambda>n. p @ [n]) ns). \<exists>r. completes g start (insert ?u visited) q r
      \<and> length q + length r \<le> length c + 1"
  proof (cases "?u \<in> set r")
    case False
    with r q have "q \<in> set queue" using hd_in_set [OF r(1)] by auto
    with False r len show ?thesis by (auto simp: completes_def)
  next
    case True
    then obtain r1 r2 where r12: "r = r1 @ ?u # r2" "?u \<notin> set r2"
      by (metis split_list_last)
    with r(3) new(1) have r2: "r2 \<noteq> []" by auto
    have w: "walk g (?u # r2)" using r(4) walk_suffix r12(1) by metis
    then have "hd r2 \<in> set ns" "walk g r2"
      using r2 ns by (cases r2; simp add: walk_def)+
    moreover have "length p \<le> length q" using q lev by (auto simp: level_def)
    moreover have "set r2 \<inter> insert ?u visited = {}" "last r2 = start"
      using r(3,5) r12 r2 by auto
    ultimately show ?thesis
      using r12(1) len r2 by (intro bexI [of _ "p @ [hd r2]"] exI [of _ r2]) (auto simp: completes_def)
  qed
qed

lemma bfs_cycle_exact:
  assumes "\<And>xs. set (iter xs) = set xs" and "covers g start visited queue" and "level queue"
    and "\<forall>p \<in> set queue. from_start g start p"
  shows "case bfs_cycle iter g start visited queue of
      None \<Rightarrow> \<forall>c. \<not> is_cycle g start c
    | Some p \<Rightarrow> is_cycle g start p \<and> (\<forall>c. is_cycle g start c \<longrightarrow> length p \<le> length c)"
  using assms
proof (induction iter g start visited queue rule: bfs_cycle.induct)
  case (1 iter g start visited)
  then show ?case by (auto simp: covers_def)
next
  case (2 iter g start visited path queue)
  have ne: "path \<noteq> []" using "2.prems"(4) by (auto simp: from_start_def)
  consider (found) "last path = start" | (seen) "last path \<noteq> start" "last path \<in> visited"
    | (new) "last path \<noteq> start" "last path \<notin> visited" by blast
  then show ?case
  proof cases
    case found
    have "\<forall>c. is_cycle g start c \<longrightarrow> length path \<le> length c"
      using covers_shortest [OF "2.prems"(2,3)] by simp
    with found ne "2.prems"(4) show ?thesis by (auto simp: is_cycle_def from_start_def)
  next
    case seen
    with "2.IH"(2) [OF ne refl seen "2.prems"(1) covers_skip [OF "2.prems"(2) seen(2)] level_tl [OF "2.prems"(3)]]
      "2.prems"(4) ne
    show ?thesis by simp
  next
    case new
    have push: "covers g start (insert (last path) visited) (queue @ map (\<lambda>n. path @ [n]) ns)"
      "\<forall>p \<in> set (queue @ map (\<lambda>n. path @ [n]) ns). from_start g start p"
      if "set ns = set (neighbors g (last path))" for ns
      using covers_push [OF "2.prems"(2,3) new that] "2.prems"(4) ne that
      by (auto simp: from_start_def walk_snoc)
    show ?thesis
    proof (cases "map_of g (last path)")
      case None
      with push [of "[]"] have "covers g start (insert (last path) visited) queue"
        by (simp add: neighbors_def)
      with "2.IH"(3) [OF ne refl new None "2.prems"(1) _ level_tl [OF "2.prems"(3)]] "2.prems"(4) ne new None
      show ?thesis by simp
    next
      case (Some ns)
      have "set (iter ns) = set (neighbors g (last path))"
        using Some "2.prems"(1) by (simp add: neighbors_def)
      from "2.IH"(4) [OF ne refl new Some "2.prems"(1) push(1) [OF this] level_push [OF "2.prems"(3)] push(2) [OF this]]
        ne new Some
      show ?thesis by simp
    qed
  qed
qed

lemma covers_seed:
  assumes "set ns = set (neighbors g start)"
  shows "covers g start {} (map (\<lambda>n. [start, n]) ns)"
  unfolding covers_def
proof (intro allI impI)
  fix c assume "is_cycle g start c"
  then obtain b cs where c: "c = start # b # cs"
    by (cases c rule: remdups_adj.cases) (auto simp: is_cycle_def)
  with \<open>is_cycle g start c\<close> assms show "\<exists>q \<in> set (map (\<lambda>n. [start, n]) ns). \<exists>r. completes g start {} q r
      \<and> length q + length r \<le> length c + 1"
    by (intro bexI [of _ "[start, b]"] exI [of _ "b # cs"]) (auto simp: is_cycle_def walk_def completes_def)
qed

lemma level_seed: "level (map (\<lambda>n. [start, n]) ns)"
  by (cases ns) (auto simp: level_def sorted_map_const comp_def)

text \<open>C27: The deadlock detector is exact, whatever the iteration order of the hash sets: it returns a
  cycle of the wait-for graph through the requesting transaction when there is one, the shortest
  such, and \<open>None\<close> when there is none. (That it always returns is its termination proof.)
\<close>

theorem detect_cycle_exact:
  assumes "\<And>xs. set (iter xs) = set xs"
  shows "case LockTable_detect_cycle iter lt start of
      None \<Rightarrow> \<forall>c. \<not> is_cycle (lt_wait_for lt) start c
    | Some p \<Rightarrow> is_cycle (lt_wait_for lt) start p
        \<and> (\<forall>c. is_cycle (lt_wait_for lt) start c \<longrightarrow> length p \<le> length c)"
proof -
  let ?g = "lt_wait_for lt"
  define ns where "ns = (case map_of ?g start of Some ns \<Rightarrow> iter ns | None \<Rightarrow> [])"
  have ns: "set ns = set (neighbors ?g start)"
    using assms by (auto simp: ns_def neighbors_def split: option.splits)
  have "LockTable_detect_cycle iter lt start = bfs_cycle iter ?g start {} (map (\<lambda>n. [start, n]) ns)"
    by (simp add: LockTable_detect_cycle_def ns_def split: option.splits)
  with bfs_cycle_exact [OF assms covers_seed [OF ns] level_seed] ns show ?thesis
    by (auto simp: from_start_def walk_def)
qed

theorem detect_cycle_exact_witness:
  "case LockTable_detect_cycle rev \<lparr>lt_locks = Map.empty, lt_wait_for = [(1, [2]), (2, [3, 1])]\<rparr> 1 of
      None \<Rightarrow> False
    | Some p \<Rightarrow> p = [1, 2, 1] \<and> is_cycle [(1, [2]), (2, [3, 1])] 1 p"
proof -
  have "LockTable_detect_cycle rev \<lparr>lt_locks = Map.empty, lt_wait_for = [(1, [2]), (2, [3, 1])]\<rparr> 1 = Some [1, 2, 1]"
    by (simp add: LockTable_detect_cycle_def)
  with detect_cycle_exact [of rev "\<lparr>lt_locks = Map.empty, lt_wait_for = [(1, [2]), (2, [3, 1])]\<rparr>" 1]
  show ?thesis by simp
qed

section \<open>Compatibility of holders\<close>

definition holders_of :: "LockTable \<Rightarrow> LockKey \<Rightarrow> LockInfo list" where
  "holders_of lt key = (case lt_locks lt key of Some v \<Rightarrow> v | None \<Rightarrow> [])"

lemma lock_key_eta [simp]: "\<lparr>lk_entity_id = lk_entity_id key, lk_modality = lk_modality key\<rparr> = key"
  by (cases key) simp

lemma holders_of_cong: "lt_locks lt' = lt_locks lt \<Longrightarrow> holders_of lt' = holders_of lt"
  by (simp add: holders_of_def fun_eq_iff)

lemma holders_of_grant:
  "lt_locks lt' = (lt_locks lt)(key \<mapsto> hs) \<Longrightarrow> holders_of lt' = (holders_of lt)(key := hs)"
  by (simp add: holders_of_def fun_eq_iff)

text \<open>No transaction holds a key twice, and an exclusive holder is alone.\<close>

definition compatible :: "LockInfo list \<Rightarrow> bool" where
  "compatible hs \<longleftrightarrow> distinct (map li_holder hs) \<and>
     (\<forall>h \<in> set hs. li_lock_type h = Exclusive \<longrightarrow> length hs = 1)"

definition lock_table_inv :: "LockTable \<Rightarrow> bool" where
  "lock_table_inv lt \<longleftrightarrow> (\<forall>key hs. lt_locks lt key = Some hs \<longrightarrow> hs \<noteq> [] \<and> compatible hs)"

lemma lock_table_invD: "lock_table_inv lt \<Longrightarrow> compatible (holders_of lt key)"
  by (auto simp: lock_table_inv_def compatible_def holders_of_def split: option.splits)

lemma acquire_action_Grant:
  assumes "acquire_action t ty hs rest = Grant"
  shows "\<forall>h \<in> set rest. li_holder h \<noteq> t \<and> li_lock_type h = Shared \<and> ty = Shared"
  using assms by (induction rest) (auto simp: conflicts_def split: if_splits)

lemma acquire_action_Upgrade:
  assumes "acquire_action t ty hs rest = Upgrade"
  shows "length hs = 1 \<and> (\<exists>h \<in> set rest. li_holder h = t) \<and> ty = Exclusive"
  using assms by (induction rest) (auto split: if_splits)

lemma acquire_action_AlreadyHeld:
  assumes "acquire_action t ty hs rest = AlreadyHeld"
  shows "\<exists>h \<in> set rest. li_holder h = t \<and> (ty = Exclusive \<longrightarrow> li_lock_type h = Exclusive)"
  using assms
proof (induction rest)
  case (Cons h rest)
  then show ?case
    by (cases "li_lock_type h"; cases ty) (auto split: if_splits)
qed simp

lemma acquire_action_Conflict:
  assumes "acquire_action t ty hs rest = Conflict b"
  shows "b \<noteq> t \<and> (\<exists>h \<in> set rest. li_holder h = b \<and> conflicts (li_lock_type h) ty)"
  using assms by (induction rest) (auto split: if_splits)

lemma compatible_filter: "compatible hs \<Longrightarrow> filter P hs \<noteq> [] \<Longrightarrow> compatible (filter P hs)"
  unfolding compatible_def
  by (auto simp: distinct_map_filter length_Suc_conv filter_empty_conv)

lemma compatible_grant:
  assumes "compatible hs" and "acquire_action t ty hs hs = Grant \<or> acquire_action t ty hs hs = Upgrade"
  shows "compatible (filter (\<lambda>h. li_holder h \<noteq> t) hs @ [\<lparr>li_holder = t, li_lock_type = ty\<rparr>])"
  using assms(2)
proof
  assume "acquire_action t ty hs hs = Grant"
  from acquire_action_Grant [OF this] have h: "\<forall>h \<in> set hs. li_holder h \<noteq> t \<and> li_lock_type h = Shared \<and> ty = Shared" .
  then have "filter (\<lambda>h. li_holder h \<noteq> t) hs = hs" by (simp add: filter_id_conv)
  with h assms(1) show ?thesis by (auto simp: compatible_def)
next
  assume "acquire_action t ty hs hs = Upgrade"
  from acquire_action_Upgrade [OF this] obtain h where "hs = [h]" "li_holder h = t"
    by (auto simp: length_Suc_conv)
  then show ?thesis by (simp add: compatible_def)
qed

section \<open>What acquiring and releasing do\<close>

lemma acquire_locks:
  assumes "LockTable_acquire iter lt t ent md ty = (lt', r)"
    and "key = \<lparr>lk_entity_id = ent, lk_modality = md\<rparr>" and "hs = holders_of lt key"
  obtains (error) "r \<noteq> Inr ()" "lt_locks lt' = lt_locks lt"
  | (already) "r = Inr ()" "acquire_action t ty hs hs = AlreadyHeld" "lt' = lt"
  | (granted) "r = Inr ()" "acquire_action t ty hs hs = Grant \<or> acquire_action t ty hs hs = Upgrade"
      "lt_locks lt' = (lt_locks lt)(key \<mapsto> filter (\<lambda>h. li_holder h \<noteq> t) hs @ [\<lparr>li_holder = t, li_lock_type = ty\<rparr>])"
  using assms
  by (cases "acquire_action t ty hs hs")
     (auto simp: LockTable_acquire_def Let_def holders_of_def split: option.splits)

lemma lock_table_inv_new: "lock_table_inv LockTable_new"
  by (simp add: lock_table_inv_def LockTable_new_def)

lemma lock_table_inv_acquire:
  assumes inv: "lock_table_inv lt" and "LockTable_acquire iter lt t ent md ty = (lt', r)"
  shows "lock_table_inv lt'"
  using assms(2) refl refl
proof (cases rule: acquire_locks)
  case granted
  from compatible_grant [OF lock_table_invD [OF inv] granted(2)] inv granted(3) show ?thesis
    by (auto simp: lock_table_inv_def)
qed (use inv in \<open>auto simp: lock_table_inv_def\<close>)

lemma lock_table_inv_release:
  assumes "lock_table_inv lt"
  shows "lock_table_inv (LockTable_release_all lt t)"
  using assms compatible_filter
  by (auto simp: lock_table_inv_def LockTable_release_all_def Let_def split: option.splits if_splits)

lemma holders_release: "holders_of (LockTable_release_all lt t) key = filter (\<lambda>h. li_holder h \<noteq> t) (holders_of lt key)"
  by (auto simp: LockTable_release_all_def holders_of_def Let_def split: option.splits)

section \<open>The lock service\<close>

definition held :: "LockTable \<Rightarrow> LockKey \<Rightarrow> (uuid \<times> LockType) set" where
  "held lt key = (\<lambda>h. (li_holder h, li_lock_type h)) ` set (holders_of lt key)"

datatype ('t, 'k) lock_request = Request 't 'k LockType | Release 't

fun requester :: "('t, 'k) lock_request \<Rightarrow> 't" where
  "requester (Request t k ty) = t"
| "requester (Release t) = t"

text \<open>Runs of requests; the results of the acquisitions are collected in order.\<close>

fun run_requests ::
  "('lt \<Rightarrow> 't \<Rightarrow> 'k \<Rightarrow> LockType \<Rightarrow> 'lt \<times> ('e, unit) rresult) \<Rightarrow> ('lt \<Rightarrow> 't \<Rightarrow> 'lt)
   \<Rightarrow> 'lt \<Rightarrow> ('t, 'k) lock_request list \<Rightarrow> 'lt \<times> ('t \<times> 'k \<times> ('e, unit) rresult) list" where
  "run_requests acq rel lt [] = (lt, [])"
| "run_requests acq rel lt (Request t k ty # rs) =
    (let (lt, r) = acq lt t k ty; (lt, out) = run_requests acq rel lt rs in (lt, (t, k, r) # out))"
| "run_requests acq rel lt (Release t # rs) = run_requests acq rel (rel lt t) rs"

locale lock_service =
  fixes inv :: "'lt \<Rightarrow> bool"
    and holds :: "'lt \<Rightarrow> 'k \<Rightarrow> ('t \<times> LockType) set"
    and acq :: "'lt \<Rightarrow> 't \<Rightarrow> 'k \<Rightarrow> LockType \<Rightarrow> 'lt \<times> ('e, unit) rresult"
    and rel :: "'lt \<Rightarrow> 't \<Rightarrow> 'lt"
  assumes acq_inv: "inv lt \<Longrightarrow> acq lt t k ty = (lt', r) \<Longrightarrow> inv lt'"
    and rel_inv: "inv lt \<Longrightarrow> inv (rel lt t)"
    and exclusive_alone: "inv lt \<Longrightarrow> (t, Exclusive) \<in> holds lt k \<Longrightarrow> (u, ty) \<in> holds lt k \<Longrightarrow> u = t"
    and acq_ok: "inv lt \<Longrightarrow> acq lt t k ty = (lt', Inr ()) \<Longrightarrow>
      \<exists>ty'. (t, ty') \<in> holds lt' k \<and> (ty = Exclusive \<longrightarrow> ty' = Exclusive)"
    and acq_frame: "inv lt \<Longrightarrow> acq lt t k ty = (lt', r) \<Longrightarrow> u \<noteq> t \<or> k' \<noteq> k \<Longrightarrow>
      (u, ty') \<in> holds lt' k' \<longleftrightarrow> (u, ty') \<in> holds lt k'"
    and rel_spec: "inv lt \<Longrightarrow> (u, ty) \<in> holds (rel lt t) k \<longleftrightarrow> u \<noteq> t \<and> (u, ty) \<in> holds lt k"
begin

lemma exclusive_blocks:
  assumes "inv lt" and "(t, Exclusive) \<in> holds lt k" and "u \<noteq> t" and "acq lt u k ty = (lt', r)"
  shows "\<exists>e. r = Inl e"
proof (rule ccontr)
  assume "\<nexists>e. r = Inl e"
  then have "r = Inr ()" by (cases r) auto
  with assms acq_ok obtain ty' where "(u, ty') \<in> holds lt' k" by blast
  moreover have "(t, Exclusive) \<in> holds lt' k"
    using acq_frame [OF assms(1,4)] assms(2,3) by simp
  ultimately show False
    using exclusive_alone [OF acq_inv [OF assms(1,4)]] assms(3) by blast
qed

lemma run_inv: "inv lt \<Longrightarrow> inv (fst (run_requests acq rel lt rs))"
  by (induction acq\<equiv>acq rel\<equiv>rel lt rs rule: run_requests.induct)
     (auto simp: acq_inv rel_inv split: prod.splits)

lemma exclusive_run:
  assumes "inv lt" and "(t, Exclusive) \<in> holds lt k" and "\<forall>r \<in> set rs. requester r \<noteq> t"
  shows "(t, Exclusive) \<in> holds (fst (run_requests acq rel lt rs)) k
    \<and> (\<forall>(u, k', r) \<in> set (snd (run_requests acq rel lt rs)). k' = k \<longrightarrow> (\<exists>e. r = Inl e))"
  using assms
proof (induction acq\<equiv>acq rel\<equiv>rel lt rs rule: run_requests.induct)
  case (2 lt u k' ty rs)
  obtain lt' r where step: "acq lt u k' ty = (lt', r)" by fastforce
  have u: "u \<noteq> t" using "2.prems"(3) by simp
  have "(t, Exclusive) \<in> holds lt' k"
    using acq_frame [OF "2.prems"(1) step] "2.prems"(2) u by simp
  moreover have "k' = k \<longrightarrow> (\<exists>e. r = Inl e)"
    using exclusive_blocks [OF "2.prems"(1) _ u] step "2.prems"(2) by blast
  ultimately show ?case
    using "2.hyps" [OF step [symmetric] refl acq_inv [OF "2.prems"(1) step]] "2.prems"(3) step
    by (auto split: prod.splits)
next
  case (3 lt u rs)
  have "(t, Exclusive) \<in> holds (rel lt u) k"
    using rel_spec [OF "3.prems"(1)] "3.prems"(2,3) by auto
  then show ?case
    using "3.hyps" [OF rel_inv [OF "3.prems"(1)]] "3.prems"(3) by simp
qed simp

end

abbreviation acquire_key ::
  "(uuid list \<Rightarrow> uuid list) \<Rightarrow> LockTable \<Rightarrow> uuid \<Rightarrow> LockKey \<Rightarrow> LockType \<Rightarrow> LockTable \<times> (TransactionError, unit) rresult" where
  "acquire_key iter lt t key ty \<equiv> LockTable_acquire iter lt t (lk_entity_id key) (lk_modality key) ty"

lemma held_acquire_ok:
  assumes "acquire_key iter lt t key ty = (lt', Inr ())"
  shows "\<exists>ty'. (t, ty') \<in> held lt' key \<and> (ty = Exclusive \<longrightarrow> ty' = Exclusive)"
  using assms refl refl
proof (cases rule: acquire_locks)
  case already
  from acquire_action_AlreadyHeld [OF this(2)] this(3) show ?thesis
    by (force simp: held_def)
qed (auto simp: held_def holders_of_grant)

lemma held_acquire_frame:
  assumes "acquire_key iter lt t key ty = (lt', r)" and "u \<noteq> t \<or> key' \<noteq> key"
  shows "(u, ty') \<in> held lt' key' \<longleftrightarrow> (u, ty') \<in> held lt key'"
  using assms(1) refl refl
proof (cases rule: acquire_locks)
  case granted
  with assms(2) show ?thesis by (auto simp: held_def holders_of_grant)
qed (auto simp: held_def dest!: holders_of_cong)

lemma held_exclusive_alone:
  assumes "lock_table_inv lt" and "(t, Exclusive) \<in> held lt key" and "(u, ty) \<in> held lt key"
  shows "u = t"
  using assms(2,3) lock_table_invD [OF assms(1), of key]
  by (fastforce simp: held_def compatible_def length_Suc_conv)

interpretation lt: lock_service lock_table_inv held "acquire_key iter" LockTable_release_all for iter
proof unfold_locales
  fix lt lt' :: LockTable and t u k k' ty ty' r
  assume inv: "lock_table_inv lt"
  show "lock_table_inv (LockTable_release_all lt t)" using inv by (rule lock_table_inv_release)
  show "(u, ty) \<in> held (LockTable_release_all lt t) k \<longleftrightarrow> u \<noteq> t \<and> (u, ty) \<in> held lt k"
    unfolding held_def holders_release by auto
  show "u = t" if "(t, Exclusive) \<in> held lt k" "(u, ty) \<in> held lt k"
    using held_exclusive_alone [OF inv that] .
  show "\<exists>ty'. (t, ty') \<in> held lt' k \<and> (ty = Exclusive \<longrightarrow> ty' = Exclusive)"
    if "acquire_key iter lt t k ty = (lt', Inr ())"
    using held_acquire_ok [OF that] .
  assume acq: "acquire_key iter lt t k ty = (lt', r)"
  show "lock_table_inv lt'" using inv acq by (rule lock_table_inv_acquire)
  show "(u, ty') \<in> held lt' k' \<longleftrightarrow> (u, ty') \<in> held lt k'" if "u \<noteq> t \<or> k' \<noteq> k"
    using held_acquire_frame [OF acq that] .
qed

text \<open>C5: Mutual exclusion: once a transaction has been granted an exclusive lock, every request of
  another transaction for the same entity and modality fails, through any sequence of requests and
  releases of the others, until the holder releases; and the holder keeps its lock meanwhile.
\<close>

theorem exclusive_lock_excludes:
  assumes "fst (run_requests (acquire_key iter) LockTable_release_all LockTable_new before) = lt0"
    and "acquire_key iter lt0 t key Exclusive = (lt1, Inr ())"
    and "\<forall>r \<in> set later. requester r \<noteq> t"
    and "run_requests (acquire_key iter) LockTable_release_all lt1 later = (lt2, results)"
  shows "(t, Exclusive) \<in> held lt2 key \<and> (\<forall>u r. (u, key, r) \<in> set results \<longrightarrow> (\<exists>e. r = Inl e))"
proof -
  have inv0: "lock_table_inv lt0"
    using lt.run_inv [OF lock_table_inv_new] assms(1) by blast
  then have inv1: "lock_table_inv lt1" using assms(2) by (rule lock_table_inv_acquire)
  have "(t, Exclusive) \<in> held lt1 key" using lt.acq_ok [OF inv0 assms(2)] by auto
  from lt.exclusive_run [OF inv1 this assms(3), of iter] assms(4) show ?thesis
    by auto
qed

definition doc_key :: LockKey where
  "doc_key = \<lparr>lk_entity_id = ''e1'', lk_modality = ''document''\<rparr>"

theorem exclusive_lock_excludes_witness:
  "\<exists>lt1 lt2 e. acquire_key id LockTable_new 1 doc_key Exclusive = (lt1, Inr ()) \<and>
     run_requests (acquire_key id) LockTable_release_all lt1 [Release 3, Request 2 doc_key Shared] = (lt2, [(2, doc_key, Inl e)])
     \<and> (1, Exclusive) \<in> held lt2 doc_key"
proof -
  obtain lt1 where a: "acquire_key id LockTable_new 1 doc_key Exclusive = (lt1, Inr ())"
    by (simp add: LockTable_acquire_def LockTable_new_def Let_def)
  obtain lt2 r where b: "run_requests (acquire_key id) LockTable_release_all lt1 [Release 3, Request 2 doc_key Shared]
      = (lt2, [(2, doc_key, r)])"
    by (cases "acquire_key id (LockTable_release_all lt1 3) 2 doc_key Shared") simp
  have "(1, Exclusive) \<in> held lt2 doc_key \<and> (\<forall>u r'. (u, doc_key, r') \<in> set [(2 :: uuid, doc_key, r)] \<longrightarrow> (\<exists>e. r' = Inl e))"
    by (rule exclusive_lock_excludes [OF _ a _ b, of "[]"]) simp_all
  with a b show ?thesis by auto
qed

end
