(* ===== verification/Transaction.thy ===== *)
theory Transaction
  imports Lock_Table
begin

text \<open>
  The transaction manager (\<open>verisim-hexad/src/transaction.rs\<close>): transactions with their undo log,
  lock list and read set, the MVCC version table, and every public operation, each run to the end
  without interference (the interleaving of their critical sections is in
  \<open>Transaction_Concurrent\<close>). Fresh identifiers and clock readings are arguments. \<open>u64\<close> versions wrap.
\<close>

section \<open>State\<close>

definition MODALITIES :: "string list" where
  "MODALITIES = [''graph'', ''vector'', ''tensor'', ''semantic'', ''document'', ''temporal'',
                 ''provenance'', ''spatial'']"

record LockEntry =
  le_entity_id :: string
  le_modality :: string
  le_lock_type :: LockType

record 'ts UndoEntry =
  ue_entity_id :: string
  ue_modality :: string
  ue_previous_data :: "bytes option"
  ue_previous_version :: u64
  ue_recorded_at :: 'ts

record ReadStamp =
  rs_entity_id :: string
  rs_modality :: string
  rs_version_at_read :: u64

record 'ts Transaction =
  tx_id :: uuid
  tx_state :: TransactionState
  tx_isolation_level :: IsolationLevel
  tx_undo_log :: "'ts UndoEntry list"
  tx_locks :: "LockEntry list"
  tx_read_set :: "ReadStamp list"
  tx_started_at :: 'ts
  tx_completed_at :: "'ts option"

definition Transaction_new :: "uuid \<Rightarrow> 'ts \<Rightarrow> IsolationLevel \<Rightarrow> 'ts Transaction" where
  "Transaction_new ident now isolation_level =
    \<lparr>tx_id = ident, tx_state = Active, tx_isolation_level = isolation_level, tx_undo_log = [],
     tx_locks = [], tx_read_set = [], tx_started_at = now, tx_completed_at = None\<rparr>"

definition Transaction_is_active :: "'ts Transaction \<Rightarrow> bool" where
  "Transaction_is_active txn \<longleftrightarrow> tx_state txn = Active"

text \<open>The version table, keyed by entity and modality.\<close>

type_synonym VersionTable = "string \<times> string \<rightharpoonup> u64"

definition VersionTable_get :: "VersionTable \<Rightarrow> string \<Rightarrow> string \<Rightarrow> u64" where
  "VersionTable_get vt entity_id modality =
    (case vt (entity_id, modality) of Some v \<Rightarrow> v | None \<Rightarrow> 0)"

definition VersionTable_set :: "VersionTable \<Rightarrow> string \<Rightarrow> string \<Rightarrow> u64 \<Rightarrow> VersionTable" where
  "VersionTable_set vt entity_id modality version = vt((entity_id, modality) \<mapsto> version)"

definition VersionTable_increment :: "VersionTable \<Rightarrow> string \<Rightarrow> string \<Rightarrow> VersionTable \<times> u64" where
  "VersionTable_increment vt entity_id modality =
    (let key = (entity_id, modality);
         next = (case vt key of Some v \<Rightarrow> v | None \<Rightarrow> 0) + 1
     in (vt(key \<mapsto> next), next))"

record 'ts TransactionManager =
  tm_active_transactions :: "(uuid \<times> 'ts Transaction) list"
  tm_lock_table :: LockTable
  tm_version_table :: VersionTable

definition TM_new :: "'ts TransactionManager" where
  "TM_new = \<lparr>tm_active_transactions = [], tm_lock_table = LockTable_new, tm_version_table = Map.empty\<rparr>"

definition TM_put :: "'ts TransactionManager \<Rightarrow> uuid \<Rightarrow> 'ts Transaction \<Rightarrow> 'ts TransactionManager" where
  "TM_put tm t txn = tm\<lparr>tm_active_transactions := AList.update t txn (tm_active_transactions tm)\<rparr>"

text \<open>The lookup and state check every operation starts with.\<close>

definition TM_active :: "'ts TransactionManager \<Rightarrow> uuid \<Rightarrow> (TransactionError, 'ts Transaction) rresult" where
  "TM_active tm transaction_id =
    (case map_of (tm_active_transactions tm) transaction_id of
       None \<Rightarrow> Inl (TransactionNotFound transaction_id)
     | Some txn \<Rightarrow>
         if tx_state txn \<noteq> Active
         then Inl (InvalidState transaction_id (tx_state txn) ''Active'') else Inr txn)"

section \<open>Operations\<close>

definition TM_begin ::
  "uuid \<Rightarrow> 'ts \<Rightarrow> 'ts TransactionManager \<Rightarrow> IsolationLevel \<Rightarrow> 'ts TransactionManager \<times> uuid" where
  "TM_begin fresh now tm isolation_level =
    (let txn = Transaction_new fresh now isolation_level; txn_id = tx_id txn
     in (TM_put tm txn_id txn, txn_id))"

definition TM_release_all :: "'ts TransactionManager \<Rightarrow> uuid \<Rightarrow> 'ts TransactionManager" where
  "TM_release_all tm t = tm\<lparr>tm_lock_table := LockTable_release_all (tm_lock_table tm) t\<rparr>"

text \<open>The first read stamp whose version is no longer current, as the validation loop finds it.\<close>

definition failed_stamp :: "VersionTable \<Rightarrow> ReadStamp list \<Rightarrow> ReadStamp option" where
  "failed_stamp vt read_set =
    find (\<lambda>stamp. VersionTable_get vt (rs_entity_id stamp) (rs_modality stamp) \<noteq> rs_version_at_read stamp) read_set"

definition increment_all :: "VersionTable \<Rightarrow> 'ts UndoEntry list \<Rightarrow> VersionTable" where
  "increment_all vt log =
    foldl (\<lambda>vt entry. fst (VersionTable_increment vt (ue_entity_id entry) (ue_modality entry))) vt log"

definition TM_commit ::
  "'ts \<Rightarrow> 'ts TransactionManager \<Rightarrow> uuid \<Rightarrow> 'ts TransactionManager \<times> (TransactionError, unit) rresult" where
  "TM_commit now tm transaction_id =
    (case TM_active tm transaction_id of
       Inl e \<Rightarrow> (tm, Inl e)
     | Inr txn \<Rightarrow>
         (case (if tx_isolation_level txn = Serializable
                then failed_stamp (tm_version_table tm) (tx_read_set txn) else None) of
            Some stamp \<Rightarrow>
              (TM_release_all (TM_put tm transaction_id
                 (txn\<lparr>tx_state := RolledBack, tx_completed_at := Some now\<rparr>)) transaction_id,
               Inl (VersionConflict (rs_entity_id stamp) (rs_version_at_read stamp)
                 (VersionTable_get (tm_version_table tm) (rs_entity_id stamp) (rs_modality stamp))))
          | None \<Rightarrow>
              (TM_release_all (TM_put
                 (tm\<lparr>tm_version_table := increment_all (tm_version_table tm) (tx_undo_log txn)\<rparr>)
                 transaction_id (txn\<lparr>tx_state := Committed, tx_completed_at := Some now\<rparr>)) transaction_id,
               Inr ())))"

definition TM_rollback ::
  "'ts \<Rightarrow> 'ts TransactionManager \<Rightarrow> uuid
   \<Rightarrow> 'ts TransactionManager \<times> (TransactionError, 'ts UndoEntry list) rresult" where
  "TM_rollback now tm transaction_id =
    (case TM_active tm transaction_id of
       Inl e \<Rightarrow> (tm, Inl e)
     | Inr txn \<Rightarrow>
         (TM_release_all (TM_put tm transaction_id
            (txn\<lparr>tx_state := RolledBack, tx_completed_at := Some now\<rparr>)) transaction_id,
          Inr (rev (tx_undo_log txn))))"

text \<open>The last section of \<open>acquire_lock\<close>: the transaction's own record of the lock.\<close>

definition TM_note_lock ::
  "'ts TransactionManager \<Rightarrow> uuid \<Rightarrow> string \<Rightarrow> string \<Rightarrow> LockType \<Rightarrow> 'ts TransactionManager" where
  "TM_note_lock tm transaction_id entity_id modality lock_type =
    (case map_of (tm_active_transactions tm) transaction_id of
       None \<Rightarrow> tm
     | Some txn \<Rightarrow>
         TM_put tm transaction_id (txn\<lparr>tx_locks :=
           filter (\<lambda>l. \<not> (le_entity_id l = entity_id \<and> le_modality l = modality)) (tx_locks txn)
           @ [\<lparr>le_entity_id = entity_id, le_modality = modality, le_lock_type = lock_type\<rparr>]\<rparr>))"

definition TM_acquire_lock ::
  "(uuid list \<Rightarrow> uuid list) \<Rightarrow> 'ts TransactionManager \<Rightarrow> uuid \<Rightarrow> string \<Rightarrow> string \<Rightarrow> LockType
   \<Rightarrow> 'ts TransactionManager \<times> (TransactionError, unit) rresult" where
  "TM_acquire_lock iter tm transaction_id entity_id modality lock_type =
    (if modality \<notin> set MODALITIES then (tm, Inl (InvalidModality modality))
     else case TM_active tm transaction_id of
            Inl e \<Rightarrow> (tm, Inl e)
          | Inr txn \<Rightarrow>
              (case LockTable_acquire iter (tm_lock_table tm) transaction_id entity_id modality lock_type of
                 (lt, Inl e) \<Rightarrow> (tm\<lparr>tm_lock_table := lt\<rparr>, Inl e)
               | (lt, Inr _) \<Rightarrow>
                   (TM_note_lock (tm\<lparr>tm_lock_table := lt\<rparr>) transaction_id entity_id modality lock_type, Inr ())))"

definition TM_record_undo ::
  "'ts \<Rightarrow> 'ts TransactionManager \<Rightarrow> uuid \<Rightarrow> string \<Rightarrow> string \<Rightarrow> bytes option \<Rightarrow> u64
   \<Rightarrow> 'ts TransactionManager \<times> (TransactionError, unit) rresult" where
  "TM_record_undo now tm transaction_id entity_id modality previous_data previous_version =
    (if modality \<notin> set MODALITIES then (tm, Inl (InvalidModality modality))
     else case TM_active tm transaction_id of
            Inl e \<Rightarrow> (tm, Inl e)
          | Inr txn \<Rightarrow>
              (TM_put tm transaction_id (txn\<lparr>tx_undo_log := tx_undo_log txn @
                 [\<lparr>ue_entity_id = entity_id, ue_modality = modality, ue_previous_data = previous_data,
                   ue_previous_version = previous_version, ue_recorded_at = now\<rparr>]\<rparr>), Inr ()))"

text \<open>The second section of \<open>record_read\<close>, given the version read in the first.\<close>

definition TM_note_read ::
  "'ts TransactionManager \<Rightarrow> uuid \<Rightarrow> string \<Rightarrow> string \<Rightarrow> u64
   \<Rightarrow> 'ts TransactionManager \<times> (TransactionError, unit) rresult" where
  "TM_note_read tm transaction_id entity_id modality current_version =
    (case TM_active tm transaction_id of
       Inl e \<Rightarrow> (tm, Inl e)
     | Inr txn \<Rightarrow>
         (TM_put tm transaction_id (txn\<lparr>tx_read_set := tx_read_set txn @
            [\<lparr>rs_entity_id = entity_id, rs_modality = modality, rs_version_at_read = current_version\<rparr>]\<rparr>),
          Inr ()))"

definition TM_current_version :: "'ts TransactionManager \<Rightarrow> string \<Rightarrow> string \<Rightarrow> u64" where
  "TM_current_version tm entity_id modality = VersionTable_get (tm_version_table tm) entity_id modality"

definition TM_record_read ::
  "'ts TransactionManager \<Rightarrow> uuid \<Rightarrow> string \<Rightarrow> string
   \<Rightarrow> 'ts TransactionManager \<times> (TransactionError, unit) rresult" where
  "TM_record_read tm transaction_id entity_id modality =
    (if modality \<notin> set MODALITIES then (tm, Inl (InvalidModality modality))
     else TM_note_read tm transaction_id entity_id modality
            (VersionTable_get (tm_version_table tm) entity_id modality))"

definition TM_set_version ::
  "'ts TransactionManager \<Rightarrow> string \<Rightarrow> string \<Rightarrow> u64 \<Rightarrow> 'ts TransactionManager" where
  "TM_set_version tm entity_id modality version =
     tm\<lparr>tm_version_table := VersionTable_set (tm_version_table tm) entity_id modality version\<rparr>"

definition TM_get_transaction_state :: "'ts TransactionManager \<Rightarrow> uuid \<Rightarrow> TransactionState option" where
  "TM_get_transaction_state tm t = map_option tx_state (map_of (tm_active_transactions tm) t)"

definition TM_active_count :: "'ts TransactionManager \<Rightarrow> nat" where
  "TM_active_count tm = length (filter (\<lambda>(t, txn). tx_state txn = Active) (tm_active_transactions tm))"

definition TM_is_locked :: "'ts TransactionManager \<Rightarrow> string \<Rightarrow> string \<Rightarrow> bool" where
  "TM_is_locked tm = LockTable_is_locked (tm_lock_table tm)"

definition TM_lock_holders :: "'ts TransactionManager \<Rightarrow> string \<Rightarrow> string \<Rightarrow> (uuid \<times> LockType) list" where
  "TM_lock_holders tm = LockTable_holders (tm_lock_table tm)"

definition TM_purge_completed :: "'ts TransactionManager \<Rightarrow> 'ts TransactionManager \<times> nat" where
  "TM_purge_completed tm =
    (let before = length (tm_active_transactions tm);
         txns = filter (\<lambda>(t, txn). tx_state txn = Active) (tm_active_transactions tm)
     in (tm\<lparr>tm_active_transactions := txns\<rparr>, before - length txns))"

section \<open>Runs of operations\<close>

datatype 'ts txn_op =
    Begin uuid 'ts IsolationLevel
  | Commit 'ts uuid
  | Rollback 'ts uuid
  | AcquireLock uuid string string LockType
  | RecordUndo 'ts uuid string string "bytes option" u64
  | RecordRead uuid string string
  | SetVersion string string u64
  | PurgeCompleted

fun tm_step :: "(uuid list \<Rightarrow> uuid list) \<Rightarrow> 'ts TransactionManager \<Rightarrow> 'ts txn_op \<Rightarrow> 'ts TransactionManager" where
  "tm_step iter tm (Begin t now lvl) = fst (TM_begin t now tm lvl)"
| "tm_step iter tm (Commit now t) = fst (TM_commit now tm t)"
| "tm_step iter tm (Rollback now t) = fst (TM_rollback now tm t)"
| "tm_step iter tm (AcquireLock t e m ty) = fst (TM_acquire_lock iter tm t e m ty)"
| "tm_step iter tm (RecordUndo now t e m d v) = fst (TM_record_undo now tm t e m d v)"
| "tm_step iter tm (RecordRead t e m) = fst (TM_record_read tm t e m)"
| "tm_step iter tm (SetVersion e m v) = TM_set_version tm e m v"
| "tm_step iter tm PurgeCompleted = fst (TM_purge_completed tm)"

definition tm_run :: "(uuid list \<Rightarrow> uuid list) \<Rightarrow> 'ts TransactionManager \<Rightarrow> 'ts txn_op list \<Rightarrow> 'ts TransactionManager" where
  "tm_run iter = foldl (tm_step iter)"

lemmas tm_op_defs =
  TM_begin_def TM_commit_def TM_rollback_def TM_acquire_lock_def TM_record_undo_def TM_record_read_def
  TM_note_read_def TM_note_lock_def TM_set_version_def TM_purge_completed_def TM_release_all_def TM_put_def Let_def

section \<open>Frame facts\<close>

abbreviation txn_of :: "'ts TransactionManager \<Rightarrow> uuid \<Rightarrow> 'ts Transaction option" where
  "txn_of tm t \<equiv> map_of (tm_active_transactions tm) t"

lemma txn_of_put [simp, txn_simps]: "txn_of (TM_put tm t txn) u = (if u = t then Some txn else txn_of tm u)"
  by (simp add: TM_put_def update_conv')

lemma put_frame [simp, txn_simps]:
  "tm_lock_table (TM_put tm t txn) = tm_lock_table tm" "tm_version_table (TM_put tm t txn) = tm_version_table tm"
  by (simp_all add: TM_put_def)

lemma release_frame [simp, txn_simps]:
  "tm_active_transactions (TM_release_all tm t) = tm_active_transactions tm"
  "tm_version_table (TM_release_all tm t) = tm_version_table tm"
  "tm_lock_table (TM_release_all tm t) = LockTable_release_all (tm_lock_table tm) t"
  by (simp_all add: TM_release_all_def)

lemma TM_active_Inr: "TM_active tm t = Inr txn \<longleftrightarrow> txn_of tm t = Some txn \<and> tx_state txn = Active"
  by (auto simp: TM_active_def split: option.splits)

lemma TM_active_lock_table [simp]: "TM_active (tm\<lparr>tm_lock_table := lt\<rparr>) t = TM_active tm t"
  by (simp add: TM_active_def)

lemma note_lock_frame [simp]:
  "tm_lock_table (TM_note_lock tm t e m ty) = tm_lock_table tm"
  "tm_version_table (TM_note_lock tm t e m ty) = tm_version_table tm"
  by (simp_all add: TM_note_lock_def split: option.splits)

section \<open>No lock outlives its transaction\<close>

definition tm_inv :: "'ts TransactionManager \<Rightarrow> bool" where
  "tm_inv tm \<longleftrightarrow> distinct (map fst (tm_active_transactions tm)) \<and> lock_table_inv (tm_lock_table tm)
     \<and> (\<forall>key. \<forall>h \<in> set (holders_of (tm_lock_table tm) key).
          \<exists>txn. txn_of tm (li_holder h) = Some txn \<and> tx_state txn = Active)"

lemma tm_inv_new: "tm_inv TM_new"
  by (simp add: tm_inv_def TM_new_def LockTable_new_def lock_table_inv_def holders_of_def)

lemma tm_inv_put: "tm_inv tm \<Longrightarrow> tx_state txn = Active \<Longrightarrow> tm_inv (TM_put tm t txn)"
  unfolding tm_inv_def by (auto simp: TM_put_def update_conv' distinct_update)

lemma tm_inv_version [simp]: "tm_inv (tm\<lparr>tm_version_table := vt\<rparr>) = tm_inv tm"
  by (simp add: tm_inv_def)

lemma tm_inv_finish:
  assumes "tm_inv tm"
  shows "tm_inv (TM_release_all (TM_put tm t txn) t)"
  using assms lock_table_inv_release
  unfolding tm_inv_def
  by (auto simp: holders_release TM_put_def update_conv' distinct_update)

lemma set_holders_acquire:
  assumes "LockTable_acquire iter lt t e m ty = (lt', r)" and "h \<in> set (holders_of lt' key)"
  shows "li_holder h = t \<or> h \<in> set (holders_of lt key)"
  using assms(1) refl refl
proof (cases rule: acquire_locks)
  case error
  then show ?thesis using assms(2) holders_of_cong by metis
next
  case already
  then show ?thesis using assms(2) by simp
next
  case granted
  then show ?thesis using assms(2) by (auto simp: holders_of_grant split: if_splits)
qed

lemma tm_inv_acquire:
  assumes "tm_inv tm" and "TM_active tm t = Inr txn" and "LockTable_acquire iter (tm_lock_table tm) t e m ty = (lt', r)"
  shows "tm_inv (tm\<lparr>tm_lock_table := lt'\<rparr>)"
  using assms(1,2) set_holders_acquire [OF assms(3)] lock_table_inv_acquire [OF _ assms(3)]
  unfolding tm_inv_def by (auto simp: TM_active_Inr) metis

lemma tm_inv_note_lock: "tm_inv tm \<Longrightarrow> TM_active tm t = Inr txn \<Longrightarrow> tm_inv (TM_note_lock tm t e m ty)"
  by (auto simp: TM_note_lock_def TM_active_Inr intro!: tm_inv_put split: option.splits)

lemma tm_inv_purge: "tm_inv tm \<Longrightarrow> tm_inv (fst (TM_purge_completed tm))"
  unfolding tm_inv_def TM_purge_completed_def Let_def
  by (auto simp: distinct_map_filter)

lemma tm_inv_step: "tm_inv tm \<Longrightarrow> tm_inv (tm_step iter tm op)"
proof (induction iter tm op rule: tm_step.induct)
  case (4 iter tm t e m ty)
  obtain lt r where acq: "LockTable_acquire iter (tm_lock_table tm) t e m ty = (lt, r)" by fastforce
  have "tm_inv (fst (TM_acquire_lock iter tm t e m ty))" if act: "TM_active tm t = Inr txn" for txn
    using tm_inv_acquire [OF 4 act acq] tm_inv_note_lock [of "tm\<lparr>tm_lock_table := lt\<rparr>" t txn e m ty] 4 act acq
    by (cases r) (auto simp: TM_acquire_lock_def)
  with 4 show ?case
    by (cases "TM_active tm t") (auto simp: TM_acquire_lock_def)
next
  case (8 iter tm)
  then show ?case by (simp add: tm_inv_purge)
qed (auto simp: TM_begin_def TM_commit_def TM_rollback_def TM_record_undo_def TM_record_read_def TM_note_read_def
       TM_set_version_def Let_def Transaction_new_def TM_active_Inr
       intro!: tm_inv_put tm_inv_finish split: sum.splits option.splits)

lemma tm_inv_run: "tm_inv tm \<Longrightarrow> tm_inv (tm_run iter tm ops)"
  by (induction ops arbitrary: tm) (simp_all add: tm_run_def tm_inv_step)

text \<open>No lock outlives its transaction: in every state reached by any sequence of operations, the
  holders of each entity and modality are compatible (an exclusive holder is alone, nobody holds
  twice), and every holder is a transaction that is still active.
\<close>

theorem locks_held_by_active:
  shows "compatible (holders_of (tm_lock_table (tm_run iter TM_new ops)) key) \<and>
    (\<forall>h. h \<in> set (holders_of (tm_lock_table (tm_run iter TM_new ops)) key) \<longrightarrow>
       TM_get_transaction_state (tm_run iter TM_new ops) (li_holder h) = Some Active)"
  using tm_inv_run [OF tm_inv_new, of iter ops] lock_table_invD
  by (fastforce simp: tm_inv_def TM_get_transaction_state_def)

theorem locks_held_by_active_witness:
  "\<exists>tm :: nat TransactionManager. tm = tm_run id TM_new [Begin 1 0 Serializable, AcquireLock 1 ''e1'' ''document'' Exclusive]
     \<and> holders_of (tm_lock_table tm) doc_key = [\<lparr>li_holder = 1, li_lock_type = Exclusive\<rparr>]
     \<and> TM_get_transaction_state tm 1 = Some Active"
proof -
  let ?ops = "[Begin 1 0 Serializable, AcquireLock 1 ''e1'' ''document'' Exclusive] :: nat txn_op list"
  have h: "holders_of (tm_lock_table (tm_run id TM_new ?ops)) doc_key = [\<lparr>li_holder = 1, li_lock_type = Exclusive\<rparr>]"
    by (simp add: tm_run_def tm_op_defs TM_active_def Transaction_new_def TM_new_def LockTable_new_def LockTable_acquire_def
        MODALITIES_def holders_of_def doc_key_def)
  from locks_held_by_active [of id ?ops doc_key] show ?thesis
    unfolding h by (intro exI [of _ "tm_run id TM_new ?ops"]) (simp add: h)
qed

section \<open>Completed transactions\<close>

lemma TM_active_cases:
  obtains (missing) "txn_of tm t = None" "TM_active tm t = Inl (TransactionNotFound t)"
  | (completed) txn where "txn_of tm t = Some txn" "tx_state txn \<noteq> Active"
      "TM_active tm t = Inl (InvalidState t (tx_state txn) ''Active'')"
  | (active) txn where "txn_of tm t = Some txn" "tx_state txn = Active" "TM_active tm t = Inr txn"
  by (cases "txn_of tm t") (auto simp: TM_active_def)

lemma gone_step:
  assumes "txn_of tm t = None" and "\<forall>now lvl. op \<noteq> Begin t now lvl"
  shows "txn_of (tm_step iter tm op) t = None"
  using assms
proof (cases op)
  case PurgeCompleted
  then show ?thesis using assms
    by (auto simp: TM_purge_completed_def Let_def map_of_eq_None_iff)
qed (auto simp: TM_begin_def TM_commit_def TM_rollback_def TM_acquire_lock_def TM_note_lock_def TM_record_undo_def
       TM_record_read_def TM_note_read_def TM_set_version_def Transaction_new_def TM_active_Inr Let_def
       split: sum.splits option.splits prod.splits)

lemma completed_step:
  assumes "txn_of tm t = Some txn" and "tx_state txn \<noteq> Active" and "\<forall>now lvl. op \<noteq> Begin t now lvl"
    and "op \<noteq> PurgeCompleted"
  shows "txn_of (tm_step iter tm op) t = Some txn"
  using assms
  by (cases op)
     (auto simp: TM_begin_def TM_commit_def TM_rollback_def TM_acquire_lock_def TM_note_lock_def TM_record_undo_def
       TM_record_read_def TM_note_read_def TM_set_version_def Transaction_new_def TM_active_Inr Let_def
       split: sum.splits option.splits prod.splits)

lemma purge_txn_of:
  assumes "distinct (map fst (tm_active_transactions tm))"
  shows "txn_of (fst (TM_purge_completed tm)) t =
    (case txn_of tm t of None \<Rightarrow> None | Some txn \<Rightarrow> if tx_state txn = Active then Some txn else None)"
proof -
  have "map_of (filter (\<lambda>(t, txn). tx_state txn = Active) xs) t =
      (case map_of xs t of None \<Rightarrow> None | Some txn \<Rightarrow> if tx_state txn = Active then Some txn else None)"
    if "distinct (map fst xs)" for xs :: "(uuid \<times> 'a Transaction) list"
    using that by (induction xs) (auto simp: map_of_eq_None_iff split: option.splits)
  with assms show ?thesis by (simp add: TM_purge_completed_def Let_def)
qed

lemma final_run:
  assumes "tm_inv tm" and "txn_of tm t = None \<or> txn_of tm t = Some txn" and "tx_state txn \<noteq> Active"
    and "\<forall>op \<in> set ops. \<forall>now lvl. op \<noteq> Begin t now lvl"
  shows "txn_of (tm_run iter tm ops) t = None \<or> txn_of (tm_run iter tm ops) t = Some txn"
  using assms
proof (induction ops arbitrary: tm)
  case (Cons op ops)
  have "txn_of (tm_step iter tm op) t = None \<or> txn_of (tm_step iter tm op) t = Some txn"
  proof (cases "op = PurgeCompleted")
    case True
    then show ?thesis using Cons.prems(1-3) by (auto simp: tm_inv_def purge_txn_of)
  next
    case False
    then show ?thesis using Cons.prems gone_step [of tm t op iter] completed_step [of tm t txn op iter] by auto
  qed
  then show ?case
    using Cons.IH [of "tm_step iter tm op"] tm_inv_step Cons.prems by (auto simp: tm_run_def)
qed (simp add: tm_run_def)

text \<open>\<open>Committed\<close> and \<open>RolledBack\<close> are final: every operation on such a transaction fails with
  \<open>InvalidState\<close> and changes nothing, and through any later operations the transaction keeps its
  state until it is purged (or its identifier is issued again).
\<close>

theorem completed_is_final:
  assumes "tm = tm_run iter TM_new before" and "TM_get_transaction_state tm t = Some s" and "s \<noteq> Active"
    and "m \<in> set MODALITIES" and "\<forall>op \<in> set ops. \<forall>now lvl. op \<noteq> Begin t now lvl"
  shows "TM_commit now tm t = (tm, Inl (InvalidState t s ''Active''))
    \<and> TM_rollback now tm t = (tm, Inl (InvalidState t s ''Active''))
    \<and> TM_acquire_lock iter tm t e m ty = (tm, Inl (InvalidState t s ''Active''))
    \<and> TM_record_undo now tm t e m d v = (tm, Inl (InvalidState t s ''Active''))
    \<and> TM_record_read tm t e m = (tm, Inl (InvalidState t s ''Active''))
    \<and> TM_get_transaction_state (tm_run iter tm ops) t \<in> {None, Some s}"
proof -
  from assms(2) obtain txn where txn: "txn_of tm t = Some txn" "tx_state txn = s"
    by (auto simp: TM_get_transaction_state_def)
  have "tm_inv tm" using tm_inv_run [OF tm_inv_new] assms(1) by simp
  then have "TM_get_transaction_state (tm_run iter tm ops) t \<in> {None, Some s}"
    using final_run [of tm t txn ops iter] txn assms(3,5) by (auto simp: TM_get_transaction_state_def)
  then show ?thesis
    using txn assms(3,4)
    by (simp add: TM_active_def TM_commit_def TM_rollback_def TM_acquire_lock_def TM_record_undo_def
        TM_record_read_def TM_note_read_def)
qed

theorem completed_is_final_witness:
  "\<exists>tm :: nat TransactionManager. TM_get_transaction_state tm 1 = Some Committed \<and>
     TM_rollback 3 tm 1 = (tm, Inl (InvalidState 1 Committed ''Active'')) \<and>
     TM_get_transaction_state (tm_run id tm [Begin 2 4 ReadCommitted, PurgeCompleted]) 1 \<in> {None, Some Committed}"
proof -
  let ?tm = "tm_run id TM_new [Begin 1 0 Serializable, Commit 1 1] :: nat TransactionManager"
  have st: "TM_get_transaction_state ?tm 1 = Some Committed"
    by (simp add: tm_run_def TM_begin_def TM_commit_def TM_active_def Transaction_new_def failed_stamp_def
        TM_get_transaction_state_def TM_new_def Let_def)
  have "''graph'' \<in> set MODALITIES" by (simp add: MODALITIES_def)
  from completed_is_final [OF refl st _ this, of "[Begin 2 4 ReadCommitted, PurgeCompleted]" 3] st show ?thesis
    by (intro exI [of _ ?tm]) simp
qed

section \<open>Serializable commits\<close>

lemma increment_all_get:
  "VersionTable_get (increment_all vt log) e m =
     VersionTable_get vt e m + of_nat (length (filter (\<lambda>u. ue_entity_id u = e \<and> ue_modality u = m) log))"
proof (induction log arbitrary: vt)
  case (Cons u log)
  have "VersionTable_get (fst (VersionTable_increment vt (ue_entity_id u) (ue_modality u))) e m =
      VersionTable_get vt e m + (if ue_entity_id u = e \<and> ue_modality u = m then 1 else 0)"
    by (auto simp: VersionTable_increment_def VersionTable_get_def Let_def)
  with Cons.IH show ?case by (simp add: increment_all_def)
qed (simp add: increment_all_def)

text \<open>How many writes of an entity and modality an operation commits, and a run of operations.\<close>

definition committed_writes :: "'ts TransactionManager \<Rightarrow> 'ts txn_op \<Rightarrow> string \<Rightarrow> string \<Rightarrow> nat" where
  "committed_writes tm op e m =
    (case op of
       Commit now t \<Rightarrow>
         (case (TM_commit now tm t, txn_of tm t) of
            ((_, Inr _), Some txn) \<Rightarrow>
              length (filter (\<lambda>u. ue_entity_id u = e \<and> ue_modality u = m) (tx_undo_log txn))
          | _ \<Rightarrow> 0)
     | _ \<Rightarrow> 0)"

fun total_writes ::
  "(uuid list \<Rightarrow> uuid list) \<Rightarrow> 'ts TransactionManager \<Rightarrow> 'ts txn_op list \<Rightarrow> string \<Rightarrow> string \<Rightarrow> nat" where
  "total_writes iter tm [] e m = 0"
| "total_writes iter tm (op # ops) e m =
    committed_writes tm op e m + total_writes iter (tm_step iter tm op) ops e m"

lemma version_step:
  assumes "\<forall>v. op \<noteq> SetVersion e m v"
  shows "TM_current_version (tm_step iter tm op) e m =
    TM_current_version tm e m + of_nat (committed_writes tm op e m)"
proof (cases op)
  case (Commit now t)
  then show ?thesis
    by (cases rule: TM_active_cases [of tm t])
       (auto simp: TM_current_version_def committed_writes_def TM_commit_def increment_all_get split: option.splits)
next
  case (SetVersion e' m' v)
  with assms show ?thesis
    by (auto simp: TM_current_version_def committed_writes_def TM_set_version_def VersionTable_set_def VersionTable_get_def)
qed (auto simp: TM_current_version_def committed_writes_def TM_begin_def TM_rollback_def TM_acquire_lock_def
       TM_record_undo_def TM_record_read_def TM_note_read_def TM_purge_completed_def Let_def
       split: sum.splits prod.splits)

lemma version_run:
  assumes "\<forall>op \<in> set ops. \<forall>v. op \<noteq> SetVersion e m v"
  shows "TM_current_version (tm_run iter tm ops) e m =
    TM_current_version tm e m + of_nat (total_writes iter tm ops e m)"
  using assms
  by (induction ops arbitrary: tm) (simp_all add: tm_run_def version_step add.assoc)

lemma serializable_commit:
  assumes "TM_commit now tm t = (tm', Inr ())" and "txn_of tm t = Some txn" and "tx_isolation_level txn = Serializable"
    and "stamp \<in> set (tx_read_set txn)"
  shows "TM_current_version tm (rs_entity_id stamp) (rs_modality stamp) = rs_version_at_read stamp"
  using assms
  by (auto simp: TM_commit_def TM_active_def failed_stamp_def find_None_iff TM_current_version_def
      split: if_splits option.splits)

text \<open>A read stamp and the isolation level stay with a transaction while it is active.\<close>

definition has_stamp :: "'ts TransactionManager \<Rightarrow> uuid \<Rightarrow> ReadStamp \<Rightarrow> IsolationLevel \<Rightarrow> bool" where
  "has_stamp tm t stamp lvl \<longleftrightarrow> (\<forall>txn. txn_of tm t = Some txn \<longrightarrow>
      stamp \<in> set (tx_read_set txn) \<and> tx_isolation_level txn = lvl)"

lemma has_stamp_step:
  assumes "tm_inv tm" and "has_stamp tm t stamp lvl" and "\<forall>now lvl. op \<noteq> Begin t now lvl"
  shows "has_stamp (tm_step iter tm op) t stamp lvl"
proof (cases "op = PurgeCompleted")
  case True
  then show ?thesis
    using assms(1,2) by (auto simp: has_stamp_def tm_inv_def purge_txn_of split: option.splits if_splits)
next
  case False
  then show ?thesis
    using assms(2,3)
    by (cases op)
       (auto simp: has_stamp_def TM_begin_def TM_commit_def TM_rollback_def TM_acquire_lock_def TM_note_lock_def
         TM_record_undo_def TM_record_read_def TM_note_read_def TM_set_version_def Transaction_new_def TM_active_Inr
         Let_def split: sum.splits option.splits prod.splits if_splits)
qed

lemma has_stamp_run:
  assumes "tm_inv tm" and "has_stamp tm t stamp lvl" and "\<forall>op \<in> set ops. \<forall>now lvl. op \<noteq> Begin t now lvl"
  shows "has_stamp (tm_run iter tm ops) t stamp lvl"
  using assms by (induction ops arbitrary: tm) (simp_all add: tm_run_def tm_inv_step has_stamp_step)

text \<open>C4: A \<open>Serializable\<close> transaction commits only if nothing it read was overwritten: when
  \<open>record_read\<close> succeeded and, after any operations of any transactions, its commit succeeds, no
  transaction committed a write to what it read in between. (The versions are 64-bit counters: fewer
  than \<open>2^64\<close> writes; \<open>set_version\<close> on that pair, meant for recovery, is excluded.)
\<close>

theorem serializable_commit_no_intervening_write:
  assumes "tm0 = tm_run iter TM_new before" and "TM_record_read tm0 t e m = (tm1, Inr ())"
    and "txn_of tm0 t = Some txn" and "tx_isolation_level txn = Serializable"
    and "\<forall>op \<in> set ops. (\<forall>now lvl. op \<noteq> Begin t now lvl) \<and> (\<forall>v. op \<noteq> SetVersion e m v)"
    and "total_writes iter tm1 ops e m < 2 ^ 64"
    and "TM_commit now (tm_run iter tm1 ops) t = (tm2, Inr ())"
  shows "total_writes iter tm1 ops e m = 0"
proof -
  let ?stamp = "\<lparr>rs_entity_id = e, rs_modality = m, rs_version_at_read = TM_current_version tm0 e m\<rparr>"
  have inv0: "tm_inv tm0" using tm_inv_run [OF tm_inv_new] assms(1) by simp
  have st: "has_stamp tm1 t ?stamp Serializable" and v1: "TM_current_version tm1 e m = TM_current_version tm0 e m"
    using assms(2-4)
    by (auto simp: has_stamp_def TM_record_read_def TM_note_read_def TM_active_def TM_current_version_def
        split: if_splits option.splits sum.splits)
  have "tm_inv tm1" using tm_inv_step [OF inv0, of iter "RecordRead t e m"] assms(2) by simp
  then have "has_stamp (tm_run iter tm1 ops) t ?stamp Serializable"
    using has_stamp_run [OF _ st] assms(5) by blast
  moreover obtain txn' where txn': "txn_of (tm_run iter tm1 ops) t = Some txn'"
    using assms(7) by (cases rule: TM_active_cases [of "tm_run iter tm1 ops" t]) (auto simp: TM_commit_def)
  ultimately have "TM_current_version (tm_run iter tm1 ops) e m = TM_current_version tm0 e m"
    using serializable_commit [OF assms(7) txn', of ?stamp] by (simp add: has_stamp_def)
  then have "of_nat (total_writes iter tm1 ops e m) = (0 :: u64)"
    using version_run [of ops e m iter tm1] assms(5) v1 by simp
  then have "unat (of_nat (total_writes iter tm1 ops e m) :: u64) = 0" by simp
  then show ?thesis using assms(6) by (simp add: unat_of_nat)
qed

theorem serializable_commit_no_intervening_write_witness:
  "\<exists>tm1 tm2 :: nat TransactionManager. TM_record_read (tm_run id TM_new [Begin 1 0 Serializable]) 1 ''e'' ''graph'' = (tm1, Inr ())
    \<and> TM_commit 9 (tm_run id tm1 [RecordUndo 5 1 ''f'' ''graph'' None 0]) 1 = (tm2, Inr ())
    \<and> total_writes id tm1 [RecordUndo 5 1 ''f'' ''graph'' None 0] ''e'' ''graph'' = 0"
proof -
  let ?tm0 = "tm_run id TM_new [Begin 1 0 Serializable] :: nat TransactionManager"
  let ?ops = "[RecordUndo 5 1 ''f'' ''graph'' None 0] :: nat txn_op list"
  obtain tm1 where r: "TM_record_read ?tm0 1 ''e'' ''graph'' = (tm1, Inr ())"
    and txn: "txn_of ?tm0 1 = Some (Transaction_new 1 0 Serializable)"
    by (simp add: tm_run_def TM_begin_def TM_new_def Transaction_new_def TM_record_read_def TM_note_read_def
        TM_active_def MODALITIES_def Let_def)
  obtain tm2 where c: "TM_commit 9 (tm_run id tm1 ?ops) 1 = (tm2, Inr ())"
    using r
    by (auto simp: tm_run_def TM_begin_def TM_new_def Transaction_new_def TM_record_read_def TM_note_read_def
        TM_record_undo_def TM_commit_def TM_active_def MODALITIES_def failed_stamp_def VersionTable_get_def Let_def)
  have "total_writes id tm1 ?ops ''e'' ''graph'' = 0"
    by (rule serializable_commit_no_intervening_write [OF refl r txn _ _ _ c])
       (simp_all add: Transaction_new_def committed_writes_def)
  with r c show ?thesis by blast
qed

section \<open>Rollback\<close>

text \<open>
  A client as the manager expects it: before it changes an entity and modality it records the data
  it overwrites; to undo, it applies the entries \<open>rollback\<close> returns, in that order.
\<close>

type_synonym data_store = "string \<times> string \<rightharpoonup> bytes"

definition client_write ::
  "'ts \<Rightarrow> uuid \<Rightarrow> 'ts TransactionManager \<times> data_store \<Rightarrow> string \<times> string \<times> bytes option
   \<Rightarrow> 'ts TransactionManager \<times> data_store" where
  "client_write now t st w = (case (st, w) of ((tm, store), (e, m, data)) \<Rightarrow>
     (case TM_record_undo now tm t e m (store (e, m)) (TM_current_version tm e m) of
        (tm, Inr _) \<Rightarrow> (tm, store((e, m) := data))
      | (tm, Inl _) \<Rightarrow> (tm, store)))"

definition apply_undo :: "data_store \<Rightarrow> 'ts UndoEntry \<Rightarrow> data_store" where
  "apply_undo store u = store((ue_entity_id u, ue_modality u) := ue_previous_data u)"

definition undoes :: "'ts TransactionManager \<Rightarrow> uuid \<Rightarrow> data_store \<Rightarrow> data_store \<Rightarrow> bool" where
  "undoes tm t store store0 \<longleftrightarrow> (\<exists>txn. TM_active tm t = Inr txn \<and>
     foldl apply_undo store (rev (tx_undo_log txn)) = store0)"

lemma undoes_write:
  assumes "undoes tm t store store0" and "client_write now t (tm, store) w = (tm', store')"
  shows "undoes tm' t store' store0"
proof -
  from assms(1) obtain txn where txn: "TM_active tm t = Inr txn"
    and un: "foldl apply_undo store (rev (tx_undo_log txn)) = store0"
    by (auto simp: undoes_def)
  obtain e m data where w: "w = (e, m, data)" by (cases w)
  show ?thesis
  proof (cases "m \<in> set MODALITIES")
    case True
    let ?u = "\<lparr>ue_entity_id = e, ue_modality = m, ue_previous_data = store (e, m),
        ue_previous_version = TM_current_version tm e m, ue_recorded_at = now\<rparr>"
    have "tm' = TM_put tm t (txn\<lparr>tx_undo_log := tx_undo_log txn @ [?u]\<rparr>)" "store' = store((e, m) := data)"
      using assms(2) True txn by (simp_all add: client_write_def w TM_record_undo_def)
    moreover have "apply_undo (store((e, m) := data)) ?u = store" by (simp add: apply_undo_def)
    ultimately show ?thesis using txn un by (simp add: undoes_def TM_active_Inr)
  next
    case False
    with assms show ?thesis by (simp add: client_write_def w TM_record_undo_def)
  qed
qed

lemma undoes_writes:
  "undoes tm t store store0 \<Longrightarrow> foldl (client_write now t) (tm, store) ws = (tm', store') \<Longrightarrow> undoes tm' t store' store0"
proof (induction ws arbitrary: tm store)
  case (Cons w ws)
  obtain tm1 store1 where w: "client_write now t (tm, store) w = (tm1, store1)" by fastforce
  with Cons.prems(2) show ?case
    using Cons.IH [OF undoes_write [OF Cons.prems(1) w]] by simp
qed simp

text \<open>Rolling back a transaction succeeds and restores the data: after \<open>begin\<close> and any sequence of
  recorded writes (several to one entity, inserts and deletes included), applying the entries
  \<open>rollback\<close> returns gives back exactly the data there was at the start.
\<close>

theorem rollback_restores_data:
  "case TM_begin t now0 tm lvl of (tm0, txn_id) \<Rightarrow>
     (case foldl (client_write now txn_id) (tm0, store0) ws of (tm1, store1) \<Rightarrow>
        \<exists>tm2 undo. TM_rollback now1 tm1 txn_id = (tm2, Inr undo) \<and> foldl apply_undo store1 undo = store0)"
proof -
  obtain tm0 where b: "TM_begin t now0 tm lvl = (tm0, t)" and "TM_active tm0 t = Inr (Transaction_new t now0 lvl)"
    by (simp add: TM_begin_def Let_def Transaction_new_def TM_active_def)
  then have "undoes tm0 t store0 store0" by (simp add: undoes_def Transaction_new_def)
  moreover obtain tm1 store1 where f: "foldl (client_write now t) (tm0, store0) ws = (tm1, store1)" by fastforce
  ultimately have "undoes tm1 t store1 store0" by (rule undoes_writes)
  with b f show ?thesis by (auto simp: undoes_def TM_rollback_def)
qed

text \<open>
  A \<open>Serializable\<close> commit that fails its validation marks the transaction \<open>RolledBack\<close> and
  releases its locks, but returns no undo entries, and \<open>rollback\<close> then refuses: the undo log of that
  transaction is never handed to the caller, although the failure is documented as a rollback.
\<close>

theorem failed_validation_withholds_undo:
  assumes "TM_commit now tm t = (tm', Inl (VersionConflict e expected actual))"
  shows "TM_get_transaction_state tm' t = Some RolledBack \<and>
    TM_rollback now' tm' t = (tm', Inl (InvalidState t RolledBack ''Active'')) \<and>
    (\<forall>key. t \<notin> li_holder ` set (holders_of (tm_lock_table tm') key))"
  using assms
  by (cases rule: TM_active_cases [of tm t])
     (auto simp: TM_commit_def TM_rollback_def TM_active_def TM_get_transaction_state_def holders_release
       split: option.splits if_splits)

definition stale_reader :: "nat TransactionManager" where
  "stale_reader = tm_run id TM_new
     [Begin 1 0 Serializable, RecordRead 1 ''e'' ''graph'', RecordUndo 1 1 ''e'' ''vector'' (Some [7]) 0,
      Begin 2 2 ReadCommitted, RecordUndo 3 2 ''e'' ''graph'' None 0, Commit 4 2]"

theorem failed_validation_withholds_undo_witness:
  "\<exists>tm'. TM_commit 5 stale_reader 1 = (tm', Inl (VersionConflict ''e'' 0 1)) \<and>
     TM_rollback 6 tm' 1 = (tm', Inl (InvalidState 1 RolledBack ''Active''))"
proof -
  obtain tm' where c: "TM_commit 5 stale_reader 1 = (tm', Inl (VersionConflict ''e'' 0 1))"
    by (simp add: stale_reader_def tm_run_def TM_begin_def TM_new_def Transaction_new_def TM_record_read_def
        TM_note_read_def TM_record_undo_def TM_commit_def TM_active_def MODALITIES_def failed_stamp_def
        increment_all_def VersionTable_increment_def VersionTable_get_def Let_def)
  from failed_validation_withholds_undo [OF c, of 6] c show ?thesis by blast
qed

end
