(* ===== verification/Transaction_Concurrent.thy ===== *)
theory Transaction_Concurrent
  imports Transaction
begin

text \<open>
  The transaction manager under concurrent clients (\<open>transaction.rs\<close>). \<open>acquire_lock\<close> is three
  critical sections (check under the transactions lock, acquire under the lock-table lock, note
  under the transactions lock) and \<open>record_read\<close> two (read the version, note it); the other
  operations hold the transactions lock from start to end. A step is one critical section of one
  client. Compatibility of holders survives every interleaving; that a lock ends with its
  transaction does not.
\<close>

section \<open>Steps\<close>

datatype pc =
    Idle
  | LockChecked uuid string string LockType
  | LockGranted uuid string string LockType
  | VersionRead uuid string string u64

type_synonym 'ts conc = "'ts TransactionManager \<times> (nat \<Rightarrow> pc)"

fun single_section :: "'ts txn_op \<Rightarrow> bool" where
  "single_section (AcquireLock t e m ty) = False"
| "single_section (RecordRead t e m) = False"
| "single_section op = True"

inductive conc_step :: "(uuid list \<Rightarrow> uuid list) \<Rightarrow> 'ts conc \<Rightarrow> 'ts conc \<Rightarrow> bool" for iter where
  whole: "pc c = Idle \<Longrightarrow> single_section op \<Longrightarrow> conc_step iter (tm, pc) (tm_step iter tm op, pc)"
| lock_check: "pc c = Idle \<Longrightarrow> m \<in> set MODALITIES \<Longrightarrow> TM_active tm t = Inr txn \<Longrightarrow>
    conc_step iter (tm, pc) (tm, pc(c := LockChecked t e m ty))"
| lock_grant: "pc c = LockChecked t e m ty \<Longrightarrow> LockTable_acquire iter (tm_lock_table tm) t e m ty = (lt, Inr ()) \<Longrightarrow>
    conc_step iter (tm, pc) (tm\<lparr>tm_lock_table := lt\<rparr>, pc(c := LockGranted t e m ty))"
| lock_fail: "pc c = LockChecked t e m ty \<Longrightarrow> LockTable_acquire iter (tm_lock_table tm) t e m ty = (lt, Inl err) \<Longrightarrow>
    conc_step iter (tm, pc) (tm\<lparr>tm_lock_table := lt\<rparr>, pc(c := Idle))"
| lock_note: "pc c = LockGranted t e m ty \<Longrightarrow>
    conc_step iter (tm, pc) (TM_note_lock tm t e m ty, pc(c := Idle))"
| read_version: "pc c = Idle \<Longrightarrow> m \<in> set MODALITIES \<Longrightarrow>
    conc_step iter (tm, pc) (tm, pc(c := VersionRead t e m (VersionTable_get (tm_version_table tm) e m)))"
| read_note: "pc c = VersionRead t e m v \<Longrightarrow>
    conc_step iter (tm, pc) (fst (TM_note_read tm t e m v), pc(c := Idle))"

inductive_cases conc_stepE: "conc_step iter st st'"

definition conc_reachable :: "(uuid list \<Rightarrow> uuid list) \<Rightarrow> 'ts conc \<Rightarrow> bool" where
  "conc_reachable iter st \<longleftrightarrow> (conc_step iter)\<^sup>*\<^sup>* (TM_new, \<lambda>_. Idle) st"

lemma reachable_step: "conc_reachable iter st \<Longrightarrow> conc_step iter st st' \<Longrightarrow> conc_reachable iter st'"
  unfolding conc_reachable_def by (rule rtranclp.rtrancl_into_rtrancl)

section \<open>Mutual exclusion under interleaving\<close>

lemma lock_inv_tm_step: "lock_table_inv (tm_lock_table tm) \<Longrightarrow> lock_table_inv (tm_lock_table (tm_step iter tm op))"
  by (cases op)
     (auto simp: TM_begin_def TM_commit_def TM_rollback_def TM_acquire_lock_def TM_record_undo_def TM_record_read_def
       TM_note_read_def TM_set_version_def TM_purge_completed_def Let_def
       intro: lock_table_inv_release lock_table_inv_acquire split: sum.splits option.splits prod.splits)

lemma lock_inv_conc_step:
  assumes "conc_step iter st st'" and "lock_table_inv (tm_lock_table (fst st))"
  shows "lock_table_inv (tm_lock_table (fst st'))"
  using assms
  by (induction rule: conc_step.induct)
     (auto simp: TM_note_read_def intro: lock_inv_tm_step lock_table_inv_acquire split: sum.splits)

lemma lock_inv_reachable:
  assumes "conc_reachable iter st"
  shows "lock_table_inv (tm_lock_table (fst st))"
  using assms unfolding conc_reachable_def
  by (induction rule: rtranclp_induct)
     (auto simp: TM_new_def lock_table_inv_new intro: lock_inv_conc_step)

lemma held_unique:
  assumes "lock_table_inv lt" and "(u, ty) \<in> held lt key" and "(u, ty') \<in> held lt key"
  shows "ty = ty'"
proof -
  from assms(2,3) obtain h h' where h: "h \<in> set (holders_of lt key)" "h' \<in> set (holders_of lt key)"
    "li_holder h = li_holder h'" "ty = li_lock_type h" "ty' = li_lock_type h'"
    by (auto simp: held_def)
  have "inj_on li_holder (set (holders_of lt key))"
    using lock_table_invD [OF assms(1)] by (simp add: compatible_def distinct_map)
  then have "h = h'" using h(1-3) by (meson inj_onD)
  with h show ?thesis by simp
qed

text \<open>However the critical sections of concurrent clients interleave, an exclusive lock on an
  entity and modality is never held together with any other lock on it, and no transaction
  appears twice among the holders.
\<close>

theorem conc_mutual_exclusion:
  assumes "conc_reachable iter st"
  shows "(t, Exclusive) \<in> held (tm_lock_table (fst st)) key \<longrightarrow> held (tm_lock_table (fst st)) key = {(t, Exclusive)}"
    (is "?E \<longrightarrow> _")
proof
  assume E: ?E
  note inv = lock_inv_reachable [OF assms]
  have only: "(u, ty) \<in> {(t, Exclusive)}" if u: "(u, ty) \<in> held (tm_lock_table (fst st)) key" for u ty
  proof -
    have "u = t" using held_exclusive_alone [OF inv E u] .
    moreover have "ty = Exclusive" using held_unique [OF inv u] E \<open>u = t\<close> by blast
    ultimately show ?thesis by simp
  qed
  have "held (tm_lock_table (fst st)) key \<subseteq> {(t, Exclusive)}" by (rule subrelI) (rule only)
  with E show "held (tm_lock_table (fst st)) key = {(t, Exclusive)}" by blast
qed

lemma locked_reachable:
  "\<exists>(tm :: nat TransactionManager) pc. conc_reachable id (tm, pc) \<and> (1, Exclusive) \<in> held (tm_lock_table tm) doc_key"
proof -
  define tm1 :: "nat TransactionManager" where "tm1 = tm_step id TM_new (Begin 1 0 ReadCommitted)"
  obtain lt where lt: "acquire_key id (tm_lock_table tm1) 1 doc_key Exclusive = (lt, Inr ())"
    by (simp add: tm1_def TM_begin_def Transaction_new_def TM_new_def LockTable_new_def LockTable_acquire_def Let_def)
  have act: "\<exists>txn. TM_active tm1 1 = Inr txn" "lk_modality doc_key \<in> set MODALITIES"
    by (simp_all add: tm1_def TM_begin_def TM_active_def Transaction_new_def MODALITIES_def doc_key_def Let_def)
  let ?checked = "(\<lambda>_. Idle)(0 := LockChecked 1 (lk_entity_id doc_key) (lk_modality doc_key) Exclusive) :: nat \<Rightarrow> pc"
  have "conc_reachable id (TM_new :: nat TransactionManager, \<lambda>_. Idle)" by (simp add: conc_reachable_def)
  then have "conc_reachable id (tm1, \<lambda>_. Idle)"
    unfolding tm1_def by (rule reachable_step) (rule conc_step.whole; simp)
  then have "conc_reachable id (tm1, ?checked)"
    by (rule reachable_step) (use act in \<open>auto intro: conc_step.lock_check\<close>)
  then have "conc_reachable id (tm1\<lparr>tm_lock_table := lt\<rparr>,
      ?checked(0 := LockGranted 1 (lk_entity_id doc_key) (lk_modality doc_key) Exclusive))"
    by (rule reachable_step) (rule conc_step.lock_grant [OF _ lt]; simp)
  moreover have "(1, Exclusive) \<in> held lt doc_key" using held_acquire_ok [OF lt] by auto
  ultimately show ?thesis by fastforce
qed

theorem conc_mutual_exclusion_witness:
  "\<exists>(tm :: nat TransactionManager) pc. conc_reachable id (tm, pc) \<and> held (tm_lock_table tm) doc_key = {(1, Exclusive)}"
proof -
  obtain tm :: "nat TransactionManager" and pc
    where r: "conc_reachable id (tm, pc)" and h: "(1, Exclusive) \<in> held (tm_lock_table tm) doc_key"
    using locked_reachable by blast
  have "held (tm_lock_table tm) doc_key = {(1, Exclusive)}"
    using conc_mutual_exclusion [OF r, of 1 doc_key] h by simp
  with r show ?thesis by blast
qed

section \<open>A lock that outlives its transaction\<close>

lemma held_release: "(u, ty) \<in> held (LockTable_release_all lt t) key \<longleftrightarrow> u \<noteq> t \<and> (u, ty) \<in> held lt key"
  unfolding held_def holders_release by auto

lemma leak_step:
  assumes "txn_of tm t = None \<or> (\<exists>txn. txn_of tm t = Some txn \<and> tx_state txn \<noteq> Active)"
    and "(t, ty) \<in> held (tm_lock_table tm) key" and "\<forall>now lvl. op \<noteq> Begin t now lvl"
  shows "(t, ty) \<in> held (tm_lock_table (tm_step iter tm op)) key"
proof (cases op)
  case (AcquireLock u e m uty)
  have "(t, ty) \<in> held lt key" if "u \<noteq> t" "LockTable_acquire iter (tm_lock_table tm) u e m uty = (lt, r)" for lt r
    using held_acquire_frame [of iter "tm_lock_table tm" u "\<lparr>lk_entity_id = e, lk_modality = m\<rparr>" uty lt r t key ty]
      that assms(2) by auto
  then show ?thesis
    using assms(1,2) AcquireLock
    by (cases "u = t") (auto simp: TM_acquire_lock_def TM_active_def split: sum.splits prod.splits option.splits)
next
  case (Commit now u)
  then show ?thesis
    using assms(1,2)
    by (cases "u = t") (auto simp: TM_commit_def TM_active_def held_release split: sum.splits option.splits)
next
  case (Rollback now u)
  then show ?thesis
    using assms(1,2)
    by (cases "u = t") (auto simp: TM_rollback_def TM_active_def held_release split: sum.splits option.splits)
qed (use assms in \<open>auto simp: TM_begin_def TM_record_undo_def TM_record_read_def TM_note_read_def TM_set_version_def
       TM_purge_completed_def Let_def split: sum.splits\<close>)

lemma leak_run:
  assumes "distinct (map fst (tm_active_transactions tm))"
    and "txn_of tm t = None \<or> (\<exists>txn. txn_of tm t = Some txn \<and> tx_state txn \<noteq> Active)"
    and "(t, ty) \<in> held (tm_lock_table tm) key" and "\<forall>op \<in> set ops. \<forall>now lvl. op \<noteq> Begin t now lvl"
  shows "(t, ty) \<in> held (tm_lock_table (tm_run iter tm ops)) key"
  using assms
proof (induction ops arbitrary: tm)
  case (Cons op ops)
  have op: "\<forall>now lvl. op \<noteq> Begin t now lvl" using Cons.prems(4) by simp
  have "txn_of (tm_step iter tm op) t = None \<or> (\<exists>txn. txn_of (tm_step iter tm op) t = Some txn \<and> tx_state txn \<noteq> Active)"
    using Cons.prems(1,2) gone_step [OF _ op, of tm iter] completed_step [OF _ _ op, of tm _ iter]
    by (cases "op = PurgeCompleted") (auto simp: purge_txn_of)
  moreover have "distinct (map fst (tm_active_transactions (tm_step iter tm op)))"
    using Cons.prems(1)
    by (cases op)
       (auto simp: TM_begin_def TM_commit_def TM_rollback_def TM_acquire_lock_def TM_note_lock_def TM_record_undo_def
         TM_record_read_def TM_note_read_def TM_set_version_def TM_purge_completed_def TM_put_def distinct_update
         distinct_map_filter Let_def split: sum.splits option.splits prod.splits)
  ultimately show ?case
    using Cons.IH [of "tm_step iter tm op"] leak_step [OF Cons.prems(2,3) op] Cons.prems(4) by (simp add: tm_run_def)
qed (simp add: tm_run_def)

text \<open>
  A commit between the check and the grant of a concurrent \<open>acquire_lock\<close> of the same
  transaction leaves an exclusive lock with a committed transaction, and no later operations of any
  transactions release it: the entity stays locked for good (until the identifier is issued again).
\<close>

theorem lock_leak_reachable:
  "\<exists>(tm :: nat TransactionManager) pc key. conc_reachable id (tm, pc) \<and> (\<forall>c. pc c = Idle)
     \<and> TM_get_transaction_state tm 1 = Some Committed \<and> (1, Exclusive) \<in> held (tm_lock_table tm) key
     \<and> (\<forall>ops. (\<forall>op \<in> set ops. \<forall>now lvl. op \<noteq> Begin 1 now lvl) \<longrightarrow>
          (1, Exclusive) \<in> held (tm_lock_table (tm_run id tm ops)) key)"
proof -
  define tm1 :: "nat TransactionManager" where "tm1 = tm_step id TM_new (Begin 1 0 ReadCommitted)"
  define tm2 where "tm2 = tm_step id tm1 (Commit 1 1)"
  obtain lt where lt: "LockTable_acquire id (tm_lock_table tm2) 1 ''e'' ''graph'' Exclusive = (lt, Inr ())"
    by (simp add: tm2_def tm1_def TM_begin_def TM_commit_def TM_active_def Transaction_new_def TM_new_def LockTable_new_def
        LockTable_release_all_def LockTable_acquire_def Let_def)
  let ?tm3 = "TM_note_lock (tm2\<lparr>tm_lock_table := lt\<rparr>) 1 ''e'' ''graph'' Exclusive"
  let ?checked = "(\<lambda>_. Idle)(0 := LockChecked 1 ''e'' ''graph'' Exclusive) :: nat \<Rightarrow> pc"
  have act: "\<exists>txn. TM_active tm1 1 = Inr txn" and gm: "''graph'' \<in> set MODALITIES"
    by (simp_all add: tm1_def TM_begin_def TM_active_def Transaction_new_def MODALITIES_def Let_def)
  have "conc_reachable id (TM_new :: nat TransactionManager, \<lambda>_. Idle)" by (simp add: conc_reachable_def)
  then have "conc_reachable id (tm1, \<lambda>_. Idle)"
    unfolding tm1_def by (rule reachable_step) (rule conc_step.whole; simp)
  then have "conc_reachable id (tm1, ?checked)"
    by (rule reachable_step) (use act gm in \<open>auto intro: conc_step.lock_check\<close>)
  then have "conc_reachable id (tm2, ?checked)"
    unfolding tm2_def by (rule reachable_step) (rule conc_step.whole [of _ 1]; simp)
  then have "conc_reachable id (tm2\<lparr>tm_lock_table := lt\<rparr>, ?checked(0 := LockGranted 1 ''e'' ''graph'' Exclusive))"
    by (rule reachable_step) (rule conc_step.lock_grant [OF _ lt]; simp)
  then have r: "conc_reachable id (?tm3, ?checked(0 := LockGranted 1 ''e'' ''graph'' Exclusive, 0 := Idle))"
    by (rule reachable_step) (rule conc_step.lock_note; simp)
  have st: "TM_get_transaction_state ?tm3 1 = Some Committed"
    by (simp add: tm2_def tm1_def TM_begin_def TM_commit_def TM_active_def Transaction_new_def TM_note_lock_def
        TM_get_transaction_state_def TM_new_def Let_def)
  have h: "(1, Exclusive) \<in> held (tm_lock_table ?tm3) \<lparr>lk_entity_id = ''e'', lk_modality = ''graph''\<rparr>"
    using held_acquire_ok [of id "tm_lock_table tm2" 1 "\<lparr>lk_entity_id = ''e'', lk_modality = ''graph''\<rparr>" Exclusive lt] lt
    by auto
  have d: "distinct (map fst (tm_active_transactions ?tm3))"
    by (simp add: tm2_def tm1_def TM_begin_def TM_commit_def TM_active_def Transaction_new_def TM_note_lock_def
        TM_put_def TM_new_def Let_def)
  have "txn_of ?tm3 1 = None \<or> (\<exists>txn. txn_of ?tm3 1 = Some txn \<and> tx_state txn \<noteq> Active)"
    using st by (auto simp: TM_get_transaction_state_def)
  from leak_run [OF d this h] have "\<forall>ops. (\<forall>op \<in> set ops. \<forall>now lvl. op \<noteq> Begin 1 now lvl) \<longrightarrow>
      (1, Exclusive) \<in> held (tm_lock_table (tm_run id ?tm3 ops)) \<lparr>lk_entity_id = ''e'', lk_modality = ''graph''\<rparr>"
    by blast
  with r st h show ?thesis
    by (intro exI [of _ ?tm3] exI conjI) auto
qed

theorem lock_leak_reachable_witness:
  "\<exists>(tm :: nat TransactionManager) key. TM_get_transaction_state tm 1 = Some Committed
     \<and> (1, Exclusive) \<in> held (tm_lock_table (tm_run id tm [Rollback 5 1, Begin 2 6 Serializable, PurgeCompleted])) key"
  using lock_leak_reachable
proof (elim exE conjE)
  fix tm :: "nat TransactionManager" and pc key
  assume st: "TM_get_transaction_state tm 1 = Some Committed"
    and "\<forall>ops. (\<forall>op \<in> set ops. \<forall>now lvl. op \<noteq> Begin 1 now lvl) \<longrightarrow> (1, Exclusive) \<in> held (tm_lock_table (tm_run id tm ops)) key"
  moreover have "\<forall>op \<in> set [Rollback 5 1, Begin 2 6 Serializable, PurgeCompleted :: nat txn_op]. \<forall>now lvl. op \<noteq> Begin 1 now lvl"
    by simp
  ultimately show ?thesis using st by blast
qed

end
