(* ===== verification/Storage.thy ===== *)
theory Storage
  imports BTreeMap "HOL-Library.List_Lexorder"
begin

text \<open>
  Key-value storage (\<open>verisim-storage/src/backend.rs\<close>, \<open>memory.rs\<close>, \<open>typed.rs\<close>, \<open>error.rs\<close>): the
  trait \<open>StorageBackend\<close> as a locale, the in-memory backend over a \<open>BTreeMap\<close> with byte strings in
  lexicographic order, and the namespaced \<open>TypedStore\<close>, written over any backend's operations. The
  JSON codec (crate \<open>serde_json\<close>) is the record \<open>json_codec\<close>.
\<close>

section \<open>Errors\<close>

datatype StorageError =
    StorageIo string
  | KeyNotFound string
  | SerializationError string
  | CorruptedData string
  | BackendUnavailable string
  | KeyTooLarge nat nat
  | ValueTooLarge nat nat

type_synonym 'a storage_result = "(StorageError, 'a) rresult"

section \<open>The in-memory backend\<close>

type_synonym backend_map = "(bytes, bytes) btree"

definition IB_new :: backend_map where
  "IB_new = []"

definition IB_len :: "backend_map \<Rightarrow> nat" where
  "IB_len m = length m"

definition IB_is_empty :: "backend_map \<Rightarrow> bool" where
  "IB_is_empty m \<longleftrightarrow> m = []"

definition IB_get :: "backend_map \<Rightarrow> bytes \<Rightarrow> bytes option storage_result" where
  "IB_get m key = Inr (map_of m key)"

definition IB_put :: "backend_map \<Rightarrow> bytes \<Rightarrow> bytes \<Rightarrow> backend_map \<times> unit storage_result" where
  "IB_put m key v = (bt_insert key v m, Inr ())"

definition IB_delete :: "backend_map \<Rightarrow> bytes \<Rightarrow> backend_map \<times> bool storage_result" where
  "IB_delete m key = (bt_remove key m, Inr (map_of m key \<noteq> None))"

definition IB_exists :: "backend_map \<Rightarrow> bytes \<Rightarrow> bool storage_result" where
  "IB_exists m key = Inr (map_of m key \<noteq> None)"

definition starts_with :: "bytes \<Rightarrow> bytes \<Rightarrow> bool" where
  "starts_with k p \<longleftrightarrow> take (length p) k = p"

definition IB_scan_prefix :: "backend_map \<Rightarrow> bytes \<Rightarrow> nat \<Rightarrow> (bytes \<times> bytes) list storage_result" where
  "IB_scan_prefix m p limit =
     Inr (take limit (takeWhile (\<lambda>(k, v). starts_with k p) (bt_range_from p m)))"

definition IB_multi_get :: "backend_map \<Rightarrow> bytes list \<Rightarrow> bytes option list storage_result" where
  "IB_multi_get m keys = Inr (map (map_of m) keys)"

definition IB_batch_put :: "backend_map \<Rightarrow> (bytes \<times> bytes) list \<Rightarrow> backend_map \<times> unit storage_result" where
  "IB_batch_put m entries = (foldl (\<lambda>m (key, v). bt_insert key v m) m entries, Inr ())"

definition IB_flush :: "backend_map \<Rightarrow> backend_map \<times> unit storage_result" where
  "IB_flush m = (m, Inr ())"

definition IB_approximate_size :: "backend_map \<Rightarrow> u64 option storage_result" where
  "IB_approximate_size m = Inr (Some (sum_list (map (\<lambda>(k, v). of_nat (length k + length v)) m)))"

section \<open>Lossy decoding of bytes\<close>

text \<open>
  \<open>String::from_utf8_lossy\<close>: the length of the first chunk and whether it is a well-formed
  character; every ill-formed chunk is replaced by U+FFFD.
\<close>

fun utf8_chunk :: "u8 \<Rightarrow> bytes \<Rightarrow> bool \<times> nat" where
  "utf8_chunk b bs =
    (if b \<le> 0x7F then (True, 1)
     else if 0xC2 \<le> b \<and> b \<le> 0xDF then
       (case bs of c1 # _ \<Rightarrow> if continuation_byte c1 then (True, 2) else (False, 1) | [] \<Rightarrow> (False, 1))
     else if 0xE0 \<le> b \<and> b \<le> 0xEF then
       (case bs of
          [] \<Rightarrow> (False, 1)
        | c1 # r \<Rightarrow>
            if continuation_byte c1 \<and> (b = 0xE0 \<longrightarrow> 0xA0 \<le> c1) \<and> (b = 0xED \<longrightarrow> c1 \<le> 0x9F)
            then (case r of c2 # _ \<Rightarrow> if continuation_byte c2 then (True, 3) else (False, 2) | [] \<Rightarrow> (False, 2))
            else (False, 1))
     else if 0xF0 \<le> b \<and> b \<le> 0xF4 then
       (case bs of
          [] \<Rightarrow> (False, 1)
        | c1 # r \<Rightarrow>
            if continuation_byte c1 \<and> (b = 0xF0 \<longrightarrow> 0x90 \<le> c1) \<and> (b = 0xF4 \<longrightarrow> c1 \<le> 0x8F)
            then (case r of
                    [] \<Rightarrow> (False, 2)
                  | c2 # r' \<Rightarrow>
                      if continuation_byte c2
                      then (case r' of c3 # _ \<Rightarrow> if continuation_byte c3 then (True, 4) else (False, 3) | [] \<Rightarrow> (False, 3))
                      else (False, 2))
            else (False, 1))
     else (False, 1))"

declare utf8_chunk.simps [simp del]

lemma utf8_chunk_pos: "0 < snd (utf8_chunk b bs)"
  by (auto simp: utf8_chunk.simps split: list.splits)

function from_utf8_lossy :: "bytes \<Rightarrow> string" where
  "from_utf8_lossy [] = []"
| "from_utf8_lossy (b # bs) =
    (case utf8_chunk b bs of (valid, n) \<Rightarrow>
       (if valid then map char_of_byte (take n (b # bs)) else map char_of_byte [0xEF, 0xBF, 0xBD])
       @ from_utf8_lossy (drop n (b # bs)))"
  by pat_completeness auto
termination
proof (relation "measure length", goal_cases)
  case (2 b bs valid n)
  then have "0 < n" using utf8_chunk_pos [of b bs] by (metis snd_conv)
  then show ?case by simp
qed simp

lemma utf8_chunk_valid:
  assumes "valid_utf8 (b # bs)"
  shows "fst (utf8_chunk b bs) \<and> valid_utf8 (drop (snd (utf8_chunk b bs)) (b # bs))"
proof -
  consider (one) "b \<le> 0x7F" | (two) "\<not> b \<le> 0x7F" "0xC2 \<le> b \<and> b \<le> 0xDF"
    | (three) "\<not> b \<le> 0x7F" "\<not> (0xC2 \<le> b \<and> b \<le> 0xDF)" "0xE0 \<le> b \<and> b \<le> 0xEF"
    | (four) "\<not> b \<le> 0x7F" "\<not> (0xC2 \<le> b \<and> b \<le> 0xDF)" "\<not> (0xE0 \<le> b \<and> b \<le> 0xEF)" "0xF0 \<le> b \<and> b \<le> 0xF4"
  proof -
    have "b \<le> 0x7F \<or> (0xC2 \<le> b \<and> b \<le> 0xDF) \<or> (0xE0 \<le> b \<and> b \<le> 0xEF) \<or> (0xF0 \<le> b \<and> b \<le> 0xF4)"
      using assms by (rule contrapos_pp) (simp only: de_Morgan_disj valid_utf8.simps if_False simp_thms)
    then show thesis using that by blast
  qed
  then show ?thesis
  proof cases
    case one
    then show ?thesis using assms by (simp only: utf8_chunk.simps valid_utf8.simps if_True fst_conv snd_conv) simp
  next
    case two
    then obtain c1 r where bs: "bs = c1 # r" "continuation_byte c1" "valid_utf8 r"
      using assms by (simp only: valid_utf8.simps if_True if_False) (cases bs; simp)
    have "utf8_chunk b bs = (True, 2)" using two bs by (simp only: utf8_chunk.simps if_True if_False list.case simp_thms)
    then show ?thesis using bs by simp
  next
    case three
    define ok where "ok c1 \<longleftrightarrow> (b = 0xE0 \<longrightarrow> 0xA0 \<le> c1) \<and> (b = 0xED \<longrightarrow> c1 \<le> 0x9F)" for c1 :: u8
    obtain c1 c2 r where bs: "bs = c1 # c2 # r" "continuation_byte c1 \<and> ok c1" "continuation_byte c2" "valid_utf8 r"
      using assms three
      by (simp only: valid_utf8.simps if_True if_False ok_def) (cases bs rule: remdups_adj.cases; simp)
    have "utf8_chunk b bs = (True, 3)"
      using three bs by (simp only: utf8_chunk.simps if_True if_False list.case simp_thms ok_def [symmetric])
    then show ?thesis using bs by simp
  next
    case four
    define ok where "ok c1 \<longleftrightarrow> (b = 0xF0 \<longrightarrow> 0x90 \<le> c1) \<and> (b = 0xF4 \<longrightarrow> c1 \<le> 0x8F)" for c1 :: u8
    obtain c1 c2 c3 r where bs: "bs = c1 # c2 # c3 # r" "continuation_byte c1 \<and> ok c1" "continuation_byte c2"
      "continuation_byte c3" "valid_utf8 r"
      using assms four
      by (simp only: valid_utf8.simps if_True if_False ok_def)
         (cases bs; simp; cases "tl bs"; simp; cases "tl (tl bs)"; simp)
    have "utf8_chunk b bs = (True, 4)"
      using four bs by (simp only: utf8_chunk.simps if_True if_False list.case simp_thms ok_def [symmetric])
    then show ?thesis using bs by simp
  qed
qed

lemma from_utf8_lossy_valid: "valid_utf8 bs \<Longrightarrow> from_utf8_lossy bs = map char_of_byte bs"
proof (induction bs rule: from_utf8_lossy.induct)
  case (2 b bs)
  obtain n where n: "utf8_chunk b bs = (True, n)" "valid_utf8 (drop n (b # bs))"
    using utf8_chunk_valid [OF "2.prems"] by (cases "utf8_chunk b bs") auto
  have "from_utf8_lossy (b # bs) = map char_of_byte (take n (b # bs)) @ map char_of_byte (drop n (b # bs))"
    using "2.IH" [OF n(1) [symmetric] n(2)] n(1) by simp
  then show ?case by (simp only: map_append [symmetric] append_take_drop_id)
qed simp

lemma from_utf8_lossy_as_bytes [simp]: "wf_string s \<Longrightarrow> from_utf8_lossy (as_bytes s) = s"
  by (simp add: from_utf8_lossy_valid wf_string_def) (simp add: as_bytes_def comp_def)

section \<open>Typed stores\<close>

text \<open>The backend operations a typed store calls, and the JSON codec of its values.\<close>

record 's backend_ops =
  bo_get :: "'s \<Rightarrow> bytes \<Rightarrow> bytes option storage_result"
  bo_put :: "'s \<Rightarrow> bytes \<Rightarrow> bytes \<Rightarrow> 's \<times> unit storage_result"
  bo_delete :: "'s \<Rightarrow> bytes \<Rightarrow> 's \<times> bool storage_result"
  bo_scan_prefix :: "'s \<Rightarrow> bytes \<Rightarrow> nat \<Rightarrow> (bytes \<times> bytes) list storage_result"

record 'v json_codec =
  jc_to_vec :: "'v \<Rightarrow> (string, bytes) rresult"
  jc_from_slice :: "bytes \<Rightarrow> (string, 'v) rresult"

definition TypedStore_prefixed_key :: "string \<Rightarrow> string \<Rightarrow> bytes" where
  "TypedStore_prefixed_key namespace key = as_bytes (namespace @ '':'' @ key)"

definition TypedStore_prefix_bytes :: "string \<Rightarrow> bytes" where
  "TypedStore_prefix_bytes namespace = as_bytes (namespace @ '':'')"

definition TypedStore_get ::
  "'s backend_ops \<Rightarrow> 'v json_codec \<Rightarrow> string \<Rightarrow> 's \<Rightarrow> string \<Rightarrow> 'v option storage_result" where
  "TypedStore_get ops codec namespace backend key =
    (let full_key = TypedStore_prefixed_key namespace key in
     rbind (bo_get ops backend full_key) (\<lambda>found.
       case found of
         Some bs \<Rightarrow>
           (case jc_from_slice codec bs of
              Inl err \<Rightarrow> Inl (SerializationError (''failed to deserialize value for key '' @ [CHR 0x27] @ key @ [CHR 0x27] @ '': '' @ err))
            | Inr v \<Rightarrow> Inr (Some v))
       | None \<Rightarrow> Inr None))"

definition TypedStore_put ::
  "'s backend_ops \<Rightarrow> 'v json_codec \<Rightarrow> string \<Rightarrow> 's \<Rightarrow> string \<Rightarrow> 'v \<Rightarrow> 's \<times> unit storage_result" where
  "TypedStore_put ops codec namespace backend key v =
    (let full_key = TypedStore_prefixed_key namespace key in
     case jc_to_vec codec v of
       Inl err \<Rightarrow> (backend, Inl (SerializationError (''failed to serialize value for key '' @ [CHR 0x27] @ key @ [CHR 0x27] @ '': '' @ err)))
     | Inr bs \<Rightarrow> bo_put ops backend full_key bs)"

definition TypedStore_delete :: "'s backend_ops \<Rightarrow> string \<Rightarrow> 's \<Rightarrow> string \<Rightarrow> 's \<times> bool storage_result" where
  "TypedStore_delete ops namespace backend key =
    (let full_key = TypedStore_prefixed_key namespace key in bo_delete ops backend full_key)"

fun decode_scanned ::
  "'v json_codec \<Rightarrow> nat \<Rightarrow> (bytes \<times> bytes) list \<Rightarrow> (string \<times> 'v) list \<Rightarrow> (string \<times> 'v) list storage_result" where
  "decode_scanned codec ns_prefix_len [] results = Inr results"
| "decode_scanned codec ns_prefix_len ((raw_key, raw_value) # rest) results =
    (let logical_key = (if ns_prefix_len \<le> length raw_key
                        then from_utf8_lossy (drop ns_prefix_len raw_key)
                        else from_utf8_lossy raw_key)
     in case jc_from_slice codec raw_value of
          Inl err \<Rightarrow> Inl (SerializationError (''failed to deserialize scanned value for key '' @ [CHR 0x27] @ logical_key @ [CHR 0x27] @ '': '' @ err))
        | Inr v \<Rightarrow> decode_scanned codec ns_prefix_len rest (results @ [(logical_key, v)]))"

definition TypedStore_scan_prefix ::
  "'s backend_ops \<Rightarrow> 'v json_codec \<Rightarrow> string \<Rightarrow> 's \<Rightarrow> string \<Rightarrow> nat \<Rightarrow> (string \<times> 'v) list storage_result" where
  "TypedStore_scan_prefix ops codec namespace backend key_prefix limit =
    (let full_prefix = as_bytes (namespace @ '':'' @ key_prefix);
         ns_prefix_len = length (TypedStore_prefix_bytes namespace)
     in rbind (bo_scan_prefix ops backend full_prefix limit) (\<lambda>raw_results.
          decode_scanned codec ns_prefix_len raw_results []))"

section \<open>The contract of a backend\<close>

text \<open>
  The laws the trait documents: a finite map from keys to values, whose prefix scan lists the
  matching entries in lexicographic order, up to the limit.
\<close>

locale storage_backend =
  fixes ok :: "'s \<Rightarrow> bool"
    and contents :: "'s \<Rightarrow> bytes \<Rightarrow> bytes option"
    and ops :: "'s backend_ops"
  assumes get_spec: "ok s \<Longrightarrow> bo_get ops s k = Inr (contents s k)"
    and put_spec: "ok s \<Longrightarrow> \<exists>s'. bo_put ops s k v = (s', Inr ()) \<and> ok s' \<and> contents s' = (contents s)(k \<mapsto> v)"
    and delete_spec: "ok s \<Longrightarrow> \<exists>s'. bo_delete ops s k = (s', Inr (contents s k \<noteq> None)) \<and> ok s'
      \<and> contents s' = (contents s)(k := None)"
    and scan_spec: "ok s \<Longrightarrow> \<exists>r. bo_scan_prefix ops s p n = Inr (take n r) \<and> sorted_wrt (<) (map fst r)
      \<and> set r = {(k, v). contents s k = Some v \<and> starts_with k p}"
begin

lemma typed_get: "ok s \<Longrightarrow> contents s (TypedStore_prefixed_key ns key) = None \<Longrightarrow>
    TypedStore_get ops codec ns s key = Inr None"
  by (simp add: TypedStore_get_def get_spec)

lemma typed_get_cong:
  assumes "ok s" and "ok s'" and "contents s' (TypedStore_prefixed_key ns key) = contents s (TypedStore_prefixed_key ns key)"
  shows "TypedStore_get ops codec ns s' key = TypedStore_get ops codec ns s key"
  using assms by (simp add: TypedStore_get_def get_spec)

lemma typed_put:
  assumes "ok s" and "jc_to_vec codec v = Inr bs" and "jc_from_slice codec bs = Inr v"
  obtains s' where "TypedStore_put ops codec ns s key v = (s', Inr ())" "ok s'"
    "TypedStore_get ops codec ns s' key = Inr (Some v)"
    "\<And>ns' key'. TypedStore_prefixed_key ns' key' \<noteq> TypedStore_prefixed_key ns key \<Longrightarrow>
       TypedStore_get ops codec ns' s' key' = TypedStore_get ops codec ns' s key'"
proof -
  obtain s' where s': "bo_put ops s (TypedStore_prefixed_key ns key) bs = (s', Inr ())" "ok s'"
    "contents s' = (contents s)(TypedStore_prefixed_key ns key \<mapsto> bs)"
    using put_spec [OF assms(1)] by blast
  show thesis
  proof (rule that)
    show "TypedStore_put ops codec ns s key v = (s', Inr ())"
      using assms(2) s'(1) by (simp add: TypedStore_put_def)
    show "TypedStore_get ops codec ns s' key = Inr (Some v)"
      using assms(3) s' by (simp add: TypedStore_get_def get_spec)
    show "TypedStore_get ops codec ns' s' key' = TypedStore_get ops codec ns' s key'"
      if "TypedStore_prefixed_key ns' key' \<noteq> TypedStore_prefixed_key ns key" for ns' key'
      by (rule typed_get_cong [OF assms(1) s'(2)]) (use that s'(3) in simp)
  qed (rule s'(2))
qed

lemma typed_delete:
  assumes "ok s"
  obtains s' where "TypedStore_delete ops ns s key = (s', Inr (contents s (TypedStore_prefixed_key ns key) \<noteq> None))" "ok s'"
    "TypedStore_get ops codec ns s' key = Inr None"
    "\<And>ns' key'. TypedStore_prefixed_key ns' key' \<noteq> TypedStore_prefixed_key ns key \<Longrightarrow>
       TypedStore_get ops codec ns' s' key' = TypedStore_get ops codec ns' s key'"
proof -
  obtain s' where s': "bo_delete ops s (TypedStore_prefixed_key ns key)
      = (s', Inr (contents s (TypedStore_prefixed_key ns key) \<noteq> None))" "ok s'"
    "contents s' = (contents s)(TypedStore_prefixed_key ns key := None)"
    using delete_spec [OF assms] by blast
  show thesis
  proof (rule that)
    show "TypedStore_delete ops ns s key = (s', Inr (contents s (TypedStore_prefixed_key ns key) \<noteq> None))"
      using s'(1) by (simp add: TypedStore_delete_def)
    show "TypedStore_get ops codec ns s' key = Inr None" by (rule typed_get [OF s'(2)]) (simp add: s'(3))
    show "TypedStore_get ops codec ns' s' key' = TypedStore_get ops codec ns' s key'"
      if "TypedStore_prefixed_key ns' key' \<noteq> TypedStore_prefixed_key ns key" for ns' key'
      by (rule typed_get_cong [OF assms s'(2)]) (use that s'(3) in simp)
  qed (rule s'(2))
qed

end

section \<open>The in-memory backend keeps the contract\<close>

definition IB_ops :: "backend_map backend_ops" where
  "IB_ops = \<lparr>bo_get = IB_get, bo_put = IB_put, bo_delete = IB_delete, bo_scan_prefix = IB_scan_prefix\<rparr>"

lemma takeWhile_eq_filter:
  assumes "sorted_wrt R xs" and "\<And>x y. R x y \<Longrightarrow> x \<in> set xs \<Longrightarrow> P y \<Longrightarrow> P x"
  shows "takeWhile P xs = filter P xs"
  using assms
proof (induction xs)
  case (Cons x xs)
  show ?case
  proof (cases "P x")
    case True
    with Cons show ?thesis by auto
  next
    case False
    then have "\<forall>y \<in> set xs. \<not> P y" using Cons.prems by (auto 0 4)
    with False show ?thesis by (simp add: filter_empty_conv)
  qed
qed simp

text \<open>In lexicographic order, what lies between a string and its extensions extends it.\<close>

lemma between_starts_with:
  assumes "p \<le> (k :: bytes)" and "k \<le> k'" and "starts_with k' p"
  shows "starts_with k p"
  using assms
proof (induction p arbitrary: k k')
  case (Cons a p)
  obtain r where k': "k' = a # r" "starts_with r p"
    using Cons.prems(3) by (cases k') (auto simp: starts_with_def)
  obtain b s where k: "k = b # s" using Cons.prems(1) by (cases k) auto
  have "b = a" "p \<le> s" "s \<le> r"
    using Cons.prems(1,2) unfolding k k' by auto
  with Cons.IH [of s r] k k'(2) show ?case by (simp add: starts_with_def)
qed (simp add: starts_with_def)

lemma starts_with_le: "starts_with k p \<Longrightarrow> p \<le> k"
proof -
  have "p \<le> p @ r" for r :: bytes by (induction p) auto
  then show "starts_with k p \<Longrightarrow> p \<le> k"
    unfolding starts_with_def by (metis append_take_drop_id)
qed

lemma IB_scan_filter:
  assumes "bt_wf m"
  shows "IB_scan_prefix m p n = Inr (take n (filter (\<lambda>(k, v). starts_with k p) m))"
proof -
  let ?r = "bt_range_from p m"
  have "sorted_wrt (\<lambda>x y. fst x < fst y) ?r"
    using assms bt_wf_filter unfolding bt_range_from_def bt_wf_def by (simp add: sorted_wrt_map sorted_wrt_filter)
  then have "takeWhile (\<lambda>(k, v). starts_with k p) ?r = filter (\<lambda>(k, v). starts_with k p) ?r"
    by (rule takeWhile_eq_filter)
       (auto simp: bt_range_from_def dest!: less_imp_le intro: between_starts_with)
  also have "\<dots> = filter (\<lambda>(k, v). starts_with k p) m"
    unfolding bt_range_from_def filter_filter by (rule filter_cong [OF refl]) (auto dest: starts_with_le)
  finally show ?thesis by (simp add: IB_scan_prefix_def)
qed

interpretation ib: storage_backend bt_wf map_of IB_ops
proof unfold_locales
  fix s :: backend_map and k v p n
  assume wf: "bt_wf s"
  show "bo_get IB_ops s k = Inr (map_of s k)" by (simp add: IB_ops_def IB_get_def)
  show "\<exists>s'. bo_put IB_ops s k v = (s', Inr ()) \<and> bt_wf s' \<and> map_of s' = (map_of s)(k \<mapsto> v)"
    using wf by (simp add: IB_ops_def IB_put_def)
  show "\<exists>s'. bo_delete IB_ops s k = (s', Inr (map_of s k \<noteq> None)) \<and> bt_wf s' \<and> map_of s' = (map_of s)(k := None)"
    using wf by (simp add: IB_ops_def IB_delete_def)
  let ?r = "filter (\<lambda>(k, v). starts_with k p) s"
  have "sorted_wrt (<) (map fst ?r)" using bt_wf_filter [OF wf] by (simp add: bt_wf_def)
  moreover have "set ?r = {(k, v). map_of s k = Some v \<and> starts_with k p}"
    using bt_wf_distinct [OF wf] by auto
  ultimately show "\<exists>r. bo_scan_prefix IB_ops s p n = Inr (take n r) \<and> sorted_wrt (<) (map fst r)
      \<and> set r = {(k, v). map_of s k = Some v \<and> starts_with k p}"
    using IB_scan_filter [OF wf] by (intro exI [of _ ?r]) (simp add: IB_ops_def)
qed

section \<open>Properties\<close>

text \<open>The in-memory backend's prefix scan is exact: it returns the first \<open>limit\<close> of the entries
  whose key starts with the prefix, in ascending key order, although it stops at the first key past
  them.
\<close>

theorem scan_prefix_exact:
  assumes "bt_wf m"
  shows "\<exists>r. IB_scan_prefix m p limit = Inr (take limit r) \<and> sorted_wrt (<) (map fst r)
    \<and> set r = {(k, v). map_of m k = Some v \<and> starts_with k p}"
  using ib.scan_spec [OF assms] by (simp add: IB_ops_def)

definition demo_map :: backend_map where
  "demo_map = fst (IB_batch_put IB_new [([2, 1], [7]), ([1], [8]), ([2], [9]), ([3], [])])"

lemma demo_map_eq: "demo_map = [([1], [8]), ([2], [9]), ([2, 1], [7]), ([3], [])]"
  by (simp add: demo_map_def IB_batch_put_def IB_new_def word_less_nat_alt)

theorem scan_prefix_exact_witness:
  "bt_wf demo_map \<and> (\<exists>r. IB_scan_prefix demo_map [2] 5 = Inr (take 5 r) \<and> sorted_wrt (<) (map fst r)
    \<and> set r = {(k, v). map_of demo_map k = Some v \<and> starts_with k [2]})"
proof -
  have "bt_wf demo_map" by (simp add: demo_map_eq bt_wf_def word_less_nat_alt)
  with scan_prefix_exact [OF this] show ?thesis by blast
qed

text \<open>
  Batch writes are equivalent to the single writes in order, the last write to a key winning,
  and keys not in the batch keep their values.
\<close>

theorem batch_put_spec:
  assumes "bt_wf m"
  shows "\<exists>m'. IB_batch_put m entries = (m', Inr ()) \<and> bt_wf m' \<and>
    (\<forall>k. IB_get m' k = Inr (case map_of (rev entries) k of Some v \<Rightarrow> Some v | None \<Rightarrow> map_of m k))"
proof -
  have "bt_wf (foldl (\<lambda>m (key, v). bt_insert key v m) m entries) \<and>
      map_of (foldl (\<lambda>m (key, v). bt_insert key v m) m entries) = map_of m ++ map_of (rev entries)"
    using assms by (induction entries arbitrary: m) (auto simp: map_add_assoc)
  then show ?thesis
    by (simp add: IB_batch_put_def IB_get_def map_add_def split: option.splits)
qed

theorem batch_put_spec_witness:
  "\<exists>m'. IB_batch_put demo_map [([1], [4]), ([5], [6]), ([1], [3])] = (m', Inr ()) \<and> bt_wf m' \<and>
    IB_get m' [1] = Inr (Some [3]) \<and> IB_get m' [2] = Inr (Some [9])"
proof -
  have "bt_wf demo_map" by (simp add: demo_map_eq bt_wf_def word_less_nat_alt)
  from batch_put_spec [OF this, of "[([1], [4]), ([5], [6]), ([1], [3])]"] obtain m' where
    m': "IB_batch_put demo_map [([1], [4]), ([5], [6]), ([1], [3])] = (m', Inr ())" "bt_wf m'"
    and g: "\<And>k. IB_get m' k = Inr (case map_of (rev [([1], [4]), ([5], [6]), ([1], [3])]) k of Some v \<Rightarrow> Some v | None \<Rightarrow> map_of demo_map k)"
    by blast
  have "IB_get m' [1] = Inr (Some [3])" "IB_get m' [2] = Inr (Some [9])"
    unfolding g by (simp_all add: demo_map_eq)
  with m' show ?thesis by blast
qed

lemma prefixed_key_inject:
  assumes "CHR '':'' \<notin> set ns" and "CHR '':'' \<notin> set ns'"
  shows "TypedStore_prefixed_key ns key = TypedStore_prefixed_key ns' key' \<longleftrightarrow> ns = ns' \<and> key = key'"
proof
  assume "TypedStore_prefixed_key ns key = TypedStore_prefixed_key ns' key'"
  then have eq: "ns @ CHR '':'' # key = ns' @ CHR '':'' # key'"
    unfolding TypedStore_prefixed_key_def as_bytes_inject by simp
  have "takeWhile (\<lambda>c. c \<noteq> CHR '':'') (ns @ CHR '':'' # key) = ns"
    "takeWhile (\<lambda>c. c \<noteq> CHR '':'') (ns' @ CHR '':'' # key') = ns'"
    using assms by (auto intro: takeWhile_append2 [THEN trans])
  with eq have "ns = ns'" by simp
  with eq show "ns = ns' \<and> key = key'" by simp
qed simp

text \<open>A typed store returns what was put into it, and namespaces without a colon are isolated: after
  a \<open>put\<close> of a value the codec can write and read back, \<open>get\<close> of that key returns it, and every
  other key, of this or of any other such namespace, reads as before; after a \<open>delete\<close> the key is
  gone and every other key reads as before.
\<close>

theorem typed_store_isolated:
  assumes "bt_wf m" and "jc_to_vec codec v = Inr bs" and "jc_from_slice codec bs = Inr v"
    and "CHR '':'' \<notin> set ns"
  shows "\<exists>m1 m2 existed.
    TypedStore_put IB_ops codec ns m key v = (m1, Inr ()) \<and> TypedStore_get IB_ops codec ns m1 key = Inr (Some v)
    \<and> TypedStore_delete IB_ops ns m1 key = (m2, Inr existed) \<and> existed \<and> TypedStore_get IB_ops codec ns m2 key = Inr None
    \<and> (\<forall>ns' key'. CHR '':'' \<notin> set ns' \<longrightarrow> (ns', key') \<noteq> (ns, key) \<longrightarrow>
         TypedStore_get IB_ops codec ns' m1 key' = TypedStore_get IB_ops codec ns' m key'
         \<and> TypedStore_get IB_ops codec ns' m2 key' = TypedStore_get IB_ops codec ns' m key')"
proof -
  obtain m1 where m1: "TypedStore_put IB_ops codec ns m key v = (m1, Inr ())" "bt_wf m1"
    "TypedStore_get IB_ops codec ns m1 key = Inr (Some v)"
    and f1: "\<And>ns' key'. TypedStore_prefixed_key ns' key' \<noteq> TypedStore_prefixed_key ns key \<Longrightarrow>
       TypedStore_get IB_ops codec ns' m1 key' = TypedStore_get IB_ops codec ns' m key'"
    using ib.typed_put [OF assms(1-3)] by blast
  obtain m2 where m2: "TypedStore_delete IB_ops ns m1 key = (m2, Inr (map_of m1 (TypedStore_prefixed_key ns key) \<noteq> None))"
    "TypedStore_get IB_ops codec ns m2 key = Inr None"
    and f2: "\<And>ns' key'. TypedStore_prefixed_key ns' key' \<noteq> TypedStore_prefixed_key ns key \<Longrightarrow>
       TypedStore_get IB_ops codec ns' m2 key' = TypedStore_get IB_ops codec ns' m1 key'"
    using ib.typed_delete [OF m1(2)] by blast
  have "map_of m1 (TypedStore_prefixed_key ns key) \<noteq> None"
    using m1(3) ib.typed_get [OF m1(2), of ns key codec] by auto
  with m1 m2 f1 f2 assms(4) show ?thesis
    by (intro exI [of _ m1] exI [of _ m2] exI [of _ True]) (auto simp: prefixed_key_inject)
qed

definition bytes_codec :: "bytes json_codec" where
  "bytes_codec = \<lparr>jc_to_vec = Inr, jc_from_slice = Inr\<rparr>"

theorem typed_store_isolated_witness:
  "\<exists>m1. TypedStore_put IB_ops bytes_codec ''users'' demo_map ''al'' [42] = (m1, Inr ())
     \<and> TypedStore_get IB_ops bytes_codec ''users'' m1 ''al'' = Inr (Some [42])
     \<and> TypedStore_get IB_ops bytes_codec ''items'' m1 ''al'' = TypedStore_get IB_ops bytes_codec ''items'' demo_map ''al''"
proof -
  have "bt_wf demo_map" by (simp add: demo_map_eq bt_wf_def word_less_nat_alt)
  moreover have "jc_to_vec bytes_codec [42] = Inr [42]" "jc_from_slice bytes_codec [42] = Inr [42]"
    by (simp_all add: bytes_codec_def)
  moreover have "CHR '':'' \<notin> set ''users''" "CHR '':'' \<notin> set ''items''" by simp_all
  ultimately show ?thesis
    using typed_store_isolated [of demo_map bytes_codec "[42]" "[42]" "''users''" "''al''"] by blast
qed

text \<open>
  Namespaces that contain a colon can collide, although the documentation says that stores
  share a backend without key collisions: a value put under \<open>b:x\<close> in namespace \<open>a\<close> is what
  namespace \<open>a:b\<close> reads under \<open>x\<close>.
\<close>

theorem namespaces_collide:
  "case TypedStore_put IB_ops bytes_codec ''a'' IB_new ''b:x'' [1] of (m, r) \<Rightarrow>
     r = Inr () \<and> TypedStore_get IB_ops bytes_codec ''a:b'' m ''x'' = Inr (Some [1])"
  by (simp add: TypedStore_put_def TypedStore_get_def TypedStore_prefixed_key_def IB_ops_def IB_put_def IB_get_def
      IB_new_def bytes_codec_def)

lemma decode_scanned_map:
  assumes "\<forall>(k, bs) \<in> set raw. n \<le> length k \<and> jc_from_slice codec bs = Inr (val bs)"
  shows "decode_scanned codec n raw acc = Inr (acc @ map (\<lambda>(k, bs). (from_utf8_lossy (drop n k), val bs)) raw)"
  using assms by (induction codec n raw acc rule: decode_scanned.induct) auto

lemma starts_with_prefixed:
  "starts_with (TypedStore_prefixed_key ns key) (as_bytes (ns @ '':'' @ p)) \<longleftrightarrow> prefix p key"
proof -
  have "take n (as_bytes s) = as_bytes (take n s)" for n s by (simp add: as_bytes_def take_map)
  then show ?thesis
    unfolding starts_with_def TypedStore_prefixed_key_def
    by (simp del: as_bytes_append add: prefix_def) (metis append_eq_conv_conj append_take_drop_id)
qed

text \<open>A typed scan lists exactly the entries of its namespace whose logical key starts with the
  given prefix, decoded, in ascending order of their keys, up to the limit.
\<close>

theorem typed_scan_exact:
  assumes "bt_wf m"
    and "\<And>k bs. map_of m k = Some bs \<Longrightarrow> starts_with k (as_bytes (ns @ '':'' @ p)) \<Longrightarrow>
      (\<exists>key. k = TypedStore_prefixed_key ns key \<and> wf_string key) \<and> jc_from_slice codec bs = Inr (val bs)"
  shows "\<exists>r. TypedStore_scan_prefix IB_ops codec ns m p limit = Inr (take limit r)
    \<and> sorted_wrt (<) (map (\<lambda>(key, v). TypedStore_prefixed_key ns key) r)
    \<and> set r = {(key, v). wf_string key \<and> prefix p key \<and>
         (\<exists>bs. map_of m (TypedStore_prefixed_key ns key) = Some bs \<and> v = val bs)}"
proof -
  obtain raw where scan: "IB_scan_prefix m (as_bytes (ns @ '':'' @ p)) limit = Inr (take limit raw)"
    and srt: "sorted_wrt (<) (map fst raw)"
    and raw: "set raw = {(k, v). map_of m k = Some v \<and> starts_with k (as_bytes (ns @ '':'' @ p))}"
    using ib.scan_spec [OF assms(1), of "as_bytes (ns @ '':'' @ p)" limit] by (auto simp: IB_ops_def)
  let ?n = "length (TypedStore_prefix_bytes ns)"
  let ?f = "\<lambda>(k, bs). (from_utf8_lossy (drop ?n k), val bs)"
  have key: "\<exists>key. k = TypedStore_prefixed_key ns key \<and> wf_string key \<and> prefix p key"
    "jc_from_slice codec bs = Inr (val bs)" if "(k, bs) \<in> set raw" for k bs
  proof -
    have k: "map_of m k = Some bs" "starts_with k (as_bytes (ns @ '':'' @ p))"
      using that by (auto simp: raw)
    from assms(2) [OF k] obtain key where "k = TypedStore_prefixed_key ns key" "wf_string key" by blast
    with k(2) show "\<exists>key. k = TypedStore_prefixed_key ns key \<and> wf_string key \<and> prefix p key"
      using starts_with_prefixed by blast
    show "jc_from_slice codec bs = Inr (val bs)" using assms(2) [OF k] by blast
  qed
  have drop: "?n \<le> length (TypedStore_prefixed_key ns key)"
    "drop ?n (TypedStore_prefixed_key ns key) = as_bytes key" for key
    by (simp_all add: TypedStore_prefix_bytes_def TypedStore_prefixed_key_def as_bytes_def)
  have "\<forall>(k, bs) \<in> set (take limit raw). ?n \<le> length k \<and> jc_from_slice codec bs = Inr (val bs)"
    using key drop(1) by (fastforce dest: in_set_takeD)
  from decode_scanned_map [OF this, of "[]"] scan
  have res: "TypedStore_scan_prefix IB_ops codec ns m p limit = Inr (take limit (map ?f raw))"
    by (simp add: TypedStore_scan_prefix_def IB_ops_def Let_def take_map)
  have inv: "TypedStore_prefixed_key ns (fst (?f x)) = fst x" if "x \<in> set raw" for x
    using key(1) [of "fst x" "snd x"] that drop(2) by (cases x) auto
  then have "map (\<lambda>(key, v). TypedStore_prefixed_key ns key) (map ?f raw) = map fst raw"
    by (auto simp: case_prod_beta)
  moreover have "set (map ?f raw) = {(key, v). wf_string key \<and> prefix p key \<and>
      (\<exists>bs. map_of m (TypedStore_prefixed_key ns key) = Some bs \<and> v = val bs)}" (is "?L = ?R")
  proof
    show "?L \<subseteq> ?R" using key(1) drop(2) raw by fastforce
    show "?R \<subseteq> ?L"
    proof
      fix x assume "x \<in> ?R"
      then obtain key bs where x: "x = (key, val bs)" and k: "wf_string key" "prefix p key"
        "map_of m (TypedStore_prefixed_key ns key) = Some bs" by blast
      have "(TypedStore_prefixed_key ns key, bs) \<in> set raw"
        using k starts_with_prefixed unfolding raw by blast
      then have "?f (TypedStore_prefixed_key ns key, bs) \<in> ?L" unfolding set_map by (rule imageI)
      with x k(1) drop(2) show "x \<in> ?L" by simp
    qed
  qed
  ultimately show ?thesis using res srt by metis
qed

definition demo_users :: backend_map where
  "demo_users = [(TypedStore_prefixed_key ''u'' ''al'', [1]), (TypedStore_prefixed_key ''u'' ''bo'', [2])]"

theorem typed_scan_exact_witness:
  "\<exists>r. TypedStore_scan_prefix IB_ops bytes_codec ''u'' demo_users ''a'' 9 = Inr (take 9 r)
    \<and> sorted_wrt (<) (map (\<lambda>(key, v). TypedStore_prefixed_key ''u'' key) r)
    \<and> set r = {(key, v). wf_string key \<and> prefix ''a'' key \<and>
         (\<exists>bs. map_of demo_users (TypedStore_prefixed_key ''u'' key) = Some bs \<and> v = id bs)}"
proof (rule typed_scan_exact)
  have "wf_string ''al''" "wf_string ''bo''" by (simp_all add: wf_string_def as_bytes_def byte_of_char_def)
  then show "(\<exists>key. k = TypedStore_prefixed_key ''u'' key \<and> wf_string key) \<and> jc_from_slice bytes_codec bs = Inr (id bs)"
    if "map_of demo_users k = Some bs" for k bs
    using that by (auto simp: demo_users_def bytes_codec_def split: if_splits)
  show "bt_wf demo_users"
    by (simp add: demo_users_def bt_wf_def TypedStore_prefixed_key_def as_bytes_def byte_of_char_def word_less_nat_alt)
qed

end
