(* ===== verification/Conflict.thy ===== *)
theory Conflict
  imports Prelude
begin

text \<open>
  Conflict resolution in the normalizer (\<open>verisim-normalizer/src/conflict.rs\<close>; the enum \<open>Modality\<close>
  of \<open>regeneration.rs\<close>): policies, the conflict life cycle, automatic, manual and dismissing
  resolution, and the bounded history. A drift score is an \<open>f64\<close> of which the code uses the
  comparison \<open>\<ge>\<close> and the format \<open>{:.3}\<close>; both are fields of \<open>f64_ops\<close>. Identifiers and clock readings
  are arguments.
\<close>

section \<open>Types\<close>

datatype Modality = Document | Semantic | Graph | Vector | Tensor | Temporal | Provenance | Spatial

fun Modality_debug :: "Modality \<Rightarrow> string" where
  "Modality_debug Document = ''Document''"
| "Modality_debug Semantic = ''Semantic''"
| "Modality_debug Graph = ''Graph''"
| "Modality_debug Vector = ''Vector''"
| "Modality_debug Tensor = ''Tensor''"
| "Modality_debug Temporal = ''Temporal''"
| "Modality_debug Provenance = ''Provenance''"
| "Modality_debug Spatial = ''Spatial''"

fun Modality_display :: "Modality \<Rightarrow> string" where
  "Modality_display Document = ''document''"
| "Modality_display Semantic = ''semantic''"
| "Modality_display Graph = ''graph''"
| "Modality_display Vector = ''vector''"
| "Modality_display Tensor = ''tensor''"
| "Modality_display Temporal = ''temporal''"
| "Modality_display Provenance = ''provenance''"
| "Modality_display Spatial = ''spatial''"

datatype ConflictPolicy =
  LastWriterWins | ModalityPriority "Modality list" | ManualResolve | AutoMerge | CustomPolicy string

fun ConflictPolicy_display :: "ConflictPolicy \<Rightarrow> string" where
  "ConflictPolicy_display LastWriterWins = ''last_writer_wins''"
| "ConflictPolicy_display (ModalityPriority _) = ''modality_priority''"
| "ConflictPolicy_display ManualResolve = ''manual_resolve''"
| "ConflictPolicy_display AutoMerge = ''auto_merge''"
| "ConflictPolicy_display (CustomPolicy name) = ''custom('' @ name @ '')''"

datatype ConflictStatus = Open | InProgress | Resolved | Dismissed

fun ConflictStatus_display :: "ConflictStatus \<Rightarrow> string" where
  "ConflictStatus_display Open = ''open''"
| "ConflictStatus_display InProgress = ''in_progress''"
| "ConflictStatus_display Resolved = ''resolved''"
| "ConflictStatus_display Dismissed = ''dismissed''"

record 'ts ConflictResolution =
  cr_resolved_at :: 'ts
  cr_policy_used :: ConflictPolicy
  cr_winning_modality :: "Modality option"
  cr_resolver :: string
  cr_notes :: "string option"

record ('f, 'ts) Conflict =
  cf_id :: string
  cf_entity_id :: string
  cf_detected_at :: 'ts
  cf_conflicting_modalities :: "Modality list"
  cf_drift_score :: 'f
  cf_description :: string
  cf_status :: ConflictStatus
  cf_resolution :: "'ts ConflictResolution option"

record 'f ConflictConfig =
  cc_default_policy :: ConflictPolicy
  cc_per_modality_policies :: "Modality \<times> Modality \<rightharpoonup> ConflictPolicy"
  cc_auto_resolve_threshold :: 'f
  cc_require_manual_above :: 'f
  cc_max_history_entries :: nat

definition policy_for_pair :: "'f ConflictConfig \<Rightarrow> Modality \<Rightarrow> Modality \<Rightarrow> ConflictPolicy" where
  "policy_for_pair config a b =
    (case cc_per_modality_policies config (a, b) of
       Some p \<Rightarrow> p
     | None \<Rightarrow> (case cc_per_modality_policies config (b, a) of Some p \<Rightarrow> p | None \<Rightarrow> cc_default_policy config))"

datatype ConflictError =
    ConflictNotFound string
  | AlreadyResolved string
  | InvalidPolicy string
  | ModalityNotInConflict string

record 'f f64_ops =
  f_ge :: "'f \<Rightarrow> 'f \<Rightarrow> bool"
  f_format3 :: "'f \<Rightarrow> string"

record ('f, 'ts) ConflictResolver =
  rv_config :: "'f ConflictConfig"
  rv_active_conflicts :: "('f, 'ts) Conflict list"
  rv_history :: "('f, 'ts) Conflict list"

definition ConflictResolver_new :: "'f ConflictConfig \<Rightarrow> ('f, 'ts) ConflictResolver" where
  "ConflictResolver_new config = \<lparr>rv_config = config, rv_active_conflicts = [], rv_history = []\<rparr>"

section \<open>Operations\<close>

definition detect_conflict ::
  "string \<Rightarrow> 'ts \<Rightarrow> ('f, 'ts) ConflictResolver \<Rightarrow> string \<Rightarrow> Modality list \<Rightarrow> 'f \<Rightarrow> string
   \<Rightarrow> ('f, 'ts) ConflictResolver \<times> ('f, 'ts) Conflict" where
  "detect_conflict fresh now rv entity_id modalities drift_score description =
    (let conflict = \<lparr>cf_id = fresh, cf_entity_id = entity_id, cf_detected_at = now,
                     cf_conflicting_modalities = modalities, cf_drift_score = drift_score,
                     cf_description = description, cf_status = Open, cf_resolution = None\<rparr>
     in (rv\<lparr>rv_active_conflicts := rv_active_conflicts rv @ [conflict]\<rparr>, conflict))"

text \<open>The two loops of \<open>select_policy\<close> over the pairs \<open>i < j\<close>, first match.\<close>

fun pair_policy :: "'f ConflictConfig \<Rightarrow> Modality \<Rightarrow> Modality list \<Rightarrow> ConflictPolicy option" where
  "pair_policy config a [] = None"
| "pair_policy config a (b # bs) =
    (case (case cc_per_modality_policies config (a, b) of
             Some p \<Rightarrow> Some p | None \<Rightarrow> cc_per_modality_policies config (b, a)) of
       Some policy \<Rightarrow> Some policy
     | None \<Rightarrow> pair_policy config a bs)"

fun pairs_policy :: "'f ConflictConfig \<Rightarrow> Modality list \<Rightarrow> ConflictPolicy option" where
  "pairs_policy config [] = None"
| "pairs_policy config (a # rest) =
    (case pair_policy config a rest of Some p \<Rightarrow> Some p | None \<Rightarrow> pairs_policy config rest)"

definition select_policy :: "'f ConflictConfig \<Rightarrow> ('f, 'ts) Conflict \<Rightarrow> ConflictPolicy" where
  "select_policy config conflict =
    (case pairs_policy config (cf_conflicting_modalities conflict) of
       Some p \<Rightarrow> p | None \<Rightarrow> cc_default_policy config)"

fun position :: "'a \<Rightarrow> 'a list \<Rightarrow> nat option" where
  "position x [] = None"
| "position x (y # ys) = (if y = x then Some 0 else map_option Suc (position x ys))"

fun best_priority :: "Modality list \<Rightarrow> (nat \<times> Modality) option \<Rightarrow> Modality list \<Rightarrow> (nat \<times> Modality) option" where
  "best_priority priority_order best [] = best"
| "best_priority priority_order best (m # ms) =
    (case position m priority_order of
       None \<Rightarrow> best_priority priority_order best ms
     | Some idx \<Rightarrow>
         (case best of
            None \<Rightarrow> best_priority priority_order (Some (idx, m)) ms
          | Some (best_idx, m') \<Rightarrow>
              best_priority priority_order (if idx < best_idx then Some (idx, m) else best) ms))"

definition apply_policy :: "'ts \<Rightarrow> ('f, 'ts) Conflict \<Rightarrow> ConflictPolicy \<Rightarrow> 'ts ConflictResolution" where
  "apply_policy now conflict policy =
    (let ms = cf_conflicting_modalities conflict;
         winning_modality =
           (case policy of
              LastWriterWins \<Rightarrow> (if ms = [] then None else Some (last ms))
            | ModalityPriority priority_order \<Rightarrow>
                (case best_priority priority_order None ms of
                   Some (_, m) \<Rightarrow> Some m
                 | None \<Rightarrow> (case ms of [] \<Rightarrow> None | m # _ \<Rightarrow> Some m))
            | AutoMerge \<Rightarrow> None
            | ManualResolve \<Rightarrow> None
            | CustomPolicy _ \<Rightarrow> None)
     in \<lparr>cr_resolved_at = now, cr_policy_used = policy, cr_winning_modality = winning_modality,
         cr_resolver = ''system'', cr_notes = None\<rparr>)"

definition move_to_history :: "('f, 'ts) ConflictResolver \<Rightarrow> ('f, 'ts) Conflict \<Rightarrow> ('f, 'ts) ConflictResolver" where
  "move_to_history rv conflict =
    (let active = filter (\<lambda>c. cf_id c \<noteq> cf_id conflict) (rv_active_conflicts rv);
         history = rv_history rv @ [conflict];
         max_entries = cc_max_history_entries (rv_config rv);
         history = (if max_entries < length history then drop (length history - max_entries) history else history)
     in rv\<lparr>rv_active_conflicts := active, rv_history := history\<rparr>)"

text \<open>\<open>iter_mut().find(..)\<close>: the first conflict with that identifier, updated in place.\<close>

fun update_first :: "('a \<Rightarrow> bool) \<Rightarrow> ('a \<Rightarrow> 'a) \<Rightarrow> 'a list \<Rightarrow> 'a list" where
  "update_first P f [] = []"
| "update_first P f (x # xs) = (if P x then f x # xs else x # update_first P f xs)"

definition set_conflict :: "('f, 'ts) ConflictResolver \<Rightarrow> string \<Rightarrow> ('f, 'ts) Conflict \<Rightarrow> ('f, 'ts) ConflictResolver" where
  "set_conflict rv conflict_id c =
     rv\<lparr>rv_active_conflicts := update_first (\<lambda>x. cf_id x = conflict_id) (\<lambda>_. c) (rv_active_conflicts rv)\<rparr>"

definition find_conflict :: "('f, 'ts) ConflictResolver \<Rightarrow> string \<Rightarrow> (ConflictError, ('f, 'ts) Conflict) rresult" where
  "find_conflict rv conflict_id =
    (case find (\<lambda>c. cf_id c = conflict_id) (rv_active_conflicts rv) of
       None \<Rightarrow> Inl (ConflictNotFound conflict_id)
     | Some conflict \<Rightarrow>
         if cf_status conflict = Resolved \<or> cf_status conflict = Dismissed
         then Inl (AlreadyResolved conflict_id) else Inr conflict)"

definition resolve ::
  "'f f64_ops \<Rightarrow> 'ts \<Rightarrow> ('f, 'ts) ConflictResolver \<Rightarrow> string \<Rightarrow> ConflictPolicy option
   \<Rightarrow> ('f, 'ts) ConflictResolver \<times> (ConflictError, 'ts ConflictResolution) rresult" where
  "resolve fops now rv conflict_id policy =
    (case find_conflict rv conflict_id of
       Inl e \<Rightarrow> (rv, Inl e)
     | Inr conflict \<Rightarrow>
         if f_ge fops (cf_drift_score conflict) (cc_require_manual_above (rv_config rv)) then
           (set_conflict rv conflict_id (conflict\<lparr>cf_status := InProgress\<rparr>),
            Inl (InvalidPolicy (''Drift score '' @ f_format3 fops (cf_drift_score conflict) @ '' >= manual threshold ''
              @ f_format3 fops (cc_require_manual_above (rv_config rv)) @ '' -- use resolve_manual()'')))
         else
           let effective_policy = (case policy of Some p \<Rightarrow> p | None \<Rightarrow> select_policy (rv_config rv) conflict) in
           (case effective_policy of
              ManualResolve \<Rightarrow>
                (set_conflict rv conflict_id (conflict\<lparr>cf_status := InProgress\<rparr>),
                 Inl (InvalidPolicy ''ManualResolve policy requires resolve_manual()''))
            | CustomPolicy name \<Rightarrow>
                (set_conflict rv conflict_id (conflict\<lparr>cf_status := InProgress\<rparr>),
                 Inl (InvalidPolicy (''Custom policy '' @ [CHR 0x27] @ name @ [CHR 0x27] @ '' requires external resolver callback'')))
            | _ \<Rightarrow>
                (let resolution = apply_policy now conflict effective_policy;
                     resolved = conflict\<lparr>cf_status := Resolved, cf_resolution := Some resolution\<rparr>
                 in (move_to_history (set_conflict rv conflict_id resolved) resolved, Inr resolution))))"

definition debug_modalities :: "Modality list \<Rightarrow> string" where
  "debug_modalities ms =
     ''['' @ concat (case ms of [] \<Rightarrow> [] | m # rest \<Rightarrow> Modality_debug m # map (\<lambda>x. '', '' @ Modality_debug x) rest) @ '']''"

definition resolve_manual ::
  "'ts \<Rightarrow> ('f, 'ts) ConflictResolver \<Rightarrow> string \<Rightarrow> Modality \<Rightarrow> string \<Rightarrow> string option
   \<Rightarrow> ('f, 'ts) ConflictResolver \<times> (ConflictError, 'ts ConflictResolution) rresult" where
  "resolve_manual now rv conflict_id winning_modality resolver notes =
    (case find_conflict rv conflict_id of
       Inl e \<Rightarrow> (rv, Inl e)
     | Inr conflict \<Rightarrow>
         if winning_modality \<notin> set (cf_conflicting_modalities conflict) then
           (rv, Inl (ModalityNotInConflict (Modality_display winning_modality @ '' is not in conflicting modalities ''
                  @ debug_modalities (cf_conflicting_modalities conflict))))
         else
           let resolution = \<lparr>cr_resolved_at = now, cr_policy_used = ManualResolve,
                             cr_winning_modality = Some winning_modality, cr_resolver = resolver, cr_notes = notes\<rparr>;
               resolved = conflict\<lparr>cf_status := Resolved, cf_resolution := Some resolution\<rparr>
           in (move_to_history (set_conflict rv conflict_id resolved) resolved, Inr resolution))"

definition dismiss ::
  "'ts \<Rightarrow> ('f, 'ts) ConflictResolver \<Rightarrow> string \<Rightarrow> string \<Rightarrow> ('f, 'ts) ConflictResolver \<times> (ConflictError, unit) rresult" where
  "dismiss now rv conflict_id reason =
    (case find_conflict rv conflict_id of
       Inl e \<Rightarrow> (rv, Inl e)
     | Inr conflict \<Rightarrow>
         let dismissed = conflict\<lparr>cf_status := Dismissed, cf_resolution := Some
               \<lparr>cr_resolved_at = now, cr_policy_used = LastWriterWins, cr_winning_modality = None,
                cr_resolver = ''system'', cr_notes = Some (''Dismissed: '' @ reason)\<rparr>\<rparr>
         in (move_to_history (set_conflict rv conflict_id dismissed) dismissed, Inr ()))"

definition history :: "('f, 'ts) ConflictResolver \<Rightarrow> nat \<Rightarrow> ('f, 'ts) Conflict list" where
  "history rv limit =
    (let h = rv_history rv in
     if limit = 0 \<or> length h \<le> limit then rev h
     else let start = length h - limit in rev (drop start h))"

definition by_entity :: "('f, 'ts) ConflictResolver \<Rightarrow> string \<Rightarrow> ('f, 'ts) Conflict list" where
  "by_entity rv entity_id =
     filter (\<lambda>c. cf_entity_id c = entity_id) (rv_active_conflicts rv)
     @ rev (filter (\<lambda>c. cf_entity_id c = entity_id) (rv_history rv))"

section \<open>Runs and the life cycle\<close>

datatype ('f, 'ts) conflict_op =
    Detect string 'ts string "Modality list" 'f string
  | Resolve 'ts string "ConflictPolicy option"
  | ResolveManual 'ts string Modality string "string option"
  | Dismiss 'ts string string

fun conflict_step :: "'f f64_ops \<Rightarrow> ('f, 'ts) ConflictResolver \<Rightarrow> ('f, 'ts) conflict_op \<Rightarrow> ('f, 'ts) ConflictResolver" where
  "conflict_step fops rv (Detect fresh now e ms score d) = fst (detect_conflict fresh now rv e ms score d)"
| "conflict_step fops rv (Resolve now i p) = fst (resolve fops now rv i p)"
| "conflict_step fops rv (ResolveManual now i m r n) = fst (resolve_manual now rv i m r n)"
| "conflict_step fops rv (Dismiss now i r) = fst (dismiss now rv i r)"

definition conflict_run :: "'f f64_ops \<Rightarrow> 'f ConflictConfig \<Rightarrow> ('f, 'ts) conflict_op list \<Rightarrow> ('f, 'ts) ConflictResolver" where
  "conflict_run fops config ops = foldl (conflict_step fops) (ConflictResolver_new config) ops"

fun detected_ids :: "('f, 'ts) conflict_op list \<Rightarrow> string list" where
  "detected_ids [] = []"
| "detected_ids (Detect fresh now e ms score d # ops) = fresh # detected_ids ops"
| "detected_ids (_ # ops) = detected_ids ops"

lemma detected_ids_append [simp]: "detected_ids (xs @ ys) = detected_ids xs @ detected_ids ys"
  by (induction xs rule: detected_ids.induct) auto

definition is_open :: "('f, 'ts) Conflict \<Rightarrow> bool" where
  "is_open c \<longleftrightarrow> cf_status c \<in> {Open, InProgress} \<and> cf_resolution c = None"

definition is_closed :: "('f, 'ts) Conflict \<Rightarrow> bool" where
  "is_closed c \<longleftrightarrow> cf_status c \<in> {Resolved, Dismissed} \<and> cf_resolution c \<noteq> None"

text \<open>\<open>closed\<close> lists every conflict closed so far; the resolver keeps the newest of them.\<close>

definition conflict_inv ::
  "string set \<Rightarrow> ('f, 'ts) Conflict list \<Rightarrow> ('f, 'ts) ConflictResolver \<Rightarrow> bool" where
  "conflict_inv used closed rv \<longleftrightarrow>
     list_all is_open (rv_active_conflicts rv) \<and> list_all is_closed closed
     \<and> rv_history rv = drop (length closed - cc_max_history_entries (rv_config rv)) closed
     \<and> distinct (map cf_id (rv_active_conflicts rv @ closed))
     \<and> cf_id ` set (rv_active_conflicts rv @ closed) = used"

lemma update_first_ids:
  "cf_id c = i \<Longrightarrow> map cf_id (update_first (\<lambda>x. cf_id x = i) (\<lambda>_. c) xs) = map cf_id xs"
  by (induction xs) auto

lemma update_first_filter:
  "cf_id c = i \<Longrightarrow> filter (\<lambda>x. cf_id x \<noteq> i) (update_first (\<lambda>x. cf_id x = i) (\<lambda>_. c) xs) = filter (\<lambda>x. cf_id x \<noteq> i) xs"
  by (induction xs) auto

lemma list_all_update_first: "list_all P xs \<Longrightarrow> P c \<Longrightarrow> list_all P (update_first Q (\<lambda>_. c) xs)"
  by (induction xs) auto

lemma find_conflict_InrD:
  "find_conflict rv i = Inr c \<Longrightarrow> c \<in> set (rv_active_conflicts rv) \<and> cf_id c = i"
  by (auto simp: find_conflict_def find_Some_iff split: option.splits if_splits)

lemma conflict_inv_detect:
  assumes "conflict_inv used closed rv" and "fresh \<notin> used"
  shows "conflict_inv (insert fresh used) closed (fst (detect_conflict fresh now rv e ms score d))"
  using assms by (auto simp: conflict_inv_def detect_conflict_def is_open_def Let_def)

lemma conflict_inv_progress:
  assumes inv: "conflict_inv used closed rv" and c: "find_conflict rv i = Inr c"
  shows "conflict_inv used closed (set_conflict rv i (c\<lparr>cf_status := InProgress\<rparr>))"
proof -
  let ?xs = "rv_active_conflicts rv"
  let ?c = "c\<lparr>cf_status := InProgress\<rparr>"
  have i: "cf_id ?c = i" and "c \<in> set ?xs" using find_conflict_InrD [OF c] by simp_all
  then have op: "is_open ?c" using inv by (auto simp: conflict_inv_def is_open_def list_all_iff)
  note ids = update_first_ids [OF i, of ?xs]
  from ids have "cf_id ` set (update_first (\<lambda>x. cf_id x = i) (\<lambda>_. ?c) ?xs) = cf_id ` set ?xs"
    by (metis set_map)
  with inv op ids show ?thesis
    by (simp add: conflict_inv_def set_conflict_def list_all_update_first image_Un)
qed

lemma drop_snoc_bounded:
  "(if m < length (drop (length xs - m) xs @ [x]) then drop (length (drop (length xs - m) xs @ [x]) - m) (drop (length xs - m) xs @ [x])
    else drop (length xs - m) xs @ [x]) = drop (length (xs @ [x]) - m) (xs @ [x])"
  by (cases "length xs < m") (auto simp: Suc_diff_le not_less)

lemma conflict_inv_close:
  assumes inv: "conflict_inv used closed rv" and c: "find_conflict rv i = Inr c"
    and c': "c' = c\<lparr>cf_status := st, cf_resolution := Some res\<rparr>" and "st \<in> {Resolved, Dismissed}"
  shows "conflict_inv used (closed @ [c']) (move_to_history (set_conflict rv i c') c')"
proof -
  let ?xs = "rv_active_conflicts rv"
  have i: "cf_id c' = i" and mem: "c \<in> set ?xs" "cf_id c = i" using find_conflict_InrD [OF c] c' by simp_all
  have act: "rv_active_conflicts (move_to_history (set_conflict rv i c') c') = filter (\<lambda>x. cf_id x \<noteq> i) ?xs"
    by (simp add: move_to_history_def set_conflict_def Let_def i update_first_filter)
  have hist: "rv_history (move_to_history (set_conflict rv i c') c')
      = drop (length (closed @ [c']) - cc_max_history_entries (rv_config rv)) (closed @ [c'])"
    using inv drop_snoc_bounded [of "cc_max_history_entries (rv_config rv)" closed c']
    by (simp add: move_to_history_def set_conflict_def Let_def conflict_inv_def)
  have cfg: "rv_config (move_to_history (set_conflict rv i c') c') = rv_config rv"
    by (simp add: move_to_history_def set_conflict_def Let_def)
  have "cf_id ` set (filter (\<lambda>x. cf_id x \<noteq> i) ?xs @ closed @ [c']) = cf_id ` set (?xs @ closed)"
    using mem i by auto
  moreover have "distinct (map cf_id (filter (\<lambda>x. cf_id x \<noteq> i) ?xs @ closed @ [c']))"
  proof -
    have "distinct (map cf_id ?xs)" "distinct (map cf_id closed)" "i \<notin> cf_id ` set closed"
      "cf_id ` set ?xs \<inter> cf_id ` set closed = {}"
      using inv mem by (auto simp: conflict_inv_def)
    then show ?thesis using i by (auto simp: distinct_map_filter)
  qed
  moreover have "is_closed c'" using c' assms(4) by (auto simp: is_closed_def)
  moreover have "list_all is_open (filter (\<lambda>x. cf_id x \<noteq> i) ?xs)" "list_all is_closed closed"
    using inv by (auto simp: conflict_inv_def list_all_iff)
  ultimately show ?thesis
    using inv unfolding conflict_inv_def act hist cfg by auto
qed

definition conflict_ok :: "string set \<Rightarrow> ('f, 'ts) ConflictResolver \<Rightarrow> bool" where
  "conflict_ok used rv \<longleftrightarrow> (\<exists>closed. conflict_inv used closed rv)"

lemma conflict_ok_detect: "conflict_ok used rv \<Longrightarrow> fresh \<notin> used \<Longrightarrow>
    conflict_ok (insert fresh used) (fst (detect_conflict fresh now rv e ms score d))"
  unfolding conflict_ok_def by (erule exE, rule exI, rule conflict_inv_detect)

lemma conflict_ok_progress: "conflict_ok used rv \<Longrightarrow> find_conflict rv i = Inr c \<Longrightarrow>
    conflict_ok used (set_conflict rv i (c\<lparr>cf_status := InProgress\<rparr>))"
  unfolding conflict_ok_def by (erule exE, rule exI, rule conflict_inv_progress)

lemma conflict_ok_close: "conflict_ok used rv \<Longrightarrow> find_conflict rv i = Inr c \<Longrightarrow> st = Resolved \<or> st = Dismissed \<Longrightarrow>
    conflict_ok used (move_to_history (set_conflict rv i (c\<lparr>cf_status := st, cf_resolution := Some res\<rparr>))
      (c\<lparr>cf_status := st, cf_resolution := Some res\<rparr>))"
  unfolding conflict_ok_def by (erule exE, rule exI, rule conflict_inv_close [OF _ _ refl]) simp_all

lemma conflict_ok_step:
  assumes "conflict_ok used rv" and "set (detected_ids [op]) \<inter> used = {}"
  shows "conflict_ok (used \<union> set (detected_ids [op])) (conflict_step fops rv op)"
proof (cases op)
  case (Detect fresh now e ms score d)
  with conflict_ok_detect [OF assms(1)] assms(2) show ?thesis by simp
next
  case (Resolve now i p)
  then show ?thesis using assms(1)
    by (auto simp: resolve_def Let_def intro: conflict_ok_progress conflict_ok_close
        split: sum.splits ConflictPolicy.splits option.splits)
next
  case (ResolveManual now i m r n)
  then show ?thesis using assms(1)
    by (auto simp: resolve_manual_def Let_def intro: conflict_ok_close split: sum.splits)
next
  case (Dismiss now i r)
  then show ?thesis using assms(1)
    by (auto simp: dismiss_def Let_def intro: conflict_ok_close split: sum.splits)
qed

lemma step_config [simp]: "rv_config (conflict_step fops rv op) = rv_config rv"
  by (cases op)
     (auto simp: detect_conflict_def resolve_def resolve_manual_def dismiss_def move_to_history_def set_conflict_def Let_def
       split: sum.splits ConflictPolicy.splits option.splits)

lemma conflict_ok_run:
  assumes "distinct (detected_ids ops)"
  shows "conflict_ok (set (detected_ids ops)) (conflict_run fops config ops)
    \<and> rv_config (conflict_run fops config ops) = config"
  using assms
proof (induction ops rule: rev_induct)
  case Nil
  then show ?case by (simp add: conflict_run_def ConflictResolver_new_def conflict_inv_def conflict_ok_def)
next
  case (snoc op ops)
  have app: "detected_ids (ops @ [op]) = detected_ids ops @ detected_ids [op]"
    by (rule detected_ids_append)
  have IH: "conflict_ok (set (detected_ids ops)) (conflict_run fops config ops)"
    "rv_config (conflict_run fops config ops) = config"
    using snoc.IH snoc.prems by (simp_all add: app)
  have "set (detected_ids [op]) \<inter> set (detected_ids ops) = {}" using snoc.prems by (auto simp: app)
  from conflict_ok_step [OF IH(1) this, of fops] IH(2) show ?case
    by (simp add: app conflict_run_def)
qed

text \<open>C29: The life cycle of conflicts: through any operations (identifiers being unique, as version-4
  UUIDs are), the active list holds only open or in-progress conflicts without a resolution, the
  history only resolved or dismissed ones with one, at most \<open>max_history_entries\<close> of them; no conflict
  is in both or twice; and as long as no more were detected than the history can hold, none is lost.
\<close>

theorem conflict_lifecycle:
  assumes "distinct (detected_ids ops)" and "rv = conflict_run fops config ops"
  shows "list_all is_open (rv_active_conflicts rv) \<and> list_all is_closed (rv_history rv)
    \<and> length (rv_history rv) \<le> cc_max_history_entries config
    \<and> distinct (map cf_id (rv_active_conflicts rv @ rv_history rv))
    \<and> (length (detected_ids ops) \<le> cc_max_history_entries config \<longrightarrow>
         cf_id ` set (rv_active_conflicts rv @ rv_history rv) = set (detected_ids ops))"
proof -
  obtain closed where inv: "conflict_inv (set (detected_ids ops)) closed rv" and cfg: "rv_config rv = config"
    using conflict_ok_run [OF assms(1), of fops config] assms(2) by (auto simp: conflict_ok_def)
  let ?n = "length closed - cc_max_history_entries config"
  have h: "rv_history rv = drop ?n closed" using inv cfg by (simp add: conflict_inv_def)
  have sub: "set (drop ?n closed) \<subseteq> set closed" by (rule set_drop_subset)
  have "distinct (map cf_id (drop ?n closed))" using inv by (simp add: conflict_inv_def flip: drop_map)
  with sub inv have d: "distinct (map cf_id (rv_active_conflicts rv @ rv_history rv))"
    by (auto simp: h conflict_inv_def)
  have "length closed \<le> length (detected_ids ops)"
  proof -
    have "length closed = card (cf_id ` set closed)"
      using inv by (metis conflict_inv_def distinct_append distinct_card length_map map_append set_map)
    also have "\<dots> \<le> card (set (detected_ids ops))"
      using inv by (intro card_mono) (auto simp: conflict_inv_def)
    finally show ?thesis using card_length le_trans by blast
  qed
  moreover have "length (rv_history rv) \<le> cc_max_history_entries config" by (simp add: h)
  moreover have "list_all is_closed (rv_history rv)" using inv sub by (auto simp: conflict_inv_def h list_all_iff)
  moreover have "list_all is_open (rv_active_conflicts rv)" using inv by (simp add: conflict_inv_def list_all_iff)
  moreover have "cf_id ` set (rv_active_conflicts rv @ closed) = set (detected_ids ops)"
    using inv by (auto simp: conflict_inv_def)
  ultimately show ?thesis using d by (auto simp: h)
qed

definition demo_config :: "nat ConflictConfig" where
  "demo_config = \<lparr>cc_default_policy = LastWriterWins, cc_per_modality_policies = Map.empty,
     cc_auto_resolve_threshold = 3, cc_require_manual_above = 8, cc_max_history_entries = 2\<rparr>"

definition nat_ops :: "nat f64_ops" where
  "nat_ops = \<lparr>f_ge = (\<lambda>x y. y \<le> x), f_format3 = dec_digits\<rparr>"

definition demo_conflict_ops :: "(nat, nat) conflict_op list" where
  "demo_conflict_ops = [Detect ''c1'' 0 ''e'' [Graph, Vector] 5 [], Detect ''c2'' 1 ''e'' [Tensor] 9 [], Resolve 2 ''c1'' None]"

theorem conflict_lifecycle_witness:
  "\<exists>rv. rv = conflict_run nat_ops demo_config demo_conflict_ops \<and> list_all is_closed (rv_history rv)
     \<and> cf_id ` set (rv_active_conflicts rv @ rv_history rv) = {''c1'', ''c2''}"
proof -
  have ids: "detected_ids demo_conflict_ops = [''c1'', ''c2'']" by (simp add: demo_conflict_ops_def)
  from conflict_lifecycle [OF _ refl, of demo_conflict_ops nat_ops demo_config] show ?thesis
    by (simp add: ids demo_config_def)
qed

section \<open>Who wins\<close>

lemma position_Some: "position x xs = Some i \<Longrightarrow> i < length xs \<and> xs ! i = x"
  by (induction xs arbitrary: i) (auto split: if_splits)

lemma position_None: "position x xs = None \<longleftrightarrow> x \<notin> set xs"
  by (induction xs) auto

definition best_ok :: "Modality list \<Rightarrow> Modality set \<Rightarrow> (nat \<times> Modality) option \<Rightarrow> bool" where
  "best_ok order seen best \<longleftrightarrow>
    (case best of
       None \<Rightarrow> (\<forall>m \<in> seen. position m order = None)
     | Some (i, w) \<Rightarrow> w \<in> seen \<and> position w order = Some i
         \<and> (\<forall>m \<in> seen. \<forall>j. position m order = Some j \<longrightarrow> i \<le> j))"

lemma best_priority_ok: "best_ok order seen best \<Longrightarrow> best_ok order (seen \<union> set ms) (best_priority order best ms)"
proof (induction ms arbitrary: best seen)
  case Nil
  then show ?case by simp
next
  case (Cons m ms)
  let ?best = "case position m order of None \<Rightarrow> best
    | Some idx \<Rightarrow> (case best of None \<Rightarrow> Some (idx, m) | Some (j, m') \<Rightarrow> if idx < j then Some (idx, m) else best)"
  have "best_priority order best (m # ms) = best_priority order ?best ms"
    by (auto split: option.splits)
  moreover have "best_ok order (insert m seen) ?best"
    using Cons.prems by (fastforce simp: best_ok_def split: option.splits prod.splits)
  ultimately show ?case using Cons.IH [of "insert m seen" ?best] by simp
qed

text \<open>The winner of an automatic resolution is one of the conflicting modalities: the last of them
  under last-writer-wins; under modality priority, the listed one that comes first in the authority
  order, or the first conflicting modality when none is listed; auto-merge names none.
\<close>

theorem apply_policy_winner:
  "cr_winning_modality (apply_policy now c LastWriterWins) =
     (if cf_conflicting_modalities c = [] then None else Some (last (cf_conflicting_modalities c)))
   \<and> cr_winning_modality (apply_policy now c AutoMerge) = None
   \<and> (case cr_winning_modality (apply_policy now c (ModalityPriority order)) of
        None \<Rightarrow> cf_conflicting_modalities c = []
      | Some w \<Rightarrow> w \<in> set (cf_conflicting_modalities c) \<and>
          (if set (cf_conflicting_modalities c) \<inter> set order = {} then w = hd (cf_conflicting_modalities c)
           else \<exists>i. position w order = Some i \<and>
             (\<forall>m \<in> set (cf_conflicting_modalities c). \<forall>j. position m order = Some j \<longrightarrow> i \<le> j)))"
proof -
  let ?ms = "cf_conflicting_modalities c"
  have "best_ok order {} None" by (simp add: best_ok_def)
  note spec = best_priority_ok [OF this, of ?ms, unfolded best_ok_def]
  show ?thesis
  proof (cases "best_priority order None ?ms")
    case None
    with spec have "\<forall>m \<in> set ?ms. m \<notin> set order" by (simp add: position_None)
    then have "set ?ms \<inter> set order = {}" by auto
    with None show ?thesis by (cases ?ms) (simp_all add: apply_policy_def Let_def)
  next
    case (Some p)
    then obtain i w where r: "best_priority order None ?ms = Some (i, w)" by (cases p) auto
    with spec have w: "position w order = Some i" "w \<in> set ?ms"
      "\<forall>m \<in> set ?ms. \<forall>j. position m order = Some j \<longrightarrow> i \<le> j" by auto
    then have "w \<in> set order" using position_None [of w order] by auto
    with w r show ?thesis by (auto simp: apply_policy_def Let_def)
  qed
qed

theorem apply_policy_winner_witness:
  "cr_winning_modality (apply_policy (0 :: nat)
     \<lparr>cf_id = [], cf_entity_id = [], cf_detected_at = 0, cf_conflicting_modalities = [Temporal, Vector, Document],
      cf_drift_score = (0 :: nat), cf_description = [], cf_status = Open, cf_resolution = None\<rparr>
     (ModalityPriority [Semantic, Document, Vector])) \<in> {Some Document, Some Temporal, Some Vector}"
  using apply_policy_winner [of "0 :: nat" "\<lparr>cf_id = [], cf_entity_id = [], cf_detected_at = 0, cf_conflicting_modalities = [Temporal, Vector, Document],
      cf_drift_score = (0 :: nat), cf_description = [], cf_status = Open, cf_resolution = None\<rparr>" "[Semantic, Document, Vector]"]
  by (auto split: option.splits)

section \<open>Escalation\<close>

text \<open>A conflict whose drift score reaches \<open>require_manual_above\<close> is never resolved automatically,
  whatever policy is passed or configured: \<open>resolve\<close> fails, the conflict stays active and goes
  \<open>InProgress\<close>, the history is untouched, and \<open>resolve_manual\<close> with one of its modalities still closes it.
\<close>

theorem high_drift_needs_manual:
  assumes "find_conflict rv i = Inr c" and "f_ge fops (cf_drift_score c) (cc_require_manual_above (rv_config rv))"
    and "m \<in> set (cf_conflicting_modalities c)"
  shows "\<exists>rv' msg rv2 res. resolve fops now rv i policy = (rv', Inl (InvalidPolicy msg))
    \<and> find_conflict rv' i = Inr (c\<lparr>cf_status := InProgress\<rparr>) \<and> rv_history rv' = rv_history rv
    \<and> resolve_manual now rv' i m who notes = (rv2, Inr res) \<and> cr_winning_modality res = Some m
    \<and> (\<forall>x \<in> set (rv_active_conflicts rv2). cf_id x \<noteq> i)"
proof -
  let ?c = "c\<lparr>cf_status := InProgress\<rparr>"
  let ?rv = "set_conflict rv i ?c"
  have i: "cf_id c = i" using find_conflict_InrD [OF assms(1)] by simp
  have "find (\<lambda>x. cf_id x = i) (update_first (\<lambda>x. cf_id x = i) (\<lambda>_. ?c) xs) = Some ?c"
    if "find (\<lambda>x. cf_id x = i) xs = Some c" for xs
    using that i by (induction xs) (auto split: if_splits)
  then have f: "find_conflict ?rv i = Inr ?c"
    using assms(1) by (auto simp: find_conflict_def set_conflict_def split: option.splits if_splits)
  then have "\<exists>rv2 res. resolve_manual now ?rv i m who notes = (rv2, Inr res) \<and> cr_winning_modality res = Some m
      \<and> (\<forall>x \<in> set (rv_active_conflicts rv2). cf_id x \<noteq> i)"
    using assms(3) i by (simp add: resolve_manual_def Let_def move_to_history_def)
  moreover have "\<exists>msg. resolve fops now rv i policy = (?rv, Inl (InvalidPolicy msg))"
    using assms(1,2) by (simp add: resolve_def)
  moreover have "rv_history ?rv = rv_history rv" by (simp add: set_conflict_def)
  ultimately show ?thesis using f by blast
qed

theorem high_drift_needs_manual_witness:
  "\<exists>rv' msg rv2 res. resolve nat_ops 3 (conflict_run nat_ops demo_config demo_conflict_ops) ''c2'' (Some LastWriterWins)
      = (rv', Inl (InvalidPolicy msg))
    \<and> resolve_manual 3 rv' ''c2'' Tensor ''ann'' None = (rv2, Inr res) \<and> cr_winning_modality res = Some Tensor"
proof -
  let ?rv = "conflict_run nat_ops demo_config demo_conflict_ops"
  let ?c = "\<lparr>cf_id = ''c2'', cf_entity_id = ''e'', cf_detected_at = 1, cf_conflicting_modalities = [Tensor],
      cf_drift_score = 9, cf_description = [], cf_status = Open, cf_resolution = None\<rparr> :: (nat, nat) Conflict"
  have f: "find_conflict ?rv ''c2'' = Inr ?c" and cfg: "rv_config ?rv = demo_config"
    by (simp_all add: conflict_run_def demo_conflict_ops_def ConflictResolver_new_def detect_conflict_def resolve_def
        find_conflict_def demo_config_def nat_ops_def select_policy_def apply_policy_def move_to_history_def
        set_conflict_def Let_def)
  have "f_ge nat_ops (cf_drift_score ?c) (cc_require_manual_above (rv_config ?rv))"
    unfolding cfg by (simp add: nat_ops_def demo_config_def)
  from high_drift_needs_manual [OF f this, of Tensor 3 "Some LastWriterWins" "''ann''" None] show ?thesis
    by auto
qed

text \<open>
  \<open>auto_resolve_threshold\<close> has no effect, although it is documented as the score below which
  conflicts are resolved immediately: no operation depends on it.
\<close>

theorem auto_resolve_threshold_unused:
  "resolve fops now (rv\<lparr>rv_config := (rv_config rv)\<lparr>cc_auto_resolve_threshold := x\<rparr>\<rparr>) i policy =
     (case resolve fops now rv i policy of (rv', r) \<Rightarrow>
        (rv'\<lparr>rv_config := (rv_config rv)\<lparr>cc_auto_resolve_threshold := x\<rparr>\<rparr>, r))
   \<and> cf_status (snd (detect_conflict fresh now rv e ms score d)) = Open"
proof -
  have "pair_policy (config\<lparr>cc_auto_resolve_threshold := x\<rparr>) a bs = pair_policy config a bs" for config :: "'a ConflictConfig" and a bs
    by (induction bs) (simp_all split: option.splits)
  then have "pairs_policy (config\<lparr>cc_auto_resolve_threshold := x\<rparr>) ms = pairs_policy config ms" for config :: "'a ConflictConfig" and ms
    by (induction ms) (simp_all split: option.splits)
  then show ?thesis
    by (auto simp: resolve_def find_conflict_def select_policy_def detect_conflict_def set_conflict_def move_to_history_def
        Let_def split: option.splits sum.splits ConflictPolicy.splits)
qed

end
