(* ===== verification/Api_Transaction.thy ===== *)
theory Api_Transaction
  imports Prelude "HOL-Library.AList"
begin

text \<open>
  The transaction manager of the HTTP interface (\<open>verisim-api/src/transaction.rs\<close>): transactions buffer
  their operations until a commit hands them to the caller or a rollback discards them; the number of
  active transactions is bounded, and \<open>cleanup_expired\<close> forgets what is older than the timeout.  Every
  method takes the one lock of the map for its whole body, so it is one step here.  The clock is an
  argument (nanoseconds as \<open>int\<close>); what the code uses of chrono, sha2 and hex is the record \<open>api_env\<close>.
\<close>

section \<open>Data\<close>

record api_env =
  ae_to_rfc3339 :: "int \<Rightarrow> string"
  ae_parse_from_rfc3339 :: "string \<Rightarrow> int option"
  ae_timestamp_nanos_opt :: "int \<Rightarrow> i64 option"
  ae_duration_seconds :: "int \<Rightarrow> int option"
  ae_sha256 :: "bytes \<Rightarrow> bytes"
  ae_hex_encode :: "bytes \<Rightarrow> string"

type_synonym TransactionId = string

definition TransactionId_new :: "api_env \<Rightarrow> u32 \<Rightarrow> int \<Rightarrow> TransactionId" where
  "TransactionId_new env pid now =
    (let nanos = (case ae_timestamp_nanos_opt env now of Some n \<Rightarrow> n | None \<Rightarrow> 0);
         hash = ae_sha256 env (u64_to_le_bytes nanos @ u32_to_le_bytes pid)
     in ae_hex_encode env (take 16 hash))"

datatype ApiTransactionState = ApiActive | ApiCommitted | ApiRolledBack

datatype OperationType = OpCreate | OpUpdate | OpDelete

record BufferedOperation =
  bo_entity_id :: string
  bo_operation :: OperationType
  bo_payload :: bytes
  bo_timestamp :: string

record ApiTransaction =
  at_id :: TransactionId
  at_state :: ApiTransactionState
  at_operations :: "BufferedOperation list"
  at_started_at :: string
  at_completed_at :: "string option"

record TransactionStatus =
  ts_id :: string
  ts_state :: ApiTransactionState
  ts_operation_count :: nat
  ts_started_at :: string
  ts_completed_at :: "string option"

definition TransactionStatus_from :: "ApiTransaction \<Rightarrow> TransactionStatus" where
  "TransactionStatus_from txn =
    \<lparr>ts_id = at_id txn, ts_state = at_state txn, ts_operation_count = length (at_operations txn),
     ts_started_at = at_started_at txn, ts_completed_at = at_completed_at txn\<rparr>"

datatype ApiTransactionError =
    NotFound string
  | NotActive string
  | AlreadyCommitted string
  | AlreadyRolledBack string
  | TooManyTransactions

fun ApiTransactionError_display :: "ApiTransactionError \<Rightarrow> string" where
  "ApiTransactionError_display (NotFound i) = ''transaction not found: '' @ i"
| "ApiTransactionError_display (NotActive i) = ''transaction not active: '' @ i"
| "ApiTransactionError_display (AlreadyCommitted i) = ''transaction already committed: '' @ i"
| "ApiTransactionError_display (AlreadyRolledBack i) = ''transaction already rolled back: '' @ i"
| "ApiTransactionError_display TooManyTransactions = ''maximum concurrent transactions exceeded''"

record TransactionConfig =
  tc_max_concurrent :: nat
  tc_timeout_seconds :: u64

definition TransactionConfig_default :: TransactionConfig where
  "TransactionConfig_default = \<lparr>tc_max_concurrent = 256, tc_timeout_seconds = 300\<rparr>"

record ApiTransactionManager =
  am_config :: TransactionConfig
  am_transactions :: "(TransactionId \<times> ApiTransaction) list"

definition AM_new :: "TransactionConfig \<Rightarrow> ApiTransactionManager" where
  "AM_new config = \<lparr>am_config = config, am_transactions = []\<rparr>"

section \<open>Operations\<close>

definition active_total :: "ApiTransactionManager \<Rightarrow> nat" where
  "active_total m = length (filter (\<lambda>(i, t). at_state t = ApiActive) (am_transactions m))"

definition AM_begin ::
  "api_env \<Rightarrow> u32 \<Rightarrow> int \<Rightarrow> int \<Rightarrow> ApiTransactionManager
   \<Rightarrow> ApiTransactionManager \<times> (ApiTransactionError, TransactionId) rresult" where
  "AM_begin env pid now_id now m =
    (if tc_max_concurrent (am_config m) \<le> active_total m then (m, Inl TooManyTransactions)
     else
       let i = TransactionId_new env pid now_id;
           txn = \<lparr>at_id = i, at_state = ApiActive, at_operations = [], at_started_at = ae_to_rfc3339 env now,
                  at_completed_at = None\<rparr>
       in (m\<lparr>am_transactions := AList.update i txn (am_transactions m)\<rparr>, Inr i))"

definition AM_put :: "ApiTransactionManager \<Rightarrow> TransactionId \<Rightarrow> ApiTransaction \<Rightarrow> ApiTransactionManager" where
  "AM_put m i txn = m\<lparr>am_transactions := AList.update i txn (am_transactions m)\<rparr>"

definition AM_buffer_operation ::
  "ApiTransactionManager \<Rightarrow> TransactionId \<Rightarrow> BufferedOperation
   \<Rightarrow> ApiTransactionManager \<times> (ApiTransactionError, unit) rresult" where
  "AM_buffer_operation m i operation =
    (case map_of (am_transactions m) i of
       None \<Rightarrow> (m, Inl (NotFound i))
     | Some txn \<Rightarrow>
         (case at_state txn of
            ApiActive \<Rightarrow> (AM_put m i (txn\<lparr>at_operations := at_operations txn @ [operation]\<rparr>), Inr ())
          | ApiCommitted \<Rightarrow> (m, Inl (AlreadyCommitted i))
          | ApiRolledBack \<Rightarrow> (m, Inl (AlreadyRolledBack i))))"

definition AM_commit ::
  "api_env \<Rightarrow> int \<Rightarrow> ApiTransactionManager \<Rightarrow> TransactionId
   \<Rightarrow> ApiTransactionManager \<times> (ApiTransactionError, BufferedOperation list) rresult" where
  "AM_commit env now m i =
    (case map_of (am_transactions m) i of
       None \<Rightarrow> (m, Inl (NotFound i))
     | Some txn \<Rightarrow>
         (case at_state txn of
            ApiActive \<Rightarrow>
              (AM_put m i (txn\<lparr>at_state := ApiCommitted, at_completed_at := Some (ae_to_rfc3339 env now)\<rparr>),
               Inr (at_operations txn))
          | ApiCommitted \<Rightarrow> (m, Inl (AlreadyCommitted i))
          | ApiRolledBack \<Rightarrow> (m, Inl (AlreadyRolledBack i))))"

definition AM_rollback ::
  "api_env \<Rightarrow> int \<Rightarrow> ApiTransactionManager \<Rightarrow> TransactionId
   \<Rightarrow> ApiTransactionManager \<times> (ApiTransactionError, nat) rresult" where
  "AM_rollback env now m i =
    (case map_of (am_transactions m) i of
       None \<Rightarrow> (m, Inl (NotFound i))
     | Some txn \<Rightarrow>
         (case at_state txn of
            ApiActive \<Rightarrow>
              (AM_put m i (txn\<lparr>at_operations := [], at_state := ApiRolledBack,
                 at_completed_at := Some (ae_to_rfc3339 env now)\<rparr>),
               Inr (length (at_operations txn)))
          | ApiCommitted \<Rightarrow> (m, Inl (AlreadyCommitted i))
          | ApiRolledBack \<Rightarrow> (m, Inl (AlreadyRolledBack i))))"

definition AM_status :: "ApiTransactionManager \<Rightarrow> TransactionId \<Rightarrow> (ApiTransactionError, TransactionStatus) rresult" where
  "AM_status m i =
    (case map_of (am_transactions m) i of
       None \<Rightarrow> Inl (NotFound i)
     | Some txn \<Rightarrow> Inr (TransactionStatus_from txn))"

text \<open>The filter of \<open>cleanup_expired\<close>, and the sweep; \<open>None\<close> is the panic of \<open>Duration::seconds\<close>.\<close>

definition older_than :: "api_env \<Rightarrow> int \<Rightarrow> int \<Rightarrow> string \<Rightarrow> bool" where
  "older_than env now timeout s =
    (case ae_parse_from_rfc3339 env s of Some t \<Rightarrow> timeout < now - t | None \<Rightarrow> False)"

definition is_expired :: "api_env \<Rightarrow> int \<Rightarrow> int \<Rightarrow> ApiTransaction \<Rightarrow> bool" where
  "is_expired env now timeout txn =
    (if at_state txn \<noteq> ApiActive
     then (case at_completed_at txn of Some completed \<Rightarrow> older_than env now timeout completed | None \<Rightarrow> False)
     else older_than env now timeout (at_started_at txn))"

definition AM_cleanup_expired :: "api_env \<Rightarrow> int \<Rightarrow> ApiTransactionManager \<Rightarrow> (ApiTransactionManager \<times> nat) option" where
  "AM_cleanup_expired env now m =
    (case ae_duration_seconds env (sint (tc_timeout_seconds (am_config m))) of
       None \<Rightarrow> None
     | Some timeout \<Rightarrow>
         let expired_ids = map fst (filter (\<lambda>(i, txn). is_expired env now timeout txn) (am_transactions m))
         in Some (m\<lparr>am_transactions := fold AList.delete expired_ids (am_transactions m)\<rparr>, length expired_ids))"

section \<open>Runs\<close>

text \<open>One call of the interface; a panicking cleanup aborts the process, so it ends the run.\<close>

datatype api_op =
    Begin int int
  | Buffer TransactionId BufferedOperation
  | CommitTxn int TransactionId
  | RollbackTxn int TransactionId
  | Cleanup int

fun api_step :: "api_env \<Rightarrow> u32 \<Rightarrow> ApiTransactionManager \<Rightarrow> api_op \<Rightarrow> ApiTransactionManager option" where
  "api_step env pid m (Begin now_id now) = Some (fst (AM_begin env pid now_id now m))"
| "api_step env pid m (Buffer i operation) = Some (fst (AM_buffer_operation m i operation))"
| "api_step env pid m (CommitTxn now i) = Some (fst (AM_commit env now m i))"
| "api_step env pid m (RollbackTxn now i) = Some (fst (AM_rollback env now m i))"
| "api_step env pid m (Cleanup now) = map_option fst (AM_cleanup_expired env now m)"

fun api_run :: "api_env \<Rightarrow> u32 \<Rightarrow> ApiTransactionManager \<Rightarrow> api_op list \<Rightarrow> ApiTransactionManager option" where
  "api_run env pid m [] = Some m"
| "api_run env pid m (op # ops) = Option.bind (api_step env pid m op) (\<lambda>m'. api_run env pid m' ops)"

lemmas api_op_defs = AM_begin_def AM_put_def AM_buffer_operation_def AM_commit_def AM_rollback_def
  AM_cleanup_expired_def Let_def

section \<open>The table of transactions\<close>

lemma filter_update_le:
  "map_of al k = Some v0 \<Longrightarrow> (P (k, v) \<Longrightarrow> P (k, v0)) \<Longrightarrow>
     length (filter P (AList.update k v al)) \<le> length (filter P al)"
  by (induction al) (auto split: if_splits)

lemma filter_update_Suc: "length (filter P (AList.update k v al)) \<le> Suc (length (filter P al))"
  by (induction al) auto

lemma filter_deletes_le: "length (filter P (fold AList.delete ks al)) \<le> length (filter P al)"
proof (induction ks arbitrary: al)
  case (Cons k ks)
  have "length (filter P (AList.delete k al)) \<le> length (filter P al)"
    by (induction al) auto
  with Cons [of "AList.delete k al"] show ?case by simp
qed simp

lemma map_of_deletes: "map_of (fold AList.delete ks al) i = (if i \<in> set ks then None else map_of al i)"
  by (induction ks arbitrary: al) (auto simp: delete_conv)

lemma distinct_deletes: "distinct (map fst al) \<Longrightarrow> distinct (map fst (fold AList.delete ks al))"
  by (induction ks arbitrary: al) (auto simp: distinct_delete)

definition api_inv :: "TransactionConfig \<Rightarrow> ApiTransactionManager \<Rightarrow> bool" where
  "api_inv config m \<longleftrightarrow> am_config m = config \<and> distinct (map fst (am_transactions m))
    \<and> active_total m \<le> tc_max_concurrent config"

lemma api_inv_new: "api_inv config (AM_new config)"
  by (simp add: api_inv_def AM_new_def active_total_def)

lemma api_inv_put:
  assumes "api_inv config m" and "map_of (am_transactions m) i = Some t0" and "at_state t0 = ApiActive"
  shows "api_inv config (AM_put m i t)"
  using assms filter_update_le [of "am_transactions m" i t0 "\<lambda>(i, t). at_state t = ApiActive" t]
  by (simp add: api_inv_def AM_put_def active_total_def distinct_update)

lemma api_inv_step:
  assumes inv: "api_inv config m" and "api_step env pid m op = Some m'"
  shows "api_inv config m'"
proof (cases op)
  case (Begin now_id now)
  with assms show ?thesis
    by (auto simp: AM_begin_def Let_def api_inv_def active_total_def distinct_update not_le
        intro!: order_trans [OF filter_update_Suc] split: if_splits)
next
  case (Cleanup now)
  with assms show ?thesis
    by (auto simp: AM_cleanup_expired_def Let_def api_inv_def active_total_def distinct_deletes
        intro: order_trans [OF filter_deletes_le] split: option.splits)
qed (use assms in \<open>auto simp: AM_buffer_operation_def AM_commit_def AM_rollback_def intro: api_inv_put
       split: option.splits ApiTransactionState.splits\<close>)

lemma api_inv_run: "api_inv config m \<Longrightarrow> api_run env pid m ops = Some m' \<Longrightarrow> api_inv config m'"
  by (induction ops arbitrary: m) (auto simp: bind_eq_Some_conv dest: api_inv_step)

lemma active_total_card:
  assumes "distinct (map fst (am_transactions m))"
  shows "active_total m = card {i. \<exists>t. map_of (am_transactions m) i = Some t \<and> at_state t = ApiActive}"
proof -
  let ?xs = "filter (\<lambda>(i, t). at_state t = ApiActive) (am_transactions m)"
  have "distinct (map fst ?xs)" using assms by (rule distinct_map_filter)
  then have "length ?xs = card (set (map fst ?xs))" using distinct_card by fastforce
  also have "set (map fst ?xs) = {i. \<exists>t. map_of (am_transactions m) i = Some t \<and> at_state t = ApiActive}"
    using assms by (force simp: image_iff)
  finally show ?thesis by (simp add: active_total_def)
qed

text \<open>Through any sequence of calls on a new manager, at most \<open>max_concurrent\<close> transactions are active
  at once, and \<open>begin\<close> is refused, with \<open>TooManyTransactions\<close> and no change, exactly when that many are.
\<close>

theorem api_active_bounded:
  assumes "api_run env pid (AM_new config) ops = Some m"
  shows "card {i. \<exists>t. map_of (am_transactions m) i = Some t \<and> at_state t = ApiActive} \<le> tc_max_concurrent config
    \<and> (AM_begin env pid now_id now m = (m, Inl TooManyTransactions) \<longleftrightarrow>
         card {i. \<exists>t. map_of (am_transactions m) i = Some t \<and> at_state t = ApiActive} = tc_max_concurrent config)"
proof -
  have inv: "api_inv config m" using api_inv_run [OF api_inv_new assms] .
  then have "AM_begin env pid now_id now m = (m, Inl TooManyTransactions) \<longleftrightarrow> active_total m = tc_max_concurrent config"
    by (auto simp: AM_begin_def Let_def api_inv_def)
  with inv active_total_card [of m] show ?thesis by (simp only: api_inv_def)
qed

definition demo_api_env :: api_env where
  "demo_api_env = \<lparr>ae_to_rfc3339 = (\<lambda>n. dec_digits (nat n)),
     ae_parse_from_rfc3339 = (\<lambda>s. map_option int (parse_digits 0 s)),
     ae_timestamp_nanos_opt = (\<lambda>n. Some (word_of_int n)), ae_duration_seconds = (\<lambda>s. Some (s * 10 ^ 9)),
     ae_sha256 = (\<lambda>bs. bs), ae_hex_encode = map char_of_byte\<rparr>"

definition demo_api_config :: TransactionConfig where
  "demo_api_config = \<lparr>tc_max_concurrent = 1, tc_timeout_seconds = 300\<rparr>"

theorem api_active_bounded_witness:
  "\<exists>m. api_run demo_api_env 7 (AM_new demo_api_config) [Begin 1 1, Begin 2 2] = Some m
     \<and> card {i. \<exists>t. map_of (am_transactions m) i = Some t \<and> at_state t = ApiActive} = 1
     \<and> AM_begin demo_api_env 7 3 3 m = (m, Inl TooManyTransactions)"
proof -
  obtain m where m: "api_run demo_api_env 7 (AM_new demo_api_config) [Begin 1 1, Begin 2 2] = Some m"
    by simp
  then have "AM_begin demo_api_env 7 3 3 m = (m, Inl TooManyTransactions)"
    by (auto simp: AM_begin_def AM_new_def demo_api_config_def active_total_def Let_def)
  with api_active_bounded [OF m, of 3 3] m show ?thesis by (simp add: demo_api_config_def)
qed

section \<open>Delivery of the buffer\<close>

fun buffered :: "TransactionId \<Rightarrow> api_op list \<Rightarrow> BufferedOperation list" where
  "buffered i [] = []"
| "buffered i (Buffer j operation # ops) = (if j = i then operation # buffered i ops else buffered i ops)"
| "buffered i (_ # ops) = buffered i ops"

text \<open>The calls between a \<open>begin\<close> and its commit that leave the transaction open, and those that do not reuse its id.\<close>

fun fresh_ids :: "api_env \<Rightarrow> u32 \<Rightarrow> TransactionId \<Rightarrow> api_op \<Rightarrow> bool" where
  "fresh_ids env pid i (Begin now_id now) \<longleftrightarrow> TransactionId_new env pid now_id \<noteq> i"
| "fresh_ids env pid i _ \<longleftrightarrow> True"

fun keeps_open :: "api_env \<Rightarrow> TransactionConfig \<Rightarrow> int \<Rightarrow> TransactionId \<Rightarrow> api_op \<Rightarrow> bool" where
  "keeps_open env config started i (CommitTxn now j) \<longleftrightarrow> j \<noteq> i"
| "keeps_open env config started i (RollbackTxn now j) \<longleftrightarrow> j \<noteq> i"
| "keeps_open env config started i (Cleanup now) \<longleftrightarrow>
     (\<forall>timeout. ae_duration_seconds env (sint (tc_timeout_seconds config)) = Some timeout \<longrightarrow> now - started \<le> timeout)"
| "keeps_open env config started i _ \<longleftrightarrow> True"

lemma map_of_put [simp]: "map_of (am_transactions (AM_put m j t)) i = (if i = j then Some t else map_of (am_transactions m) i)"
  by (simp add: AM_put_def update_conv')

lemma map_of_cleanup:
  assumes "distinct (map fst (am_transactions m))" and "AM_cleanup_expired env now m = Some (m', n)"
    and "ae_duration_seconds env (sint (tc_timeout_seconds (am_config m))) = Some timeout"
  shows "map_of (am_transactions m') i =
    (case map_of (am_transactions m) i of
       Some t \<Rightarrow> if is_expired env now timeout t then None else Some t
     | None \<Rightarrow> None)"
proof -
  have m': "am_transactions m' = fold AList.delete
      (map fst (filter (\<lambda>(i, txn). is_expired env now timeout txn) (am_transactions m))) (am_transactions m)"
    using assms(2,3) by (auto simp: AM_cleanup_expired_def Let_def)
  have "i \<in> set (map fst (filter (\<lambda>(i, txn). is_expired env now timeout txn) (am_transactions m))) \<longleftrightarrow>
      (\<exists>t. map_of (am_transactions m) i = Some t \<and> is_expired env now timeout t)"
    using assms(1) by (force simp: image_iff)
  then show ?thesis unfolding m' map_of_deletes by (auto split: option.splits)
qed

text \<open>One call that leaves transaction \<open>i\<close> open, and one call after it was completed.\<close>

lemma api_open_step:
  assumes inv: "api_inv config m" and "api_step env pid m op = Some m'"
    and "fresh_ids env pid i op" and "keeps_open env config started i op"
    and parse: "ae_parse_from_rfc3339 env (ae_to_rfc3339 env started) = Some started"
    and txn: "map_of (am_transactions m) i = Some txn"
      "at_state txn = ApiActive" "at_started_at txn = ae_to_rfc3339 env started"
  shows "map_of (am_transactions m') i = Some (txn\<lparr>at_operations := at_operations txn @ buffered i [op]\<rparr>)"
proof (cases op)
  case (Cleanup now)
  with assms obtain timeout n where c: "ae_duration_seconds env (sint (tc_timeout_seconds config)) = Some timeout"
    "AM_cleanup_expired env now m = Some (m', n)"
    by (auto simp: AM_cleanup_expired_def api_inv_def Let_def split: option.splits)
  with assms Cleanup have "\<not> is_expired env now timeout txn"
    by (simp add: is_expired_def older_than_def)
  with map_of_cleanup [OF _ c(2), of timeout i] inv c(1) txn Cleanup show ?thesis
    by (simp add: api_inv_def)
next
  case (Begin now_id now)
  with assms show ?thesis by (auto simp: AM_begin_def Let_def update_conv')
qed (use assms in \<open>auto simp: AM_buffer_operation_def AM_commit_def AM_rollback_def
       split: option.splits ApiTransactionState.splits\<close>)

lemma api_open_run:
  assumes "api_inv config m" and "api_run env pid m ops = Some m'"
    and "list_all (fresh_ids env pid i) ops" and "list_all (keeps_open env config started i) ops"
    and parse: "ae_parse_from_rfc3339 env (ae_to_rfc3339 env started) = Some started"
    and "map_of (am_transactions m) i = Some txn"
      "at_state txn = ApiActive" "at_started_at txn = ae_to_rfc3339 env started"
  shows "map_of (am_transactions m') i = Some (txn\<lparr>at_operations := at_operations txn @ buffered i ops\<rparr>)"
  using assms
proof (induction ops arbitrary: m txn)
  case Nil
  then show ?case by simp
next
  case (Cons op ops)
  from Cons.prems obtain m1 where step: "api_step env pid m op = Some m1" and run: "api_run env pid m1 ops = Some m'"
    by (auto simp: bind_eq_Some_conv)
  have "buffered i (op # ops) = buffered i [op] @ buffered i ops" by (cases op) auto
  with Cons.IH [OF api_inv_step [OF Cons.prems(1) step] run _ _ parse
      api_open_step [OF Cons.prems(1) step _ _ parse Cons.prems(6-8)]] Cons.prems
  show ?case by simp
qed

definition gone_or :: "ApiTransactionState \<Rightarrow> TransactionId \<Rightarrow> ApiTransactionManager \<Rightarrow> bool" where
  "gone_or st i m \<longleftrightarrow>
    (case map_of (am_transactions m) i of None \<Rightarrow> True | Some t \<Rightarrow> at_state t = st)"

lemma api_completed_step:
  assumes "gone_or st i m" and "st \<noteq> ApiActive" and "fresh_ids env pid i op" and "api_step env pid m op = Some m'"
  shows "gone_or st i m'"
proof (cases op)
  case (Begin now_id now)
  with assms show ?thesis by (auto simp: AM_begin_def Let_def gone_or_def update_conv')
next
  case (Cleanup now)
  with assms show ?thesis
    by (auto simp: AM_cleanup_expired_def Let_def gone_or_def map_of_deletes split: option.splits if_splits)
qed (use assms in \<open>auto simp: AM_buffer_operation_def AM_commit_def AM_rollback_def gone_or_def
       split: option.splits ApiTransactionState.splits if_splits\<close>)

lemma api_completed_run:
  "gone_or st i m \<Longrightarrow> st \<noteq> ApiActive \<Longrightarrow> list_all (fresh_ids env pid i) ops \<Longrightarrow>
   api_run env pid m ops = Some m' \<Longrightarrow> gone_or st i m'"
  by (induction ops arbitrary: m) (auto simp: bind_eq_Some_conv dest: api_completed_step)

text \<open>C28: A commit delivers its buffer whole, in order and once.  From the \<open>begin\<close> of a transaction, as long
  as it is neither completed nor swept (every cleanup comes within the timeout) and its id is not
  generated again, the commit returns exactly the operations buffered under that id, in the order of the
  calls, and a rollback instead counts exactly those; after the commit, whatever calls follow, no further
  commit, rollback or buffered operation on that id succeeds.
\<close>

theorem api_commit_delivers_once:
  assumes parse: "ae_parse_from_rfc3339 env (ae_to_rfc3339 env started) = Some started"
    and before: "api_run env pid (AM_new config) ops0 = Some m0"
    and begun: "AM_begin env pid now_id started m0 = (m1, Inr i)"
    and mid: "api_run env pid m1 ops = Some m2"
    and quiet: "list_all (fresh_ids env pid i) ops" "list_all (keeps_open env config started i) ops"
    and commit: "AM_commit env now m2 i = (m3, r)"
    and after: "api_run env pid m3 ops' = Some m4" "list_all (fresh_ids env pid i) ops'"
  shows "r = Inr (buffered i ops) \<and> snd (AM_rollback env now m2 i) = Inr (length (buffered i ops))
    \<and> snd (AM_commit env now' m4 i) \<in> {Inl (AlreadyCommitted i), Inl (NotFound i)}
    \<and> snd (AM_rollback env now' m4 i) \<in> {Inl (AlreadyCommitted i), Inl (NotFound i)}
    \<and> snd (AM_buffer_operation m4 i operation) \<in> {Inl (AlreadyCommitted i), Inl (NotFound i)}"
proof -
  let ?t = "\<lparr>at_id = i, at_state = ApiActive, at_operations = [], at_started_at = ae_to_rfc3339 env started,
    at_completed_at = None\<rparr>"
  have inv0: "api_inv config m0" using api_inv_run [OF api_inv_new before] .
  have "api_step env pid m0 (Begin now_id started) = Some m1" using begun by simp
  with inv0 have inv1: "api_inv config m1" by (rule api_inv_step)
  have "map_of (am_transactions m1) i = Some ?t"
    using begun by (auto simp: AM_begin_def Let_def update_conv' split: if_splits)
  from api_open_run [OF inv1 mid quiet parse this]
  have t: "map_of (am_transactions m2) i = Some (?t\<lparr>at_operations := buffered i ops\<rparr>)" by simp
  then have "gone_or ApiCommitted i m3" and r: "r = Inr (buffered i ops)"
    using commit by (auto simp: AM_commit_def gone_or_def)
  with api_completed_run [OF _ _ after(2,1)] have "gone_or ApiCommitted i m4" by blast
  with t r show ?thesis
    by (auto simp: AM_commit_def AM_rollback_def AM_buffer_operation_def gone_or_def split: option.splits)
qed

definition demo_write :: "nat \<Rightarrow> BufferedOperation" where
  "demo_write n = \<lparr>bo_entity_id = ''e'', bo_operation = OpUpdate, bo_payload = [of_nat n], bo_timestamp = []\<rparr>"

theorem api_commit_delivers_once_witness:
  "\<exists>i m1 m2 m3. AM_begin demo_api_env 7 1 1 (AM_new demo_api_config) = (m1, Inr i)
    \<and> api_run demo_api_env 7 m1 [Buffer i (demo_write 0), Cleanup 5, Buffer i (demo_write 1)] = Some m2
    \<and> AM_commit demo_api_env 6 m2 i = (m3, Inr [demo_write 0, demo_write 1])
    \<and> snd (AM_commit demo_api_env 7 m3 i) \<in> {Inl (AlreadyCommitted i), Inl (NotFound i)}"
proof -
  obtain m1 i where b: "AM_begin demo_api_env 7 1 1 (AM_new demo_api_config) = (m1, Inr i)"
    by (simp add: AM_begin_def AM_new_def demo_api_config_def active_total_def Let_def)
  then have cfg: "am_config m1 = demo_api_config"
    by (auto simp: AM_begin_def AM_new_def demo_api_config_def active_total_def Let_def)
  let ?ops = "[Buffer i (demo_write 0), Cleanup 5, Buffer i (demo_write 1)]"
  have dur: "ae_duration_seconds demo_api_env s = Some (s * 10 ^ 9)" for s by (simp add: demo_api_env_def)
  obtain m2 where m2: "api_run demo_api_env 7 m1 ?ops = Some m2"
    by (auto simp: AM_cleanup_expired_def dur Let_def)
  obtain m3 r where c: "AM_commit demo_api_env 6 m2 i = (m3, r)" by fastforce
  have parse: "ae_parse_from_rfc3339 demo_api_env (ae_to_rfc3339 demo_api_env 1) = Some 1"
    by (simp add: demo_api_env_def parse_digits_dec_digits)
  have q: "list_all (fresh_ids demo_api_env 7 i) ?ops" "list_all (keeps_open demo_api_env demo_api_config 1 i) ?ops"
    by (simp_all add: dur demo_api_config_def)
  have "api_run demo_api_env 7 (AM_new demo_api_config) [] = Some (AM_new demo_api_config)"
    "api_run demo_api_env 7 m3 [] = Some m3" "list_all (fresh_ids demo_api_env 7 i) []" by simp_all
  from api_commit_delivers_once [OF parse this(1) b m2 q c this(2,3)] b m2 c show ?thesis by auto
qed

end
