(* ===== verification/Graph.thy ===== *)
theory Graph
  imports Prelude "HOL-Library.Multiset"
begin

text \<open>
  The graph modality (\<open>verisim-graph/src/lib.rs\<close>): nodes, edges and the default in-memory store
  \<open>SimpleGraphStore\<close> with its subject and object indices, and the breadth-first \<open>neighborhood\<close>.  Hash maps
  are maps and hash sets distinct lists; the order in which a hash set is iterated is the parameter \<open>iter\<close>
  (of triple keys) and \<open>iter_iris\<close> (of the visited set).  Every method takes the store's locks in turn, and a
  poisoned lock, which needs a panicking writer, is not a step of the model.
\<close>

section \<open>Nodes and edges\<close>

datatype GraphError =
    StoreError string
  | ParseError string
  | NotFound string
  | InvalidIri string
  | LockPoisoned

record GraphNode =
  gn_iri :: string
  gn_local_name :: string

text \<open>\<open>rsplit_once\<close>: the text before and after the last occurrence of a character.\<close>

definition rsplit_once :: "char \<Rightarrow> string \<Rightarrow> (string \<times> string) option" where
  "rsplit_once c s =
    (if c \<in> set s
     then Some (rev (tl (dropWhile (\<lambda>x. x \<noteq> c) (rev s))), rev (takeWhile (\<lambda>x. x \<noteq> c) (rev s)))
     else None)"

definition GraphNode_new :: "string \<Rightarrow> GraphNode" where
  "GraphNode_new iri =
    (let local_name =
       (case rsplit_once (CHR ''/'') iri of
          Some (_, name) \<Rightarrow> name
        | None \<Rightarrow> (case rsplit_once (CHR ''#'') iri of Some (_, name) \<Rightarrow> name | None \<Rightarrow> iri))
     in \<lparr>gn_iri = iri, gn_local_name = local_name\<rparr>)"

datatype GraphObject = Node GraphNode | Literal string "string option"

record GraphEdge =
  ge_subject :: GraphNode
  ge_predicate :: GraphNode
  ge_object :: GraphObject

section \<open>The in-memory store\<close>

datatype TripleKey = TripleKey string string string

definition TripleKey_from_edge :: "GraphEdge \<Rightarrow> TripleKey" where
  "TripleKey_from_edge edge =
    (let obj_key = (case ge_object edge of Node n \<Rightarrow> gn_iri n | Literal value _ \<Rightarrow> ''literal::'' @ value)
     in TripleKey (gn_iri (ge_subject edge)) (gn_iri (ge_predicate edge)) obj_key)"

record SimpleGraphStore =
  gs_edges :: "TripleKey \<rightharpoonup> GraphEdge"
  gs_subject_idx :: "string \<rightharpoonup> TripleKey list"
  gs_object_idx :: "string \<rightharpoonup> TripleKey list"

definition SimpleGraphStore_new :: SimpleGraphStore where
  "SimpleGraphStore_new = \<lparr>gs_edges = Map.empty, gs_subject_idx = Map.empty, gs_object_idx = Map.empty\<rparr>"

text \<open>\<open>entry(i).or_default().insert(key)\<close> on an index, and the removal of a key with its emptied set.\<close>

definition idx_insert :: "string \<Rightarrow> TripleKey \<Rightarrow> (string \<rightharpoonup> TripleKey list) \<Rightarrow> string \<rightharpoonup> TripleKey list" where
  "idx_insert i key idx = idx(i \<mapsto> List.insert key (case idx i of Some keys \<Rightarrow> keys | None \<Rightarrow> []))"

definition idx_remove :: "string \<Rightarrow> TripleKey \<Rightarrow> (string \<rightharpoonup> TripleKey list) \<Rightarrow> string \<rightharpoonup> TripleKey list" where
  "idx_remove i key idx =
    (case idx i of
       None \<Rightarrow> idx
     | Some keys \<Rightarrow>
         let keys = removeAll key keys
         in if keys = [] then idx(i := None) else idx(i \<mapsto> keys))"

definition graph_insert :: "SimpleGraphStore \<Rightarrow> GraphEdge \<Rightarrow> SimpleGraphStore" where
  "graph_insert g edge =
    (let key = TripleKey_from_edge edge;
         g = g\<lparr>gs_subject_idx := idx_insert (gn_iri (ge_subject edge)) key (gs_subject_idx g)\<rparr>;
         g = (case ge_object edge of
                Node n \<Rightarrow> g\<lparr>gs_object_idx := idx_insert (gn_iri n) key (gs_object_idx g)\<rparr>
              | Literal _ _ \<Rightarrow> g)
     in g\<lparr>gs_edges := (gs_edges g)(key \<mapsto> edge)\<rparr>)"

definition indexed_edges ::
  "(TripleKey list \<Rightarrow> TripleKey list) \<Rightarrow> (TripleKey \<rightharpoonup> GraphEdge) \<Rightarrow> TripleKey list option \<Rightarrow> GraphEdge list" where
  "indexed_edges iter edges idx = (case idx of Some keys \<Rightarrow> List.map_filter edges (iter keys) | None \<Rightarrow> [])"

definition graph_outgoing :: "(TripleKey list \<Rightarrow> TripleKey list) \<Rightarrow> SimpleGraphStore \<Rightarrow> GraphNode \<Rightarrow> GraphEdge list" where
  "graph_outgoing iter g node = indexed_edges iter (gs_edges g) (gs_subject_idx g (gn_iri node))"

definition graph_incoming :: "(TripleKey list \<Rightarrow> TripleKey list) \<Rightarrow> SimpleGraphStore \<Rightarrow> GraphNode \<Rightarrow> GraphEdge list" where
  "graph_incoming iter g node = indexed_edges iter (gs_edges g) (gs_object_idx g (gn_iri node))"

definition graph_exists :: "SimpleGraphStore \<Rightarrow> GraphEdge \<Rightarrow> bool" where
  "graph_exists g edge \<longleftrightarrow> gs_edges g (TripleKey_from_edge edge) \<noteq> None"

definition graph_delete :: "SimpleGraphStore \<Rightarrow> GraphEdge \<Rightarrow> SimpleGraphStore" where
  "graph_delete g edge =
    (let key = TripleKey_from_edge edge;
         g = g\<lparr>gs_subject_idx := idx_remove (gn_iri (ge_subject edge)) key (gs_subject_idx g)\<rparr>;
         g = (case ge_object edge of
                Node n \<Rightarrow> g\<lparr>gs_object_idx := idx_remove (gn_iri n) key (gs_object_idx g)\<rparr>
              | Literal _ _ \<Rightarrow> g)
     in g\<lparr>gs_edges := (gs_edges g)(key := None)\<rparr>)"

section \<open>Neighbourhoods\<close>

text \<open>The body of the loop over the frontier: \<open>visited.insert\<close> answers whether the IRI is new.\<close>

fun visit_node :: "GraphNode \<Rightarrow> string list \<times> GraphNode list \<Rightarrow> string list \<times> GraphNode list" where
  "visit_node n (visited, next_frontier) =
    (if gn_iri n \<in> set visited then (visited, next_frontier) else (visited @ [gn_iri n], next_frontier @ [n]))"

definition visit_outgoing :: "GraphEdge \<Rightarrow> string list \<times> GraphNode list \<Rightarrow> string list \<times> GraphNode list" where
  "visit_outgoing edge acc = (case ge_object edge of Node n \<Rightarrow> visit_node n acc | Literal _ _ \<Rightarrow> acc)"

definition expand_node ::
  "(TripleKey list \<Rightarrow> TripleKey list) \<Rightarrow> SimpleGraphStore \<Rightarrow> GraphNode
   \<Rightarrow> string list \<times> GraphNode list \<Rightarrow> string list \<times> GraphNode list" where
  "expand_node iter g current acc =
    (let acc = fold visit_outgoing (graph_outgoing iter g current) acc
     in fold (\<lambda>edge. visit_node (ge_subject edge)) (graph_incoming iter g current) acc)"

fun neighborhood_loop ::
  "(TripleKey list \<Rightarrow> TripleKey list) \<Rightarrow> SimpleGraphStore \<Rightarrow> nat \<Rightarrow> string list \<Rightarrow> GraphNode list \<Rightarrow> string list" where
  "neighborhood_loop iter g 0 visited frontier = visited"
| "neighborhood_loop iter g (Suc hops) visited frontier =
    (let (visited, next_frontier) = fold (expand_node iter g) frontier (visited, [])
     in neighborhood_loop iter g hops visited next_frontier)"

definition graph_neighborhood ::
  "(TripleKey list \<Rightarrow> TripleKey list) \<Rightarrow> (string list \<Rightarrow> string list) \<Rightarrow> SimpleGraphStore \<Rightarrow> GraphNode \<Rightarrow> nat
   \<Rightarrow> GraphNode list" where
  "graph_neighborhood iter iter_iris g node hops =
    map GraphNode_new (iter_iris (neighborhood_loop iter g hops [gn_iri node] [node]))"

section \<open>The abstract graph\<close>

text \<open>
  The specification is a map from triples to edges.  An IRI that starts with \<open>literal::\<close> shares its key
  with a literal, so the nodes of the specification are those that do not.
\<close>

datatype graph_op = InsertEdge GraphEdge | DeleteEdge GraphEdge

fun graph_step :: "SimpleGraphStore \<Rightarrow> graph_op \<Rightarrow> SimpleGraphStore" where
  "graph_step g (InsertEdge e) = graph_insert g e"
| "graph_step g (DeleteEdge e) = graph_delete g e"

fun triples_step :: "(TripleKey \<rightharpoonup> GraphEdge) \<Rightarrow> graph_op \<Rightarrow> TripleKey \<rightharpoonup> GraphEdge" where
  "triples_step m (InsertEdge e) = m(TripleKey_from_edge e \<mapsto> e)"
| "triples_step m (DeleteEdge e) = m(TripleKey_from_edge e := None)"

fun op_edge :: "graph_op \<Rightarrow> GraphEdge" where
  "op_edge (InsertEdge e) = e"
| "op_edge (DeleteEdge e) = e"

definition wf_edge :: "GraphEdge \<Rightarrow> bool" where
  "wf_edge e \<longleftrightarrow> (case ge_object e of Node n \<Rightarrow> \<not> prefix ''literal::'' (gn_iri n) | Literal _ _ \<Rightarrow> True)"

definition object_iri :: "GraphEdge \<Rightarrow> string option" where
  "object_iri e = (case ge_object e of Node n \<Rightarrow> Some (gn_iri n) | Literal _ _ \<Rightarrow> None)"

definition idx_keys :: "(string \<rightharpoonup> TripleKey list) \<Rightarrow> string \<Rightarrow> TripleKey set" where
  "idx_keys idx i = (case idx i of Some keys \<Rightarrow> set keys | None \<Rightarrow> {})"

definition idx_wf :: "(string \<rightharpoonup> TripleKey list) \<Rightarrow> bool" where
  "idx_wf idx \<longleftrightarrow> (\<forall>i keys. idx i = Some keys \<longrightarrow> keys \<noteq> [] \<and> distinct keys)"

definition graph_inv :: "SimpleGraphStore \<Rightarrow> bool" where
  "graph_inv g \<longleftrightarrow>
    (\<forall>k e. gs_edges g k = Some e \<longrightarrow> TripleKey_from_edge e = k \<and> wf_edge e)
    \<and> idx_wf (gs_subject_idx g) \<and> idx_wf (gs_object_idx g)
    \<and> (\<forall>i. idx_keys (gs_subject_idx g) i = {k. \<exists>e. gs_edges g k = Some e \<and> gn_iri (ge_subject e) = i})
    \<and> (\<forall>i. idx_keys (gs_object_idx g) i = {k. \<exists>e. gs_edges g k = Some e \<and> object_iri e = Some i})"

lemma idx_keys_insert [simp]:
  "idx_keys (idx_insert i k idx) j = (if j = i then insert k (idx_keys idx i) else idx_keys idx j)"
  by (auto simp: idx_keys_def idx_insert_def split: option.splits)

lemma idx_keys_remove [simp]:
  "idx_keys (idx_remove i k idx) j = (if j = i then idx_keys idx i - {k} else idx_keys idx j)"
proof (cases "idx i")
  case (Some keys)
  have "removeAll k keys = [] \<Longrightarrow> set keys - {k} = {}" by (metis set_removeAll list.set(1))
  with Some show ?thesis by (auto simp: idx_keys_def idx_remove_def Let_def)
qed (auto simp: idx_keys_def idx_remove_def)

lemma idx_wf_insert: "idx_wf idx \<Longrightarrow> idx_wf (idx_insert i k idx)"
  by (auto simp: idx_wf_def idx_insert_def List.insert_def split: option.splits if_splits)

lemma idx_wf_remove: "idx_wf idx \<Longrightarrow> idx_wf (idx_remove i k idx)"
  by (auto simp: idx_wf_def idx_remove_def Let_def distinct_removeAll split: option.splits if_splits)

lemma key_subject: "TripleKey_from_edge e = TripleKey_from_edge e' \<Longrightarrow> gn_iri (ge_subject e) = gn_iri (ge_subject e')"
  by (simp add: TripleKey_from_edge_def Let_def)

lemma key_object:
  "TripleKey_from_edge e = TripleKey_from_edge e' \<Longrightarrow> wf_edge e \<Longrightarrow> wf_edge e' \<Longrightarrow> object_iri e = object_iri e'"
  by (auto simp: TripleKey_from_edge_def Let_def wf_edge_def object_iri_def prefix_def dest: sym split: GraphObject.splits)

lemma graph_inv_key: "graph_inv g \<Longrightarrow> gs_edges g k = Some e \<Longrightarrow> TripleKey_from_edge e = k \<and> wf_edge e"
  unfolding graph_inv_def by blast

lemma graph_inv_idx:
  assumes "graph_inv g"
  shows "idx_keys (gs_subject_idx g) i = {k. \<exists>e. gs_edges g k = Some e \<and> gn_iri (ge_subject e) = i}"
    and "idx_keys (gs_object_idx g) i = {k. \<exists>e. gs_edges g k = Some e \<and> object_iri e = Some i}"
    and "idx_wf (gs_subject_idx g)" and "idx_wf (gs_object_idx g)"
  using assms by (simp_all add: graph_inv_def)

lemma same_key_edge:
  assumes "graph_inv g" and "wf_edge e" and "gs_edges g (TripleKey_from_edge e) = Some e'"
  shows "gn_iri (ge_subject e') = gn_iri (ge_subject e) \<and> object_iri e' = object_iri e"
  using graph_inv_key [OF assms(1,3)] key_subject [of e' e] key_object [of e' e] assms(2) by simp

lemma insert_fields:
  "gs_edges (graph_insert g e) = (gs_edges g)(TripleKey_from_edge e \<mapsto> e)"
  "gs_subject_idx (graph_insert g e) = idx_insert (gn_iri (ge_subject e)) (TripleKey_from_edge e) (gs_subject_idx g)"
  "gs_object_idx (graph_insert g e) =
    (case object_iri e of Some i \<Rightarrow> idx_insert i (TripleKey_from_edge e) (gs_object_idx g) | None \<Rightarrow> gs_object_idx g)"
  by (simp_all add: graph_insert_def Let_def object_iri_def split: GraphObject.splits)

lemma delete_fields:
  "gs_edges (graph_delete g e) = (gs_edges g)(TripleKey_from_edge e := None)"
  "gs_subject_idx (graph_delete g e) = idx_remove (gn_iri (ge_subject e)) (TripleKey_from_edge e) (gs_subject_idx g)"
  "gs_object_idx (graph_delete g e) =
    (case object_iri e of Some i \<Rightarrow> idx_remove i (TripleKey_from_edge e) (gs_object_idx g) | None \<Rightarrow> gs_object_idx g)"
  by (simp_all add: graph_delete_def Let_def object_iri_def split: GraphObject.splits)

lemma graph_invI:
  assumes "\<And>k e. gs_edges g k = Some e \<Longrightarrow> TripleKey_from_edge e = k \<and> wf_edge e"
    and "idx_wf (gs_subject_idx g)" and "idx_wf (gs_object_idx g)"
    and "\<And>i. idx_keys (gs_subject_idx g) i = {k. \<exists>e. gs_edges g k = Some e \<and> gn_iri (ge_subject e) = i}"
    and "\<And>i. idx_keys (gs_object_idx g) i = {k. \<exists>e. gs_edges g k = Some e \<and> object_iri e = Some i}"
  shows "graph_inv g"
  unfolding graph_inv_def using assms by blast

lemma graph_inv_insert:
  assumes inv: "graph_inv g" and wf: "wf_edge e"
  shows "graph_inv (graph_insert g e)"
proof (rule graph_invI)
  fix i
  show "idx_keys (gs_subject_idx (graph_insert g e)) i =
      {k. \<exists>e'. gs_edges (graph_insert g e) k = Some e' \<and> gn_iri (ge_subject e') = i}"
    by (auto simp: insert_fields graph_inv_idx [OF inv] dest: same_key_edge [OF inv wf])
  show "idx_keys (gs_object_idx (graph_insert g e)) i =
      {k. \<exists>e'. gs_edges (graph_insert g e) k = Some e' \<and> object_iri e' = Some i}"
    by (auto simp: insert_fields graph_inv_idx [OF inv] dest: same_key_edge [OF inv wf] split: option.splits)
qed (use graph_inv_key [OF inv] graph_inv_idx(3,4) [OF inv] wf in
     \<open>auto simp: insert_fields idx_wf_insert split: option.splits if_splits\<close>)

lemma graph_inv_delete:
  assumes inv: "graph_inv g" and wf: "wf_edge e"
  shows "graph_inv (graph_delete g e)"
proof (rule graph_invI)
  fix i
  show "idx_keys (gs_subject_idx (graph_delete g e)) i =
      {k. \<exists>e'. gs_edges (graph_delete g e) k = Some e' \<and> gn_iri (ge_subject e') = i}"
    by (auto simp: delete_fields graph_inv_idx [OF inv] dest: same_key_edge [OF inv wf])
  show "idx_keys (gs_object_idx (graph_delete g e)) i =
      {k. \<exists>e'. gs_edges (graph_delete g e) k = Some e' \<and> object_iri e' = Some i}"
    by (auto simp: delete_fields graph_inv_idx [OF inv] dest: same_key_edge [OF inv wf] split: option.splits)
qed (use graph_inv_key [OF inv] graph_inv_idx(3,4) [OF inv] wf in
     \<open>auto simp: delete_fields idx_wf_remove split: option.splits if_splits\<close>)

lemma graph_inv_new: "graph_inv SimpleGraphStore_new"
  by (simp add: graph_inv_def SimpleGraphStore_new_def idx_wf_def idx_keys_def)

lemma graph_run_refines:
  assumes "graph_inv g" and "list_all (wf_edge \<circ> op_edge) ops"
  shows "graph_inv (foldl graph_step g ops) \<and> gs_edges (foldl graph_step g ops) = foldl triples_step (gs_edges g) ops"
  using assms
proof (induction ops arbitrary: g)
  case (Cons op ops)
  then have "graph_inv (graph_step g op)" by (cases op) (simp_all add: graph_inv_insert graph_inv_delete)
  moreover have "gs_edges (graph_step g op) = triples_step (gs_edges g) op"
    by (cases op) (simp_all add: insert_fields delete_fields)
  ultimately show ?case using Cons by simp
qed simp

section \<open>Queries\<close>

lemma indexed_edges_exact:
  assumes perm: "\<And>ks. mset (iter ks) = mset ks" and wf: "idx_wf idx"
    and keys: "idx_keys idx i = {k. \<exists>e. edges k = Some e \<and> P e}"
    and key: "\<And>k e. edges k = Some e \<Longrightarrow> TripleKey_from_edge e = k"
  shows "set (indexed_edges iter edges (idx i)) = {e. edges (TripleKey_from_edge e) = Some e \<and> P e}
    \<and> distinct (indexed_edges iter edges (idx i))"
proof (cases "idx i")
  case None
  with keys have "edges k \<noteq> Some e \<or> \<not> P e" for k e by (auto simp: idx_keys_def)
  with None show ?thesis by (auto simp: indexed_edges_def)
next
  case (Some ks)
  have s: "set (iter ks) = {k. \<exists>e. edges k = Some e \<and> P e}"
    using mset_eq_setD [OF perm [of ks]] keys Some by (simp add: idx_keys_def)
  have d: "distinct (iter ks)" using mset_eq_imp_distinct_iff [OF perm, of ks] wf Some by (simp add: idx_wf_def)
  have f: "filter (\<lambda>k. edges k \<noteq> None) (iter ks) = iter ks" unfolding filter_id_conv s by auto
  have "inj_on (the \<circ> edges) (set (iter ks))"
  proof (rule inj_onI)
    fix k k' assume "k \<in> set (iter ks)" "k' \<in> set (iter ks)" and eq: "(the \<circ> edges) k = (the \<circ> edges) k'"
    then obtain e e' where "edges k = Some e" "edges k' = Some e'" unfolding s by blast
    with eq key [of k e] key [of k' e'] show "k = k'" by simp
  qed
  with d have "distinct (List.map_filter edges (iter ks))"
    by (simp only: List.map_filter_def f distinct_map)
  moreover have "set (List.map_filter edges (iter ks)) = {e. edges (TripleKey_from_edge e) = Some e \<and> P e}"
  proof -
    have "e \<in> set (List.map_filter edges (iter ks)) \<longleftrightarrow> edges (TripleKey_from_edge e) = Some e \<and> P e" for e
    proof
      assume "e \<in> set (List.map_filter edges (iter ks))"
      then obtain k where "k \<in> set (iter ks)" and k: "edges k = Some e" unfolding set_map_filter by auto
      then have "P e" unfolding s by simp
      with k key [of k e] show "edges (TripleKey_from_edge e) = Some e \<and> P e" by simp
    next
      assume "edges (TripleKey_from_edge e) = Some e \<and> P e"
      then show "e \<in> set (List.map_filter edges (iter ks))"
        by (simp only: set_map_filter s mem_Collect_eq) (rule bexI [of _ "TripleKey_from_edge e"], simp_all)
    qed
    then show ?thesis by (intro set_eqI) simp
  qed
  ultimately show ?thesis using Some by (simp add: indexed_edges_def)
qed

text \<open>The relation the traversal follows: an edge between two nodes, in either direction.\<close>

definition edge_in :: "(TripleKey \<rightharpoonup> GraphEdge) \<Rightarrow> GraphEdge \<Rightarrow> bool" where
  "edge_in m e \<longleftrightarrow> m (TripleKey_from_edge e) = Some e"

definition adjacent :: "(TripleKey \<rightharpoonup> GraphEdge) \<Rightarrow> (string \<times> string) set" where
  "adjacent m = {(a, b). \<exists>e. edge_in m e \<and> gn_iri (ge_subject e) = a \<and> object_iri e = Some b}"

definition within :: "(string \<times> string) set \<Rightarrow> nat \<Rightarrow> string \<Rightarrow> string set" where
  "within r n a = {b. \<exists>k \<le> n. (a, b) \<in> r ^^ k}"

lemma outgoing_exact:
  assumes "graph_inv g" and "\<And>ks. mset (iter ks) = mset ks"
  shows "set (graph_outgoing iter g node) = {e. edge_in (gs_edges g) e \<and> gn_iri (ge_subject e) = gn_iri node}
    \<and> distinct (graph_outgoing iter g node)"
  unfolding graph_outgoing_def edge_in_def
  by (rule indexed_edges_exact) (use assms graph_inv_idx graph_inv_key in simp_all)

lemma incoming_exact:
  assumes "graph_inv g" and "\<And>ks. mset (iter ks) = mset ks"
  shows "set (graph_incoming iter g node) = {e. edge_in (gs_edges g) e \<and> object_iri e = Some (gn_iri node)}
    \<and> distinct (graph_incoming iter g node)"
  unfolding graph_incoming_def edge_in_def
  by (rule indexed_edges_exact) (use assms graph_inv_idx graph_inv_key in simp_all)

lemma within_Suc: "within r (Suc n) a = within r n a \<union> r `` within r n a"
proof -
  have "b \<in> within r (Suc n) a \<longleftrightarrow> b \<in> within r n a \<union> r `` within r n a" for b
  proof
    assume "b \<in> within r (Suc n) a"
    then obtain k where k: "k \<le> Suc n" "(a, b) \<in> r ^^ k" by (auto simp: within_def)
    show "b \<in> within r n a \<union> r `` within r n a"
    proof (cases k)
      case 0
      with k show ?thesis by (auto simp: within_def)
    next
      case (Suc j)
      with k obtain c where "(a, c) \<in> r ^^ j" "(c, b) \<in> r" by auto
      with k Suc show ?thesis by (auto simp: within_def)
    qed
  next
    assume "b \<in> within r n a \<union> r `` within r n a"
    then show "b \<in> within r (Suc n) a"
    proof
      assume "b \<in> r `` within r n a"
      then obtain c k where "k \<le> n" "(a, c) \<in> r ^^ k" "(c, b) \<in> r" by (auto simp: within_def)
      then show ?thesis by (auto simp: within_def intro!: exI [of _ "Suc k"])
    qed (auto simp: within_def intro: le_SucI)
  qed
  then show ?thesis by blast
qed

text \<open>
  One pass over the frontier: the visited list grows by the neighbours, without repetition, and the next
  frontier holds exactly the new ones.
\<close>

definition pass_ok :: "string set \<Rightarrow> string set \<Rightarrow> string list \<times> GraphNode list \<Rightarrow> bool" where
  "pass_ok start reached acc \<longleftrightarrow> distinct (fst acc) \<and> set (fst acc) = start \<union> reached
    \<and> gn_iri ` set (snd acc) = (start \<union> reached) - start"

lemma pass_ok_visit: "pass_ok start reached acc \<Longrightarrow> pass_ok start (insert (gn_iri n) reached) (visit_node n acc)"
  by (cases acc) (auto simp: pass_ok_def)

lemma pass_ok_fold_subjects:
  "pass_ok start reached acc \<Longrightarrow>
   pass_ok start (reached \<union> (gn_iri \<circ> ge_subject) ` set es) (fold (\<lambda>edge. visit_node (ge_subject edge)) es acc)"
proof (induction es arbitrary: reached acc)
  case (Cons e es)
  from Cons.IH [OF pass_ok_visit [OF Cons.prems, of "ge_subject e"]] show ?case by simp
qed simp

lemma pass_ok_fold_objects:
  "pass_ok start reached acc \<Longrightarrow>
   pass_ok start (reached \<union> {b. \<exists>e \<in> set es. object_iri e = Some b}) (fold visit_outgoing es acc)"
proof (induction es arbitrary: reached acc)
  case (Cons e es)
  show ?case
  proof (cases "ge_object e")
    case (Node n)
    have "insert (gn_iri n) reached \<union> {b. \<exists>e \<in> set es. object_iri e = Some b} =
        reached \<union> {b. \<exists>e \<in> set (e # es). object_iri e = Some b}"
      using Node by (auto simp: object_iri_def)
    with Cons.IH [OF pass_ok_visit [OF Cons.prems, of n]] Node show ?thesis by (simp add: visit_outgoing_def)
  next
    case (Literal v d)
    then have "{b. \<exists>e \<in> set (e # es). object_iri e = Some b} = {b. \<exists>e \<in> set es. object_iri e = Some b}"
      by (auto simp: object_iri_def)
    with Cons.IH [OF Cons.prems] Literal show ?thesis by (simp add: visit_outgoing_def)
  qed
qed simp

lemma pass_ok_expand:
  assumes inv: "graph_inv g" and perm: "\<And>ks. mset (iter ks) = mset ks" and ok: "pass_ok start reached acc"
  shows "pass_ok start (reached \<union> (adjacent (gs_edges g) \<union> (adjacent (gs_edges g))\<inverse>) `` {gn_iri n}) (expand_node iter g n acc)"
proof -
  let ?out = "{b. \<exists>e \<in> set (graph_outgoing iter g n). object_iri e = Some b}"
  let ?in = "(gn_iri \<circ> ge_subject) ` set (graph_incoming iter g n)"
  have "?out \<union> ?in = (adjacent (gs_edges g) \<union> (adjacent (gs_edges g))\<inverse>) `` {gn_iri n}"
    using outgoing_exact [OF inv perm, of n] incoming_exact [OF inv perm, of n] by (auto simp: adjacent_def)
  with pass_ok_fold_subjects [OF pass_ok_fold_objects [OF ok], of "graph_outgoing iter g n" "graph_incoming iter g n"]
  show ?thesis by (simp add: expand_node_def Let_def Un_assoc)
qed

lemma pass_ok_frontier:
  assumes "graph_inv g" and "\<And>ks. mset (iter ks) = mset ks" and "pass_ok start reached acc"
  shows "pass_ok start (reached \<union> (adjacent (gs_edges g) \<union> (adjacent (gs_edges g))\<inverse>) `` (gn_iri ` set frontier))
    (fold (expand_node iter g) frontier acc)"
  using assms(3)
proof (induction frontier arbitrary: reached acc)
  case (Cons n ns)
  have "r `` (gn_iri ` set (n # ns)) = r `` {gn_iri n} \<union> r `` (gn_iri ` set ns)" for r :: "(string \<times> string) set" by auto
  with Cons.IH [OF pass_ok_expand [OF assms(1,2) Cons.prems, of n]] show ?case
    by (simp add: Un_assoc)
qed simp

lemma neighborhood_loop_exact:
  assumes inv: "graph_inv g" and perm: "\<And>ks. mset (iter ks) = mset ks"
    and r: "r = adjacent (gs_edges g) \<union> (adjacent (gs_edges g))\<inverse>"
    and "set visited = within r n a" and "distinct visited"
    and "gn_iri ` set frontier \<subseteq> set visited" and "r `` (set visited - gn_iri ` set frontier) \<subseteq> set visited"
  shows "set (neighborhood_loop iter g hops visited frontier) = within r (n + hops) a
    \<and> distinct (neighborhood_loop iter g hops visited frontier)"
  using assms(4-)
proof (induction hops arbitrary: visited frontier n)
  case (Suc hops)
  obtain visited' frontier' where e: "fold (expand_node iter g) frontier (visited, []) = (visited', frontier')" by fastforce
  have "pass_ok (set visited) {} (visited, [])" using Suc.prems by (simp add: pass_ok_def)
  from pass_ok_frontier [OF inv perm this, of frontier]
  have "pass_ok (set visited) (r `` (gn_iri ` set frontier)) (visited', frontier')" by (simp add: e r)
  moreover have "set visited \<union> r `` (gn_iri ` set frontier) = set visited \<union> r `` set visited"
  proof -
    have "set visited = gn_iri ` set frontier \<union> (set visited - gn_iri ` set frontier)" using Suc.prems(3) by blast
    then have "r `` set visited = r `` (gn_iri ` set frontier) \<union> r `` (set visited - gn_iri ` set frontier)"
      by (metis Image_Un)
    with Suc.prems(4) show ?thesis by blast
  qed
  ultimately have v: "set visited' = set visited \<union> r `` set visited" "distinct visited'"
      "gn_iri ` set frontier' = set visited' - set visited"
    by (auto simp: pass_ok_def)
  have "set (neighborhood_loop iter g hops visited' frontier') = within r (Suc n + hops) a
      \<and> distinct (neighborhood_loop iter g hops visited' frontier')"
  proof (rule Suc.IH)
    show "set visited' = within r (Suc n) a" unfolding v(1) Suc.prems(1) within_Suc ..
    show "r `` (set visited' - gn_iri ` set frontier') \<subseteq> set visited'" unfolding v(3) using v(1) by auto
  qed (use v in auto)
  then show ?case by (simp add: e)
qed simp


definition demo_edge :: "string \<Rightarrow> string \<Rightarrow> GraphEdge" where
  "demo_edge a b = \<lparr>ge_subject = GraphNode_new a, ge_predicate = GraphNode_new ''p'', ge_object = Node (GraphNode_new b)\<rparr>"

lemma demo_edge_fields [simp]:
  "gn_iri (GraphNode_new i) = i" "ge_subject (demo_edge a b) = GraphNode_new a" "object_iri (demo_edge a b) = Some b"
  "TripleKey_from_edge (demo_edge a b) = TripleKey a ''p'' b"
  by (simp_all add: GraphNode_new_def demo_edge_def object_iri_def TripleKey_from_edge_def Let_def)

lemma distinct_set_singleton: "distinct xs \<Longrightarrow> set xs = {x} \<Longrightarrow> xs = [x]"
  by (cases xs; cases "tl xs") auto


text \<open>\<open>neighborhood\<close> is exact: it returns, each once, the nodes at most \<open>hops\<close> edges away from the start,
  edges counting in both directions, and no others.
\<close>

theorem neighborhood_exact:
  assumes "list_all (wf_edge \<circ> op_edge) ops" and "\<And>ks. mset (iter ks) = mset ks" and "\<And>is. mset (iter_iris is) = mset is"
    and "m = foldl triples_step Map.empty ops"
    and "ns = graph_neighborhood iter iter_iris (foldl graph_step SimpleGraphStore_new ops) node hops"
  shows "gn_iri ` set ns = within (adjacent m \<union> (adjacent m)\<inverse>) hops (gn_iri node) \<and> distinct (map gn_iri ns)"
proof -
  let ?g = "foldl graph_step SimpleGraphStore_new ops"
  let ?r = "adjacent m \<union> (adjacent m)\<inverse>"
  have inv: "graph_inv ?g" and m: "gs_edges ?g = m"
    using graph_run_refines [OF graph_inv_new assms(1)] assms(4) by (simp_all add: SimpleGraphStore_new_def)
  have "set (neighborhood_loop iter ?g hops [gn_iri node] [node]) = within ?r (0 + hops) (gn_iri node)
      \<and> distinct (neighborhood_loop iter ?g hops [gn_iri node] [node])"
    by (rule neighborhood_loop_exact [OF inv assms(2)]) (auto simp: within_def m)
  moreover have "map gn_iri ns = iter_iris (neighborhood_loop iter ?g hops [gn_iri node] [node])"
    by (simp add: assms(5) graph_neighborhood_def o_def)
  ultimately show ?thesis
    using mset_eq_setD [OF assms(3)] mset_eq_imp_distinct_iff [OF assms(3)] by (simp flip: set_map)
qed

theorem neighborhood_exact_witness:
  "\<exists>ns. ns = graph_neighborhood id id (foldl graph_step SimpleGraphStore_new
        [InsertEdge (demo_edge ''a'' ''b''), InsertEdge (demo_edge ''c'' ''b''), InsertEdge (demo_edge ''c'' ''d'')])
        (GraphNode_new ''a'') 2
     \<and> ''c'' \<in> gn_iri ` set ns \<and> distinct (map gn_iri ns)"
proof -
  let ?ops = "[InsertEdge (demo_edge ''a'' ''b''), InsertEdge (demo_edge ''c'' ''b''), InsertEdge (demo_edge ''c'' ''d'')]"
  let ?m = "foldl triples_step Map.empty ?ops"
  have wf: "list_all (wf_edge \<circ> op_edge) ?ops" by (simp add: wf_edge_def demo_edge_def GraphNode_new_def)
  have ab: "(''a'', ''b'') \<in> adjacent ?m" unfolding adjacent_def
    by (simp, rule exI [of _ "demo_edge ''a'' ''b''"]) (simp add: edge_in_def)
  have cb: "(''c'', ''b'') \<in> adjacent ?m" unfolding adjacent_def
    by (simp, rule exI [of _ "demo_edge ''c'' ''b''"]) (simp add: edge_in_def)
  from ab cb have "''c'' \<in> within (adjacent ?m \<union> (adjacent ?m)\<inverse>) 2 ''a''"
    unfolding within_def by (auto simp: numeral_2_eq_2 intro!: exI [of _ "Suc (Suc 0)"])
  with neighborhood_exact [OF wf _ _ refl refl, of id id "GraphNode_new ''a''" 2] show ?thesis by simp
qed

text \<open>
  Literals are keyed by their text alone, so two literals that differ only in their datatype are one
  triple: inserting the second replaces the first.
\<close>

lemma literal_datatypes_collide:
  assumes "ge_object e = Literal v d" and "ge_object e' = Literal v d'"
    and "ge_subject e' = ge_subject e" and "ge_predicate e' = ge_predicate e" and "d \<noteq> d'"
  shows "gs_edges (graph_insert (graph_insert g e) e') (TripleKey_from_edge e) = Some e' \<and> e' \<noteq> e"
  using assms by (auto simp: insert_fields TripleKey_from_edge_def)

end
