(* ===== verification/Ranking.thy ===== *)
theory Ranking
  imports Prelude "HOL-Library.Multiset"
begin

text \<open>
  What the stores use of floating-point numbers, and ranked search.  HOL has no IEEE arithmetic, so the
  primitive operations of \<open>f32\<close> and \<open>f64\<close> are the fields of \<open>float_ops\<close>; the functions of the sources that compute
  with them are translated over these fields.  \<open>stable_sort\<close> is the standard library's \<open>sort_by\<close>: for a comparison
  that is a weak order (no NaN among the keys) a stable sorted permutation is unique, so the algorithm does
  not matter; for others the standard library leaves the order open.
\<close>

section \<open>Floating-point primitives\<close>

record 'f float_ops =
  fo_lit :: "int \<Rightarrow> 'f"
  fo_add :: "'f \<Rightarrow> 'f \<Rightarrow> 'f"
  fo_sub :: "'f \<Rightarrow> 'f \<Rightarrow> 'f"
  fo_mul :: "'f \<Rightarrow> 'f \<Rightarrow> 'f"
  fo_div :: "'f \<Rightarrow> 'f \<Rightarrow> 'f"
  fo_sum :: "'f list \<Rightarrow> 'f"
  fo_powi :: "'f \<Rightarrow> int \<Rightarrow> 'f"
  fo_sqrt :: "'f \<Rightarrow> 'f"
  fo_sin :: "'f \<Rightarrow> 'f"
  fo_cos :: "'f \<Rightarrow> 'f"
  fo_asin :: "'f \<Rightarrow> 'f"
  fo_to_radians :: "'f \<Rightarrow> 'f"
  fo_le :: "'f \<Rightarrow> 'f \<Rightarrow> bool"
  fo_lt :: "'f \<Rightarrow> 'f \<Rightarrow> bool"
  fo_is_nan :: "'f \<Rightarrow> bool"
  fo_display :: "'f \<Rightarrow> string"

text \<open>The comparisons of a set of values without NaN: a strict weak order.\<close>

definition weak_order :: "('a \<Rightarrow> 'a \<Rightarrow> bool) \<Rightarrow> bool" where
  "weak_order lt \<longleftrightarrow> (\<forall>x y. lt x y \<longrightarrow> \<not> lt y x) \<and> (\<forall>x y z. lt x y \<longrightarrow> lt x z \<or> lt z y)"

lemma weak_order_asym: "weak_order lt \<Longrightarrow> lt x y \<Longrightarrow> \<not> lt y x"
  unfolding weak_order_def by metis

lemma weak_order_le_trans: "weak_order lt \<Longrightarrow> \<not> lt y x \<Longrightarrow> \<not> lt z y \<Longrightarrow> \<not> lt z x"
  unfolding weak_order_def by metis

section \<open>Sorting\<close>

fun insert_by :: "('a \<Rightarrow> 'a \<Rightarrow> bool) \<Rightarrow> 'a \<Rightarrow> 'a list \<Rightarrow> 'a list" where
  "insert_by le x [] = [x]"
| "insert_by le x (y # ys) = (if le x y then x # y # ys else y # insert_by le x ys)"

definition stable_sort :: "('a \<Rightarrow> 'a \<Rightarrow> bool) \<Rightarrow> 'a list \<Rightarrow> 'a list" where
  "stable_sort le xs = foldr (insert_by le) xs []"

lemma mset_insert_by [simp]: "mset (insert_by le x ys) = add_mset x (mset ys)"
  by (induction ys) auto

lemma mset_stable_sort [simp]: "mset (stable_sort le xs) = mset xs"
  by (induction xs) (auto simp: stable_sort_def)

lemma set_stable_sort [simp]: "set (stable_sort le xs) = set xs"
  using mset_eq_setD [OF mset_stable_sort] .

lemma length_stable_sort [simp]: "length (stable_sort le xs) = length xs"
  using mset_eq_length [OF mset_stable_sort] .

lemma set_insert_by [simp]: "set (insert_by le x ys) = insert x (set ys)"
  by (induction ys) auto

lemma sorted_insert_by:
  assumes total: "\<And>x y. le x y \<or> le y x" and trans: "\<And>x y z. le x y \<Longrightarrow> le y z \<Longrightarrow> le x z"
  shows "sorted_wrt le ys \<Longrightarrow> sorted_wrt le (insert_by le x ys)"
proof (induction ys)
  case (Cons y ys)
  show ?case
  proof (cases "le x y")
    case True
    with Cons.prems trans [OF True] show ?thesis by auto
  next
    case False
    with total [of x y] Cons show ?thesis by auto
  qed
qed simp

lemma sorted_stable_sort:
  assumes "\<And>x y. le x y \<or> le y x" and "\<And>x y z. le x y \<Longrightarrow> le y z \<Longrightarrow> le x z"
  shows "sorted_wrt le (stable_sort le xs)"
  by (induction xs) (simp_all add: stable_sort_def sorted_insert_by [OF assms])

section \<open>The best results\<close>

text \<open>
  What a ranked search promises: the results are candidates, as many as asked for or there are, in order of
  rank, and no candidate left out ranks before one that was returned.
\<close>

definition best_ranked :: "('a \<Rightarrow> 'a \<Rightarrow> bool) \<Rightarrow> nat \<Rightarrow> 'a list \<Rightarrow> 'a list \<Rightarrow> bool" where
  "best_ranked le k xs ys \<longleftrightarrow>
    sorted_wrt le ys \<and> length ys = min k (length xs)
    \<and> (\<exists>rest. mset xs = mset ys + mset rest \<and> (\<forall>y \<in> set ys. \<forall>z \<in> set rest. le y z))"

lemma take_sort_best:
  assumes "weak_order lt"
  shows "best_ranked (\<lambda>x y. \<not> lt (f y) (f x)) k xs (take k (stable_sort (\<lambda>x y. \<not> lt (f y) (f x)) xs))"
proof -
  let ?le = "\<lambda>x y. \<not> lt (f y) (f x)"
  let ?s = "stable_sort ?le xs"
  have "sorted_wrt ?le ?s"
    by (rule sorted_stable_sort)
      (use weak_order_asym [OF assms] in blast, rule weak_order_le_trans [OF assms])
  then have s: "sorted_wrt ?le (take k ?s @ drop k ?s)" by simp
  have "mset xs = mset (take k ?s) + mset (drop k ?s)"
    unfolding mset_append [symmetric] append_take_drop_id mset_stable_sort ..
  moreover have "\<forall>y \<in> set (take k ?s). \<forall>z \<in> set (drop k ?s). ?le y z" using s unfolding sorted_wrt_append by blast
  moreover have "sorted_wrt ?le (take k ?s)" using s unfolding sorted_wrt_append by blast
  moreover have "length (take k ?s) = min k (length xs)" by simp
  ultimately show ?thesis unfolding best_ranked_def by blast
qed

text \<open>Integers as a stand-in for floats in examples.\<close>

definition int_floats :: "int float_ops" where
  "int_floats = \<lparr>fo_lit = id, fo_add = (+), fo_sub = (-), fo_mul = (*), fo_div = (div), fo_sum = sum_list,
     fo_powi = (\<lambda>x n. x ^ nat n), fo_sqrt = id, fo_sin = id, fo_cos = id, fo_asin = id, fo_to_radians = id,
     fo_le = (\<le>), fo_lt = (<), fo_is_nan = (\<lambda>_. False), fo_display = (\<lambda>x. dec_digits (nat x))\<rparr>"

lemma weak_order_int: "weak_order (fo_lt int_floats)"
  by (auto simp: weak_order_def int_floats_def)

end
