(* ===== verification/Keyed_Store.thy ===== *)
theory Keyed_Store
  imports Prelude "HOL-Library.AList"
begin

text \<open>
  The contract the hexad store relies on of the stores that keep one value per entity (vector, tensor,
  semantic, spatial and document): \<open>put\<close> stores under the entity or fails and leaves the values alone, \<open>get\<close> reads
  back, and \<open>delete\<close>, where a store has it, forgets.  \<open>key\<close> is the entity a \<open>put\<close> names and \<open>val\<close> what is kept under it.
\<close>

locale keyed_store =
  fixes put :: "'s \<Rightarrow> 'x \<Rightarrow> 's \<times> ('e, unit) rresult"
    and get :: "'s \<Rightarrow> string \<Rightarrow> ('e, 'y option) rresult"
    and key :: "'x \<Rightarrow> string" and val :: "'x \<Rightarrow> 'y"
    and kept :: "'s \<Rightarrow> string \<Rightarrow> 'y option"
  assumes put_ok: "put s x = (s', Inr ()) \<Longrightarrow> kept s' = (kept s)(key x \<mapsto> val x)"
    and put_err: "put s x = (s', Inl e) \<Longrightarrow> kept s' = kept s"
    and get_values: "get s k = Inr (kept s k)"
begin

lemma put_cases:
  obtains (ok) s' where "put s x = (s', Inr ())" "kept s' = (kept s)(key x \<mapsto> val x)"
  | (err) s' e where "put s x = (s', Inl e)" "kept s' = kept s"
proof (cases "put s x")
  case (Pair s' r)
  with ok err put_ok put_err show thesis by (cases r) auto
qed

lemma get_after_put:
  "put s x = (s', Inr ()) \<Longrightarrow> get s' k = Inr (if k = key x then Some (val x) else kept s k)"
  by (simp add: get_values put_ok)

end

locale deleting_store = keyed_store +
  fixes delete :: "'a \<Rightarrow> string \<Rightarrow> 'a \<times> ('c, unit) rresult"
  assumes delete_values: "kept (fst (delete s k)) = (kept s)(k := None)"
begin

lemma put_delete:
  assumes "put s x = (s', Inr ())"
  shows "kept (fst (delete s' (key x))) = (kept s)(key x := None)"
  using put_ok [OF assms] by (simp add: delete_values)

lemma get_after_delete: "get (fst (delete s k)) j = Inr (if j = k then None else kept s j)"
  by (simp add: get_values delete_values)

end

end
