(* ===== verification/Vector_Store.thy ===== *)
theory Vector_Store
  imports Ranking Keyed_Store
begin

text \<open>
  The vector modality (\<open>verisim-vector/src/lib.rs\<close>): embeddings, the three similarity measures and the brute-force
  store the server uses.  \<open>f32\<close> arithmetic is \<open>float_ops\<close>; the hash map is an association list in its iteration order.
\<close>

section \<open>Data\<close>

datatype VectorError =
    DimensionMismatch nat nat
  | VectorNotFound string
  | IndexError string
  | VectorSerializationError string
  | VectorLockPoisoned

fun VectorError_display :: "VectorError \<Rightarrow> string" where
  "VectorError_display (DimensionMismatch expected actual) =
     ''Dimension mismatch: expected '' @ dec_digits expected @ '', got '' @ dec_digits actual"
| "VectorError_display (VectorNotFound i) = ''Vector not found: '' @ i"
| "VectorError_display (IndexError m) = ''Index error: '' @ m"
| "VectorError_display (VectorSerializationError m) = ''Serialization error: '' @ m"
| "VectorError_display VectorLockPoisoned = ''Lock poisoned: internal concurrency error''"

record 'f Embedding =
  em_id :: string
  em_vector :: "'f list"
  em_metadata :: "string \<rightharpoonup> string"

definition Embedding_new :: "string \<Rightarrow> 'f list \<Rightarrow> 'f Embedding" where
  "Embedding_new i v = \<lparr>em_id = i, em_vector = v, em_metadata = Map.empty\<rparr>"

definition Embedding_with_metadata :: "'f Embedding \<Rightarrow> string \<Rightarrow> string \<Rightarrow> 'f Embedding" where
  "Embedding_with_metadata e k v = e\<lparr>em_metadata := (em_metadata e)(k \<mapsto> v)\<rparr>"

definition Embedding_dim :: "'f Embedding \<Rightarrow> nat" where
  "Embedding_dim e = length (em_vector e)"

record 'f SearchResult =
  sr_id :: string
  sr_score :: 'f

datatype DistanceMetric = Cosine | Euclidean | DotProduct

record 'f BruteForceVectorStore =
  bf_dimension :: nat
  bf_metric :: DistanceMetric
  bf_embeddings :: "(string \<times> 'f Embedding) list"

definition BruteForceVectorStore_new :: "nat \<Rightarrow> DistanceMetric \<Rightarrow> 'f BruteForceVectorStore" where
  "BruteForceVectorStore_new dimension metric = \<lparr>bf_dimension = dimension, bf_metric = metric, bf_embeddings = []\<rparr>"

section \<open>Similarity\<close>

definition normalize :: "'f float_ops \<Rightarrow> 'f list \<Rightarrow> 'f list" where
  "normalize fo v =
    (let norm = fo_sqrt fo (fo_sum fo (map (\<lambda>x. fo_mul fo x x) v))
     in if fo_lt fo (fo_lit fo 0) norm then map (\<lambda>x. fo_div fo x norm) v else v)"

definition similarity :: "'f float_ops \<Rightarrow> DistanceMetric \<Rightarrow> 'f list \<Rightarrow> 'f list \<Rightarrow> 'f" where
  "similarity fo metric a b =
    (case metric of
       Cosine \<Rightarrow>
         (let a_norm = normalize fo a; b_norm = normalize fo b
          in fo_sum fo (map (\<lambda>(x, y). fo_mul fo x y) (zip a_norm b_norm)))
     | DotProduct \<Rightarrow> fo_sum fo (map (\<lambda>(x, y). fo_mul fo x y) (zip a b))
     | Euclidean \<Rightarrow>
         (let dist_sq = fo_sum fo (map (\<lambda>(x, y). fo_powi fo (fo_sub fo x y) 2) (zip a b))
          in fo_div fo (fo_lit fo 1) (fo_add fo (fo_lit fo 1) (fo_sqrt fo dist_sq))))"

section \<open>Operations\<close>

definition bf_upsert ::
  "'f BruteForceVectorStore \<Rightarrow> 'f Embedding \<Rightarrow> 'f BruteForceVectorStore \<times> (VectorError, unit) rresult" where
  "bf_upsert s embedding =
    (if Embedding_dim embedding \<noteq> bf_dimension s
     then (s, Inl (DimensionMismatch (bf_dimension s) (Embedding_dim embedding)))
     else (s\<lparr>bf_embeddings := AList.update (em_id embedding) embedding (bf_embeddings s)\<rparr>, Inr ()))"

definition bf_scored :: "'f float_ops \<Rightarrow> 'f BruteForceVectorStore \<Rightarrow> 'f list \<Rightarrow> 'f SearchResult list" where
  "bf_scored fo s query =
    map (\<lambda>(i, emb). \<lparr>sr_id = i, sr_score = similarity fo (bf_metric s) query (em_vector emb)\<rparr>) (bf_embeddings s)"

definition bf_search ::
  "'f float_ops \<Rightarrow> 'f BruteForceVectorStore \<Rightarrow> 'f list \<Rightarrow> nat \<Rightarrow> (VectorError, 'f SearchResult list) rresult" where
  "bf_search fo s query k =
    (if length query \<noteq> bf_dimension s
     then Inl (DimensionMismatch (bf_dimension s) (length query))
     else Inr (take k (stable_sort (\<lambda>a b. \<not> fo_lt fo (sr_score a) (sr_score b)) (bf_scored fo s query))))"

definition bf_get :: "'f BruteForceVectorStore \<Rightarrow> string \<Rightarrow> (VectorError, 'f Embedding option) rresult" where
  "bf_get s i = Inr (map_of (bf_embeddings s) i)"

definition bf_delete :: "'f BruteForceVectorStore \<Rightarrow> string \<Rightarrow> 'f BruteForceVectorStore \<times> (VectorError, unit) rresult" where
  "bf_delete s i = (s\<lparr>bf_embeddings := AList.delete i (bf_embeddings s)\<rparr>, Inr ())"

section \<open>The contract\<close>

interpretation vec: deleting_store bf_upsert bf_get em_id "\<lambda>e. e" "\<lambda>s. map_of (bf_embeddings s)" bf_delete
  by unfold_locales (auto simp: bf_upsert_def bf_get_def bf_delete_def update_conv' delete_conv' split: if_splits)

text \<open>\<open>search\<close> returns the \<open>k\<close> most similar embeddings, or all when there are fewer: scores in descending order,
  each with the similarity of its embedding, and no embedding left out is more similar than one returned
  (scores being comparable); a query of the wrong dimension is an error.
\<close>

theorem vector_search_best:
  assumes "weak_order (fo_lt fo)"
  shows "if length query = bf_dimension s
    then \<exists>results. bf_search fo s query k = Inr results
      \<and> best_ranked (\<lambda>a b. \<not> fo_lt fo (sr_score a) (sr_score b)) k (bf_scored fo s query) results
      \<and> (\<forall>r \<in> set results. \<exists>emb. (sr_id r, emb) \<in> set (bf_embeddings s)
            \<and> sr_score r = similarity fo (bf_metric s) query (em_vector emb))
    else bf_search fo s query k = Inl (DimensionMismatch (bf_dimension s) (length query))"
proof -
  have w: "weak_order (\<lambda>x y. fo_lt fo y x)"
    using assms unfolding weak_order_def by blast
  let ?r = "take k (stable_sort (\<lambda>a b. \<not> fo_lt fo (sr_score a) (sr_score b)) (bf_scored fo s query))"
  have "best_ranked (\<lambda>a b. \<not> fo_lt fo (sr_score a) (sr_score b)) k (bf_scored fo s query) ?r"
    by (rule take_sort_best [OF w, of sr_score])
  moreover have "set ?r \<subseteq> set (bf_scored fo s query)" using set_take_subset by force
  then have "\<forall>r \<in> set ?r. \<exists>emb. (sr_id r, emb) \<in> set (bf_embeddings s)
      \<and> sr_score r = similarity fo (bf_metric s) query (em_vector emb)"
    by (force simp: bf_scored_def)
  ultimately show ?thesis by (simp add: bf_search_def)
qed

definition demo_vectors :: "int BruteForceVectorStore" where
  "demo_vectors = \<lparr>bf_dimension = 2, bf_metric = DotProduct,
     bf_embeddings = [(''a'', Embedding_new ''a'' [1, 0]), (''b'', Embedding_new ''b'' [5, 1])]\<rparr>"

theorem vector_search_best_witness:
  "\<exists>results. bf_search int_floats demo_vectors [1, 1] 1 = Inr results \<and> length results = 1
     \<and> (\<forall>r \<in> set results. sr_id r \<in> {''a'', ''b''})"
proof -
  from vector_search_best [OF weak_order_int, of "[1, 1]" demo_vectors 1] show ?thesis
    by (force simp: demo_vectors_def best_ranked_def bf_scored_def)
qed

end
