(* ===== verification/Tensor_Store.thy ===== *)
theory Tensor_Store
  imports Keyed_Store
begin

text \<open>
  The tensor modality (\<open>verisim-tensor/src/lib.rs\<close>): shaped arrays and the in-memory store.  A \<open>usize\<close> is 64 bits wide,
  and the product of the dimensions wraps in a release build.  The elements (\<open>f64\<close>) are only stored and mapped.
  \<open>reduce\<close> computes with ndarray and is left out.
\<close>

datatype TensorError =
    ShapeMismatch "u64 list" "u64 list"
  | TensorNotFound string
  | InvalidOperation string
  | TensorSerializationError string
  | TensorLockPoisoned

datatype DType = Float32 | Float64 | Int32 | Int64 | BoolType

record 'g Tensor =
  tn_id :: string
  tn_shape :: "u64 list"
  tn_dtype :: DType
  tn_data :: "'g list"
  tn_metadata :: "string \<rightharpoonup> string"

text \<open>The debug format of a \<open>Vec<usize>\<close>.\<close>

definition debug_usizes :: "u64 list \<Rightarrow> string" where
  "debug_usizes ns = ''['' @ join_with '', '' (map (dec_digits \<circ> unat) ns) @ '']''"

fun TensorError_display :: "TensorError \<Rightarrow> string" where
  "TensorError_display (ShapeMismatch expected actual) =
     ''Shape mismatch: expected '' @ debug_usizes expected @ '', got '' @ debug_usizes actual"
| "TensorError_display (TensorNotFound i) = ''Tensor not found: '' @ i"
| "TensorError_display (InvalidOperation m) = ''Invalid operation: '' @ m"
| "TensorError_display (TensorSerializationError m) = ''Serialization error: '' @ m"
| "TensorError_display TensorLockPoisoned = ''Lock poisoned: internal concurrency error''"

definition numel_of :: "u64 list \<Rightarrow> u64" where
  "numel_of shape = foldl (*) 1 shape"

definition Tensor_new :: "string \<Rightarrow> u64 list \<Rightarrow> 'g list \<Rightarrow> (TensorError, 'g Tensor) rresult" where
  "Tensor_new i shape data =
    (let expected_len = numel_of shape in
     if (of_nat (length data) :: u64) \<noteq> expected_len
     then Inl (InvalidOperation (''Data length '' @ dec_digits (length data) @ '' doesn't match shape ''
            @ debug_usizes shape @ '' (expected '' @ dec_digits (unat expected_len) @ '')''))
     else Inr \<lparr>tn_id = i, tn_shape = shape, tn_dtype = Float64, tn_data = data, tn_metadata = Map.empty\<rparr>)"

definition Tensor_zeros :: "'g \<Rightarrow> string \<Rightarrow> u64 list \<Rightarrow> 'g Tensor" where
  "Tensor_zeros zero i shape =
    \<lparr>tn_id = i, tn_shape = shape, tn_dtype = Float64, tn_data = replicate (unat (numel_of shape)) zero,
     tn_metadata = Map.empty\<rparr>"

definition Tensor_ones :: "'g \<Rightarrow> string \<Rightarrow> u64 list \<Rightarrow> 'g Tensor" where
  "Tensor_ones one i shape =
    \<lparr>tn_id = i, tn_shape = shape, tn_dtype = Float64, tn_data = replicate (unat (numel_of shape)) one,
     tn_metadata = Map.empty\<rparr>"

definition Tensor_with_metadata :: "'g Tensor \<Rightarrow> string \<Rightarrow> string \<Rightarrow> 'g Tensor" where
  "Tensor_with_metadata t k v = t\<lparr>tn_metadata := (tn_metadata t)(k \<mapsto> v)\<rparr>"

definition Tensor_numel :: "'g Tensor \<Rightarrow> u64" where
  "Tensor_numel t = numel_of (tn_shape t)"

definition Tensor_ndim :: "'g Tensor \<Rightarrow> nat" where
  "Tensor_ndim t = length (tn_shape t)"

type_synonym 'g tensor_map = "(string \<times> 'g Tensor) list"

definition tensor_put :: "'g tensor_map \<Rightarrow> 'g Tensor \<Rightarrow> 'g tensor_map \<times> (TensorError, unit) rresult" where
  "tensor_put s tensor = (AList.update (tn_id tensor) tensor s, Inr ())"

definition tensor_get :: "'g tensor_map \<Rightarrow> string \<Rightarrow> (TensorError, 'g Tensor option) rresult" where
  "tensor_get s i = Inr (map_of s i)"

definition tensor_delete :: "'g tensor_map \<Rightarrow> string \<Rightarrow> 'g tensor_map \<times> (TensorError, unit) rresult" where
  "tensor_delete s i = (AList.delete i s, Inr ())"

definition tensor_list :: "'g tensor_map \<Rightarrow> (TensorError, string list) rresult" where
  "tensor_list s = Inr (map fst s)"

definition tensor_map_op :: "'g tensor_map \<Rightarrow> string \<Rightarrow> ('g \<Rightarrow> 'g) \<Rightarrow> (TensorError, 'g Tensor) rresult" where
  "tensor_map_op s i op =
    (case map_of s i of
       None \<Rightarrow> Inl (TensorNotFound i)
     | Some tensor \<Rightarrow> Inr (tensor\<lparr>tn_id := tn_id tensor @ ''_mapped'', tn_data := map op (tn_data tensor)\<rparr>))"

section \<open>Shapes\<close>

text \<open>The type invariant of tensors: as many elements as the shape says.\<close>

definition wf_tensor :: "'g Tensor \<Rightarrow> bool" where
  "wf_tensor t \<longleftrightarrow> of_nat (length (tn_data t)) = Tensor_numel t"

text \<open>
  Every tensor the code makes has as many elements as its shape says: \<open>new\<close> accepts exactly such data, \<open>zeros\<close> and
  \<open>ones\<close> produce it, and \<open>map\<close> keeps the shape.
\<close>

theorem tensor_shapes_ok:
  "(case Tensor_new i shape data of
      Inr t \<Rightarrow> of_nat (length data) = numel_of shape \<and> wf_tensor t \<and> tn_data t = data \<and> tn_shape t = shape
    | Inl _ \<Rightarrow> of_nat (length data) \<noteq> numel_of shape)
   \<and> wf_tensor (Tensor_zeros z i shape) \<and> wf_tensor (Tensor_ones z i shape)
   \<and> (case tensor_map_op s i f of
        Inr t \<Rightarrow> \<exists>t0. map_of s i = Some t0 \<and> tn_shape t = tn_shape t0 \<and> tn_data t = map f (tn_data t0)
          \<and> wf_tensor t = wf_tensor t0
      | Inl _ \<Rightarrow> map_of s i = None)"
  by (auto simp: Tensor_new_def Tensor_zeros_def Tensor_ones_def wf_tensor_def Tensor_numel_def tensor_map_op_def Let_def
      split: option.splits)

text \<open>The product of the dimensions wraps: a shape of \<open>2\<^sup>3\<^sup>2\<close> by \<open>2\<^sup>3\<^sup>2\<close> is accepted with no elements at all.\<close>

lemma shape_product_wraps: "\<exists>t. Tensor_new i [2 ^ 32, 2 ^ 32] [] = Inr t \<and> tn_shape t = [2 ^ 32, 2 ^ 32]"
  by (simp add: Tensor_new_def numel_of_def Let_def)

section \<open>The contract\<close>

interpretation tens: deleting_store tensor_put tensor_get tn_id "\<lambda>t. t" map_of tensor_delete
  by unfold_locales (auto simp: tensor_put_def tensor_get_def tensor_delete_def update_conv' delete_conv')

end
