(* ===== verification/Semantic_Store.thy ===== *)
theory Semantic_Store
  imports Keyed_Store
begin

text \<open>
  The semantic modality (\<open>verisim-semantic/src/lib.rs\<close>): types with constraints, annotations, and the in-memory
  store, whose \<open>annotate\<close> validates first.  The regular-expression engine (crate \<open>regex\<close>) is the parameter \<open>re\<close>: \<open>None\<close> when
  the pattern does not compile.  Proof blobs are stored and listed; their verification is left out.
\<close>

section \<open>Data\<close>

datatype SemanticError =
    TypeNotFound string
  | ConstraintViolation string
  | InvalidProof string
  | SemanticSerializationError string
  | SemanticLockPoisoned

fun SemanticError_display :: "SemanticError \<Rightarrow> string" where
  "SemanticError_display (TypeNotFound i) = ''Type not found: '' @ i"
| "SemanticError_display (ConstraintViolation m) = ''Constraint violation: '' @ m"
| "SemanticError_display (InvalidProof m) = ''Invalid proof: '' @ m"
| "SemanticError_display (SemanticSerializationError m) = ''Serialization error: '' @ m"
| "SemanticError_display SemanticLockPoisoned = ''Lock poisoned: internal concurrency error''"

datatype ConstraintKind =
    Required string
  | Pattern string string
  | Range string "int option" "int option"
  | CustomConstraint string

record Constraint =
  ct_name :: string
  ct_kind :: ConstraintKind
  ct_message :: string

record SemanticType =
  sy_iri :: string
  sy_label :: string
  sy_supertypes :: "string list"
  sy_constraints :: "Constraint list"

definition SemanticType_new :: "string \<Rightarrow> string \<Rightarrow> SemanticType" where
  "SemanticType_new iri label = \<lparr>sy_iri = iri, sy_label = label, sy_supertypes = [], sy_constraints = []\<rparr>"

definition with_supertype :: "SemanticType \<Rightarrow> string \<Rightarrow> SemanticType" where
  "with_supertype t supertype = t\<lparr>sy_supertypes := sy_supertypes t @ [supertype]\<rparr>"

definition with_constraint :: "SemanticType \<Rightarrow> Constraint \<Rightarrow> SemanticType" where
  "with_constraint t c = t\<lparr>sy_constraints := sy_constraints t @ [c]\<rparr>"

datatype SemanticValue =
    LangString string string
  | TypedLiteral string string
  | Reference string
  | Collection "SemanticValue list"

record 'g AnnotationProvenance =
  ap_created_at :: string
  ap_created_by :: string
  ap_source :: "string option"
  ap_confidence :: 'g

definition AnnotationProvenance_default :: "'g \<Rightarrow> string \<Rightarrow> 'g AnnotationProvenance" where
  "AnnotationProvenance_default one now_rfc3339 =
    \<lparr>ap_created_at = now_rfc3339, ap_created_by = ''system'', ap_source = None, ap_confidence = one\<rparr>"

record 'g SemanticAnnotation =
  sa_entity_id :: string
  sa_types :: "string list"
  sa_properties :: "string \<rightharpoonup> SemanticValue"
  sa_provenance :: "'g AnnotationProvenance"

datatype ProofType = TypeAssignment | ConstraintSatisfaction | Derivation | Attestation

record ProofBlob =
  pb_claim :: string
  pb_proof_type :: ProofType
  pb_data :: bytes
  pb_timestamp :: string

record 'g InMemorySemanticStore =
  ss_types :: "string \<rightharpoonup> SemanticType"
  ss_annotations :: "string \<rightharpoonup> 'g SemanticAnnotation"
  ss_proofs :: "string \<rightharpoonup> ProofBlob list"

definition InMemorySemanticStore_new :: "'g InMemorySemanticStore" where
  "InMemorySemanticStore_new = \<lparr>ss_types = Map.empty, ss_annotations = Map.empty, ss_proofs = Map.empty\<rparr>"

section \<open>Operations\<close>

definition register_type :: "'g InMemorySemanticStore \<Rightarrow> SemanticType \<Rightarrow> 'g InMemorySemanticStore" where
  "register_type s typ = s\<lparr>ss_types := (ss_types s)(sy_iri typ \<mapsto> typ)\<rparr>"

definition get_type :: "'g InMemorySemanticStore \<Rightarrow> string \<Rightarrow> SemanticType option" where
  "get_type s iri = ss_types s iri"

text \<open>The match on one constraint: the violation it reports, if any.\<close>

definition constraint_violation ::
  "(string \<Rightarrow> string \<Rightarrow> bool option) \<Rightarrow> (string \<rightharpoonup> SemanticValue) \<Rightarrow> Constraint \<Rightarrow> string list" where
  "constraint_violation re properties c =
    (case ct_kind c of
       Required prop \<Rightarrow> (if properties prop = None then [ct_name c @ '': '' @ ct_message c] else [])
     | Pattern property regex \<Rightarrow>
         (case properties property of
            Some (TypedLiteral v _) \<Rightarrow>
              (case re regex v of
                 Some matched \<Rightarrow> (if \<not> matched then [ct_name c @ '': '' @ ct_message c] else [])
               | None \<Rightarrow> [])
          | _ \<Rightarrow> [])
     | _ \<Rightarrow> [])"

definition semantic_validate ::
  "(string \<Rightarrow> string \<Rightarrow> bool option) \<Rightarrow> 'g InMemorySemanticStore \<Rightarrow> 'g SemanticAnnotation \<Rightarrow> string list" where
  "semantic_validate re s annotation =
    concat (map (\<lambda>type_iri.
      case ss_types s type_iri of
        Some typ \<Rightarrow> concat (map (constraint_violation re (sa_properties annotation)) (sy_constraints typ))
      | None \<Rightarrow> []) (sa_types annotation))"

definition annotate ::
  "(string \<Rightarrow> string \<Rightarrow> bool option) \<Rightarrow> 'g InMemorySemanticStore \<Rightarrow> 'g SemanticAnnotation
   \<Rightarrow> 'g InMemorySemanticStore \<times> (SemanticError, unit) rresult" where
  "annotate re s annotation =
    (let violations = semantic_validate re s annotation in
     if violations \<noteq> [] then (s, Inl (ConstraintViolation (join_with ''; '' violations)))
     else (s\<lparr>ss_annotations := (ss_annotations s)(sa_entity_id annotation \<mapsto> annotation)\<rparr>, Inr ()))"

definition get_annotations ::
  "'g InMemorySemanticStore \<Rightarrow> string \<Rightarrow> (SemanticError, 'g SemanticAnnotation option) rresult" where
  "get_annotations s entity_id = Inr (ss_annotations s entity_id)"

definition store_proof :: "'g InMemorySemanticStore \<Rightarrow> ProofBlob \<Rightarrow> 'g InMemorySemanticStore" where
  "store_proof s proof =
    s\<lparr>ss_proofs := (ss_proofs s)(pb_claim proof \<mapsto>
      (case ss_proofs s (pb_claim proof) of Some ps \<Rightarrow> ps | None \<Rightarrow> []) @ [proof])\<rparr>"

definition get_proofs :: "'g InMemorySemanticStore \<Rightarrow> string \<Rightarrow> ProofBlob list" where
  "get_proofs s claim = (case ss_proofs s claim of Some ps \<Rightarrow> ps | None \<Rightarrow> [])"

section \<open>The contract\<close>

interpretation sem: keyed_store "annotate re" get_annotations sa_entity_id "\<lambda>a. a" ss_annotations for re
  by unfold_locales (auto simp: annotate_def get_annotations_def Let_def split: if_splits)

section \<open>Validated annotations\<close>

text \<open>What a registered type asks of an annotation, as far as the code checks it.\<close>

definition satisfies :: "(string \<Rightarrow> string \<Rightarrow> bool option) \<Rightarrow> (string \<rightharpoonup> SemanticValue) \<Rightarrow> Constraint \<Rightarrow> bool" where
  "satisfies re properties c \<longleftrightarrow>
    (\<forall>prop. ct_kind c = Required prop \<longrightarrow> properties prop \<noteq> None)
    \<and> (\<forall>prop regex v d. ct_kind c = Pattern prop regex \<longrightarrow> properties prop = Some (TypedLiteral v d) \<longrightarrow> re regex v \<noteq> Some False)"

lemma constraint_violation_Nil: "constraint_violation re ps c = [] \<longleftrightarrow> satisfies re ps c"
  by (auto simp: constraint_violation_def satisfies_def
      split: ConstraintKind.splits option.splits SemanticValue.splits if_splits)

lemma semantic_validate_Nil:
  "semantic_validate re s a = [] \<longleftrightarrow>
    (\<forall>i \<in> set (sa_types a). \<forall>typ. ss_types s i = Some typ \<longrightarrow> list_all (satisfies re (sa_properties a)) (sy_constraints typ))"
  by (auto simp: semantic_validate_def constraint_violation_Nil list_all_iff split: option.splits)

text \<open>An annotation is stored exactly when it meets the required-property and pattern constraints of all its
  registered types; it then replaces what the entity had and touches no other entity, and a refused one changes
  nothing.
\<close>

theorem annotate_validates:
  "case annotate re s a of (s', r) \<Rightarrow>
     if \<forall>i \<in> set (sa_types a). \<forall>typ. ss_types s i = Some typ \<longrightarrow> list_all (satisfies re (sa_properties a)) (sy_constraints typ)
     then r = Inr () \<and> (\<forall>e. get_annotations s' e = Inr (if e = sa_entity_id a then Some a else ss_annotations s e))
     else s' = s \<and> (\<exists>vs. vs \<noteq> [] \<and> r = Inl (ConstraintViolation (join_with ''; '' vs)))"
proof (cases "semantic_validate re s a = []")
  case True
  then obtain s' where ok: "annotate re s a = (s', Inr ())" by (simp add: annotate_def)
  from sem.get_after_put [OF ok] ok True show ?thesis by (simp add: semantic_validate_Nil)
next
  case False
  then show ?thesis
    by (auto simp: annotate_def Let_def semantic_validate_Nil intro!: exI [of _ "semantic_validate re s a"])
qed

theorem annotate_validates_witness:
  "\<exists>s :: nat InMemorySemanticStore. \<exists>a e. snd (annotate (\<lambda>_ _. None) s a) = Inl e
     \<and> snd (annotate (\<lambda>_ _. None) s (a\<lparr>sa_properties := [''name'' \<mapsto> Reference ''x'']\<rparr>)) = Inr ()"
proof -
  let ?c = "\<lparr>ct_name = ''n'', ct_kind = Required ''name'', ct_message = ''m''\<rparr>"
  let ?s = "register_type InMemorySemanticStore_new (with_constraint (SemanticType_new ''t'' ''T'') ?c) :: nat InMemorySemanticStore"
  let ?a = "\<lparr>sa_entity_id = ''e'', sa_types = [''t''], sa_properties = Map.empty,
     sa_provenance = AnnotationProvenance_default (1 :: nat) []\<rparr>"
  let ?b = "?a\<lparr>sa_properties := [''name'' \<mapsto> Reference ''x'']\<rparr>"
  have t: "ss_types ?s ''t'' = Some \<lparr>sy_iri = ''t'', sy_label = ''T'', sy_supertypes = [], sy_constraints = [?c]\<rparr>"
    by (simp add: register_type_def with_constraint_def SemanticType_new_def)
  have "\<exists>e. snd (annotate (\<lambda>_ _. None) ?s ?a) = Inl e"
    using annotate_validates [where re = "\<lambda>_ _. None" and s = ?s and a = ?a] by (auto simp: t satisfies_def split: prod.splits)
  moreover have "snd (annotate (\<lambda>_ _. None) ?s ?b) = Inr ()"
    using annotate_validates [where re = "\<lambda>_ _. None" and s = ?s and a = ?b] by (auto simp: t satisfies_def split: prod.splits)
  ultimately show ?thesis by blast
qed

text \<open>Range constraints are part of the ontology, but no annotation is ever refused for one.\<close>

lemma range_constraints_unchecked: "ct_kind c = Range p lo hi \<Longrightarrow> constraint_violation re ps c = []"
  by (simp add: constraint_violation_def)

end
