(* ===== verification/Document_Store.thy ===== *)
theory Document_Store
  imports Keyed_Store
begin

text \<open>
  The document modality (\<open>verisim-document/src/lib.rs\<close>): documents and \<open>TantivyDocumentStore\<close>, which keeps the documents in
  a hash map next to a Tantivy index.  The index (crate \<open>tantivy\<close>) is the parameter \<open>tantivy_ops\<close>; its errors are text.
\<close>

datatype DocumentError =
    DocIndexError string
  | DocNotFound string
  | QueryError string
  | SchemaError string
  | DocIoError string

fun DocumentError_display :: "DocumentError \<Rightarrow> string" where
  "DocumentError_display (DocIndexError m) = ''Index error: '' @ m"
| "DocumentError_display (DocNotFound i) = ''Document not found: '' @ i"
| "DocumentError_display (QueryError m) = ''Query parse error: '' @ m"
| "DocumentError_display (SchemaError m) = ''Schema error: '' @ m"
| "DocumentError_display (DocIoError m) = ''IO error: '' @ m"

record Document =
  dc_id :: string
  dc_title :: string
  dc_body :: string
  dc_fields :: "string \<rightharpoonup> string"
  dc_metadata :: "string \<rightharpoonup> string"

definition Document_new :: "string \<Rightarrow> string \<Rightarrow> string \<Rightarrow> Document" where
  "Document_new i title body = \<lparr>dc_id = i, dc_title = title, dc_body = body, dc_fields = Map.empty, dc_metadata = Map.empty\<rparr>"

definition Document_with_field :: "Document \<Rightarrow> string \<Rightarrow> string \<Rightarrow> Document" where
  "Document_with_field d k v = d\<lparr>dc_fields := (dc_fields d)(k \<mapsto> v)\<rparr>"

definition Document_with_metadata :: "Document \<Rightarrow> string \<Rightarrow> string \<Rightarrow> Document" where
  "Document_with_metadata d k v = d\<lparr>dc_metadata := (dc_metadata d)(k \<mapsto> v)\<rparr>"

text \<open>
  The index writer: \<open>delete_term\<close> on the id field, \<open>add_document\<close> with the three indexed fields, \<open>commit\<close> with the reload
  of the reader, and the query parser and searcher (ids of the hits).
\<close>

record 'ix tantivy_ops =
  tv_delete_term :: "'ix \<Rightarrow> string \<Rightarrow> 'ix"
  tv_add_document :: "'ix \<Rightarrow> string \<times> string \<times> string \<Rightarrow> (string, 'ix) rresult"
  tv_commit :: "'ix \<Rightarrow> 'ix \<times> (string, unit) rresult"
  tv_search :: "'ix \<Rightarrow> string \<Rightarrow> nat \<Rightarrow> (DocumentError, string list) rresult"

record 'ix TantivyDocumentStore =
  td_index :: 'ix
  td_documents :: "string \<rightharpoonup> Document"

definition doc_index ::
  "'ix tantivy_ops \<Rightarrow> 'ix TantivyDocumentStore \<Rightarrow> Document \<Rightarrow> 'ix TantivyDocumentStore \<times> (DocumentError, unit) rresult" where
  "doc_index tv s doc =
    (let ix = tv_delete_term tv (td_index s) (dc_id doc) in
     case tv_add_document tv ix (dc_id doc, dc_title doc, dc_body doc) of
       Inl e \<Rightarrow> (s\<lparr>td_index := ix\<rparr>, Inl (DocIndexError e))
     | Inr ix \<Rightarrow> (s\<lparr>td_index := ix, td_documents := (td_documents s)(dc_id doc \<mapsto> doc)\<rparr>, Inr ()))"

definition doc_search ::
  "'ix tantivy_ops \<Rightarrow> 'ix TantivyDocumentStore \<Rightarrow> string \<Rightarrow> nat \<Rightarrow> (DocumentError, string list) rresult" where
  "doc_search tv s query limit = tv_search tv (td_index s) query limit"

definition doc_get :: "'ix TantivyDocumentStore \<Rightarrow> string \<Rightarrow> (DocumentError, Document option) rresult" where
  "doc_get s i = Inr (td_documents s i)"

definition doc_delete ::
  "'ix tantivy_ops \<Rightarrow> 'ix TantivyDocumentStore \<Rightarrow> string \<Rightarrow> 'ix TantivyDocumentStore \<times> (DocumentError, unit) rresult" where
  "doc_delete tv s i =
    (s\<lparr>td_index := tv_delete_term tv (td_index s) i, td_documents := (td_documents s)(i := None)\<rparr>, Inr ())"

definition doc_commit ::
  "'ix tantivy_ops \<Rightarrow> 'ix TantivyDocumentStore \<Rightarrow> 'ix TantivyDocumentStore \<times> (DocumentError, unit) rresult" where
  "doc_commit tv s = (case tv_commit tv (td_index s) of (ix, r) \<Rightarrow> (s\<lparr>td_index := ix\<rparr>, map_sum DocIndexError id r))"

interpretation docs: deleting_store "doc_index tv" doc_get dc_id "\<lambda>d. d" td_documents "doc_delete tv" for tv
  by unfold_locales (auto simp: doc_index_def doc_get_def doc_delete_def Let_def split: sum.splits)

lemma doc_commit_documents [simp]: "td_documents (fst (doc_commit tv s)) = td_documents s"
  by (simp add: doc_commit_def split: prod.splits)

end
