(* ===== verification/Spatial_Store.thy ===== *)
theory Spatial_Store
  imports Ranking Keyed_Store
begin

text \<open>
  The spatial modality (\<open>verisim-spatial/src/lib.rs\<close>): validated coordinates, the haversine distance, and the
  in-memory store with its three ranked searches.  \<open>f64\<close> arithmetic is \<open>float_ops\<close>; the hash map is an association list in
  its iteration order.
\<close>

section \<open>Data\<close>

datatype SpatialError =
    SpatialNotFound string
  | InvalidCoordinates string
  | SpatialIndexError string
  | SpatialIoError string

fun SpatialError_display :: "SpatialError \<Rightarrow> string" where
  "SpatialError_display (SpatialNotFound i) = ''Spatial data not found for entity: '' @ i"
| "SpatialError_display (InvalidCoordinates m) = ''Invalid coordinates: '' @ m"
| "SpatialError_display (SpatialIndexError m) = ''Spatial index error: '' @ m"
| "SpatialError_display (SpatialIoError m) = ''Spatial I/O error: '' @ m"

record 'g Coordinates =
  co_latitude :: 'g
  co_longitude :: 'g
  co_altitude :: "'g option"

text \<open>\<open>(-n..=n).contains(&x)\<close>.\<close>

definition in_range :: "'g float_ops \<Rightarrow> int \<Rightarrow> 'g \<Rightarrow> bool" where
  "in_range fo n x \<longleftrightarrow> fo_le fo (fo_lit fo (- n)) x \<and> fo_le fo x (fo_lit fo n)"

definition Coordinates_new :: "'g float_ops \<Rightarrow> 'g \<Rightarrow> 'g \<Rightarrow> 'g option \<Rightarrow> (SpatialError, 'g Coordinates) rresult" where
  "Coordinates_new fo latitude longitude altitude =
    (if \<not> in_range fo 90 latitude
     then Inl (InvalidCoordinates (''Latitude '' @ fo_display fo latitude @ '' out of range [-90, 90]''))
     else if \<not> in_range fo 180 longitude
     then Inl (InvalidCoordinates (''Longitude '' @ fo_display fo longitude @ '' out of range [-180, 180]''))
     else if fo_is_nan fo latitude \<or> fo_is_nan fo longitude
     then Inl (InvalidCoordinates ''Coordinates must not be NaN'')
     else Inr \<lparr>co_latitude = latitude, co_longitude = longitude, co_altitude = altitude\<rparr>)"

definition Coordinates_new_unchecked :: "'g \<Rightarrow> 'g \<Rightarrow> 'g option \<Rightarrow> 'g Coordinates" where
  "Coordinates_new_unchecked latitude longitude altitude =
    \<lparr>co_latitude = latitude, co_longitude = longitude, co_altitude = altitude\<rparr>"

datatype GeometryType = Point | LineString | Polygon | MultiPoint | MultiPolygon

fun GeometryType_display :: "GeometryType \<Rightarrow> string" where
  "GeometryType_display Point = ''Point''"
| "GeometryType_display LineString = ''LineString''"
| "GeometryType_display Polygon = ''Polygon''"
| "GeometryType_display MultiPoint = ''MultiPoint''"
| "GeometryType_display MultiPolygon = ''MultiPolygon''"

record 'g SpatialData =
  sd_coordinates :: "'g Coordinates"
  sd_geometry_type :: GeometryType
  sd_srid :: u32
  sd_properties :: "string \<rightharpoonup> string"

definition SpatialData_point ::
  "'g float_ops \<Rightarrow> 'g \<Rightarrow> 'g \<Rightarrow> 'g option \<Rightarrow> (SpatialError, 'g SpatialData) rresult" where
  "SpatialData_point fo latitude longitude altitude =
    rbind (Coordinates_new fo latitude longitude altitude) (\<lambda>c.
      Inr \<lparr>sd_coordinates = c, sd_geometry_type = Point, sd_srid = 4326, sd_properties = Map.empty\<rparr>)"

definition SpatialData_with_geometry :: "'g Coordinates \<Rightarrow> GeometryType \<Rightarrow> u32 \<Rightarrow> 'g SpatialData" where
  "SpatialData_with_geometry coordinates geometry_type srid =
    \<lparr>sd_coordinates = coordinates, sd_geometry_type = geometry_type, sd_srid = srid, sd_properties = Map.empty\<rparr>"

definition SpatialData_with_property :: "'g SpatialData \<Rightarrow> string \<Rightarrow> string \<Rightarrow> 'g SpatialData" where
  "SpatialData_with_property d k v = d\<lparr>sd_properties := (sd_properties d)(k \<mapsto> v)\<rparr>"

record 'g BoundingBox =
  bb_min_lat :: 'g
  bb_min_lon :: 'g
  bb_max_lat :: 'g
  bb_max_lon :: 'g

record 'g SpatialSearchResult =
  sp_entity_id :: string
  sp_data :: "'g SpatialData"
  sp_distance_km :: 'g

definition haversine_distance :: "'g float_ops \<Rightarrow> 'g Coordinates \<Rightarrow> 'g Coordinates \<Rightarrow> 'g" where
  "haversine_distance fo a b =
    (let two = fo_lit fo 2;
         lat1 = fo_to_radians fo (co_latitude a);
         lat2 = fo_to_radians fo (co_latitude b);
         dlat = fo_to_radians fo (fo_sub fo (co_latitude b) (co_latitude a));
         dlon = fo_to_radians fo (fo_sub fo (co_longitude b) (co_longitude a));
         h = fo_add fo (fo_powi fo (fo_sin fo (fo_div fo dlat two)) 2)
               (fo_mul fo (fo_mul fo (fo_cos fo lat1) (fo_cos fo lat2)) (fo_powi fo (fo_sin fo (fo_div fo dlon two)) 2));
         c = fo_mul fo two (fo_asin fo (fo_sqrt fo h))
     in fo_mul fo (fo_lit fo 6371) c)"

section \<open>Operations\<close>

type_synonym 'g spatial_map = "(string \<times> 'g SpatialData) list"

definition spatial_index ::
  "'g float_ops \<Rightarrow> 'g spatial_map \<Rightarrow> string \<times> 'g SpatialData \<Rightarrow> 'g spatial_map \<times> (SpatialError, unit) rresult" where
  "spatial_index fo s = (\<lambda>(entity_id, data).
    let lat = co_latitude (sd_coordinates data); lon = co_longitude (sd_coordinates data) in
    if \<not> in_range fo 90 lat \<or> \<not> in_range fo 180 lon
    then (s, Inl (InvalidCoordinates (''lat='' @ fo_display fo lat @ '', lon='' @ fo_display fo lon @ '' out of WGS84 range'')))
    else (AList.update entity_id data s, Inr ()))"

definition spatial_get :: "'g spatial_map \<Rightarrow> string \<Rightarrow> (SpatialError, 'g SpatialData option) rresult" where
  "spatial_get s entity_id = Inr (map_of s entity_id)"

definition spatial_delete :: "'g spatial_map \<Rightarrow> string \<Rightarrow> 'g spatial_map \<times> (SpatialError, unit) rresult" where
  "spatial_delete s entity_id = (AList.delete entity_id s, Inr ())"

text \<open>The entries as results, with their distance from a point, and the sort all three searches end with.\<close>

definition located :: "'g float_ops \<Rightarrow> 'g Coordinates \<Rightarrow> 'g spatial_map \<Rightarrow> 'g SpatialSearchResult list" where
  "located fo p s =
    map (\<lambda>(i, data). \<lparr>sp_entity_id = i, sp_data = data, sp_distance_km = haversine_distance fo p (sd_coordinates data)\<rparr>) s"

definition closest :: "'g float_ops \<Rightarrow> nat \<Rightarrow> 'g SpatialSearchResult list \<Rightarrow> 'g SpatialSearchResult list" where
  "closest fo limit results = take limit (stable_sort (\<lambda>a b. \<not> fo_lt fo (sp_distance_km b) (sp_distance_km a)) results)"

definition search_radius ::
  "'g float_ops \<Rightarrow> 'g spatial_map \<Rightarrow> 'g Coordinates \<Rightarrow> 'g \<Rightarrow> nat \<Rightarrow> 'g SpatialSearchResult list" where
  "search_radius fo s center radius_km limit =
    closest fo limit (filter (\<lambda>r. fo_le fo (sp_distance_km r) radius_km) (located fo center s))"

definition in_bounds :: "'g float_ops \<Rightarrow> 'g BoundingBox \<Rightarrow> 'g SpatialData \<Rightarrow> bool" where
  "in_bounds fo bounds data \<longleftrightarrow>
    (let lat = co_latitude (sd_coordinates data); lon = co_longitude (sd_coordinates data)
     in fo_le fo (bb_min_lat bounds) lat \<and> fo_le fo lat (bb_max_lat bounds)
        \<and> fo_le fo (bb_min_lon bounds) lon \<and> fo_le fo lon (bb_max_lon bounds))"

definition bounds_center :: "'g float_ops \<Rightarrow> 'g BoundingBox \<Rightarrow> 'g Coordinates" where
  "bounds_center fo bounds =
    Coordinates_new_unchecked
      (fo_div fo (fo_add fo (bb_min_lat bounds) (bb_max_lat bounds)) (fo_lit fo 2))
      (fo_div fo (fo_add fo (bb_min_lon bounds) (bb_max_lon bounds)) (fo_lit fo 2)) None"

definition search_within :: "'g float_ops \<Rightarrow> 'g spatial_map \<Rightarrow> 'g BoundingBox \<Rightarrow> nat \<Rightarrow> 'g SpatialSearchResult list" where
  "search_within fo s bounds limit =
    closest fo limit (filter (\<lambda>r. in_bounds fo bounds (sp_data r)) (located fo (bounds_center fo bounds) s))"

definition nearest :: "'g float_ops \<Rightarrow> 'g spatial_map \<Rightarrow> 'g Coordinates \<Rightarrow> nat \<Rightarrow> 'g SpatialSearchResult list" where
  "nearest fo s point k = closest fo k (located fo point s)"

section \<open>The contract\<close>

interpretation spat: deleting_store "spatial_index fo" spatial_get fst snd map_of spatial_delete for fo
  by unfold_locales
    (auto simp: spatial_index_def spatial_get_def spatial_delete_def Let_def update_conv' delete_conv' split: if_splits)

section \<open>Searches\<close>

text \<open>The three spatial searches are exact and ranked: the results are entries of the store with their distance,
  within the radius (or the bounds), nearest first, as many as the limit allows, and no entry left out that
  qualifies is closer than one returned (distances being comparable).
\<close>

theorem spatial_searches_best:
  assumes "weak_order (fo_lt fo)"
  shows "best_ranked (\<lambda>a b. \<not> fo_lt fo (sp_distance_km b) (sp_distance_km a)) limit
      (filter (\<lambda>r. fo_le fo (sp_distance_km r) radius) (located fo p s)) (search_radius fo s p radius limit)
    \<and> best_ranked (\<lambda>a b. \<not> fo_lt fo (sp_distance_km b) (sp_distance_km a)) limit
      (filter (\<lambda>r. in_bounds fo bounds (sp_data r)) (located fo (bounds_center fo bounds) s)) (search_within fo s bounds limit)
    \<and> best_ranked (\<lambda>a b. \<not> fo_lt fo (sp_distance_km b) (sp_distance_km a)) limit (located fo p s) (nearest fo s p limit)"
  unfolding search_radius_def search_within_def nearest_def closest_def
  by (intro conjI take_sort_best [OF assms, of sp_distance_km])

definition demo_place :: "int \<Rightarrow> int SpatialData" where
  "demo_place x = SpatialData_with_geometry \<lparr>co_latitude = x, co_longitude = 0, co_altitude = None\<rparr> Point 4326"

theorem spatial_searches_best_witness:
  "length (nearest int_floats [(''a'', demo_place 40), (''b'', demo_place 2)]
      \<lparr>co_latitude = 1, co_longitude = 0, co_altitude = None\<rparr> 1) = 1"
  using spatial_searches_best [OF weak_order_int, where s = "[(''a'', demo_place 40), (''b'', demo_place 2)]" and limit = 1
      and p = "\<lparr>co_latitude = 1, co_longitude = 0, co_altitude = None\<rparr>"]
  by (simp add: best_ranked_def located_def)

text \<open>The store holds no coordinates outside WGS84: every entry passed the range check.\<close>

definition wf_spatial :: "'g float_ops \<Rightarrow> 'g spatial_map \<Rightarrow> bool" where
  "wf_spatial fo s \<longleftrightarrow>
    (\<forall>(i, d) \<in> set s. in_range fo 90 (co_latitude (sd_coordinates d)) \<and> in_range fo 180 (co_longitude (sd_coordinates d)))"

lemma set_update_subset: "set (AList.update k v al) \<subseteq> insert (k, v) (set al)"
  by (induction al) auto

lemma set_delete_subset: "set (AList.delete k al) \<subseteq> set al"
  by (induction al) auto

lemma wf_spatial_index: "wf_spatial fo s \<Longrightarrow> wf_spatial fo (fst (spatial_index fo s (i, d)))"
  using set_update_subset [of i d s] by (auto simp: wf_spatial_def spatial_index_def Let_def)

lemma wf_spatial_delete: "wf_spatial fo s \<Longrightarrow> wf_spatial fo (fst (spatial_delete s i))"
  using set_delete_subset [of i s] by (auto simp: wf_spatial_def spatial_delete_def)

end
