(* ===== verification/Hexad.thy ===== *)
theory Hexad
  imports Graph Vector_Store Tensor_Store Semantic_Store Document_Store Spatial_Store
begin

text \<open>
  The entity type (\<open>verisim-hexad/src/lib.rs\<close>): identifiers, the status of an entity across the eight modalities, the
  input of a create or update, and the builder.  \<open>'f\<close> stands for \<open>f32\<close>, \<open>'g\<close> for \<open>f64\<close>, \<open>'ts\<close> for timestamps.
\<close>

datatype HexadError =
    HexadNotFound string
  | ModalityError string string
  | ConsistencyViolation string
  | ValidationError string

type_synonym HexadId = string

definition trim_end_matches :: "char \<Rightarrow> string \<Rightarrow> string" where
  "trim_end_matches c s = rev (dropWhile (\<lambda>x. x = c) (rev s))"

definition HexadId_to_iri :: "HexadId \<Rightarrow> string \<Rightarrow> string" where
  "HexadId_to_iri i base = trim_end_matches (CHR ''/'') base @ ''/'' @ i"

record ModalityStatus =
  ms_graph :: bool
  ms_vector :: bool
  ms_tensor :: bool
  ms_semantic :: bool
  ms_document :: bool
  ms_temporal :: bool
  ms_provenance :: bool
  ms_spatial :: bool

definition ModalityStatus_default :: ModalityStatus where
  "ModalityStatus_default =
    \<lparr>ms_graph = False, ms_vector = False, ms_tensor = False, ms_semantic = False, ms_document = False,
     ms_temporal = False, ms_provenance = False, ms_spatial = False\<rparr>"

definition is_complete :: "ModalityStatus \<Rightarrow> bool" where
  "is_complete s \<longleftrightarrow> ms_graph s \<and> ms_vector s \<and> ms_tensor s \<and> ms_semantic s \<and> ms_document s \<and> ms_temporal s
    \<and> ms_provenance s \<and> ms_spatial s"

definition missing :: "ModalityStatus \<Rightarrow> string list" where
  "missing s =
    (if \<not> ms_graph s then [''graph''] else []) @ (if \<not> ms_vector s then [''vector''] else [])
    @ (if \<not> ms_tensor s then [''tensor''] else []) @ (if \<not> ms_semantic s then [''semantic''] else [])
    @ (if \<not> ms_document s then [''document''] else []) @ (if \<not> ms_temporal s then [''temporal''] else [])
    @ (if \<not> ms_provenance s then [''provenance''] else []) @ (if \<not> ms_spatial s then [''spatial''] else [])"

lemma is_complete_missing: "is_complete s \<longleftrightarrow> missing s = []"
  by (simp add: is_complete_def missing_def)

record 'ts HexadStatus =
  hx_id :: HexadId
  hx_created_at :: 'ts
  hx_modified_at :: 'ts
  hx_version :: u64
  hx_modality_status :: ModalityStatus

section \<open>Inputs\<close>

record HexadGraphInput =
  gi_relationships :: "(string \<times> string) list"

record 'f HexadVectorInput =
  vi_embedding :: "'f list"
  vi_model :: "string option"

record 'g HexadTensorInput =
  ti_shape :: "u64 list"
  ti_data :: "'g list"

record HexadSemanticInput =
  mi_types :: "string list"
  mi_properties :: "string \<rightharpoonup> string"

record HexadDocumentInput =
  di_title :: string
  di_body :: string
  di_fields :: "string \<rightharpoonup> string"

record HexadProvenanceInput =
  pi_event_type :: string
  pi_actor :: string
  pi_source :: "string option"
  pi_description :: string

record 'g HexadSpatialInput =
  pi_latitude :: 'g
  pi_longitude :: 'g
  pi_altitude :: "'g option"
  pi_geometry_type :: "string option"
  pi_srid :: "u32 option"
  pi_properties :: "string \<rightharpoonup> string"

record ('f, 'g) HexadInput =
  hi_graph :: "HexadGraphInput option"
  hi_vector :: "'f HexadVectorInput option"
  hi_tensor :: "'g HexadTensorInput option"
  hi_semantic :: "HexadSemanticInput option"
  hi_document :: "HexadDocumentInput option"
  hi_provenance :: "HexadProvenanceInput option"
  hi_spatial :: "'g HexadSpatialInput option"
  hi_metadata :: "string \<rightharpoonup> string"

definition HexadInput_default :: "('f, 'g) HexadInput" where
  "HexadInput_default =
    \<lparr>hi_graph = None, hi_vector = None, hi_tensor = None, hi_semantic = None, hi_document = None,
     hi_provenance = None, hi_spatial = None, hi_metadata = Map.empty\<rparr>"

section \<open>The builder\<close>

definition with_relationships :: "(string \<times> string) list \<Rightarrow> ('f, 'g) HexadInput \<Rightarrow> ('f, 'g) HexadInput" where
  "with_relationships relationships input = input\<lparr>hi_graph := Some \<lparr>gi_relationships = relationships\<rparr>\<rparr>"

definition with_embedding :: "'f list \<Rightarrow> ('f, 'g) HexadInput \<Rightarrow> ('f, 'g) HexadInput" where
  "with_embedding embedding input = input\<lparr>hi_vector := Some \<lparr>vi_embedding = embedding, vi_model = None\<rparr>\<rparr>"

definition with_tensor :: "u64 list \<Rightarrow> 'g list \<Rightarrow> ('f, 'g) HexadInput \<Rightarrow> ('f, 'g) HexadInput" where
  "with_tensor shape data input = input\<lparr>hi_tensor := Some \<lparr>ti_shape = shape, ti_data = data\<rparr>\<rparr>"

definition with_types :: "string list \<Rightarrow> ('f, 'g) HexadInput \<Rightarrow> ('f, 'g) HexadInput" where
  "with_types types input =
    (let existing = (case hi_semantic input of Some s \<Rightarrow> s | None \<Rightarrow> \<lparr>mi_types = [], mi_properties = Map.empty\<rparr>)
     in input\<lparr>hi_semantic := Some \<lparr>mi_types = types, mi_properties = mi_properties existing\<rparr>\<rparr>)"

definition with_document :: "string \<Rightarrow> string \<Rightarrow> ('f, 'g) HexadInput \<Rightarrow> ('f, 'g) HexadInput" where
  "with_document title body input =
    input\<lparr>hi_document := Some \<lparr>di_title = title, di_body = body, di_fields = Map.empty\<rparr>\<rparr>"

definition with_provenance :: "string \<Rightarrow> string \<Rightarrow> string \<Rightarrow> ('f, 'g) HexadInput \<Rightarrow> ('f, 'g) HexadInput" where
  "with_provenance event_type actor description input =
    input\<lparr>hi_provenance := Some \<lparr>pi_event_type = event_type, pi_actor = actor, pi_source = None,
      pi_description = description\<rparr>\<rparr>"

definition with_spatial :: "'g \<Rightarrow> 'g \<Rightarrow> ('f, 'g) HexadInput \<Rightarrow> ('f, 'g) HexadInput" where
  "with_spatial latitude longitude input =
    input\<lparr>hi_spatial := Some \<lparr>pi_latitude = latitude, pi_longitude = longitude, pi_altitude = None,
      pi_geometry_type = None, pi_srid = None, pi_properties = Map.empty\<rparr>\<rparr>"

definition with_metadata :: "string \<Rightarrow> string \<Rightarrow> ('f, 'g) HexadInput \<Rightarrow> ('f, 'g) HexadInput" where
  "with_metadata k v input = input\<lparr>hi_metadata := (hi_metadata input)(k \<mapsto> v)\<rparr>"

section \<open>Entities\<close>

record ('f, 'g, 'ts) HexadSnapshot =
  sn_id :: HexadId
  sn_input :: "('f, 'g) HexadInput"
  sn_modality_status :: ModalityStatus
  sn_timestamp :: 'ts

record ('f, 'g, 'ts) Hexad =
  hd_id :: HexadId
  hd_status :: "'ts HexadStatus"
  hd_graph_node :: "GraphNode option"
  hd_embedding :: "'f Embedding option"
  hd_tensor :: "'g Tensor option"
  hd_semantic :: "'g SemanticAnnotation option"
  hd_document :: "Document option"
  hd_version_count :: u64
  hd_provenance_chain_length :: u64
  hd_spatial_data :: "'g SpatialData option"

record HexadConfig =
  hc_base_iri :: string
  hc_vector_dimension :: nat
  hc_require_complete :: bool

definition HexadConfig_default :: HexadConfig where
  "HexadConfig_default =
    \<lparr>hc_base_iri = ''https://verisim.db/entity'', hc_vector_dimension = 384, hc_require_complete = False\<rparr>"

end
