(* ===== verification/Temporal.thy ===== *)
theory Temporal
  imports BTreeMap
begin

text \<open>
  The temporal modality (\<open>verisim-temporal/src/lib.rs\<close>, \<open>diff.rs\<close>): versions, time ranges, the
  in-memory version store with its six queries, the time-series store, and diffs. Instants are
  values of a linearly ordered type; clock readings are arguments. The poisoned-lock error needs a
  panicking writer and is not a step of the model. The locale \<open>temporal_store\<close> is the trait.
\<close>

section \<open>Diffs\<close>

datatype 'd Diff = NoChange 'd | Changed 'd 'd | Added 'd | Removed 'd

fun Diff_has_change :: "'d Diff \<Rightarrow> bool" where
  "Diff_has_change (NoChange v) = False"
| "Diff_has_change _ = True"

fun Diff_new_value :: "'d Diff \<Rightarrow> 'd option" where
  "Diff_new_value (NoChange v) = Some v"
| "Diff_new_value (Changed old new) = Some new"
| "Diff_new_value (Added v) = Some v"
| "Diff_new_value (Removed v) = None"

fun Diff_old_value :: "'d Diff \<Rightarrow> 'd option" where
  "Diff_old_value (NoChange v) = Some v"
| "Diff_old_value (Changed old new) = Some old"
| "Diff_old_value (Added v) = None"
| "Diff_old_value (Removed v) = Some v"

fun Diff_display :: "('d \<Rightarrow> string) \<Rightarrow> 'd Diff \<Rightarrow> string" where
  "Diff_display str (NoChange v) = ''= '' @ str v"
| "Diff_display str (Changed old new) = ''- '' @ str old @ [CHR 0x0A] @ ''+ '' @ str new"
| "Diff_display str (Added v) = ''+ '' @ str v"
| "Diff_display str (Removed v) = ''- '' @ str v"

datatype DiffError = IncomparableValues

fun compare_values :: "'d option \<Rightarrow> 'd option \<Rightarrow> (DiffError, 'd Diff) rresult" where
  "compare_values (Some old_val) (Some new_val) =
    (if old_val = new_val then Inr (NoChange old_val) else Inr (Changed old_val new_val))"
| "compare_values (Some old_val) None = Inr (Removed old_val)"
| "compare_values None (Some new_val) = Inr (Added new_val)"
| "compare_values None None = Inl IncomparableValues"

section \<open>Versions and ranges\<close>

datatype TemporalError =
    EntityNotFound string
  | VersionNotFound string u64
  | InvalidTimeRange string
  | TemporalConflict string
  | LockPoisoned

fun TemporalError_display :: "TemporalError \<Rightarrow> string" where
  "TemporalError_display (EntityNotFound i) = ''Entity not found: '' @ i"
| "TemporalError_display (VersionNotFound i v) = ''Version not found: '' @ i @ '' @ '' @ dec_digits (unat v)"
| "TemporalError_display (InvalidTimeRange m) = ''Invalid time range: '' @ m"
| "TemporalError_display (TemporalConflict m) = ''Conflict: '' @ m"
| "TemporalError_display LockPoisoned = ''Lock poisoned: internal concurrency error''"

record ('ts, 'd) Version =
  ve_version :: u64
  ve_timestamp :: 'ts
  ve_data :: 'd
  ve_author :: string
  ve_message :: "string option"

definition Version_new :: "'ts \<Rightarrow> u64 \<Rightarrow> 'd \<Rightarrow> string \<Rightarrow> ('ts, 'd) Version" where
  "Version_new now version data author =
    \<lparr>ve_version = version, ve_timestamp = now, ve_data = data, ve_author = author, ve_message = None\<rparr>"

definition Version_with_message :: "('ts, 'd) Version \<Rightarrow> string \<Rightarrow> ('ts, 'd) Version" where
  "Version_with_message v message = v\<lparr>ve_message := Some message\<rparr>"

record ('ts, 'v) TimePoint =
  tp_time :: 'ts
  tp_value :: 'v
  tp_labels :: "string \<rightharpoonup> string"

definition TimePoint_new :: "'ts \<Rightarrow> 'v \<Rightarrow> ('ts, 'v) TimePoint" where
  "TimePoint_new time v = \<lparr>tp_time = time, tp_value = v, tp_labels = Map.empty\<rparr>"

definition TimePoint_with_label :: "('ts, 'v) TimePoint \<Rightarrow> string \<Rightarrow> string \<Rightarrow> ('ts, 'v) TimePoint" where
  "TimePoint_with_label p key v = p\<lparr>tp_labels := (tp_labels p)(key \<mapsto> v)\<rparr>"

record 'ts TimeRange =
  tr_start :: 'ts
  tr_end :: 'ts

definition TimeRange_new :: "'ts::linorder \<Rightarrow> 'ts \<Rightarrow> (TemporalError, 'ts TimeRange) rresult" where
  "TimeRange_new start end =
    (if end \<le> start then Inl (InvalidTimeRange ''start must be before end'')
     else Inr \<lparr>tr_start = start, tr_end = end\<rparr>)"

definition TimeRange_contains :: "'ts::linorder TimeRange \<Rightarrow> 'ts \<Rightarrow> bool" where
  "TimeRange_contains r time \<longleftrightarrow> tr_start r \<le> time \<and> time < tr_end r"

section \<open>The version store\<close>

type_synonym ('ts, 'd) VersionHistory = "string \<rightharpoonup> (u64, ('ts, 'd) Version) btree"

abbreviation last_opt :: "'a list \<Rightarrow> 'a option" where
  "last_opt xs \<equiv> (if xs = [] then None else Some (last xs))"

definition vs_append ::
  "'ts \<Rightarrow> ('ts, 'd) VersionHistory \<Rightarrow> string \<Rightarrow> 'd \<Rightarrow> string \<Rightarrow> string option
   \<Rightarrow> ('ts, 'd) VersionHistory \<times> (TemporalError, u64) rresult" where
  "vs_append now store entity_id data author message =
    (let versions = (case store entity_id of Some m \<Rightarrow> m | None \<Rightarrow> []);
         next_version = (case last_opt (map fst versions) of Some v \<Rightarrow> v + 1 | None \<Rightarrow> 1);
         version = Version_new now next_version data author;
         version = (case message of Some msg \<Rightarrow> Version_with_message version msg | None \<Rightarrow> version)
     in (store(entity_id \<mapsto> bt_insert next_version version versions), Inr next_version))"

definition vs_latest :: "('ts, 'd) VersionHistory \<Rightarrow> string \<Rightarrow> (TemporalError, ('ts, 'd) Version option) rresult" where
  "vs_latest store entity_id =
     Inr (Option.bind (store entity_id) (\<lambda>versions. last_opt (map snd versions)))"

definition vs_at_version ::
  "('ts, 'd) VersionHistory \<Rightarrow> string \<Rightarrow> u64 \<Rightarrow> (TemporalError, ('ts, 'd) Version option) rresult" where
  "vs_at_version store entity_id version =
     Inr (Option.bind (store entity_id) (\<lambda>versions. map_of versions version))"

definition vs_at_time ::
  "('ts::linorder, 'd) VersionHistory \<Rightarrow> string \<Rightarrow> 'ts \<Rightarrow> (TemporalError, ('ts, 'd) Version option) rresult" where
  "vs_at_time store entity_id time =
     Inr (Option.bind (store entity_id)
       (\<lambda>versions. last_opt (filter (\<lambda>v. ve_timestamp v \<le> time) (map snd versions))))"

definition vs_in_range ::
  "('ts::linorder, 'd) VersionHistory \<Rightarrow> string \<Rightarrow> 'ts TimeRange \<Rightarrow> (TemporalError, ('ts, 'd) Version list) rresult" where
  "vs_in_range store entity_id r =
     Inr (case store entity_id of
            Some versions \<Rightarrow> filter (\<lambda>v. TimeRange_contains r (ve_timestamp v)) (map snd versions)
          | None \<Rightarrow> [])"

definition vs_history ::
  "('ts, 'd) VersionHistory \<Rightarrow> string \<Rightarrow> nat \<Rightarrow> (TemporalError, ('ts, 'd) Version list) rresult" where
  "vs_history store entity_id limit =
     Inr (case store entity_id of
            Some versions \<Rightarrow> take limit (rev (map snd versions))
          | None \<Rightarrow> [])"

text \<open>The trait's provided methods, over the two lookups.\<close>

definition diff_of ::
  "string \<Rightarrow> (TemporalError, ('ts, 'd) Version option) rresult \<Rightarrow> (TemporalError, ('ts, 'd) Version option) rresult
   \<Rightarrow> (TemporalError, 'd Diff) rresult" where
  "diff_of entity_id r1 r2 =
    rbind r1 (\<lambda>version1. rbind r2 (\<lambda>version2.
      case compare_values (map_option ve_data version1) (map_option ve_data version2) of
        Inr d \<Rightarrow> Inr d
      | Inl _ \<Rightarrow> Inl (EntityNotFound (''No versions to compare for entity '' @ entity_id))))"

definition vs_diff :: "('ts, 'd) VersionHistory \<Rightarrow> string \<Rightarrow> u64 \<Rightarrow> u64 \<Rightarrow> (TemporalError, 'd Diff) rresult" where
  "vs_diff store entity_id v1 v2 =
     diff_of entity_id (vs_at_version store entity_id v1) (vs_at_version store entity_id v2)"

definition vs_diff_time ::
  "('ts::linorder, 'd) VersionHistory \<Rightarrow> string \<Rightarrow> 'ts \<Rightarrow> 'ts \<Rightarrow> (TemporalError, 'd Diff) rresult" where
  "vs_diff_time store entity_id t1 t2 =
     diff_of entity_id (vs_at_time store entity_id t1) (vs_at_time store entity_id t2)"

section \<open>The time-series store\<close>

type_synonym ('ts, 'v) SeriesMap = "string \<rightharpoonup> ('ts, 'v) TimePoint list"

definition ts_append :: "('ts, 'v) SeriesMap \<Rightarrow> string \<Rightarrow> ('ts, 'v) TimePoint \<Rightarrow> ('ts, 'v) SeriesMap" where
  "ts_append store series_id point =
     store(series_id \<mapsto> (case store series_id of Some ps \<Rightarrow> ps | None \<Rightarrow> []) @ [point])"

definition ts_query :: "('ts::linorder, 'v) SeriesMap \<Rightarrow> string \<Rightarrow> 'ts TimeRange \<Rightarrow> ('ts, 'v) TimePoint list" where
  "ts_query store series_id r =
    (case store series_id of
       Some points \<Rightarrow> filter (\<lambda>p. TimeRange_contains r (tp_time p)) points
     | None \<Rightarrow> [])"

definition ts_latest :: "('ts, 'v) SeriesMap \<Rightarrow> string \<Rightarrow> ('ts, 'v) TimePoint option" where
  "ts_latest store series_id = Option.bind (store series_id) (\<lambda>points. last_opt points)"

section \<open>Diffs are faithful\<close>

text \<open>
  A diff tells exactly what changed: comparing fails only when there is nothing on either side;
  otherwise the old and the new value can be read back from the diff, and it reports a change
  exactly when they differ.
\<close>

theorem compare_values_faithful:
  "case compare_values old new of
     Inl e \<Rightarrow> old = None \<and> new = None
   | Inr d \<Rightarrow> Diff_old_value d = old \<and> Diff_new_value d = new \<and> (Diff_has_change d \<longleftrightarrow> old \<noteq> new)"
  by (cases old; cases new) auto

section \<open>The store as a log\<close>

text \<open>The arguments of an append, with its clock reading.\<close>

record ('ts, 'd) version_args =
  va_now :: 'ts
  va_data :: 'd
  va_author :: string
  va_message :: "string option"

definition stamp :: "u64 \<Rightarrow> ('ts, 'd) version_args \<Rightarrow> ('ts, 'd) Version" where
  "stamp n a = \<lparr>ve_version = n, ve_timestamp = va_now a, ve_data = va_data a, ve_author = va_author a,
                ve_message = va_message a\<rparr>"

text \<open>\<open>stamped f k as\<close>: the versions of a list of appends, numbered from \<open>k + 1\<close>.\<close>

fun stamped :: "(u64 \<Rightarrow> 'a \<Rightarrow> 'v) \<Rightarrow> nat \<Rightarrow> 'a list \<Rightarrow> 'v list" where
  "stamped f k [] = []"
| "stamped f k (a # as) = f (of_nat (k + 1)) a # stamped f (k + 1) as"

fun run_appends :: "('s \<Rightarrow> string \<Rightarrow> 'a \<Rightarrow> 's \<times> u64) \<Rightarrow> 's \<Rightarrow> (string \<times> 'a) list \<Rightarrow> 's" where
  "run_appends app s [] = s"
| "run_appends app s ((e, a) # ops) = run_appends app (fst (app s e a)) ops"

definition appends_to :: "string \<Rightarrow> (string \<times> 'a) list \<Rightarrow> 'a list" where
  "appends_to e ops = map snd (filter (\<lambda>(e', a). e' = e) ops)"

lemma appends_to_simps [simp]:
  "appends_to e [] = []" "appends_to e ((e', a) # ops) = (if e' = e then a # appends_to e ops else appends_to e ops)"
  by (simp_all add: appends_to_def)

lemma length_appends_to: "length (appends_to e ops) \<le> length ops"
  by (simp add: appends_to_def)

lemma length_stamped [simp]: "length (stamped f k as) = length as"
  by (induction f k as rule: stamped.induct) auto

lemma nth_stamped: "i < length as \<Longrightarrow> stamped f k as ! i = f (of_nat (k + i + 1)) (as ! i)"
  by (induction f k as arbitrary: i rule: stamped.induct) (auto simp: nth_Cons' less_Suc_eq_0_disj)

locale temporal_store =
  fixes ok :: "'s \<Rightarrow> bool"
    and vlog :: "'s \<Rightarrow> string \<Rightarrow> 'v list"
    and append :: "'s \<Rightarrow> string \<Rightarrow> 'a \<Rightarrow> 's \<times> u64"
    and at_version :: "'s \<Rightarrow> string \<Rightarrow> u64 \<Rightarrow> 'v option"
    and mk :: "u64 \<Rightarrow> 'a \<Rightarrow> 'v"
  assumes append_ok: "ok s \<Longrightarrow> length (vlog s e) + 1 < 2 ^ 64 \<Longrightarrow> ok (fst (append s e a))"
    and append_log: "ok s \<Longrightarrow> length (vlog s e) + 1 < 2 ^ 64 \<Longrightarrow> vlog (fst (append s e a)) x =
      (if x = e then vlog s e @ [mk (of_nat (length (vlog s e) + 1)) a] else vlog s x)"
    and append_number: "ok s \<Longrightarrow> snd (append s e a) = of_nat (length (vlog s e) + 1)"
    and lookup: "ok s \<Longrightarrow> at_version s e n =
      (if 0 < unat n \<and> unat n \<le> length (vlog s e) then Some (vlog s e ! (unat n - 1)) else None)"
begin

lemma run_log:
  assumes "ok s" and "\<And>e. length (vlog s e) + length ops < 2 ^ 64"
  shows "ok (run_appends append s ops) \<and>
    vlog (run_appends append s ops) e = vlog s e @ stamped mk (length (vlog s e)) (appends_to e ops)"
  using assms
proof (induction append\<equiv>append s ops rule: run_appends.induct)
  case (2 s e' a ops)
  have b: "length (vlog s e') + 1 < 2 ^ 64" using "2.prems"(2) [of e'] by simp
  note log = append_log [OF "2.prems"(1) b]
  have "length (vlog (fst (append s e' a)) x) + length ops < 2 ^ 64" for x
    using "2.prems"(2) [of x] by (auto simp: log)
  with "2.hyps" append_ok [OF "2.prems"(1) b] show ?case
    by (auto simp: log)
qed simp

text \<open>What was appended can be read back by its number, and the earlier versions are unchanged.\<close>

lemma append_lookup:
  assumes "ok s" and b: "length (vlog s e) + 1 < 2 ^ 64"
  shows "at_version (fst (append s e a)) e (snd (append s e a)) = Some (mk (snd (append s e a)) a)"
    and "at_version s e n = Some v \<Longrightarrow> at_version (fst (append s e a)) e n = Some v"
proof -
  have u: "unat (of_nat (length (vlog s e) + 1) :: u64) = length (vlog s e) + 1"
    using b by (simp only: unat_of_nat) simp
  show "at_version (fst (append s e a)) e (snd (append s e a)) = Some (mk (snd (append s e a)) a)"
    unfolding lookup [OF append_ok [OF assms]] append_number [OF assms(1)] append_log [OF assms] u by simp
  show "at_version s e n = Some v \<Longrightarrow> at_version (fst (append s e a)) e n = Some v"
    unfolding lookup [OF append_ok [OF assms]] lookup [OF assms(1)] append_log [OF assms]
    by (auto simp: nth_append split: if_splits)
qed

end

section \<open>The in-memory version store implements it\<close>

definition vs_tree :: "('ts, 'd) VersionHistory \<Rightarrow> string \<Rightarrow> (u64, ('ts, 'd) Version) btree" where
  "vs_tree store e = (case store e of Some m \<Rightarrow> m | None \<Rightarrow> [])"

definition vs_log :: "('ts, 'd) VersionHistory \<Rightarrow> string \<Rightarrow> ('ts, 'd) Version list" where
  "vs_log store e = map snd (vs_tree store e)"

definition vs_ok :: "('ts, 'd) VersionHistory \<Rightarrow> bool" where
  "vs_ok store \<longleftrightarrow> (\<forall>e. map fst (vs_tree store e) = map of_nat [1..<length (vs_tree store e) + 1]
     \<and> length (vs_tree store e) < 2 ^ 64)"

definition vs_add :: "('ts, 'd) VersionHistory \<Rightarrow> string \<Rightarrow> ('ts, 'd) version_args \<Rightarrow> ('ts, 'd) VersionHistory \<times> u64" where
  "vs_add store e a =
    (let r = vs_append (va_now a) store e (va_data a) (va_author a) (va_message a) in (fst r, projr (snd r)))"

definition vs_get :: "('ts, 'd) VersionHistory \<Rightarrow> string \<Rightarrow> u64 \<Rightarrow> ('ts, 'd) Version option" where
  "vs_get store e n = projr (vs_at_version store e n)"

lemma vs_next_version:
  assumes "vs_ok store"
  shows "(case last_opt (map fst (vs_tree store e)) of Some v \<Rightarrow> v + 1 | None \<Rightarrow> 1) = of_nat (length (vs_log store e) + 1)"
proof -
  have "last (map of_nat [1..<n + 1]) = (of_nat n :: u64)" if "0 < n" for n
    using that by (simp add: last_map)
  moreover have "map fst (vs_tree store e) = map of_nat [1..<length (vs_tree store e) + 1]"
    using assms by (simp add: vs_ok_def)
  ultimately show ?thesis
    by (cases "vs_tree store e = []") (auto simp: vs_log_def add.commute simp del: upt_Suc)
qed

lemma vs_keys_less:
  assumes "vs_ok store" and "length (vs_log store e) + 1 < 2 ^ 64" and "k \<in> fst ` set (vs_tree store e)"
  shows "k < of_nat (length (vs_log store e) + 1)"
proof -
  have "map fst (vs_tree store e) = map of_nat [1..<length (vs_tree store e) + 1]"
    using assms(1) by (simp add: vs_ok_def)
  then have "set (map fst (vs_tree store e)) = of_nat ` {1..<length (vs_tree store e) + 1}"
    by (metis set_map set_upt)
  with assms(3) obtain i where i: "k = of_nat i" "i < length (vs_log store e) + 1"
    by (auto simp: vs_log_def)
  have "unat (of_nat i :: u64) = i" using i(2) assms(2) by (simp add: unat_of_nat)
  moreover have "unat (of_nat (length (vs_log store e) + 1) :: u64) = length (vs_log store e) + 1"
    using assms(2) by (simp only: unat_of_nat) simp
  ultimately show ?thesis
    using i by (simp only: word_less_nat_alt)
qed

lemma vs_add_eq:
  assumes "vs_ok store"
  shows "vs_add store e a = (store(e \<mapsto> bt_insert (of_nat (length (vs_log store e) + 1))
      (stamp (of_nat (length (vs_log store e) + 1)) a) (vs_tree store e)), of_nat (length (vs_log store e) + 1))"
proof -
  have "(case va_message a of Some msg \<Rightarrow> Version_with_message (Version_new (va_now a) n (va_data a) (va_author a)) msg
      | None \<Rightarrow> Version_new (va_now a) n (va_data a) (va_author a)) = stamp n a" for n
    by (simp add: stamp_def Version_new_def Version_with_message_def split: option.splits)
  then show ?thesis
    unfolding vs_add_def vs_append_def vs_tree_def [symmetric] vs_next_version [OF assms] Let_def by simp
qed

lemma vs_tree_add:
  assumes "vs_ok store" and "length (vs_log store e) + 1 < 2 ^ 64"
  shows "vs_tree (fst (vs_add store e a)) x = (if x = e
     then vs_tree store e @ [(of_nat (length (vs_log store e) + 1), stamp (of_nat (length (vs_log store e) + 1)) a)]
     else vs_tree store x)"
proof -
  have "vs_tree (store(e \<mapsto> m)) x = (if x = e then m else vs_tree store x)" for m
    by (simp add: vs_tree_def)
  moreover have "bt_insert (of_nat (length (vs_log store e) + 1)) v (vs_tree store e)
      = vs_tree store e @ [(of_nat (length (vs_log store e) + 1), v)]" for v
    by (rule bt_insert_greatest) (use vs_keys_less [OF assms] in blast)
  ultimately show ?thesis
    unfolding vs_add_eq [OF assms(1)] fst_conv by presburger
qed

lemma vs_get_nth:
  assumes "vs_ok store"
  shows "vs_get store e n =
    (if 0 < unat n \<and> unat n \<le> length (vs_log store e) then Some (vs_log store e ! (unat n - 1)) else None)"
proof -
  let ?m = "vs_tree store e"
  have keys: "map fst ?m = map of_nat [1..<length ?m + 1]" and len: "length ?m < 2 ^ 64"
    using assms by (auto simp: vs_ok_def)
  have nat: "unat (of_nat i :: u64) = i" if "i \<le> length ?m" for i
    using that len by (simp add: unat_of_nat)
  have get: "vs_get store e n = map_of ?m n"
    by (simp add: vs_get_def vs_at_version_def vs_tree_def split: option.splits)
  show ?thesis
  proof (cases "0 < unat n \<and> unat n \<le> length ?m")
    case True
    then have i: "unat n - 1 < length ?m" by auto
    have "map fst ?m ! (unat n - 1) = of_nat (unat n)"
      unfolding keys using True by (subst nth_map_upt) auto
    then have "?m ! (unat n - 1) = (n, vs_log store e ! (unat n - 1))"
      using i by (simp add: vs_log_def prod_eq_iff)
    then have "(n, vs_log store e ! (unat n - 1)) \<in> set ?m" using i by (metis nth_mem)
    moreover have "distinct (map fst ?m)"
      unfolding keys using nat by (auto simp: distinct_map intro!: inj_onI simp del: upt_Suc) (metis less_Suc_eq_le)
    ultimately show ?thesis
      using True get by (simp add: vs_log_def)
  next
    case False
    have "n \<notin> set (map fst ?m)"
      unfolding keys using False nat by (auto simp del: upt_Suc)
    then have "map_of ?m n = None" by (simp add: map_of_eq_None_iff)
    with False get show ?thesis by (auto simp: vs_log_def)
  qed
qed

interpretation mvs: temporal_store vs_ok vs_log vs_add vs_get stamp
proof unfold_locales
  fix s :: "('a, 'b) VersionHistory" and e x a n
  assume ok: "vs_ok s"
  show "snd (vs_add s e a) = of_nat (length (vs_log s e) + 1)" by (simp add: vs_add_eq [OF ok])
  show "vs_get s e n =
      (if 0 < unat n \<and> unat n \<le> length (vs_log s e) then Some (vs_log s e ! (unat n - 1)) else None)"
    by (rule vs_get_nth [OF ok])
  assume b: "length (vs_log s e) + 1 < 2 ^ 64"
  note tree = vs_tree_add [OF ok b]
  show "vs_ok (fst (vs_add s e a))"
    using ok b unfolding vs_ok_def by (auto simp: tree vs_log_def)
  show "vs_log (fst (vs_add s e a)) x =
      (if x = e then vs_log s e @ [stamp (of_nat (length (vs_log s e) + 1)) a] else vs_log s x)"
    by (simp add: vs_log_def tree)
qed

lemma vs_empty [simp]: "vs_ok Map.empty" "vs_log Map.empty e = []"
  by (simp_all add: vs_ok_def vs_log_def vs_tree_def)

lemma vs_queries:
  "vs_latest store e = Inr (last_opt (vs_log store e))"
  "vs_at_time store e time = Inr (last_opt (filter (\<lambda>v. ve_timestamp v \<le> time) (vs_log store e)))"
  "vs_in_range store e r = Inr (filter (\<lambda>v. TimeRange_contains r (ve_timestamp v)) (vs_log store e))"
  "vs_history store e limit = Inr (take limit (rev (vs_log store e)))"
  "vs_at_version store e n = Inr (vs_get store e n)"
  by (auto simp: vs_latest_def vs_at_time_def vs_in_range_def vs_history_def vs_at_version_def vs_get_def vs_log_def
      vs_tree_def split: option.splits)

text \<open>C40: The version store keeps an append-only history per entity: after any appends, an entity's
  versions are numbered 1, 2, 3, ... in the order of its appends and hold what was appended;
  \<open>latest\<close>, \<open>at_version\<close>, \<open>at_time\<close>, \<open>in_range\<close> and \<open>history\<close> return the last of them, the one
  with that number, the last not after an instant, those in the half-open range in order, and the
  newest ones first.
\<close>

theorem version_store_history:
  assumes "length ops < 2 ^ 64"
    and "store = run_appends vs_add Map.empty ops" and "versions = stamped stamp 0 (appends_to e ops)"
  shows "vs_latest store e = Inr (last_opt versions)
    \<and> vs_at_version store e n =
        Inr (if 0 < unat n \<and> unat n \<le> length versions then Some (versions ! (unat n - 1)) else None)
    \<and> vs_at_time store e time = Inr (last_opt (filter (\<lambda>v. ve_timestamp v \<le> time) versions))
    \<and> vs_in_range store e r =
        Inr (filter (\<lambda>v. tr_start r \<le> ve_timestamp v \<and> ve_timestamp v < tr_end r) versions)
    \<and> vs_history store e limit = Inr (take limit (rev versions))"
proof -
  have ok: "vs_ok store" and log: "vs_log store e = versions"
    using mvs.run_log [OF vs_empty(1), of ops e] assms by simp_all
  show ?thesis
    unfolding vs_queries vs_get_nth [OF ok] log TimeRange_contains_def by simp
qed

theorem version_store_history_witness:
  "\<exists>store :: (nat, string) VersionHistory. vs_latest store ''e'' = Inr (Some (stamp 2 \<lparr>va_now = 9, va_data = ''y'', va_author = ''bob'', va_message = None\<rparr>))
     \<and> vs_at_version store ''e'' 1 = Inr (Some (stamp 1 \<lparr>va_now = 5, va_data = ''x'', va_author = ''al'', va_message = Some ''m''\<rparr>))"
proof -
  let ?a = "\<lparr>va_now = 5 :: nat, va_data = ''x'', va_author = ''al'', va_message = Some ''m''\<rparr>"
  let ?b = "\<lparr>va_now = 9 :: nat, va_data = ''y'', va_author = ''bob'', va_message = None\<rparr>"
  let ?ops = "[(''e'', ?a), (''f'', ?a), (''e'', ?b)]"
  have "length ?ops < 2 ^ 64" by simp
  note h = version_store_history [OF this refl refl, of "''e''" 1]
  have "vs_latest (run_appends vs_add Map.empty ?ops) ''e'' = Inr (Some (stamp 2 ?b))"
    using conjunct1 [OF h] by simp
  moreover have "vs_at_version (run_appends vs_add Map.empty ?ops) ''e'' 1 = Inr (Some (stamp 1 ?a))"
    using conjunct1 [OF conjunct2 [OF h]] by simp
  ultimately show ?thesis by blast
qed

section \<open>Time series\<close>

text \<open>
  A time-series query returns exactly the points of that series whose time lies in the
  half-open range, in the order they were appended, and other series are not affected by an append.
\<close>

theorem time_series_query_exact:
  "ts_query (foldl (\<lambda>s (sid, p). ts_append s sid p) Map.empty points) sid r =
     filter (\<lambda>p. tr_start r \<le> tp_time p \<and> tp_time p < tr_end r) (appends_to sid points)"
proof -
  have "(case foldl (\<lambda>s (sid, p). ts_append s sid p) store points sid of Some ps \<Rightarrow> ps | None \<Rightarrow> []) =
      (case store sid of Some ps \<Rightarrow> ps | None \<Rightarrow> []) @ appends_to sid points" for store
    by (induction points arbitrary: store) (auto simp: ts_append_def split: option.splits)
  from this [of Map.empty] show ?thesis
    by (auto simp: ts_query_def TimeRange_contains_def split: option.splits)
qed

end
