(* ===== verification/Provenance.thy ===== *)
theory Provenance
  imports Prelude "HOL-Library.AList"
begin

text \<open>
  The provenance modality (\<open>verisim-provenance/src/lib.rs\<close>): records linked by hashes, chains with
  \<open>append\<close> and \<open>verify\<close>, and the in-memory store. SHA-256 (crate \<open>sha2\<close>), the JSON text of the
  hashed fields (crate \<open>serde_json\<close>) and the RFC 3339 text of a timestamp (crate \<open>chrono\<close>) are the
  fields of \<open>prov_env\<close>. The locale \<open>provenance_store\<close> is the trait of the same name.
\<close>

section \<open>Records\<close>

datatype ProvenanceEventType =
  Created | Modified | Imported | Normalized | DriftRepaired | Deleted | Merged | Custom string

fun ProvenanceEventType_display :: "ProvenanceEventType \<Rightarrow> string" where
  "ProvenanceEventType_display Created = ''created''"
| "ProvenanceEventType_display Modified = ''modified''"
| "ProvenanceEventType_display Imported = ''imported''"
| "ProvenanceEventType_display Normalized = ''normalized''"
| "ProvenanceEventType_display DriftRepaired = ''drift_repaired''"
| "ProvenanceEventType_display Deleted = ''deleted''"
| "ProvenanceEventType_display Merged = ''merged''"
| "ProvenanceEventType_display (Custom name) = ''custom:'' @ name"

datatype ProvenanceError =
    NotFound string
  | ChainCorrupted string string
  | HashMismatch string nat
  | IoError string

fun ProvenanceError_display :: "ProvenanceError \<Rightarrow> string" where
  "ProvenanceError_display (NotFound i) = ''Provenance chain not found for entity: '' @ i"
| "ProvenanceError_display (ChainCorrupted i reason) = ''Provenance chain corrupted for entity '' @ i @ '': '' @ reason"
| "ProvenanceError_display (HashMismatch i n) = ''Hash mismatch at index '' @ dec_digits n @ '' for entity '' @ i"
| "ProvenanceError_display (IoError m) = ''Provenance I/O error: '' @ m"

record 'ts ProvenanceRecord =
  pr_event_type :: ProvenanceEventType
  pr_actor :: string
  pr_timestamp :: 'ts
  pr_source :: "string option"
  pr_description :: string
  pr_parent_hash :: string
  pr_content_hash :: string

text \<open>The fields that are hashed, in the order of the JSON object.\<close>

type_synonym hashed_fields =
  "ProvenanceEventType \<times> string \<times> string \<times> string option \<times> string \<times> string"

record 'ts prov_env =
  pe_sha256_hex :: "bytes \<Rightarrow> string"
  pe_json :: "hashed_fields \<Rightarrow> bytes"
  pe_rfc3339 :: "'ts \<Rightarrow> string"

definition compute_hash ::
  "'ts prov_env \<Rightarrow> ProvenanceEventType \<Rightarrow> string \<Rightarrow> 'ts \<Rightarrow> string option \<Rightarrow> string \<Rightarrow> string \<Rightarrow> string" where
  "compute_hash env event_type actor timestamp source description parent_hash =
    (let canonical = pe_json env (event_type, actor, pe_rfc3339 env timestamp, source, description, parent_hash)
     in pe_sha256_hex env canonical)"

definition ProvenanceRecord_new ::
  "'ts prov_env \<Rightarrow> 'ts \<Rightarrow> ProvenanceEventType \<Rightarrow> string \<Rightarrow> string option \<Rightarrow> string \<Rightarrow> string
   \<Rightarrow> 'ts ProvenanceRecord" where
  "ProvenanceRecord_new env now event_type actor source description parent_hash =
    (let content_hash = compute_hash env event_type actor now source description parent_hash
     in \<lparr>pr_event_type = event_type, pr_actor = actor, pr_timestamp = now, pr_source = source,
         pr_description = description, pr_parent_hash = parent_hash, pr_content_hash = content_hash\<rparr>)"

definition ProvenanceRecord_verify :: "'ts prov_env \<Rightarrow> 'ts ProvenanceRecord \<Rightarrow> bool" where
  "ProvenanceRecord_verify env r \<longleftrightarrow>
     pr_content_hash r = compute_hash env (pr_event_type r) (pr_actor r) (pr_timestamp r) (pr_source r)
                           (pr_description r) (pr_parent_hash r)"

section \<open>Chains\<close>

record 'ts ProvenanceChain =
  pc_entity_id :: string
  pc_records :: "'ts ProvenanceRecord list"

definition ProvenanceChain_new :: "string \<Rightarrow> 'ts ProvenanceChain" where
  "ProvenanceChain_new entity_id = \<lparr>pc_entity_id = entity_id, pc_records = []\<rparr>"

definition ProvenanceChain_len :: "'ts ProvenanceChain \<Rightarrow> nat" where
  "ProvenanceChain_len c = length (pc_records c)"

definition ProvenanceChain_is_empty :: "'ts ProvenanceChain \<Rightarrow> bool" where
  "ProvenanceChain_is_empty c \<longleftrightarrow> pc_records c = []"

definition genesis_hash :: "'ts prov_env \<Rightarrow> string" where
  "genesis_hash env = pe_sha256_hex env []"

definition parent_mismatch :: "nat \<Rightarrow> string \<Rightarrow> string \<Rightarrow> string" where
  "parent_mismatch i expected got =
     ''Record '' @ dec_digits i @ '' parent_hash mismatch: expected '' @ expected @ '', got '' @ got"

fun verify_loop ::
  "'ts prov_env \<Rightarrow> string \<Rightarrow> nat \<Rightarrow> string \<Rightarrow> 'ts ProvenanceRecord list \<Rightarrow> (ProvenanceError, unit) rresult" where
  "verify_loop env entity i expected_parent [] = Inr ()"
| "verify_loop env entity i expected_parent (r # records) =
    (if pr_parent_hash r \<noteq> expected_parent
     then Inl (ChainCorrupted entity (parent_mismatch i expected_parent (pr_parent_hash r)))
     else if \<not> ProvenanceRecord_verify env r then Inl (HashMismatch entity i)
     else verify_loop env entity (i + 1) (pr_content_hash r) records)"

definition ProvenanceChain_verify :: "'ts prov_env \<Rightarrow> 'ts ProvenanceChain \<Rightarrow> (ProvenanceError, unit) rresult" where
  "ProvenanceChain_verify env c = verify_loop env (pc_entity_id c) 0 (genesis_hash env) (pc_records c)"

definition ProvenanceChain_origin :: "'ts ProvenanceChain \<Rightarrow> 'ts ProvenanceRecord option" where
  "ProvenanceChain_origin c = (case pc_records c of [] \<Rightarrow> None | r # _ \<Rightarrow> Some r)"

definition ProvenanceChain_latest :: "'ts ProvenanceChain \<Rightarrow> 'ts ProvenanceRecord option" where
  "ProvenanceChain_latest c = (if pc_records c = [] then None else Some (last (pc_records c)))"

definition ProvenanceChain_append ::
  "'ts prov_env \<Rightarrow> 'ts \<Rightarrow> 'ts ProvenanceChain \<Rightarrow> ProvenanceEventType \<Rightarrow> string \<Rightarrow> string option \<Rightarrow> string
   \<Rightarrow> 'ts ProvenanceChain" where
  "ProvenanceChain_append env now c event_type actor source description =
    (let parent_hash = (case ProvenanceChain_latest c of Some r \<Rightarrow> pr_content_hash r | None \<Rightarrow> genesis_hash env);
         record = ProvenanceRecord_new env now event_type actor source description parent_hash
     in c\<lparr>pc_records := pc_records c @ [record]\<rparr>)"

section \<open>The in-memory store\<close>

type_synonym 'ts prov_store = "(string \<times> 'ts ProvenanceChain) list"

text \<open>The arguments of an event, with the clock reading of its record.\<close>

record 'ts prov_event =
  ev_now :: 'ts
  ev_event_type :: ProvenanceEventType
  ev_actor :: string
  ev_source :: "string option"
  ev_description :: string

definition prov_record_event ::
  "'ts prov_env \<Rightarrow> 'ts prov_store \<Rightarrow> string \<Rightarrow> 'ts prov_event
   \<Rightarrow> 'ts prov_store \<times> (ProvenanceError, 'ts ProvenanceRecord) rresult" where
  "prov_record_event env store entity_id ev =
    (let chain = (case map_of store entity_id of Some c \<Rightarrow> c | None \<Rightarrow> ProvenanceChain_new entity_id);
         chain = ProvenanceChain_append env (ev_now ev) chain (ev_event_type ev) (ev_actor ev) (ev_source ev)
                   (ev_description ev)
     in (AList.update entity_id chain store, Inr (last (pc_records chain))))"

definition prov_get_chain :: "'ts prov_store \<Rightarrow> string \<Rightarrow> (ProvenanceError, 'ts ProvenanceChain) rresult" where
  "prov_get_chain store entity_id =
    (case map_of store entity_id of Some c \<Rightarrow> Inr c | None \<Rightarrow> Inl (NotFound entity_id))"

definition prov_verify_chain :: "'ts prov_env \<Rightarrow> 'ts prov_store \<Rightarrow> string \<Rightarrow> (ProvenanceError, bool) rresult" where
  "prov_verify_chain env store entity_id =
    (case map_of store entity_id of
       Some chain \<Rightarrow> rbind (ProvenanceChain_verify env chain) (\<lambda>_. Inr True)
     | None \<Rightarrow> Inr False)"

definition prov_get_origin :: "'ts prov_store \<Rightarrow> string \<Rightarrow> 'ts ProvenanceRecord option" where
  "prov_get_origin store entity_id = Option.bind (map_of store entity_id) ProvenanceChain_origin"

definition prov_get_latest :: "'ts prov_store \<Rightarrow> string \<Rightarrow> 'ts ProvenanceRecord option" where
  "prov_get_latest store entity_id = Option.bind (map_of store entity_id) ProvenanceChain_latest"

definition prov_search_by_actor :: "'ts prov_store \<Rightarrow> string \<Rightarrow> (string \<times> 'ts ProvenanceRecord) list" where
  "prov_search_by_actor store actor =
    concat (map (\<lambda>(entity_id, chain). map (\<lambda>r. (entity_id, r)) (filter (\<lambda>r. pr_actor r = actor) (pc_records chain))) store)"

definition prov_delete_chain :: "'ts prov_store \<Rightarrow> string \<Rightarrow> 'ts prov_store" where
  "prov_delete_chain store entity_id = AList.delete entity_id store"

section \<open>Verified chains\<close>

text \<open>The hash the next record must name as its parent.\<close>

definition head_hash :: "'ts prov_env \<Rightarrow> 'ts ProvenanceRecord list \<Rightarrow> string" where
  "head_hash env rs = (if rs = [] then genesis_hash env else pr_content_hash (last rs))"

definition linked :: "'ts prov_env \<Rightarrow> 'ts ProvenanceRecord list \<Rightarrow> bool" where
  "linked env rs \<longleftrightarrow> (\<forall>i < length rs. pr_parent_hash (rs ! i) = head_hash env (take i rs)
     \<and> ProvenanceRecord_verify env (rs ! i))"

lemma linked_Nil [simp]: "linked env []"
  by (simp add: linked_def)

lemma linked_snoc:
  "linked env (rs @ [r]) \<longleftrightarrow> linked env rs \<and> pr_parent_hash r = head_hash env rs \<and> ProvenanceRecord_verify env r"
proof -
  have "(\<forall>i < Suc (length rs). P i) \<longleftrightarrow> (\<forall>i < length rs. P i) \<and> P (length rs)" for P
    by (auto simp: less_Suc_eq)
  then show ?thesis
    by (auto simp: linked_def nth_append)
qed

lemma verify_loop_append:
  "verify_loop env entity i h (xs @ ys) =
     rbind (verify_loop env entity i h xs) (\<lambda>_. verify_loop env entity (i + length xs)
       (if xs = [] then h else pr_content_hash (last xs)) ys)"
  by (induction xs arbitrary: i h) auto

lemma verify_loop_linked: "verify_loop env entity 0 (genesis_hash env) rs = Inr () \<longleftrightarrow> linked env rs"
proof (induction rs rule: rev_induct)
  case (snoc r rs)
  have "verify_loop env entity 0 (genesis_hash env) (rs @ [r]) = Inr () \<longleftrightarrow>
      verify_loop env entity 0 (genesis_hash env) rs = Inr () \<and> pr_parent_hash r = head_hash env rs
      \<and> ProvenanceRecord_verify env r"
    by (auto simp: verify_loop_append rbind_Inr_iff head_hash_def)
  with snoc.IH show ?case by (simp add: linked_snoc)
qed simp

lemma verify_iff_linked: "ProvenanceChain_verify env c = Inr () \<longleftrightarrow> linked env (pc_records c)"
  by (simp add: ProvenanceChain_verify_def verify_loop_linked)

lemma append_records:
  "pc_records (ProvenanceChain_append env now c ty a s d) =
     pc_records c @ [ProvenanceRecord_new env now ty a s d (head_hash env (pc_records c))]"
  by (simp add: ProvenanceChain_append_def ProvenanceChain_latest_def head_hash_def Let_def)

lemma new_record_verifies: "ProvenanceRecord_verify env (ProvenanceRecord_new env now ty a s d h)"
  by (simp add: ProvenanceRecord_verify_def ProvenanceRecord_new_def Let_def)

lemma new_record_parent [simp]: "pr_parent_hash (ProvenanceRecord_new env now ty a s d h) = h"
  by (simp add: ProvenanceRecord_new_def Let_def)

lemma linked_append: "linked env (pc_records c) \<Longrightarrow> linked env (pc_records (ProvenanceChain_append env now c ty a s d))"
  by (simp add: append_records linked_snoc new_record_verifies)

lemma linked_nth:
  "linked env rs \<longleftrightarrow> (\<forall>i < length rs.
     pr_parent_hash (rs ! i) = (if i = 0 then genesis_hash env else pr_content_hash (rs ! (i - 1)))
     \<and> ProvenanceRecord_verify env (rs ! i))"
proof -
  have "head_hash env (take i rs) = (if i = 0 then genesis_hash env else pr_content_hash (rs ! (i - 1)))"
    if "i < length rs" for i
    using that by (auto simp: head_hash_def last_conv_nth)
  then show ?thesis by (simp add: linked_def)
qed

text \<open>\<open>verify\<close> is exact: it accepts a chain when, and only when, every record names the hash of the
  record before it (the genesis hash for the first) and every stored content hash recomputes; and
  an accepted chain is still accepted after \<open>append\<close>, whatever the event.
\<close>

theorem chain_verify_exact:
  "(ProvenanceChain_verify env c = Inr () \<longleftrightarrow>
      (\<forall>i < length (pc_records c).
         pr_parent_hash (pc_records c ! i) = (if i = 0 then genesis_hash env else pr_content_hash (pc_records c ! (i - 1)))
         \<and> ProvenanceRecord_verify env (pc_records c ! i)))
   \<and> (ProvenanceChain_verify env c = Inr () \<longrightarrow>
      ProvenanceChain_verify env (ProvenanceChain_append env now c ty actor src desc) = Inr ())"
  using linked_append [of env c now ty actor src desc] by (simp add: verify_iff_linked linked_nth)

text \<open>A concrete environment: strings hash to themselves, fields are written with their lengths.\<close>

definition enc_string :: "string \<Rightarrow> bytes" where
  "enc_string s = replicate (length s) 1 @ 0 # as_bytes s"

definition enc_option :: "string option \<Rightarrow> bytes" where
  "enc_option x = (case x of None \<Rightarrow> [0] | Some s \<Rightarrow> 1 # enc_string s)"

fun enc_event :: "ProvenanceEventType \<Rightarrow> bytes" where
  "enc_event Created = [0]"
| "enc_event Modified = [1]"
| "enc_event Imported = [2]"
| "enc_event Normalized = [3]"
| "enc_event DriftRepaired = [4]"
| "enc_event Deleted = [5]"
| "enc_event Merged = [6]"
| "enc_event (Custom name) = 7 # enc_string name"

definition demo_prov_env :: "string prov_env" where
  "demo_prov_env = \<lparr>pe_sha256_hex = map char_of_byte,
     pe_json = (\<lambda>(ty, a, ts, s, d, p). enc_event ty @ enc_string a @ enc_string ts @ enc_option s @ enc_string d @ enc_string p),
     pe_rfc3339 = id\<rparr>"

lemma replicate_prefix_eq:
  "replicate m 1 @ (0 :: u8) # x = replicate n 1 @ 0 # y \<Longrightarrow> m = n \<and> x = y"
proof (induction m arbitrary: n)
  case 0
  then show ?case by (cases n) auto
next
  case (Suc m)
  then show ?case by (cases n) auto
qed

lemma enc_string_prefix_free: "enc_string s @ x = enc_string t @ y \<longleftrightarrow> s = t \<and> x = y"
proof
  assume "enc_string s @ x = enc_string t @ y"
  then have "replicate (length s) 1 @ 0 # (as_bytes s @ x) = replicate (length t) 1 @ 0 # (as_bytes t @ y)"
    by (simp add: enc_string_def)
  from replicate_prefix_eq [OF this] show "s = t \<and> x = y" by (auto simp: append_eq_append_conv)
qed simp

lemma enc_option_prefix_free: "enc_option s @ x = enc_option t @ y \<longleftrightarrow> s = t \<and> x = y"
  by (cases s; cases t) (auto simp: enc_option_def enc_string_prefix_free)

lemma enc_event_prefix_free: "enc_event s @ x = enc_event t @ y \<longleftrightarrow> s = t \<and> x = y"
  by (cases s; cases t) (auto simp: enc_string_prefix_free)

lemma demo_prov_env_inj:
  "inj (pe_json demo_prov_env)" "inj (pe_rfc3339 demo_prov_env)" "\<And>f. pe_json demo_prov_env f \<noteq> []"
proof -
  have "enc_string p = enc_string q \<longleftrightarrow> p = q" for p q
    using enc_string_prefix_free [of p "[]" q "[]"] by simp
  then show "inj (pe_json demo_prov_env)"
    by (auto simp: demo_prov_env_def inj_def enc_string_prefix_free enc_option_prefix_free enc_event_prefix_free)
  show "inj (pe_rfc3339 demo_prov_env)" by (simp add: demo_prov_env_def)
  show "pe_json demo_prov_env f \<noteq> []" for f by (cases f) (simp add: demo_prov_env_def enc_string_def)
qed

definition demo_chain :: "string ProvenanceChain" where
  "demo_chain = ProvenanceChain_append demo_prov_env ''t2''
     (ProvenanceChain_append demo_prov_env ''t1'' (ProvenanceChain_new ''e'') Created ''alice'' None ''new'')
     (Custom ''audit'') ''bob'' (Some ''src'') ''checked''"

lemma demo_chain_linked: "linked demo_prov_env (pc_records demo_chain)" "length (pc_records demo_chain) = 2"
  unfolding demo_chain_def
  by (intro linked_append) (simp_all add: ProvenanceChain_new_def append_records)

theorem chain_verify_exact_witness:
  "ProvenanceChain_verify demo_prov_env (ProvenanceChain_append demo_prov_env ''t3'' demo_chain Merged ''bob'' None [])  = Inr ()
   \<and> pr_parent_hash (pc_records demo_chain ! 1) = pr_content_hash (pc_records demo_chain ! 0)"
proof -
  have v: "ProvenanceChain_verify demo_prov_env demo_chain = Inr ()"
    by (simp add: verify_iff_linked demo_chain_linked)
  note * = chain_verify_exact [of demo_prov_env demo_chain "''t3''" Merged "''bob''" None "[]"]
  from conjunct1 [OF *] v demo_chain_linked(2)
  have "pr_parent_hash (pc_records demo_chain ! 1) = pr_content_hash (pc_records demo_chain ! 0)"
    by simp
  with conjunct2 [OF *] v show ?thesis by blast
qed

lemma record_hash:
  "ProvenanceRecord_verify env r \<longleftrightarrow> pr_content_hash r = pe_sha256_hex env (pe_json env
     (pr_event_type r, pr_actor r, pe_rfc3339 env (pr_timestamp r), pr_source r, pr_description r, pr_parent_hash r))"
  by (simp add: ProvenanceRecord_verify_def compute_hash_def)

lemma record_determined:
  assumes "inj (pe_json env)" and "inj (pe_rfc3339 env)" and "inj (pe_sha256_hex env)"
    and "ProvenanceRecord_verify env r1" and "ProvenanceRecord_verify env r2" and eq: "pr_content_hash r1 = pr_content_hash r2"
  shows "r1 = r2"
proof -
  have "(pr_event_type r1, pr_actor r1, pe_rfc3339 env (pr_timestamp r1), pr_source r1, pr_description r1, pr_parent_hash r1)
      = (pr_event_type r2, pr_actor r2, pe_rfc3339 env (pr_timestamp r2), pr_source r2, pr_description r2, pr_parent_hash r2)"
    using assms(4-6) by (auto simp: record_hash inj_eq [OF assms(1)] inj_eq [OF assms(3)])
  with eq show ?thesis
    by (intro ProvenanceRecord.equality) (simp_all add: inj_eq [OF assms(2)])
qed

lemma linked_unique:
  assumes "inj (pe_json env)" and "inj (pe_rfc3339 env)" and "\<And>f. pe_json env f \<noteq> []" and "inj (pe_sha256_hex env)"
    and "linked env rs1" and "linked env rs2" and "head_hash env rs1 = head_hash env rs2"
  shows "rs1 = rs2"
  using assms(5-7)
proof (induction rs1 arbitrary: rs2 rule: rev_induct)
  case Nil
  have "genesis_hash env \<noteq> pr_content_hash r" if "ProvenanceRecord_verify env r" for r
    using that assms(3) [THEN not_sym] by (simp add: record_hash genesis_hash_def inj_eq [OF assms(4)])
  with Nil show ?case
    by (cases rs2 rule: rev_cases) (auto simp: head_hash_def linked_snoc)
next
  case (snoc r1 xs1)
  have "genesis_hash env \<noteq> pr_content_hash r1"
    using snoc.prems(1) assms(3) [THEN not_sym] by (simp add: linked_snoc record_hash genesis_hash_def inj_eq [OF assms(4)])
  then obtain xs2 r2 where rs2: "rs2 = xs2 @ [r2]"
    using snoc.prems(3) by (cases rs2 rule: rev_cases) (auto simp: head_hash_def)
  with snoc.prems have v: "ProvenanceRecord_verify env r1" "ProvenanceRecord_verify env r2"
    and eq: "pr_content_hash r1 = pr_content_hash r2"
    and p: "pr_parent_hash r1 = head_hash env xs1" "pr_parent_hash r2 = head_hash env xs2"
    and l: "linked env xs1" "linked env xs2"
    by (auto simp: linked_snoc head_hash_def)
  have "r1 = r2" by (rule record_determined [OF assms(1,2,4) v eq])
  with snoc.IH [OF l] p rs2 show ?case by simp
qed



section \<open>The store\<close>

datatype 'ev prov_op = Record string 'ev | DeleteChain string

fun run_prov ::
  "('s \<Rightarrow> string \<Rightarrow> 'ev \<Rightarrow> 's \<times> 'r) \<Rightarrow> ('s \<Rightarrow> string \<Rightarrow> 's) \<Rightarrow> 's \<Rightarrow> 'ev prov_op list \<Rightarrow> 's" where
  "run_prov rec del s [] = s"
| "run_prov rec del s (Record e ev # ops) = run_prov rec del (fst (rec s e ev)) ops"
| "run_prov rec del s (DeleteChain e # ops) = run_prov rec del (del s e) ops"

text \<open>The history of one entity that a run should leave: the events since its last deletion.\<close>

fun expected_history :: "('r list \<Rightarrow> 'ev \<Rightarrow> 'r) \<Rightarrow> 'r list \<Rightarrow> string \<Rightarrow> 'ev prov_op list \<Rightarrow> 'r list" where
  "expected_history ext rs e [] = rs"
| "expected_history ext rs e (Record e' ev # ops) =
    expected_history ext (if e' = e then rs @ [ext rs ev] else rs) e ops"
| "expected_history ext rs e (DeleteChain e' # ops) = expected_history ext (if e' = e then [] else rs) e ops"

text \<open>
  What a client of the store relies on: recording an event adds exactly one record, made from the
  event and the history so far, to one entity's history; deleting clears one history.
\<close>

locale provenance_store =
  fixes ok :: "'s \<Rightarrow> bool"
    and history :: "'s \<Rightarrow> string \<Rightarrow> 'r list"
    and record_event :: "'s \<Rightarrow> string \<Rightarrow> 'ev \<Rightarrow> 's \<times> 'r"
    and delete_chain :: "'s \<Rightarrow> string \<Rightarrow> 's"
    and extend :: "'r list \<Rightarrow> 'ev \<Rightarrow> 'r"
  assumes record_ok: "ok s \<Longrightarrow> ok (fst (record_event s e ev))"
    and delete_ok: "ok s \<Longrightarrow> ok (delete_chain s e)"
    and record_history: "ok s \<Longrightarrow> history (fst (record_event s e ev)) x =
      (if x = e then history s e @ [extend (history s e) ev] else history s x)"
    and record_returns: "ok s \<Longrightarrow> snd (record_event s e ev) = extend (history s e) ev"
    and delete_history: "ok s \<Longrightarrow> history (delete_chain s e) x = (if x = e then [] else history s x)"
begin

lemma run_ok: "ok s \<Longrightarrow> ok (run_prov record_event delete_chain s ops)"
  by (induction record_event\<equiv>record_event delete_chain\<equiv>delete_chain s ops rule: run_prov.induct)
     (auto simp: record_ok delete_ok)

lemma run_history:
  "ok s \<Longrightarrow> history (run_prov record_event delete_chain s ops) e = expected_history extend (history s e) e ops"
proof (induction record_event\<equiv>record_event delete_chain\<equiv>delete_chain s ops rule: run_prov.induct)
  case (2 s e' ev ops)
  then show ?case by (auto simp: record_ok record_history)
next
  case (3 s e' ops)
  then show ?case by (auto simp: delete_ok delete_history)
qed simp

end

definition prov_history :: "'ts prov_store \<Rightarrow> string \<Rightarrow> 'ts ProvenanceRecord list" where
  "prov_history store e = (case map_of store e of Some c \<Rightarrow> pc_records c | None \<Rightarrow> [])"

definition event_record :: "'ts prov_env \<Rightarrow> 'ts ProvenanceRecord list \<Rightarrow> 'ts prov_event \<Rightarrow> 'ts ProvenanceRecord" where
  "event_record env rs ev = ProvenanceRecord_new env (ev_now ev) (ev_event_type ev) (ev_actor ev) (ev_source ev)
     (ev_description ev) (head_hash env rs)"

definition prov_store_inv :: "'ts prov_env \<Rightarrow> 'ts prov_store \<Rightarrow> bool" where
  "prov_store_inv env store \<longleftrightarrow> distinct (map fst store) \<and>
     (\<forall>(e, c) \<in> set store. pc_entity_id c = e \<and> pc_records c \<noteq> [] \<and> linked env (pc_records c))"

definition prov_record :: "'ts prov_env \<Rightarrow> 'ts prov_store \<Rightarrow> string \<Rightarrow> 'ts prov_event \<Rightarrow> 'ts prov_store \<times> 'ts ProvenanceRecord" where
  "prov_record env store e ev = (let r = prov_record_event env store e ev in (fst r, projr (snd r)))"

lemma record_event_store:
  "fst (prov_record_event env store e ev) = AList.update e
     (ProvenanceChain_append env (ev_now ev) (case map_of store e of Some c \<Rightarrow> c | None \<Rightarrow> ProvenanceChain_new e)
        (ev_event_type ev) (ev_actor ev) (ev_source ev) (ev_description ev)) store"
  by (simp add: prov_record_event_def Let_def)

lemma record_event_result: "snd (prov_record_event env store e ev) = Inr (event_record env (prov_history store e) ev)"
  by (simp add: prov_record_event_def Let_def append_records event_record_def prov_history_def ProvenanceChain_new_def
      split: option.splits)

lemma set_alist_update: "distinct (map fst xs) \<Longrightarrow> set (AList.update k v xs) = insert (k, v) {p \<in> set xs. fst p \<noteq> k}"
  by (induction xs) (auto simp: image_iff)

lemma append_entity [simp]: "pc_entity_id (ProvenanceChain_append env now c ty a s d) = pc_entity_id c"
  by (simp add: ProvenanceChain_append_def Let_def)

lemma prov_store_inv_record:
  assumes "prov_store_inv env store"
  shows "prov_store_inv env (fst (prov_record_event env store e ev))"
proof -
  let ?c = "case map_of store e of Some c \<Rightarrow> c | None \<Rightarrow> ProvenanceChain_new e"
  have "pc_entity_id ?c = e \<and> linked env (pc_records ?c)"
    using assms by (auto simp: prov_store_inv_def ProvenanceChain_new_def dest!: map_of_SomeD split: option.splits)
  then show ?thesis
    using assms linked_append [of env ?c]
    by (auto simp: prov_store_inv_def record_event_store set_alist_update distinct_update append_records)
qed

lemma prov_store_inv_delete: "prov_store_inv env store \<Longrightarrow> prov_store_inv env (prov_delete_chain store e)"
  unfolding prov_store_inv_def prov_delete_chain_def
  by (auto simp: AList.delete_eq distinct_map_filter)

interpretation mem: provenance_store "prov_store_inv env" prov_history "prov_record env" prov_delete_chain "event_record env" for env
proof unfold_locales
  fix s :: "'a prov_store" and e x ev
  assume ok: "prov_store_inv env s"
  show "prov_store_inv env (fst (prov_record env s e ev))"
    using prov_store_inv_record [OF ok] by (simp add: prov_record_def Let_def)
  show "prov_store_inv env (prov_delete_chain s e)" by (rule prov_store_inv_delete [OF ok])
  show "snd (prov_record env s e ev) = event_record env (prov_history s e) ev"
    by (simp add: prov_record_def Let_def record_event_result)
  show "prov_history (prov_delete_chain s e) x = (if x = e then [] else prov_history s x)"
    by (simp add: prov_history_def prov_delete_chain_def delete_conv')
  show "prov_history (fst (prov_record env s e ev)) x =
      (if x = e then prov_history s e @ [event_record env (prov_history s e) ev] else prov_history s x)"
    by (auto simp: prov_record_def Let_def record_event_store prov_history_def update_conv' append_records event_record_def
        ProvenanceChain_new_def split: option.splits)
qed

abbreviation prov_run :: "'ts prov_env \<Rightarrow> 'ts prov_event prov_op list \<Rightarrow> 'ts prov_store" where
  "prov_run env \<equiv> run_prov (prov_record env) prov_delete_chain []"

lemma prov_store_inv_run: "prov_store_inv env (prov_run env ops)"
  by (rule mem.run_ok) (simp add: prov_store_inv_def)

lemma prov_run_history: "prov_history (prov_run env ops) e = expected_history (event_record env) [] e ops"
  using mem.run_history [of env "[]" ops e] by (simp add: prov_store_inv_def prov_history_def)

lemma prov_lookup:
  assumes "prov_store_inv env store"
  shows "map_of store e = (if prov_history store e = [] then None
    else Some \<lparr>pc_entity_id = e, pc_records = prov_history store e\<rparr>)"
proof (cases "map_of store e")
  case (Some c)
  then have "pc_entity_id c = e" "pc_records c \<noteq> []"
    using assms map_of_SomeD [OF Some] by (auto simp: prov_store_inv_def)
  with Some show ?thesis by (simp add: prov_history_def)
qed (simp add: prov_history_def)

abbreviation trail :: "'ts prov_env \<Rightarrow> string \<Rightarrow> 'ts prov_event prov_op list \<Rightarrow> 'ts ProvenanceRecord list" where
  "trail env e ops \<equiv> expected_history (event_record env) [] e ops"

text \<open>The store keeps every entity's trail: after any sequence of recorded events and deletions, an
  entity's chain holds exactly the records of its events since its last deletion, in order, each
  linked to the one before; \<open>verify_chain\<close> never reports corruption; and \<open>get_chain\<close>, \<open>get_origin\<close>
  and \<open>get_latest\<close> return that chain, its first and its last record.
\<close>

theorem prov_store_keeps_trail:
  "prov_get_chain (prov_run env ops) e =
      (if trail env e ops = [] then Inl (NotFound e) else Inr \<lparr>pc_entity_id = e, pc_records = trail env e ops\<rparr>)
    \<and> prov_verify_chain env (prov_run env ops) e = Inr (trail env e ops \<noteq> [])
    \<and> prov_get_origin (prov_run env ops) e = (if trail env e ops = [] then None else Some (hd (trail env e ops)))
    \<and> prov_get_latest (prov_run env ops) e = (if trail env e ops = [] then None else Some (last (trail env e ops)))"
proof -
  let ?s = "prov_run env ops"
  have inv: "prov_store_inv env ?s" by (rule prov_store_inv_run)
  have h: "prov_history ?s e = trail env e ops" by (rule prov_run_history)
  note look = prov_lookup [OF inv, of e, unfolded h]
  have "linked env (trail env e ops)"
    using inv h by (auto simp: prov_store_inv_def prov_history_def dest!: map_of_SomeD split: option.splits)
  then have "prov_verify_chain env ?s e = Inr (trail env e ops \<noteq> [])"
    using verify_iff_linked [of env "\<lparr>pc_entity_id = e, pc_records = trail env e ops\<rparr>"]
    by (simp add: prov_verify_chain_def look)
  then show ?thesis
    by (auto simp: prov_get_chain_def prov_get_origin_def prov_get_latest_def look ProvenanceChain_origin_def
        ProvenanceChain_latest_def split: list.splits)
qed

text \<open>
  \<open>search_by_actor\<close> finds exactly the records of that actor, over all entities.
\<close>

theorem prov_search_by_actor_exact:
  "set (prov_search_by_actor (prov_run env ops) actor) =
     {(e, r). r \<in> set (expected_history (event_record env) [] e ops) \<and> pr_actor r = actor}"
proof -
  let ?s = "prov_run env ops"
  have inv: "prov_store_inv env ?s" by (rule prov_store_inv_run)
  then have "(\<exists>c. (e, c) \<in> set ?s \<and> r \<in> set (pc_records c)) \<longleftrightarrow> r \<in> set (prov_history ?s e)" for e r
    by (auto simp: prov_store_inv_def prov_history_def map_of_eq_None_iff image_iff dest!: map_of_SomeD split: option.splits)
  then show ?thesis
    unfolding prov_run_history [symmetric] by (fastforce simp: prov_search_by_actor_def)
qed

end
