(* ===== verification/Hexad_Store.thy ===== *)
theory Hexad_Store
  imports Hexad Transaction Wal_Writer Temporal Provenance
begin

text \<open>
  The store of entities (\<open>verisim-hexad/src/store.rs\<close>) on the modality stores the server instantiates it with
  (\<open>ConcreteHexadStore\<close> in \<open>verisim-api/src/lib.rs\<close>): \<open>create\<close>, \<open>update\<close> and \<open>delete\<close>, each a write-ahead intent, a transaction
  with exclusive locks, the modality writes, a commit, the registry and the commit marker; and the reads.  An
  operation runs alone here; clock readings, generated identifiers and the other crates are the records \<open>clock\<close>
  and \<open>hexad_env\<close>.  \<open>'ix\<close> is the document index.
\<close>

section \<open>State and environment\<close>

record ('f, 'g, 'ts, 'ix) hexad_env =
  he_iter :: "uuid list \<Rightarrow> uuid list"
  he_graph_iter :: "TripleKey list \<Rightarrow> TripleKey list"
  he_uuid :: "uuid \<Rightarrow> string"
  he_wal :: "'ts wal_env"
  he_prov :: "'ts prov_env"
  he_f32 :: "'f float_ops"
  he_f64 :: "'g float_ops"
  he_regex :: "string \<Rightarrow> string \<Rightarrow> bool option"
  he_tantivy :: "'ix tantivy_ops"
  he_json :: "('f, 'g) HexadInput \<Rightarrow> bytes option"
  he_to_lowercase :: "string \<Rightarrow> string"
  he_rfc3339 :: "'ts \<Rightarrow> string"

text \<open>The clock readings of one operation, by the place that takes them.\<close>

record 'ts clock =
  ck_now :: 'ts
  ck_wal_intent :: 'ts
  ck_begin :: 'ts
  ck_undo :: "string \<Rightarrow> 'ts"
  ck_annotation :: 'ts
  ck_event :: 'ts
  ck_snapshot :: 'ts
  ck_version :: 'ts
  ck_finish :: 'ts
  ck_wal_marker :: 'ts
  ck_wal_checkpoint :: 'ts
  ck_instants :: "nat \<times> nat \<times> nat"

record ('f, 'g, 'ts, 'ix) hexad_store =
  hs_config :: HexadConfig
  hs_hexads :: "(string \<times> 'ts HexadStatus) list"
  hs_txn :: "'ts TransactionManager"
  hs_wal :: "(wal_fs \<times> WalWriter) option"
  hs_graph :: SimpleGraphStore
  hs_vector :: "'f BruteForceVectorStore"
  hs_document :: "'ix TantivyDocumentStore"
  hs_tensor :: "'g tensor_map"
  hs_semantic :: "'g InMemorySemanticStore"
  hs_temporal :: "('ts, ('f, 'g, 'ts) HexadSnapshot) VersionHistory"
  hs_provenance :: "'ts prov_store"
  hs_spatial :: "'g spatial_map"

definition HexadStore_new ::
  "HexadConfig \<Rightarrow> SimpleGraphStore \<Rightarrow> 'f BruteForceVectorStore \<Rightarrow> 'ix TantivyDocumentStore \<Rightarrow> 'g tensor_map
   \<Rightarrow> 'g InMemorySemanticStore \<Rightarrow> ('ts, ('f, 'g, 'ts) HexadSnapshot) VersionHistory \<Rightarrow> 'ts prov_store \<Rightarrow> 'g spatial_map
   \<Rightarrow> ('f, 'g, 'ts, 'ix) hexad_store" where
  "HexadStore_new config graph vector document tensor semantic temporal provenance spatial =
    \<lparr>hs_config = config, hs_hexads = [], hs_txn = TM_new, hs_wal = None, hs_graph = graph, hs_vector = vector,
     hs_document = document, hs_tensor = tensor, hs_semantic = semantic, hs_temporal = temporal,
     hs_provenance = provenance, hs_spatial = spatial\<rparr>"

section \<open>The write-ahead log\<close>

definition hexad_with_wal ::
  "string \<Rightarrow> nat \<Rightarrow> wal_fs \<Rightarrow> SyncMode \<Rightarrow> ('f, 'g, 'ts, 'ix) hexad_store \<Rightarrow> (HexadError, ('f, 'g, 'ts, 'ix) hexad_store) rresult" where
  "hexad_with_wal utf8 instant fs sync_mode st =
    (case WalWriter_open instant fs sync_mode of
       Inl e \<Rightarrow> Inl (ModalityError ''wal'' (''Failed to open WAL: '' @ WalError_display utf8 e))
     | Inr (fs, w) \<Rightarrow> Inr (st\<lparr>hs_wal := Some (fs, w)\<rparr>))"

definition hexad_wal_append ::
  "('f, 'g, 'ts, 'ix) hexad_env \<Rightarrow> 'ts \<Rightarrow> nat \<Rightarrow> ('f, 'g, 'ts, 'ix) hexad_store \<Rightarrow> WalOperation \<Rightarrow> WalModality
   \<Rightarrow> string \<Rightarrow> bytes \<Rightarrow> ('f, 'g, 'ts, 'ix) hexad_store" where
  "hexad_wal_append env now instant st operation modality entity_id payload =
    (case hs_wal st of
       None \<Rightarrow> st
     | Some (fs, w) \<Rightarrow>
         let entry = \<lparr>we_sequence = 0, we_timestamp = now, we_operation = operation, we_modality = modality,
                      we_entity_id = entity_id, we_payload = payload\<rparr>;
             (fs, w, _) = WalWriter_append (he_wal env) instant fs w entry
         in st\<lparr>hs_wal := Some (fs, w)\<rparr>)"

definition hexad_wal_checkpoint ::
  "('f, 'g, 'ts, 'ix) hexad_env \<Rightarrow> 'ts \<Rightarrow> nat \<Rightarrow> ('f, 'g, 'ts, 'ix) hexad_store \<Rightarrow> ('f, 'g, 'ts, 'ix) hexad_store" where
  "hexad_wal_checkpoint env now instant st =
    (case hs_wal st of
       None \<Rightarrow> st
     | Some (fs, w) \<Rightarrow>
         let (fs, w, _) = WalWriter_checkpoint (he_wal env) now instant fs w
         in st\<lparr>hs_wal := Some (fs, w)\<rparr>)"

section \<open>Writing one modality\<close>

definition process_graph ::
  "('f, 'g, 'ts, 'ix) hexad_store \<Rightarrow> HexadId \<Rightarrow> HexadGraphInput \<Rightarrow> ('f, 'g, 'ts, 'ix) hexad_store \<times> GraphNode" where
  "process_graph st i input =
    (let base = hc_base_iri (hs_config st);
         node = GraphNode_new (HexadId_to_iri i base);
         edge = (\<lambda>(predicate, target_id).
           \<lparr>ge_subject = node, ge_predicate = GraphNode_new (base @ ''/'' @ predicate),
            ge_object = Node (GraphNode_new (base @ ''/'' @ target_id))\<rparr>)
     in (st\<lparr>hs_graph := foldl (\<lambda>g r. graph_insert g (edge r)) (hs_graph st) (gi_relationships input)\<rparr>, node))"

definition process_vector ::
  "('f, 'g, 'ts, 'ix) hexad_store \<Rightarrow> HexadId \<Rightarrow> 'f HexadVectorInput
   \<Rightarrow> ('f, 'g, 'ts, 'ix) hexad_store \<times> (HexadError, 'f Embedding) rresult" where
  "process_vector st i input =
    (let dim = hc_vector_dimension (hs_config st) in
     if length (vi_embedding input) \<noteq> dim
     then (st, Inl (ValidationError (''Vector dimension mismatch: expected '' @ dec_digits dim @ '', got ''
            @ dec_digits (length (vi_embedding input)))))
     else let embedding = Embedding_new i (vi_embedding input)
          in case bf_upsert (hs_vector st) embedding of
               (v, Inl e) \<Rightarrow> (st\<lparr>hs_vector := v\<rparr>, Inl (ModalityError ''vector'' (VectorError_display e)))
             | (v, Inr _) \<Rightarrow> (st\<lparr>hs_vector := v\<rparr>, Inr embedding))"

definition process_document ::
  "('f, 'g, 'ts, 'ix) hexad_env \<Rightarrow> ('f, 'g, 'ts, 'ix) hexad_store \<Rightarrow> HexadId \<Rightarrow> HexadDocumentInput
   \<Rightarrow> ('f, 'g, 'ts, 'ix) hexad_store \<times> (HexadError, Document) rresult" where
  "process_document env st i input =
    (let doc = Document_new i (di_title input) (di_body input);
         doc = doc\<lparr>dc_fields := dc_fields doc ++ di_fields input\<rparr>
     in case doc_index (he_tantivy env) (hs_document st) doc of
          (d, Inl e) \<Rightarrow> (st\<lparr>hs_document := d\<rparr>, Inl (ModalityError ''document'' (DocumentError_display e)))
        | (d, Inr _) \<Rightarrow>
            (case doc_commit (he_tantivy env) d of
               (d, Inl e) \<Rightarrow> (st\<lparr>hs_document := d\<rparr>, Inl (ModalityError ''document'' (DocumentError_display e)))
             | (d, Inr _) \<Rightarrow> (st\<lparr>hs_document := d\<rparr>, Inr doc)))"

definition process_tensor ::
  "('f, 'g, 'ts, 'ix) hexad_store \<Rightarrow> HexadId \<Rightarrow> 'g HexadTensorInput
   \<Rightarrow> ('f, 'g, 'ts, 'ix) hexad_store \<times> (HexadError, 'g Tensor) rresult" where
  "process_tensor st i input =
    (case Tensor_new i (ti_shape input) (ti_data input) of
       Inl e \<Rightarrow> (st, Inl (ModalityError ''tensor'' (TensorError_display e)))
     | Inr tensor \<Rightarrow>
         (case tensor_put (hs_tensor st) tensor of
            (t, Inl e) \<Rightarrow> (st\<lparr>hs_tensor := t\<rparr>, Inl (ModalityError ''tensor'' (TensorError_display e)))
          | (t, Inr _) \<Rightarrow> (st\<lparr>hs_tensor := t\<rparr>, Inr tensor)))"

definition XSD_STRING :: string where
  "XSD_STRING = ''https://www.w3.org/2001/XMLSchema#string''"

definition process_semantic ::
  "('f, 'g, 'ts, 'ix) hexad_env \<Rightarrow> 'ts \<Rightarrow> ('f, 'g, 'ts, 'ix) hexad_store \<Rightarrow> HexadId \<Rightarrow> HexadSemanticInput
   \<Rightarrow> ('f, 'g, 'ts, 'ix) hexad_store \<times> (HexadError, 'g SemanticAnnotation) rresult" where
  "process_semantic env now st i input =
    (let annotation =
       \<lparr>sa_entity_id = i, sa_types = mi_types input,
        sa_properties = (\<lambda>k. map_option (\<lambda>v. TypedLiteral v XSD_STRING) (mi_properties input k)),
        sa_provenance = AnnotationProvenance_default (fo_lit (he_f64 env) 1) (he_rfc3339 env now)\<rparr>
     in case annotate (he_regex env) (hs_semantic st) annotation of
          (s, Inl e) \<Rightarrow> (st\<lparr>hs_semantic := s\<rparr>, Inl (ModalityError ''semantic'' (SemanticError_display e)))
        | (s, Inr _) \<Rightarrow> (st\<lparr>hs_semantic := s\<rparr>, Inr annotation))"

definition event_type_of :: "string \<Rightarrow> ProvenanceEventType" where
  "event_type_of s =
    (if s = ''created'' then Created else if s = ''modified'' then Modified
     else if s = ''imported'' then Imported else if s = ''normalized'' then Normalized
     else if s = ''drift_repaired'' then DriftRepaired else if s = ''deleted'' then Deleted
     else if s = ''merged'' then Merged else Custom s)"

definition process_provenance ::
  "('f, 'g, 'ts, 'ix) hexad_env \<Rightarrow> 'ts \<Rightarrow> ('f, 'g, 'ts, 'ix) hexad_store \<Rightarrow> HexadId \<Rightarrow> HexadProvenanceInput
   \<Rightarrow> ('f, 'g, 'ts, 'ix) hexad_store \<times> (HexadError, u64) rresult" where
  "process_provenance env now st i input =
    (let event = \<lparr>ev_now = now, ev_event_type = event_type_of (he_to_lowercase env (pi_event_type input)),
                  ev_actor = pi_actor input, ev_source = pi_source input, ev_description = pi_description input\<rparr>
     in case prov_record_event (he_prov env) (hs_provenance st) i event of
          (p, Inl e) \<Rightarrow> (st\<lparr>hs_provenance := p\<rparr>, Inl (ModalityError ''provenance'' (ProvenanceError_display e)))
        | (p, Inr _) \<Rightarrow>
            (case prov_get_chain p i of
               Inl e \<Rightarrow> (st\<lparr>hs_provenance := p\<rparr>, Inl (ModalityError ''provenance'' (ProvenanceError_display e)))
             | Inr chain \<Rightarrow> (st\<lparr>hs_provenance := p\<rparr>, Inr (of_nat (ProvenanceChain_len chain)))))"

definition geometry_type_of :: "string option \<Rightarrow> GeometryType" where
  "geometry_type_of s =
    (if s = Some ''LineString'' then LineString else if s = Some ''Polygon'' then Polygon
     else if s = Some ''MultiPoint'' then MultiPoint else if s = Some ''MultiPolygon'' then MultiPolygon else Point)"

definition process_spatial ::
  "('f, 'g, 'ts, 'ix) hexad_env \<Rightarrow> ('f, 'g, 'ts, 'ix) hexad_store \<Rightarrow> HexadId \<Rightarrow> 'g HexadSpatialInput
   \<Rightarrow> ('f, 'g, 'ts, 'ix) hexad_store \<times> (HexadError, 'g SpatialData) rresult" where
  "process_spatial env st i input =
    (case Coordinates_new (he_f64 env) (pi_latitude input) (pi_longitude input) (pi_altitude input) of
       Inl e \<Rightarrow> (st, Inl (ValidationError (SpatialError_display e)))
     | Inr coordinates \<Rightarrow>
         let srid = (case pi_srid input of Some n \<Rightarrow> n | None \<Rightarrow> 4326);
             data = SpatialData_with_geometry coordinates (geometry_type_of (pi_geometry_type input)) srid;
             data = data\<lparr>sd_properties := pi_properties input\<rparr>
         in case spatial_index (he_f64 env) (hs_spatial st) (i, data) of
              (s, Inl e) \<Rightarrow> (st\<lparr>hs_spatial := s\<rparr>, Inl (ModalityError ''spatial'' (SpatialError_display e)))
            | (s, Inr _) \<Rightarrow> (st\<lparr>hs_spatial := s\<rparr>, Inr data))"

definition rollback_create ::
  "('f, 'g, 'ts, 'ix) hexad_env \<Rightarrow> ('f, 'g, 'ts, 'ix) hexad_store \<Rightarrow> HexadId \<Rightarrow> ModalityStatus
   \<Rightarrow> ('f, 'g, 'ts, 'ix) hexad_store" where
  "rollback_create env st i written =
    (let st = (if ms_vector written then st\<lparr>hs_vector := fst (bf_delete (hs_vector st) i)\<rparr> else st);
         st = (if ms_document written then st\<lparr>hs_document := fst (doc_delete (he_tantivy env) (hs_document st) i)\<rparr> else st);
         st = (if ms_tensor written then st\<lparr>hs_tensor := fst (tensor_delete (hs_tensor st) i)\<rparr> else st)
     in st)"

definition create_snapshot ::
  "'ts \<Rightarrow> HexadId \<Rightarrow> ('f, 'g) HexadInput \<Rightarrow> ModalityStatus \<Rightarrow> ('f, 'g, 'ts) HexadSnapshot" where
  "create_snapshot now i input status = \<lparr>sn_id = i, sn_input = input, sn_modality_status = status, sn_timestamp = now\<rparr>"

section \<open>The transaction of one operation\<close>

text \<open>The parts of the entity an operation has written.\<close>

record ('f, 'g) hexad_parts =
  hp_graph_node :: "GraphNode option"
  hp_embedding :: "'f Embedding option"
  hp_document :: "Document option"
  hp_tensor :: "'g Tensor option"
  hp_semantic :: "'g SemanticAnnotation option"
  hp_provenance_chain_length :: u64
  hp_spatial_data :: "'g SpatialData option"

definition no_parts :: "('f, 'g) hexad_parts" where
  "no_parts = \<lparr>hp_graph_node = None, hp_embedding = None, hp_document = None, hp_tensor = None, hp_semantic = None,
     hp_provenance_chain_length = 0, hp_spatial_data = None\<rparr>"

definition modality_names :: "('f, 'g) HexadInput \<Rightarrow> string list" where
  "modality_names input =
    (if hi_graph input \<noteq> None then [''graph''] else []) @ (if hi_vector input \<noteq> None then [''vector''] else [])
    @ (if hi_document input \<noteq> None then [''document''] else []) @ (if hi_tensor input \<noteq> None then [''tensor''] else [])
    @ (if hi_semantic input \<noteq> None then [''semantic''] else [])
    @ (if hi_provenance input \<noteq> None then [''provenance''] else [])
    @ (if hi_spatial input \<noteq> None then [''spatial''] else []) @ [''temporal'']"

definition populated_names :: "ModalityStatus \<Rightarrow> string list" where
  "populated_names s =
    (if ms_graph s then [''graph''] else []) @ (if ms_vector s then [''vector''] else [])
    @ (if ms_document s then [''document''] else []) @ (if ms_tensor s then [''tensor''] else [])
    @ (if ms_semantic s then [''semantic''] else []) @ (if ms_provenance s then [''provenance''] else [])
    @ (if ms_spatial s then [''spatial''] else []) @ [''temporal'']"

fun acquire_all ::
  "(uuid list \<Rightarrow> uuid list) \<Rightarrow> 'ts TransactionManager \<Rightarrow> uuid \<Rightarrow> string \<Rightarrow> string list
   \<Rightarrow> 'ts TransactionManager \<times> (string \<times> TransactionError) option" where
  "acquire_all iter tm t entity_id [] = (tm, None)"
| "acquire_all iter tm t entity_id (modality # rest) =
    (case TM_acquire_lock iter tm t entity_id modality Exclusive of
       (tm, Inl e) \<Rightarrow> (tm, Some (modality, e))
     | (tm, Inr _) \<Rightarrow> acquire_all iter tm t entity_id rest)"

definition txn_rollback ::
  "'ts clock \<Rightarrow> uuid \<Rightarrow> ('f, 'g, 'ts, 'ix) hexad_store \<Rightarrow> ('f, 'g, 'ts, 'ix) hexad_store" where
  "txn_rollback ck t st = st\<lparr>hs_txn := fst (TM_rollback (ck_finish ck) (hs_txn st) t)\<rparr>"

definition txn_record_undo ::
  "'ts clock \<Rightarrow> uuid \<Rightarrow> string \<Rightarrow> u64 \<Rightarrow> string \<Rightarrow> ('f, 'g, 'ts, 'ix) hexad_store \<Rightarrow> ('f, 'g, 'ts, 'ix) hexad_store" where
  "txn_record_undo ck t entity_id version modality st =
    st\<lparr>hs_txn := fst (TM_record_undo (ck_undo ck modality) (hs_txn st) t entity_id modality None version)\<rparr>"

text \<open>
  One modality of an operation: nothing without input; on success the flag, the part and an undo record; on
  failure \<open>abort\<close> (what the operation does before it returns the error).
\<close>

type_synonym ('f, 'g, 'ts, 'ix) progress = "('f, 'g, 'ts, 'ix) hexad_store \<times> ModalityStatus \<times> ('f, 'g) hexad_parts"

definition write_modality ::
  "(('f, 'g, 'ts, 'ix) hexad_store \<Rightarrow> ModalityStatus \<Rightarrow> ('f, 'g, 'ts, 'ix) hexad_store)
   \<Rightarrow> (('f, 'g, 'ts, 'ix) hexad_store \<Rightarrow> ('f, 'g, 'ts, 'ix) hexad_store)
   \<Rightarrow> (('f, 'g, 'ts, 'ix) hexad_store \<Rightarrow> 'i \<Rightarrow> ('f, 'g, 'ts, 'ix) hexad_store \<times> (HexadError, 'o) rresult)
   \<Rightarrow> (ModalityStatus \<Rightarrow> ModalityStatus) \<Rightarrow> ('o \<Rightarrow> ('f, 'g) hexad_parts \<Rightarrow> ('f, 'g) hexad_parts)
   \<Rightarrow> 'i option \<Rightarrow> ('f, 'g, 'ts, 'ix) progress
   \<Rightarrow> (('f, 'g, 'ts, 'ix) hexad_store \<times> HexadError, ('f, 'g, 'ts, 'ix) progress) rresult" where
  "write_modality abort undo process mark keep input = (\<lambda>(st, status, parts).
    case input of
      None \<Rightarrow> Inr (st, status, parts)
    | Some inp \<Rightarrow>
        (case process st inp of
           (st, Inl e) \<Rightarrow> Inl (abort st status, e)
         | (st, Inr out) \<Rightarrow> Inr (undo st, mark status, keep out parts)))"

definition write_modalities ::
  "('f, 'g, 'ts, 'ix) hexad_env \<Rightarrow> 'ts clock \<Rightarrow> uuid \<Rightarrow> HexadId \<Rightarrow> u64
   \<Rightarrow> (('f, 'g, 'ts, 'ix) hexad_store \<Rightarrow> ModalityStatus \<Rightarrow> ('f, 'g, 'ts, 'ix) hexad_store)
   \<Rightarrow> ('f, 'g) HexadInput \<Rightarrow> ('f, 'g, 'ts, 'ix) progress
   \<Rightarrow> (('f, 'g, 'ts, 'ix) hexad_store \<times> HexadError, ('f, 'g, 'ts, 'ix) progress) rresult" where
  "write_modalities env ck t i version abort input p =
    (let undo = txn_record_undo ck t i version in
     rbind (write_modality abort (undo ''graph'') (\<lambda>st inp. apsnd Inr (process_graph st i inp))
       (ms_graph_update (\<lambda>_. True)) (\<lambda>n. hp_graph_node_update (\<lambda>_. Some n)) (hi_graph input) p) (\<lambda>p.
     rbind (write_modality abort (undo ''vector'') (\<lambda>st. process_vector st i)
       (ms_vector_update (\<lambda>_. True)) (\<lambda>e. hp_embedding_update (\<lambda>_. Some e)) (hi_vector input) p) (\<lambda>p.
     rbind (write_modality abort (undo ''document'') (\<lambda>st. process_document env st i)
       (ms_document_update (\<lambda>_. True)) (\<lambda>d. hp_document_update (\<lambda>_. Some d)) (hi_document input) p) (\<lambda>p.
     rbind (write_modality abort (undo ''tensor'') (\<lambda>st. process_tensor st i)
       (ms_tensor_update (\<lambda>_. True)) (\<lambda>x. hp_tensor_update (\<lambda>_. Some x)) (hi_tensor input) p) (\<lambda>p.
     rbind (write_modality abort (undo ''semantic'') (\<lambda>st. process_semantic env (ck_annotation ck) st i)
       (ms_semantic_update (\<lambda>_. True)) (\<lambda>a. hp_semantic_update (\<lambda>_. Some a)) (hi_semantic input) p) (\<lambda>p.
     rbind (write_modality abort (undo ''provenance'') (\<lambda>st. process_provenance env (ck_event ck) st i)
       (ms_provenance_update (\<lambda>_. True)) (\<lambda>n. hp_provenance_chain_length_update (\<lambda>_. n)) (hi_provenance input) p) (\<lambda>p.
     write_modality abort (undo ''spatial'') (\<lambda>st. process_spatial env st i)
       (ms_spatial_update (\<lambda>_. True)) (\<lambda>d. hp_spatial_data_update (\<lambda>_. Some d)) (hi_spatial input) p)))))))"

definition hexad_of ::
  "HexadId \<Rightarrow> 'ts HexadStatus \<Rightarrow> u64 \<Rightarrow> ('f, 'g) hexad_parts \<Rightarrow> ('f, 'g, 'ts) Hexad" where
  "hexad_of i status version_count parts =
    \<lparr>hd_id = i, hd_status = status, hd_graph_node = hp_graph_node parts, hd_embedding = hp_embedding parts,
     hd_tensor = hp_tensor parts, hd_semantic = hp_semantic parts, hd_document = hp_document parts,
     hd_version_count = version_count, hd_provenance_chain_length = hp_provenance_chain_length parts,
     hd_spatial_data = hp_spatial_data parts\<rparr>"

definition wal_committed ::
  "('f, 'g, 'ts, 'ix) hexad_env \<Rightarrow> 'ts clock \<Rightarrow> HexadId \<Rightarrow> ('f, 'g, 'ts, 'ix) hexad_store \<Rightarrow> ('f, 'g, 'ts, 'ix) hexad_store" where
  "wal_committed env ck i st =
    hexad_wal_checkpoint env (ck_wal_checkpoint ck) (snd (snd (ck_instants ck)))
      (hexad_wal_append env (ck_wal_marker ck) (fst (snd (ck_instants ck))) st Checkpoint All i (as_bytes ''COMMITTED''))"

section \<open>Create, update, delete\<close>

definition hexad_create ::
  "('f, 'g, 'ts, 'ix) hexad_env \<Rightarrow> 'ts clock \<Rightarrow> HexadId \<Rightarrow> uuid \<Rightarrow> ('f, 'g, 'ts, 'ix) hexad_store \<Rightarrow> ('f, 'g) HexadInput
   \<Rightarrow> ('f, 'g, 'ts, 'ix) hexad_store \<times> (HexadError, ('f, 'g, 'ts) Hexad) rresult" where
  "hexad_create env ck i fresh st input =
    (let payload = (case he_json env input of Some b \<Rightarrow> b | None \<Rightarrow> []);
         st = hexad_wal_append env (ck_wal_intent ck) (fst (ck_instants ck)) st Insert All i payload;
         (tm, t) = TM_begin fresh (ck_begin ck) (hs_txn st) ReadCommitted
     in case acquire_all (he_iter env) tm t i (modality_names input) of
          (tm, Some (modality, e)) \<Rightarrow>
            (txn_rollback ck t (st\<lparr>hs_txn := tm\<rparr>),
             Inl (ConsistencyViolation (''Failed to acquire lock on '' @ modality @ '': ''
               @ TransactionError_display (he_uuid env) e)))
        | (tm, None) \<Rightarrow>
            let abort = (\<lambda>st status. txn_rollback ck t (rollback_create env st i status)) in
            (case write_modalities env ck t i 0 abort input (st\<lparr>hs_txn := tm\<rparr>, ModalityStatus_default, no_parts) of
               Inl (st, e) \<Rightarrow> (st, Inl e)
             | Inr (st, status, parts) \<Rightarrow>
                 let snapshot = create_snapshot (ck_snapshot ck) i input status in
                 (case vs_append (ck_version ck) (hs_temporal st) i snapshot ''system'' (Some ''Initial creation'') of
                    (h, Inl e) \<Rightarrow>
                      (abort (st\<lparr>hs_temporal := h\<rparr>) status, Inl (ModalityError ''temporal'' (TemporalError_display e)))
                  | (h, Inr version) \<Rightarrow>
                      let st = st\<lparr>hs_temporal := h\<rparr>; status = status\<lparr>ms_temporal := True\<rparr> in
                      (case TM_commit (ck_finish ck) (hs_txn st) t of
                         (tm, Inl e) \<Rightarrow>
                           (rollback_create env (st\<lparr>hs_txn := tm\<rparr>) i status,
                            Inl (ConsistencyViolation (''Transaction commit failed: '' @ TransactionError_display (he_uuid env) e)))
                       | (tm, Inr _) \<Rightarrow>
                           let hs = \<lparr>hx_id = i, hx_created_at = ck_now ck, hx_modified_at = ck_now ck,
                                     hx_version = version, hx_modality_status = status\<rparr>;
                               st = st\<lparr>hs_txn := tm, hs_hexads := AList.update i hs (hs_hexads st)\<rparr>
                           in (wal_committed env ck i st, Inr (hexad_of i hs 1 parts))))))"

definition hexad_update ::
  "('f, 'g, 'ts, 'ix) hexad_env \<Rightarrow> 'ts clock \<Rightarrow> uuid \<Rightarrow> ('f, 'g, 'ts, 'ix) hexad_store \<Rightarrow> HexadId \<Rightarrow> ('f, 'g) HexadInput
   \<Rightarrow> ('f, 'g, 'ts, 'ix) hexad_store \<times> (HexadError, ('f, 'g, 'ts) Hexad) rresult" where
  "hexad_update env ck fresh st i input =
    (case map_of (hs_hexads st) i of
       None \<Rightarrow> (st, Inl (HexadNotFound i))
     | Some existing \<Rightarrow>
         let payload = (case he_json env input of Some b \<Rightarrow> b | None \<Rightarrow> []);
             st = hexad_wal_append env (ck_wal_intent ck) (fst (ck_instants ck)) st Update All i payload;
             (tm, t) = TM_begin fresh (ck_begin ck) (hs_txn st) ReadCommitted
         in case acquire_all (he_iter env) tm t i (modality_names input) of
              (tm, Some (modality, e)) \<Rightarrow>
                (txn_rollback ck t (st\<lparr>hs_txn := tm\<rparr>),
                 Inl (ConsistencyViolation (''Failed to acquire lock on '' @ modality @ '': ''
                   @ TransactionError_display (he_uuid env) e)))
            | (tm, None) \<Rightarrow>
                let abort = (\<lambda>st _. txn_rollback ck t st) in
                (case write_modalities env ck t i (hx_version existing) abort input
                        (st\<lparr>hs_txn := tm\<rparr>, hx_modality_status existing, no_parts) of
                   Inl (st, e) \<Rightarrow> (st, Inl e)
                 | Inr (st, status, parts) \<Rightarrow>
                     let snapshot = create_snapshot (ck_snapshot ck) i input status in
                     (case vs_append (ck_version ck) (hs_temporal st) i snapshot ''system'' (Some ''Update'') of
                        (h, Inl e) \<Rightarrow>
                          (abort (st\<lparr>hs_temporal := h\<rparr>) status, Inl (ModalityError ''temporal'' (TemporalError_display e)))
                      | (h, Inr version) \<Rightarrow>
                          let st = st\<lparr>hs_temporal := h\<rparr> in
                          (case TM_commit (ck_finish ck) (hs_txn st) t of
                             (tm, Inl e) \<Rightarrow>
                               (st\<lparr>hs_txn := tm\<rparr>,
                                Inl (ConsistencyViolation (''Transaction commit failed: '' @ TransactionError_display (he_uuid env) e)))
                           | (tm, Inr _) \<Rightarrow>
                               let hs = \<lparr>hx_id = i, hx_created_at = hx_created_at existing, hx_modified_at = ck_now ck,
                                         hx_version = version, hx_modality_status = status\<rparr>;
                                   st = st\<lparr>hs_txn := tm, hs_hexads := AList.update i hs (hs_hexads st)\<rparr>
                               in (wal_committed env ck i st, Inr (hexad_of i hs version parts))))))"

definition hexad_delete ::
  "('f, 'g, 'ts, 'ix) hexad_env \<Rightarrow> 'ts clock \<Rightarrow> uuid \<Rightarrow> ('f, 'g, 'ts, 'ix) hexad_store \<Rightarrow> HexadId
   \<Rightarrow> ('f, 'g, 'ts, 'ix) hexad_store \<times> (HexadError, unit) rresult" where
  "hexad_delete env ck fresh st i =
    (case map_of (hs_hexads st) i of
       None \<Rightarrow> (st, Inl (HexadNotFound i))
     | Some existing \<Rightarrow>
         let st = hexad_wal_append env (ck_wal_intent ck) (fst (ck_instants ck)) st Delete All i [];
             (tm, t) = TM_begin fresh (ck_begin ck) (hs_txn st) ReadCommitted;
             populated = populated_names (hx_modality_status existing)
         in case acquire_all (he_iter env) tm t i populated of
              (tm, Some (modality, e)) \<Rightarrow>
                (txn_rollback ck t (st\<lparr>hs_txn := tm\<rparr>),
                 Inl (ConsistencyViolation (''Failed to acquire lock on '' @ modality @ '' for delete: ''
                   @ TransactionError_display (he_uuid env) e)))
            | (tm, None) \<Rightarrow>
                let st = foldl (\<lambda>st modality. txn_record_undo ck t i (hx_version existing) modality st) (st\<lparr>hs_txn := tm\<rparr>) populated;
                    st = st\<lparr>hs_vector := fst (bf_delete (hs_vector st) i),
                            hs_document := fst (doc_delete (he_tantivy env) (hs_document st) i),
                            hs_tensor := fst (tensor_delete (hs_tensor st) i)\<rparr>
                in (case TM_commit (ck_finish ck) (hs_txn st) t of
                      (tm, Inl e) \<Rightarrow>
                        (st\<lparr>hs_txn := tm\<rparr>,
                         Inl (ConsistencyViolation (''Transaction commit failed during delete: '' @ TransactionError_display (he_uuid env) e)))
                    | (tm, Inr _) \<Rightarrow>
                        (wal_committed env ck i (st\<lparr>hs_txn := tm, hs_hexads := AList.delete i (hs_hexads st)\<rparr>), Inr ())))"

section \<open>Reads\<close>

definition modality_result :: "string \<Rightarrow> ('e \<Rightarrow> string) \<Rightarrow> ('e, 'a) rresult \<Rightarrow> (HexadError, 'a) rresult" where
  "modality_result modality display r = map_sum (\<lambda>e. ModalityError modality (display e)) id r"

definition load_hexad :: "('f, 'g, 'ts, 'ix) hexad_store \<Rightarrow> HexadId \<Rightarrow> (HexadError, ('f, 'g, 'ts) Hexad option) rresult" where
  "load_hexad st i =
    (case map_of (hs_hexads st) i of
       None \<Rightarrow> Inr None
     | Some status \<Rightarrow>
         let ms = hx_modality_status status;
             graph_node = (if ms_graph ms then Some (GraphNode_new (HexadId_to_iri i (hc_base_iri (hs_config st)))) else None)
         in rbind (if ms_vector ms then modality_result ''vector'' VectorError_display (bf_get (hs_vector st) i) else Inr None) (\<lambda>embedding.
            rbind (if ms_document ms then modality_result ''document'' DocumentError_display (doc_get (hs_document st) i) else Inr None) (\<lambda>document.
            rbind (if ms_tensor ms then modality_result ''tensor'' TensorError_display (tensor_get (hs_tensor st) i) else Inr None) (\<lambda>tensor.
            rbind (if ms_semantic ms then modality_result ''semantic'' SemanticError_display (get_annotations (hs_semantic st) i) else Inr None) (\<lambda>semantic.
            let version_count = (case vs_history (hs_temporal st) i 1000 of Inr h \<Rightarrow> of_nat (length h) | Inl _ \<Rightarrow> 0);
                chain_length = (if ms_provenance ms
                  then (case prov_get_chain (hs_provenance st) i of Inr c \<Rightarrow> of_nat (ProvenanceChain_len c) | Inl _ \<Rightarrow> 0) else 0)
            in rbind (if ms_spatial ms then modality_result ''spatial'' SpatialError_display (spatial_get (hs_spatial st) i) else Inr None) (\<lambda>spatial.
            Inr (Some \<lparr>hd_id = i, hd_status = status, hd_graph_node = graph_node, hd_embedding = embedding, hd_tensor = tensor,
              hd_semantic = semantic, hd_document = document, hd_version_count = version_count,
              hd_provenance_chain_length = chain_length, hd_spatial_data = spatial\<rparr>)))))))"

definition hexad_get :: "('f, 'g, 'ts, 'ix) hexad_store \<Rightarrow> HexadId \<Rightarrow> (HexadError, ('f, 'g, 'ts) Hexad option) rresult" where
  "hexad_get st i = load_hexad st i"

definition hexad_status :: "('f, 'g, 'ts, 'ix) hexad_store \<Rightarrow> HexadId \<Rightarrow> (HexadError, 'ts HexadStatus option) rresult" where
  "hexad_status st i = Inr (map_of (hs_hexads st) i)"

text \<open>The loop that loads the entities of a list of identifiers and skips those that are gone.\<close>

fun load_all :: "('f, 'g, 'ts, 'ix) hexad_store \<Rightarrow> HexadId list \<Rightarrow> (HexadError, ('f, 'g, 'ts) Hexad list) rresult" where
  "load_all st [] = Inr []"
| "load_all st (i # is) =
    rbind (load_hexad st i) (\<lambda>h. rbind (load_all st is) (\<lambda>hs.
      Inr (case h of Some hexad \<Rightarrow> hexad # hs | None \<Rightarrow> hs)))"

definition search_similar ::
  "('f, 'g, 'ts, 'ix) hexad_env \<Rightarrow> ('f, 'g, 'ts, 'ix) hexad_store \<Rightarrow> 'f list \<Rightarrow> nat \<Rightarrow> (HexadError, ('f, 'g, 'ts) Hexad list) rresult" where
  "search_similar env st embedding k =
    rbind (modality_result ''vector'' VectorError_display (bf_search (he_f32 env) (hs_vector st) embedding k)) (\<lambda>results.
      load_all st (map sr_id results))"

definition search_text ::
  "('f, 'g, 'ts, 'ix) hexad_env \<Rightarrow> ('f, 'g, 'ts, 'ix) hexad_store \<Rightarrow> string \<Rightarrow> nat \<Rightarrow> (HexadError, ('f, 'g, 'ts) Hexad list) rresult" where
  "search_text env st query limit =
    rbind (modality_result ''document'' DocumentError_display (doc_search (he_tantivy env) (hs_document st) query limit))
      (load_all st)"

definition query_related ::
  "('f, 'g, 'ts, 'ix) hexad_env \<Rightarrow> ('f, 'g, 'ts, 'ix) hexad_store \<Rightarrow> HexadId \<Rightarrow> string \<Rightarrow> (HexadError, ('f, 'g, 'ts) Hexad list) rresult" where
  "query_related env st i predicate =
    (let base = hc_base_iri (hs_config st);
         node = GraphNode_new (HexadId_to_iri i base);
         predicate_iri = base @ ''/'' @ predicate;
         target = (\<lambda>edge.
           if gn_iri (ge_predicate edge) = predicate_iri
           then (case ge_object edge of
                   Node t \<Rightarrow> Some (case strip_prefix (base @ ''/'') (gn_iri t) of Some x \<Rightarrow> x | None \<Rightarrow> gn_iri t)
                 | Literal _ _ \<Rightarrow> None)
           else None)
     in load_all st (List.map_filter target (graph_outgoing (he_graph_iter env) (hs_graph st) node)))"

definition hexad_list :: "('f, 'g, 'ts, 'ix) hexad_store \<Rightarrow> nat \<Rightarrow> nat \<Rightarrow> (HexadError, ('f, 'g, 'ts) Hexad list) rresult" where
  "hexad_list st limit offset = load_all st (take limit (drop offset (map fst (hs_hexads st))))"

definition hexad_at_time ::
  "('f, 'g, 'ts::linorder, 'ix) hexad_store \<Rightarrow> HexadId \<Rightarrow> 'ts \<Rightarrow> (HexadError, ('f, 'g, 'ts) Hexad option) rresult" where
  "hexad_at_time st i time =
    rbind (modality_result ''temporal'' TemporalError_display (vs_at_time (hs_temporal st) i time)) (\<lambda>version.
      case version of
        None \<Rightarrow> Inr None
      | Some v \<Rightarrow>
          rbind (load_hexad st i) (\<lambda>hexad.
            Inr (map_option (\<lambda>h. h\<lparr>hd_status := (hd_status h)\<lparr>hx_version := ve_version v, hx_modified_at := ve_timestamp v\<rparr>\<rparr>) hexad)))"

end
