(* ===== verification/Hexad_Txn.thy ===== *)
theory Hexad_Txn
  imports Hexad_Store
begin

text \<open>
  What an operation of the hexad store does to the transaction manager: between \<open>begin\<close> and the commit or the
  rollback it only adds locks and undo records of its own transaction (\<open>working\<close>), and afterwards every lock is back
  with the holders it had (\<open>settled\<close>).
\<close>

definition working :: "'ts TransactionManager \<Rightarrow> uuid \<Rightarrow> 'ts TransactionManager \<Rightarrow> bool" where
  "working tm0 t tm \<longleftrightarrow> tm_inv tm
    \<and> (\<exists>txn. txn_of tm t = Some txn \<and> tx_state txn = Active \<and> tx_isolation_level txn = ReadCommitted)
    \<and> (\<forall>u. u \<noteq> t \<longrightarrow> txn_of tm u = txn_of tm0 u)
    \<and> (\<forall>key. filter (\<lambda>h. li_holder h \<noteq> t) (holders_of (tm_lock_table tm) key) = holders_of (tm_lock_table tm0) key)"

definition settled :: "'ts TransactionManager \<Rightarrow> uuid \<Rightarrow> TransactionState \<Rightarrow> 'ts TransactionManager \<Rightarrow> bool" where
  "settled tm0 t s tm \<longleftrightarrow> tm_inv tm \<and> TM_get_transaction_state tm t = Some s
    \<and> (\<forall>u. u \<noteq> t \<longrightarrow> txn_of tm u = txn_of tm0 u)
    \<and> (\<forall>key. holders_of (tm_lock_table tm) key = holders_of (tm_lock_table tm0) key)"

lemma fresh_holds_nothing:
  assumes "tm_inv tm" and "txn_of tm t = None"
  shows "filter (\<lambda>h. li_holder h \<noteq> t) (holders_of (tm_lock_table tm) key) = holders_of (tm_lock_table tm) key"
proof -
  have "\<forall>h \<in> set (holders_of (tm_lock_table tm) key). txn_of tm (li_holder h) \<noteq> None"
    using assms(1) unfolding tm_inv_def by (metis option.distinct(1))
  with assms(2) show ?thesis by (fastforce simp: filter_id_conv)
qed

lemma working_begin:
  assumes "tm_inv tm" and "txn_of tm t = None" and "TM_begin t now tm ReadCommitted = (tm', u)"
  shows "u = t \<and> working tm t tm'"
  using assms fresh_holds_nothing [OF assms(1,2)]
  by (auto simp: working_def TM_begin_def Transaction_new_def Let_def intro!: tm_inv_put)

lemma others_acquire:
  assumes "LockTable_acquire iter lt t e m ty = (lt', r)"
  shows "filter (\<lambda>h. li_holder h \<noteq> t) (holders_of lt' key) = filter (\<lambda>h. li_holder h \<noteq> t) (holders_of lt key)"
  using assms refl refl
proof (cases rule: acquire_locks)
  case error
  then show ?thesis using holders_of_cong by metis
next
  case granted
  then show ?thesis by (simp add: holders_of_grant)
qed simp

lemma working_acquire:
  assumes "working tm0 t tm" and "TM_acquire_lock iter tm t e m ty = (tm', r)"
  shows "working tm0 t tm'"
proof -
  obtain lt r' where acq: "LockTable_acquire iter (tm_lock_table tm) t e m ty = (lt, r')" by fastforce
  have "tm_inv tm'" using tm_inv_step [of tm iter "AcquireLock t e m ty"] assms by (simp add: working_def)
  moreover have "\<exists>txn. txn_of tm' t = Some txn \<and> tx_state txn = Active \<and> tx_isolation_level txn = ReadCommitted"
    and "\<forall>u. u \<noteq> t \<longrightarrow> txn_of tm' u = txn_of tm0 u"
    using assms acq
    by (auto simp: working_def TM_acquire_lock_def TM_note_lock_def TM_active_def
        split: if_splits sum.splits option.splits)
  moreover have "tm_lock_table tm' = lt \<or> tm_lock_table tm' = tm_lock_table tm"
    using assms acq by (auto simp: TM_acquire_lock_def split: if_splits sum.splits)
  then have "\<forall>key. filter (\<lambda>h. li_holder h \<noteq> t) (holders_of (tm_lock_table tm') key) = holders_of (tm_lock_table tm0) key"
    using assms(1) others_acquire [OF acq] unfolding working_def by metis
  ultimately show ?thesis by (simp add: working_def)
qed

lemma working_acquire_all:
  assumes "working tm0 t tm" and "acquire_all iter tm t e ms = (tm', r)"
  shows "working tm0 t tm'"
  using assms
proof (induction ms arbitrary: tm)
  case (Cons m ms)
  obtain tm1 r1 where acq: "TM_acquire_lock iter tm t e m Exclusive = (tm1, r1)" by fastforce
  from Cons.prems(1) acq have w: "working tm0 t tm1" by (rule working_acquire)
  from Cons.prems(2) acq show ?case
    using w Cons.IH [OF w] by (cases r1) auto
qed simp

lemma working_undo:
  assumes "working tm0 t tm"
  shows "working tm0 t (fst (TM_record_undo now tm t e m d v))"
proof -
  have "tm_inv (fst (TM_record_undo now tm t e m d v))"
    using tm_inv_step [of tm id "RecordUndo now t e m d v"] assms by (simp add: working_def)
  with assms show ?thesis
    by (auto simp: working_def TM_record_undo_def TM_active_def split: sum.splits option.splits)
qed

lemma working_active: "working tm0 t tm \<Longrightarrow> \<exists>txn. TM_active tm t = Inr txn \<and> tx_isolation_level txn = ReadCommitted"
  by (auto simp: working_def TM_active_def)

lemma settled_rollback:
  assumes "working tm0 t tm"
  shows "settled tm0 t RolledBack (fst (TM_rollback now tm t))"
proof -
  have "tm_inv (fst (TM_rollback now tm t))"
    using tm_inv_step [of tm id "Rollback now t"] assms by (simp add: working_def)
  then show ?thesis using assms working_active [OF assms]
    by (auto simp: settled_def working_def TM_rollback_def TM_get_transaction_state_def holders_release)
qed

lemma settled_commit:
  assumes "working tm0 t tm"
  shows "\<exists>tm'. TM_commit now tm t = (tm', Inr ()) \<and> settled tm0 t Committed tm'"
proof -
  have "tm_inv (fst (TM_commit now tm t))"
    using tm_inv_step [of tm id "Commit now t"] assms by (simp add: working_def)
  then show ?thesis using assms working_active [OF assms]
    by (auto simp: settled_def working_def TM_commit_def TM_get_transaction_state_def holders_release)
qed

section \<open>Locks are free between operations\<close>

definition no_locks :: "'ts TransactionManager \<Rightarrow> bool" where
  "no_locks tm \<longleftrightarrow> (\<forall>key. holders_of (tm_lock_table tm) key = [])"

lemma acquire_all_free:
  assumes "working tm0 t tm" and "\<forall>key. \<forall>h \<in> set (holders_of (tm_lock_table tm) key). h = \<lparr>li_holder = t, li_lock_type = Exclusive\<rparr>"
    and "set ms \<subseteq> set MODALITIES"
  shows "\<exists>tm'. acquire_all iter tm t e ms = (tm', None)"
  using assms
proof (induction ms arbitrary: tm)
  case (Cons m ms)
  let ?key = "\<lparr>lk_entity_id = e, lk_modality = m\<rparr>"
  obtain tm1 r1 where acq: "TM_acquire_lock iter tm t e m Exclusive = (tm1, r1)" by fastforce
  obtain lt r where lt: "LockTable_acquire iter (tm_lock_table tm) t e m Exclusive = (lt, r)" by fastforce
  obtain txn where active: "TM_active tm t = Inr txn" using working_active [OF Cons.prems(1)] by blast
  have hs: "\<forall>h \<in> set (holders_of (tm_lock_table tm) ?key). h = \<lparr>li_holder = t, li_lock_type = Exclusive\<rparr>"
    using Cons.prems(2) by blast
  then have act: "acquire_action t Exclusive (holders_of (tm_lock_table tm) ?key) (holders_of (tm_lock_table tm) ?key) \<in> {AlreadyHeld, Grant}"
    by (cases "holders_of (tm_lock_table tm) ?key") auto
  then have ok: "r = Inr ()"
    using lt by (auto simp: LockTable_acquire_def Let_def holders_of_def split: AcquireAction.splits option.splits)
  have "\<forall>h \<in> set (holders_of lt key). h = \<lparr>li_holder = t, li_lock_type = Exclusive\<rparr>" for key
    using lt refl refl
  proof (cases rule: acquire_locks)
    case granted
    then show ?thesis using Cons.prems(2) by (auto simp: holders_of_grant)
  qed (use Cons.prems(2) ok in auto)
  moreover have "tm_lock_table tm1 = lt" and r1: "r1 = Inr ()"
    using acq lt ok active Cons.prems(3) by (auto simp: TM_acquire_lock_def)
  ultimately have free: "\<forall>key. \<forall>h \<in> set (holders_of (tm_lock_table tm1) key). h = \<lparr>li_holder = t, li_lock_type = Exclusive\<rparr>"
    by simp
  have "\<exists>tm'. acquire_all iter tm1 t e ms = (tm', None)"
    using Cons.IH [OF working_acquire [OF Cons.prems(1) acq] free] Cons.prems(3) by simp
  with acq r1 show ?case by simp
qed simp

lemma begin_holders: "TM_begin t now tm lvl = (tm', u) \<Longrightarrow> holders_of (tm_lock_table tm') = holders_of (tm_lock_table tm)"
  by (auto simp: TM_begin_def Let_def)

lemma names_are_modalities: "set (modality_names input) \<subseteq> set MODALITIES" "set (populated_names s) \<subseteq> set MODALITIES"
  by (auto simp: modality_names_def populated_names_def MODALITIES_def)

end
