(* ===== verification/Hexad_Steps.thy ===== *)
theory Hexad_Steps
  imports Hexad_Txn
begin

text \<open>
  The modality writes of one operation as a labelled step relation: \<open>modality_written\<close> is a write that succeeds,
  \<open>modality_failed\<close> one that does not, and \<open>writes\<close> a sequence of successes.  \<open>write_modalities\<close> either runs through the
  modalities of the input or stops at the first failure (\<open>write_modalities_outcome\<close>); what the steps do to the stores is
  shown by rule induction.
\<close>

section \<open>Steps\<close>

inductive modality_written ::
  "('f, 'g, 'ts, 'ix) hexad_env \<Rightarrow> 'ts clock \<Rightarrow> uuid \<Rightarrow> HexadId \<Rightarrow> u64 \<Rightarrow> ('f, 'g) HexadInput \<Rightarrow> string
   \<Rightarrow> ('f, 'g, 'ts, 'ix) progress \<Rightarrow> ('f, 'g, 'ts, 'ix) progress \<Rightarrow> bool"
  for env :: "('f, 'g, 'ts, 'ix) hexad_env" and ck t i version input
where
  graph: "hi_graph input = Some inp \<Longrightarrow> process_graph st i inp = (st', n) \<Longrightarrow>
    modality_written env ck t i version input ''graph'' (st, s, p)
      (txn_record_undo ck t i version ''graph'' st', s\<lparr>ms_graph := True\<rparr>, p\<lparr>hp_graph_node := Some n\<rparr>)"
| vector: "hi_vector input = Some inp \<Longrightarrow> process_vector st i inp = (st', Inr x) \<Longrightarrow>
    modality_written env ck t i version input ''vector'' (st, s, p)
      (txn_record_undo ck t i version ''vector'' st', s\<lparr>ms_vector := True\<rparr>, p\<lparr>hp_embedding := Some x\<rparr>)"
| document: "hi_document input = Some inp \<Longrightarrow> process_document env st i inp = (st', Inr d) \<Longrightarrow>
    modality_written env ck t i version input ''document'' (st, s, p)
      (txn_record_undo ck t i version ''document'' st', s\<lparr>ms_document := True\<rparr>, p\<lparr>hp_document := Some d\<rparr>)"
| tensor: "hi_tensor input = Some inp \<Longrightarrow> process_tensor st i inp = (st', Inr x) \<Longrightarrow>
    modality_written env ck t i version input ''tensor'' (st, s, p)
      (txn_record_undo ck t i version ''tensor'' st', s\<lparr>ms_tensor := True\<rparr>, p\<lparr>hp_tensor := Some x\<rparr>)"
| semantic: "hi_semantic input = Some inp \<Longrightarrow> process_semantic env (ck_annotation ck) st i inp = (st', Inr a) \<Longrightarrow>
    modality_written env ck t i version input ''semantic'' (st, s, p)
      (txn_record_undo ck t i version ''semantic'' st', s\<lparr>ms_semantic := True\<rparr>, p\<lparr>hp_semantic := Some a\<rparr>)"
| provenance: "hi_provenance input = Some inp \<Longrightarrow> process_provenance env (ck_event ck) st i inp = (st', Inr len) \<Longrightarrow>
    modality_written env ck t i version input ''provenance'' (st, s, p)
      (txn_record_undo ck t i version ''provenance'' st', s\<lparr>ms_provenance := True\<rparr>, p\<lparr>hp_provenance_chain_length := len\<rparr>)"
| spatial: "hi_spatial input = Some inp \<Longrightarrow> process_spatial env st i inp = (st', Inr d) \<Longrightarrow>
    modality_written env ck t i version input ''spatial'' (st, s, p)
      (txn_record_undo ck t i version ''spatial'' st', s\<lparr>ms_spatial := True\<rparr>, p\<lparr>hp_spatial_data := Some d\<rparr>)"

inductive modality_failed ::
  "('f, 'g, 'ts, 'ix) hexad_env \<Rightarrow> 'ts clock \<Rightarrow> HexadId \<Rightarrow> ('f, 'g) HexadInput \<Rightarrow> string
   \<Rightarrow> ('f, 'g, 'ts, 'ix) hexad_store \<Rightarrow> HexadError \<Rightarrow> ('f, 'g, 'ts, 'ix) hexad_store \<Rightarrow> bool"
  for env :: "('f, 'g, 'ts, 'ix) hexad_env" and ck i input
where
  vector: "hi_vector input = Some inp \<Longrightarrow> process_vector st i inp = (st', Inl e) \<Longrightarrow>
    modality_failed env ck i input ''vector'' st e st'"
| document: "hi_document input = Some inp \<Longrightarrow> process_document env st i inp = (st', Inl e) \<Longrightarrow>
    modality_failed env ck i input ''document'' st e st'"
| tensor: "hi_tensor input = Some inp \<Longrightarrow> process_tensor st i inp = (st', Inl e) \<Longrightarrow>
    modality_failed env ck i input ''tensor'' st e st'"
| semantic: "hi_semantic input = Some inp \<Longrightarrow> process_semantic env (ck_annotation ck) st i inp = (st', Inl e) \<Longrightarrow>
    modality_failed env ck i input ''semantic'' st e st'"
| provenance: "hi_provenance input = Some inp \<Longrightarrow> process_provenance env (ck_event ck) st i inp = (st', Inl e) \<Longrightarrow>
    modality_failed env ck i input ''provenance'' st e st'"
| spatial: "hi_spatial input = Some inp \<Longrightarrow> process_spatial env st i inp = (st', Inl e) \<Longrightarrow>
    modality_failed env ck i input ''spatial'' st e st'"

inductive writes ::
  "('f, 'g, 'ts, 'ix) hexad_env \<Rightarrow> 'ts clock \<Rightarrow> uuid \<Rightarrow> HexadId \<Rightarrow> u64 \<Rightarrow> ('f, 'g) HexadInput
   \<Rightarrow> ('f, 'g, 'ts, 'ix) progress \<Rightarrow> string list \<Rightarrow> ('f, 'g, 'ts, 'ix) progress \<Rightarrow> bool"
  for env :: "('f, 'g, 'ts, 'ix) hexad_env" and ck t i version input p0
where
  none: "writes env ck t i version input p0 [] p0"
| one_more: "writes env ck t i version input p0 ms p \<Longrightarrow> modality_written env ck t i version input m p p' \<Longrightarrow>
    writes env ck t i version input p0 (ms @ [m]) p'"

inductive_cases failedE: "modality_failed env ck i input m st e st'"

section \<open>The code takes these steps\<close>

definition outcome ::
  "('f, 'g, 'ts, 'ix) hexad_env \<Rightarrow> 'ts clock \<Rightarrow> uuid \<Rightarrow> HexadId \<Rightarrow> u64 \<Rightarrow> ('f, 'g) HexadInput
   \<Rightarrow> (('f, 'g, 'ts, 'ix) hexad_store \<Rightarrow> ModalityStatus \<Rightarrow> ('f, 'g, 'ts, 'ix) hexad_store)
   \<Rightarrow> ('f, 'g, 'ts, 'ix) progress \<Rightarrow> string list
   \<Rightarrow> (('f, 'g, 'ts, 'ix) hexad_store \<times> HexadError, ('f, 'g, 'ts, 'ix) progress) rresult \<Rightarrow> bool" where
  "outcome env ck t i version input abort p0 ms r =
    (case r of
       Inr p \<Rightarrow> writes env ck t i version input p0 ms p
     | Inl (st', e) \<Rightarrow> \<exists>ms' m st1 s1 parts1 st2. writes env ck t i version input p0 ms' (st1, s1, parts1)
         \<and> modality_failed env ck i input m st1 e st2 \<and> m \<notin> set ms' \<and> set ms' \<subseteq> set ms \<and> st' = abort st2 s1)"

lemma outcome_bind:
  assumes "outcome env ck t i version input abort p0 ms r" and "m \<notin> set ms"
    and ok: "\<And>inp st s p st' x. inp_opt = Some inp \<Longrightarrow> process st inp = (st', Inr x) \<Longrightarrow>
        modality_written env ck t i version input m (st, s, p) (undo st', mark s, keep x p)"
    and err: "\<And>inp st st' e. inp_opt = Some inp \<Longrightarrow> process st inp = (st', Inl e) \<Longrightarrow>
        modality_failed env ck i input m st e st'"
  shows "outcome env ck t i version input abort p0 (ms @ (if inp_opt \<noteq> None then [m] else []))
    (rbind r (write_modality abort undo process mark keep inp_opt))"
proof (cases r)
  case (Inl q)
  with assms(1) show ?thesis by (cases q) (fastforce simp: outcome_def)
next
  case (Inr p)
  obtain st s parts where p: "p = (st, s, parts)" by (cases p)
  from assms(1) Inr p have run: "writes env ck t i version input p0 ms (st, s, parts)" by (simp add: outcome_def)
  show ?thesis
  proof (cases inp_opt)
    case None
    then show ?thesis using Inr p run by (simp add: outcome_def write_modality_def)
  next
    case (Some inp)
    obtain st' x where x: "process st inp = (st', x)" by fastforce
    show ?thesis
    proof (cases x)
      case (Inl e)
      with x err [OF Some, of st st' e] have "modality_failed env ck i input m st e st'" by simp
      with run assms(2) have "\<exists>ms' m' st1 s1 parts1 st2. writes env ck t i version input p0 ms' (st1, s1, parts1)
          \<and> modality_failed env ck i input m' st1 e st2 \<and> m' \<notin> set ms' \<and> set ms' \<subseteq> set (ms @ [m]) \<and> abort st' s = abort st2 s1"
        by (intro exI conjI) auto
      with x Inl show ?thesis
        by (simp add: outcome_def write_modality_def \<open>r = Inr p\<close> p Some)
    next
      case (Inr y)
      then show ?thesis using x one_more [OF run ok [OF Some, of st st' y s parts]]
        by (simp add: outcome_def write_modality_def \<open>r = Inr p\<close> p Some)
    qed
  qed
qed

lemma rbind_assoc: "rbind (rbind r f) g = rbind r (\<lambda>x. rbind (f x) g)"
  by (cases r) simp_all

abbreviation written_names :: "('f, 'g) HexadInput \<Rightarrow> string list" where
  "written_names input \<equiv> butlast (modality_names input)"

lemma written_names_eq:
  "written_names input = (((((([] @ (if hi_graph input \<noteq> None then [''graph''] else [])) @ (if hi_vector input \<noteq> None then [''vector''] else []))
    @ (if hi_document input \<noteq> None then [''document''] else [])) @ (if hi_tensor input \<noteq> None then [''tensor''] else []))
    @ (if hi_semantic input \<noteq> None then [''semantic''] else []))
    @ (if hi_provenance input \<noteq> None then [''provenance''] else [])) @ (if hi_spatial input \<noteq> None then [''spatial''] else [])"
  by (simp add: modality_names_def butlast_append)

lemma write_modalities_outcome:
  "outcome env ck t i version input abort p (written_names input) (write_modalities env ck t i version abort input p)"
proof -
  let ?undo = "txn_record_undo ck t i version"
  have start: "outcome env ck t i version input abort p [] (Inr p)" by (simp add: outcome_def none)
  have eq: "write_modalities env ck t i version abort input p =
    rbind (rbind (rbind (rbind (rbind (rbind (rbind (Inr p)
      (write_modality abort (?undo ''graph'') (\<lambda>st inp. apsnd Inr (process_graph st i inp))
        (ms_graph_update (\<lambda>_. True)) (\<lambda>n. hp_graph_node_update (\<lambda>_. Some n)) (hi_graph input)))
      (write_modality abort (?undo ''vector'') (\<lambda>st. process_vector st i)
        (ms_vector_update (\<lambda>_. True)) (\<lambda>e. hp_embedding_update (\<lambda>_. Some e)) (hi_vector input)))
      (write_modality abort (?undo ''document'') (\<lambda>st. process_document env st i)
        (ms_document_update (\<lambda>_. True)) (\<lambda>d. hp_document_update (\<lambda>_. Some d)) (hi_document input)))
      (write_modality abort (?undo ''tensor'') (\<lambda>st. process_tensor st i)
        (ms_tensor_update (\<lambda>_. True)) (\<lambda>x. hp_tensor_update (\<lambda>_. Some x)) (hi_tensor input)))
      (write_modality abort (?undo ''semantic'') (\<lambda>st. process_semantic env (ck_annotation ck) st i)
        (ms_semantic_update (\<lambda>_. True)) (\<lambda>a. hp_semantic_update (\<lambda>_. Some a)) (hi_semantic input)))
      (write_modality abort (?undo ''provenance'') (\<lambda>st. process_provenance env (ck_event ck) st i)
        (ms_provenance_update (\<lambda>_. True)) (\<lambda>n. hp_provenance_chain_length_update (\<lambda>_. n)) (hi_provenance input)))
      (write_modality abort (?undo ''spatial'') (\<lambda>st. process_spatial env st i)
        (ms_spatial_update (\<lambda>_. True)) (\<lambda>d. hp_spatial_data_update (\<lambda>_. Some d)) (hi_spatial input))"
    unfolding write_modalities_def Let_def rbind_assoc by simp
  have g: "\<And>inp st s q st' x. hi_graph input = Some inp \<Longrightarrow> apsnd Inr (process_graph st i inp) = (st', Inr x) \<Longrightarrow>
      modality_written env ck t i version input ''graph'' (st, s, q)
        (?undo ''graph'' st', s\<lparr>ms_graph := True\<rparr>, q\<lparr>hp_graph_node := Some x\<rparr>)"
    subgoal for inp st s q st' x by (cases "process_graph st i inp") (simp add: modality_written.graph)
    done
  have ge: "\<And>inp st st' e. hi_graph input = Some inp \<Longrightarrow> apsnd Inr (process_graph st i inp) = (st', Inl e) \<Longrightarrow>
      modality_failed env ck i input ''graph'' st e st'"
    by (simp add: apsnd_def map_prod_def split: prod.splits)
  note steps = outcome_bind [OF start _ g ge]
  note steps = outcome_bind [OF steps _ modality_written.vector modality_failed.vector]
  note steps = outcome_bind [OF steps _ modality_written.document modality_failed.document]
  note steps = outcome_bind [OF steps _ modality_written.tensor modality_failed.tensor]
  note steps = outcome_bind [OF steps _ modality_written.semantic modality_failed.semantic]
  note steps = outcome_bind [OF steps _ modality_written.provenance modality_failed.provenance]
  note steps = outcome_bind [OF steps _ modality_written.spatial modality_failed.spatial]
  show ?thesis unfolding written_names_eq eq by (rule steps) simp_all
qed

section \<open>What one write does\<close>

abbreviation vectors_of :: "('f, 'g, 'ts, 'ix) hexad_store \<Rightarrow> HexadId \<rightharpoonup> 'f Embedding" where
  "vectors_of st \<equiv> map_of (bf_embeddings (hs_vector st))"

abbreviation documents_of :: "('f, 'g, 'ts, 'ix) hexad_store \<Rightarrow> HexadId \<rightharpoonup> Document" where
  "documents_of st \<equiv> td_documents (hs_document st)"

abbreviation tensors_of :: "('f, 'g, 'ts, 'ix) hexad_store \<Rightarrow> HexadId \<rightharpoonup> 'g Tensor" where
  "tensors_of st \<equiv> map_of (hs_tensor st)"

abbreviation annotations_of :: "('f, 'g, 'ts, 'ix) hexad_store \<Rightarrow> HexadId \<rightharpoonup> 'g SemanticAnnotation" where
  "annotations_of st \<equiv> ss_annotations (hs_semantic st)"

abbreviation chains_of :: "('f, 'g, 'ts, 'ix) hexad_store \<Rightarrow> HexadId \<rightharpoonup> 'ts ProvenanceChain" where
  "chains_of st \<equiv> map_of (hs_provenance st)"

abbreviation places_of :: "('f, 'g, 'ts, 'ix) hexad_store \<Rightarrow> HexadId \<rightharpoonup> 'g SpatialData" where
  "places_of st \<equiv> map_of (hs_spatial st)"

lemma process_graph_ok:
  "process_graph st i inp = (st', n) \<Longrightarrow>
    (\<exists>g. st' = st\<lparr>hs_graph := g\<rparr>) \<and> n = GraphNode_new (HexadId_to_iri i (hc_base_iri (hs_config st)))"
  by (auto simp: process_graph_def Let_def)

lemma process_vector_ok:
  assumes "process_vector st i inp = (st', Inr x)"
  shows "\<exists>v. st' = st\<lparr>hs_vector := v\<rparr> \<and> map_of (bf_embeddings v) = (vectors_of st)(i \<mapsto> x)"
  using assms vec.put_ok [of "hs_vector st" x]
  by (auto simp: process_vector_def Let_def Embedding_new_def split: if_splits prod.splits sum.splits)

lemma process_vector_err:
  assumes "process_vector st i inp = (st', Inl e)"
  shows "\<exists>v. st' = st\<lparr>hs_vector := v\<rparr> \<and> map_of (bf_embeddings v) = vectors_of st"
  using assms vec.put_err [of "hs_vector st"]
  by (auto simp: process_vector_def Let_def intro: exI [of _ "hs_vector st"] split: if_splits prod.splits sum.splits)

lemma process_document_ok:
  assumes "process_document env st i inp = (st', Inr d)"
  shows "\<exists>x. st' = st\<lparr>hs_document := x\<rparr> \<and> td_documents x = (documents_of st)(i \<mapsto> d)"
proof -
  let ?d = "(Document_new i (di_title inp) (di_body inp))\<lparr>dc_fields :=
      dc_fields (Document_new i (di_title inp) (di_body inp)) ++ di_fields inp\<rparr>"
  obtain x r where x: "doc_index (he_tantivy env) (hs_document st) ?d = (x, r)" by fastforce
  obtain y q where y: "doc_commit (he_tantivy env) x = (y, q)" by fastforce
  from assms x y have ok: "r = Inr ()" "q = Inr ()" "st' = st\<lparr>hs_document := y\<rparr>" "d = ?d"
    by (auto simp: process_document_def Let_def split: sum.splits)
  have "td_documents y = td_documents x" using doc_commit_documents [of "he_tantivy env" x] y by simp
  moreover have "dc_id ?d = i" by (simp add: Document_new_def)
  ultimately show ?thesis using docs.put_ok [OF x [unfolded ok]] ok by auto
qed

text \<open>The Tantivy commit never fails.\<close>

definition commits :: "'ix tantivy_ops \<Rightarrow> bool" where
  "commits tv \<longleftrightarrow> (\<forall>ix. snd (tv_commit tv ix) = Inr ())"

lemma process_document_err:
  assumes "process_document env st i inp = (st', Inl e)"
  shows "\<exists>x. st' = st\<lparr>hs_document := x\<rparr> \<and> (\<forall>j. j \<noteq> i \<longrightarrow> td_documents x j = documents_of st j)
    \<and> (commits (he_tantivy env) \<longrightarrow> td_documents x = documents_of st)"
proof -
  let ?d = "(Document_new i (di_title inp) (di_body inp))\<lparr>dc_fields :=
      dc_fields (Document_new i (di_title inp) (di_body inp)) ++ di_fields inp\<rparr>"
  obtain x r where x: "doc_index (he_tantivy env) (hs_document st) ?d = (x, r)" by fastforce
  obtain y q where y: "doc_commit (he_tantivy env) x = (y, q)" by fastforce
  have same: "td_documents y = td_documents x" using doc_commit_documents [of "he_tantivy env" x] y by simp
  have id: "dc_id ?d = i" by (simp add: Document_new_def)
  have q: "commits (he_tantivy env) \<Longrightarrow> q = Inr ()"
    using y unfolding doc_commit_def commits_def by (auto split: prod.splits) (metis id_apply map_sum.simps(2) snd_conv)
  show ?thesis
  proof (cases r)
    case (Inl f)
    with assms x docs.put_err [OF x [unfolded Inl]] show ?thesis
      by (auto simp: process_document_def Let_def split: sum.splits)
  next
    case (Inr u)
    with assms x y have "st' = st\<lparr>hs_document := y\<rparr>" "q \<noteq> Inr ()"
      by (auto simp: process_document_def Let_def split: sum.splits)
    then show ?thesis using docs.put_ok [of "he_tantivy env" "hs_document st" ?d x] x Inr same id q by auto
  qed
qed

lemma process_tensor_ok:
  assumes "process_tensor st i inp = (st', Inr x)"
  shows "\<exists>v. st' = st\<lparr>hs_tensor := v\<rparr> \<and> map_of v = (tensors_of st)(i \<mapsto> x)"
  using assms tens.put_ok [of "hs_tensor st" x]
  by (auto simp: process_tensor_def Tensor_new_def Let_def split: if_splits prod.splits sum.splits)

lemma process_tensor_err:
  assumes "process_tensor st i inp = (st', Inl e)"
  shows "\<exists>v. st' = st\<lparr>hs_tensor := v\<rparr> \<and> map_of v = tensors_of st"
  using assms tens.put_err [of "hs_tensor st"]
  by (auto simp: process_tensor_def intro: exI [of _ "hs_tensor st"] split: prod.splits sum.splits)

lemma process_semantic_ok:
  assumes "process_semantic env now st i inp = (st', Inr x)"
  shows "\<exists>v. st' = st\<lparr>hs_semantic := v\<rparr> \<and> ss_annotations v = (annotations_of st)(i \<mapsto> x)"
  using assms sem.put_ok [of "he_regex env" "hs_semantic st" x]
  by (auto simp: process_semantic_def Let_def split: prod.splits sum.splits)

lemma process_semantic_err:
  assumes "process_semantic env now st i inp = (st', Inl e)"
  shows "\<exists>v. st' = st\<lparr>hs_semantic := v\<rparr> \<and> ss_annotations v = annotations_of st"
  using assms sem.put_err [of "he_regex env" "hs_semantic st"]
  by (fastforce simp: process_semantic_def Let_def split: prod.splits sum.splits)

lemma process_provenance_ok:
  assumes "process_provenance env now st i inp = (st', Inr n)"
  shows "\<exists>v c. st' = st\<lparr>hs_provenance := v\<rparr> \<and> map_of v = (chains_of st)(i \<mapsto> c) \<and> n = of_nat (ProvenanceChain_len c)"
proof -
  obtain c where "st' = st\<lparr>hs_provenance := AList.update i c (hs_provenance st)\<rparr>" and "n = of_nat (ProvenanceChain_len c)"
    using assms by (auto simp: process_provenance_def prov_record_event_def prov_get_chain_def update_conv' Let_def)
  then show ?thesis using update_conv' [of i c "hs_provenance st"] by blast
qed

lemma process_provenance_never_fails: "process_provenance env now st i inp \<noteq> (st', Inl e)"
  by (auto simp: process_provenance_def prov_record_event_def prov_get_chain_def update_conv' Let_def)

lemma process_spatial_ok:
  assumes "process_spatial env st i inp = (st', Inr x)"
  shows "\<exists>v. st' = st\<lparr>hs_spatial := v\<rparr> \<and> map_of v = (places_of st)(i \<mapsto> x)"
  using assms spat.put_ok [of "he_f64 env" "hs_spatial st" "(i, x)"]
  by (auto simp: process_spatial_def Let_def split: prod.splits sum.splits)

lemma process_spatial_err:
  assumes "process_spatial env st i inp = (st', Inl e)"
  shows "\<exists>v. st' = st\<lparr>hs_spatial := v\<rparr> \<and> map_of v = places_of st"
  using assms spat.put_err [of "he_f64 env" "hs_spatial st"]
  by (auto simp: process_spatial_def Let_def intro: exI [of _ "hs_spatial st"] split: prod.splits sum.splits)

lemmas process_ok = process_graph_ok process_vector_ok process_document_ok process_tensor_ok process_semantic_ok
  process_provenance_ok process_spatial_ok

lemma record_undo_frame [simp]:
  "hs_config (txn_record_undo ck t e v m st) = hs_config st" "hs_hexads (txn_record_undo ck t e v m st) = hs_hexads st"
  "hs_wal (txn_record_undo ck t e v m st) = hs_wal st" "hs_graph (txn_record_undo ck t e v m st) = hs_graph st"
  "hs_vector (txn_record_undo ck t e v m st) = hs_vector st" "hs_document (txn_record_undo ck t e v m st) = hs_document st"
  "hs_tensor (txn_record_undo ck t e v m st) = hs_tensor st" "hs_semantic (txn_record_undo ck t e v m st) = hs_semantic st"
  "hs_temporal (txn_record_undo ck t e v m st) = hs_temporal st"
  "hs_provenance (txn_record_undo ck t e v m st) = hs_provenance st" "hs_spatial (txn_record_undo ck t e v m st) = hs_spatial st"
  by (simp_all add: txn_record_undo_def)

text \<open>What a write leaves alone: everything about other entities, the registry, the histories, the log.\<close>

definition others_kept :: "HexadId \<Rightarrow> ('f, 'g, 'ts, 'ix) hexad_store \<Rightarrow> ('f, 'g, 'ts, 'ix) hexad_store \<Rightarrow> bool" where
  "others_kept i st st' \<longleftrightarrow> hs_config st' = hs_config st \<and> (\<forall>j. j \<noteq> i \<longrightarrow> vectors_of st' j = vectors_of st j
     \<and> documents_of st' j = documents_of st j \<and> tensors_of st' j = tensors_of st j
     \<and> annotations_of st' j = annotations_of st j \<and> chains_of st' j = chains_of st j \<and> places_of st' j = places_of st j)"

lemma others_kept_refl: "others_kept i st st"
  by (simp add: others_kept_def)

lemma others_kept_trans: "others_kept i st1 st2 \<Longrightarrow> others_kept i st2 st3 \<Longrightarrow> others_kept i st1 st3"
  by (simp add: others_kept_def)

definition same_books :: "('f, 'g, 'ts, 'ix) hexad_store \<Rightarrow> ('f, 'g, 'ts, 'ix) hexad_store \<Rightarrow> bool" where
  "same_books st st' \<longleftrightarrow> hs_hexads st' = hs_hexads st \<and> hs_wal st' = hs_wal st \<and> hs_temporal st' = hs_temporal st"

lemma written_keeps:
  assumes "modality_written env ck t i version input m (st, s, p) (st', s', p')"
  shows "others_kept i st st' \<and> same_books st st'"
  using assms
  by cases (auto simp: others_kept_def same_books_def dest!: process_ok)

lemma written_txn:
  assumes "modality_written env ck t i version input m (st, s, p) (st', s', p')"
  shows "hs_txn st' = fst (TM_record_undo (ck_undo ck m) (hs_txn st) t i m None version)"
  using assms
  by cases (auto simp: txn_record_undo_def dest!: process_ok)

lemma failed_keeps:
  assumes "modality_failed env ck i input m st e st'"
  shows "others_kept i st st' \<and> same_books st st' \<and> hs_txn st' = hs_txn st \<and> vectors_of st' = vectors_of st \<and> tensors_of st' = tensors_of st
    \<and> (commits (he_tantivy env) \<longrightarrow> documents_of st' = documents_of st)"
  using assms
  by cases (auto simp: others_kept_def same_books_def process_provenance_never_fails
      dest!: process_vector_err process_document_err process_tensor_err process_semantic_err process_spatial_err)

section \<open>What a sequence of writes does\<close>

lemma writes_induct [consumes 1, case_names none step]:
  assumes "writes env ck t i version input (st0, s0, p0) ms (st, s, p)"
    and "P [] st0 s0 p0"
    and "\<And>ms m st1 s1 p1 st s p. writes env ck t i version input (st0, s0, p0) ms (st1, s1, p1) \<Longrightarrow> P ms st1 s1 p1 \<Longrightarrow>
        modality_written env ck t i version input m (st1, s1, p1) (st, s, p) \<Longrightarrow> P (ms @ [m]) st s p"
  shows "P ms st s p"
  using assms(1)
proof (induction ms "(st, s, p)" arbitrary: st s p)
  case (one_more ms q m)
  then show ?case using assms(3) by (cases q) blast
qed (rule assms(2))

lemma writes_keep:
  "writes env ck t i version input (st0, s0, p0) ms (st, s, p) \<Longrightarrow> others_kept i st0 st \<and> same_books st0 st"
  by (induction rule: writes_induct)
    (simp add: others_kept_refl same_books_def, drule written_keeps, auto simp: same_books_def intro: others_kept_trans)

lemma writes_working:
  "writes env ck t i version input (st0, s0, p0) ms (st, s, p) \<Longrightarrow> working tm0 t (hs_txn st0) \<Longrightarrow> working tm0 t (hs_txn st)"
  by (induction rule: writes_induct) (simp_all add: written_txn working_undo)

definition marked :: "string list \<Rightarrow> ModalityStatus \<Rightarrow> ModalityStatus \<Rightarrow> bool" where
  "marked ms s0 s \<longleftrightarrow> ms_graph s = (ms_graph s0 \<or> ''graph'' \<in> set ms) \<and> ms_vector s = (ms_vector s0 \<or> ''vector'' \<in> set ms)
    \<and> ms_document s = (ms_document s0 \<or> ''document'' \<in> set ms) \<and> ms_tensor s = (ms_tensor s0 \<or> ''tensor'' \<in> set ms)
    \<and> ms_semantic s = (ms_semantic s0 \<or> ''semantic'' \<in> set ms) \<and> ms_provenance s = (ms_provenance s0 \<or> ''provenance'' \<in> set ms)
    \<and> ms_spatial s = (ms_spatial s0 \<or> ''spatial'' \<in> set ms) \<and> ms_temporal s = ms_temporal s0"

lemma marked_step:
  assumes "modality_written env ck t i version input m (st1, s1, p1) (st, s, p)" and "marked ms s0 s1"
  shows "marked (ms @ [m]) s0 s"
  using assms by (cases rule: modality_written.cases) (simp_all add: marked_def)

lemma writes_status: "writes env ck t i version input (st0, s0, p0) ms (st, s, p) \<Longrightarrow> marked ms s0 s"
  by (induction rule: writes_induct) (simp add: marked_def, rule marked_step)

text \<open>The parts an operation has collected are what the stores hold for the entity; modalities it has not written are as before.\<close>

definition part_ok :: "bool \<Rightarrow> 'a option \<Rightarrow> 'a option \<Rightarrow> 'a option \<Rightarrow> 'a option \<Rightarrow> bool" where
  "part_ok written kept0 part0 kept part \<longleftrightarrow> (if written then kept \<noteq> None \<and> part = kept else kept = kept0 \<and> part = part0)"

definition chain_ok :: "bool \<Rightarrow> 'ts ProvenanceChain option \<Rightarrow> u64 \<Rightarrow> 'ts ProvenanceChain option \<Rightarrow> u64 \<Rightarrow> bool" where
  "chain_ok written kept0 len0 kept len \<longleftrightarrow>
    (if written then \<exists>c. kept = Some c \<and> len = of_nat (ProvenanceChain_len c) else kept = kept0 \<and> len = len0)"

lemma part_ok_intros [simp]: "part_ok True k0 p0 (Some x) (Some x)" "part_ok False k p k p"
  by (simp_all add: part_ok_def)

lemma chain_ok_intros [simp]: "chain_ok True k0 n0 (Some c) (of_nat (ProvenanceChain_len c))" "chain_ok False k n k n"
  by (simp_all add: chain_ok_def)

definition read_back ::
  "HexadId \<Rightarrow> string list \<Rightarrow> ('f, 'g, 'ts, 'ix) hexad_store \<Rightarrow> ('f, 'g) hexad_parts
   \<Rightarrow> ('f, 'g, 'ts, 'ix) hexad_store \<Rightarrow> ('f, 'g) hexad_parts \<Rightarrow> bool" where
  "read_back i ms st0 p0 st p \<longleftrightarrow>
    hp_graph_node p = (if ''graph'' \<in> set ms then Some (GraphNode_new (HexadId_to_iri i (hc_base_iri (hs_config st0)))) else hp_graph_node p0)
    \<and> part_ok (''vector'' \<in> set ms) (vectors_of st0 i) (hp_embedding p0) (vectors_of st i) (hp_embedding p)
    \<and> part_ok (''document'' \<in> set ms) (documents_of st0 i) (hp_document p0) (documents_of st i) (hp_document p)
    \<and> part_ok (''tensor'' \<in> set ms) (tensors_of st0 i) (hp_tensor p0) (tensors_of st i) (hp_tensor p)
    \<and> part_ok (''semantic'' \<in> set ms) (annotations_of st0 i) (hp_semantic p0) (annotations_of st i) (hp_semantic p)
    \<and> chain_ok (''provenance'' \<in> set ms) (chains_of st0 i) (hp_provenance_chain_length p0) (chains_of st i)
        (hp_provenance_chain_length p)
    \<and> part_ok (''spatial'' \<in> set ms) (places_of st0 i) (hp_spatial_data p0) (places_of st i) (hp_spatial_data p)"

lemma read_back_step:
  assumes "modality_written env ck t i version input m (st1, s1, p1) (st, s, p)" and "read_back i ms st0 p0 st1 p1"
    and "hs_config st1 = hs_config st0"
  shows "read_back i (ms @ [m]) st0 p0 st p"
  using assms by (cases rule: modality_written.cases) (drule process_ok, clarsimp simp: read_back_def)+

lemma writes_read_back:
  "writes env ck t i version input (st0, s0, p0) ms (st, s, p) \<Longrightarrow> read_back i ms st0 p0 st p"
proof (induction rule: writes_induct)
  case (step ms m st1 s1 p1 st s p)
  show ?case using writes_keep [OF step.hyps(1)] by (intro read_back_step [OF step.hyps(2) step.IH]) (simp add: others_kept_def)
qed (simp add: read_back_def)

end
