(* ===== verification/Hexad_Laws.thy ===== *)
theory Hexad_Laws
  imports Hexad_Steps
begin

text \<open>
  What \<open>create\<close>, \<open>update\<close> and \<open>delete\<close> of the hexad store promise to a client: reads return what was written, a failed create
  leaves no entity behind, every lock is returned, and in every reachable state each registered entity loads with all
  the modalities its status lists.
\<close>

section \<open>Loading\<close>

definition loaded :: "('f, 'g, 'ts, 'ix) hexad_store \<Rightarrow> HexadId \<Rightarrow> ModalityStatus \<Rightarrow> ('f, 'g) hexad_parts" where
  "loaded st i s =
    \<lparr>hp_graph_node = (if ms_graph s then Some (GraphNode_new (HexadId_to_iri i (hc_base_iri (hs_config st)))) else None),
     hp_embedding = (if ms_vector s then vectors_of st i else None),
     hp_document = (if ms_document s then documents_of st i else None),
     hp_tensor = (if ms_tensor s then tensors_of st i else None),
     hp_semantic = (if ms_semantic s then annotations_of st i else None),
     hp_provenance_chain_length = (if ms_provenance s
       then (case chains_of st i of Some c \<Rightarrow> of_nat (ProvenanceChain_len c) | None \<Rightarrow> 0) else 0),
     hp_spatial_data = (if ms_spatial s then places_of st i else None)\<rparr>"

definition version_count :: "('f, 'g, 'ts, 'ix) hexad_store \<Rightarrow> HexadId \<Rightarrow> u64" where
  "version_count st i = of_nat (length (take 1000 (case hs_temporal st i of Some vs \<Rightarrow> rev (map snd vs) | None \<Rightarrow> [])))"

lemma modality_result_Inr [simp]: "modality_result m d (Inr x) = Inr x"
  by (simp add: modality_result_def)

text \<open>Loading never fails: it returns the entity exactly when the registry has it.\<close>

lemma load_hexad_eq:
  "load_hexad st i = Inr (map_option (\<lambda>status. hexad_of i status (version_count st i) (loaded st i (hx_modality_status status)))
     (map_of (hs_hexads st) i))"
  by (cases "map_of (hs_hexads st) i")
    (simp_all add: load_hexad_def hexad_of_def loaded_def version_count_def vs_history_def vec.get_values docs.get_values tens.get_values
      sem.get_values spat.get_values prov_get_chain_def if_distrib [of "\<lambda>x. rbind x f" for f] option.case_distrib [of length] Let_def
      split: option.split)

lemma loaded_cong: "others_kept i st st' \<Longrightarrow> j \<noteq> i \<Longrightarrow> loaded st' j s = loaded st j s"
  by (simp add: others_kept_def loaded_def)

lemma load_other:
  assumes "others_kept i st st'" and "j \<noteq> i" and "map_of (hs_hexads st') j = map_of (hs_hexads st) j" and "hs_temporal st' j = hs_temporal st j"
  shows "hexad_get st' j = hexad_get st j"
  using assms by (simp add: hexad_get_def load_hexad_eq loaded_cong [OF assms(1,2)] version_count_def)

section \<open>Frames\<close>

lemma wal_append_frame [simp]:
  "hs_config (hexad_wal_append env now x st op md e b) = hs_config st" "hs_hexads (hexad_wal_append env now x st op md e b) = hs_hexads st"
  "hs_txn (hexad_wal_append env now x st op md e b) = hs_txn st" "hs_graph (hexad_wal_append env now x st op md e b) = hs_graph st"
  "hs_vector (hexad_wal_append env now x st op md e b) = hs_vector st" "hs_document (hexad_wal_append env now x st op md e b) = hs_document st"
  "hs_tensor (hexad_wal_append env now x st op md e b) = hs_tensor st" "hs_semantic (hexad_wal_append env now x st op md e b) = hs_semantic st"
  "hs_temporal (hexad_wal_append env now x st op md e b) = hs_temporal st"
  "hs_provenance (hexad_wal_append env now x st op md e b) = hs_provenance st" "hs_spatial (hexad_wal_append env now x st op md e b) = hs_spatial st"
  by (simp_all add: hexad_wal_append_def Let_def split: option.split prod.split)

lemma wal_checkpoint_frame [simp]:
  "hs_config (hexad_wal_checkpoint env now x st) = hs_config st" "hs_hexads (hexad_wal_checkpoint env now x st) = hs_hexads st"
  "hs_txn (hexad_wal_checkpoint env now x st) = hs_txn st" "hs_graph (hexad_wal_checkpoint env now x st) = hs_graph st"
  "hs_vector (hexad_wal_checkpoint env now x st) = hs_vector st" "hs_document (hexad_wal_checkpoint env now x st) = hs_document st"
  "hs_tensor (hexad_wal_checkpoint env now x st) = hs_tensor st" "hs_semantic (hexad_wal_checkpoint env now x st) = hs_semantic st"
  "hs_temporal (hexad_wal_checkpoint env now x st) = hs_temporal st"
  "hs_provenance (hexad_wal_checkpoint env now x st) = hs_provenance st" "hs_spatial (hexad_wal_checkpoint env now x st) = hs_spatial st"
  by (simp_all add: hexad_wal_checkpoint_def Let_def split: option.split prod.split)

lemma wal_committed_frame [simp]:
  "hs_config (wal_committed env ck i st) = hs_config st" "hs_hexads (wal_committed env ck i st) = hs_hexads st"
  "hs_txn (wal_committed env ck i st) = hs_txn st" "hs_graph (wal_committed env ck i st) = hs_graph st"
  "hs_vector (wal_committed env ck i st) = hs_vector st" "hs_document (wal_committed env ck i st) = hs_document st"
  "hs_tensor (wal_committed env ck i st) = hs_tensor st" "hs_semantic (wal_committed env ck i st) = hs_semantic st"
  "hs_temporal (wal_committed env ck i st) = hs_temporal st" "hs_provenance (wal_committed env ck i st) = hs_provenance st"
  "hs_spatial (wal_committed env ck i st) = hs_spatial st"
  by (simp_all add: wal_committed_def)

lemma txn_rollback_frame [simp]:
  "hs_config (txn_rollback ck t st) = hs_config st" "hs_hexads (txn_rollback ck t st) = hs_hexads st"
  "hs_wal (txn_rollback ck t st) = hs_wal st" "hs_graph (txn_rollback ck t st) = hs_graph st"
  "hs_vector (txn_rollback ck t st) = hs_vector st" "hs_document (txn_rollback ck t st) = hs_document st"
  "hs_tensor (txn_rollback ck t st) = hs_tensor st" "hs_semantic (txn_rollback ck t st) = hs_semantic st"
  "hs_temporal (txn_rollback ck t st) = hs_temporal st" "hs_provenance (txn_rollback ck t st) = hs_provenance st"
  "hs_spatial (txn_rollback ck t st) = hs_spatial st"
  "hs_txn (txn_rollback ck t st) = fst (TM_rollback (ck_finish ck) (hs_txn st) t)"
  by (simp_all add: txn_rollback_def)

lemma rollback_create_frame [simp]:
  "hs_config (rollback_create env st i s) = hs_config st" "hs_hexads (rollback_create env st i s) = hs_hexads st"
  "hs_wal (rollback_create env st i s) = hs_wal st" "hs_graph (rollback_create env st i s) = hs_graph st"
  "hs_semantic (rollback_create env st i s) = hs_semantic st" "hs_temporal (rollback_create env st i s) = hs_temporal st"
  "hs_provenance (rollback_create env st i s) = hs_provenance st" "hs_spatial (rollback_create env st i s) = hs_spatial st"
  "hs_txn (rollback_create env st i s) = hs_txn st"
  "vectors_of (rollback_create env st i s) = (if ms_vector s then (vectors_of st)(i := None) else vectors_of st)"
  "documents_of (rollback_create env st i s) = (if ms_document s then (documents_of st)(i := None) else documents_of st)"
  "tensors_of (rollback_create env st i s) = (if ms_tensor s then (tensors_of st)(i := None) else tensors_of st)"
  by (simp_all add: rollback_create_def vec.delete_values docs.delete_values tens.delete_values)

section \<open>The course of an operation\<close>

text \<open>
  After its intent is logged and its transaction begun, an operation stops at a lock, or stops at a modality, or writes
  the modalities of its input and commits.  The commit of an operation cannot fail.
\<close>

definition begun ::
  "('f, 'g, 'ts, 'ix) hexad_env \<Rightarrow> 'ts clock \<Rightarrow> HexadId \<Rightarrow> WalOperation \<Rightarrow> bytes \<Rightarrow> ('f, 'g, 'ts, 'ix) hexad_store
   \<Rightarrow> 'ts TransactionManager \<Rightarrow> ('f, 'g, 'ts, 'ix) hexad_store" where
  "begun env ck i op payload st tm =
    (hexad_wal_append env (ck_wal_intent ck) (fst (ck_instants ck)) st op All i payload)\<lparr>hs_txn := tm\<rparr>"

lemma begun_frame [simp]:
  "hs_config (begun env ck i op b st tm) = hs_config st" "hs_hexads (begun env ck i op b st tm) = hs_hexads st"
  "hs_txn (begun env ck i op b st tm) = tm" "hs_graph (begun env ck i op b st tm) = hs_graph st"
  "hs_vector (begun env ck i op b st tm) = hs_vector st" "hs_document (begun env ck i op b st tm) = hs_document st"
  "hs_tensor (begun env ck i op b st tm) = hs_tensor st" "hs_semantic (begun env ck i op b st tm) = hs_semantic st"
  "hs_temporal (begun env ck i op b st tm) = hs_temporal st" "hs_provenance (begun env ck i op b st tm) = hs_provenance st"
  "hs_spatial (begun env ck i op b st tm) = hs_spatial st"
  by (simp_all add: begun_def)

lemma others_begun [simp]: "others_kept i (begun env ck i op b st tm) st' = others_kept i st st'"
  by (simp add: others_kept_def)

abbreviation payload_of :: "('f, 'g, 'ts, 'ix) hexad_env \<Rightarrow> ('f, 'g) HexadInput \<Rightarrow> bytes" where
  "payload_of env input \<equiv> (case he_json env input of Some b \<Rightarrow> b | None \<Rightarrow> [])"

lemma lock_phase:
  assumes "tm_inv (hs_txn st)" and "txn_of (hs_txn st) fresh = None"
    and "TM_begin fresh now (hs_txn st) ReadCommitted = (tm1, t)" and "acquire_all iter tm1 t i ms = (tm, r)"
    and "set ms \<subseteq> set MODALITIES"
  shows "t = fresh \<and> working (hs_txn st) fresh tm \<and> (no_locks (hs_txn st) \<longrightarrow> r = None)"
proof -
  have t: "t = fresh" and w: "working (hs_txn st) fresh tm1" using working_begin [OF assms(1-3)] by auto
  have "r = None" if "no_locks (hs_txn st)"
  proof -
    from that have "\<forall>key. \<forall>h \<in> set (holders_of (tm_lock_table tm1) key). h = \<lparr>li_holder = fresh, li_lock_type = Exclusive\<rparr>"
      using begin_holders [OF assms(3)] by (simp add: no_locks_def)
    then obtain tm2 where "acquire_all iter tm1 fresh i ms = (tm2, None)" using acquire_all_free [OF w _ assms(5)] by blast
    with assms(4) t show ?thesis by simp
  qed
  with t w working_acquire_all assms(4) show ?thesis by blast
qed

lemma write_phase:
  assumes "working tm0 fresh tm"
  obtains
    (failed) ms m st1 s1 p1 st2 e where
      "write_modalities env ck fresh i version abort input (begun env ck i op b st tm, start, no_parts) = Inl (abort st2 s1, e)"
      "writes env ck fresh i version input (begun env ck i op b st tm, start, no_parts) ms (st1, s1, p1)"
      "modality_failed env ck i input m st1 e st2" "m \<notin> set ms" "set ms \<subseteq> set (written_names input)"
  | (written) st1 s1 p1 h v tm' where
      "write_modalities env ck fresh i version abort input (begun env ck i op b st tm, start, no_parts) = Inr (st1, s1, p1)"
      "writes env ck fresh i version input (begun env ck i op b st tm, start, no_parts) (written_names input) (st1, s1, p1)"
      "hs_temporal st1 = hs_temporal st" "hs_hexads st1 = hs_hexads st"
      "vs_append (ck_version ck) (hs_temporal st) i (create_snapshot (ck_snapshot ck) i input s1) ''system'' msg = (h, Inr v)"
      "TM_commit (ck_finish ck) (hs_txn st1) fresh = (tm', Inr ())" "settled tm0 fresh Committed tm'"
proof -
  let ?p = "(begun env ck i op b st tm, start, no_parts)"
  note out = write_modalities_outcome [of env ck fresh i version input abort ?p]
  show thesis
  proof (cases "write_modalities env ck fresh i version abort input ?p")
    case (Inl x)
    obtain st2 e where x: "x = (st2, e)" by (cases x)
    from out obtain ms m st1 s1 p1 st3 where run: "writes env ck fresh i version input ?p ms (st1, s1, p1)"
      "modality_failed env ck i input m st1 e st3" "m \<notin> set ms" "set ms \<subseteq> set (written_names input)" and "st2 = abort st3 s1"
      unfolding Inl x outcome_def sum.case prod.case by (elim exE conjE)
    with Inl x show thesis by (intro failed [OF _ run]) simp
  next
    case (Inr y)
    obtain st1 s1 p1 where y: "y = (st1, s1, p1)" by (cases y)
    have run: "writes env ck fresh i version input ?p (written_names input) (st1, s1, p1)"
      using out unfolding Inr y outcome_def by simp
    have books: "hs_temporal st1 = hs_temporal st" "hs_hexads st1 = hs_hexads st"
      using writes_keep [OF run] by (auto simp: same_books_def)
    obtain h v where v: "vs_append (ck_version ck) (hs_temporal st) i (create_snapshot (ck_snapshot ck) i input s1) ''system'' msg = (h, Inr v)"
      by (auto simp: vs_append_def Let_def)
    have "working tm0 fresh (hs_txn st1)" using writes_working [OF run] assms by simp
    from settled_commit [OF this, of "ck_finish ck"] show thesis using written [OF Inr [unfolded y] run books v] by (elim exE conjE)
  qed
qed

lemma create_cases:
  assumes "hexad_create env ck i fresh st input = (st', r)" and "tm_inv (hs_txn st)" and "txn_of (hs_txn st) fresh = None"
  obtains
    (locked) tm e where "r = Inl e" "working (hs_txn st) fresh tm" "\<not> no_locks (hs_txn st)"
      "st' = txn_rollback ck fresh (begun env ck i Insert (payload_of env input) st tm)"
  | (failed) tm ms m st1 s1 p1 st2 e where "r = Inl e" "working (hs_txn st) fresh tm"
      "writes env ck fresh i 0 input (begun env ck i Insert (payload_of env input) st tm, ModalityStatus_default, no_parts) ms (st1, s1, p1)"
      "modality_failed env ck i input m st1 e st2" "m \<notin> set ms" "st' = txn_rollback ck fresh (rollback_create env st2 i s1)"
  | (created) tm st1 s1 p1 h v tm' hs where
      "writes env ck fresh i 0 input (begun env ck i Insert (payload_of env input) st tm, ModalityStatus_default, no_parts)
         (written_names input) (st1, s1, p1)"
      "vs_append (ck_version ck) (hs_temporal st) i (create_snapshot (ck_snapshot ck) i input s1) ''system'' (Some ''Initial creation'') = (h, Inr v)"
      "settled (hs_txn st) fresh Committed tm'"
      "hs = \<lparr>hx_id = i, hx_created_at = ck_now ck, hx_modified_at = ck_now ck, hx_version = v, hx_modality_status = s1\<lparr>ms_temporal := True\<rparr>\<rparr>"
      "st' = wal_committed env ck i (st1\<lparr>hs_temporal := h, hs_txn := tm', hs_hexads := AList.update i hs (hs_hexads st)\<rparr>)"
      "r = Inr (hexad_of i hs 1 p1)"
proof -
  obtain tm1 t where b: "TM_begin fresh (ck_begin ck) (hs_txn st) ReadCommitted = (tm1, t)" by fastforce
  obtain tm q where a: "acquire_all (he_iter env) tm1 t i (modality_names input) = (tm, q)" by fastforce
  from lock_phase [OF assms(2,3) b a names_are_modalities(1)]
  have t: "t = fresh" and w: "working (hs_txn st) fresh tm" and free: "no_locks (hs_txn st) \<longrightarrow> q = None" by auto
  show thesis
  proof (cases q)
    case (Some me)
    obtain e where "st' = txn_rollback ck fresh (begun env ck i Insert (payload_of env input) st tm)" "r = Inl e"
      using assms(1) b a t Some by (cases me) (auto simp: hexad_create_def begun_def Let_def)
    with w free Some show thesis by (intro locked) auto
  next
    case None
    let ?abort = "\<lambda>st status. txn_rollback ck fresh (rollback_create env st i status)"
    from w show thesis
    proof (cases rule: write_phase [where env = env and ck = ck and i = i and version = 0 and abort = ?abort and input = input
          and op = Insert and b = "payload_of env input" and st = st and start = ModalityStatus_default and msg = "Some ''Initial creation''"])
      case run: (failed ms m st1 s1 p1 st2 e)
      have "hexad_create env ck i fresh st input = (?abort st2 s1, Inl e)"
        using b a t None run(1) [unfolded begun_def] by (simp add: hexad_create_def Let_def)
      with assms(1) run w show thesis by (intro failed [OF _ w run(2)]) auto
    next
      case run: (written st1 s1 p1 h v tm')
      have "hexad_create env ck i fresh st input =
        (let hs = \<lparr>hx_id = i, hx_created_at = ck_now ck, hx_modified_at = ck_now ck, hx_version = v, hx_modality_status = s1\<lparr>ms_temporal := True\<rparr>\<rparr>
         in (wal_committed env ck i (st1\<lparr>hs_temporal := h, hs_txn := tm', hs_hexads := AList.update i hs (hs_hexads st)\<rparr>), Inr (hexad_of i hs 1 p1)))"
        using b a t None run(1) [unfolded begun_def] run(3-6) by (simp add: hexad_create_def Let_def)
      with assms(1) show thesis by (intro created [OF run(2,5,7) refl]) (simp_all add: Let_def)
    qed
  qed
qed

lemma update_cases:
  assumes "hexad_update env ck fresh st i input = (st', r)" and "tm_inv (hs_txn st)" and "txn_of (hs_txn st) fresh = None"
  obtains
    (missing) "map_of (hs_hexads st) i = None" "st' = st" "r = Inl (HexadNotFound i)"
  | (locked) tm e where "r = Inl e" "working (hs_txn st) fresh tm" "\<not> no_locks (hs_txn st)"
      "st' = txn_rollback ck fresh (begun env ck i Update (payload_of env input) st tm)"
  | (failed) tm existing ms m st1 s1 p1 st2 e where "map_of (hs_hexads st) i = Some existing" "r = Inl e" "working (hs_txn st) fresh tm"
      "writes env ck fresh i (hx_version existing) input
         (begun env ck i Update (payload_of env input) st tm, hx_modality_status existing, no_parts) ms (st1, s1, p1)"
      "modality_failed env ck i input m st1 e st2" "m \<notin> set ms" "st' = txn_rollback ck fresh st2"
  | (updated) tm existing st1 s1 p1 h v tm' hs where "map_of (hs_hexads st) i = Some existing"
      "writes env ck fresh i (hx_version existing) input
         (begun env ck i Update (payload_of env input) st tm, hx_modality_status existing, no_parts) (written_names input) (st1, s1, p1)"
      "vs_append (ck_version ck) (hs_temporal st) i (create_snapshot (ck_snapshot ck) i input s1) ''system'' (Some ''Update'') = (h, Inr v)"
      "settled (hs_txn st) fresh Committed tm'"
      "hs = \<lparr>hx_id = i, hx_created_at = hx_created_at existing, hx_modified_at = ck_now ck, hx_version = v, hx_modality_status = s1\<rparr>"
      "st' = wal_committed env ck i (st1\<lparr>hs_temporal := h, hs_txn := tm', hs_hexads := AList.update i hs (hs_hexads st)\<rparr>)"
      "r = Inr (hexad_of i hs v p1)"
proof (cases "map_of (hs_hexads st) i")
  case None
  with assms(1) have "st' = st" "r = Inl (HexadNotFound i)" by (simp_all add: hexad_update_def)
  with None show thesis by (rule missing)
next
  case ex: (Some existing)
  obtain tm1 t where b: "TM_begin fresh (ck_begin ck) (hs_txn st) ReadCommitted = (tm1, t)" by fastforce
  obtain tm q where a: "acquire_all (he_iter env) tm1 t i (modality_names input) = (tm, q)" by fastforce
  from lock_phase [OF assms(2,3) b a names_are_modalities(1)]
  have t: "t = fresh" and w: "working (hs_txn st) fresh tm" and free: "no_locks (hs_txn st) \<longrightarrow> q = None" by auto
  show thesis
  proof (cases q)
    case (Some me)
    obtain e where "st' = txn_rollback ck fresh (begun env ck i Update (payload_of env input) st tm)" "r = Inl e"
      using assms(1) ex b a t Some by (cases me) (auto simp: hexad_update_def begun_def Let_def)
    with w free Some show thesis by (intro locked) auto
  next
    case None
    let ?abort = "\<lambda>st _. txn_rollback ck fresh st"
    from w show thesis
    proof (cases rule: write_phase [where env = env and ck = ck and i = i and version = "hx_version existing" and abort = ?abort and input = input
          and op = Update and b = "payload_of env input" and st = st and start = "hx_modality_status existing" and msg = "Some ''Update''"])
      case run: (failed ms m st1 s1 p1 st2 e)
      have "hexad_update env ck fresh st i input = (txn_rollback ck fresh st2, Inl e)"
        using ex b a t None run(1) [unfolded begun_def] by (simp add: hexad_update_def Let_def)
      with assms(1) run w show thesis by (intro failed [OF ex _ w run(2)]) auto
    next
      case run: (written st1 s1 p1 h v tm')
      have "hexad_update env ck fresh st i input =
        (let hs = \<lparr>hx_id = i, hx_created_at = hx_created_at existing, hx_modified_at = ck_now ck, hx_version = v, hx_modality_status = s1\<rparr>
         in (wal_committed env ck i (st1\<lparr>hs_temporal := h, hs_txn := tm', hs_hexads := AList.update i hs (hs_hexads st)\<rparr>), Inr (hexad_of i hs v p1)))"
        using ex b a t None run(1) [unfolded begun_def] run(3-6) by (simp add: hexad_update_def Let_def)
      with assms(1) show thesis by (intro updated [OF ex run(2,5,7) refl]) (simp_all add: Let_def)
    qed
  qed
qed

section \<open>Create, then read\<close>

text \<open>What the input says, part by part.\<close>

definition from_input :: "HexadId \<Rightarrow> ('f, 'g) HexadInput \<Rightarrow> string list \<Rightarrow> ('f, 'g) hexad_parts \<Rightarrow> bool" where
  "from_input i input ms p \<longleftrightarrow>
    (''vector'' \<in> set ms \<longrightarrow> hp_embedding p = map_option (\<lambda>x. Embedding_new i (vi_embedding x)) (hi_vector input))
    \<and> (''document'' \<in> set ms \<longrightarrow> hp_document p =
         map_option (\<lambda>x. \<lparr>dc_id = i, dc_title = di_title x, dc_body = di_body x, dc_fields = di_fields x, dc_metadata = Map.empty\<rparr>) (hi_document input))
    \<and> (''tensor'' \<in> set ms \<longrightarrow> map_option (\<lambda>y. (tn_id y, tn_shape y, tn_data y)) (hp_tensor p) =
         map_option (\<lambda>x. (i, ti_shape x, ti_data x)) (hi_tensor input))
    \<and> (''semantic'' \<in> set ms \<longrightarrow> map_option (\<lambda>y. (sa_entity_id y, sa_types y)) (hp_semantic p) =
         map_option (\<lambda>x. (i, mi_types x)) (hi_semantic input))
    \<and> (''spatial'' \<in> set ms \<longrightarrow> map_option (\<lambda>y. (co_latitude (sd_coordinates y), co_longitude (sd_coordinates y), sd_properties y)) (hp_spatial_data p) =
         map_option (\<lambda>x. (pi_latitude x, pi_longitude x, pi_properties x)) (hi_spatial input))"

lemma process_vector_out: "process_vector st i inp = (st', Inr x) \<Longrightarrow> x = Embedding_new i (vi_embedding inp)"
  by (auto simp: process_vector_def Let_def split: if_splits prod.splits sum.splits)

lemma process_document_out:
  "process_document env st i inp = (st', Inr d) \<Longrightarrow>
    d = \<lparr>dc_id = i, dc_title = di_title inp, dc_body = di_body inp, dc_fields = di_fields inp, dc_metadata = Map.empty\<rparr>"
  by (auto simp: process_document_def Document_new_def Let_def split: prod.splits sum.splits)

lemma process_tensor_out: "process_tensor st i inp = (st', Inr x) \<Longrightarrow> tn_id x = i \<and> tn_shape x = ti_shape inp \<and> tn_data x = ti_data inp"
  by (auto simp: process_tensor_def Tensor_new_def Let_def split: if_splits prod.splits sum.splits)

lemma process_semantic_out: "process_semantic env now st i inp = (st', Inr a) \<Longrightarrow> sa_entity_id a = i \<and> sa_types a = mi_types inp"
  by (auto simp: process_semantic_def Let_def split: prod.splits sum.splits)

lemma process_spatial_out:
  "process_spatial env st i inp = (st', Inr d) \<Longrightarrow> co_latitude (sd_coordinates d) = pi_latitude inp
    \<and> co_longitude (sd_coordinates d) = pi_longitude inp \<and> sd_properties d = pi_properties inp"
  by (auto simp: process_spatial_def Coordinates_new_def SpatialData_with_geometry_def Let_def split: if_splits prod.splits sum.splits)

lemmas process_out = process_vector_out process_document_out process_tensor_out process_semantic_out process_spatial_out

lemma from_input_step:
  assumes "modality_written env ck t i version input m (st1, s1, p1) (st, s, p)" and "from_input i input ms p1"
  shows "from_input i input (ms @ [m]) p"
  using assms by (cases rule: modality_written.cases) (simp add: from_input_def, (drule process_out, simp add: from_input_def)+, simp add: from_input_def, drule process_out, simp add: from_input_def)

lemma writes_from_input: "writes env ck t i version input (st0, s0, p0) ms (st, s, p) \<Longrightarrow> from_input i input ms p"
  by (induction rule: writes_induct) (simp add: from_input_def, rule from_input_step)

lemma written_names_mem [simp]:
  "''graph'' \<in> set (written_names input) \<longleftrightarrow> hi_graph input \<noteq> None" "''vector'' \<in> set (written_names input) \<longleftrightarrow> hi_vector input \<noteq> None"
  "''document'' \<in> set (written_names input) \<longleftrightarrow> hi_document input \<noteq> None" "''tensor'' \<in> set (written_names input) \<longleftrightarrow> hi_tensor input \<noteq> None"
  "''semantic'' \<in> set (written_names input) \<longleftrightarrow> hi_semantic input \<noteq> None"
  "''provenance'' \<in> set (written_names input) \<longleftrightarrow> hi_provenance input \<noteq> None"
  "''spatial'' \<in> set (written_names input) \<longleftrightarrow> hi_spatial input \<noteq> None"
  by (simp_all add: written_names_eq)

definition status_of :: "('f, 'g) HexadInput \<Rightarrow> ModalityStatus" where
  "status_of input =
    \<lparr>ms_graph = hi_graph input \<noteq> None, ms_vector = hi_vector input \<noteq> None, ms_tensor = hi_tensor input \<noteq> None,
     ms_semantic = hi_semantic input \<noteq> None, ms_document = hi_document input \<noteq> None, ms_temporal = True,
     ms_provenance = hi_provenance input \<noteq> None, ms_spatial = hi_spatial input \<noteq> None\<rparr>"

definition carries :: "('f, 'g) HexadInput \<Rightarrow> ('f, 'g, 'ts) Hexad \<Rightarrow> bool" where
  "carries input h \<longleftrightarrow>
    hd_embedding h = map_option (\<lambda>x. Embedding_new (hd_id h) (vi_embedding x)) (hi_vector input)
    \<and> hd_document h = map_option (\<lambda>x. \<lparr>dc_id = hd_id h, dc_title = di_title x, dc_body = di_body x, dc_fields = di_fields x,
        dc_metadata = Map.empty\<rparr>) (hi_document input)
    \<and> map_option (\<lambda>y. (tn_id y, tn_shape y, tn_data y)) (hd_tensor h) = map_option (\<lambda>x. (hd_id h, ti_shape x, ti_data x)) (hi_tensor input)
    \<and> map_option (\<lambda>y. (sa_entity_id y, sa_types y)) (hd_semantic h) = map_option (\<lambda>x. (hd_id h, mi_types x)) (hi_semantic input)
    \<and> map_option (\<lambda>y. (co_latitude (sd_coordinates y), co_longitude (sd_coordinates y), sd_properties y)) (hd_spatial_data h) =
        map_option (\<lambda>x. (pi_latitude x, pi_longitude x, pi_properties x)) (hi_spatial input)"

lemma carries_hexad_of:
  assumes "from_input i input (written_names input) p" and "read_back i (written_names input) st no_parts st1 p"
  shows "carries input (hexad_of i hs n p)"
proof -
  note defs = carries_def hexad_of_def from_input_def read_back_def part_ok_def no_parts_def
  have "hi_vector input = None \<Longrightarrow> hp_embedding p = None" "hi_document input = None \<Longrightarrow> hp_document p = None"
    "hi_tensor input = None \<Longrightarrow> hp_tensor p = None" "hi_semantic input = None \<Longrightarrow> hp_semantic p = None"
    "hi_spatial input = None \<Longrightarrow> hp_spatial_data p = None"
    using assms(2) by (simp_all add: defs)
  with assms(1) show ?thesis by (auto simp: carries_def hexad_of_def from_input_def)
qed

lemma marked_default: "marked (written_names input) ModalityStatus_default s \<Longrightarrow> s\<lparr>ms_temporal := True\<rparr> = status_of input"
  by (simp add: marked_def status_of_def ModalityStatus_default_def)

lemma loaded_created:
  assumes "read_back i (written_names input) st no_parts st1 p" and "hs_config st1 = hs_config st"
  shows "loaded st1 i (status_of input) = p"
  using assms unfolding read_back_def part_ok_def chain_ok_def loaded_def status_of_def no_parts_def
  by (cases p) (auto split: if_splits)

lemma update_hexads [simp]: "map_of (AList.update i hs (hs_hexads st)) = (map_of (hs_hexads st))(i \<mapsto> hs)"
  by (rule update_conv')

lemma vs_append_first:
  "vs_append now store e d a m = (store', Inr v) \<Longrightarrow> store e = None \<Longrightarrow> v = 1 \<and> length (case store' e of Some vs \<Rightarrow> vs | None \<Rightarrow> []) = 1"
  by (auto simp: vs_append_def Let_def)

lemma vs_append_other: "vs_append now store e d a m = (store', r) \<Longrightarrow> j \<noteq> e \<Longrightarrow> store' j = store j"
  by (auto simp: vs_append_def Let_def)

lemma loaded_frame [simp]:
  "loaded (wal_committed env ck i st) j s = loaded st j s" "loaded (st\<lparr>hs_temporal := h\<rparr>) j s = loaded st j s"
  "loaded (st\<lparr>hs_txn := tm\<rparr>) j s = loaded st j s" "loaded (st\<lparr>hs_hexads := hx\<rparr>) j s = loaded st j s"
  by (simp_all add: loaded_def)

text \<open>A concrete environment, an empty store and two inputs for examples; the second is refused after its embedding is written.\<close>

definition demo_hexad_env :: "(int, int, i64, unit) hexad_env" where
  "demo_hexad_env = \<lparr>he_iter = (\<lambda>xs. xs), he_graph_iter = (\<lambda>xs. xs), he_uuid = (\<lambda>t. dec_digits (unat t)), he_wal = demo_env,
     he_prov = \<lparr>pe_sha256_hex = (\<lambda>b. map (char_of \<circ> unat) b), pe_json = (\<lambda>_. []), pe_rfc3339 = (\<lambda>_. [])\<rparr>,
     he_f32 = int_floats, he_f64 = int_floats, he_regex = (\<lambda>_ _. None),
     he_tantivy = \<lparr>tv_delete_term = (\<lambda>ix _. ix), tv_add_document = (\<lambda>ix _. Inr ix), tv_commit = (\<lambda>ix. (ix, Inr ())),
       tv_search = (\<lambda>_ _ _. Inr [])\<rparr>,
     he_json = (\<lambda>_. Some []), he_to_lowercase = (\<lambda>s. s), he_rfc3339 = (\<lambda>_. [])\<rparr>"

definition demo_clock :: "i64 clock" where
  "demo_clock = \<lparr>ck_now = 0, ck_wal_intent = 0, ck_begin = 0, ck_undo = (\<lambda>_. 0), ck_annotation = 0, ck_event = 0, ck_snapshot = 0,
     ck_version = 0, ck_finish = 0, ck_wal_marker = 0, ck_wal_checkpoint = 0, ck_instants = (0, 0, 0)\<rparr>"

definition demo_hexads :: "(int, int, i64, unit) hexad_store" where
  "demo_hexads = HexadStore_new \<lparr>hc_base_iri = ''b'', hc_vector_dimension = 2, hc_require_complete = False\<rparr> SimpleGraphStore_new
     (BruteForceVectorStore_new 2 DotProduct) \<lparr>td_index = (), td_documents = Map.empty\<rparr> [] InMemorySemanticStore_new Map.empty [] []"

definition demo_input :: "(int, int) HexadInput" where
  "demo_input = with_document ''T'' ''B'' (with_embedding [1, 2] HexadInput_default)"

definition demo_bad_input :: "(int, int) HexadInput" where
  "demo_bad_input = with_tensor [2] [1] (with_embedding [1, 2] HexadInput_default)"

lemma demo_outcomes:
  "\<not> isl (snd (hexad_create demo_hexad_env demo_clock ''e'' 7 demo_hexads demo_input))"
  "isl (snd (hexad_create demo_hexad_env demo_clock ''e'' 7 demo_hexads demo_bad_input))"
  by code_simp+

lemma demo_hexads_fields [simp]:
  "hs_txn demo_hexads = TM_new" "hs_temporal demo_hexads = Map.empty" "hs_hexads demo_hexads = []"
  "vectors_of demo_hexads = Map.empty" "documents_of demo_hexads = Map.empty" "tensors_of demo_hexads = Map.empty"
  by (simp_all add: demo_hexads_def HexadStore_new_def BruteForceVectorStore_new_def)

lemma txn_of_new [simp]: "txn_of TM_new t = None"
  by (simp add: TM_new_def)

lemma created_loads:
  assumes "hexad_create env ck i fresh st input = (st', Inr h)" and "tm_inv (hs_txn st)" and "txn_of (hs_txn st) fresh = None"
    and "hs_temporal st i = None"
  shows "hexad_get st' i = Inr (Some h) \<and> hd_id h = i \<and> carries input h
    \<and> hd_status h = \<lparr>hx_id = i, hx_created_at = ck_now ck, hx_modified_at = ck_now ck, hx_version = 1, hx_modality_status = status_of input\<rparr>
    \<and> (\<forall>j. j \<noteq> i \<longrightarrow> hexad_get st' j = hexad_get st j)"
  using assms(1-3)
proof (cases rule: create_cases)
  case (created tm st1 s1 p1 hist v tm' hs)
  have kept: "others_kept i st st1" using writes_keep [OF created(1)] by simp
  have rb: "read_back i (written_names input) st no_parts st1 p1"
    using writes_read_back [OF created(1)] by (simp add: read_back_def)
  have status: "s1\<lparr>ms_temporal := True\<rparr> = status_of input" using marked_default writes_status [OF created(1)] by blast
  have first: "v = 1" "length (case hist i of Some vs \<Rightarrow> vs | None \<Rightarrow> []) = 1" using vs_append_first [OF created(2) assms(4)] by auto
  have h: "h = hexad_of i hs 1 p1" using created(6) by simp
  have "version_count st' i = 1" using first(2) by (simp add: created(5) version_count_def split: option.splits)
  moreover have "loaded st' i (status_of input) = p1"
    using loaded_created [OF rb] kept by (simp add: created(5) others_kept_def)
  ultimately have "hexad_get st' i = Inr (Some h)"
    by (simp add: hexad_get_def load_hexad_eq created(4,5) h status)
  moreover have "hexad_get st' j = hexad_get st j" if "j \<noteq> i" for j
    using kept that vs_append_other [OF created(2) that] by (intro load_other [of i]) (auto simp: created(5) others_kept_def)
  moreover have "carries input h" unfolding h by (rule carries_hexad_of [OF writes_from_input [OF created(1)] rb])
  ultimately show ?thesis by (simp add: h hexad_of_def created(4) status first)
qed simp_all

text \<open>C8: A created entity reads back as it was returned, and it is what the input said: version 1, exactly the modalities of the
  input plus temporal, the embedding, document, tensor, types and place given.  Every other entity reads as before.
\<close>

theorem create_then_get:
  assumes "hexad_create env ck i fresh st input = (st', Inr h)" and "tm_inv (hs_txn st)" and "txn_of (hs_txn st) fresh = None"
    and "hs_temporal st i = None"
  shows "hexad_get st' i = Inr (Some h) \<and> hd_id h = i \<and> carries input h
    \<and> hd_status h = \<lparr>hx_id = i, hx_created_at = ck_now ck, hx_modified_at = ck_now ck, hx_version = 1, hx_modality_status = status_of input\<rparr>
    \<and> (\<forall>j. j \<noteq> i \<longrightarrow> hexad_get st' j = hexad_get st j)"
  by (rule created_loads [OF assms])

theorem create_then_get_witness:
  "\<exists>st' h. hexad_create demo_hexad_env demo_clock ''e'' 7 demo_hexads demo_input = (st', Inr h)
     \<and> hexad_get st' ''e'' = Inr (Some h) \<and> carries demo_input h"
proof -
  obtain st' h where c: "hexad_create demo_hexad_env demo_clock ''e'' 7 demo_hexads demo_input = (st', Inr h)"
    using demo_outcomes(1) by (metis prod.collapse sum.collapse(2))
  from create_then_get [OF c] show ?thesis using c by (simp add: tm_inv_new)
qed

lemma others_kept_ext:
  assumes "others_kept i st st'"
  shows "vectors_of st' i = vectors_of st i \<Longrightarrow> vectors_of st' = vectors_of st"
    and "tensors_of st' i = tensors_of st i \<Longrightarrow> tensors_of st' = tensors_of st"
    and "documents_of st' i = documents_of st i \<Longrightarrow> documents_of st' = documents_of st"
  using assms unfolding others_kept_def fun_eq_iff by metis+

lemma others_kept_rollback: "others_kept i st st' \<Longrightarrow> others_kept i st (txn_rollback ck t (rollback_create env st' i s))"
  by (simp add: others_kept_def)



section \<open>Update, then read\<close>

definition keep_or :: "'a option \<Rightarrow> 'a option \<Rightarrow> 'a option" where
  "keep_or new old = (case new of None \<Rightarrow> old | Some x \<Rightarrow> Some x)"

lemma part_ok_keep_or:
  assumes "part_ok w old None kept part" and "flag = (flag0 \<or> w)"
  shows "(if flag then kept else None) = keep_or part (if flag0 then old else None)"
  using assms by (auto simp: part_ok_def keep_or_def split: if_splits option.splits)

lemma loaded_updated:
  assumes "read_back i (written_names input) st no_parts st1 p" and "marked (written_names input) s0 s" and "hs_config st1 = hs_config st"
  shows "loaded st1 i s =
    \<lparr>hp_graph_node = keep_or (hp_graph_node p) (hp_graph_node (loaded st i s0)),
     hp_embedding = keep_or (hp_embedding p) (hp_embedding (loaded st i s0)),
     hp_document = keep_or (hp_document p) (hp_document (loaded st i s0)),
     hp_tensor = keep_or (hp_tensor p) (hp_tensor (loaded st i s0)),
     hp_semantic = keep_or (hp_semantic p) (hp_semantic (loaded st i s0)),
     hp_provenance_chain_length = (if hi_provenance input = None then hp_provenance_chain_length (loaded st i s0)
       else hp_provenance_chain_length p),
     hp_spatial_data = keep_or (hp_spatial_data p) (hp_spatial_data (loaded st i s0))\<rparr>"
proof -
  have rb: "hp_graph_node p = (if hi_graph input \<noteq> None then Some (GraphNode_new (HexadId_to_iri i (hc_base_iri (hs_config st)))) else None)"
    "part_ok (hi_vector input \<noteq> None) (vectors_of st i) None (vectors_of st1 i) (hp_embedding p)"
    "part_ok (hi_document input \<noteq> None) (documents_of st i) None (documents_of st1 i) (hp_document p)"
    "part_ok (hi_tensor input \<noteq> None) (tensors_of st i) None (tensors_of st1 i) (hp_tensor p)"
    "part_ok (hi_semantic input \<noteq> None) (annotations_of st i) None (annotations_of st1 i) (hp_semantic p)"
    "chain_ok (hi_provenance input \<noteq> None) (chains_of st i) 0 (chains_of st1 i) (hp_provenance_chain_length p)"
    "part_ok (hi_spatial input \<noteq> None) (places_of st i) None (places_of st1 i) (hp_spatial_data p)"
    using assms(1) unfolding read_back_def no_parts_def written_names_mem hexad_parts.simps by blast+
  have m: "ms_graph s = (ms_graph s0 \<or> hi_graph input \<noteq> None)" "ms_vector s = (ms_vector s0 \<or> hi_vector input \<noteq> None)"
    "ms_document s = (ms_document s0 \<or> hi_document input \<noteq> None)" "ms_tensor s = (ms_tensor s0 \<or> hi_tensor input \<noteq> None)"
    "ms_semantic s = (ms_semantic s0 \<or> hi_semantic input \<noteq> None)" "ms_provenance s = (ms_provenance s0 \<or> hi_provenance input \<noteq> None)"
    "ms_spatial s = (ms_spatial s0 \<or> hi_spatial input \<noteq> None)"
    using assms(2) unfolding marked_def written_names_mem by blast+
  show ?thesis
    unfolding loaded_def hexad_parts.simps assms(3)
    using rb(1,6) m(1,6) part_ok_keep_or [OF rb(2) m(2)] part_ok_keep_or [OF rb(3) m(3)] part_ok_keep_or [OF rb(4) m(4)]
      part_ok_keep_or [OF rb(5) m(5)] part_ok_keep_or [OF rb(7) m(7)]
    by (intro hexad_parts.equality; simp only: hexad_parts.simps) (auto simp: keep_or_def chain_ok_def)
qed

end
