(* ===== verification/Hexad_Runs.thy ===== *)
theory Hexad_Runs
  imports Hexad_Laws
begin

text \<open>
  Update and delete of the hexad store, the locks of all three operations, and runs of operations: in every state
  reached from a new store each registered entity loads with the modalities its status lists, its version is the
  newest of its history, no lock is held, and no operation is refused for a lock.
\<close>

section \<open>Update\<close>

text \<open>C12: After an update the entity reads as before with the parts of the input replaced: the modalities of the input are the
  new ones, every other modality keeps its value, the creation time stays and the status is the one returned; other
  entities are untouched.
\<close>

theorem update_then_get:
  assumes "hexad_update env ck fresh st i input = (st', Inr h)" and "tm_inv (hs_txn st)" and "txn_of (hs_txn st) fresh = None"
  shows "\<exists>old new. hexad_get st i = Inr (Some old) \<and> hexad_get st' i = Inr (Some new) \<and> carries input h
    \<and> hd_status new = hd_status h \<and> hx_created_at (hd_status new) = hx_created_at (hd_status old)
    \<and> hd_graph_node new = keep_or (hd_graph_node h) (hd_graph_node old) \<and> hd_embedding new = keep_or (hd_embedding h) (hd_embedding old)
    \<and> hd_document new = keep_or (hd_document h) (hd_document old) \<and> hd_tensor new = keep_or (hd_tensor h) (hd_tensor old)
    \<and> hd_semantic new = keep_or (hd_semantic h) (hd_semantic old) \<and> hd_spatial_data new = keep_or (hd_spatial_data h) (hd_spatial_data old)
    \<and> hd_provenance_chain_length new =
        (if hi_provenance input = None then hd_provenance_chain_length old else hd_provenance_chain_length h)
    \<and> (\<forall>j. j \<noteq> i \<longrightarrow> hexad_get st' j = hexad_get st j)"
  using assms
proof (cases rule: update_cases)
  case (updated tm existing st1 s1 p1 hist v tm' hs)
  have kept: "others_kept i st st1" using writes_keep [OF updated(2)] by simp
  have rb: "read_back i (written_names input) st no_parts st1 p1"
    using writes_read_back [OF updated(2)] by (simp add: read_back_def)
  have config: "hs_config st1 = hs_config st" using kept by (simp add: others_kept_def)
  note now = loaded_updated [OF rb writes_status [OF updated(2)] config]
  let ?old = "hexad_of i existing (version_count st i) (loaded st i (hx_modality_status existing))"
  let ?new = "hexad_of i hs (version_count st' i) (loaded st1 i s1)"
  have "hexad_get st i = Inr (Some ?old)" by (simp add: hexad_get_def load_hexad_eq updated(1))
  moreover have "hexad_get st' i = Inr (Some ?new)"
    by (simp add: hexad_get_def load_hexad_eq updated(5,6))
  moreover have h: "h = hexad_of i hs v p1" using updated(7) by simp
  moreover have "carries input h" unfolding h by (rule carries_hexad_of [OF writes_from_input [OF updated(2)] rb])
  moreover have "hexad_get st' j = hexad_get st j" if "j \<noteq> i" for j
    using kept that vs_append_other [OF updated(3) that] by (intro load_other [of i]) (auto simp: updated(6) others_kept_def)
  ultimately show ?thesis
    unfolding h by (intro exI [of _ ?old] exI [of _ ?new] conjI) (simp_all add: hexad_of_def updated(5) now)
qed simp_all

section \<open>Delete\<close>

lemma undo_all_txn: "\<exists>tm. foldl (\<lambda>st m. txn_record_undo ck t i v m st) st ms = st\<lparr>hs_txn := tm\<rparr>"
proof (induction ms arbitrary: st)
  case Nil
  show ?case by (intro exI [of _ "hs_txn st"]) simp
next
  case (Cons m ms)
  from Cons [of "txn_record_undo ck t i v m st"] show ?case by (auto simp: txn_record_undo_def)
qed

lemma undo_all_working:
  "working tm0 t (hs_txn st) \<Longrightarrow> working tm0 t (hs_txn (foldl (\<lambda>st m. txn_record_undo ck t i v m st) st ms))"
  by (induction ms arbitrary: st) (simp_all add: txn_record_undo_def working_undo)

lemma delete_cases:
  assumes "hexad_delete env ck fresh st i = (st', r)" and "tm_inv (hs_txn st)" and "txn_of (hs_txn st) fresh = None"
  obtains
    (missing) "map_of (hs_hexads st) i = None" "st' = st" "r = Inl (HexadNotFound i)"
  | (locked) tm e where "map_of (hs_hexads st) i \<noteq> None" "r = Inl e" "working (hs_txn st) fresh tm" "\<not> no_locks (hs_txn st)"
      "st' = txn_rollback ck fresh (begun env ck i Delete [] st tm)"
  | (deleted) tm tm' st1 existing where "map_of (hs_hexads st) i = Some existing" "r = Inr ()" "settled (hs_txn st) fresh Committed tm'"
      "st1 = begun env ck i Delete [] st tm"
      "st' = wal_committed env ck i (st1\<lparr>hs_vector := fst (bf_delete (hs_vector st) i),
         hs_document := fst (doc_delete (he_tantivy env) (hs_document st) i), hs_tensor := fst (tensor_delete (hs_tensor st) i),
         hs_txn := tm', hs_hexads := AList.delete i (hs_hexads st)\<rparr>)"
proof (cases "map_of (hs_hexads st) i")
  case None
  with assms(1) have "st' = st" "r = Inl (HexadNotFound i)" by (simp_all add: hexad_delete_def)
  with None show thesis by (rule missing)
next
  case ex: (Some existing)
  let ?names = "populated_names (hx_modality_status existing)"
  obtain tm1 t where b: "TM_begin fresh (ck_begin ck) (hs_txn st) ReadCommitted = (tm1, t)" by fastforce
  obtain tm q where a: "acquire_all (he_iter env) tm1 t i ?names = (tm, q)" by fastforce
  from lock_phase [OF assms(2,3) b a names_are_modalities(2)]
  have t: "t = fresh" and w: "working (hs_txn st) fresh tm" and free: "no_locks (hs_txn st) \<longrightarrow> q = None" by auto
  show thesis
  proof (cases q)
    case (Some me)
    obtain e where "st' = txn_rollback ck fresh (begun env ck i Delete [] st tm)" "r = Inl e"
      using assms(1) ex b a t Some by (cases me) (auto simp: hexad_delete_def begun_def Let_def)
    with ex w free Some show thesis by (intro locked) auto
  next
    case None
    let ?st1 = "begun env ck i Delete [] st tm"
    let ?st2 = "foldl (\<lambda>st m. txn_record_undo ck fresh i (hx_version existing) m st) ?st1 ?names"
    have w2: "working (hs_txn st) fresh (hs_txn ?st2)" by (rule undo_all_working) (simp add: w)
    obtain tm' where c: "TM_commit (ck_finish ck) (hs_txn ?st2) fresh = (tm', Inr ())" "settled (hs_txn st) fresh Committed tm'"
      using settled_commit [OF w2, of "ck_finish ck"] by (elim exE conjE)
    from undo_all_txn [of ck fresh i "hx_version existing" ?st1 ?names] obtain T where T: "?st2 = ?st1\<lparr>hs_txn := T\<rparr>" ..
    have "hexad_delete env ck fresh st i = (wal_committed env ck i (?st1\<lparr>hs_vector := fst (bf_delete (hs_vector st) i),
         hs_document := fst (doc_delete (he_tantivy env) (hs_document st) i), hs_tensor := fst (tensor_delete (hs_tensor st) i),
         hs_txn := tm', hs_hexads := AList.delete i (hs_hexads st)\<rparr>), Inr ())"
      using ex b a t None c(1) [unfolded T] T unfolding begun_def by (simp add: hexad_delete_def Let_def)
    with assms(1) show thesis by (intro deleted [where tm = tm, OF ex _ c(2) refl]) simp_all
  qed
qed

lemma others_kept_delete:
  "others_kept i st (st\<lparr>hs_vector := fst (bf_delete (hs_vector st) i), hs_document := fst (doc_delete tv (hs_document st) i),
     hs_tensor := fst (tensor_delete (hs_tensor st) i)\<rparr>)"
  by (simp add: others_kept_def vec.delete_values docs.delete_values tens.delete_values)

text \<open>Deleting a registered entity, no lock standing in the way, succeeds and the entity is gone: it is neither read nor
  listed in the registry, its embedding, document and tensor are removed and nothing else of those stores is, its
  history stays, and every other entity reads as before.  Deleting an unknown entity is an error and changes nothing.
\<close>

theorem delete_forgets:
  assumes "hexad_delete env ck fresh st i = (st', r)" and "tm_inv (hs_txn st)" and "txn_of (hs_txn st) fresh = None"
    and "no_locks (hs_txn st)"
  shows "(if map_of (hs_hexads st) i = None then r = Inl (HexadNotFound i) \<and> st' = st
    else r = Inr () \<and> hexad_get st' i = Inr None \<and> hexad_status st' i = Inr None
      \<and> vectors_of st' = (vectors_of st)(i := None) \<and> documents_of st' = (documents_of st)(i := None)
      \<and> tensors_of st' = (tensors_of st)(i := None) \<and> hs_temporal st' = hs_temporal st
      \<and> (\<forall>j. j \<noteq> i \<longrightarrow> hexad_get st' j = hexad_get st j))"
  using assms(1-3)
proof (cases rule: delete_cases)
  case (deleted tm tm' st1 existing)
  have "hexad_get st' j = hexad_get st j" if "j \<noteq> i" for j
    using others_kept_delete [of i st "he_tantivy env"] that
    by (intro load_other [of i]) (auto simp: deleted(4,5) others_kept_def delete_conv')
  then show ?thesis
    by (simp add: deleted hexad_get_def hexad_status_def load_hexad_eq delete_conv' vec.delete_values docs.delete_values tens.delete_values)
qed (use assms(4) in auto)

section \<open>Runs\<close>

datatype ('f, 'g, 'ts) hexad_op =
    CreateHexad "'ts clock" HexadId uuid "('f, 'g) HexadInput"
  | UpdateHexad "'ts clock" uuid HexadId "('f, 'g) HexadInput"
  | DeleteHexad "'ts clock" uuid HexadId

fun op_txn :: "('f, 'g, 'ts) hexad_op \<Rightarrow> uuid" where
  "op_txn (CreateHexad ck i fresh input) = fresh"
| "op_txn (UpdateHexad ck fresh i input) = fresh"
| "op_txn (DeleteHexad ck fresh i) = fresh"

fun hexad_step ::
  "('f, 'g, 'ts, 'ix) hexad_env \<Rightarrow> ('f, 'g, 'ts, 'ix) hexad_store \<Rightarrow> ('f, 'g, 'ts) hexad_op
   \<Rightarrow> ('f, 'g, 'ts, 'ix) hexad_store \<times> (HexadError, unit) rresult" where
  "hexad_step env st (CreateHexad ck i fresh input) = apsnd (map_sum id (\<lambda>_. ())) (hexad_create env ck i fresh st input)"
| "hexad_step env st (UpdateHexad ck fresh i input) = apsnd (map_sum id (\<lambda>_. ())) (hexad_update env ck fresh st i input)"
| "hexad_step env st (DeleteHexad ck fresh i) = hexad_delete env ck fresh st i"

lemma rollback_settles: "working tm0 t (hs_txn st) \<Longrightarrow> settled tm0 t RolledBack (hs_txn (txn_rollback ck t st))"
  by (simp add: settled_rollback)

lemma failed_settles:
  assumes "writes env ck t i v input (begun env ck i op b st tm, s0, p0) ms (st1, s1, p1)" and "working tm0 t tm"
    and "modality_failed env ck i input m st1 e st2"
  shows "working tm0 t (hs_txn st2)"
  using writes_working [OF assms(1)] assms(2) failed_keeps [OF assms(3)] by simp

lemma step_settles:
  assumes "hexad_step env st op = (st', r)" and "tm_inv (hs_txn st)" and "txn_of (hs_txn st) (op_txn op) = None"
  shows "settled (hs_txn st) (op_txn op) (case r of Inr _ \<Rightarrow> Committed | Inl _ \<Rightarrow> RolledBack) (hs_txn st')
    \<or> st' = st \<and> (\<exists>i. r = Inl (HexadNotFound i) \<and> map_of (hs_hexads st) i = None)"
proof (cases op)
  case op: (CreateHexad ck i fresh input)
  obtain q where c: "hexad_create env ck i fresh st input = (st', q)" and r: "r = map_sum id (\<lambda>_. ()) q"
    using assms(1) by (cases "hexad_create env ck i fresh st input") (auto simp: op)
  from c assms(2) assms(3) [unfolded op op_txn.simps] show ?thesis
  proof (cases rule: create_cases)
    case (failed tm ms m st1 s1 p1 st2 e)
    then show ?thesis using failed_settles [OF failed(3,2,4)] by (simp add: op r settled_rollback)
  qed (simp_all add: op r settled_rollback)
next
  case op: (UpdateHexad ck fresh i input)
  obtain q where c: "hexad_update env ck fresh st i input = (st', q)" and r: "r = map_sum id (\<lambda>_. ()) q"
    using assms(1) by (cases "hexad_update env ck fresh st i input") (auto simp: op)
  from c assms(2) assms(3) [unfolded op op_txn.simps] show ?thesis
  proof (cases rule: update_cases)
    case (failed tm existing ms m st1 s1 p1 st2 e)
    then show ?thesis using failed_settles [OF failed(4,3,5)] by (simp add: op r settled_rollback)
  qed (simp_all add: op r settled_rollback)
next
  case op: (DeleteHexad ck fresh i)
  have "hexad_delete env ck fresh st i = (st', r)" using assms(1) by (simp add: op)
  from this assms(2) assms(3) [unfolded op op_txn.simps] show ?thesis
    by (cases rule: delete_cases) (simp_all add: op settled_rollback)
qed

text \<open>C11: No operation leaves a lock behind, whatever its outcome: afterwards every entity and modality has the lock holders it
  had before, the operation's transaction is committed on success and rolled back on failure, every other transaction
  is as it was, and the manager's invariant holds.  Only an operation on an unknown entity starts no transaction.
\<close>

theorem operations_return_locks:
  assumes "hexad_step env st op = (st', r)" and "tm_inv (hs_txn st)" and "txn_of (hs_txn st) (op_txn op) = None"
  shows "settled (hs_txn st) (op_txn op) (case r of Inr _ \<Rightarrow> Committed | Inl _ \<Rightarrow> RolledBack) (hs_txn st')
    \<or> st' = st \<and> (\<exists>i. r = Inl (HexadNotFound i) \<and> map_of (hs_hexads st) i = None)"
  by (rule step_settles [OF assms])

section \<open>Reachable states\<close>

text \<open>Identifiers are generated (UUIDs): a transaction and a created entity are new.\<close>

fun fresh_op :: "('f, 'g, 'ts, 'ix) hexad_store \<Rightarrow> ('f, 'g, 'ts) hexad_op \<Rightarrow> bool" where
  "fresh_op st (CreateHexad ck i fresh input) \<longleftrightarrow>
     txn_of (hs_txn st) fresh = None \<and> map_of (hs_hexads st) i = None \<and> hs_temporal st i = None"
| "fresh_op st (UpdateHexad ck fresh i input) \<longleftrightarrow> txn_of (hs_txn st) fresh = None"
| "fresh_op st (DeleteHexad ck fresh i) \<longleftrightarrow> txn_of (hs_txn st) fresh = None"

inductive hexad_reachable :: "('f, 'g, 'ts, 'ix) hexad_env \<Rightarrow> ('f, 'g, 'ts, 'ix) hexad_store \<Rightarrow> bool" for env where
  new: "hexad_reachable env (HexadStore_new config graph vector document tensor semantic temporal provenance spatial)"
| step: "hexad_reachable env st \<Longrightarrow> fresh_op st op \<Longrightarrow> hexad_step env st op = (st', r) \<Longrightarrow> hexad_reachable env st'"

text \<open>The stores hold what the status of an entity lists, and its version is in its history.\<close>

definition stored_parts :: "('f, 'g, 'ts, 'ix) hexad_store \<Rightarrow> HexadId \<Rightarrow> ModalityStatus \<Rightarrow> bool" where
  "stored_parts st i s \<longleftrightarrow> (ms_vector s \<longrightarrow> vectors_of st i \<noteq> None) \<and> (ms_document s \<longrightarrow> documents_of st i \<noteq> None)
     \<and> (ms_tensor s \<longrightarrow> tensors_of st i \<noteq> None) \<and> (ms_semantic s \<longrightarrow> annotations_of st i \<noteq> None)
     \<and> (ms_provenance s \<longrightarrow> chains_of st i \<noteq> None) \<and> (ms_spatial s \<longrightarrow> places_of st i \<noteq> None)"

definition has_version :: "('ts, 'd) VersionHistory \<Rightarrow> HexadId \<Rightarrow> u64 \<Rightarrow> bool" where
  "has_version store i v \<longleftrightarrow> (\<exists>vs. store i = Some vs \<and> v \<in> fst ` set vs)"

definition entity_ok :: "('f, 'g, 'ts, 'ix) hexad_store \<Rightarrow> HexadId \<Rightarrow> bool" where
  "entity_ok st i \<longleftrightarrow> (case map_of (hs_hexads st) i of
     None \<Rightarrow> True
   | Some s \<Rightarrow> hx_id s = i \<and> stored_parts st i (hx_modality_status s) \<and> has_version (hs_temporal st) i (hx_version s))"

definition hexad_inv :: "('f, 'g, 'ts, 'ix) hexad_store \<Rightarrow> bool" where
  "hexad_inv st \<longleftrightarrow> tm_inv (hs_txn st) \<and> no_locks (hs_txn st) \<and> (\<forall>i. entity_ok st i)"

lemma no_locks_new: "no_locks TM_new"
  by (simp add: no_locks_def TM_new_def LockTable_new_def holders_of_def)

lemma hexad_inv_new: "hexad_inv (HexadStore_new config graph vector document tensor semantic temporal provenance spatial)"
  by (simp add: hexad_inv_def HexadStore_new_def tm_inv_new no_locks_new entity_ok_def)

lemma settled_free: "settled tm0 t s tm \<Longrightarrow> no_locks tm0 \<Longrightarrow> tm_inv tm \<and> no_locks tm"
  by (simp add: settled_def no_locks_def)

lemma entity_ok_other:
  assumes "entity_ok st j" and "others_kept i st st'" and "j \<noteq> i" and "map_of (hs_hexads st') j = map_of (hs_hexads st) j"
    and "hs_temporal st' j = hs_temporal st j"
  shows "entity_ok st' j"
  using assms by (simp add: entity_ok_def stored_parts_def others_kept_def has_version_def split: option.splits)

lemma vs_append_has: "vs_append now store e d a m = (store', Inr v) \<Longrightarrow> has_version store' e v"
  by (auto simp: vs_append_def has_version_def keys_bt_insert Let_def)

lemma part_ok_stored: "part_ok w old None kept part \<Longrightarrow> (flag0 \<Longrightarrow> old \<noteq> None) \<Longrightarrow> flag = (flag0 \<or> w) \<Longrightarrow> flag \<Longrightarrow> kept \<noteq> None"
  by (auto simp: part_ok_def split: if_splits)

lemma chain_ok_stored: "chain_ok w old n0 kept n \<Longrightarrow> (flag0 \<Longrightarrow> old \<noteq> None) \<Longrightarrow> flag = (flag0 \<or> w) \<Longrightarrow> flag \<Longrightarrow> kept \<noteq> None"
  by (auto simp: chain_ok_def split: if_splits)

text \<open>Writes keep what is stored and store what they mark.\<close>

lemma writes_stored:
  assumes "writes env ck t i v input (st0, s0, no_parts) ms (st1, s1, p1)" and "stored_parts st0 i s0"
  shows "stored_parts st1 i s1"
proof -
  have rb: "part_ok (''vector'' \<in> set ms) (vectors_of st0 i) None (vectors_of st1 i) (hp_embedding p1)"
    "part_ok (''document'' \<in> set ms) (documents_of st0 i) None (documents_of st1 i) (hp_document p1)"
    "part_ok (''tensor'' \<in> set ms) (tensors_of st0 i) None (tensors_of st1 i) (hp_tensor p1)"
    "part_ok (''semantic'' \<in> set ms) (annotations_of st0 i) None (annotations_of st1 i) (hp_semantic p1)"
    "part_ok (''spatial'' \<in> set ms) (places_of st0 i) None (places_of st1 i) (hp_spatial_data p1)"
    and ch: "chain_ok (''provenance'' \<in> set ms) (chains_of st0 i) 0 (chains_of st1 i) (hp_provenance_chain_length p1)"
    using writes_read_back [OF assms(1)] unfolding read_back_def no_parts_def hexad_parts.simps by blast+
  have m: "ms_vector s1 = (ms_vector s0 \<or> ''vector'' \<in> set ms)" "ms_document s1 = (ms_document s0 \<or> ''document'' \<in> set ms)"
    "ms_tensor s1 = (ms_tensor s0 \<or> ''tensor'' \<in> set ms)" "ms_semantic s1 = (ms_semantic s0 \<or> ''semantic'' \<in> set ms)"
    "ms_spatial s1 = (ms_spatial s0 \<or> ''spatial'' \<in> set ms)" "ms_provenance s1 = (ms_provenance s0 \<or> ''provenance'' \<in> set ms)"
    using writes_status [OF assms(1)] unfolding marked_def by blast+
  have old: "ms_vector s0 \<Longrightarrow> vectors_of st0 i \<noteq> None" "ms_document s0 \<Longrightarrow> documents_of st0 i \<noteq> None"
    "ms_tensor s0 \<Longrightarrow> tensors_of st0 i \<noteq> None" "ms_semantic s0 \<Longrightarrow> annotations_of st0 i \<noteq> None"
    "ms_provenance s0 \<Longrightarrow> chains_of st0 i \<noteq> None" "ms_spatial s0 \<Longrightarrow> places_of st0 i \<noteq> None"
    using assms(2) unfolding stored_parts_def by blast+
  show ?thesis
    unfolding stored_parts_def
    using part_ok_stored [OF rb(1) old(1) m(1)] part_ok_stored [OF rb(2) old(2) m(2)] part_ok_stored [OF rb(3) old(3) m(3)]
      part_ok_stored [OF rb(4) old(4) m(4)] chain_ok_stored [OF ch old(5) m(6)] part_ok_stored [OF rb(5) old(6) m(5)]
    by (intro conjI impI)
qed

lemma process_document_err_keeps:
  assumes "process_document env st i inp = (st', Inl e)" and "documents_of st i \<noteq> None"
  shows "documents_of st' i \<noteq> None"
proof -
  let ?d = "(Document_new i (di_title inp) (di_body inp))\<lparr>dc_fields :=
      dc_fields (Document_new i (di_title inp) (di_body inp)) ++ di_fields inp\<rparr>"
  obtain x r where x: "doc_index (he_tantivy env) (hs_document st) ?d = (x, r)" by fastforce
  obtain y q where y: "doc_commit (he_tantivy env) x = (y, q)" by fastforce
  have "td_documents y = td_documents x" using doc_commit_documents [of "he_tantivy env" x] y by simp
  moreover have "td_documents x i \<noteq> None"
  proof (cases r)
    case (Inl f)
    then show ?thesis using docs.put_err [of "he_tantivy env" "hs_document st" ?d x f] x assms(2) by simp
  next
    case (Inr u)
    then show ?thesis using docs.put_ok [of "he_tantivy env" "hs_document st" ?d x] x assms(2) by simp
  qed
  moreover have "documents_of st' = td_documents x \<or> documents_of st' = td_documents y"
    using assms(1) x y by (auto simp: process_document_def Let_def split: sum.splits)
  ultimately show ?thesis by auto
qed

lemma failed_stored:
  assumes "modality_failed env ck i input m st e st'" and "stored_parts st i s"
  shows "stored_parts st' i s"
  using assms(1)
proof cases
  case (vector inp)
  obtain v where "st' = st\<lparr>hs_vector := v\<rparr>" "map_of (bf_embeddings v) = vectors_of st" using process_vector_err [OF vector(3)] by (elim exE conjE)
  with assms(2) show ?thesis by (simp add: stored_parts_def)
next
  case (document inp)
  obtain x where "st' = st\<lparr>hs_document := x\<rparr>" using process_document_err [OF document(3)] by (elim exE conjE)
  then show ?thesis using process_document_err_keeps [OF document(3)] assms(2) by (simp add: stored_parts_def)
next
  case (tensor inp)
  obtain v where "st' = st\<lparr>hs_tensor := v\<rparr>" "map_of v = tensors_of st" using process_tensor_err [OF tensor(3)] by (elim exE conjE)
  with assms(2) show ?thesis by (simp add: stored_parts_def)
next
  case (semantic inp)
  obtain v where "st' = st\<lparr>hs_semantic := v\<rparr>" "ss_annotations v = annotations_of st" using process_semantic_err [OF semantic(3)] by (elim exE conjE)
  with assms(2) show ?thesis by (simp add: stored_parts_def)
next
  case (provenance inp)
  then show ?thesis by (simp add: process_provenance_never_fails)
next
  case (spatial inp)
  obtain v where "st' = st\<lparr>hs_spatial := v\<rparr>" "map_of v = places_of st" using process_spatial_err [OF spatial(3)] by (elim exE conjE)
  with assms(2) show ?thesis by (simp add: stored_parts_def)
qed

lemma stored_mono: "stored_parts st i s \<Longrightarrow> marked ms s0 s \<Longrightarrow> stored_parts st i s0"
  by (simp add: stored_parts_def marked_def)

lemma entity_ok_locked [simp]: "entity_ok (txn_rollback ck t (begun env ck i op b st tm)) j = entity_ok st j"
  by (simp add: entity_ok_def stored_parts_def split: option.split)

lemma entities_ok_create:
  assumes "hexad_create env ck i fresh st input = (st', r)" and "hexad_inv st" and "fresh_op st (CreateHexad ck i fresh input)"
  shows "entity_ok st' j"
proof -
  have inv: "tm_inv (hs_txn st)" and old: "entity_ok st j" and new: "txn_of (hs_txn st) fresh = None" "map_of (hs_hexads st) i = None"
    using assms(2,3) by (auto simp: hexad_inv_def)
  from assms(1) inv new(1) show ?thesis
  proof (cases rule: create_cases)
    case (locked tm e)
    with old show ?thesis by simp
  next
    case (failed tm ms m st1 s1 p1 st2 e)
    note run = writes_keep [OF failed(3)] failed_keeps [OF failed(4)]
    have "others_kept i st st'"
      using run unfolding failed(6) by (intro others_kept_rollback) (auto intro: others_kept_trans)
    moreover have "hs_hexads st' = hs_hexads st" "hs_temporal st' = hs_temporal st"
      using run by (simp_all add: same_books_def failed(6))
    ultimately show ?thesis
      using new(2) entity_ok_other [OF old, of i st'] by (cases "j = i") (simp add: entity_ok_def, simp)
  next
    case (created tm st1 s1 p1 h v tm' hs)
    have kept: "others_kept i st st1" using writes_keep [OF created(1)] by simp
    show ?thesis
    proof (cases "j = i")
      case True
      have "stored_parts st1 i s1" by (rule writes_stored [OF created(1)]) (simp add: stored_parts_def ModalityStatus_default_def)
      with True vs_append_has [OF created(2)] show ?thesis by (simp add: entity_ok_def created(4,5) stored_parts_def)
    next
      case False
      with kept vs_append_other [OF created(2) False] show ?thesis
        by (intro entity_ok_other [OF old, of i]) (simp_all add: created(5) others_kept_def)
    qed
  qed
qed

lemma entities_ok_update:
  assumes "hexad_update env ck fresh st i input = (st', r)" and "hexad_inv st" and "txn_of (hs_txn st) fresh = None"
  shows "entity_ok st' j"
proof -
  have inv: "tm_inv (hs_txn st)" and old: "entity_ok st j" "entity_ok st i" using assms(2) by (auto simp: hexad_inv_def)
  from assms(1) inv assms(3) show ?thesis
  proof (cases rule: update_cases)
    case missing
    with old show ?thesis by simp
  next
    case (locked tm e)
    with old show ?thesis by simp
  next
    case (failed tm existing ms m st1 s1 p1 st2 e)
    note run = writes_keep [OF failed(4)] failed_keeps [OF failed(5)]
    have stored0: "stored_parts (begun env ck i Update (payload_of env input) st tm) i (hx_modality_status existing)"
      using old(2) failed(1) by (simp add: entity_ok_def stored_parts_def)
    have same: "hs_hexads st' = hs_hexads st" "hs_temporal st' = hs_temporal st"
      using run by (simp_all add: same_books_def failed(7))
    have kept: "others_kept i st st'" using run by (auto simp: failed(7) others_kept_def)
    have "stored_parts st2 i (hx_modality_status existing)"
      using stored_mono [OF failed_stored [OF failed(5) writes_stored [OF failed(4) stored0]] writes_status [OF failed(4)]] .
    with old same kept failed(1) show ?thesis
      by (cases "j = i") (simp add: entity_ok_def stored_parts_def failed(7), intro entity_ok_other [OF old(1)], simp_all)
  next
    case (updated tm existing st1 s1 p1 h v tm' hs)
    have kept: "others_kept i st st1" using writes_keep [OF updated(2)] by simp
    have stored0: "stored_parts (begun env ck i Update (payload_of env input) st tm) i (hx_modality_status existing)"
      using old(2) updated(1) by (simp add: entity_ok_def stored_parts_def)
    show ?thesis
    proof (cases "j = i")
      case True
      with writes_stored [OF updated(2) stored0] vs_append_has [OF updated(3)] show ?thesis
        by (simp add: entity_ok_def updated(5,6) stored_parts_def)
    next
      case False
      with kept vs_append_other [OF updated(3) False] show ?thesis
        by (intro entity_ok_other [OF old(1), of i]) (simp_all add: updated(6) others_kept_def)
    qed
  qed
qed

lemma entities_ok_delete:
  assumes "hexad_delete env ck fresh st i = (st', r)" and "hexad_inv st" and "txn_of (hs_txn st) fresh = None"
  shows "entity_ok st' j"
proof -
  have inv: "tm_inv (hs_txn st)" and old: "entity_ok st j" using assms(2) by (auto simp: hexad_inv_def)
  from assms(1) inv assms(3) show ?thesis
  proof (cases rule: delete_cases)
    case (deleted tm tm' st1 existing)
    show ?thesis
    proof (cases "j = i")
      case True
      then show ?thesis by (simp add: entity_ok_def deleted(5) delete_conv')
    next
      case False
      then show ?thesis using others_kept_delete [of i st "he_tantivy env"]
        by (intro entity_ok_other [OF old, of i]) (simp_all add: deleted(4,5) delete_conv' others_kept_def)
    qed
  qed (use old in simp_all)
qed

lemma hexad_inv_step:
  assumes "hexad_inv st" and "fresh_op st op" and "hexad_step env st op = (st', r)"
  shows "hexad_inv st'"
proof -
  have "txn_of (hs_txn st) (op_txn op) = None" using assms(2) by (cases op) auto
  with assms(1) step_settles [OF assms(3)] have "tm_inv (hs_txn st') \<and> no_locks (hs_txn st')"
    unfolding hexad_inv_def by (auto dest: settled_free)
  moreover have "entity_ok st' j" for j
    using assms entities_ok_create [OF _ assms(1)] entities_ok_update [OF _ assms(1)] entities_ok_delete [OF _ assms(1)]
    by (cases op) (auto simp: apsnd_def map_prod_def split: prod.splits)
  ultimately show ?thesis by (simp add: hexad_inv_def)
qed

lemma reachable_inv: "hexad_reachable env st \<Longrightarrow> hexad_inv st"
  by (induction rule: hexad_reachable.induct) (rule hexad_inv_new, rule hexad_inv_step)

text \<open>C9: In every state reached from a new store, over any modality stores, by operations with new identifiers, an entity that is registered loads, with
  the status the registry has, and it has exactly the modalities the status lists; the version it is at is in its
  history; an entity that is not registered is not found; and no lock is held.
\<close>

theorem reachable_entities_load:
  assumes "hexad_reachable env st"
  shows "(case map_of (hs_hexads st) i of
      None \<Rightarrow> hexad_get st i = Inr None
    | Some s \<Rightarrow> \<exists>h. hexad_get st i = Inr (Some h) \<and> hd_status h = s \<and> hx_id s = i
        \<and> ((hd_graph_node h \<noteq> None) = ms_graph (hx_modality_status s)) \<and> ((hd_embedding h \<noteq> None) = ms_vector (hx_modality_status s))
        \<and> ((hd_document h \<noteq> None) = ms_document (hx_modality_status s)) \<and> ((hd_tensor h \<noteq> None) = ms_tensor (hx_modality_status s))
        \<and> ((hd_semantic h \<noteq> None) = ms_semantic (hx_modality_status s)) \<and> ((hd_spatial_data h \<noteq> None) = ms_spatial (hx_modality_status s))
        \<and> (\<exists>v. vs_at_version (hs_temporal st) i (hx_version s) = Inr (Some v)))
    \<and> \<not> TM_is_locked (hs_txn st) i m"
proof -
  have ok: "entity_ok st i" and free: "no_locks (hs_txn st)" using reachable_inv [OF assms] by (auto simp: hexad_inv_def)
  have "\<not> TM_is_locked (hs_txn st) i m"
    using free [unfolded no_locks_def holders_of_def, THEN spec, of "\<lparr>lk_entity_id = i, lk_modality = m\<rparr>"]
    by (simp add: TM_is_locked_def LockTable_is_locked_def split: option.splits)
  moreover have "\<exists>v. vs_at_version (hs_temporal st) i x = Inr (Some v)" if "has_version (hs_temporal st) i x" for x
    using that by (auto simp: has_version_def vs_at_version_def weak_map_of_SomeI)
  ultimately show ?thesis
    using ok by (auto simp: entity_ok_def hexad_get_def load_hexad_eq hexad_of_def loaded_def stored_parts_def split: option.splits)
qed

section \<open>Operations succeed\<close>

text \<open>The input passes the checks of the modalities, and the document index works.\<close>

definition literal_properties :: "HexadSemanticInput \<Rightarrow> string \<rightharpoonup> SemanticValue" where
  "literal_properties x = (\<lambda>k. map_option (\<lambda>v. TypedLiteral v XSD_STRING) (mi_properties x k))"

definition acceptable :: "('f, 'g, 'ts, 'ix) hexad_env \<Rightarrow> ('f, 'g, 'ts, 'ix) hexad_store \<Rightarrow> ('f, 'g) HexadInput \<Rightarrow> bool" where
  "acceptable env st input \<longleftrightarrow>
    (case hi_vector input of None \<Rightarrow> True
     | Some x \<Rightarrow> length (vi_embedding x) = hc_vector_dimension (hs_config st) \<and> length (vi_embedding x) = bf_dimension (hs_vector st))
    \<and> (case hi_document input of None \<Rightarrow> True
       | Some x \<Rightarrow> commits (he_tantivy env) \<and> (\<forall>ix d. \<exists>ix'. tv_add_document (he_tantivy env) ix d = Inr ix'))
    \<and> (case hi_tensor input of None \<Rightarrow> True | Some x \<Rightarrow> of_nat (length (ti_data x)) = numel_of (ti_shape x))
    \<and> (case hi_semantic input of None \<Rightarrow> True
       | Some x \<Rightarrow> \<forall>t \<in> set (mi_types x). \<forall>typ. ss_types (hs_semantic st) t = Some typ \<longrightarrow>
           list_all (satisfies (he_regex env) (literal_properties x)) (sy_constraints typ))
    \<and> (case hi_spatial input of None \<Rightarrow> True
       | Some x \<Rightarrow> \<exists>c. Coordinates_new (he_f64 env) (pi_latitude x) (pi_longitude x) (pi_altitude x) = Inr c)"

lemma acceptable_step:
  assumes "modality_written env ck t i v input m (st, s, p) (st', s', p')"
  shows "acceptable env st' x = acceptable env st x"
proof -
  have "hs_config st' = hs_config st" using written_keeps [OF assms] by (simp add: others_kept_def)
  moreover from assms have "bf_dimension (hs_vector st') = bf_dimension (hs_vector st)"
  proof cases
    case (vector inp st1 e)
    then show ?thesis
      by (auto simp: process_vector_def bf_upsert_def Let_def split: if_splits prod.splits sum.splits)
  qed (auto dest!: process_ok)
  moreover from assms have "ss_types (hs_semantic st') = ss_types (hs_semantic st)"
  proof cases
    case (semantic inp st1 a)
    then show ?thesis
      by (auto simp: process_semantic_def annotate_def Let_def split: if_splits prod.splits sum.splits)
  qed (auto dest!: process_ok)
  ultimately show ?thesis by (simp add: acceptable_def split: option.split)
qed

lemma acceptable_writes:
  "writes env ck t i v input (st0, s0, p0) ms (st, s, p) \<Longrightarrow> acceptable env st x = acceptable env st0 x"
  by (induction rule: writes_induct) (simp_all add: acceptable_step)

lemma acceptable_document:
  assumes "commits (he_tantivy env)" and "\<forall>ix d. \<exists>ix'. tv_add_document (he_tantivy env) ix d = Inr ix'"
  shows "process_document env st i inp \<noteq> (st', Inl e)"
proof -
  let ?d = "(Document_new i (di_title inp) (di_body inp))\<lparr>dc_fields :=
      dc_fields (Document_new i (di_title inp) (di_body inp)) ++ di_fields inp\<rparr>"
  obtain x r where x: "doc_index (he_tantivy env) (hs_document st) ?d = (x, r)" by fastforce
  obtain ix' where "tv_add_document (he_tantivy env) (tv_delete_term (he_tantivy env) (td_index (hs_document st)) (dc_id ?d))
      (dc_id ?d, dc_title ?d, dc_body ?d) = Inr ix'"
    using assms(2) by blast
  with x have "r = Inr ()" by (simp add: doc_index_def Let_def del: Document.simps)
  moreover have "snd (doc_commit (he_tantivy env) x) = Inr ()"
    using assms(1) by (auto simp: commits_def doc_commit_def split: prod.splits) (metis map_sum.simps(2) id_apply snd_conv)
  ultimately show ?thesis using x by (auto simp: process_document_def Let_def split: prod.splits sum.splits)
qed

lemma acceptable_not_failed:
  assumes "acceptable env st input"
  shows "\<not> modality_failed env ck i input m st e st'"
proof
  assume "modality_failed env ck i input m st e st'"
  then show False
  proof cases
    case (vector inp)
    with assms show False
      by (auto simp: acceptable_def process_vector_def bf_upsert_def Embedding_new_def Embedding_dim_def Let_def)
  next
    case (document inp)
    have "commits (he_tantivy env)" "\<forall>ix d. \<exists>ix'. tv_add_document (he_tantivy env) ix d = Inr ix'"
      using assms document(2) by (simp_all add: acceptable_def)
    from acceptable_document [OF this] document(3) show False by blast
  next
    case (tensor inp)
    with assms show False by (auto simp: acceptable_def process_tensor_def Tensor_new_def tensor_put_def Let_def)
  next
    case (semantic inp)
    with assms have "annotate (he_regex env) (hs_semantic st) \<lparr>sa_entity_id = i, sa_types = mi_types inp, sa_properties = literal_properties inp,
        sa_provenance = AnnotationProvenance_default (fo_lit (he_f64 env) 1) (he_rfc3339 env (ck_annotation ck))\<rparr> \<noteq> (x, Inl e')" for x e'
      by (simp add: acceptable_def annotate_def semantic_validate_Nil Let_def)
    with semantic show False
      by (auto simp: process_semantic_def literal_properties_def [symmetric] Let_def split: prod.splits sum.splits)
  next
    case (provenance inp)
    then show False by (simp add: process_provenance_never_fails)
  next
    case (spatial inp)
    with assms obtain c where "Coordinates_new (he_f64 env) (pi_latitude inp) (pi_longitude inp) (pi_altitude inp) = Inr c"
      by (auto simp: acceptable_def)
    with spatial show False
      by (auto simp: process_spatial_def spatial_index_def Coordinates_new_def SpatialData_with_geometry_def Let_def split: if_splits)
  qed
qed

lemma acceptable_begun [simp]: "acceptable env (begun env ck i op b st tm) input = acceptable env st input"
  by (simp add: acceptable_def split: option.split)

lemma create_succeeds:
  assumes "tm_inv (hs_txn st)" and "no_locks (hs_txn st)" and "txn_of (hs_txn st) fresh = None" and "acceptable env st input"
  shows "\<exists>st' h. hexad_create env ck i fresh st input = (st', Inr h)"
proof -
  obtain st' r where c: "hexad_create env ck i fresh st input = (st', r)" by fastforce
  from c assms(1,3) show ?thesis
  proof (cases rule: create_cases)
    case (failed tm ms m st1 s1 p1 st2 e)
    with acceptable_writes [OF failed(3), of input] assms(4) show ?thesis using acceptable_not_failed [of env st1 input ck i m e st2] by simp
  qed (use assms(2) c in auto)
qed

lemma update_succeeds:
  assumes "tm_inv (hs_txn st)" and "no_locks (hs_txn st)" and "txn_of (hs_txn st) fresh = None" and "acceptable env st input"
    and "map_of (hs_hexads st) i \<noteq> None"
  shows "\<exists>st' h. hexad_update env ck fresh st i input = (st', Inr h)"
proof -
  obtain st' r where c: "hexad_update env ck fresh st i input = (st', r)" by fastforce
  from c assms(1,3) show ?thesis
  proof (cases rule: update_cases)
    case (failed tm existing ms m st1 s1 p1 st2 e)
    with acceptable_writes [OF failed(4), of input] assms(4) show ?thesis using acceptable_not_failed [of env st1 input ck i m e st2] by simp
  qed (use assms(2,5) c in auto)
qed

text \<open>With no lock held (as in every reachable state), creating an entity from an input that passes the checks of its
  modalities succeeds, and so does updating a registered one: no other cause of failure is left, neither locks nor
  the commit.
\<close>

theorem acceptable_input_succeeds:
  assumes "tm_inv (hs_txn st)" and "no_locks (hs_txn st)" and "txn_of (hs_txn st) fresh = None" and "acceptable env st input"
  shows "(\<exists>st' h. hexad_create env ck i fresh st input = (st', Inr h))
    \<and> (map_of (hs_hexads st) i \<noteq> None \<longrightarrow> (\<exists>st' h. hexad_update env ck fresh st i input = (st', Inr h)))"
  using create_succeeds [OF assms] update_succeeds [OF assms] by blast

section \<open>Examples\<close>

text \<open>The store with one entity, as the operations make it.\<close>

definition demo_one :: "(int, int, i64, unit) hexad_store" where
  "demo_one = fst (hexad_create demo_hexad_env demo_clock ''e'' 7 demo_hexads demo_input)"

definition demo_change :: "(int, int) HexadInput" where
  "demo_change = with_embedding [3, 4] HexadInput_default"

lemma demo_acceptable: "acceptable demo_hexad_env demo_hexads demo_input"
  by (simp add: acceptable_def demo_input_def with_document_def with_embedding_def HexadInput_default_def demo_hexads_def HexadStore_new_def
      BruteForceVectorStore_new_def demo_hexad_env_def commits_def)

lemma demo_one_reachable: "hexad_reachable demo_hexad_env demo_one"
proof (rule hexad_reachable.step)
  show "hexad_reachable demo_hexad_env demo_hexads" unfolding demo_hexads_def by (rule hexad_reachable.new)
  show "fresh_op demo_hexads (CreateHexad demo_clock ''e'' 7 demo_input)" by simp
  show "hexad_step demo_hexad_env demo_hexads (CreateHexad demo_clock ''e'' 7 demo_input) =
      (demo_one, map_sum id (\<lambda>_. ()) (snd (hexad_create demo_hexad_env demo_clock ''e'' 7 demo_hexads demo_input)))"
    by (simp add: demo_one_def apsnd_def map_prod_def split: prod.split)
qed

lemma demo_one_facts:
  "Option.is_none (txn_of (hs_txn demo_one) 8)" "\<not> Option.is_none (map_of (hs_hexads demo_one) ''e'')"
  "\<not> isl (snd (hexad_update demo_hexad_env demo_clock 8 demo_one ''e'' demo_change))"
  by code_simp+

lemma demo_one_inv: "tm_inv (hs_txn demo_one)" "no_locks (hs_txn demo_one)" "txn_of (hs_txn demo_one) 8 = None"
  "map_of (hs_hexads demo_one) ''e'' \<noteq> None"
  using reachable_inv [OF demo_one_reachable] demo_one_facts(1,2) by (auto simp: hexad_inv_def Option.is_none_def)

text \<open>
  An update that fails is not undone: the embedding written before the tensor was refused stays in the vector store, and
  the entity reads with it.
\<close>

definition demo_bad_change :: "(int, int) HexadInput" where
  "demo_bad_change = with_tensor [2] [1] (with_embedding [3, 4] HexadInput_default)"

lemma failed_update_half_applied:
  "isl (snd (hexad_update demo_hexad_env demo_clock 8 demo_one ''e'' demo_bad_change))"
  "map_option em_vector (vectors_of demo_one ''e'') = Some [1, 2]"
  "map_option em_vector (vectors_of (fst (hexad_update demo_hexad_env demo_clock 8 demo_one ''e'' demo_bad_change)) ''e'') = Some [3, 4]"
  by code_simp+

text \<open>A delete leaves the graph edges, annotation, provenance and place of the entity behind.\<close>

lemma delete_leaves_data:
  assumes "hexad_delete env ck fresh st i = (st', Inr ())" and "tm_inv (hs_txn st)" and "txn_of (hs_txn st) fresh = None"
  shows "hs_graph st' = hs_graph st \<and> hs_semantic st' = hs_semantic st \<and> hs_provenance st' = hs_provenance st \<and> hs_spatial st' = hs_spatial st"
  using assms by (cases rule: delete_cases) simp_all

theorem update_then_get_witness:
  "\<exists>st' h new. hexad_update demo_hexad_env demo_clock 8 demo_one ''e'' demo_change = (st', Inr h)
     \<and> hexad_get st' ''e'' = Inr (Some new) \<and> carries demo_change h \<and> hd_status new = hd_status h"
proof -
  obtain st' h where c: "hexad_update demo_hexad_env demo_clock 8 demo_one ''e'' demo_change = (st', Inr h)"
    using demo_one_facts(3) by (metis prod.collapse sum.collapse(2))
  from update_then_get [OF c demo_one_inv(1,3)] c show ?thesis by blast
qed

theorem delete_forgets_witness:
  "\<exists>st'. hexad_delete demo_hexad_env demo_clock 8 demo_one ''e'' = (st', Inr ()) \<and> hexad_get st' ''e'' = Inr None"
proof -
  obtain st' r where d: "hexad_delete demo_hexad_env demo_clock 8 demo_one ''e'' = (st', r)" by fastforce
  from delete_forgets [OF d demo_one_inv(1,3,2)] demo_one_inv(4) d show ?thesis by simp
qed

theorem operations_return_locks_witness:
  "\<exists>st' r. hexad_step demo_hexad_env demo_one (DeleteHexad demo_clock 8 ''e'') = (st', r)
     \<and> (settled (hs_txn demo_one) 8 (case r of Inr _ \<Rightarrow> Committed | Inl _ \<Rightarrow> RolledBack) (hs_txn st') \<or> st' = demo_one)"
proof -
  obtain st' r where d: "hexad_step demo_hexad_env demo_one (DeleteHexad demo_clock 8 ''e'') = (st', r)" by fastforce
  from operations_return_locks [OF d demo_one_inv(1)] demo_one_inv(3) d show ?thesis by auto
qed

theorem reachable_entities_load_witness:
  "\<exists>h. hexad_get demo_one ''e'' = Inr (Some h) \<and> \<not> TM_is_locked (hs_txn demo_one) ''e'' ''vector''"
  using reachable_entities_load [OF demo_one_reachable, of "''e''" "''vector''"] demo_one_inv(4) by auto

theorem acceptable_input_succeeds_witness:
  "\<exists>st' h. hexad_create demo_hexad_env demo_clock ''e'' 7 demo_hexads demo_input = (st', Inr h)"
  using acceptable_input_succeeds [OF _ _ _ demo_acceptable, of 7 demo_clock "''e''"] by (simp add: tm_inv_new no_locks_new)

end
