(* ===== verification/Hexad_Wal.thy ===== *)
theory Hexad_Wal
  imports Hexad_Runs Wal_Log
begin

text \<open>
  The hexad store over the write-ahead log: which entries an operation leaves, and what a replay after a crash shows of
  it.  The log is described by \<open>wal_state\<close> of \<open>Wal_Log\<close>.
\<close>

section \<open>Entries of an operation\<close>

fun op_id :: "('f, 'g, 'ts) hexad_op \<Rightarrow> HexadId" where
  "op_id (CreateHexad ck i fresh input) = i"
| "op_id (UpdateHexad ck fresh i input) = i"
| "op_id (DeleteHexad ck fresh i) = i"

fun op_clock :: "('f, 'g, 'ts) hexad_op \<Rightarrow> 'ts clock" where
  "op_clock (CreateHexad ck i fresh input) = ck"
| "op_clock (UpdateHexad ck fresh i input) = ck"
| "op_clock (DeleteHexad ck fresh i) = ck"

fun op_intent :: "('f, 'g, 'ts, 'ix) hexad_env \<Rightarrow> ('f, 'g, 'ts) hexad_op \<Rightarrow> u64 \<Rightarrow> 'ts WalEntry" where
  "op_intent env (CreateHexad ck i fresh input) q =
     \<lparr>we_sequence = q, we_timestamp = ck_wal_intent ck, we_operation = Insert, we_modality = All, we_entity_id = i, we_payload = payload_of env input\<rparr>"
| "op_intent env (UpdateHexad ck fresh i input) q =
     \<lparr>we_sequence = q, we_timestamp = ck_wal_intent ck, we_operation = Update, we_modality = All, we_entity_id = i, we_payload = payload_of env input\<rparr>"
| "op_intent env (DeleteHexad ck fresh i) q =
     \<lparr>we_sequence = q, we_timestamp = ck_wal_intent ck, we_operation = Delete, we_modality = All, we_entity_id = i, we_payload = []\<rparr>"

definition op_marker :: "('f, 'g, 'ts) hexad_op \<Rightarrow> u64 \<Rightarrow> 'ts WalEntry" where
  "op_marker op q = \<lparr>we_sequence = q, we_timestamp = ck_wal_marker (op_clock op), we_operation = Checkpoint, we_modality = All,
     we_entity_id = op_id op, we_payload = as_bytes ''COMMITTED''\<rparr>"

text \<open>The writer after the intent, and after the marker and the checkpoint.\<close>

definition after_intent ::
  "('f, 'g, 'ts, 'ix) hexad_env \<Rightarrow> ('f, 'g, 'ts) hexad_op \<Rightarrow> wal_fs \<times> WalWriter \<Rightarrow> wal_fs \<times> WalWriter" where
  "after_intent env op = (\<lambda>(fs, w). case WalWriter_append (he_wal env) (fst (ck_instants (op_clock op))) fs w (op_intent env op 0) of (fs, w, _) \<Rightarrow> (fs, w))"

definition after_commit ::
  "('f, 'g, 'ts, 'ix) hexad_env \<Rightarrow> ('f, 'g, 'ts) hexad_op \<Rightarrow> wal_fs \<times> WalWriter \<Rightarrow> wal_fs \<times> WalWriter" where
  "after_commit env op = (\<lambda>(fs, w).
    case WalWriter_append (he_wal env) (fst (snd (ck_instants (op_clock op)))) fs w (op_marker op 0) of (fs, w, _) \<Rightarrow>
    case WalWriter_checkpoint (he_wal env) (ck_wal_checkpoint (op_clock op)) (snd (snd (ck_instants (op_clock op)))) fs w of (fs, w, _) \<Rightarrow> (fs, w))"

lemma wal_of_begun:
  "hs_wal (begun env ck i op b st tm) =
    map_option (\<lambda>(fs, w). case WalWriter_append (he_wal env) (fst (ck_instants ck)) fs w
        \<lparr>we_sequence = 0, we_timestamp = ck_wal_intent ck, we_operation = op, we_modality = All, we_entity_id = i, we_payload = b\<rparr> of
      (fs, w, _) \<Rightarrow> (fs, w)) (hs_wal st)"
  by (simp add: begun_def hexad_wal_append_def Let_def split: option.split prod.split)

lemma wal_of_committed:
  "hs_wal (wal_committed env ck i st) =
    map_option (\<lambda>(fs, w).
      case WalWriter_append (he_wal env) (fst (snd (ck_instants ck))) fs w
        \<lparr>we_sequence = 0, we_timestamp = ck_wal_marker ck, we_operation = Checkpoint, we_modality = All, we_entity_id = i,
         we_payload = as_bytes ''COMMITTED''\<rparr> of (fs, w, _) \<Rightarrow>
      case WalWriter_checkpoint (he_wal env) (ck_wal_checkpoint ck) (snd (snd (ck_instants ck))) fs w of (fs, w, _) \<Rightarrow> (fs, w)) (hs_wal st)"
  by (simp add: wal_committed_def hexad_wal_append_def hexad_wal_checkpoint_def Let_def split: option.split prod.split)

lemma wal_of_writes:
  "writes env ck t i v input (begun env ck i op b st tm, s0, p0) ms (st1, s1, p1) \<Longrightarrow> hs_wal st1 = hs_wal (begun env ck i op b st tm)"
  using writes_keep by (fastforce simp: same_books_def)

lemma wal_of_failed:
  "writes env ck t i v input (begun env ck i op b st tm, s0, p0) ms (st1, s1, p1) \<Longrightarrow> modality_failed env ck i input m st1 e st2 \<Longrightarrow>
    hs_wal st2 = hs_wal (begun env ck i op b st tm)"
  using wal_of_writes failed_keeps by (fastforce simp: same_books_def)

lemma wal_of_step:
  assumes "hexad_step env st op = (st', r)" and "tm_inv (hs_txn st)" and "txn_of (hs_txn st) (op_txn op) = None"
  shows "(case r of
      Inr _ \<Rightarrow> hs_wal st' = map_option (after_commit env op \<circ> after_intent env op) (hs_wal st)
    | Inl _ \<Rightarrow> hs_wal st' = map_option (after_intent env op) (hs_wal st) \<or> st' = st)"
proof (cases op)
  case op: (CreateHexad ck i fresh input)
  note ai = wal_of_begun [of env ck i Insert "payload_of env input" st]
  obtain q where c: "hexad_create env ck i fresh st input = (st', q)" and r: "r = map_sum id (\<lambda>_. ()) q"
    using assms(1) by (cases "hexad_create env ck i fresh st input") (auto simp: op)
  from c assms(2) assms(3) [unfolded op op_txn.simps] show ?thesis
  proof (cases rule: create_cases)
    case (locked tm e)
    then show ?thesis by (simp add: r ai after_intent_def op cong: prod.case_cong)
  next
    case (failed tm ms m st1 s1 p1 st2 e)
    then show ?thesis using wal_of_failed [OF failed(3,4)] by (simp add: r ai after_intent_def op)
  next
    case (created tm st1 s1 p1 h v tm' hs)
    then show ?thesis using wal_of_writes [OF created(1)]
      by (simp add: r ai after_intent_def after_commit_def op_marker_def op wal_of_committed option.map_comp comp_def)
  qed
next
  case op: (UpdateHexad ck fresh i input)
  note ai = wal_of_begun [of env ck i Update "payload_of env input" st]
  obtain q where c: "hexad_update env ck fresh st i input = (st', q)" and r: "r = map_sum id (\<lambda>_. ()) q"
    using assms(1) by (cases "hexad_update env ck fresh st i input") (auto simp: op)
  from c assms(2) assms(3) [unfolded op op_txn.simps] show ?thesis
  proof (cases rule: update_cases)
    case missing
    then show ?thesis by (simp add: r)
  next
    case (locked tm e)
    then show ?thesis by (simp add: r ai after_intent_def op)
  next
    case (failed tm existing ms m st1 s1 p1 st2 e)
    then show ?thesis using wal_of_failed [OF failed(4,5)] by (simp add: r ai after_intent_def op)
  next
    case (updated tm existing st1 s1 p1 h v tm' hs)
    then show ?thesis using wal_of_writes [OF updated(2)]
      by (simp add: r ai after_intent_def after_commit_def op_marker_def op wal_of_committed option.map_comp comp_def)
  qed
next
  case op: (DeleteHexad ck fresh i)
  have d: "hexad_delete env ck fresh st i = (st', r)" using assms(1) by (simp add: op)
  note ai = wal_of_begun [of env ck i Delete "[]" st]
  from d assms(2) assms(3) [unfolded op op_txn.simps] show ?thesis
  proof (cases rule: delete_cases)
    case missing
    then show ?thesis by simp
  next
    case (locked tm e)
    then show ?thesis by (simp add: ai after_intent_def op)
  next
    case (deleted tm tm' st1 existing)
    then show ?thesis
      by (simp add: ai after_intent_def after_commit_def op_marker_def op wal_of_committed option.map_comp comp_def)
  qed
qed

section \<open>The log after an operation\<close>

definition wf_op_entries :: "('f, 'g, 'ts, 'ix) hexad_env \<Rightarrow> ('f, 'g, 'ts) hexad_op \<Rightarrow> bool" where
  "wf_op_entries env op \<longleftrightarrow> wf_entry (he_wal env) (op_intent env op 0) \<and> wf_entry (he_wal env) (op_marker op 0)
    \<and> wf_op (he_wal env) (OpCheckpoint (ck_wal_checkpoint (op_clock op)) 0)"

lemma op_intent_seq [simp]: "(op_intent env op q)\<lparr>we_sequence := q'\<rparr> = op_intent env op q'"
  by (cases op) simp_all

lemma op_marker_seq [simp]: "(op_marker op q)\<lparr>we_sequence := q'\<rparr> = op_marker op q'"
  by (simp add: op_marker_def)

lemma wal_state_intent:
  assumes "wal_state (he_wal env) log n fs w" and "wf_op_entries env op" and "unat (ww_next_sequence w) + 1 < 2 ^ 64"
    and "after_intent env op (fs, w) = (fs', w')"
  obtains n' where "wal_state (he_wal env) (log @ [op_intent env op (ww_next_sequence w)]) n' fs' w'" "n \<le> n'"
    "ww_next_sequence w' = ww_next_sequence w + 1"
proof -
  obtain q where app: "WalWriter_append (he_wal env) (fst (ck_instants (op_clock op))) fs w (op_intent env op 0) = (fs', w', q)"
    using assms(4) by (auto simp: after_intent_def split: prod.splits)
  have wf: "wf_entry (he_wal env) (op_intent env op 0)" using assms(2) by (simp add: wf_op_entries_def)
  from wal_state_append [OF assms(1) wf assms(3) app] that show thesis by (metis op_intent_seq)
qed

lemma wal_state_commit:
  assumes "wal_state (he_wal env) log n fs w" and "wf_op_entries env op" and "unat (ww_next_sequence w) + 2 < 2 ^ 64"
    and "after_commit env op (fs, w) = (fs', w')"
  shows "wal_state (he_wal env) (log @ [op_marker op (ww_next_sequence w), checkpoint_entry (ck_wal_checkpoint (op_clock op)) (ww_next_sequence w + 1)])
    (length log + 2) fs' w'"
proof -
  obtain fs1 w1 q1 where app: "WalWriter_append (he_wal env) (fst (snd (ck_instants (op_clock op)))) fs w (op_marker op 0) = (fs1, w1, q1)"
    by (metis prod_cases3)
  have cp: "\<exists>q2. WalWriter_checkpoint (he_wal env) (ck_wal_checkpoint (op_clock op)) (snd (snd (ck_instants (op_clock op)))) fs1 w1 = (fs', w', q2)"
    using assms(4) app by (auto simp: after_commit_def split: prod.splits)
  have wf: "wf_entry (he_wal env) (op_marker op 0)" using assms(2) by (simp add: wf_op_entries_def)
  have b: "unat (ww_next_sequence w) + 1 < 2 ^ 64" using assms(3) by simp
  obtain n1 where st1: "wal_state (he_wal env) (log @ [op_marker op (ww_next_sequence w)]) n1 fs1 w1"
    and next1: "ww_next_sequence w1 = ww_next_sequence w + 1"
    using wal_state_append [OF assms(1) wf b app] by (metis op_marker_seq)
  have b1: "unat (ww_next_sequence w1) + 1 < 2 ^ 64"
    using assms(3) by (simp add: next1 unat_word_ariths)
  have wfc: "wf_op (he_wal env) (OpCheckpoint (ck_wal_checkpoint (op_clock op)) (snd (snd (ck_instants (op_clock op)))))"
    using assms(2) by (simp add: wf_op_entries_def)
  from cp obtain q2 where "WalWriter_checkpoint (he_wal env) (ck_wal_checkpoint (op_clock op)) (snd (snd (ck_instants (op_clock op)))) fs1 w1 = (fs', w', q2)" ..
  from wal_state_checkpoint(1) [OF st1 wfc b1 this] show ?thesis by (simp add: next1)
qed


definition demo_logged :: "(int, int, i64, unit) hexad_store" where
  "demo_logged = (case hexad_with_wal [] 0 demo_fs Fsync demo_hexads of Inr st \<Rightarrow> st | Inl _ \<Rightarrow> demo_hexads)"

definition demo_create :: "(int, int, i64) hexad_op" where
  "demo_create = CreateHexad demo_clock ''e'' 7 demo_input"

lemma demo_logged_wal:
  obtains fs w where "hs_wal demo_logged = Some (fs, w)" "wal_state demo_env [] 0 fs w" "ww_next_sequence w = 1"
proof -
  have "fresh_dir demo_fs" by (rule demo_session_ok)
  then obtain fs w where o: "WalWriter_open_with_max_size 0 demo_fs Fsync DEFAULT_MAX_SEGMENT_SIZE = Inr (fs, w)"
    using open_fresh_returns by blast
  then have "hs_wal demo_logged = Some (fs, w)" by (simp add: demo_logged_def hexad_with_wal_def WalWriter_open_def)
  moreover have "wal_state demo_env [] 0 fs w" "ww_next_sequence w = 1"
    using wal_state_open_fresh [OF \<open>fresh_dir demo_fs\<close> [unfolded fresh_dir_def] o] by simp_all
  ultimately show thesis using that by blast
qed


end
