(* ===== verification/Float_Env.thy ===== *)
theory Float_Env
  imports Complex_Main Ranking Text
begin

text \<open>
  What the planner, the drift detector and the normalizer use of \<open>f64\<close> and of text beyond \<open>Ranking\<close> and \<open>Text\<close>: the record
  \<open>plan_env\<close> of IEEE and Unicode primitives, and \<open>rat_env\<close>, exact rationals for the examples.
\<close>

section \<open>Standard library\<close>

text \<open>
  Beyond the primitives of \<open>float_ops\<close>: decimal literals (\<open>pf_dec m k\<close> is \<open>m / 10 ^ k\<close>), \<open>max\<close>, \<open>min\<close>, \<open>log2\<close>, the \<open>as\<close> casts
  from and to integers, \<open>{:.n}\<close> formatting, case mapping of text and the \<open>Debug\<close> rendering of a string.
\<close>

record 'f plan_env = "'f float_ops" +
  pf_dec :: "int \<Rightarrow> nat \<Rightarrow> 'f"
  pf_max :: "'f \<Rightarrow> 'f \<Rightarrow> 'f"
  pf_min :: "'f \<Rightarrow> 'f \<Rightarrow> 'f"
  pf_log2 :: "'f \<Rightarrow> 'f"
  pf_infinity :: 'f
  pf_of_nat :: "nat \<Rightarrow> 'f"
  pf_to_u64 :: "'f \<Rightarrow> u64"
  pf_fmt :: "nat \<Rightarrow> 'f \<Rightarrow> string"
  pf_to_lowercase :: "string \<Rightarrow> string"
  pf_to_uppercase :: "string \<Rightarrow> string"
  pf_str_debug :: "string \<Rightarrow> string"

abbreviation pf_of_u64 :: "('f, 'z) plan_env_scheme \<Rightarrow> u64 \<Rightarrow> 'f" where
  "pf_of_u64 E w \<equiv> pf_of_nat E (unat w)"

section \<open>An environment for examples\<close>

text \<open>Exact rationals as a stand-in for floats.\<close>

definition rat_env :: "rat plan_env" where
  "rat_env = \<lparr>fo_lit = of_int, fo_add = (+), fo_sub = (-), fo_mul = (*), fo_div = (/), fo_sum = sum_list,
     fo_powi = (\<lambda>x n. x ^ nat n), fo_sqrt = id, fo_sin = id, fo_cos = id, fo_asin = id, fo_to_radians = id,
     fo_le = (\<le>), fo_lt = (<), fo_is_nan = (\<lambda>_. False), fo_display = (\<lambda>_. []),
     pf_dec = (\<lambda>m k. of_int m / 10 ^ k), pf_max = max, pf_min = min, pf_log2 = (\<lambda>_. 1), pf_infinity = 0,
     pf_of_nat = of_nat, pf_to_u64 = (\<lambda>x. of_int (max 0 \<lfloor>x\<rfloor>)), pf_fmt = (\<lambda>_ _. []),
     pf_to_lowercase = to_ascii_lowercase, pf_to_uppercase = to_ascii_uppercase, pf_str_debug = id\<rparr>"

lemma weak_order_rat: "weak_order (fo_lt rat_env)"
  by (auto simp: weak_order_def rat_env_def)

end
