(* ===== verification/Drift.thy ===== *)
theory Drift
  imports Float_Env
begin

text \<open>
  Drift detection (\<open>verisim-drift/src/lib.rs\<close>, \<open>calculator.rs\<close>): the detector with its metrics, thresholds, events and
  health check, and the score calculations.  \<open>f64\<close> arithmetic is \<open>plan_env\<close>, extended by what the calculator needs; the
  event channel is the argument \<open>send\<close> (\<open>None\<close> if there is none), the iteration order of the metrics map \<open>ord\<close>.
\<close>

section \<open>Types\<close>

record ('f, 'g) drift_env = "'f plan_env" +
  df_abs :: "'f \<Rightarrow> 'f"
  df_is_infinite :: "'f \<Rightarrow> bool"
  df_neg_infinity :: 'f
  df_of_f32 :: "'g \<Rightarrow> 'f"

datatype DriftError =
    MetricNotFound string
  | InvalidThreshold string
  | DriftChannelError string
  | DriftLockPoisoned

datatype DriftType =
    SemanticVectorDrift
  | GraphDocumentDrift
  | TemporalConsistencyDrift
  | TensorDrift
  | SchemaDrift
  | ProvenanceDrift
  | SpatialDrift
  | QualityDrift

fun DriftType_display :: "DriftType \<Rightarrow> string" where
  "DriftType_display SemanticVectorDrift = ''semantic_vector_drift''"
| "DriftType_display GraphDocumentDrift = ''graph_document_drift''"
| "DriftType_display TemporalConsistencyDrift = ''temporal_consistency_drift''"
| "DriftType_display TensorDrift = ''tensor_drift''"
| "DriftType_display SchemaDrift = ''schema_drift''"
| "DriftType_display ProvenanceDrift = ''provenance_drift''"
| "DriftType_display SpatialDrift = ''spatial_drift''"
| "DriftType_display QualityDrift = ''quality_drift''"

definition DriftType_all :: "DriftType list" where
  "DriftType_all =
    [SemanticVectorDrift, GraphDocumentDrift, TemporalConsistencyDrift, TensorDrift, SchemaDrift, ProvenanceDrift,
     SpatialDrift, QualityDrift]"

datatype DriftSeverity = SevInfo | SevWarning | SevCritical | SevEmergency

record ('f, 'ts) DriftEvent =
  de_drift_type :: DriftType
  de_severity :: DriftSeverity
  de_affected_entities :: "string list"
  de_score :: 'f
  de_detected_at :: 'ts
  de_description :: string
  de_remediation :: "string option"

definition severity_of :: "('f, 'z) plan_env_scheme \<Rightarrow> 'f \<Rightarrow> DriftSeverity" where
  "severity_of E score =
    (if fo_lt E (pf_dec E 9 1) score then SevEmergency
     else if fo_lt E (pf_dec E 7 1) score then SevCritical
     else if fo_lt E (pf_dec E 5 1) score then SevWarning
     else SevInfo)"

definition DriftEvent_new ::
  "('f, 'z) plan_env_scheme \<Rightarrow> 'ts \<Rightarrow> DriftType \<Rightarrow> 'f \<Rightarrow> string \<Rightarrow> ('f, 'ts) DriftEvent" where
  "DriftEvent_new E now drift_type score description =
    \<lparr>de_drift_type = drift_type, de_severity = severity_of E score, de_affected_entities = [], de_score = score,
     de_detected_at = now, de_description = description, de_remediation = None\<rparr>"

definition with_entities :: "('f, 'ts) DriftEvent \<Rightarrow> string list \<Rightarrow> ('f, 'ts) DriftEvent" where
  "with_entities e entities = e\<lparr>de_affected_entities := entities\<rparr>"

definition with_remediation :: "('f, 'ts) DriftEvent \<Rightarrow> string \<Rightarrow> ('f, 'ts) DriftEvent" where
  "with_remediation e remediation = e\<lparr>de_remediation := Some remediation\<rparr>"

section \<open>Thresholds\<close>

datatype 'f ThresholdPolicy = FixedThreshold 'f | AdaptiveThreshold 'f 'f

fun ThresholdPolicy_effective :: "('f, 'z) plan_env_scheme \<Rightarrow> 'f ThresholdPolicy \<Rightarrow> 'f \<Rightarrow> 'f" where
  "ThresholdPolicy_effective E (FixedThreshold v) moving_average = v"
| "ThresholdPolicy_effective E (AdaptiveThreshold base sensitivity) moving_average =
     fo_add E base (fo_mul E moving_average sensitivity)"

record 'f DriftThresholds =
  dt_semantic_vector :: 'f
  dt_graph_document :: 'f
  dt_temporal_consistency :: 'f
  dt_tensor :: 'f
  dt_schema :: 'f
  dt_provenance :: 'f
  dt_spatial :: 'f
  dt_quality :: 'f
  dt_adaptive_policies :: "DriftType \<rightharpoonup> 'f ThresholdPolicy"

definition DriftThresholds_default :: "('f, 'z) plan_env_scheme \<Rightarrow> 'f DriftThresholds" where
  "DriftThresholds_default E =
    \<lparr>dt_semantic_vector = pf_dec E 3 1, dt_graph_document = pf_dec E 4 1, dt_temporal_consistency = pf_dec E 2 1,
     dt_tensor = pf_dec E 35 2, dt_schema = pf_dec E 1 1, dt_provenance = pf_dec E 1 1, dt_spatial = pf_dec E 3 1,
     dt_quality = pf_dec E 25 2, dt_adaptive_policies = Map.empty\<rparr>"

fun fixed_threshold :: "'f DriftThresholds \<Rightarrow> DriftType \<Rightarrow> 'f" where
  "fixed_threshold t SemanticVectorDrift = dt_semantic_vector t"
| "fixed_threshold t GraphDocumentDrift = dt_graph_document t"
| "fixed_threshold t TemporalConsistencyDrift = dt_temporal_consistency t"
| "fixed_threshold t TensorDrift = dt_tensor t"
| "fixed_threshold t SchemaDrift = dt_schema t"
| "fixed_threshold t ProvenanceDrift = dt_provenance t"
| "fixed_threshold t SpatialDrift = dt_spatial t"
| "fixed_threshold t QualityDrift = dt_quality t"

definition DriftThresholds_effective :: "('f, 'z) plan_env_scheme \<Rightarrow> 'f DriftThresholds \<Rightarrow> DriftType \<Rightarrow> 'f \<Rightarrow> 'f" where
  "DriftThresholds_effective E t drift_type moving_average =
    (case dt_adaptive_policies t drift_type of
       Some policy \<Rightarrow> ThresholdPolicy_effective E policy moving_average
     | None \<Rightarrow> fixed_threshold t drift_type)"

section \<open>Metrics\<close>

record ('f, 'ts) DriftMetrics =
  dm_current_score :: 'f
  dm_moving_average :: 'f
  dm_max_score :: 'f
  dm_measurement_count :: u64
  dm_last_measured :: 'ts
  dm_history :: "('ts \<times> 'f) list"

definition DriftMetrics_default :: "('f, 'z) plan_env_scheme \<Rightarrow> 'ts \<Rightarrow> ('f, 'ts) DriftMetrics" where
  "DriftMetrics_default E now =
    \<lparr>dm_current_score = pf_dec E 0 1, dm_moving_average = pf_dec E 0 1, dm_max_score = pf_dec E 0 1,
     dm_measurement_count = 0, dm_last_measured = now, dm_history = []\<rparr>"

definition push_history :: "'a list \<Rightarrow> 'a \<Rightarrow> 'a list" where
  "push_history history x = (let h = history @ [x] in if 100 < length h then tl h else h)"

definition DriftMetrics_record :: "('f, 'z) plan_env_scheme \<Rightarrow> 'ts \<Rightarrow> ('f, 'ts) DriftMetrics \<Rightarrow> 'f \<Rightarrow> ('f, 'ts) DriftMetrics" where
  "DriftMetrics_record E now m score =
    (let alpha = pf_dec E 1 1
     in m\<lparr>dm_current_score := score,
          dm_measurement_count := dm_measurement_count m + 1,
          dm_last_measured := now,
          dm_max_score := (if fo_lt E (dm_max_score m) score then score else dm_max_score m),
          dm_moving_average := fo_add E (fo_mul E alpha score) (fo_mul E (fo_sub E (pf_dec E 10 1) alpha) (dm_moving_average m)),
          dm_history := push_history (dm_history m) (now, score)\<rparr>)"

definition exceeds_threshold :: "('f, 'z) plan_env_scheme \<Rightarrow> ('f, 'ts) DriftMetrics \<Rightarrow> 'f \<Rightarrow> bool" where
  "exceeds_threshold E m threshold \<longleftrightarrow> fo_lt E threshold (dm_current_score m)"

definition average_scores :: "('f, 'z) plan_env_scheme \<Rightarrow> ('ts \<times> 'f) list \<Rightarrow> 'f" where
  "average_scores E xs = fo_div E (fo_sum E (map snd xs)) (pf_of_nat E (length xs))"

definition trend :: "('f, 'z) plan_env_scheme \<Rightarrow> ('f, 'ts) DriftMetrics \<Rightarrow> 'f" where
  "trend E m =
    (if length (dm_history m) < 2 then pf_dec E 0 1
     else
       (let recent = take 10 (rev (dm_history m));
            older = take 10 (drop 10 (rev (dm_history m)))
        in if older = [] then pf_dec E 0 1 else fo_sub E (average_scores E recent) (average_scores E older)))"

section \<open>The detector\<close>

record ('f, 'ts) DriftDetector =
  dd_thresholds :: "'f DriftThresholds"
  dd_metrics :: "DriftType \<rightharpoonup> ('f, 'ts) DriftMetrics"
  dd_drift_score_gauge :: "(DriftType \<rightharpoonup> 'f) option"
  dd_drift_event_counter :: "(DriftType \<rightharpoonup> nat) option"

definition DriftDetector_new :: "('f, 'z) plan_env_scheme \<Rightarrow> 'ts \<Rightarrow> 'f DriftThresholds \<Rightarrow> ('f, 'ts) DriftDetector" where
  "DriftDetector_new E now thresholds =
    \<lparr>dd_thresholds = thresholds,
     dd_metrics = foldl (\<lambda>metrics t. metrics(t \<mapsto> DriftMetrics_default E now)) Map.empty DriftType_all,
     dd_drift_score_gauge = None, dd_drift_event_counter = None\<rparr>"

text \<open>\<open>register\<close> creates and registers the metric of a name, or gives the error text of the Prometheus library.\<close>

definition with_prometheus ::
  "('f, 'z) plan_env_scheme \<Rightarrow> (string \<Rightarrow> (string, unit) rresult) \<Rightarrow> ('f, 'ts) DriftDetector \<Rightarrow> (DriftError, ('f, 'ts) DriftDetector) rresult" where
  "with_prometheus E reg d =
    rbind
      (foldl (\<lambda>acc t. rbind acc (\<lambda>(gauges, counters).
          case reg (''verisim_drift_score_'' @ DriftType_display t) of
            Inl e \<Rightarrow> Inl (InvalidThreshold e)
          | Inr _ \<Rightarrow>
              (case reg (''verisim_drift_events_'' @ DriftType_display t) of
                 Inl e \<Rightarrow> Inl (InvalidThreshold e)
               | Inr _ \<Rightarrow> Inr (gauges(t \<mapsto> pf_dec E 0 1), counters(t \<mapsto> 0)))))
        (Inr (Map.empty, Map.empty)) DriftType_all)
      (\<lambda>(gauges, counters). Inr (d\<lparr>dd_drift_score_gauge := Some gauges, dd_drift_event_counter := Some counters\<rparr>))"

definition drift_record ::
  "('f, 'z) plan_env_scheme \<Rightarrow> (('f, 'ts) DriftEvent \<Rightarrow> (string, unit) rresult) option \<Rightarrow> 'ts \<Rightarrow> ('f, 'ts) DriftDetector
    \<Rightarrow> DriftType \<Rightarrow> 'f \<Rightarrow> string list \<Rightarrow> ('f, 'ts) DriftDetector \<times> (DriftError, ('f, 'ts) DriftEvent option) rresult" where
  "drift_record E send now d drift_type score entities =
    (let d = d\<lparr>dd_metrics := (case dd_metrics d drift_type of
                 Some m \<Rightarrow> (dd_metrics d)(drift_type \<mapsto> DriftMetrics_record E now m score)
               | None \<Rightarrow> dd_metrics d)\<rparr>;
         d = d\<lparr>dd_drift_score_gauge := map_option (\<lambda>g. if g drift_type = None then g else g(drift_type \<mapsto> score)) (dd_drift_score_gauge d)\<rparr>;
         moving_avg = (case dd_metrics d drift_type of Some m \<Rightarrow> dm_moving_average m | None \<Rightarrow> pf_dec E 0 1);
         threshold = DriftThresholds_effective E (dd_thresholds d) drift_type moving_avg
     in if fo_lt E threshold score then
          (let event = with_entities (DriftEvent_new E now drift_type score
                 (DriftType_display drift_type @ '' detected with score '' @ pf_fmt E 3 score @ '' (threshold: '' @ pf_fmt E 3 threshold @ '')'')) entities;
               d = d\<lparr>dd_drift_event_counter := map_option (\<lambda>c. case c drift_type of Some n \<Rightarrow> c(drift_type \<mapsto> n + 1) | None \<Rightarrow> c) (dd_drift_event_counter d)\<rparr>
           in case send of
                Some f \<Rightarrow> (case f event of Inl e \<Rightarrow> (d, Inl (DriftChannelError e)) | Inr _ \<Rightarrow> (d, Inr (Some event)))
              | None \<Rightarrow> (d, Inr (Some event)))
        else (d, Inr None))"

datatype HealthStatus = Healthy | HealthWarning | Degraded | HealthCritical

record ('f, 'ts) DriftHealthStatus =
  dh_status :: HealthStatus
  dh_worst_drift_type :: DriftType
  dh_worst_score :: 'f
  dh_checked_at :: 'ts

definition health_of :: "('f, 'z) plan_env_scheme \<Rightarrow> 'f \<Rightarrow> HealthStatus" where
  "health_of E worst_score =
    (if fo_lt E (pf_dec E 9 1) worst_score then HealthCritical
     else if fo_lt E (pf_dec E 7 1) worst_score then Degraded
     else if fo_lt E (pf_dec E 5 1) worst_score then HealthWarning
     else Healthy)"

definition health_check ::
  "('f, 'z) plan_env_scheme \<Rightarrow> DriftType list \<Rightarrow> 'ts \<Rightarrow> ('f, 'ts) DriftDetector \<Rightarrow> ('f, 'ts) DriftHealthStatus" where
  "health_check E ord now d =
    (let (worst_score, worst_type) =
       foldl (\<lambda>(worst_score, worst_type) t.
           case dd_metrics d t of
             Some m \<Rightarrow> if fo_lt E worst_score (dm_current_score m) then (dm_current_score m, t) else (worst_score, worst_type)
           | None \<Rightarrow> (worst_score, worst_type))
         (pf_dec E 0 1, QualityDrift) ord
     in \<lparr>dh_status = health_of E worst_score, dh_worst_drift_type = worst_type, dh_worst_score = worst_score,
         dh_checked_at = now\<rparr>)"

section \<open>The calculator\<close>

definition clamp01 :: "('f, 'z) plan_env_scheme \<Rightarrow> 'f \<Rightarrow> 'f" where
  "clamp01 E x =
    (if fo_lt E x (pf_dec E 0 1) then pf_dec E 0 1 else if fo_lt E (pf_dec E 10 1) x then pf_dec E 10 1 else x)"

definition cosine_similarity_f32 :: "('f, 'g, 'z) drift_env_scheme \<Rightarrow> 'g list \<Rightarrow> 'g list \<Rightarrow> 'f" where
  "cosine_similarity_f32 E a b =
    (if length a \<noteq> length b \<or> a = [] then pf_dec E 0 1
     else
       (let dot = fo_sum E (map (\<lambda>(x, y). fo_mul E (df_of_f32 E x) (df_of_f32 E y)) (zip a b));
            norm_a = fo_sqrt E (fo_sum E (map (\<lambda>x. fo_powi E (df_of_f32 E x) 2) a));
            norm_b = fo_sqrt E (fo_sum E (map (\<lambda>x. fo_powi E (df_of_f32 E x) 2) b))
        in if fo_lt E (pf_dec E 0 1) norm_a \<and> fo_lt E (pf_dec E 0 1) norm_b
           then fo_div E dot (fo_mul E norm_a norm_b) else pf_dec E 0 1))"

definition semantic_vector_drift ::
  "('f, 'g, 'z) drift_env_scheme \<Rightarrow> 'g list \<Rightarrow> string list \<Rightarrow> (string \<times> 'g list) list \<Rightarrow> 'f" where
  "semantic_vector_drift E embedding semantic_types type_embeddings =
    (if semantic_types = [] \<or> type_embeddings = [] then pf_dec E 0 1
     else
       (let relevant_embeddings = map snd (filter (\<lambda>(type_iri, _). type_iri \<in> set semantic_types) type_embeddings)
        in if relevant_embeddings = [] then pf_dec E 0 1
           else
             (let total_similarity = foldl (fo_add E) (pf_dec E 0 1) (map (cosine_similarity_f32 E embedding) relevant_embeddings);
                  avg_similarity = fo_div E total_similarity (pf_of_nat E (length relevant_embeddings))
              in clamp01 E (fo_sub E (pf_dec E 10 1) avg_similarity))))"

definition graph_document_drift ::
  "('f, 'z) plan_env_scheme \<Rightarrow> string list \<Rightarrow> (string \<times> string) list \<Rightarrow> 'f" where
  "graph_document_drift E document_entities graph_relationships =
    (if document_entities = [] then pf_dec E 0 1
     else
       (let graph_targets = map snd graph_relationships;
            matched = length (filter (\<lambda>entity. list_ex (\<lambda>t. str_contains t entity \<or> str_contains entity t) graph_targets) document_entities);
            coverage = fo_div E (pf_of_nat E matched) (pf_of_nat E (length document_entities));
            extra_graph_ratio =
              (if graph_relationships \<noteq> [] then
                 fo_div E (pf_of_nat E (length (filter (\<lambda>(_, t). \<not> list_ex (\<lambda>e. str_contains t e) document_entities) graph_relationships)))
                   (pf_of_nat E (length graph_relationships))
               else pf_dec E 0 1)
        in clamp01 E (fo_div E (fo_add E (fo_sub E (pf_dec E 10 1) coverage) extra_graph_ratio) (pf_dec E 20 1))))"

fun windows2 :: "'a list \<Rightarrow> ('a \<times> 'a) list" where
  "windows2 (x # y # xs) = (x, y) # windows2 (y # xs)"
| "windows2 _ = []"

definition large_gap :: "i64 list \<Rightarrow> bool" where
  "large_gap timestamps =
    (let deltas = stable_sort (\<lambda>a b. sint a \<le> sint b) (map (\<lambda>(a, b). b - a) (windows2 timestamps))
     in 3 \<le> length deltas
        \<and> (let median = deltas ! (length deltas div 2); mx = last deltas in 0 < sint median \<and> sint (median * 10) < sint mx))"

definition temporal_consistency_drift :: "('f, 'z) plan_env_scheme \<Rightarrow> i64 list \<Rightarrow> u64 list \<Rightarrow> 'f" where
  "temporal_consistency_drift E version_timestamps version_hashes =
    (if length version_timestamps < 2 then pf_dec E 0 1
     else
       (let total_checks = pf_of_nat E (length version_timestamps - 1);
            issues = foldl (\<lambda>issues (a, b). if sint b < sint a then fo_add E issues (pf_dec E 10 1) else issues)
                       (pf_dec E 0 1) (windows2 version_timestamps);
            duplicates = length (filter (\<lambda>h. 1 < count_list version_hashes h) (remdups version_hashes));
            issues = fo_add E issues (fo_mul E (pf_of_nat E duplicates) (pf_dec E 5 1));
            issues = (if large_gap version_timestamps then fo_add E issues (pf_dec E 5 1) else issues)
        in clamp01 E (fo_div E issues (fo_add E total_checks (pf_dec E 10 1)))))"

record 'f TensorStats =
  tt_mean :: 'f
  tt_std_dev :: 'f
  tt_min :: 'f
  tt_max :: 'f
  tt_has_nan :: bool
  tt_has_inf :: bool

definition TensorStats_compute :: "('f, 'g, 'z) drift_env_scheme \<Rightarrow> 'f list \<Rightarrow> 'f TensorStats" where
  "TensorStats_compute E data =
    (let zero = pf_dec E 0 1;
         has_nan = list_ex (fo_is_nan E) data;
         has_inf = list_ex (df_is_infinite E) data;
         valid = filter (\<lambda>x. \<not> fo_is_nan E x \<and> \<not> df_is_infinite E x) data
     in if data = [] then \<lparr>tt_mean = zero, tt_std_dev = zero, tt_min = zero, tt_max = zero, tt_has_nan = False, tt_has_inf = False\<rparr>
        else if valid = [] then \<lparr>tt_mean = zero, tt_std_dev = zero, tt_min = zero, tt_max = zero, tt_has_nan = has_nan, tt_has_inf = has_inf\<rparr>
        else
          (let n = pf_of_nat E (length valid);
               mean = fo_div E (fo_sum E valid) n;
               variance = fo_div E (fo_sum E (map (\<lambda>x. fo_powi E (fo_sub E x mean) 2) valid)) n
           in \<lparr>tt_mean = mean, tt_std_dev = fo_sqrt E variance,
               tt_min = foldl (pf_min E) (pf_infinity E) valid, tt_max = foldl (pf_max E) (df_neg_infinity E) valid,
               tt_has_nan = has_nan, tt_has_inf = has_inf\<rparr>))"

definition shape_drift :: "('f, 'g, 'z) drift_env_scheme \<Rightarrow> nat list \<Rightarrow> nat list \<Rightarrow> 'f" where
  "shape_drift E expected_shape actual_shape =
    fo_div E
      (fo_sum E (map (\<lambda>(e, a). fo_div E (df_abs E (fo_sub E (pf_of_nat E e) (pf_of_nat E a))) (pf_of_nat E e)) (zip expected_shape actual_shape)))
      (pf_of_nat E (max (length expected_shape) (length actual_shape)))"

definition tensor_drift ::
  "('f, 'g, 'z) drift_env_scheme \<Rightarrow> 'f list \<Rightarrow> nat list \<Rightarrow> nat list \<Rightarrow> 'f TensorStats option \<Rightarrow> 'f" where
  "tensor_drift E tensor_data expected_shape actual_shape expected_stats =
    (let tiny = pf_dec E 1 10;
         drift_score = pf_dec E 0 1;
         drift_score =
           (if expected_shape \<noteq> actual_shape
            then fo_add E drift_score (fo_mul E (shape_drift E expected_shape actual_shape) (pf_dec E 5 1)) else drift_score);
         drift_score =
           (case expected_stats of
              None \<Rightarrow> drift_score
            | Some expected \<Rightarrow>
                (let actual = TensorStats_compute E tensor_data;
                     drift_score =
                       (if fo_lt E tiny (df_abs E (tt_mean expected))
                        then fo_add E drift_score (fo_mul E (pf_min E
                               (fo_div E (df_abs E (fo_sub E (tt_mean actual) (tt_mean expected))) (df_abs E (tt_mean expected)))
                               (pf_dec E 10 1)) (pf_dec E 2 1))
                        else drift_score);
                     drift_score =
                       (if fo_lt E tiny (tt_std_dev expected)
                        then fo_add E drift_score (fo_mul E (pf_min E
                               (fo_div E (df_abs E (fo_sub E (tt_std_dev actual) (tt_std_dev expected))) (tt_std_dev expected))
                               (pf_dec E 10 1)) (pf_dec E 2 1))
                        else drift_score)
                 in if tt_has_nan actual \<or> tt_has_inf actual then fo_add E drift_score (pf_dec E 3 1) else drift_score))
     in clamp01 E drift_score)"

definition provenance_drift :: "('f, 'z) plan_env_scheme \<Rightarrow> bool \<Rightarrow> nat \<Rightarrow> u64 option \<Rightarrow> u64 \<Rightarrow> 'f" where
  "provenance_drift E chain_valid chain_length seconds_since_last_event expected_max_gap_seconds =
    (if \<not> chain_valid then pf_dec E 10 1
     else
       (let drift_score = pf_dec E 0 1;
            drift_score = (if chain_length = 0 then fo_add E drift_score (pf_dec E 5 1) else drift_score);
            drift_score =
              (case seconds_since_last_event of
                 Some gap \<Rightarrow>
                   if 0 < expected_max_gap_seconds \<and> expected_max_gap_seconds < gap
                   then (let staleness = pf_min E (fo_sub E (fo_div E (pf_of_u64 E gap) (pf_of_u64 E expected_max_gap_seconds)) (pf_dec E 10 1)) (pf_dec E 10 1)
                         in fo_add E drift_score (fo_mul E staleness (pf_dec E 3 1)))
                   else drift_score
               | None \<Rightarrow> drift_score)
        in clamp01 E drift_score))"

definition spatial_drift :: "('f, 'z) plan_env_scheme \<Rightarrow> bool \<Rightarrow> bool \<Rightarrow> bool \<Rightarrow> bool \<Rightarrow> 'f" where
  "spatial_drift E has_coordinates has_location_mentions coordinate_matches_mentions coordinates_valid =
    (if has_coordinates \<and> \<not> coordinates_valid then pf_dec E 9 1
     else
       (let s = pf_dec E 0 1;
            s = (if has_location_mentions \<and> \<not> has_coordinates then fo_add E s (pf_dec E 4 1) else s);
            s = (if has_coordinates \<and> has_location_mentions \<and> \<not> coordinate_matches_mentions then fo_add E s (pf_dec E 5 1) else s);
            s = (if has_coordinates \<and> \<not> has_location_mentions then fo_add E s (pf_dec E 1 1) else s)
        in clamp01 E s))"

definition schema_drift :: "('f, 'z) plan_env_scheme \<Rightarrow> string list \<Rightarrow> string list \<Rightarrow> nat \<Rightarrow> nat \<Rightarrow> 'f" where
  "schema_drift E required_modalities present_modalities schema_violations total_constraints =
    (let s = pf_dec E 0 1;
         missing = length (filter (\<lambda>m. m \<notin> set present_modalities) required_modalities);
         s = (if required_modalities \<noteq> []
              then fo_add E s (fo_mul E (fo_div E (pf_of_nat E missing) (pf_of_nat E (length required_modalities))) (pf_dec E 5 1)) else s);
         s = (if 0 < total_constraints
              then fo_add E s (fo_mul E (fo_div E (pf_of_nat E schema_violations) (pf_of_nat E total_constraints)) (pf_dec E 5 1)) else s)
     in clamp01 E s)"

definition weighted :: "('f, 'z) plan_env_scheme \<Rightarrow> ('f \<times> 'f) list \<Rightarrow> 'f" where
  "weighted E weights = clamp01 E (fo_sum E (map (\<lambda>(score, weight). fo_mul E score weight) weights))"

definition quality_drift :: "('f, 'z) plan_env_scheme \<Rightarrow> 'f \<Rightarrow> 'f \<Rightarrow> 'f \<Rightarrow> 'f \<Rightarrow> 'f \<Rightarrow> 'f" where
  "quality_drift E semantic_vector graph_document temporal_consistency tensor schema =
    weighted E [(semantic_vector, pf_dec E 25 2), (graph_document, pf_dec E 25 2), (temporal_consistency, pf_dec E 20 2),
                (tensor, pf_dec E 15 2), (schema, pf_dec E 15 2)]"

definition quality_drift_octad :: "('f, 'z) plan_env_scheme \<Rightarrow> 'f \<Rightarrow> 'f \<Rightarrow> 'f \<Rightarrow> 'f \<Rightarrow> 'f \<Rightarrow> 'f \<Rightarrow> 'f \<Rightarrow> 'f" where
  "quality_drift_octad E semantic_vector graph_document temporal_consistency tensor schema provenance spatial =
    weighted E [(semantic_vector, pf_dec E 20 2), (graph_document, pf_dec E 20 2), (temporal_consistency, pf_dec E 15 2),
                (tensor, pf_dec E 10 2), (schema, pf_dec E 10 2), (provenance, pf_dec E 15 2), (spatial, pf_dec E 10 2)]"

text \<open>\<open>max_by\<close> keeps the last of the greatest scores.\<close>

definition greatest_score :: "('f, 'z) plan_env_scheme \<Rightarrow> (DriftType \<times> 'f) list \<Rightarrow> DriftType" where
  "greatest_score E scores =
    (case scores of
       [] \<Rightarrow> QualityDrift
     | x # xs \<Rightarrow> fst (foldl (\<lambda>acc y. if fo_lt E (snd y) (snd acc) then acc else y) x xs))"

definition primary_drift_type :: "('f, 'z) plan_env_scheme \<Rightarrow> 'f \<Rightarrow> 'f \<Rightarrow> 'f \<Rightarrow> 'f \<Rightarrow> 'f \<Rightarrow> DriftType" where
  "primary_drift_type E semantic_vector graph_document temporal_consistency tensor schema =
    greatest_score E [(SemanticVectorDrift, semantic_vector), (GraphDocumentDrift, graph_document),
      (TemporalConsistencyDrift, temporal_consistency), (TensorDrift, tensor), (SchemaDrift, schema)]"

definition primary_drift_type_octad :: "('f, 'z) plan_env_scheme \<Rightarrow> 'f \<Rightarrow> 'f \<Rightarrow> 'f \<Rightarrow> 'f \<Rightarrow> 'f \<Rightarrow> 'f \<Rightarrow> 'f \<Rightarrow> DriftType" where
  "primary_drift_type_octad E semantic_vector graph_document temporal_consistency tensor schema provenance spatial =
    greatest_score E [(SemanticVectorDrift, semantic_vector), (GraphDocumentDrift, graph_document),
      (TemporalConsistencyDrift, temporal_consistency), (TensorDrift, tensor), (SchemaDrift, schema),
      (ProvenanceDrift, provenance), (SpatialDrift, spatial)]"

section \<open>Scores stay between 0 and 1\<close>

definition in_unit :: "('f, 'z) plan_env_scheme \<Rightarrow> 'f \<Rightarrow> bool" where
  "in_unit E x \<longleftrightarrow> \<not> fo_lt E x (pf_dec E 0 1) \<and> \<not> fo_lt E (pf_dec E 10 1) x"

text \<open>The comparisons of the constants 0, 0.9 and 1 that IEEE arithmetic makes.\<close>

definition unit_constants :: "('f, 'z) plan_env_scheme \<Rightarrow> bool" where
  "unit_constants E \<longleftrightarrow> in_unit E (pf_dec E 0 1) \<and> in_unit E (pf_dec E 9 1) \<and> in_unit E (pf_dec E 10 1)"

lemma clamp01_in_unit: "unit_constants E \<Longrightarrow> in_unit E (clamp01 E x)"
  by (auto simp: clamp01_def in_unit_def unit_constants_def)


text \<open>A NaN compares false with every threshold, so it is recorded without an event.\<close>

lemma nan_score_raises_no_event:
  assumes "\<And>x. \<not> fo_lt E x nan"
  shows "snd (drift_record E send now d t nan entities) = Inr None"
  using assms by (simp add: drift_record_def Let_def)

definition demo_drift_env :: "(rat, rat) drift_env" where
  "demo_drift_env = plan_env.extend rat_env (drift_env.fields abs (\<lambda>_. False) 0 (\<lambda>x. x))"

text \<open>Shapes that agree on a common prefix but differ in rank give no shape drift.\<close>

lemma rank_change_unnoticed:
  "tensor_drift demo_drift_env [] [2, 3] [2, 3, 4] None = 0"
  by (simp add: tensor_drift_def shape_drift_def clamp01_def demo_drift_env_def rat_env_def plan_env.defs drift_env.defs Let_def)

section \<open>What the detector keeps\<close>

lemma push_history_last: "push_history (drop (length xs - 100) xs) x = drop (length (xs @ [x]) - 100) (xs @ [x])"
proof (cases "100 \<le> length xs")
  case True
  then have "length xs - 99 = Suc (length xs - 100)" by simp
  with True show ?thesis by (simp add: push_history_def Let_def drop_Suc tl_drop)
qed (simp add: push_history_def)

type_synonym ('f, 'ts) measurement = "'ts \<times> DriftType \<times> 'f \<times> string list"

definition record_measurement ::
  "('f, 'z) plan_env_scheme \<Rightarrow> (('f, 'ts) DriftEvent \<Rightarrow> (string, unit) rresult) option \<Rightarrow> ('f, 'ts) DriftDetector \<Rightarrow> ('f, 'ts) measurement \<Rightarrow> ('f, 'ts) DriftDetector" where
  "record_measurement E send d = (\<lambda>(now, t, score, entities). fst (drift_record E send now d t score entities))"

lemma drift_record_metrics:
  "dd_metrics (fst (drift_record E send now d t score entities)) =
    (case dd_metrics d t of Some m \<Rightarrow> (dd_metrics d)(t \<mapsto> DriftMetrics_record E now m score) | None \<Rightarrow> dd_metrics d)"
  by (simp add: drift_record_def Let_def split: option.split sum.split)

definition measurements_of :: "DriftType \<Rightarrow> ('f, 'ts) measurement list \<Rightarrow> ('ts \<times> 'f) list" where
  "measurements_of t xs = map (\<lambda>(now, _, score, _). (now, score)) (filter (\<lambda>(_, u, _, _). u = t) xs)"

definition ema :: "('f, 'z) plan_env_scheme \<Rightarrow> 'f list \<Rightarrow> 'f" where
  "ema E scores = foldl (\<lambda>avg s. fo_add E (fo_mul E (pf_dec E 1 1) s) (fo_mul E (fo_sub E (pf_dec E 10 1) (pf_dec E 1 1)) avg))
     (pf_dec E 0 1) scores"

definition metrics_follow :: "('f, 'z) plan_env_scheme \<Rightarrow> ('f, 'ts) DriftMetrics \<Rightarrow> ('ts \<times> 'f) list \<Rightarrow> bool" where
  "metrics_follow E m ms \<longleftrightarrow>
    dm_history m = drop (length ms - 100) ms
    \<and> dm_current_score m = (if ms = [] then pf_dec E 0 1 else snd (last ms))
    \<and> dm_moving_average m = ema E (map snd ms)
    \<and> dm_measurement_count m = of_nat (length ms)"

lemma metrics_follow_record:
  "metrics_follow E m ms \<Longrightarrow> metrics_follow E (DriftMetrics_record E now m score) (ms @ [(now, score)])"
  using push_history_last [of ms "(now, score)"] by (simp add: metrics_follow_def DriftMetrics_record_def ema_def Let_def)

lemma DriftDetector_new_metrics: "dd_metrics (DriftDetector_new E now thresholds) t = Some (DriftMetrics_default E now)"
  by (cases t) (simp_all add: DriftDetector_new_def DriftType_all_def)

text \<open>the detector's metrics after any sequence of measurements.  For every drift type they are those of its own
  measurements, in order: the last hundred as history, the latest score, the exponential moving average and the
  number of measurements.
\<close>

theorem drift_metrics_exact:
  "\<exists>m. dd_metrics (foldl (record_measurement E send) (DriftDetector_new E start thresholds) xs) t = Some m
    \<and> metrics_follow E m (measurements_of t xs)"
proof (induction xs rule: rev_induct)
  case Nil
  show ?case by (simp add: DriftDetector_new_metrics metrics_follow_def measurements_of_def DriftMetrics_default_def ema_def)
next
  case (snoc x xs)
  obtain now u score entities where x: "x = (now, u, score, entities)" by (cases x)
  define d where "d = foldl (record_measurement E send) (DriftDetector_new E start thresholds) xs"
  from snoc obtain m where m: "dd_metrics d t = Some m" "metrics_follow E m (measurements_of t xs)"
    unfolding d_def by blast
  have step: "foldl (record_measurement E send) (DriftDetector_new E start thresholds) (xs @ [x])
      = fst (drift_record E send now d u score entities)"
    by (simp add: record_measurement_def x d_def)
  show ?case
  proof (cases "u = t")
    case True
    have "measurements_of t (xs @ [x]) = measurements_of t xs @ [(now, score)]" by (simp add: measurements_of_def x True)
    moreover have "dd_metrics (fst (drift_record E send now d u score entities)) t = Some (DriftMetrics_record E now m score)"
      by (simp add: drift_record_metrics True m(1))
    ultimately show ?thesis unfolding step using metrics_follow_record [OF m(2)] by simp
  next
    case False
    have "measurements_of t (xs @ [x]) = measurements_of t xs" by (simp add: measurements_of_def x False)
    moreover have "dd_metrics (fst (drift_record E send now d u score entities)) t = Some m"
      using False m(1) by (simp add: drift_record_metrics split: option.split)
    ultimately show ?thesis unfolding step using m(2) by simp
  qed
qed


end
