(* ===== verification/Normalizer.thy ===== *)
theory Normalizer
  imports Drift Hexad
begin

text \<open>
  The normalizer (\<open>verisim-normalizer/src/lib.rs\<close>): strategies, the five built-in ones, and the engine that dispatches a
  drift event to the first strategy that applies.  A strategy object is the record of its trait methods; its
  clock readings are the arguments \<open>now\<close> (completion) and \<open>ms\<close> (duration).  The result channel is the argument \<open>send\<close>.
\<close>

section \<open>Types\<close>

record ('g, 'ts) norm_env = "'g plan_env" +
  ne_rfc3339 :: "'ts \<Rightarrow> string"

datatype NormalizerError =
    NormalizationFailed string string
  | StrategyNotFound string
  | NormalizerHexadError string
  | NormalizerChannelError string

fun NormalizerError_display :: "NormalizerError \<Rightarrow> string" where
  "NormalizerError_display (NormalizationFailed entity_id message) = ''Normalization failed for '' @ entity_id @ '': '' @ message"
| "NormalizerError_display (StrategyNotFound m) = ''Strategy not found: '' @ m"
| "NormalizerError_display (NormalizerHexadError m) = ''Hexad error: '' @ m"
| "NormalizerError_display (NormalizerChannelError m) = ''Channel error: '' @ m"

datatype NormalizationType = VectorRegeneration | GraphReconstruction | TemporalRepair | TensorSync | FullReconciliation

record NormalizationChange =
  nc_modality :: string
  nc_field :: string
  nc_old_value :: "string option"
  nc_new_value :: string
  nc_reason :: string

record 'ts NormalizationResult =
  nr_entity_id :: HexadId
  nr_normalization_type :: NormalizationType
  nr_success :: bool
  nr_changes :: "NormalizationChange list"
  nr_duration_ms :: u64
  nr_completed_at :: 'ts

record ('f, 'g, 'ts) NormalizationStrategy =
  sg_name :: string
  sg_applies_to :: "DriftType \<Rightarrow> bool"
  sg_normalize :: "'ts \<Rightarrow> u64 \<Rightarrow> ('f, 'g, 'ts) Hexad \<Rightarrow> ('g, 'ts) DriftEvent \<Rightarrow> (NormalizerError, 'ts NormalizationResult) rresult"

record 'g NormalizerConfig =
  nf_auto_normalize :: bool
  nf_max_concurrent :: nat
  nf_min_score :: 'g
  nf_failure_backoff_secs :: u64

definition NormalizerConfig_default :: "('g, 'z) plan_env_scheme \<Rightarrow> 'g NormalizerConfig" where
  "NormalizerConfig_default E =
    \<lparr>nf_auto_normalize = True, nf_max_concurrent = 10, nf_min_score = pf_dec E 3 1, nf_failure_backoff_secs = 60\<rparr>"

record 'ts NormalizerStatus =
  nu_running :: bool
  nu_pending_count :: nat
  nu_active_count :: nat
  nu_completed_count :: u64
  nu_failure_count :: u64
  nu_last_normalization :: "'ts option"

record ('f, 'g, 'ts) Normalizer =
  nz_config :: "'g NormalizerConfig"
  nz_strategies :: "('f, 'g, 'ts) NormalizationStrategy list"
  nz_status :: "'ts NormalizerStatus"

definition Normalizer_new :: "'g NormalizerConfig \<Rightarrow> ('f, 'g, 'ts) Normalizer" where
  "Normalizer_new config =
    \<lparr>nz_config = config, nz_strategies = [],
     nz_status = \<lparr>nu_running = False, nu_pending_count = 0, nu_active_count = 0, nu_completed_count = 0,
                  nu_failure_count = 0, nu_last_normalization = None\<rparr>\<rparr>"

definition register_strategy ::
  "('f, 'g, 'ts) Normalizer \<Rightarrow> ('f, 'g, 'ts) NormalizationStrategy \<Rightarrow> ('f, 'g, 'ts) Normalizer" where
  "register_strategy n strategy = n\<lparr>nz_strategies := nz_strategies n @ [strategy]\<rparr>"

section \<open>Dispatch\<close>

definition handle_drift ::
  "('g, 'z) plan_env_scheme \<Rightarrow> ('ts NormalizationResult \<Rightarrow> (string, unit) rresult) option \<Rightarrow> 'ts \<Rightarrow> 'ts \<Rightarrow> u64
    \<Rightarrow> ('f, 'g, 'ts) Normalizer \<Rightarrow> ('f, 'g, 'ts) Hexad \<Rightarrow> ('g, 'ts) DriftEvent
    \<Rightarrow> ('f, 'g, 'ts) Normalizer \<times> (NormalizerError, 'ts NormalizationResult option) rresult" where
  "handle_drift E send finished now ms n hexad event =
    (if fo_lt E (de_score event) (nf_min_score (nz_config n)) then (n, Inr None)
     else
       (case find (\<lambda>s. sg_applies_to s (de_drift_type event)) (nz_strategies n) of
          None \<Rightarrow> (n, Inr None)
        | Some strategy \<Rightarrow>
            (let status = nz_status n;
                 status = status\<lparr>nu_active_count := nu_active_count status + 1\<rparr>;
                 result = sg_normalize strategy finished ms hexad event;
                 status = status\<lparr>nu_active_count := nu_active_count status - 1\<rparr>;
                 status = (case result of
                    Inr _ \<Rightarrow> status\<lparr>nu_completed_count := nu_completed_count status + 1, nu_last_normalization := Some now\<rparr>
                  | Inl _ \<Rightarrow> status\<lparr>nu_failure_count := nu_failure_count status + 1\<rparr>);
                 n = n\<lparr>nz_status := status\<rparr>
             in case result of
                  Inl e \<Rightarrow> (n, Inl e)
                | Inr r \<Rightarrow>
                    (case send of
                       Some f \<Rightarrow> (case f r of Inl e \<Rightarrow> (n, Inl (NormalizerChannelError e)) | Inr _ \<Rightarrow> (n, Inr (Some r)))
                     | None \<Rightarrow> (n, Inr (Some r))))))"

section \<open>Built-in strategies\<close>

definition qt :: "string \<Rightarrow> string" where
  "qt s = CHR 0x27 # s @ [CHR 0x27]"

definition semantic_vector_normalize ::
  "('g, 'ts, 'z) norm_env_scheme \<Rightarrow> 'ts \<Rightarrow> u64 \<Rightarrow> ('f, 'g, 'ts) Hexad \<Rightarrow> ('g, 'ts) DriftEvent \<Rightarrow> (NormalizerError, 'ts NormalizationResult) rresult" where
  "semantic_vector_normalize E now ms hexad drift_event =
    (if hd_document hexad = None \<and> hd_semantic hexad = None
     then Inl (NormalizationFailed (hd_id hexad) ''Cannot regenerate vector: no document or semantic source available'')
     else
       (let old_embedding_info = (case hd_embedding hexad of Some e \<Rightarrow> dec_digits (length (em_vector e)) @ ''d vector'' | None \<Rightarrow> ''none'');
            changes1 = (case hd_document hexad of
               Some doc \<Rightarrow> [\<lparr>nc_modality = ''vector'', nc_field = ''embedding'', nc_old_value = Some old_embedding_info,
                            nc_new_value = ''regenerate from document '' @ qt (dc_title doc),
                            nc_reason = ''Semantic-vector drift score '' @ pf_fmt E 3 (de_score drift_event) @ '' '' @ em_dash
                              @ '' document is authoritative source''\<rparr>]
             | None \<Rightarrow> []);
            changes2 = (case hd_semantic hexad of
               Some sem \<Rightarrow> [\<lparr>nc_modality = ''vector'', nc_field = ''embedding_context'', nc_old_value = Some old_embedding_info,
                            nc_new_value = ''incorporate '' @ dec_digits (length (sa_types sem)) @ '' semantic types'',
                            nc_reason = ''Semantic annotations provide additional context for embedding''\<rparr>]
             | None \<Rightarrow> [])
        in Inr \<lparr>nr_entity_id = hd_id hexad, nr_normalization_type = VectorRegeneration, nr_success = True,
                nr_changes = changes1 @ changes2, nr_duration_ms = ms, nr_completed_at = now\<rparr>))"

definition SemanticVectorStrategy :: "('g, 'ts, 'z) norm_env_scheme \<Rightarrow> ('f, 'g, 'ts) NormalizationStrategy" where
  "SemanticVectorStrategy E =
    \<lparr>sg_name = ''semantic-vector-sync'', sg_applies_to = (\<lambda>t. t = SemanticVectorDrift), sg_normalize = semantic_vector_normalize E\<rparr>"

definition graph_document_changes ::
  "('g, 'ts, 'z) norm_env_scheme \<Rightarrow> ('f, 'g, 'ts) Hexad \<Rightarrow> ('g, 'ts) DriftEvent \<Rightarrow> NormalizationChange list option" where
  "graph_document_changes E hexad drift_event =
    (case (hd_document hexad, hd_graph_node hexad) of
       (Some doc, Some graph) \<Rightarrow>
         Some [\<lparr>nc_modality = ''graph'', nc_field = ''relationships'', nc_old_value = Some (''graph node IRI: '' @ gn_iri graph),
                nc_new_value = ''reconstruct from document '' @ qt (dc_title doc),
                nc_reason = ''Graph-document drift score '' @ pf_fmt E 3 (de_score drift_event) @ '' '' @ em_dash
                  @ '' document is authoritative for content''\<rparr>]
     | (Some doc, None) \<Rightarrow>
         Some [\<lparr>nc_modality = ''graph'', nc_field = ''graph_node'', nc_old_value = None,
                nc_new_value = ''create graph node from document '' @ qt (dc_title doc),
                nc_reason = ''Graph modality missing '' @ em_dash @ '' extract entities from document''\<rparr>]
     | (None, Some graph) \<Rightarrow>
         Some [\<lparr>nc_modality = ''document'', nc_field = ''document'', nc_old_value = None,
                nc_new_value = ''create document from graph node '' @ qt (gn_local_name graph),
                nc_reason = ''Document modality missing '' @ em_dash @ '' generate from graph structure''\<rparr>]
     | (None, None) \<Rightarrow> None)"

definition graph_document_normalize ::
  "('g, 'ts, 'z) norm_env_scheme \<Rightarrow> 'ts \<Rightarrow> u64 \<Rightarrow> ('f, 'g, 'ts) Hexad \<Rightarrow> ('g, 'ts) DriftEvent \<Rightarrow> (NormalizerError, 'ts NormalizationResult) rresult" where
  "graph_document_normalize E now ms hexad drift_event =
    (case graph_document_changes E hexad drift_event of
       None \<Rightarrow> Inl (NormalizationFailed (hd_id hexad) ''Cannot reconcile graph-document: neither modality present'')
     | Some changes \<Rightarrow> Inr \<lparr>nr_entity_id = hd_id hexad, nr_normalization_type = GraphReconstruction, nr_success = True,
                          nr_changes = changes, nr_duration_ms = ms, nr_completed_at = now\<rparr>)"

definition GraphDocumentStrategy :: "('g, 'ts, 'z) norm_env_scheme \<Rightarrow> ('f, 'g, 'ts) NormalizationStrategy" where
  "GraphDocumentStrategy E =
    \<lparr>sg_name = ''graph-document-sync'', sg_applies_to = (\<lambda>t. t = GraphDocumentDrift), sg_normalize = graph_document_normalize E\<rparr>"

definition tensor_normalize ::
  "('g, 'ts, 'z) norm_env_scheme \<Rightarrow> 'ts \<Rightarrow> u64 \<Rightarrow> ('f, 'g, 'ts) Hexad \<Rightarrow> ('g, 'ts) DriftEvent \<Rightarrow> (NormalizerError, 'ts NormalizationResult) rresult" where
  "tensor_normalize E now ms hexad drift_event =
    (if hd_embedding hexad = None \<and> hd_document hexad = None
     then Inl (NormalizationFailed (hd_id hexad) ''Cannot regenerate tensor: no vector or document source available'')
     else
       (let old_tensor_info = (case hd_tensor hexad of Some t \<Rightarrow> ''shape '' @ debug_usizes (tn_shape t) | None \<Rightarrow> ''none'');
            changes1 = (case hd_embedding hexad of
               Some emb \<Rightarrow> (let dim = dec_digits (length (em_vector emb)) in
                 [\<lparr>nc_modality = ''tensor'', nc_field = ''data'', nc_old_value = Some old_tensor_info,
                   nc_new_value = ''reshape '' @ dim @ ''d embedding to [1, '' @ dim @ ''] tensor'',
                   nc_reason = ''Tensor drift score '' @ pf_fmt E 3 (de_score drift_event) @ '' '' @ em_dash
                     @ '' regenerating from vector embedding''\<rparr>])
             | None \<Rightarrow> []);
            changes2 = (case hd_document hexad of
               Some doc \<Rightarrow> [\<lparr>nc_modality = ''tensor'', nc_field = ''features'', nc_old_value = Some old_tensor_info,
                            nc_new_value = ''compute TF-IDF features from document '' @ qt (dc_title doc),
                            nc_reason = ''Document content provides additional tensor features''\<rparr>]
             | None \<Rightarrow> [])
        in Inr \<lparr>nr_entity_id = hd_id hexad, nr_normalization_type = TensorSync, nr_success = True,
                nr_changes = changes1 @ changes2, nr_duration_ms = ms, nr_completed_at = now\<rparr>))"

definition TensorRegenerationStrategy :: "('g, 'ts, 'z) norm_env_scheme \<Rightarrow> ('f, 'g, 'ts) NormalizationStrategy" where
  "TensorRegenerationStrategy E =
    \<lparr>sg_name = ''tensor-regeneration'', sg_applies_to = (\<lambda>t. t = TensorDrift), sg_normalize = tensor_normalize E\<rparr>"

definition temporal_changes ::
  "('g, 'ts::linorder, 'z) norm_env_scheme \<Rightarrow> ('f, 'g, 'ts) Hexad \<Rightarrow> ('g, 'ts) DriftEvent \<Rightarrow> NormalizationChange list" where
  "temporal_changes E hexad drift_event =
    (let st = hd_status hexad;
         changes =
           (if hx_modified_at st < hx_created_at st then
              [\<lparr>nc_modality = ''temporal'', nc_field = ''modified_at'', nc_old_value = Some (ne_rfc3339 E (hx_modified_at st)),
                nc_new_value = ne_rfc3339 E (hx_created_at st),
                nc_reason = ''modified_at was before created_at '' @ em_dash @ '' correcting to created_at''\<rparr>] else [])
           @ (if hx_version st = 0 then
                [\<lparr>nc_modality = ''temporal'', nc_field = ''version'', nc_old_value = Some ''0'', nc_new_value = ''1'',
                  nc_reason = ''Version was 0 '' @ em_dash @ '' correcting to 1 (minimum valid version)''\<rparr>] else [])
           @ (if 0 < hd_version_count hexad \<and> hd_version_count hexad < hx_version st then
                [\<lparr>nc_modality = ''temporal'', nc_field = ''version_count'',
                  nc_old_value = Some (dec_digits (unat (hd_version_count hexad))), nc_new_value = dec_digits (unat (hx_version st)),
                  nc_reason = ''Temporal drift score '' @ pf_fmt E 3 (de_score drift_event) @ '' '' @ em_dash @ '' version_count (''
                    @ dec_digits (unat (hd_version_count hexad)) @ '') < version ('' @ dec_digits (unat (hx_version st)) @ '')''\<rparr>] else [])
     in if changes = [] then
          [\<lparr>nc_modality = ''temporal'', nc_field = ''consistency'', nc_old_value = None, nc_new_value = ''verified'',
            nc_reason = ''Temporal drift score '' @ pf_fmt E 3 (de_score drift_event) @ '' '' @ em_dash
              @ '' checked ordering and duplicates, no repairs needed''\<rparr>]
        else changes)"

definition temporal_normalize ::
  "('g, 'ts::linorder, 'z) norm_env_scheme \<Rightarrow> 'ts \<Rightarrow> u64 \<Rightarrow> ('f, 'g, 'ts) Hexad \<Rightarrow> ('g, 'ts) DriftEvent \<Rightarrow> (NormalizerError, 'ts NormalizationResult) rresult" where
  "temporal_normalize E now ms hexad drift_event =
    Inr \<lparr>nr_entity_id = hd_id hexad, nr_normalization_type = TemporalRepair, nr_success = True,
         nr_changes = temporal_changes E hexad drift_event, nr_duration_ms = ms, nr_completed_at = now\<rparr>"

definition TemporalRepairStrategy :: "('g, 'ts::linorder, 'z) norm_env_scheme \<Rightarrow> ('f, 'g, 'ts) NormalizationStrategy" where
  "TemporalRepairStrategy E =
    \<lparr>sg_name = ''temporal-repair'', sg_applies_to = (\<lambda>t. t = TemporalConsistencyDrift), sg_normalize = temporal_normalize E\<rparr>"

text \<open>The cascade over the inner strategies: the changes so far and whether one failed.\<close>

definition cascade_step ::
  "'ts \<Rightarrow> u64 \<Rightarrow> ('f, 'g, 'ts) Hexad \<Rightarrow> ('g, 'ts) DriftEvent \<Rightarrow> NormalizationChange list \<times> bool
    \<Rightarrow> ('f, 'g, 'ts) NormalizationStrategy \<Rightarrow> NormalizationChange list \<times> bool" where
  "cascade_step now ms hexad drift_event = (\<lambda>(all_changes, any_failure) strategy.
    case sg_normalize strategy now ms hexad drift_event of
      Inr result \<Rightarrow> (all_changes @ nr_changes result, any_failure)
    | Inl (NormalizationFailed _ _) \<Rightarrow> (all_changes, any_failure)
    | Inl e \<Rightarrow> (all_changes @ [\<lparr>nc_modality = ''quality'', nc_field = sg_name strategy, nc_old_value = None,
                  nc_new_value = ''failed: '' @ NormalizerError_display e,
                  nc_reason = ''Strategy error during quality reconciliation''\<rparr>], True))"

definition quality_normalize ::
  "('f, 'g, 'ts) NormalizationStrategy list \<Rightarrow> 'ts \<Rightarrow> u64 \<Rightarrow> ('f, 'g, 'ts) Hexad \<Rightarrow> ('g, 'ts) DriftEvent \<Rightarrow> (NormalizerError, 'ts NormalizationResult) rresult" where
  "quality_normalize inner now ms hexad drift_event =
    (case foldl (cascade_step now ms hexad drift_event) ([], False) inner of (all_changes, any_failure) \<Rightarrow>
       Inr \<lparr>nr_entity_id = hd_id hexad, nr_normalization_type = FullReconciliation, nr_success = (\<not> any_failure),
            nr_changes = all_changes, nr_duration_ms = ms, nr_completed_at = now\<rparr>)"

definition default_inner :: "('g, 'ts::linorder, 'z) norm_env_scheme \<Rightarrow> ('f, 'g, 'ts) NormalizationStrategy list" where
  "default_inner E =
    [SemanticVectorStrategy E, GraphDocumentStrategy E, TensorRegenerationStrategy E, TemporalRepairStrategy E]"

definition QualityReconciliationStrategy :: "('g, 'ts::linorder, 'z) norm_env_scheme \<Rightarrow> ('f, 'g, 'ts) NormalizationStrategy" where
  "QualityReconciliationStrategy E =
    \<lparr>sg_name = ''quality-reconciliation'', sg_applies_to = (\<lambda>t. t = QualityDrift \<or> t = SchemaDrift),
     sg_normalize = quality_normalize (default_inner E)\<rparr>"

definition create_default_normalizer :: "('g, 'ts::linorder, 'z) norm_env_scheme \<Rightarrow> ('f, 'g, 'ts) Normalizer" where
  "create_default_normalizer E =
    foldl register_strategy (Normalizer_new (NormalizerConfig_default E)) (default_inner E @ [QualityReconciliationStrategy E])"

section \<open>What the default normalizer does\<close>

lemma default_strategies:
  "nz_strategies (create_default_normalizer E) = default_inner E @ [QualityReconciliationStrategy E]"
  "nz_config (create_default_normalizer E) = NormalizerConfig_default E"
  by (simp_all add: create_default_normalizer_def default_inner_def register_strategy_def Normalizer_new_def)

lemmas strategy_defs = SemanticVectorStrategy_def GraphDocumentStrategy_def TensorRegenerationStrategy_def
  TemporalRepairStrategy_def QualityReconciliationStrategy_def

text \<open>The strategy for a drift type; provenance and spatial drift have none.\<close>

fun strategy_for_drift :: "('g, 'ts::linorder, 'z) norm_env_scheme \<Rightarrow> DriftType \<Rightarrow> ('f, 'g, 'ts) NormalizationStrategy option" where
  "strategy_for_drift E SemanticVectorDrift = Some (SemanticVectorStrategy E)"
| "strategy_for_drift E GraphDocumentDrift = Some (GraphDocumentStrategy E)"
| "strategy_for_drift E TemporalConsistencyDrift = Some (TemporalRepairStrategy E)"
| "strategy_for_drift E TensorDrift = Some (TensorRegenerationStrategy E)"
| "strategy_for_drift E SchemaDrift = Some (QualityReconciliationStrategy E)"
| "strategy_for_drift E QualityDrift = Some (QualityReconciliationStrategy E)"
| "strategy_for_drift E ProvenanceDrift = None"
| "strategy_for_drift E SpatialDrift = None"

lemma find_default_strategy:
  "find (\<lambda>s. sg_applies_to s t) (nz_strategies (create_default_normalizer E)) = strategy_for_drift E t"
  by (cases t) (simp_all add: default_strategies default_inner_def strategy_defs)

lemma temporal_changes_nonempty: "temporal_changes E hexad ev \<noteq> []"
  by (simp add: temporal_changes_def Let_def)

lemma cascade_changes_grow:
  assumes "\<And>now ms. \<exists>r. sg_normalize s now ms hexad ev = Inr r \<and> nr_changes r \<noteq> []"
  shows "fst (cascade_step now ms hexad ev acc s) \<noteq> []"
proof -
  obtain r where "sg_normalize s now ms hexad ev = Inr r" "nr_changes r \<noteq> []" using assms by blast
  then show ?thesis by (cases acc) (simp add: cascade_step_def)
qed

lemma cascade_step_no_failure:
  assumes "\<And>e. sg_normalize s now ms hexad ev = Inl e \<Longrightarrow> \<exists>i m. e = NormalizationFailed i m"
  shows "snd (cascade_step now ms hexad ev acc s) = snd acc"
proof (cases "sg_normalize s now ms hexad ev")
  case (Inl e)
  then obtain i m where "e = NormalizationFailed i m" using assms by blast
  with Inl show ?thesis by (cases acc) (simp add: cascade_step_def)
next
  case (Inr r)
  then show ?thesis by (cases acc) (simp add: cascade_step_def)
qed

lemma inner_errors:
  assumes "s \<in> set (default_inner E)" "sg_normalize s now ms hexad ev = Inl e"
  shows "\<exists>i m. e = NormalizationFailed i m"
  using assms
  by (auto simp: default_inner_def strategy_defs semantic_vector_normalize_def graph_document_normalize_def tensor_normalize_def
      temporal_normalize_def Let_def split: if_splits option.splits)

lemma cascade_no_failure:
  "set ss \<subseteq> set (default_inner E) \<Longrightarrow> snd (foldl (cascade_step now ms hexad ev) acc ss) = snd acc"
proof (induction ss arbitrary: acc)
  case (Cons s ss)
  then have "snd (cascade_step now ms hexad ev acc s) = snd acc"
    by (intro cascade_step_no_failure) (auto intro: inner_errors)
  with Cons show ?case by simp
qed simp

lemma quality_default:
  "\<exists>changes. quality_normalize (default_inner E) now ms hexad ev =
     Inr \<lparr>nr_entity_id = hd_id hexad, nr_normalization_type = FullReconciliation, nr_success = True, nr_changes = changes,
          nr_duration_ms = ms, nr_completed_at = now\<rparr> \<and> changes \<noteq> []"
proof -
  let ?f = "foldl (cascade_step now ms hexad ev) ([], False) (default_inner E)"
  have "snd ?f = False" by (simp add: cascade_no_failure [OF order_refl])
  moreover have "fst ?f \<noteq> []"
    unfolding default_inner_def foldl.simps
    by (rule cascade_changes_grow) (simp add: TemporalRepairStrategy_def temporal_normalize_def temporal_changes_nonempty)
  ultimately show ?thesis by (cases ?f) (simp add: quality_normalize_def)
qed

text \<open>The sources a drift type is repaired from are missing on the entity.\<close>

definition lacks_source :: "('f, 'g, 'ts) Hexad \<Rightarrow> DriftType \<Rightarrow> bool" where
  "lacks_source hexad t \<longleftrightarrow>
    t = SemanticVectorDrift \<and> hd_document hexad = None \<and> hd_semantic hexad = None
    \<or> t = GraphDocumentDrift \<and> hd_document hexad = None \<and> hd_graph_node hexad = None
    \<or> t = TensorDrift \<and> hd_embedding hexad = None \<and> hd_document hexad = None"

lemma strategy_outcome:
  assumes "strategy_for_drift E t = Some s"
  shows "if lacks_source hexad t then \<exists>m. sg_normalize s now ms hexad ev = Inl (NormalizationFailed (hd_id hexad) m)
    else \<exists>r. sg_normalize s now ms hexad ev = Inr r \<and> nr_entity_id r = hd_id hexad \<and> nr_success r \<and> nr_changes r \<noteq> []"
proof (cases t)
  case SemanticVectorDrift
  with assms show ?thesis
    by (auto simp: strategy_defs lacks_source_def semantic_vector_normalize_def Let_def split: option.splits)
next
  case GraphDocumentDrift
  with assms show ?thesis
    by (auto simp: strategy_defs lacks_source_def graph_document_normalize_def graph_document_changes_def split: option.splits)
next
  case TensorDrift
  with assms show ?thesis
    by (auto simp: strategy_defs lacks_source_def tensor_normalize_def Let_def split: option.splits)
next
  case TemporalConsistencyDrift
  with assms show ?thesis
    by (auto simp: strategy_defs lacks_source_def temporal_normalize_def temporal_changes_nonempty)
next
  case SchemaDrift
  with assms quality_default [of E now ms hexad ev] show ?thesis by (auto simp: strategy_defs lacks_source_def)
next
  case QualityDrift
  with assms quality_default [of E now ms hexad ev] show ?thesis by (auto simp: strategy_defs lacks_source_def)
qed (use assms in simp_all)

definition bump_status :: "bool \<Rightarrow> 'ts \<Rightarrow> 'ts NormalizerStatus \<Rightarrow> 'ts NormalizerStatus" where
  "bump_status ok now st =
    (if ok then st\<lparr>nu_completed_count := nu_completed_count st + 1, nu_last_normalization := Some now\<rparr>
     else st\<lparr>nu_failure_count := nu_failure_count st + 1\<rparr>)"

lemma handle_drift_cases:
  "handle_drift E None finished now ms n hexad ev =
    (if fo_lt E (de_score ev) (nf_min_score (nz_config n)) then (n, Inr None)
     else
       (case find (\<lambda>s. sg_applies_to s (de_drift_type ev)) (nz_strategies n) of
          None \<Rightarrow> (n, Inr None)
        | Some s \<Rightarrow>
            (case sg_normalize s finished ms hexad ev of
               Inl e \<Rightarrow> (n\<lparr>nz_status := bump_status False now (nz_status n)\<rparr>, Inl e)
             | Inr r \<Rightarrow> (n\<lparr>nz_status := bump_status True now (nz_status n)\<rparr>, Inr (Some r)))))"
  by (simp add: handle_drift_def bump_status_def Let_def split: option.split sum.split)

text \<open>the default normalizer on any drift event.  Nothing happens if the score is below the minimum or the drift is of
  provenance or location; otherwise the event fails exactly if the modalities it could be repaired from are
  missing, a failure is counted and named after the entity, and a success is counted and reports at least one
  change of that entity.  No normalization stays active.
\<close>

theorem default_normalizer_outcome:
  fixes hexad :: "('f, 'g, 'ts::linorder) Hexad"
  assumes "n = (create_default_normalizer E)\<lparr>nz_status := st\<rparr>"
    and "handle_drift E None finished now ms n hexad ev = (n', r)"
  shows "if fo_lt E (de_score ev) (pf_dec E 3 1) \<or> de_drift_type ev \<in> {ProvenanceDrift, SpatialDrift}
    then r = Inr None \<and> n' = n
    else if lacks_source hexad (de_drift_type ev)
    then (\<exists>m. r = Inl (NormalizationFailed (hd_id hexad) m)) \<and> nz_status n' = bump_status False now st
    else (\<exists>res. r = Inr (Some res) \<and> nr_entity_id res = hd_id hexad \<and> nr_success res \<and> nr_changes res \<noteq> [])
         \<and> nz_status n' = bump_status True now st"
proof -
  have n: "nz_config n = NormalizerConfig_default E" "nz_status n = st"
    "find (\<lambda>s. sg_applies_to s (de_drift_type ev)) (nz_strategies n) = strategy_for_drift E (de_drift_type ev)"
    using find_default_strategy [of "de_drift_type ev" E] by (simp_all add: assms(1) default_strategies)
  have low: "nf_min_score (NormalizerConfig_default E) = pf_dec E 3 1" by (simp add: NormalizerConfig_default_def)
  note h = assms(2) [unfolded handle_drift_cases n low]
  show ?thesis
  proof (cases "fo_lt E (de_score ev) (pf_dec E 3 1)")
    case True
    with h show ?thesis by simp
  next
    case high: False
    show ?thesis
    proof (cases "strategy_for_drift E (de_drift_type ev) :: ('f, 'g, 'ts) NormalizationStrategy option")
      case None
      then have "de_drift_type ev \<in> {ProvenanceDrift, SpatialDrift}" by (cases "de_drift_type ev") simp_all
      with h high None show ?thesis by simp
    next
      case (Some s)
      then have t: "de_drift_type ev \<notin> {ProvenanceDrift, SpatialDrift}" by auto
      show ?thesis
      proof (cases "lacks_source hexad (de_drift_type ev)")
        case True
        with strategy_outcome [OF Some, of hexad finished ms ev] obtain m where
          "sg_normalize s finished ms hexad ev = Inl (NormalizationFailed (hd_id hexad) m)" by auto
        with h high Some True t show ?thesis by auto
      next
        case False
        with strategy_outcome [OF Some, of hexad finished ms ev] obtain res where
          "sg_normalize s finished ms hexad ev = Inr res" "nr_entity_id res = hd_id hexad" "nr_success res" "nr_changes res \<noteq> []"
          by auto
        with h high Some False t show ?thesis by auto
      qed
    qed
  qed
qed

text \<open>An entity with a document only, and two events.\<close>

definition demo_norm_env :: "(rat, nat) norm_env" where
  "demo_norm_env = plan_env.extend rat_env (norm_env.fields (\<lambda>_. []))"

definition demo_hexad :: "(rat, rat, nat) Hexad" where
  "demo_hexad = \<lparr>hd_id = ''h1'',
     hd_status = \<lparr>hx_id = ''h1'', hx_created_at = 1, hx_modified_at = 2, hx_version = 1, hx_modality_status = ModalityStatus_default\<rparr>,
     hd_graph_node = None, hd_embedding = None, hd_tensor = None, hd_semantic = None,
     hd_document = Some \<lparr>dc_id = ''h1'', dc_title = ''t'', dc_body = ''b'', dc_fields = Map.empty, dc_metadata = Map.empty\<rparr>,
     hd_version_count = 1, hd_provenance_chain_length = 0, hd_spatial_data = None\<rparr>"

definition demo_event :: "DriftType \<Rightarrow> (rat, nat) DriftEvent" where
  "demo_event t = DriftEvent_new demo_norm_env 0 t (1 / 2) ''drift''"

theorem default_normalizer_outcome_witness:
  "(\<exists>res n'. handle_drift demo_norm_env None 7 7 0 (create_default_normalizer demo_norm_env) demo_hexad (demo_event TensorDrift)
      = (n', Inr (Some res)) \<and> nr_entity_id res = ''h1'' \<and> nr_changes res \<noteq> [])
   \<and> snd (handle_drift demo_norm_env None 7 7 0 (create_default_normalizer demo_norm_env) demo_hexad (demo_event SpatialDrift)) = Inr None"
proof -
  let ?n = "create_default_normalizer demo_norm_env :: (rat, rat, nat) Normalizer"
  have n: "?n = (create_default_normalizer demo_norm_env)\<lparr>nz_status := nz_status ?n\<rparr>" by simp
  have high: "\<not> fo_lt demo_norm_env (de_score (demo_event t)) (pf_dec demo_norm_env 3 1)" "de_drift_type (demo_event t) = t" for t
    by (simp_all add: demo_event_def DriftEvent_new_def demo_norm_env_def rat_env_def plan_env.defs norm_env.defs)
  have src: "\<not> lacks_source demo_hexad TensorDrift" by (simp add: lacks_source_def demo_hexad_def)
  have id: "hd_id demo_hexad = ''h1''" by (simp add: demo_hexad_def)
  from default_normalizer_outcome [OF n prod.collapse [symmetric], where finished = 7 and now = 7 and ms = 0 and hexad = demo_hexad and ev = "demo_event TensorDrift"]
  obtain res where "snd (handle_drift demo_norm_env None 7 7 0 ?n demo_hexad (demo_event TensorDrift)) = Inr (Some res)"
    "nr_entity_id res = ''h1''" "nr_changes res \<noteq> []"
    using src by (auto simp: high(1) [simplified] high(2) id)
  moreover from default_normalizer_outcome [OF n prod.collapse [symmetric], where finished = 7 and now = 7 and ms = 0 and hexad = demo_hexad and ev = "demo_event SpatialDrift"]
  have "snd (handle_drift demo_norm_env None 7 7 0 ?n demo_hexad (demo_event SpatialDrift)) = Inr None"
    by (simp add: high)
  ultimately show ?thesis by (metis prod.collapse)
qed

end
