(* ===== verification/Regeneration.thy ===== *)
theory Regeneration
  imports Normalizer Conflict
begin

text \<open>
  Authority-ranked regeneration (\<open>verisim-normalizer/src/regeneration.rs\<close>; its enum \<open>Modality\<close> is in \<open>Conflict\<close>): strategies,
  the manual-resolution queue, the audit trail and the engine.  The pluggable \<open>ModalityRegenerator\<close> is the record of its
  trait methods.  Clock readings are arguments.
\<close>

section \<open>Modalities\<close>

definition DEFAULT_AUTHORITY_ORDER :: "Modality list" where
  "DEFAULT_AUTHORITY_ORDER = [Document, Semantic, Provenance, Graph, Vector, Tensor, Spatial, Temporal]"

fun is_present_on :: "Modality \<Rightarrow> ('f, 'g, 'ts) Hexad \<Rightarrow> bool" where
  "is_present_on Document hexad = (hd_document hexad \<noteq> None)"
| "is_present_on Semantic hexad = (hd_semantic hexad \<noteq> None)"
| "is_present_on Graph hexad = (hd_graph_node hexad \<noteq> None)"
| "is_present_on Vector hexad = (hd_embedding hexad \<noteq> None)"
| "is_present_on Tensor hexad = (hd_tensor hexad \<noteq> None)"
| "is_present_on Temporal hexad = (0 < hd_version_count hexad)"
| "is_present_on Provenance hexad = (0 < hd_provenance_chain_length hexad)"
| "is_present_on Spatial hexad = (hd_spatial_data hexad \<noteq> None)"

fun summarize :: "('g, 'z) plan_env_scheme \<Rightarrow> Modality \<Rightarrow> ('f, 'g, 'ts) Hexad \<Rightarrow> string option" where
  "summarize E Document hexad =
     map_option (\<lambda>d. ''document(title='' @ qt (dc_title d) @ '', body_len='' @ dec_digits (length (dc_body d)) @ '')'') (hd_document hexad)"
| "summarize E Semantic hexad =
     map_option (\<lambda>s. ''semantic(types='' @ dec_digits (length (sa_types s)) @ '', properties=''
       @ dec_digits (card (dom (sa_properties s))) @ '')'') (hd_semantic hexad)"
| "summarize E Graph hexad =
     map_option (\<lambda>g. ''graph(iri='' @ qt (gn_iri g) @ '', local_name='' @ qt (gn_local_name g) @ '')'') (hd_graph_node hexad)"
| "summarize E Vector hexad = map_option (\<lambda>e. ''vector(dim='' @ dec_digits (length (em_vector e)) @ '')'') (hd_embedding hexad)"
| "summarize E Tensor hexad =
     map_option (\<lambda>t. ''tensor(shape='' @ debug_usizes (tn_shape t) @ '', len='' @ dec_digits (length (tn_data t)) @ '')'') (hd_tensor hexad)"
| "summarize E Temporal hexad =
     (if 0 < hd_version_count hexad then Some (''temporal(versions='' @ dec_digits (unat (hd_version_count hexad)) @ '')'') else None)"
| "summarize E Provenance hexad =
     (if 0 < hd_provenance_chain_length hexad
      then Some (''provenance(chain_length='' @ dec_digits (unat (hd_provenance_chain_length hexad)) @ '')'') else None)"
| "summarize E Spatial hexad =
     map_option (\<lambda>s. ''spatial(lat='' @ fo_display E (co_latitude (sd_coordinates s)) @ '', lon=''
       @ fo_display E (co_longitude (sd_coordinates s)) @ '', type='' @ GeometryType_display (sd_geometry_type s) @ '')'') (hd_spatial_data hexad)"

section \<open>Strategies and configuration\<close>

datatype RegenerationStrategy = FromAuthoritative | Merge | UserResolve

fun RegenerationStrategy_display :: "RegenerationStrategy \<Rightarrow> string" where
  "RegenerationStrategy_display FromAuthoritative = ''from_authoritative''"
| "RegenerationStrategy_display Merge = ''merge''"
| "RegenerationStrategy_display UserResolve = ''user_resolve''"

record 'g RegenerationConfig =
  rc_authority_order :: "Modality list"
  rc_default_strategy :: RegenerationStrategy
  rc_modality_strategies :: "Modality \<rightharpoonup> RegenerationStrategy"
  rc_drift_threshold :: 'g
  rc_max_concurrent :: nat

definition RegenerationConfig_default :: "('g, 'z) plan_env_scheme \<Rightarrow> 'g RegenerationConfig" where
  "RegenerationConfig_default E =
    \<lparr>rc_authority_order = DEFAULT_AUTHORITY_ORDER, rc_default_strategy = FromAuthoritative, rc_modality_strategies = Map.empty,
     rc_drift_threshold = pf_dec E 3 1, rc_max_concurrent = 10\<rparr>"

definition strategy_for :: "'g RegenerationConfig \<Rightarrow> Modality \<Rightarrow> RegenerationStrategy" where
  "strategy_for config modality =
    (case rc_modality_strategies config modality of Some s \<Rightarrow> s | None \<Rightarrow> rc_default_strategy config)"

fun index_of :: "'a \<Rightarrow> 'a list \<Rightarrow> nat option" where
  "index_of x [] = None"
| "index_of x (y # ys) = (if y = x then Some 0 else map_option Suc (index_of x ys))"

definition authority_weight :: "('g, 'z) plan_env_scheme \<Rightarrow> 'g RegenerationConfig \<Rightarrow> Modality \<Rightarrow> 'g" where
  "authority_weight E config modality =
    (let n = pf_of_nat E (length (rc_authority_order config))
     in case index_of modality (rc_authority_order config) of
          Some idx \<Rightarrow> fo_sub E n (pf_of_nat E idx)
        | None \<Rightarrow> pf_dec E 0 1)"

section \<open>Events, results and the queue\<close>

record ('g, 'ts) NormalizationEvent =
  ev_entity_id :: string
  ev_drifted_modality :: Modality
  ev_strategy_used :: RegenerationStrategy
  ev_source_modality :: "Modality option"
  ev_pre_drift_score :: 'g
  ev_post_drift_score :: "'g option"
  ev_timestamp :: 'ts
  ev_success :: bool

datatype ('g, 'ts) RegenerationResult =
    Repaired "('g, 'ts) NormalizationEvent"
  | PendingResolution string string
  | NoActionNeeded
  | Failed string

record ('g, 'ts) PendingNormalization =
  pd_entity_id :: string
  pd_drifted_modality :: Modality
  pd_drift_score :: 'g
  pd_queued_at :: 'ts

definition enqueue :: "('g, 'ts) PendingNormalization list \<Rightarrow> ('g, 'ts) PendingNormalization \<Rightarrow> ('g, 'ts) PendingNormalization list" where
  "enqueue queue item = queue @ [item]"

fun resolve ::
  "('g, 'ts) PendingNormalization list \<Rightarrow> string \<Rightarrow> Modality \<Rightarrow> ('g, 'ts) PendingNormalization list \<times> ('g, 'ts) PendingNormalization option" where
  "resolve [] entity_id modality = ([], None)"
| "resolve (p # queue) entity_id modality =
    (if pd_entity_id p = entity_id \<and> pd_drifted_modality p = modality then (queue, Some p)
     else (case resolve queue entity_id modality of (queue', r) \<Rightarrow> (p # queue', r)))"

definition drain :: "('g, 'ts) PendingNormalization list \<Rightarrow> ('g, 'ts) PendingNormalization list \<times> ('g, 'ts) PendingNormalization list" where
  "drain queue = ([], queue)"

section \<open>Regenerators\<close>

record ('f, 'g, 'ts) ModalityRegenerator =
  mr_regenerate_from :: "('f, 'g, 'ts) Hexad \<Rightarrow> Modality \<Rightarrow> Modality \<Rightarrow> (NormalizerError, string) rresult"
  mr_merge_into :: "('f, 'g, 'ts) Hexad \<Rightarrow> (Modality \<times> 'g) list \<Rightarrow> Modality \<Rightarrow> (NormalizerError, string) rresult"
  mr_measure_drift :: "('f, 'g, 'ts) Hexad \<Rightarrow> Modality \<Rightarrow> (NormalizerError, 'g) rresult"

definition summary_or_empty :: "('g, 'z) plan_env_scheme \<Rightarrow> Modality \<Rightarrow> ('f, 'g, 'ts) Hexad \<Rightarrow> string" where
  "summary_or_empty E m hexad = (case summarize E m hexad of Some s \<Rightarrow> s | None \<Rightarrow> Modality_display m @ '' (empty)'')"

definition SummaryRegenerator :: "('g, 'z) plan_env_scheme \<Rightarrow> ('f, 'g, 'ts) ModalityRegenerator" where
  "SummaryRegenerator E =
    \<lparr>mr_regenerate_from = (\<lambda>hexad source target.
       Inr (''Regenerated '' @ Modality_display target @ '' from '' @ Modality_display source @ '' ['' @ summary_or_empty E source hexad @ '']'')),
     mr_merge_into = (\<lambda>hexad sources target.
       Inr (''Merged into '' @ Modality_display target @ '' from: ''
         @ join_with '', '' (map (\<lambda>(m, w). Modality_display m @ ''(w='' @ pf_fmt E 2 w @ '') ['' @ summary_or_empty E m hexad @ '']'') sources))),
     mr_measure_drift = (\<lambda>_ _. Inr (pf_dec E 0 1))\<rparr>"

section \<open>The engine\<close>

record ('f, 'g, 'ts) RegenerationEngine =
  re_config :: "'g RegenerationConfig"
  re_queue :: "('g, 'ts) PendingNormalization list"
  re_events :: "('g, 'ts) NormalizationEvent list"
  re_regenerator :: "('f, 'g, 'ts) ModalityRegenerator"

definition with_regenerator ::
  "'g RegenerationConfig \<Rightarrow> ('f, 'g, 'ts) ModalityRegenerator \<Rightarrow> ('f, 'g, 'ts) RegenerationEngine" where
  "with_regenerator config regenerator =
    \<lparr>re_config = config, re_queue = [], re_events = [], re_regenerator = regenerator\<rparr>"

definition RegenerationEngine_new :: "('g, 'z) plan_env_scheme \<Rightarrow> 'g RegenerationConfig \<Rightarrow> ('f, 'g, 'ts) RegenerationEngine" where
  "RegenerationEngine_new E config =
    \<lparr>re_config = config, re_queue = [], re_events = [], re_regenerator = SummaryRegenerator E\<rparr>"

definition record_event ::
  "('f, 'g, 'ts) RegenerationEngine \<Rightarrow> ('g, 'ts) NormalizationEvent \<Rightarrow> ('f, 'g, 'ts) RegenerationEngine" where
  "record_event eng event = eng\<lparr>re_events := re_events eng @ [event]\<rparr>"

definition result_ok :: "('e, 'a) rresult \<Rightarrow> 'a option" where
  "result_ok r = (case r of Inr a \<Rightarrow> Some a | Inl _ \<Rightarrow> None)"

definition execute_from_authoritative ::
  "'ts \<Rightarrow> ('f, 'g, 'ts) RegenerationEngine \<Rightarrow> ('f, 'g, 'ts) Hexad \<Rightarrow> Modality \<Rightarrow> 'g
    \<Rightarrow> ('f, 'g, 'ts) RegenerationEngine \<times> ('g, 'ts) RegenerationResult" where
  "execute_from_authoritative now eng hexad drifted_modality drift_score =
    (let entity_id = hd_id hexad;
         event = (\<lambda>source post success. \<lparr>ev_entity_id = entity_id, ev_drifted_modality = drifted_modality,
                    ev_strategy_used = FromAuthoritative, ev_source_modality = source, ev_pre_drift_score = drift_score,
                    ev_post_drift_score = post, ev_timestamp = now, ev_success = success\<rparr>)
     in case find (\<lambda>m. m \<noteq> drifted_modality \<and> is_present_on m hexad) (rc_authority_order (re_config eng)) of
          None \<Rightarrow>
            (record_event eng (event None None False),
             Failed (''No authoritative source available for '' @ Modality_display drifted_modality @ '' on entity '' @ entity_id))
        | Some source \<Rightarrow>
            (case mr_regenerate_from (re_regenerator eng) hexad source drifted_modality of
               Inr _ \<Rightarrow>
                 (let e = event (Some source) (result_ok (mr_measure_drift (re_regenerator eng) hexad drifted_modality)) True
                  in (record_event eng e, Repaired e))
             | Inl err \<Rightarrow> (record_event eng (event (Some source) None False), Failed (NormalizerError_display err))))"

definition execute_merge ::
  "('g, 'z) plan_env_scheme \<Rightarrow> 'ts \<Rightarrow> ('f, 'g, 'ts) RegenerationEngine \<Rightarrow> ('f, 'g, 'ts) Hexad \<Rightarrow> Modality \<Rightarrow> 'g
    \<Rightarrow> ('f, 'g, 'ts) RegenerationEngine \<times> ('g, 'ts) RegenerationResult" where
  "execute_merge E now eng hexad drifted_modality drift_score =
    (let entity_id = hd_id hexad;
         event = (\<lambda>post success. \<lparr>ev_entity_id = entity_id, ev_drifted_modality = drifted_modality,
                    ev_strategy_used = Merge, ev_source_modality = None, ev_pre_drift_score = drift_score,
                    ev_post_drift_score = post, ev_timestamp = now, ev_success = success\<rparr>);
         sources = map (\<lambda>m. (m, authority_weight E (re_config eng) m))
           (filter (\<lambda>m. m \<noteq> drifted_modality \<and> is_present_on m hexad) (rc_authority_order (re_config eng)))
     in if sources = [] then
          (record_event eng (event None False),
           Failed (''No source modalities available for merge into '' @ Modality_display drifted_modality @ '' on entity '' @ entity_id))
        else
          (case mr_merge_into (re_regenerator eng) hexad sources drifted_modality of
             Inr _ \<Rightarrow>
               (let e = event (result_ok (mr_measure_drift (re_regenerator eng) hexad drifted_modality)) True
                in (record_event eng e, Repaired e))
           | Inl err \<Rightarrow> (record_event eng (event None False), Failed (NormalizerError_display err))))"

definition execute_user_resolve ::
  "('g, 'z) plan_env_scheme \<Rightarrow> 'ts \<Rightarrow> ('f, 'g, 'ts) RegenerationEngine \<Rightarrow> ('f, 'g, 'ts) Hexad \<Rightarrow> Modality \<Rightarrow> 'g
    \<Rightarrow> ('f, 'g, 'ts) RegenerationEngine \<times> ('g, 'ts) RegenerationResult" where
  "execute_user_resolve E now eng hexad drifted_modality drift_score =
    (let entity_id = hd_id hexad;
         pending = \<lparr>pd_entity_id = entity_id, pd_drifted_modality = drifted_modality, pd_drift_score = drift_score, pd_queued_at = now\<rparr>;
         eng = eng\<lparr>re_queue := enqueue (re_queue eng) pending\<rparr>;
         event = \<lparr>ev_entity_id = entity_id, ev_drifted_modality = drifted_modality, ev_strategy_used = UserResolve,
                  ev_source_modality = None, ev_pre_drift_score = drift_score, ev_post_drift_score = None, ev_timestamp = now,
                  ev_success = True\<rparr>
     in (record_event eng event,
         PendingResolution entity_id (Modality_display drifted_modality @ '' drift (score '' @ pf_fmt E 3 drift_score
           @ '') requires manual resolution per strategy config'')))"

definition regenerate ::
  "('g, 'z) plan_env_scheme \<Rightarrow> 'ts \<Rightarrow> ('f, 'g, 'ts) RegenerationEngine \<Rightarrow> ('f, 'g, 'ts) Hexad \<Rightarrow> Modality \<Rightarrow> 'g
    \<Rightarrow> ('f, 'g, 'ts) RegenerationEngine \<times> ('g, 'ts) RegenerationResult" where
  "regenerate E now eng hexad drifted_modality drift_score =
    (if fo_le E drift_score (rc_drift_threshold (re_config eng)) then (eng, NoActionNeeded)
     else
       (case strategy_for (re_config eng) drifted_modality of
          FromAuthoritative \<Rightarrow> execute_from_authoritative now eng hexad drifted_modality drift_score
        | Merge \<Rightarrow> execute_merge E now eng hexad drifted_modality drift_score
        | UserResolve \<Rightarrow> execute_user_resolve E now eng hexad drifted_modality drift_score))"

section \<open>What regeneration does\<close>

definition is_failed :: "('g, 'ts) RegenerationResult \<Rightarrow> bool" where
  "is_failed r \<longleftrightarrow> (\<exists>m. r = Failed m)"

text \<open>The usable source of highest authority: every modality ranked before it is the drifted one or absent.\<close>

definition best_source :: "Modality list \<Rightarrow> ('f, 'g, 'ts) Hexad \<Rightarrow> Modality \<Rightarrow> Modality \<Rightarrow> bool" where
  "best_source order hexad drifted s \<longleftrightarrow>
    s \<noteq> drifted \<and> is_present_on s hexad
    \<and> (\<exists>pre post. order = pre @ s # post \<and> (\<forall>x \<in> set pre. x = drifted \<or> \<not> is_present_on x hexad))"

lemma find_best_source:
  assumes "find (\<lambda>m. m \<noteq> drifted \<and> is_present_on m hexad) order = Some s"
  shows "best_source order hexad drifted s"
  using assms
proof (induction order)
  case (Cons x xs)
  show ?case
  proof (cases "x \<noteq> drifted \<and> is_present_on x hexad")
    case True
    with Cons.prems have "x = s" by simp
    with True show ?thesis unfolding best_source_def by (intro conjI exI [of _ "[]"] exI [of _ xs]) auto
  next
    case False
    with Cons.prems have "find (\<lambda>m. m \<noteq> drifted \<and> is_present_on m hexad) xs = Some s" by (simp split: if_splits)
    with Cons.IH obtain pre post where "s \<noteq> drifted" "is_present_on s hexad" "xs = pre @ s # post"
      "\<forall>x \<in> set pre. x = drifted \<or> \<not> is_present_on x hexad" unfolding best_source_def by blast
    with False show ?thesis unfolding best_source_def by (intro conjI exI [of _ "x # pre"] exI [of _ post]) auto
  qed
qed simp

text \<open>What one event of the audit trail records of an attempt.\<close>

definition audits ::
  "('f, 'g, 'ts) RegenerationEngine \<Rightarrow> ('f, 'g, 'ts) Hexad \<Rightarrow> Modality \<Rightarrow> 'g \<Rightarrow> ('g, 'ts) RegenerationResult \<Rightarrow> ('g, 'ts) NormalizationEvent \<Rightarrow> bool" where
  "audits eng hexad m score r e \<longleftrightarrow>
    ev_entity_id e = hd_id hexad \<and> ev_drifted_modality e = m \<and> ev_pre_drift_score e = score
    \<and> ev_strategy_used e = strategy_for (re_config eng) m
    \<and> (ev_success e \<longleftrightarrow> \<not> is_failed r)
    \<and> (\<forall>e'. r = Repaired e' \<longrightarrow> e' = e)
    \<and> (\<forall>s. ev_source_modality e = Some s \<longrightarrow> best_source (rc_authority_order (re_config eng)) hexad m s)"

lemma execute_from_authoritative_audits:
  assumes "strategy_for (re_config eng) m = FromAuthoritative"
    and "execute_from_authoritative now eng hexad m score = (eng', r)"
  shows "\<exists>e. eng' = record_event eng e \<and> audits eng hexad m score r e"
proof (cases "find (\<lambda>x. x \<noteq> m \<and> is_present_on x hexad) (rc_authority_order (re_config eng))")
  case None
  with assms show ?thesis
    by (auto simp: execute_from_authoritative_def Let_def audits_def is_failed_def)
next
  case (Some s)
  note best = find_best_source [OF Some]
  show ?thesis
    using assms Some best
    by (cases "mr_regenerate_from (re_regenerator eng) hexad s m")
      (auto simp: execute_from_authoritative_def Let_def audits_def is_failed_def)
qed

lemma execute_merge_audits:
  assumes "strategy_for (re_config eng) m = Merge" and "execute_merge E now eng hexad m score = (eng', r)"
  shows "\<exists>e. eng' = record_event eng e \<and> audits eng hexad m score r e"
  using assms
  by (auto simp: execute_merge_def Let_def audits_def is_failed_def split: if_splits sum.splits)

lemma execute_user_resolve_audits:
  assumes "strategy_for (re_config eng) m = UserResolve" and "execute_user_resolve E now eng hexad m score = (eng', r)"
  shows "\<exists>e. eng' = record_event (eng\<lparr>re_queue := re_queue eng @ [\<lparr>pd_entity_id = hd_id hexad, pd_drifted_modality = m,
      pd_drift_score = score, pd_queued_at = now\<rparr>]\<rparr>) e \<and> audits eng hexad m score r e"
  using assms by (auto simp: execute_user_resolve_def Let_def audits_def is_failed_def enqueue_def)

text \<open>C37: every regeneration attempt is audited.  A score at or below the threshold changes nothing.  Any other call
  appends exactly one event to the trail, with the entity, the modality, the score and the configured strategy,
  successful unless the call failed; a source it names is the present modality of highest authority other
  than the drifted one; and the entity is queued for a person exactly under \<open>UserResolve\<close>.
\<close>

theorem regeneration_audited:
  assumes "regenerate E now eng hexad m score = (eng', r)"
  shows "if fo_le E score (rc_drift_threshold (re_config eng)) then eng' = eng \<and> r = NoActionNeeded
    else re_config eng' = re_config eng
      \<and> (\<exists>e. re_events eng' = re_events eng @ [e] \<and> audits eng hexad m score r e)
      \<and> re_queue eng' = re_queue eng @
          (if strategy_for (re_config eng) m = UserResolve
           then [\<lparr>pd_entity_id = hd_id hexad, pd_drifted_modality = m, pd_drift_score = score, pd_queued_at = now\<rparr>] else [])"
proof (cases "fo_le E score (rc_drift_threshold (re_config eng))")
  case True
  with assms show ?thesis by (simp add: regenerate_def)
next
  case False
  show ?thesis
  proof (cases "strategy_for (re_config eng) m")
    case FromAuthoritative
    with assms False have "execute_from_authoritative now eng hexad m score = (eng', r)" by (simp add: regenerate_def)
    from execute_from_authoritative_audits [OF FromAuthoritative this] False FromAuthoritative show ?thesis
      by (auto simp: record_event_def)
  next
    case Merge
    with assms False have "execute_merge E now eng hexad m score = (eng', r)" by (simp add: regenerate_def)
    from execute_merge_audits [OF Merge this] False Merge show ?thesis by (auto simp: record_event_def)
  next
    case UserResolve
    with assms False have "execute_user_resolve E now eng hexad m score = (eng', r)" by (simp add: regenerate_def)
    from execute_user_resolve_audits [OF UserResolve this] False UserResolve show ?thesis by (auto simp: record_event_def)
  qed
qed

definition demo_engine :: "(rat, rat, nat) RegenerationEngine" where
  "demo_engine = RegenerationEngine_new rat_env (RegenerationConfig_default rat_env)"

theorem regeneration_audited_witness:
  "\<exists>eng' r e. regenerate rat_env 7 demo_engine demo_hexad Vector (1 / 2) = (eng', r)
    \<and> re_events eng' = [e] \<and> ev_drifted_modality e = Vector \<and> re_queue eng' = []"
proof -
  obtain eng' r where run: "regenerate rat_env 7 demo_engine demo_hexad Vector (1 / 2) = (eng', r)"
    by (cases "regenerate rat_env 7 demo_engine demo_hexad Vector (1 / 2)")
  have "\<not> fo_le rat_env (1 / 2) (rc_drift_threshold (re_config demo_engine))"
    "strategy_for (re_config demo_engine) Vector = FromAuthoritative" "re_events demo_engine = []" "re_queue demo_engine = []"
    by (simp_all add: demo_engine_def RegenerationEngine_new_def RegenerationConfig_default_def rat_env_def strategy_for_def)
  with regeneration_audited [OF run] run show ?thesis by (auto simp: audits_def)
qed

section \<open>Where it falls short\<close>

text \<open>
  The measurement after a regeneration is recorded but not looked at: a modality that drifts as much as before is
  reported as repaired.
\<close>

lemma still_drifted_reported_repaired:
  assumes "strategy_for (re_config eng) m = FromAuthoritative" "\<not> fo_le E score (rc_drift_threshold (re_config eng))"
    and "find (\<lambda>x. x \<noteq> m \<and> is_present_on x hexad) (rc_authority_order (re_config eng)) = Some s"
    and "mr_regenerate_from (re_regenerator eng) hexad s m = Inr summary"
    and "mr_measure_drift (re_regenerator eng) hexad m = Inr score"
  shows "\<exists>e. snd (regenerate E now eng hexad m score) = Repaired e \<and> ev_success e \<and> ev_post_drift_score e = Some score"
  using assms by (simp add: regenerate_def execute_from_authoritative_def Let_def result_ok_def)

text \<open>Drift detected again before it is resolved is queued again, and one resolution leaves the other entry.\<close>

lemma resolve_leaves_duplicate:
  "pd_entity_id p = i \<Longrightarrow> pd_drifted_modality p = m \<Longrightarrow> resolve (enqueue (enqueue [] p) p) i m = ([p], Some p)"
  by (simp add: enqueue_def)

end
