(* ===== verification/Planner.thy ===== *)
theory Planner
  imports Float_Env
begin

text \<open>
  The query planner's vocabulary and cost model (\<open>verisim-planner/src/lib.rs\<close>, \<open>plan.rs\<close>, \<open>config.rs\<close>, \<open>error.rs\<close>,
  \<open>cost.rs\<close>): the six planner modalities with their execution priorities, logical and physical plans, optimisation
  modes, and the estimates of the cost of a plan node, of a proof, of post-processing and of cross-modal
  conditions.  \<open>f64\<close> arithmetic and the Unicode tables of the standard library are the flds of \<open>plan_env\<close>.
\<close>

section \<open>Modalities and plans\<close>

datatype Modality = Graph | Vector | Tensor | Semantic | Document | Temporal

definition Modality_ALL :: "Modality list" where
  "Modality_ALL = [Graph, Vector, Tensor, Semantic, Document, Temporal]"

fun execution_priority :: "Modality \<Rightarrow> u32" where
  "execution_priority Temporal = 10"
| "execution_priority Vector = 20"
| "execution_priority Document = 30"
| "execution_priority Graph = 40"
| "execution_priority Tensor = 50"
| "execution_priority Semantic = 90"

fun Modality_display :: "Modality \<Rightarrow> string" where
  "Modality_display Graph = ''graph''"
| "Modality_display Vector = ''vector''"
| "Modality_display Tensor = ''tensor''"
| "Modality_display Semantic = ''semantic''"
| "Modality_display Document = ''document''"
| "Modality_display Temporal = ''temporal''"

datatype PlannerError =
    EmptyPlan
  | UnknownModality string
  | InvalidConfig string
  | CostEstimation string
  | PlannerSerialization string

fun PlannerError_display :: "PlannerError \<Rightarrow> string" where
  "PlannerError_display EmptyPlan = ''empty plan: no modality nodes to optimize''"
| "PlannerError_display (UnknownModality m) = ''unknown modality: '' @ m"
| "PlannerError_display (InvalidConfig m) = ''invalid configuration: '' @ m"
| "PlannerError_display (CostEstimation m) = ''cost estimation failed: '' @ m"
| "PlannerError_display (PlannerSerialization m) = ''serialization error: '' @ m"

definition Modality_from_str :: "('f, 'z) plan_env_scheme \<Rightarrow> string \<Rightarrow> (PlannerError, Modality) rresult" where
  "Modality_from_str E s =
    (let l = pf_to_lowercase E s in
     if l = ''graph'' then Inr Graph
     else if l = ''vector'' then Inr Vector
     else if l = ''tensor'' then Inr Tensor
     else if l = ''semantic'' then Inr Semantic
     else if l = ''document'' then Inr Document
     else if l = ''temporal'' then Inr Temporal
     else Inl (UnknownModality s))"

datatype QuerySource =
    HexadSource
  | Federation "string list"
  | Store Modality

datatype ConditionKind =
    Equality string string
  | RangeFilter string string string
  | Fulltext string
  | Similarity nat
  | Traversal string "u32 option"
  | AtTime string
  | ProofVerification string
  | TensorOp string
  | Predicate string

record PlanNode =
  pn_modality :: Modality
  pn_conditions :: "ConditionKind list"
  pn_projections :: "string list"
  pn_early_limit :: "nat option"

datatype PostProcessing =
    OrderBy "(string \<times> bool) list"
  | Limit nat
  | GroupBy "string list" "string list"
  | Project "string list"

record LogicalPlan =
  lp_source :: QuerySource
  lp_nodes :: "PlanNode list"
  lp_post_processing :: "PostProcessing list"

datatype ExecutionStrategy = Sequential | Parallel

record 'f CostEstimate =
  ce_time_ms :: 'f
  ce_estimated_rows :: u64
  ce_selectivity :: 'f
  ce_io_cost :: 'f
  ce_cpu_cost :: 'f

record 'f PlanStep =
  ps_step :: nat
  ps_operation :: string
  ps_modality :: Modality
  ps_cost :: "'f CostEstimate"
  ps_optimization_hint :: "string option"
  ps_pushed_predicates :: "string list"

record 'f PhysicalPlan =
  pp_steps :: "'f PlanStep list"
  pp_strategy :: ExecutionStrategy
  pp_total_cost :: "'f CostEstimate"
  pp_notes :: "string list"

text \<open>The derived \<open>Debug\<close> rendering of a condition, which the optimiser puts into \<open>pushed_predicates\<close>.\<close>

fun ConditionKind_debug :: "('f, 'z) plan_env_scheme \<Rightarrow> ConditionKind \<Rightarrow> string" where
  "ConditionKind_debug E (Equality field val) =
     ''Equality { field: '' @ pf_str_debug E field @ '', value: '' @ pf_str_debug E val @ '' }''"
| "ConditionKind_debug E (RangeFilter field low high) =
     ''Range { field: '' @ pf_str_debug E field @ '', low: '' @ pf_str_debug E low
       @ '', high: '' @ pf_str_debug E high @ '' }''"
| "ConditionKind_debug E (Fulltext query) = ''Fulltext { query: '' @ pf_str_debug E query @ '' }''"
| "ConditionKind_debug E (Similarity k) = ''Similarity { k: '' @ dec_digits k @ '' }''"
| "ConditionKind_debug E (Traversal predicate depth) =
     ''Traversal { predicate: '' @ pf_str_debug E predicate @ '', depth: ''
       @ (case depth of None \<Rightarrow> ''None'' | Some d \<Rightarrow> ''Some('' @ dec_digits (unat d) @ '')'') @ '' }''"
| "ConditionKind_debug E (AtTime timestamp) = ''AtTime { timestamp: '' @ pf_str_debug E timestamp @ '' }''"
| "ConditionKind_debug E (ProofVerification contract) = ''ProofVerification { contract: '' @ pf_str_debug E contract @ '' }''"
| "ConditionKind_debug E (TensorOp op) = ''TensorOp { operation: '' @ pf_str_debug E op @ '' }''"
| "ConditionKind_debug E (Predicate expression) = ''Predicate { expression: '' @ pf_str_debug E expression @ '' }''"

section \<open>Configuration\<close>

datatype OptimizationMode = Conservative | Balanced | Aggressive

fun cost_multiplier :: "('f, 'z) plan_env_scheme \<Rightarrow> OptimizationMode \<Rightarrow> 'f" where
  "cost_multiplier E Conservative = pf_dec E 15 1"
| "cost_multiplier E Balanced = pf_dec E 10 1"
| "cost_multiplier E Aggressive = pf_dec E 8 1"

fun selectivity_multiplier :: "('f, 'z) plan_env_scheme \<Rightarrow> OptimizationMode \<Rightarrow> 'f" where
  "selectivity_multiplier E Conservative = pf_dec E 20 1"
| "selectivity_multiplier E Balanced = pf_dec E 10 1"
| "selectivity_multiplier E Aggressive = pf_dec E 5 1"

record 'f PlannerConfig =
  pc_global_mode :: OptimizationMode
  pc_modality_overrides :: "Modality \<rightharpoonup> OptimizationMode"
  pc_statistics_weight :: 'f
  pc_enable_adaptive :: bool
  pc_parallel_threshold :: nat

definition mode_for :: "'f PlannerConfig \<Rightarrow> Modality \<Rightarrow> OptimizationMode" where
  "mode_for config modality =
    (case pc_modality_overrides config modality of Some mode \<Rightarrow> mode | None \<Rightarrow> pc_global_mode config)"

definition PlannerConfig_default :: "('f, 'z) plan_env_scheme \<Rightarrow> 'f PlannerConfig" where
  "PlannerConfig_default E =
    \<lparr>pc_global_mode = Balanced,
     pc_modality_overrides = [Vector \<mapsto> Aggressive, Graph \<mapsto> Conservative, Semantic \<mapsto> Conservative],
     pc_statistics_weight = pf_dec E 7 1,
     pc_enable_adaptive = True,
     pc_parallel_threshold = 2\<rparr>"

section \<open>Statistics of a store\<close>

record ('f, 'ts) StoreStatistics =
  ss_modality :: Modality
  ss_total_rows :: u64
  ss_avg_latency_ms :: 'f
  ss_avg_rows_returned :: u64
  ss_query_count :: u64
  ss_last_updated :: 'ts

definition StoreStatistics_new :: "('f, 'z) plan_env_scheme \<Rightarrow> 'ts \<Rightarrow> Modality \<Rightarrow> ('f, 'ts) StoreStatistics" where
  "StoreStatistics_new E now modality =
    \<lparr>ss_modality = modality, ss_total_rows = 0, ss_avg_latency_ms = pf_dec E 0 1, ss_avg_rows_returned = 0,
     ss_query_count = 0, ss_last_updated = now\<rparr>"

section \<open>Base costs and combination\<close>

record 'f BaseCost =
  bc_time_ms :: 'f
  bc_selectivity :: 'f
  bc_hint :: string

fun BaseCost_for_modality :: "('f, 'z) plan_env_scheme \<Rightarrow> Modality \<Rightarrow> 'f BaseCost" where
  "BaseCost_for_modality E Graph =
     \<lparr>bc_time_ms = pf_dec E 1500 1, bc_selectivity = pf_dec E 2 1, bc_hint = ''Graph traversal '' @ em_dash @ '' O(E) scan''\<rparr>"
| "BaseCost_for_modality E Vector =
     \<lparr>bc_time_ms = pf_dec E 500 1, bc_selectivity = pf_dec E 1 2, bc_hint = ''HNSW approximate nearest neighbor''\<rparr>"
| "BaseCost_for_modality E Tensor =
     \<lparr>bc_time_ms = pf_dec E 2000 1, bc_selectivity = pf_dec E 5 1,
      bc_hint = ''Tensor reduction '' @ em_dash @ '' shape dependent''\<rparr>"
| "BaseCost_for_modality E Semantic =
     \<lparr>bc_time_ms = pf_dec E 3000 1, bc_selectivity = pf_dec E 8 1, bc_hint = ''ZKP verification '' @ em_dash @ '' expensive''\<rparr>"
| "BaseCost_for_modality E Document =
     \<lparr>bc_time_ms = pf_dec E 800 1, bc_selectivity = pf_dec E 5 2, bc_hint = ''Tantivy inverted index lookup''\<rparr>"
| "BaseCost_for_modality E Temporal =
     \<lparr>bc_time_ms = pf_dec E 300 1, bc_selectivity = pf_dec E 1 1,
      bc_hint = ''Version tree lookup '' @ em_dash @ '' cached''\<rparr>"

definition CostEstimate_sequential ::
  "('f, 'z) plan_env_scheme \<Rightarrow> 'f CostEstimate \<Rightarrow> 'f CostEstimate \<Rightarrow> 'f CostEstimate" where
  "CostEstimate_sequential E a b =
    \<lparr>ce_time_ms = fo_add E (ce_time_ms a) (ce_time_ms b),
     ce_estimated_rows = max (ce_estimated_rows a) (ce_estimated_rows b),
     ce_selectivity = fo_mul E (ce_selectivity a) (ce_selectivity b),
     ce_io_cost = fo_add E (ce_io_cost a) (ce_io_cost b),
     ce_cpu_cost = fo_add E (ce_cpu_cost a) (ce_cpu_cost b)\<rparr>"

definition CostEstimate_parallel ::
  "('f, 'z) plan_env_scheme \<Rightarrow> 'f CostEstimate \<Rightarrow> 'f CostEstimate \<Rightarrow> 'f CostEstimate" where
  "CostEstimate_parallel E a b =
    \<lparr>ce_time_ms = pf_max E (ce_time_ms a) (ce_time_ms b),
     ce_estimated_rows = max (ce_estimated_rows a) (ce_estimated_rows b),
     ce_selectivity = fo_mul E (ce_selectivity a) (ce_selectivity b),
     ce_io_cost = fo_add E (ce_io_cost a) (ce_io_cost b),
     ce_cpu_cost = fo_add E (ce_cpu_cost a) (ce_cpu_cost b)\<rparr>"

definition CostEstimate_combine ::
  "('f, 'z) plan_env_scheme \<Rightarrow> 'f CostEstimate list \<Rightarrow> bool \<Rightarrow> 'f CostEstimate" where
  "CostEstimate_combine E estimates is_parallel =
    (case estimates of
       [] \<Rightarrow> \<lparr>ce_time_ms = pf_dec E 0 1, ce_estimated_rows = 0, ce_selectivity = pf_dec E 10 1,
              ce_io_cost = pf_dec E 0 1, ce_cpu_cost = pf_dec E 0 1\<rparr>
     | e # es \<Rightarrow> foldl (if is_parallel then CostEstimate_parallel E else CostEstimate_sequential E) e es)"

section \<open>Proof obligations\<close>

record 'f ProofCost =
  pr_verify_ms :: 'f
  pr_circuit_ms :: 'f
  pr_parallelizable :: bool

definition ProofCost_for_type :: "('f, 'z) plan_env_scheme \<Rightarrow> string \<Rightarrow> 'f ProofCost" where
  "ProofCost_for_type E proof_type =
    (let t = pf_to_lowercase E proof_type in
     if t = ''existence'' then \<lparr>pr_verify_ms = pf_dec E 10 1, pr_circuit_ms = pf_dec E 0 1, pr_parallelizable = True\<rparr>
     else if t = ''citation'' then \<lparr>pr_verify_ms = pf_dec E 50 1, pr_circuit_ms = pf_dec E 0 1, pr_parallelizable = True\<rparr>
     else if t = ''access'' then \<lparr>pr_verify_ms = pf_dec E 150 1, pr_circuit_ms = pf_dec E 0 1, pr_parallelizable = True\<rparr>
     else if t = ''integrity'' then \<lparr>pr_verify_ms = pf_dec E 500 1, pr_circuit_ms = pf_dec E 100 1, pr_parallelizable = True\<rparr>
     else if t = ''provenance'' then \<lparr>pr_verify_ms = pf_dec E 300 1, pr_circuit_ms = pf_dec E 0 1, pr_parallelizable = False\<rparr>
     else \<lparr>pr_verify_ms = pf_dec E 2000 1, pr_circuit_ms = pf_dec E 1000 1, pr_parallelizable = False\<rparr>)"

definition ProofCost_total_ms :: "('f, 'z) plan_env_scheme \<Rightarrow> 'f ProofCost \<Rightarrow> 'f" where
  "ProofCost_total_ms E p = fo_add E (pr_verify_ms p) (pr_circuit_ms p)"

definition known_types :: "string list" where
  "known_types = [''existence'', ''citation'', ''access'', ''integrity'', ''provenance'', ''zkp'']"

definition extract_proof_type :: "('f, 'z) plan_env_scheme \<Rightarrow> string \<Rightarrow> string" where
  "extract_proof_type E contract =
    (case find (str_contains (pf_to_lowercase E contract)) known_types of Some t \<Rightarrow> t | None \<Rightarrow> ''custom'')"

section \<open>Post-processing and cross-modal conditions\<close>

fun PostProcessingCost_estimate :: "('f, 'z) plan_env_scheme \<Rightarrow> PostProcessing \<Rightarrow> u64 \<Rightarrow> 'f CostEstimate" where
  "PostProcessingCost_estimate E (OrderBy flds) row_count =
    (let n = pf_of_u64 E (max row_count 1);
         sort_time = fo_mul E (fo_mul E (fo_mul E n (pf_max E (pf_log2 E n) (pf_dec E 10 1))) (pf_dec E 1 3))
                       (pf_of_nat E (length flds))
     in \<lparr>ce_time_ms = sort_time, ce_estimated_rows = row_count, ce_selectivity = pf_dec E 10 1,
         ce_io_cost = pf_dec E 0 1, ce_cpu_cost = sort_time\<rparr>)"
| "PostProcessingCost_estimate E (Limit n_rows) row_count =
    (let n = pf_of_u64 E (max row_count 1);
         out_rows = min row_count (of_nat n_rows)
     in \<lparr>ce_time_ms = pf_dec E 1 1, ce_estimated_rows = out_rows, ce_selectivity = fo_div E (pf_of_u64 E out_rows) n,
         ce_io_cost = pf_dec E 0 1, ce_cpu_cost = pf_dec E 1 1\<rparr>)"
| "PostProcessingCost_estimate E (GroupBy flds aggregates) row_count =
    (let n = pf_of_u64 E (max row_count 1);
         group_time = fo_mul E (fo_mul E n (pf_dec E 2 3)) (pf_of_nat E (length flds));
         agg_time = fo_mul E (fo_mul E n (pf_dec E 1 3)) (pf_of_nat E (max (length aggregates) 1));
         total = fo_add E group_time agg_time;
         est_groups = pf_to_u64 E (pf_max E (fo_div E n (pf_dec E 100 1)) (pf_dec E 10 1))
     in \<lparr>ce_time_ms = total, ce_estimated_rows = est_groups, ce_selectivity = fo_div E (pf_of_u64 E est_groups) n,
         ce_io_cost = pf_dec E 0 1, ce_cpu_cost = total\<rparr>)"
| "PostProcessingCost_estimate E (Project columns) row_count =
    (let n = pf_of_u64 E (max row_count 1);
         project_time = fo_mul E (fo_mul E n (pf_dec E 1 4)) (pf_of_nat E (length columns))
     in \<lparr>ce_time_ms = project_time, ce_estimated_rows = row_count, ce_selectivity = pf_dec E 10 1,
         ce_io_cost = pf_dec E 0 1, ce_cpu_cost = project_time\<rparr>)"

definition cross_modal_rates :: "('f, 'z) plan_env_scheme \<Rightarrow> ConditionKind \<Rightarrow> 'f \<times> 'f" where
  "cross_modal_rates E condition =
    (case condition of
       Predicate expression \<Rightarrow>
         if str_contains expression ''cross_modal'' then (pf_dec E 1 2, pf_dec E 3 1)
         else if str_contains expression ''drift'' then (pf_dec E 5 1, pf_dec E 5 1)
         else if str_contains expression ''consistency'' then (pf_dec E 10 1, pf_dec E 7 1)
         else if str_contains expression ''exists'' \<or> str_contains expression ''not_exists''
         then (pf_dec E 1 3, pf_dec E 5 1)
         else (pf_dec E 1 2, pf_dec E 5 1)
     | _ \<Rightarrow> (pf_dec E 1 2, pf_dec E 5 1))"

definition CrossModalCost_estimate :: "('f, 'z) plan_env_scheme \<Rightarrow> ConditionKind \<Rightarrow> u64 \<Rightarrow> 'f CostEstimate" where
  "CrossModalCost_estimate E condition row_count =
    (let n = pf_of_u64 E (max row_count 1);
         (per_row_ms, selectivity) = cross_modal_rates E condition;
         total_time = fo_mul E n per_row_ms
     in \<lparr>ce_time_ms = total_time,
         ce_estimated_rows = pf_to_u64 E (pf_max E (fo_mul E n selectivity) (pf_dec E 10 1)),
         ce_selectivity = selectivity, ce_io_cost = pf_dec E 0 1, ce_cpu_cost = total_time\<rparr>)"

section \<open>The cost model\<close>

text \<open>The condition loop of \<open>CostModel::estimate\<close>; the state is (\<open>time_ms\<close>, \<open>selectivity\<close>, \<open>proof_time_ms\<close>).\<close>

definition condition_step :: "('f, 'z) plan_env_scheme \<Rightarrow> 'f \<times> 'f \<times> 'f \<Rightarrow> ConditionKind \<Rightarrow> 'f \<times> 'f \<times> 'f" where
  "condition_step E = (\<lambda>(time_ms, selectivity, proof_time_ms) condition.
    case condition of
      Equality _ _ \<Rightarrow> (fo_mul E time_ms (pf_dec E 7 1), fo_mul E selectivity (pf_dec E 1 1), proof_time_ms)
    | RangeFilter _ _ _ \<Rightarrow> (fo_mul E time_ms (pf_dec E 8 1), fo_mul E selectivity (pf_dec E 3 1), proof_time_ms)
    | Similarity k \<Rightarrow>
        (time_ms, pf_min E (fo_div E (pf_of_nat E k) (pf_dec E 100000 1)) (pf_dec E 10 1), proof_time_ms)
    | Fulltext _ \<Rightarrow> (fo_mul E time_ms (pf_dec E 6 1), selectivity, proof_time_ms)
    | ProofVerification contract \<Rightarrow>
        (time_ms, selectivity,
         fo_add E proof_time_ms (ProofCost_total_ms E (ProofCost_for_type E (extract_proof_type E contract))))
    | _ \<Rightarrow> (time_ms, selectivity, proof_time_ms))"

definition blend_statistics ::
  "('f, 'z) plan_env_scheme \<Rightarrow> 'f PlannerConfig \<Rightarrow> ('f, 'ts) StoreStatistics option \<Rightarrow> 'f \<times> 'f \<Rightarrow> 'f \<times> 'f" where
  "blend_statistics E config stats = (\<lambda>(time_ms, selectivity).
    case stats of
      Some s \<Rightarrow>
        if 0 < ss_query_count s then
          (let w = pc_statistics_weight config;
               one = pf_dec E 10 1;
               time_ms' = fo_add E (fo_mul E time_ms (fo_sub E one w)) (fo_mul E (ss_avg_latency_ms s) w)
           in if 0 < ss_total_rows s then
                (let empirical_sel = fo_div E (pf_of_u64 E (ss_avg_rows_returned s)) (pf_of_u64 E (ss_total_rows s))
                 in (time_ms', fo_add E (fo_mul E selectivity (fo_sub E one w)) (fo_mul E empirical_sel w)))
              else (time_ms', selectivity))
        else (time_ms, selectivity)
    | None \<Rightarrow> (time_ms, selectivity))"

definition apply_early_limit :: "('f, 'z) plan_env_scheme \<Rightarrow> nat option \<Rightarrow> 'f \<times> 'f \<Rightarrow> 'f \<times> 'f" where
  "apply_early_limit E early_limit = (\<lambda>(time_ms, selectivity).
    case early_limit of
      Some limit \<Rightarrow>
        (let limit_factor = pf_min E (fo_div E (pf_of_nat E limit) (pf_dec E 10000 1)) (pf_dec E 10 1)
         in (fo_mul E time_ms (fo_add E (pf_dec E 5 1) (fo_mul E (pf_dec E 5 1) limit_factor)),
             fo_mul E selectivity limit_factor))
    | None \<Rightarrow> (time_ms, selectivity))"

definition CostModel_estimate ::
  "('f, 'z) plan_env_scheme \<Rightarrow> PlanNode \<Rightarrow> 'f PlannerConfig \<Rightarrow> ('f, 'ts) StoreStatistics option \<Rightarrow> 'f CostEstimate" where
  "CostModel_estimate E node config stats =
    (let base = BaseCost_for_modality E (pn_modality node);
         mode = mode_for config (pn_modality node);
         time_ms = fo_mul E (bc_time_ms base) (cost_multiplier E mode);
         selectivity = pf_min E (fo_mul E (bc_selectivity base) (selectivity_multiplier E mode)) (pf_dec E 10 1);
         (time_ms, selectivity) = apply_early_limit E (pn_early_limit node) (blend_statistics E config stats (time_ms, selectivity));
         (time_ms, selectivity, proof_time_ms) =
           foldl (condition_step E) (time_ms, selectivity, pf_dec E 0 1) (pn_conditions node);
         time_ms = fo_add E time_ms proof_time_ms;
         estimated_rows =
           (case stats of
              Some s \<Rightarrow> pf_to_u64 E (pf_max E (fo_mul E (pf_of_u64 E (ss_total_rows s)) selectivity) (pf_dec E 10 1))
            | None \<Rightarrow> pf_to_u64 E (pf_max E (fo_mul E (pf_dec E 10000 1) selectivity) (pf_dec E 10 1)))
     in \<lparr>ce_time_ms = time_ms, ce_estimated_rows = estimated_rows, ce_selectivity = selectivity,
         ce_io_cost = fo_mul E (fo_sub E time_ms proof_time_ms) (pf_dec E 6 1),
         ce_cpu_cost = fo_add E (fo_mul E (fo_sub E time_ms proof_time_ms) (pf_dec E 4 1)) proof_time_ms\<rparr>)"

definition estimate_with_post_processing ::
  "('f, 'z) plan_env_scheme \<Rightarrow> 'f CostEstimate \<Rightarrow> PostProcessing list \<Rightarrow> 'f CostEstimate" where
  "estimate_with_post_processing E modality_cost post_processing =
    (let (total, current_rows) =
       foldl (\<lambda>(total, current_rows) pp.
           let pp_cost = PostProcessingCost_estimate E pp current_rows
           in (total\<lparr>ce_time_ms := fo_add E (ce_time_ms total) (ce_time_ms pp_cost),
                    ce_cpu_cost := fo_add E (ce_cpu_cost total) (ce_cpu_cost pp_cost)\<rparr>,
               ce_estimated_rows pp_cost))
         (modality_cost, ce_estimated_rows modality_cost) post_processing
     in total\<lparr>ce_estimated_rows := current_rows\<rparr>)"

text \<open>\<open>None\<close> is the panic of \<open>&query[..20]\<close> inside a character.\<close>

fun hint_loop :: "string \<Rightarrow> ConditionKind list \<Rightarrow> string option" where
  "hint_loop hint [] = Some hint"
| "hint_loop hint (condition # cs) =
    (case condition of
       Similarity k \<Rightarrow> hint_loop (''HNSW ANN search (k='' @ dec_digits k @ '')'') cs
     | Fulltext query \<Rightarrow>
         (case (if 20 < length query then map_option (\<lambda>p. p @ ''...'') (str_prefix query 20) else Some query) of
            None \<Rightarrow> None
          | Some preview \<Rightarrow> hint_loop (''Tantivy fulltext: '' @ quote2 preview) cs)
     | Traversal predicate depth \<Rightarrow>
         hint_loop (''Graph traversal: '' @ predicate @ '' (depth=''
           @ dec_digits (unat (case depth of Some d \<Rightarrow> d | None \<Rightarrow> 1)) @ '')'') cs
     | ProofVerification contract \<Rightarrow> hint_loop (''ZKP verify: '' @ contract) cs
     | Equality field _ \<Rightarrow> hint_loop (''Index lookup on '' @ field) cs
     | AtTime timestamp \<Rightarrow> hint_loop (''Temporal snapshot at '' @ timestamp) cs
     | _ \<Rightarrow> hint_loop hint cs)"

definition optimization_hint :: "('f, 'z) plan_env_scheme \<Rightarrow> PlanNode \<Rightarrow> string option option" where
  "optimization_hint E node =
    map_option Some (hint_loop (bc_hint (BaseCost_for_modality E (pn_modality node))) (pn_conditions node))"

end
