(* ===== verification/Json.thy ===== *)
theory Json
  imports Text
begin

text \<open>
  JSON values as \<open>serde_json::Value\<close> holds them, with the accessors the sources use, and the combinators on
  \<open>Option\<close> and \<open>Result\<close> with which they are read.  An object is the list of its entries; numbers are a parameter.
\<close>

section \<open>Results\<close>

definition ok_or :: "'a option \<Rightarrow> 'e \<Rightarrow> ('e, 'a) rresult" where
  "ok_or x e = (case x of None \<Rightarrow> Inl e | Some a \<Rightarrow> Inr a)"

lemma ok_or_simps [simp]: "ok_or None e = Inl e" "ok_or (Some a) e = Inr a"
  by (simp_all add: ok_or_def)

lemma ok_or_Inr [simp]: "ok_or x e = Inr a \<longleftrightarrow> x = Some a"
  by (cases x) auto

lemma rbind_cong [fundef_cong]:
  "r = r' \<Longrightarrow> (\<And>a. r' = Inr a \<Longrightarrow> f a = g a) \<Longrightarrow> rbind r f = rbind r' g"
  by (cases r') auto

definition ok_of :: "('e, 'a) rresult \<Rightarrow> 'a option" where
  "ok_of r = (case r of Inr a \<Rightarrow> Some a | Inl _ \<Rightarrow> None)"

lemma ok_of_simps [simp]: "ok_of (Inr a) = Some a" "ok_of (Inl e) = None"
  by (simp_all add: ok_of_def)

text \<open>\<open>iter().map(f).collect::<Result<Vec<_>, _>>()\<close>: the first error, or all results.\<close>

fun collect_results :: "('a \<Rightarrow> ('e, 'b) rresult) \<Rightarrow> 'a list \<Rightarrow> ('e, 'b list) rresult" where
  "collect_results f [] = Inr []"
| "collect_results f (x # xs) = rbind (f x) (\<lambda>y. rbind (collect_results f xs) (\<lambda>ys. Inr (y # ys)))"

lemma collect_results_map:
  "(\<And>x. x \<in> set xs \<Longrightarrow> f (g x) = Inr x) \<Longrightarrow> collect_results f (map g xs) = Inr xs"
  by (induction xs) auto

fun collect_options :: "('a \<Rightarrow> 'b option) \<Rightarrow> 'a list \<Rightarrow> 'b list option" where
  "collect_options f [] = Some []"
| "collect_options f (x # xs) = Option.bind (f x) (\<lambda>y. Option.bind (collect_options f xs) (\<lambda>ys. Some (y # ys)))"

lemma collect_options_map:
  "(\<And>x. x \<in> set xs \<Longrightarrow> f (g x) = Some x) \<Longrightarrow> collect_options f (map g xs) = Some xs"
  by (induction xs) auto

section \<open>Values\<close>

datatype 'n json =
    JNull
  | JBool bool
  | JNumber 'n
  | JString string
  | JArray "'n json list"
  | JObject "(string \<times> 'n json) list"

fun as_object :: "'n json \<Rightarrow> (string \<times> 'n json) list option" where
  "as_object (JObject kvs) = Some kvs"
| "as_object _ = None"

fun as_str :: "'n json \<Rightarrow> string option" where
  "as_str (JString s) = Some s"
| "as_str _ = None"

fun as_array :: "'n json \<Rightarrow> 'n json list option" where
  "as_array (JArray vs) = Some vs"
| "as_array _ = None"

fun as_number :: "'n json \<Rightarrow> 'n option" where
  "as_number (JNumber n) = Some n"
| "as_number _ = None"

lemma as_object_Some [simp]: "as_object v = Some kvs \<longleftrightarrow> v = JObject kvs"
  by (cases v) auto

lemma as_str_Some [simp]: "as_str v = Some s \<longleftrightarrow> v = JString s"
  by (cases v) auto

text \<open>The value of an entry is smaller than its object.\<close>

lemma size_entry: "map_of kvs k = Some v \<Longrightarrow> size v < size (JObject kvs)"
proof -
  assume "map_of kvs k = Some v"
  then have "(k, v) \<in> set kvs" by (rule map_of_SomeD)
  then show ?thesis by (induction kvs) auto
qed

end
