(* ===== verification/Vql_Ast.thy ===== *)
theory Vql_Ast
  imports Planner Json
begin

text \<open>
  The syntax tree of VQL and how it is read from JSON (\<open>verisim-planner/src/vql_bridge.rs\<close>, first half).  The
  parser of the front end writes a variant as an object with its constructor under \<open>TAG\<close> and its arguments
  under \<open>_0\<close>, \<open>_1\<close>, and so on.  What serde and \<open>serde_json\<close> do is a parameter; the visitors and parsers
  written out in the source are definitions, and reading a tree that was written in this encoding returns it.
\<close>

section \<open>Environment\<close>

text \<open>
  \<open>vb_parse\<close> reads a text, keeping the entries of the outermost object in the order of the document;
  \<open>vb_text_error\<close> is the text of the error for an input that is refused, \<open>vb_error\<close> that for a value which is not
  of the named type.  \<open>vb_struct\<close> is how a derived \<open>Deserialize\<close> finds the fields of a struct, given as names with
  whether they have a default, and \<open>vb_tagged\<close> how one finds the tag of an internally tagged enum.  The rest are
  conversions of numbers and the printing of values.
\<close>

record ('f, 'n) vql_env = "'f plan_env" +
  vb_parse :: "string \<Rightarrow> 'n json option"
  vb_text_error :: "string \<Rightarrow> string"
  vb_error :: "string \<Rightarrow> 'n json \<Rightarrow> string"
  vb_struct :: "(string \<times> bool) list \<Rightarrow> 'n json \<Rightarrow> (string \<Rightarrow> 'n json option) option"
  vb_tagged :: "string \<Rightarrow> 'n json \<Rightarrow> (string \<times> 'n json) option"
  vb_as_f64 :: "'n \<Rightarrow> 'f option"
  vb_as_u64 :: "'n \<Rightarrow> u64 option"
  vb_value_display :: "'n json \<Rightarrow> string"
  vb_value_debug :: "'n json \<Rightarrow> string"
  vb_f64_display :: "'f \<Rightarrow> string"
  vb_f64_debug :: "'f \<Rightarrow> string"

section \<open>The syntax tree\<close>

datatype VqlModality = VqlGraph | VqlVector | VqlTensor | VqlSemantic | VqlDocument | VqlTemporal | VqlAll

datatype VqlSource =
    VqlHexad "string option"
  | VqlFederation "string list" "string option"
  | VqlStore VqlModality

record VqlFieldRef =
  fr_modality :: "VqlModality option"
  fr_field :: string

datatype ('f, 'n) VqlSimpleCondition =
    FulltextContains string
  | VectorSimilar "'f list" 'f
  | GraphPattern string "u32 option"
  | FieldCondition VqlFieldRef string "'n json"
  | CrossModalFieldCompare VqlFieldRef string VqlFieldRef
  | ModalityDrift VqlModality 'f
  | ModalityExists VqlModality
  | ModalityNotExists VqlModality
  | ModalityConsistency "VqlModality list" 'f

datatype ('f, 'n) VqlCondition =
    VqlAnd "('f, 'n) VqlCondition" "('f, 'n) VqlCondition"
  | VqlOr "('f, 'n) VqlCondition" "('f, 'n) VqlCondition"
  | VqlNot "('f, 'n) VqlCondition"
  | VqlSimple "('f, 'n) VqlSimpleCondition"

record VqlProjection =
  vp_field :: VqlFieldRef
  vp_alias :: "string option"

record VqlAggregate =
  va_function :: string
  va_field :: "VqlFieldRef option"
  va_alias :: "string option"

datatype VqlProofType = Citation | Zkp | Attestation | CustomProof string

record VqlProofSpec =
  vs_proof_type :: VqlProofType
  vs_contract_name :: string

datatype VqlDirection = Asc | Desc

record VqlOrderBy =
  vo_field :: VqlFieldRef
  vo_direction :: VqlDirection

record ('f, 'n) VqlQuery =
  vq_modalities :: "VqlModality list"
  vq_source :: VqlSource
  vq_where_clause :: "('f, 'n) VqlCondition option"
  vq_projections :: "VqlProjection list option"
  vq_aggregates :: "VqlAggregate list option"
  vq_group_by :: "VqlFieldRef list option"
  vq_having :: "('f, 'n) VqlCondition option"
  vq_proof :: "VqlProofSpec list option"
  vq_order_by :: "VqlOrderBy list option"
  vq_limit :: "nat option"
  vq_offset :: "nat option"

datatype ('f, 'n) VqlAst = Query "('f, 'n) VqlQuery"

section \<open>Reading tagged values\<close>

text \<open>The visitors of \<open>VqlModality\<close>, \<open>VqlProofType\<close> and \<open>VqlDirection\<close> skip every entry but \<open>TAG\<close>.\<close>

definition visit_tag :: "'n json \<Rightarrow> string option" where
  "visit_tag v = Option.bind (as_object v) (\<lambda>kvs. Option.bind (map_of kvs ''TAG'') as_str)"

definition de_VqlModality :: "'n json \<Rightarrow> VqlModality option" where
  "de_VqlModality v = Option.bind (visit_tag v) (\<lambda>tag.
     if tag = ''Graph'' then Some VqlGraph
     else if tag = ''Vector'' then Some VqlVector
     else if tag = ''Tensor'' then Some VqlTensor
     else if tag = ''Semantic'' then Some VqlSemantic
     else if tag = ''Document'' then Some VqlDocument
     else if tag = ''Temporal'' then Some VqlTemporal
     else if tag = ''All'' then Some VqlAll
     else None)"

definition de_VqlProofType :: "'n json \<Rightarrow> VqlProofType option" where
  "de_VqlProofType v = map_option (\<lambda>tag.
     if tag = ''Citation'' then Citation
     else if tag = ''Zkp'' then Zkp
     else if tag = ''Attestation'' then Attestation
     else CustomProof tag) (visit_tag v)"

definition de_VqlDirection :: "'n json \<Rightarrow> VqlDirection option" where
  "de_VqlDirection v = Option.bind (visit_tag v) (\<lambda>tag.
     if tag = ''Asc'' then Some Asc else if tag = ''Desc'' then Some Desc else None)"

section \<open>Derived readers\<close>

text \<open>The library's readers for \<open>Vec<T>\<close> and \<open>usize\<close>, and a field of a struct, required or \<open>Option<T>\<close>.\<close>

definition de_vec :: "('n json \<Rightarrow> 'a option) \<Rightarrow> 'n json \<Rightarrow> 'a list option" where
  "de_vec d v = Option.bind (as_array v) (collect_options d)"

definition de_usize :: "('f, 'n, 'z) vql_env_scheme \<Rightarrow> 'n json \<Rightarrow> nat option" where
  "de_usize E v = map_option unat (Option.bind (as_number v) (vb_as_u64 E))"

definition required :: "(string \<Rightarrow> 'n json option) \<Rightarrow> string \<Rightarrow> ('n json \<Rightarrow> 'a option) \<Rightarrow> 'a option" where
  "required flds k d = Option.bind (flds k) d"

definition optional :: "(string \<Rightarrow> 'n json option) \<Rightarrow> string \<Rightarrow> ('n json \<Rightarrow> 'a option) \<Rightarrow> 'a option option" where
  "optional flds k d =
    (case flds k of None \<Rightarrow> Some None | Some JNull \<Rightarrow> Some None | Some v \<Rightarrow> map_option Some (d v))"

definition de_VqlFieldRef :: "('f, 'n, 'z) vql_env_scheme \<Rightarrow> 'n json \<Rightarrow> VqlFieldRef option" where
  "de_VqlFieldRef E v =
    Option.bind (vb_struct E [(''modality'', True), (''field'', False)] v) (\<lambda>flds.
    Option.bind (optional flds ''modality'' de_VqlModality) (\<lambda>m.
    Option.bind (required flds ''field'' as_str) (\<lambda>f. Some \<lparr>fr_modality = m, fr_field = f\<rparr>)))"

definition de_VqlSource :: "('f, 'n, 'z) vql_env_scheme \<Rightarrow> 'n json \<Rightarrow> VqlSource option" where
  "de_VqlSource E v = Option.bind (vb_tagged E ''TAG'' v) (\<lambda>(tag, content).
     if tag = ''Hexad'' then
       Option.bind (vb_struct E [(''_0'', False)] content) (\<lambda>flds.
       map_option VqlHexad (optional flds ''_0'' as_str))
     else if tag = ''Federation'' then
       Option.bind (vb_struct E [(''_0'', False), (''_1'', False)] content) (\<lambda>flds.
       Option.bind (required flds ''_0'' (de_vec as_str)) (\<lambda>nodes.
       map_option (VqlFederation nodes) (optional flds ''_1'' as_str)))
     else if tag = ''Store'' then
       Option.bind (vb_struct E [(''_0'', False)] content) (\<lambda>flds.
       map_option VqlStore (required flds ''_0'' de_VqlModality))
     else None)"

definition de_VqlProjection :: "('f, 'n, 'z) vql_env_scheme \<Rightarrow> 'n json \<Rightarrow> VqlProjection option" where
  "de_VqlProjection E v =
    Option.bind (vb_struct E [(''field'', False), (''alias'', True)] v) (\<lambda>flds.
    Option.bind (required flds ''field'' (de_VqlFieldRef E)) (\<lambda>f.
    Option.bind (optional flds ''alias'' as_str) (\<lambda>a. Some \<lparr>vp_field = f, vp_alias = a\<rparr>)))"

definition de_VqlAggregate :: "('f, 'n, 'z) vql_env_scheme \<Rightarrow> 'n json \<Rightarrow> VqlAggregate option" where
  "de_VqlAggregate E v =
    Option.bind (vb_struct E [(''function'', False), (''field'', True), (''alias'', True)] v) (\<lambda>flds.
    Option.bind (required flds ''function'' as_str) (\<lambda>n.
    Option.bind (optional flds ''field'' (de_VqlFieldRef E)) (\<lambda>f.
    Option.bind (optional flds ''alias'' as_str) (\<lambda>a. Some \<lparr>va_function = n, va_field = f, va_alias = a\<rparr>))))"

definition de_VqlProofSpec :: "('f, 'n, 'z) vql_env_scheme \<Rightarrow> 'n json \<Rightarrow> VqlProofSpec option" where
  "de_VqlProofSpec E v =
    Option.bind (vb_struct E [(''proofType'', False), (''contractName'', False)] v) (\<lambda>flds.
    Option.bind (required flds ''proofType'' de_VqlProofType) (\<lambda>t.
    Option.bind (required flds ''contractName'' as_str) (\<lambda>n. Some \<lparr>vs_proof_type = t, vs_contract_name = n\<rparr>)))"

definition de_VqlOrderBy :: "('f, 'n, 'z) vql_env_scheme \<Rightarrow> 'n json \<Rightarrow> VqlOrderBy option" where
  "de_VqlOrderBy E v =
    Option.bind (vb_struct E [(''field'', False), (''direction'', False)] v) (\<lambda>flds.
    Option.bind (required flds ''field'' (de_VqlFieldRef E)) (\<lambda>f.
    Option.bind (required flds ''direction'' de_VqlDirection) (\<lambda>d. Some \<lparr>vo_field = f, vo_direction = d\<rparr>)))"

section \<open>Conditions\<close>

definition str_arg :: "(string \<times> 'n json) list \<Rightarrow> string \<Rightarrow> string \<Rightarrow> (string, string) rresult" where
  "str_arg obj k msg = ok_or (Option.bind (map_of obj k) as_str) msg"

definition f64_arg :: "('f, 'n, 'z) vql_env_scheme \<Rightarrow> (string \<times> 'n json) list \<Rightarrow> string \<Rightarrow> string \<Rightarrow> (string, 'f) rresult" where
  "f64_arg E obj k msg = ok_or (Option.bind (map_of obj k) (\<lambda>v. Option.bind (as_number v) (vb_as_f64 E))) msg"

definition field_arg ::
  "('f, 'n, 'z) vql_env_scheme \<Rightarrow> (string \<times> 'n json) list \<Rightarrow> string \<Rightarrow> string \<Rightarrow> (string, VqlFieldRef) rresult" where
  "field_arg E obj k msg =
    rbind (ok_or (map_of obj k) msg) (\<lambda>v. ok_or (de_VqlFieldRef E v) (vb_error E ''VqlFieldRef'' v))"

definition modality_arg ::
  "('f, 'n, 'z) vql_env_scheme \<Rightarrow> (string \<times> 'n json) list \<Rightarrow> string \<Rightarrow> string \<Rightarrow> (string, VqlModality) rresult" where
  "modality_arg E obj k msg =
    rbind (ok_or (map_of obj k) msg) (\<lambda>v. ok_or (de_VqlModality v) (vb_error E ''VqlModality'' v))"

definition embedding_arg :: "('f, 'n, 'z) vql_env_scheme \<Rightarrow> (string \<times> 'n json) list \<Rightarrow> (string, 'f list) rresult" where
  "embedding_arg E obj =
    rbind (ok_or (Option.bind (map_of obj ''_0'') as_array) ''VectorSimilar missing _0 (embedding array)'')
      (collect_results (\<lambda>v. ok_or (Option.bind (as_number v) (vb_as_f64 E)) ''VectorSimilar _0 contains non-numeric''))"

definition parse_simple_condition :: "('f, 'n, 'z) vql_env_scheme \<Rightarrow> 'n json \<Rightarrow> (string, ('f, 'n) VqlSimpleCondition) rresult" where
  "parse_simple_condition E value =
    rbind (ok_or (as_object value) ''simple condition must be a JSON object'') (\<lambda>obj.
    rbind (str_arg obj ''TAG'' ''simple condition object missing TAG field'') (\<lambda>tag.
     if tag = ''FulltextContains'' then
       rbind (str_arg obj ''_0'' ''FulltextContains missing _0 (search text)'') (\<lambda>t. Inr (FulltextContains t))
     else if tag = ''VectorSimilar'' then
       rbind (embedding_arg E obj) (\<lambda>embedding.
       rbind (f64_arg E obj ''_1'' ''VectorSimilar missing _1 (threshold)'') (\<lambda>threshold.
         Inr (VectorSimilar embedding threshold)))
     else if tag = ''GraphPattern'' then
       rbind (str_arg obj ''_0'' ''GraphPattern missing _0 (predicate)'') (\<lambda>predicate.
         Inr (GraphPattern predicate
           (map_option ucast (Option.bind (map_of obj ''_1'') (\<lambda>v. Option.bind (as_number v) (vb_as_u64 E))))))
     else if tag = ''FieldCondition'' then
       rbind (field_arg E obj ''_0'' ''FieldCondition missing _0 (field)'') (\<lambda>field.
       rbind (str_arg obj ''_1'' ''FieldCondition missing _1 (operator)'') (\<lambda>operator.
       rbind (ok_or (map_of obj ''_2'') ''FieldCondition missing _2 (value)'') (\<lambda>val.
         Inr (FieldCondition field operator val))))
     else if tag = ''CrossModalFieldCompare'' then
       rbind (field_arg E obj ''_0'' ''CrossModalFieldCompare missing _0 (left)'') (\<lambda>left.
       rbind (str_arg obj ''_1'' ''CrossModalFieldCompare missing _1 (operator)'') (\<lambda>operator.
       rbind (field_arg E obj ''_2'' ''CrossModalFieldCompare missing _2 (right)'') (\<lambda>right.
         Inr (CrossModalFieldCompare left operator right))))
     else if tag = ''ModalityDrift'' then
       rbind (modality_arg E obj ''_0'' ''ModalityDrift missing _0 (modality)'') (\<lambda>m.
       rbind (f64_arg E obj ''_1'' ''ModalityDrift missing _1 (threshold)'') (\<lambda>threshold.
         Inr (ModalityDrift m threshold)))
     else if tag = ''ModalityExists'' then
       rbind (modality_arg E obj ''_0'' ''ModalityExists missing _0 (modality)'') (\<lambda>m. Inr (ModalityExists m))
     else if tag = ''ModalityNotExists'' then
       rbind (modality_arg E obj ''_0'' ''ModalityNotExists missing _0 (modality)'') (\<lambda>m. Inr (ModalityNotExists m))
     else if tag = ''ModalityConsistency'' then
       rbind (ok_or (map_of obj ''_0'') ''ModalityConsistency missing _0 (modalities)'') (\<lambda>v.
       rbind (ok_or (de_vec de_VqlModality v) (vb_error E ''Vec<VqlModality>'' v)) (\<lambda>ms.
       rbind (f64_arg E obj ''_1'' ''ModalityConsistency missing _1 (threshold)'') (\<lambda>threshold.
         Inr (ModalityConsistency ms threshold))))
     else Inl (''unknown simple condition TAG: '' @ tag)))"

text \<open>
  \<open>serde_json::from_value\<close> of a simple condition calls \<open>parse_simple_condition\<close>; the custom error it wraps the message in
  prints as the message.
\<close>

function parse_condition :: "('f, 'n, 'z) vql_env_scheme \<Rightarrow> 'n json \<Rightarrow> (string, ('f, 'n) VqlCondition) rresult" where
  "parse_condition E value =
    rbind (ok_or (as_object value) ''condition must be a JSON object'') (\<lambda>obj.
    rbind (str_arg obj ''TAG'' ''condition object missing TAG field'') (\<lambda>tag.
     if tag = ''And'' then
       rbind (ok_or (map_of obj ''_0'') ''And condition missing _0 (left operand)'') (\<lambda>lhs.
       rbind (ok_or (map_of obj ''_1'') ''And condition missing _1 (right operand)'') (\<lambda>rhs.
       rbind (parse_condition E lhs) (\<lambda>l. rbind (parse_condition E rhs) (\<lambda>r. Inr (VqlAnd l r)))))
     else if tag = ''Or'' then
       rbind (ok_or (map_of obj ''_0'') ''Or condition missing _0 (left operand)'') (\<lambda>lhs.
       rbind (ok_or (map_of obj ''_1'') ''Or condition missing _1 (right operand)'') (\<lambda>rhs.
       rbind (parse_condition E lhs) (\<lambda>l. rbind (parse_condition E rhs) (\<lambda>r. Inr (VqlOr l r)))))
     else if tag = ''Not'' then
       rbind (ok_or (map_of obj ''_0'') ''Not condition missing _0 (operand)'') (\<lambda>inner.
       rbind (parse_condition E inner) (\<lambda>c. Inr (VqlNot c)))
     else if tag = ''Simple'' then
       rbind (ok_or (map_of obj ''_0'') ''Simple condition missing _0'') (\<lambda>inner.
       rbind (parse_simple_condition E inner) (\<lambda>s. Inr (VqlSimple s)))
     else Inl (''unknown condition TAG: '' @ tag)))"
  by pat_completeness auto
termination
  by (relation "measure (\<lambda>(E, v). size v)") (auto simp del: json.size dest: size_entry)

declare parse_condition.simps [simp del]

definition de_VqlCondition :: "('f, 'n, 'z) vql_env_scheme \<Rightarrow> 'n json \<Rightarrow> ('f, 'n) VqlCondition option" where
  "de_VqlCondition E v = ok_of (parse_condition E v)"

section \<open>Queries\<close>

definition VqlQuery_fields :: "(string \<times> bool) list" where
  "VqlQuery_fields =
    [(''modalities'', False), (''source'', False), (''where'', True), (''projections'', True), (''aggregates'', True),
     (''groupBy'', True), (''having'', True), (''proof'', True), (''orderBy'', True), (''limit'', True), (''offset'', True)]"

definition de_VqlQuery :: "('f, 'n, 'z) vql_env_scheme \<Rightarrow> 'n json \<Rightarrow> ('f, 'n) VqlQuery option" where
  "de_VqlQuery E v =
    Option.bind (vb_struct E VqlQuery_fields v) (\<lambda>flds.
    Option.bind (required flds ''modalities'' (de_vec de_VqlModality)) (\<lambda>modalities.
    Option.bind (required flds ''source'' (de_VqlSource E)) (\<lambda>source.
    Option.bind (optional flds ''where'' (de_VqlCondition E)) (\<lambda>where_clause.
    Option.bind (optional flds ''projections'' (de_vec (de_VqlProjection E))) (\<lambda>projections.
    Option.bind (optional flds ''aggregates'' (de_vec (de_VqlAggregate E))) (\<lambda>aggregates.
    Option.bind (optional flds ''groupBy'' (de_vec (de_VqlFieldRef E))) (\<lambda>group_by.
    Option.bind (optional flds ''having'' (de_VqlCondition E)) (\<lambda>having.
    Option.bind (optional flds ''proof'' (de_vec (de_VqlProofSpec E))) (\<lambda>proofs.
    Option.bind (optional flds ''orderBy'' (de_vec (de_VqlOrderBy E))) (\<lambda>order_by.
    Option.bind (optional flds ''limit'' (de_usize E)) (\<lambda>lim.
    Option.bind (optional flds ''offset'' (de_usize E)) (\<lambda>skip.
    Some \<lparr>vq_modalities = modalities, vq_source = source, vq_where_clause = where_clause,
      vq_projections = projections, vq_aggregates = aggregates, vq_group_by = group_by, vq_having = having,
      vq_proof = proofs, vq_order_by = order_by, vq_limit = lim, vq_offset = skip\<rparr>))))))))))))"

text \<open>The visitor of \<open>VqlAst\<close>: the last \<open>TAG\<close> and the last \<open>_0\<close> count; a \<open>TAG\<close> that is no string is an error at once.\<close>

fun visit_ast ::
  "(string \<times> 'n json) list \<Rightarrow> string option \<Rightarrow> 'n json option \<Rightarrow> (string option \<times> 'n json option) option" where
  "visit_ast [] tag payload = Some (tag, payload)"
| "visit_ast ((k, v) # kvs) tag payload =
    (if k = ''TAG'' then Option.bind (as_str v) (\<lambda>t. visit_ast kvs (Some t) payload)
     else if k = ''_0'' then visit_ast kvs tag (Some v)
     else visit_ast kvs tag payload)"

definition de_VqlAst :: "('f, 'n, 'z) vql_env_scheme \<Rightarrow> 'n json \<Rightarrow> ('f, 'n) VqlAst option" where
  "de_VqlAst E v =
    Option.bind (as_object v) (\<lambda>kvs.
    Option.bind (visit_ast kvs None None) (\<lambda>(tag, payload).
    Option.bind tag (\<lambda>t.
      if t = ''Query'' then Option.bind payload (\<lambda>body. map_option Query (de_VqlQuery E body))
      else None)))"

definition from_json :: "('f, 'n, 'z) vql_env_scheme \<Rightarrow> string \<Rightarrow> (PlannerError, ('f, 'n) VqlAst) rresult" where
  "from_json E json =
    ok_or (Option.bind (vb_parse E json) (de_VqlAst E)) (PlannerSerialization (vb_text_error E json))"

section \<open>The encoding\<close>

text \<open>
  The JSON the front end writes for a tree: a variant is an object with \<open>TAG\<close> and positional arguments, a missing
  option is \<open>null\<close>.  \<open>num\<close> and \<open>unum\<close> are how numbers are written.
\<close>

definition tagged :: "string \<Rightarrow> (string \<times> 'n json) list \<Rightarrow> 'n json" where
  "tagged t args = JObject ((''TAG'', JString t) # args)"

definition enc_opt :: "('a \<Rightarrow> 'n json) \<Rightarrow> 'a option \<Rightarrow> 'n json" where
  "enc_opt f x = (case x of None \<Rightarrow> JNull | Some a \<Rightarrow> f a)"

definition enc_list :: "('a \<Rightarrow> 'n json) \<Rightarrow> 'a list \<Rightarrow> 'n json" where
  "enc_list f xs = JArray (map f xs)"

fun modality_tag :: "VqlModality \<Rightarrow> string" where
  "modality_tag VqlGraph = ''Graph''"
| "modality_tag VqlVector = ''Vector''"
| "modality_tag VqlTensor = ''Tensor''"
| "modality_tag VqlSemantic = ''Semantic''"
| "modality_tag VqlDocument = ''Document''"
| "modality_tag VqlTemporal = ''Temporal''"
| "modality_tag VqlAll = ''All''"

fun proof_type_tag :: "VqlProofType \<Rightarrow> string" where
  "proof_type_tag Citation = ''Citation''"
| "proof_type_tag Zkp = ''Zkp''"
| "proof_type_tag Attestation = ''Attestation''"
| "proof_type_tag (CustomProof s) = s"

definition enc_modality :: "VqlModality \<Rightarrow> 'n json" where
  "enc_modality m = tagged (modality_tag m) []"

definition enc_field_ref :: "VqlFieldRef \<Rightarrow> 'n json" where
  "enc_field_ref r = JObject [(''modality'', enc_opt enc_modality (fr_modality r)), (''field'', JString (fr_field r))]"

fun enc_source :: "VqlSource \<Rightarrow> 'n json" where
  "enc_source (VqlHexad u) = tagged ''Hexad'' [(''_0'', enc_opt JString u)]"
| "enc_source (VqlFederation ns p) = tagged ''Federation'' [(''_0'', enc_list JString ns), (''_1'', enc_opt JString p)]"
| "enc_source (VqlStore m) = tagged ''Store'' [(''_0'', enc_modality m)]"

definition enc_projection :: "VqlProjection \<Rightarrow> 'n json" where
  "enc_projection p = JObject [(''field'', enc_field_ref (vp_field p)), (''alias'', enc_opt JString (vp_alias p))]"

definition enc_aggregate :: "VqlAggregate \<Rightarrow> 'n json" where
  "enc_aggregate a =
    JObject [(''function'', JString (va_function a)), (''field'', enc_opt enc_field_ref (va_field a)),
      (''alias'', enc_opt JString (va_alias a))]"

definition enc_proof_spec :: "VqlProofSpec \<Rightarrow> 'n json" where
  "enc_proof_spec s =
    JObject [(''proofType'', tagged (proof_type_tag (vs_proof_type s)) []), (''contractName'', JString (vs_contract_name s))]"

definition enc_order_by :: "VqlOrderBy \<Rightarrow> 'n json" where
  "enc_order_by ob =
    JObject [(''field'', enc_field_ref (vo_field ob)),
      (''direction'', tagged (case vo_direction ob of Asc \<Rightarrow> ''Asc'' | Desc \<Rightarrow> ''Desc'') [])]"

fun enc_simple :: "('f \<Rightarrow> 'n) \<Rightarrow> (u64 \<Rightarrow> 'n) \<Rightarrow> ('f, 'n) VqlSimpleCondition \<Rightarrow> 'n json" where
  "enc_simple num unum (FulltextContains t) = tagged ''FulltextContains'' [(''_0'', JString t)]"
| "enc_simple num unum (VectorSimilar e t) =
     tagged ''VectorSimilar'' [(''_0'', enc_list (\<lambda>x. JNumber (num x)) e), (''_1'', JNumber (num t))]"
| "enc_simple num unum (GraphPattern p d) =
     tagged ''GraphPattern'' [(''_0'', JString p), (''_1'', enc_opt (\<lambda>n. JNumber (unum (ucast n))) d)]"
| "enc_simple num unum (FieldCondition r op v) =
     tagged ''FieldCondition'' [(''_0'', enc_field_ref r), (''_1'', JString op), (''_2'', v)]"
| "enc_simple num unum (CrossModalFieldCompare l op r) =
     tagged ''CrossModalFieldCompare'' [(''_0'', enc_field_ref l), (''_1'', JString op), (''_2'', enc_field_ref r)]"
| "enc_simple num unum (ModalityDrift m t) = tagged ''ModalityDrift'' [(''_0'', enc_modality m), (''_1'', JNumber (num t))]"
| "enc_simple num unum (ModalityExists m) = tagged ''ModalityExists'' [(''_0'', enc_modality m)]"
| "enc_simple num unum (ModalityNotExists m) = tagged ''ModalityNotExists'' [(''_0'', enc_modality m)]"
| "enc_simple num unum (ModalityConsistency ms t) =
     tagged ''ModalityConsistency'' [(''_0'', enc_list enc_modality ms), (''_1'', JNumber (num t))]"

fun enc_condition :: "('f \<Rightarrow> 'n) \<Rightarrow> (u64 \<Rightarrow> 'n) \<Rightarrow> ('f, 'n) VqlCondition \<Rightarrow> 'n json" where
  "enc_condition num unum (VqlAnd l r) = tagged ''And'' [(''_0'', enc_condition num unum l), (''_1'', enc_condition num unum r)]"
| "enc_condition num unum (VqlOr l r) = tagged ''Or'' [(''_0'', enc_condition num unum l), (''_1'', enc_condition num unum r)]"
| "enc_condition num unum (VqlNot c) = tagged ''Not'' [(''_0'', enc_condition num unum c)]"
| "enc_condition num unum (VqlSimple s) = tagged ''Simple'' [(''_0'', enc_simple num unum s)]"

definition enc_query :: "('f \<Rightarrow> 'n) \<Rightarrow> (u64 \<Rightarrow> 'n) \<Rightarrow> ('f, 'n) VqlQuery \<Rightarrow> 'n json" where
  "enc_query num unum q =
    JObject
     [(''modalities'', enc_list enc_modality (vq_modalities q)),
      (''source'', enc_source (vq_source q)),
      (''where'', enc_opt (enc_condition num unum) (vq_where_clause q)),
      (''projections'', enc_opt (enc_list enc_projection) (vq_projections q)),
      (''aggregates'', enc_opt (enc_list enc_aggregate) (vq_aggregates q)),
      (''groupBy'', enc_opt (enc_list enc_field_ref) (vq_group_by q)),
      (''having'', enc_opt (enc_condition num unum) (vq_having q)),
      (''proof'', enc_opt (enc_list enc_proof_spec) (vq_proof q)),
      (''orderBy'', enc_opt (enc_list enc_order_by) (vq_order_by q)),
      (''limit'', enc_opt (\<lambda>n. JNumber (unum (of_nat n))) (vq_limit q)),
      (''offset'', enc_opt (\<lambda>n. JNumber (unum (of_nat n))) (vq_offset q))]"

fun enc_ast :: "('f \<Rightarrow> 'n) \<Rightarrow> (u64 \<Rightarrow> 'n) \<Rightarrow> ('f, 'n) VqlAst \<Rightarrow> 'n json" where
  "enc_ast num unum (Query q) = tagged ''Query'' [(''_0'', enc_query num unum q)]"

section \<open>What can be encoded\<close>

text \<open>
  JSON has no NaN and no infinities, limits are \<open>usize\<close>, and a custom proof type is not one of the three named ones.
\<close>

fun simple_encodable :: "('f \<Rightarrow> bool) \<Rightarrow> ('f, 'n) VqlSimpleCondition \<Rightarrow> bool" where
  "simple_encodable fin (VectorSimilar e t) \<longleftrightarrow> list_all fin e \<and> fin t"
| "simple_encodable fin (ModalityDrift m t) \<longleftrightarrow> fin t"
| "simple_encodable fin (ModalityConsistency ms t) \<longleftrightarrow> fin t"
| "simple_encodable fin _ \<longleftrightarrow> True"

fun cond_encodable :: "('f \<Rightarrow> bool) \<Rightarrow> ('f, 'n) VqlCondition \<Rightarrow> bool" where
  "cond_encodable fin (VqlAnd l r) \<longleftrightarrow> cond_encodable fin l \<and> cond_encodable fin r"
| "cond_encodable fin (VqlOr l r) \<longleftrightarrow> cond_encodable fin l \<and> cond_encodable fin r"
| "cond_encodable fin (VqlNot c) \<longleftrightarrow> cond_encodable fin c"
| "cond_encodable fin (VqlSimple s) \<longleftrightarrow> simple_encodable fin s"

fun proof_type_ok :: "VqlProofType \<Rightarrow> bool" where
  "proof_type_ok (CustomProof s) \<longleftrightarrow> s \<notin> {''Citation'', ''Zkp'', ''Attestation''}"
| "proof_type_ok _ \<longleftrightarrow> True"

definition query_encodable :: "('f \<Rightarrow> bool) \<Rightarrow> ('f, 'n) VqlQuery \<Rightarrow> bool" where
  "query_encodable fin q \<longleftrightarrow>
    pred_option (cond_encodable fin) (vq_where_clause q) \<and> pred_option (cond_encodable fin) (vq_having q)
    \<and> pred_option (list_all (\<lambda>s. proof_type_ok (vs_proof_type s))) (vq_proof q)
    \<and> pred_option (\<lambda>n. n < 2 ^ 64) (vq_limit q) \<and> pred_option (\<lambda>n. n < 2 ^ 64) (vq_offset q)"

text \<open>
  What is used of serde: the fields of a struct are the entries of the object with their names, a tag is the entry
  with its name and the rest of the object the content, and numbers read as they were written.
\<close>

definition serde_laws :: "('f, 'n, 'z) vql_env_scheme \<Rightarrow> ('f \<Rightarrow> bool) \<Rightarrow> ('f \<Rightarrow> 'n) \<Rightarrow> (u64 \<Rightarrow> 'n) \<Rightarrow> bool" where
  "serde_laws E fin num unum \<longleftrightarrow>
    (\<forall>fs kvs. distinct (map fst kvs) \<longrightarrow>
       (\<exists>flds. vb_struct E fs (JObject kvs) = Some flds \<and> (\<forall>k \<in> fst ` set fs. flds k = map_of kvs k)))
    \<and> (\<forall>t s kvs. distinct (map fst kvs) \<longrightarrow> map_of kvs t = Some (JString s) \<longrightarrow>
         vb_tagged E t (JObject kvs) = Some (s, JObject (filter (\<lambda>(k, _). k \<noteq> t) kvs)))
    \<and> (\<forall>x. fin x \<longrightarrow> vb_as_f64 E (num x) = Some x) \<and> (\<forall>w. vb_as_u64 E (unum w) = Some w)"

section \<open>Reading what was written\<close>

lemmas serde_struct = serde_laws_def [THEN iffD1, THEN conjunct1, rule_format]
lemmas serde_tag = serde_laws_def [THEN iffD1, THEN conjunct2, THEN conjunct1, rule_format]
lemmas serde_f64 = serde_laws_def [THEN iffD1, THEN conjunct2, THEN conjunct2, THEN conjunct1, rule_format]
lemmas serde_u64 = serde_laws_def [THEN iffD1, THEN conjunct2, THEN conjunct2, THEN conjunct2, rule_format]

lemma struct_found:
  assumes "serde_laws E fin num unum" "distinct (map fst kvs)"
  shows "\<exists>flds. vb_struct E fs (JObject kvs) = Some flds \<and> list_all (\<lambda>k. flds k = map_of kvs k) (map fst fs)"
  using serde_struct [OF assms, of fs] by (auto simp: list_all_iff)

lemma tagged_source:
  assumes "serde_laws E fin num unum" "distinct (map fst args)" "''TAG'' \<notin> fst ` set args"
  shows "vb_tagged E ''TAG'' (tagged t args) = Some (t, JObject args)"
proof -
  have "filter (\<lambda>(k, _). k \<noteq> ''TAG'') args = args" using assms(3) by (force simp: filter_id_conv)
  moreover have "vb_tagged E ''TAG'' (JObject ((''TAG'', JString t) # args))
      = Some (t, JObject (filter (\<lambda>(k, _). k \<noteq> ''TAG'') ((''TAG'', JString t) # args)))"
    by (rule serde_tag [OF assms(1)]) (use assms in auto)
  ultimately show ?thesis by (simp add: tagged_def)
qed

lemma visit_tag_tagged [simp]: "visit_tag (tagged t args) = Some t"
  by (simp add: visit_tag_def tagged_def)

lemma enc_not_null [simp]:
  "enc_modality m \<noteq> JNull" "enc_field_ref r \<noteq> JNull" "enc_list f xs \<noteq> JNull" "enc_condition num unum c \<noteq> JNull"
  by (cases c; simp add: enc_modality_def enc_field_ref_def enc_list_def tagged_def)+

lemma optional_enc_opt:
  assumes "flds k = Some (enc_opt enc x)" "\<And>a. x = Some a \<Longrightarrow> d (enc a) = Some a" "\<And>a. enc a \<noteq> JNull"
  shows "optional flds k d = Some x"
  using assms by (cases x) (auto simp: optional_def enc_opt_def split: json.splits)

lemma de_vec_enc_list: "(\<And>x. x \<in> set xs \<Longrightarrow> d (enc x) = Some x) \<Longrightarrow> de_vec d (enc_list enc xs) = Some xs"
  by (simp add: de_vec_def enc_list_def collect_options_map)

lemma de_enc_modality [simp]: "de_VqlModality (enc_modality m) = Some m"
  by (cases m) (simp_all add: de_VqlModality_def enc_modality_def)

lemma de_enc_proof_type: "proof_type_ok t \<Longrightarrow> de_VqlProofType (tagged (proof_type_tag t) args) = Some t"
  by (cases t) (auto simp: de_VqlProofType_def)

lemma de_enc_direction: "de_VqlDirection (tagged (case d of Asc \<Rightarrow> ''Asc'' | Desc \<Rightarrow> ''Desc'') args) = Some d"
  by (cases d) (simp_all add: de_VqlDirection_def)

lemma de_usize_unum: "serde_laws E fin num unum \<Longrightarrow> n < 2 ^ 64 \<Longrightarrow> de_usize E (JNumber (unum (of_nat n))) = Some n"
  by (simp add: de_usize_def serde_u64 unat_of_nat take_bit_nat_eq_self)

lemma de_enc_field_ref:
  assumes "serde_laws E fin num unum" shows "de_VqlFieldRef E (enc_field_ref r) = Some r"
proof -
  obtain flds where f: "vb_struct E [(''modality'', True), (''field'', False)] (enc_field_ref r) = Some flds"
      "flds ''modality'' = Some (enc_opt enc_modality (fr_modality r))" "flds ''field'' = Some (JString (fr_field r))"
    using struct_found [OF assms, of "[(''modality'', enc_opt enc_modality (fr_modality r)), (''field'', JString (fr_field r))]"
      "[(''modality'', True), (''field'', False)]"]
    by (auto simp: enc_field_ref_def)
  have "optional flds ''modality'' de_VqlModality = Some (fr_modality r)" by (rule optional_enc_opt, rule f(2)) simp_all
  then show ?thesis using f by (simp add: de_VqlFieldRef_def required_def)
qed

lemma de_enc_source:
  assumes "serde_laws E fin num unum" shows "de_VqlSource E (enc_source src) = Some src"
proof (cases src)
  case (VqlHexad u)
  obtain flds where f: "vb_struct E [(''_0'', False)] (JObject [(''_0'', enc_opt JString u)]) = Some flds"
      "flds ''_0'' = Some (enc_opt JString u)"
    using struct_found [OF assms, of "[(''_0'', enc_opt JString u)]" "[(''_0'', False)]"] by auto
  have "optional flds ''_0'' as_str = Some u" by (rule optional_enc_opt, rule f(2)) simp_all
  then show ?thesis using f VqlHexad by (simp add: de_VqlSource_def tagged_source [OF assms])
next
  case (VqlFederation ns p)
  obtain flds where f: "vb_struct E [(''_0'', False), (''_1'', False)]
        (JObject [(''_0'', enc_list JString ns), (''_1'', enc_opt JString p)]) = Some flds"
      "flds ''_0'' = Some (enc_list JString ns)" "flds ''_1'' = Some (enc_opt JString p)"
    using struct_found [OF assms, of "[(''_0'', enc_list JString ns), (''_1'', enc_opt JString p)]"
      "[(''_0'', False), (''_1'', False)]"] by auto
  have "optional flds ''_1'' as_str = Some p" by (rule optional_enc_opt, rule f(3)) simp_all
  then show ?thesis using f VqlFederation
    by (simp add: de_VqlSource_def tagged_source [OF assms] required_def de_vec_enc_list)
next
  case (VqlStore m)
  obtain flds where f: "vb_struct E [(''_0'', False)] (JObject [(''_0'', enc_modality m)]) = Some flds"
      "flds ''_0'' = Some (enc_modality m)"
    using struct_found [OF assms, of "[(''_0'', enc_modality m)]" "[(''_0'', False)]"] by auto
  then show ?thesis using VqlStore by (simp add: de_VqlSource_def tagged_source [OF assms] required_def)
qed

lemma de_enc_projection:
  assumes "serde_laws E fin num unum" shows "de_VqlProjection E (enc_projection p) = Some p"
proof -
  obtain flds where f: "vb_struct E [(''field'', False), (''alias'', True)] (enc_projection p) = Some flds"
      "flds ''field'' = Some (enc_field_ref (vp_field p))" "flds ''alias'' = Some (enc_opt JString (vp_alias p))"
    using struct_found [OF assms, of "[(''field'', enc_field_ref (vp_field p)), (''alias'', enc_opt JString (vp_alias p))]"
      "[(''field'', False), (''alias'', True)]"] by (auto simp: enc_projection_def)
  have "optional flds ''alias'' as_str = Some (vp_alias p)" by (rule optional_enc_opt, rule f(3)) simp_all
  then show ?thesis using f by (simp add: de_VqlProjection_def required_def de_enc_field_ref [OF assms])
qed

lemma de_enc_aggregate:
  assumes "serde_laws E fin num unum" shows "de_VqlAggregate E (enc_aggregate a) = Some a"
proof -
  obtain flds where f: "vb_struct E [(''function'', False), (''field'', True), (''alias'', True)] (enc_aggregate a) = Some flds"
      "flds ''function'' = Some (JString (va_function a))" "flds ''field'' = Some (enc_opt enc_field_ref (va_field a))"
      "flds ''alias'' = Some (enc_opt JString (va_alias a))"
    using struct_found [OF assms, of "[(''function'', JString (va_function a)), (''field'', enc_opt enc_field_ref (va_field a)),
        (''alias'', enc_opt JString (va_alias a))]" "[(''function'', False), (''field'', True), (''alias'', True)]"]
    by (auto simp: enc_aggregate_def)
  have "optional flds ''alias'' as_str = Some (va_alias a)" by (rule optional_enc_opt, rule f(4)) simp_all
  moreover have "optional flds ''field'' (de_VqlFieldRef E) = Some (va_field a)"
    by (rule optional_enc_opt, rule f(3)) (simp_all add: de_enc_field_ref [OF assms])
  ultimately show ?thesis using f by (simp add: de_VqlAggregate_def required_def)
qed

lemma de_enc_proof_spec:
  assumes "serde_laws E fin num unum" "proof_type_ok (vs_proof_type s)"
  shows "de_VqlProofSpec E (enc_proof_spec s) = Some s"
proof -
  obtain flds where f: "vb_struct E [(''proofType'', False), (''contractName'', False)] (enc_proof_spec s) = Some flds"
      "flds ''proofType'' = Some (tagged (proof_type_tag (vs_proof_type s)) [])"
      "flds ''contractName'' = Some (JString (vs_contract_name s))"
    using struct_found [OF assms(1), of "[(''proofType'', tagged (proof_type_tag (vs_proof_type s)) []),
        (''contractName'', JString (vs_contract_name s))]" "[(''proofType'', False), (''contractName'', False)]"]
    by (auto simp: enc_proof_spec_def)
  then show ?thesis using assms(2) by (simp add: de_VqlProofSpec_def required_def de_enc_proof_type)
qed

lemma de_enc_order_by:
  assumes "serde_laws E fin num unum" shows "de_VqlOrderBy E (enc_order_by ob) = Some ob"
proof -
  let ?d = "tagged (case vo_direction ob of Asc \<Rightarrow> ''Asc'' | Desc \<Rightarrow> ''Desc'') []"
  obtain flds where f: "vb_struct E [(''field'', False), (''direction'', False)] (enc_order_by ob) = Some flds"
      "flds ''field'' = Some (enc_field_ref (vo_field ob))" "flds ''direction'' = Some ?d"
    using struct_found [OF assms, of "[(''field'', enc_field_ref (vo_field ob)), (''direction'', ?d)]"
      "[(''field'', False), (''direction'', False)]"] by (auto simp: enc_order_by_def)
  then show ?thesis by (simp add: de_VqlOrderBy_def required_def de_enc_field_ref [OF assms] de_enc_direction)
qed

lemma ucast_ucast_u32: "(ucast (ucast n :: u64) :: u32) = (n :: u32)"
  by (rule bit_word_eqI) (simp add: bit_simps)

lemma parse_enc_simple:
  assumes "serde_laws E fin num unum" "simple_encodable fin s"
  shows "parse_simple_condition E (enc_simple num unum s) = Inr s"
proof (cases s)
  case (VectorSimilar e t)
  have "collect_results (\<lambda>v. ok_or (Option.bind (as_number v) (vb_as_f64 E)) msg) (map (\<lambda>x. JNumber (num x)) e) = Inr e" for msg :: string
    by (rule collect_results_map) (use assms VectorSimilar in \<open>auto simp: serde_f64 [OF assms(1)] list_all_iff\<close>)
  then show ?thesis using VectorSimilar assms
    by (simp add: parse_simple_condition_def tagged_def str_arg_def f64_arg_def embedding_arg_def enc_list_def
        serde_f64 [OF assms(1)])
next
  case (GraphPattern p d)
  have "map_option (ucast :: u64 \<Rightarrow> u32)
      (Option.bind (as_number (enc_opt (\<lambda>n :: u32. JNumber (unum (ucast n))) d)) (vb_as_u64 E)) = d"
    by (cases d) (simp_all add: enc_opt_def serde_u64 [OF assms(1)] ucast_ucast_u32)
  then show ?thesis using GraphPattern by (simp add: parse_simple_condition_def tagged_def str_arg_def)
qed (use assms in \<open>simp_all add: parse_simple_condition_def tagged_def str_arg_def f64_arg_def field_arg_def modality_arg_def
      de_enc_field_ref [OF assms(1)] de_vec_enc_list serde_f64 [OF assms(1)]\<close>)

lemma parse_enc_condition:
  assumes "serde_laws E fin num unum"
  shows "cond_encodable fin c \<Longrightarrow> parse_condition E (enc_condition num unum c) = Inr c"
  by (induction c)
    (subst parse_condition.simps, simp add: tagged_def str_arg_def parse_enc_simple [OF assms])+

lemma de_enc_condition:
  assumes "serde_laws E fin num unum" "cond_encodable fin c"
  shows "de_VqlCondition E (enc_condition num unum c) = Some c"
  using assms by (simp add: de_VqlCondition_def parse_enc_condition [OF assms(1)])

lemma de_enc_query:
  assumes laws: "serde_laws E fin num unum" and ok: "query_encodable fin q"
  shows "de_VqlQuery E (enc_query num unum q) = Some q"
proof -
  obtain flds where f: "vb_struct E VqlQuery_fields (enc_query num unum q) = Some flds"
    and k: "flds ''modalities'' = Some (enc_list enc_modality (vq_modalities q))"
      "flds ''source'' = Some (enc_source (vq_source q))"
      "flds ''where'' = Some (enc_opt (enc_condition num unum) (vq_where_clause q))"
      "flds ''projections'' = Some (enc_opt (enc_list enc_projection) (vq_projections q))"
      "flds ''aggregates'' = Some (enc_opt (enc_list enc_aggregate) (vq_aggregates q))"
      "flds ''groupBy'' = Some (enc_opt (enc_list enc_field_ref) (vq_group_by q))"
      "flds ''having'' = Some (enc_opt (enc_condition num unum) (vq_having q))"
      "flds ''proof'' = Some (enc_opt (enc_list enc_proof_spec) (vq_proof q))"
      "flds ''orderBy'' = Some (enc_opt (enc_list enc_order_by) (vq_order_by q))"
      "flds ''limit'' = Some (enc_opt (\<lambda>n. JNumber (unum (of_nat n))) (vq_limit q))"
      "flds ''offset'' = Some (enc_opt (\<lambda>n. JNumber (unum (of_nat n))) (vq_offset q))"
    using struct_found [OF laws, of "[(''modalities'', enc_list enc_modality (vq_modalities q)),
      (''source'', enc_source (vq_source q)),
      (''where'', enc_opt (enc_condition num unum) (vq_where_clause q)),
      (''projections'', enc_opt (enc_list enc_projection) (vq_projections q)),
      (''aggregates'', enc_opt (enc_list enc_aggregate) (vq_aggregates q)),
      (''groupBy'', enc_opt (enc_list enc_field_ref) (vq_group_by q)),
      (''having'', enc_opt (enc_condition num unum) (vq_having q)),
      (''proof'', enc_opt (enc_list enc_proof_spec) (vq_proof q)),
      (''orderBy'', enc_opt (enc_list enc_order_by) (vq_order_by q)),
      (''limit'', enc_opt (\<lambda>n. JNumber (unum (of_nat n))) (vq_limit q)),
      (''offset'', enc_opt (\<lambda>n. JNumber (unum (of_nat n))) (vq_offset q))]" VqlQuery_fields]
    by (auto simp: VqlQuery_fields_def enc_query_def)
  note ok = ok [unfolded query_encodable_def]
  have "optional flds ''where'' (de_VqlCondition E) = Some (vq_where_clause q)"
    by (rule optional_enc_opt, rule k) (use ok in \<open>simp_all add: de_enc_condition [OF laws]\<close>)
  moreover have "optional flds ''projections'' (de_vec (de_VqlProjection E)) = Some (vq_projections q)"
    by (rule optional_enc_opt, rule k) (simp_all add: de_vec_enc_list de_enc_projection [OF laws])
  moreover have "optional flds ''aggregates'' (de_vec (de_VqlAggregate E)) = Some (vq_aggregates q)"
    by (rule optional_enc_opt, rule k) (simp_all add: de_vec_enc_list de_enc_aggregate [OF laws])
  moreover have "optional flds ''groupBy'' (de_vec (de_VqlFieldRef E)) = Some (vq_group_by q)"
    by (rule optional_enc_opt, rule k) (simp_all add: de_vec_enc_list de_enc_field_ref [OF laws])
  moreover have "optional flds ''having'' (de_VqlCondition E) = Some (vq_having q)"
    by (rule optional_enc_opt, rule k) (use ok in \<open>simp_all add: de_enc_condition [OF laws]\<close>)
  moreover have "optional flds ''proof'' (de_vec (de_VqlProofSpec E)) = Some (vq_proof q)"
    by (rule optional_enc_opt, rule k) (use ok in \<open>auto simp: list_all_iff intro!: de_vec_enc_list de_enc_proof_spec [OF laws]\<close>)
  moreover have "optional flds ''orderBy'' (de_vec (de_VqlOrderBy E)) = Some (vq_order_by q)"
    by (rule optional_enc_opt, rule k) (simp_all add: de_vec_enc_list de_enc_order_by [OF laws])
  moreover have "optional flds ''limit'' (de_usize E) = Some (vq_limit q)"
    by (rule optional_enc_opt, rule k) (use ok in \<open>simp_all add: de_usize_unum [OF laws]\<close>)
  moreover have "optional flds ''offset'' (de_usize E) = Some (vq_offset q)"
    by (rule optional_enc_opt, rule k) (use ok in \<open>simp_all add: de_usize_unum [OF laws]\<close>)
  ultimately show ?thesis using f k
    by (simp add: de_VqlQuery_def required_def de_vec_enc_list de_enc_source [OF laws])
qed

lemma de_enc_ast:
  assumes "serde_laws E fin num unum" "query_encodable fin q"
  shows "de_VqlAst E (enc_ast num unum (Query q)) = Some (Query q)"
  using de_enc_query [OF assms] by (simp add: de_VqlAst_def tagged_def)

section \<open>Examples\<close>

text \<open>Numbers as integers or rationals, objects read by key.\<close>

datatype example_number = NFloat rat | NUnsigned u64

definition demo_vql_env :: "(rat, example_number) vql_env" where
  "demo_vql_env = plan_env.extend rat_env
     \<lparr>vb_parse = (\<lambda>_. None), vb_text_error = id, vb_error = (\<lambda>t _. t),
      vb_struct = (\<lambda>_ v. map_option map_of (as_object v)),
      vb_tagged = (\<lambda>t v. Option.bind (as_object v) (\<lambda>kvs. Option.bind (map_of kvs t) (\<lambda>s.
         map_option (\<lambda>s. (s, JObject (filter (\<lambda>(k, _). k \<noteq> t) kvs))) (as_str s)))),
      vb_as_f64 = (\<lambda>n. case n of NFloat r \<Rightarrow> Some r | NUnsigned w \<Rightarrow> Some (of_nat (unat w))),
      vb_as_u64 = (\<lambda>n. case n of NFloat _ \<Rightarrow> None | NUnsigned w \<Rightarrow> Some w),
      vb_value_display = (\<lambda>_. ''value''), vb_value_debug = (\<lambda>_. ''value''),
      vb_f64_display = (\<lambda>_. ''x''), vb_f64_debug = (\<lambda>_. ''x'')\<rparr>"

lemma demo_vql_env_simps [simp]:
  "vb_struct demo_vql_env fs v = map_option map_of (as_object v)"
  "vb_tagged demo_vql_env t v = Option.bind (as_object v) (\<lambda>kvs. Option.bind (map_of kvs t) (\<lambda>s.
     map_option (\<lambda>s. (s, JObject (filter (\<lambda>(k, _). k \<noteq> t) kvs))) (as_str s)))"
  "vb_as_f64 demo_vql_env n = (case n of NFloat r \<Rightarrow> Some r | NUnsigned w \<Rightarrow> Some (of_nat (unat w)))"
  "vb_as_u64 demo_vql_env n = (case n of NFloat _ \<Rightarrow> None | NUnsigned w \<Rightarrow> Some w)"
  by (simp_all add: demo_vql_env_def rat_env_def plan_env.defs)

lemma demo_serde_laws: "serde_laws demo_vql_env (\<lambda>_. True) NFloat NUnsigned"
  by (simp add: serde_laws_def)

definition demo_condition :: "(rat, example_number) VqlCondition" where
  "demo_condition =
    VqlAnd (VqlSimple (FulltextContains ''storm''))
      (VqlOr (VqlSimple (VectorSimilar [1, 2] 3)) (VqlNot (VqlSimple (GraphPattern ''near'' (Some 2)))))"

definition demo_vql_query :: "(rat, example_number) VqlQuery" where
  "demo_vql_query =
    \<lparr>vq_modalities = [VqlDocument, VqlGraph, VqlDocument], vq_source = VqlStore VqlDocument,
     vq_where_clause = Some demo_condition,
     vq_projections = Some [\<lparr>vp_field = \<lparr>fr_modality = Some VqlDocument, fr_field = ''title''\<rparr>, vp_alias = None\<rparr>],
     vq_aggregates = None, vq_group_by = None, vq_having = None,
     vq_proof = Some [\<lparr>vs_proof_type = CustomProof ''Audit'', vs_contract_name = ''Sealed''\<rparr>],
     vq_order_by = Some [\<lparr>vo_field = \<lparr>fr_modality = None, fr_field = ''age''\<rparr>, vo_direction = Desc\<rparr>],
     vq_limit = Some 10, vq_offset = Some 5\<rparr>"

lemma demo_query_encodable: "query_encodable (\<lambda>_. True) demo_vql_query"
  by (simp add: query_encodable_def demo_vql_query_def demo_condition_def)

section \<open>Properties\<close>

text \<open>C34: Reading a query returns the tree that was written: the decoders of \<open>vql_bridge.rs\<close> invert the documented
  encoding on every query JSON can express, whatever the nesting of its WHERE clause.\<close>

theorem vql_json_roundtrip:
  assumes "serde_laws E fin num unum" "query_encodable fin q"
    and "vb_parse E json = Some (enc_ast num unum (Query q))"
  shows "from_json E json = Inr (Query q)"
  using de_enc_ast [OF assms(1,2)] assms(3) by (simp add: from_json_def)

theorem vql_json_roundtrip_witness:
  "from_json (demo_vql_env\<lparr>vb_parse := (\<lambda>_. Some (enc_ast NFloat NUnsigned (Query demo_vql_query)))\<rparr>) ''text''
    = Inr (Query demo_vql_query)"
proof -
  let ?E = "demo_vql_env\<lparr>vb_parse := (\<lambda>_. Some (enc_ast NFloat NUnsigned (Query demo_vql_query)))\<rparr>"
  have "serde_laws ?E (\<lambda>_. True) NFloat NUnsigned" using demo_serde_laws by (simp add: serde_laws_def)
  then show ?thesis by (rule vql_json_roundtrip [OF _ demo_query_encodable]) simp
qed

end
