(* ===== verification/Planner_Optimize.thy ===== *)
theory Planner_Optimize
  imports Planner
begin

text \<open>
  Statistics, adaptive tuning and the optimiser (\<open>verisim-planner/src/stats.rs\<close>, \<open>optimizer.rs\<close>, \<open>explain.rs\<close>).
  The clock reading of an operation that takes one is its argument \<open>now\<close>; the iteration order of the hash map
  that \<open>from_physical_plan\<close> builds is its argument \<open>ord\<close>.
\<close>

section \<open>Statistics\<close>

type_synonym ('f, 'ts) StatisticsCollector = "Modality \<rightharpoonup> ('f, 'ts) StoreStatistics"

definition StatisticsCollector_new :: "('f, 'z) plan_env_scheme \<Rightarrow> 'ts \<Rightarrow> ('f, 'ts) StatisticsCollector" where
  "StatisticsCollector_new E now =
    foldl (\<lambda>stats m. stats(m \<mapsto> StoreStatistics_new E now m)) Map.empty Modality_ALL"

definition record_execution ::
  "('f, 'z) plan_env_scheme \<Rightarrow> 'ts \<Rightarrow> ('f, 'ts) StatisticsCollector \<Rightarrow> Modality \<Rightarrow> 'f \<Rightarrow> u64 \<Rightarrow> ('f, 'ts) StatisticsCollector" where
  "record_execution E now stats modality latency_ms rows_returned =
    (let entry = (case stats modality of Some s \<Rightarrow> s | None \<Rightarrow> StoreStatistics_new E now modality);
         entry = entry\<lparr>ss_query_count := ss_query_count entry + 1\<rparr>;
         entry =
           (if ss_query_count entry = 1
            then entry\<lparr>ss_avg_latency_ms := latency_ms, ss_avg_rows_returned := rows_returned\<rparr>
            else entry\<lparr>ss_avg_latency_ms :=
                          fo_add E (fo_mul E (pf_dec E 1 1) latency_ms) (fo_mul E (pf_dec E 9 1) (ss_avg_latency_ms entry)),
                       ss_avg_rows_returned :=
                          pf_to_u64 E (fo_add E (fo_mul E (pf_dec E 1 1) (pf_of_u64 E rows_returned))
                            (fo_mul E (pf_dec E 9 1) (pf_of_u64 E (ss_avg_rows_returned entry))))\<rparr>)
     in stats(modality \<mapsto> entry\<lparr>ss_last_updated := now\<rparr>))"

definition update_row_count ::
  "'ts \<Rightarrow> ('f, 'ts) StatisticsCollector \<Rightarrow> Modality \<Rightarrow> u64 \<Rightarrow> ('f, 'ts) StatisticsCollector" where
  "update_row_count now stats modality total_rows =
    (case stats modality of
       Some entry \<Rightarrow> stats(modality \<mapsto> entry\<lparr>ss_total_rows := total_rows, ss_last_updated := now\<rparr>)
     | None \<Rightarrow> stats)"

section \<open>Adaptive tuning\<close>

record 'f AdaptiveTuner =
  at_aggressive_threshold :: 'f
  at_conservative_threshold :: 'f
  at_min_samples :: u64

definition AdaptiveTuner_new :: "('f, 'z) plan_env_scheme \<Rightarrow> 'f AdaptiveTuner" where
  "AdaptiveTuner_new E =
    \<lparr>at_aggressive_threshold = pf_dec E 5 1, at_conservative_threshold = pf_dec E 20 1, at_min_samples = 10\<rparr>"

definition suggest_one ::
  "('f, 'z) plan_env_scheme \<Rightarrow> 'f AdaptiveTuner \<Rightarrow> ('f, 'ts) StatisticsCollector \<Rightarrow> 'f PlannerConfig
    \<Rightarrow> Modality \<Rightarrow> (Modality \<times> OptimizationMode) option" where
  "suggest_one E tuner collector config modality =
    (case collector modality of
       None \<Rightarrow> None
     | Some stats \<Rightarrow>
         if ss_query_count stats < at_min_samples tuner then None
         else
           (let base_cost = BaseCost_for_modality E modality;
                current_mode = mode_for config modality;
                estimated_ms = fo_mul E (bc_time_ms base_cost) (cost_multiplier E current_mode)
            in if fo_le E estimated_ms (pf_dec E 0 1) then None
               else
                 (let ratio = fo_div E (ss_avg_latency_ms stats) estimated_ms;
                      suggested =
                        (if fo_lt E ratio (at_aggressive_threshold tuner) then Aggressive
                         else if fo_lt E (at_conservative_threshold tuner) ratio then Conservative
                         else Balanced)
                  in if suggested \<noteq> current_mode then Some (modality, suggested) else None)))"

definition suggest_adjustments ::
  "('f, 'z) plan_env_scheme \<Rightarrow> 'f AdaptiveTuner \<Rightarrow> ('f, 'ts) StatisticsCollector \<Rightarrow> 'f PlannerConfig
    \<Rightarrow> (Modality \<times> OptimizationMode) list" where
  "suggest_adjustments E tuner collector config = List.map_filter (suggest_one E tuner collector config) Modality_ALL"

definition AdaptiveTuner_apply ::
  "('f, 'z) plan_env_scheme \<Rightarrow> 'f AdaptiveTuner \<Rightarrow> ('f, 'ts) StatisticsCollector \<Rightarrow> 'f PlannerConfig \<Rightarrow> 'f PlannerConfig" where
  "AdaptiveTuner_apply E tuner collector config =
    (if \<not> pc_enable_adaptive config then config
     else
       (let adjustments = suggest_adjustments E tuner collector config
        in if adjustments = [] then config
           else foldl (\<lambda>c (modality, mode).
                  c\<lparr>pc_modality_overrides := (pc_modality_overrides c)(modality \<mapsto> mode)\<rparr>) config adjustments))"

section \<open>The optimiser\<close>

record ('f, 'ts) QueryPlanner =
  pl_config :: "'f PlannerConfig"
  pl_stats :: "('f, 'ts) StatisticsCollector"

definition Planner_new :: "('f, 'z) plan_env_scheme \<Rightarrow> 'ts \<Rightarrow> 'f PlannerConfig \<Rightarrow> ('f, 'ts) QueryPlanner" where
  "Planner_new E now config = \<lparr>pl_config = config, pl_stats = StatisticsCollector_new E now\<rparr>"

definition Planner_set_config :: "('f, 'ts) QueryPlanner \<Rightarrow> 'f PlannerConfig \<Rightarrow> ('f, 'ts) QueryPlanner" where
  "Planner_set_config pl config = pl\<lparr>pl_config := config\<rparr>"

text \<open>
  The comparison of \<open>sort_by\<close> as \<open>a \<le> b\<close>: priorities first, then \<open>partial_cmp\<close> of the times with \<open>Equal\<close> for incomparable ones.
\<close>

definition node_cost_le ::
  "('f, 'z) plan_env_scheme \<Rightarrow> PlanNode list \<Rightarrow> nat \<times> 'f CostEstimate \<times> string option \<Rightarrow> nat \<times> 'f CostEstimate \<times> string option \<Rightarrow> bool" where
  "node_cost_le E nodes a b =
    (let pri_a = execution_priority (pn_modality (nodes ! fst a));
         pri_b = execution_priority (pn_modality (nodes ! fst b))
     in pri_a < pri_b \<or> pri_a = pri_b \<and> \<not> fo_lt E (ce_time_ms (fst (snd b))) (ce_time_ms (fst (snd a))))"

fun modality_operation :: "Modality \<Rightarrow> string" where
  "modality_operation Graph = ''Graph traversal''"
| "modality_operation Vector = ''Vector similarity search''"
| "modality_operation Tensor = ''Tensor computation''"
| "modality_operation Semantic = ''Semantic verification''"
| "modality_operation Document = ''Document fulltext search''"
| "modality_operation Temporal = ''Temporal version lookup''"

definition build_step ::
  "('f, 'z) plan_env_scheme \<Rightarrow> PlanNode list \<Rightarrow> nat \<Rightarrow> nat \<times> 'f CostEstimate \<times> string option \<Rightarrow> 'f PlanStep" where
  "build_step E nodes step_num = (\<lambda>(node_idx, cost, hint).
    (let node = nodes ! node_idx in
     \<lparr>ps_step = step_num + 1,
      ps_operation = modality_operation (pn_modality node) @ '' ''
        @ (if pn_conditions node = [] then ''(scan)'' else ''('' @ dec_digits (length (pn_conditions node)) @ '' conditions)''),
      ps_modality = pn_modality node,
      ps_cost = cost,
      ps_optimization_hint = hint,
      ps_pushed_predicates = map (ConditionKind_debug E) (pn_conditions node)\<rparr>))"

definition selectivity_note :: "('f, 'z) plan_env_scheme \<Rightarrow> 'f PlanStep \<Rightarrow> string option" where
  "selectivity_note E step =
    (if fo_lt E (pf_dec E 5 1) (ce_selectivity (ps_cost step)) \<and> fo_lt E (pf_dec E 1000 1) (ce_time_ms (ps_cost step))
     then Some (''Step '' @ dec_digits (ps_step step) @ '': '' @ Modality_display (ps_modality step) @ '' has high selectivity (''
       @ pf_fmt E 0 (fo_mul E (ce_selectivity (ps_cost step)) (pf_dec E 1000 1)) @ ''%) '' @ em_dash
       @ '' may benefit from additional predicates'')
     else None)"

text \<open>The outer \<open>None\<close> is the panic of \<open>optimization_hint\<close>.\<close>

definition node_costs_of ::
  "('f, 'z) plan_env_scheme \<Rightarrow> ('f, 'ts) QueryPlanner \<Rightarrow> PlanNode list \<Rightarrow> (nat \<times> 'f CostEstimate \<times> string option) list option" where
  "node_costs_of E pl nodes =
    those (map (\<lambda>(i, node). map_option (\<lambda>hint.
        (i, CostModel_estimate E node (pl_config pl) (pl_stats pl (pn_modality node)), hint)) (optimization_hint E node))
      (enumerate 0 nodes))"

definition optimize ::
  "('f, 'z) plan_env_scheme \<Rightarrow> ('f, 'ts) QueryPlanner \<Rightarrow> LogicalPlan \<Rightarrow> (PlannerError, 'f PhysicalPlan) rresult option" where
  "optimize E pl logical =
    (if lp_nodes logical = [] then Some (Inl EmptyPlan)
     else
       (case node_costs_of E pl (lp_nodes logical) of
          None \<Rightarrow> None
        | Some unsorted \<Rightarrow>
            (let node_costs = stable_sort (node_cost_le E (lp_nodes logical)) unsorted;
                 strategy = (if pc_parallel_threshold (pl_config pl) \<le> length (lp_nodes logical) then Parallel else Sequential);
                 steps = map (\<lambda>(step_num, nc). build_step E (lp_nodes logical) step_num nc) (enumerate 0 node_costs);
                 cost_estimates = map (\<lambda>(_, cost, _). cost) node_costs;
                 is_parallel = (strategy = Parallel);
                 modality_cost = CostEstimate_combine E cost_estimates is_parallel;
                 total_cost = estimate_with_post_processing E modality_cost (lp_post_processing logical);
                 notes =
                   [if is_parallel then ''Parallel execution across '' @ dec_digits (length steps) @ '' modalities''
                    else ''Sequential execution '' @ em_dash @ '' single modality'']
                   @ (if fo_lt E (pf_dec E 5000 1) (ce_time_ms total_cost)
                      then [''High estimated cost '' @ em_dash @ '' consider adding LIMIT or more selective predicates''] else [])
                   @ List.map_filter (selectivity_note E) steps
             in Some (Inr \<lparr>pp_steps = steps, pp_strategy = strategy, pp_total_cost = total_cost, pp_notes = notes\<rparr>))))"

section \<open>EXPLAIN\<close>

record 'f ModalityCostBreakdown =
  mb_modality :: Modality
  mb_time_ms :: 'f
  mb_percentage :: 'f

record 'f ExplainStep =
  es_step :: nat
  es_operation :: string
  es_modality :: Modality
  es_estimated_cost_ms :: 'f
  es_estimated_selectivity :: 'f
  es_estimated_rows :: u64
  es_optimization_hint :: "string option"

record PerformanceHint =
  ph_severity :: string
  ph_message :: string

record 'f ExplainOutput =
  eo_steps :: "'f ExplainStep list"
  eo_cost_breakdown :: "'f ModalityCostBreakdown list"
  eo_performance_hints :: "PerformanceHint list"
  eo_total_cost_ms :: 'f
  eo_strategy :: string
  eo_text_output :: string

definition explain_step :: "'f PlanStep \<Rightarrow> 'f ExplainStep" where
  "explain_step s =
    \<lparr>es_step = ps_step s, es_operation = ps_operation s, es_modality = ps_modality s,
     es_estimated_cost_ms = ce_time_ms (ps_cost s), es_estimated_selectivity = ce_selectivity (ps_cost s),
     es_estimated_rows = ce_estimated_rows (ps_cost s), es_optimization_hint = ps_optimization_hint s\<rparr>"

text \<open>The entry loop over the steps; keys in order of first insertion.\<close>

fun add_cost :: "('f, 'z) plan_env_scheme \<Rightarrow> Modality \<Rightarrow> 'f \<Rightarrow> (Modality \<times> 'f) list \<Rightarrow> (Modality \<times> 'f) list" where
  "add_cost E m t [] = [(m, fo_add E (pf_dec E 0 1) t)]"
| "add_cost E m t ((m', u) # cs) = (if m' = m then (m', fo_add E u t) # cs else (m', u) # add_cost E m t cs)"

definition modality_costs_of :: "('f, 'z) plan_env_scheme \<Rightarrow> 'f PlanStep list \<Rightarrow> (Modality \<times> 'f) list" where
  "modality_costs_of E steps = foldl (\<lambda>costs step. add_cost E (ps_modality step) (ce_time_ms (ps_cost step)) costs) [] steps"

definition cost_breakdown_of ::
  "('f, 'z) plan_env_scheme \<Rightarrow> ((Modality \<times> 'f) list \<Rightarrow> (Modality \<times> 'f) list) \<Rightarrow> 'f PlanStep list \<Rightarrow> 'f ModalityCostBreakdown list" where
  "cost_breakdown_of E ord steps =
    (let modality_costs = ord (modality_costs_of E steps);
         total_modality_cost = fo_sum E (map snd modality_costs)
     in stable_sort (\<lambda>a b. \<not> fo_lt E (mb_percentage a) (mb_percentage b))
          (map (\<lambda>(modality, time_ms).
             \<lparr>mb_modality = modality, mb_time_ms = time_ms,
              mb_percentage =
                (if fo_lt E (pf_dec E 0 1) total_modality_cost
                 then fo_mul E (fo_div E time_ms total_modality_cost) (pf_dec E 1000 1) else pf_dec E 0 1)\<rparr>) modality_costs))"

definition expensive_hint :: "('f, 'z) plan_env_scheme \<Rightarrow> 'f PlanStep \<Rightarrow> PerformanceHint option" where
  "expensive_hint E step =
    (if fo_lt E (pf_dec E 2000 1) (ce_time_ms (ps_cost step)) then
       Some \<lparr>ph_severity = ''info'',
             ph_message = ''Step '' @ dec_digits (ps_step step) @ '' ('' @ Modality_display (ps_modality step) @ '') costs ''
               @ pf_fmt E 0 (ce_time_ms (ps_cost step)) @ ''ms '' @ em_dash @ '' ''
               @ (case ps_optimization_hint step of Some h \<Rightarrow> h | None \<Rightarrow> ''consider optimization'')\<rparr>
     else None)"

definition performance_hints_of :: "('f, 'z) plan_env_scheme \<Rightarrow> 'f PhysicalPlan \<Rightarrow> PerformanceHint list" where
  "performance_hints_of E plan =
    (if fo_lt E (pf_dec E 5000 1) (ce_time_ms (pp_total_cost plan)) then
       [\<lparr>ph_severity = ''warning'',
         ph_message = ''Total estimated cost is '' @ pf_fmt E 0 (ce_time_ms (pp_total_cost plan)) @ ''ms '' @ em_dash
           @ '' consider adding LIMIT clause''\<rparr>]
     else [])
    @ List.map_filter (expensive_hint E) (pp_steps plan)
    @ (case pp_steps plan of
         [] \<Rightarrow> []
       | first # _ \<Rightarrow>
           if fo_lt E (pf_dec E 1 1) (ce_selectivity (ps_cost first)) then
             [\<lparr>ph_severity = ''suggestion'',
               ph_message = ''First step ('' @ Modality_display (ps_modality first) @ '') has ''
                 @ pf_fmt E 0 (fo_mul E (ce_selectivity (ps_cost first)) (pf_dec E 1000 1)) @ ''% selectivity '' @ em_dash
                 @ '' consider reordering or adding predicates''\<rparr>]
           else [])
    @ (if 2 \<le> length (pp_steps plan) \<and> pp_strategy plan = Sequential then
         [\<lparr>ph_severity = ''suggestion'', ph_message = ''Multiple modalities could benefit from parallel execution''\<rparr>]
       else [])"

definition render_step :: "('f, 'z) plan_env_scheme \<Rightarrow> 'f ExplainStep \<Rightarrow> string" where
  "render_step E step =
    ''  Step '' @ dec_digits (es_step step) @ '': '' @ es_operation step @ '' ['' @ Modality_display (es_modality step) @ '']'' @ nl
    @ ''    Cost: '' @ pf_fmt E 1 (es_estimated_cost_ms step) @ ''ms | Selectivity: ''
    @ pf_fmt E 2 (fo_mul E (es_estimated_selectivity step) (pf_dec E 1000 1)) @ ''% | Rows: ~''
    @ dec_digits (unat (es_estimated_rows step)) @ nl
    @ (case es_optimization_hint step of Some hint \<Rightarrow> ''    Hint: '' @ hint @ nl | None \<Rightarrow> [])"

definition render_text ::
  "('f, 'z) plan_env_scheme \<Rightarrow> 'f ExplainStep list \<Rightarrow> 'f ModalityCostBreakdown list \<Rightarrow> PerformanceHint list \<Rightarrow> string \<Rightarrow> 'f \<Rightarrow> string" where
  "render_text E steps cost_breakdown hints strategy total_cost_ms =
    ''=== VeriSimDB Query Plan ==='' @ nl @ nl
    @ ''Strategy: '' @ strategy @ nl
    @ ''Total Estimated Cost: '' @ pf_fmt E 1 total_cost_ms @ ''ms'' @ nl @ nl
    @ ''--- Steps ---'' @ nl
    @ concat (map (render_step E) steps)
    @ nl @ ''--- Cost Breakdown ---'' @ nl
    @ concat (map (\<lambda>cb. ''  '' @ Modality_display (mb_modality cb) @ '': '' @ pf_fmt E 1 (mb_time_ms cb) @ ''ms (''
        @ pf_fmt E 1 (mb_percentage cb) @ ''%)'' @ nl) cost_breakdown)
    @ (if hints \<noteq> [] then
         nl @ ''--- Performance Hints ---'' @ nl
         @ concat (map (\<lambda>hint. ''  ['' @ ph_severity hint @ ''] '' @ ph_message hint @ nl) hints)
       else [])"

fun ExecutionStrategy_debug :: "ExecutionStrategy \<Rightarrow> string" where
  "ExecutionStrategy_debug Sequential = ''Sequential''"
| "ExecutionStrategy_debug Parallel = ''Parallel''"

definition from_physical_plan ::
  "('f, 'z) plan_env_scheme \<Rightarrow> ((Modality \<times> 'f) list \<Rightarrow> (Modality \<times> 'f) list) \<Rightarrow> 'f PhysicalPlan \<Rightarrow> 'f ExplainOutput" where
  "from_physical_plan E ord plan =
    (let steps = map explain_step (pp_steps plan);
         cost_breakdown = cost_breakdown_of E ord (pp_steps plan);
         hints = performance_hints_of E plan;
         strategy = ExecutionStrategy_debug (pp_strategy plan);
         total_cost_ms = ce_time_ms (pp_total_cost plan)
     in \<lparr>eo_steps = steps, eo_cost_breakdown = cost_breakdown, eo_performance_hints = hints,
         eo_total_cost_ms = total_cost_ms, eo_strategy = strategy,
         eo_text_output = render_text E steps cost_breakdown hints strategy total_cost_ms\<rparr>)"

definition explain ::
  "('f, 'z) plan_env_scheme \<Rightarrow> ((Modality \<times> 'f) list \<Rightarrow> (Modality \<times> 'f) list) \<Rightarrow> ('f, 'ts) QueryPlanner \<Rightarrow> LogicalPlan
    \<Rightarrow> (PlannerError, 'f ExplainOutput) rresult option" where
  "explain E ord pl logical =
    map_option (map_sum id (from_physical_plan E ord)) (optimize E pl logical)"

section \<open>What planning does\<close>

lemma those_Some_iff: "those xs = Some ys \<longleftrightarrow> xs = map Some ys"
  by (induction xs arbitrary: ys) (auto split: option.splits)

lemma those_None_iff: "those xs = None \<longleftrightarrow> None \<in> set xs"
  by (induction xs) (auto split: option.splits)

definition splits_character :: "ConditionKind \<Rightarrow> bool" where
  "splits_character c \<longleftrightarrow> (\<exists>q. c = Fulltext q \<and> 20 < length q \<and> continuation_byte (byte_of_char (q ! 20)))"

lemma hint_loop_None: "hint_loop hint cs = None \<longleftrightarrow> (\<exists>c \<in> set cs. splits_character c)"
  by (induction hint cs rule: hint_loop.induct)
    (auto simp: splits_character_def str_prefix_def split: ConditionKind.splits option.splits if_splits)

lemma optimization_hint_None: "optimization_hint E node = None \<longleftrightarrow> (\<exists>c \<in> set (pn_conditions node). splits_character c)"
  by (simp add: optimization_hint_def hint_loop_None)

lemma node_costs_of_None:
  "node_costs_of E pl nodes = None \<longleftrightarrow> (\<exists>node \<in> set nodes. \<exists>c \<in> set (pn_conditions node). splits_character c)"
proof -
  have "node_costs_of E pl nodes = None \<longleftrightarrow> (\<exists>x \<in> set (enumerate 0 nodes). optimization_hint E (snd x) = None)"
    by (auto simp: node_costs_of_def those_None_iff image_iff split: prod.splits) (force)+
  also have "\<dots> \<longleftrightarrow> (\<exists>node \<in> snd ` set (enumerate 0 nodes). optimization_hint E node = None)" by simp
  also have "snd ` set (enumerate 0 nodes) = set nodes" by (simp flip: set_map)
  finally show ?thesis by (simp add: optimization_hint_None)
qed

text \<open>What a step says of its node, apart from its number.\<close>

definition step_content :: "'f PlanStep \<Rightarrow> string \<times> Modality \<times> 'f CostEstimate \<times> string option \<times> string list" where
  "step_content s = (ps_operation s, ps_modality s, ps_cost s, ps_optimization_hint s, ps_pushed_predicates s)"

definition node_content ::
  "('f, 'z) plan_env_scheme \<Rightarrow> ('f, 'ts) QueryPlanner \<Rightarrow> PlanNode \<Rightarrow> string \<times> Modality \<times> 'f CostEstimate \<times> string option \<times> string list" where
  "node_content E pl node =
    (modality_operation (pn_modality node) @ '' ''
       @ (if pn_conditions node = [] then ''(scan)'' else ''('' @ dec_digits (length (pn_conditions node)) @ '' conditions)''),
     pn_modality node,
     CostModel_estimate E node (pl_config pl) (pl_stats pl (pn_modality node)),
     the (optimization_hint E node),
     map (ConditionKind_debug E) (pn_conditions node))"

definition runs_before :: "('f, 'z) plan_env_scheme \<Rightarrow> 'f PlanStep \<Rightarrow> 'f PlanStep \<Rightarrow> bool" where
  "runs_before E s t \<longleftrightarrow>
    execution_priority (ps_modality s) < execution_priority (ps_modality t)
    \<or> ps_modality s = ps_modality t \<and> \<not> fo_lt E (ce_time_ms (ps_cost t)) (ce_time_ms (ps_cost s))"

lemma execution_priority_inject [simp]: "execution_priority m = execution_priority n \<longleftrightarrow> m = n"
  by (cases m; cases n) simp_all

lemma node_costs_of_Some:
  assumes "node_costs_of E pl nodes = Some ncs"
  shows "ncs = map (\<lambda>i. (i, CostModel_estimate E (nodes ! i) (pl_config pl) (pl_stats pl (pn_modality (nodes ! i))),
    the (optimization_hint E (nodes ! i)))) [0..<length nodes]"
proof -
  have eq: "map (\<lambda>(i, node). map_option (\<lambda>hint. (i, CostModel_estimate E node (pl_config pl) (pl_stats pl (pn_modality node)), hint))
      (optimization_hint E node)) (enumerate 0 nodes) = map Some ncs"
    using assms by (simp add: node_costs_of_def those_Some_iff)
  from arg_cong [OF eq, of length] have len: "length ncs = length nodes" by simp
  show ?thesis
  proof (rule nth_equalityI)
    fix i assume "i < length ncs"
    with eq len have "map_option (\<lambda>hint. (i, CostModel_estimate E (nodes ! i) (pl_config pl) (pl_stats pl (pn_modality (nodes ! i))), hint))
        (optimization_hint E (nodes ! i)) = Some (ncs ! i)"
      by (auto dest!: arg_cong [of _ _ "\<lambda>xs. xs ! i"] simp: nth_enumerate_eq)
    with \<open>i < length ncs\<close> len show "ncs ! i = map (\<lambda>i. (i, CostModel_estimate E (nodes ! i) (pl_config pl)
        (pl_stats pl (pn_modality (nodes ! i))), the (optimization_hint E (nodes ! i)))) [0..<length nodes] ! i"
      by auto
  qed (simp add: len)
qed

lemma node_cost_le_total: "weak_order (fo_lt E) \<Longrightarrow> node_cost_le E nodes a b \<or> node_cost_le E nodes b a"
  using weak_order_asym [of "fo_lt E"] by (auto simp: node_cost_le_def Let_def)

lemma node_cost_le_trans:
  assumes "weak_order (fo_lt E)" "node_cost_le E nodes a b" "node_cost_le E nodes b c"
  shows "node_cost_le E nodes a c"
  using assms(2, 3) unfolding node_cost_le_def Let_def
  by (elim disjE conjE) (simp_all add: weak_order_le_trans [OF assms(1)], rule disjI1, rule order_less_trans)

lemma optimize_plan:
  assumes "optimize E pl logical = Some (Inr plan)" and "weak_order (fo_lt E)"
  obtains ncs where "node_costs_of E pl (lp_nodes logical) = Some ncs"
    and "pp_steps plan = map (\<lambda>(n, nc). build_step E (lp_nodes logical) n nc)
           (enumerate 0 (stable_sort (node_cost_le E (lp_nodes logical)) ncs))"
    and "sorted_wrt (node_cost_le E (lp_nodes logical)) (stable_sort (node_cost_le E (lp_nodes logical)) ncs)"
proof -
  have ne: "lp_nodes logical \<noteq> []" using assms(1) by (auto simp: optimize_def)
  obtain ncs where ncs: "node_costs_of E pl (lp_nodes logical) = Some ncs"
    using assms(1) ne by (cases "node_costs_of E pl (lp_nodes logical)") (simp_all add: optimize_def)
  have "sorted_wrt (node_cost_le E (lp_nodes logical)) (stable_sort (node_cost_le E (lp_nodes logical)) ncs)"
    by (rule sorted_stable_sort) (rule node_cost_le_total [OF assms(2)], rule node_cost_le_trans [OF assms(2)])
  moreover have "pp_steps plan = map (\<lambda>(n, nc). build_step E (lp_nodes logical) n nc)
      (enumerate 0 (stable_sort (node_cost_le E (lp_nodes logical)) ncs))"
    using assms(1) unfolding optimize_def Let_def ncs option.case if_not_P [OF ne] option.inject sum.inject
    by (elim arg_cong [of _ _ pp_steps, elim_format]) (simp only: PhysicalPlan.simps)
  ultimately show thesis using that [OF ncs] by simp
qed

lemma step_content_build_step:
  "step_content (build_step E nodes k (i, c, h)) =
     (fst (node_content E pl (nodes ! i)), pn_modality (nodes ! i), c, h, map (ConditionKind_debug E) (pn_conditions (nodes ! i)))"
  by (simp add: step_content_def build_step_def node_content_def Let_def)

lemma map_enumerate_snd: "map (\<lambda>(n, x). f x) (enumerate k xs) = map f xs"
  by (induction xs arbitrary: k) auto

lemma ps_step_build_step [simp]: "ps_step (build_step E nodes k nc) = Suc k"
  by (simp add: build_step_def Let_def case_prod_unfold)

lemma sorted_wrt_enumerate:
  assumes "sorted_wrt P xs" and "\<And>i j x y. x \<in> set xs \<Longrightarrow> y \<in> set xs \<Longrightarrow> P x y \<Longrightarrow> Q (f i x) (f j y)"
  shows "sorted_wrt Q (map (\<lambda>(n, x). f n x) (enumerate k xs))"
  unfolding sorted_wrt_iff_nth_less
proof (intro allI impI)
  fix i j assume "i < j" and j: "j < length (map (\<lambda>(n, x). f n x) (enumerate k xs))"
  with assms(1) have "P (xs ! i) (xs ! j)" by (simp add: sorted_wrt_iff_nth_less)
  with assms(2) \<open>i < j\<close> j show "Q (map (\<lambda>(n, x). f n x) (enumerate k xs) ! i) (map (\<lambda>(n, x). f n x) (enumerate k xs) ! j)"
    by (simp add: nth_enumerate_eq)
qed

lemma optimize_None_iff:
  "optimize E pl logical = None \<longleftrightarrow> (\<exists>node \<in> set (lp_nodes logical). \<exists>c \<in> set (pn_conditions node). splits_character c)"
  by (cases "lp_nodes logical = []"; cases "node_costs_of E pl (lp_nodes logical)")
    (simp_all add: optimize_def Let_def flip: node_costs_of_None [of E pl])

lemma optimize_error_iff: "optimize E pl logical = Some (Inl e) \<longleftrightarrow> lp_nodes logical = [] \<and> e = EmptyPlan"
  by (cases "lp_nodes logical = []"; cases "node_costs_of E pl (lp_nodes logical)") (auto simp: optimize_def Let_def)

lemma optimize_content:
  assumes "optimize E pl logical = Some (Inr plan)" and "weak_order (fo_lt E)"
  shows "mset (map step_content (pp_steps plan)) = mset (map (node_content E pl) (lp_nodes logical))"
proof -
  let ?N = "lp_nodes logical"
  from assms obtain ncs where ncs: "node_costs_of E pl ?N = Some ncs"
    and steps: "pp_steps plan = map (\<lambda>(n, nc). build_step E ?N n nc) (enumerate 0 (stable_sort (node_cost_le E ?N) ncs))"
    by (rule optimize_plan)
  have "map step_content (pp_steps plan)
      = map (\<lambda>(n, nc). step_content (build_step E ?N 0 nc)) (enumerate 0 (stable_sort (node_cost_le E ?N) ncs))"
    unfolding steps map_map by (rule map_cong [OF refl]) (auto simp: step_content_build_step [of E _ _ _ _ _ pl])
  then have "map step_content (pp_steps plan) = map (\<lambda>nc. step_content (build_step E ?N 0 nc)) (stable_sort (node_cost_le E ?N) ncs)"
    by (simp only: map_enumerate_snd)
  then have "mset (map step_content (pp_steps plan)) = mset (map (\<lambda>nc. step_content (build_step E ?N 0 nc)) ncs)"
    by (simp only: mset_map mset_stable_sort)
  also have "map (\<lambda>nc. step_content (build_step E ?N 0 nc)) ncs = map (node_content E pl) (map (nth ?N) [0..<length ?N])"
    unfolding node_costs_of_Some [OF ncs] map_map
    by (rule map_cong [OF refl]) (simp add: step_content_build_step [of E _ _ _ _ _ pl], simp add: node_content_def)
  finally show ?thesis by (simp only: map_nth)
qed

lemma optimize_order:
  assumes "optimize E pl logical = Some (Inr plan)" and "weak_order (fo_lt E)"
  shows "sorted_wrt (runs_before E) (pp_steps plan)"
proof -
  let ?N = "lp_nodes logical"
  from assms obtain ncs where
      steps: "pp_steps plan = map (\<lambda>(n, nc). build_step E ?N n nc) (enumerate 0 (stable_sort (node_cost_le E ?N) ncs))"
    and srt: "sorted_wrt (node_cost_le E ?N) (stable_sort (node_cost_le E ?N) ncs)"
    by (rule optimize_plan)
  show ?thesis unfolding steps
    by (rule sorted_wrt_enumerate [OF srt]) (auto simp: runs_before_def node_cost_le_def build_step_def Let_def)
qed

text \<open>the outcome of \<open>optimize\<close> in every case.  It panics exactly when some full-text condition has a query of more
  than 20 bytes whose byte 20 lies inside a character (the preview slices the text there), it answers
  \<open>EmptyPlan\<close> exactly for a plan without nodes, and no other error is possible.
\<close>

theorem optimize_outcome:
  "(optimize E pl logical = None \<longleftrightarrow> (\<exists>node \<in> set (lp_nodes logical). \<exists>c \<in> set (pn_conditions node). splits_character c))
   \<and> (optimize E pl logical = Some (Inl e) \<longleftrightarrow> lp_nodes logical = [] \<and> e = EmptyPlan)"
  by (intro conjI optimize_None_iff optimize_error_iff)

text \<open>C33: the physical plan of a logical plan, on numbers without NaN.  Its steps are the nodes, each once, with the
  node's operation, modality, estimate, hint and predicates; they are numbered from 1, ordered by execution
  priority and by estimated time within a modality; and they run in parallel exactly when there are as many
  as the threshold.
\<close>

theorem optimize_orders_nodes:
  assumes "optimize E pl logical = Some (Inr plan)" and "weak_order (fo_lt E)"
  shows "mset (map step_content (pp_steps plan)) = mset (map (node_content E pl) (lp_nodes logical))
    \<and> map ps_step (pp_steps plan) = [1..<length (lp_nodes logical) + 1]
    \<and> sorted_wrt (runs_before E) (pp_steps plan)
    \<and> (pp_strategy plan = Parallel \<longleftrightarrow> pc_parallel_threshold (pl_config pl) \<le> length (lp_nodes logical))"
proof -
  let ?N = "lp_nodes logical"
  from assms obtain ncs where ncs: "node_costs_of E pl ?N = Some ncs"
    and steps: "pp_steps plan = map (\<lambda>(n, nc). build_step E ?N n nc) (enumerate 0 (stable_sort (node_cost_le E ?N) ncs))"
    by (rule optimize_plan)
  have "map ps_step (pp_steps plan) = map Suc (map fst (enumerate 0 (stable_sort (node_cost_le E ?N) ncs)))"
    unfolding steps map_map by (rule map_cong [OF refl]) auto
  then have numbers: "map ps_step (pp_steps plan) = [1..<length ?N + 1]"
    by (simp only: map_fst_enumerate length_stable_sort map_Suc_upt) (simp add: node_costs_of_Some [OF ncs])
  have "pp_strategy plan = (if pc_parallel_threshold (pl_config pl) \<le> length ?N then Parallel else Sequential)"
    using assms(1) ncs unfolding optimize_def Let_def by (cases "?N = []") auto
  with optimize_content [OF assms] numbers optimize_order [OF assms] show ?thesis by simp
qed

section \<open>What tuning does\<close>

definition enough_samples :: "'f AdaptiveTuner \<Rightarrow> ('f, 'ts) StatisticsCollector \<Rightarrow> Modality \<Rightarrow> bool" where
  "enough_samples tuner collector m \<longleftrightarrow>
    (\<exists>s. collector m = Some s \<and> at_min_samples tuner \<le> ss_query_count s)"

text \<open>The mode the tuner's documentation asks for, from the ratio of measured to estimated time.\<close>

definition tuned_mode ::
  "('f, 'z) plan_env_scheme \<Rightarrow> 'f AdaptiveTuner \<Rightarrow> ('f, 'ts) StatisticsCollector \<Rightarrow> 'f PlannerConfig \<Rightarrow> Modality \<Rightarrow> OptimizationMode" where
  "tuned_mode E tuner collector config m =
    (let estimated_ms = fo_mul E (bc_time_ms (BaseCost_for_modality E m)) (cost_multiplier E (mode_for config m));
         ratio = fo_div E (ss_avg_latency_ms (the (collector m))) estimated_ms
     in if fo_le E estimated_ms (pf_dec E 0 1) then mode_for config m
        else if fo_lt E ratio (at_aggressive_threshold tuner) then Aggressive
        else if fo_lt E (at_conservative_threshold tuner) ratio then Conservative
        else Balanced)"

lemma suggest_one_cases:
  "suggest_one E tuner collector config m =
    (if enough_samples tuner collector m \<and> tuned_mode E tuner collector config m \<noteq> mode_for config m
     then Some (m, tuned_mode E tuner collector config m) else None)"
  by (cases "collector m") (auto simp: suggest_one_def tuned_mode_def enough_samples_def Let_def not_less)

definition set_override :: "'f PlannerConfig \<Rightarrow> Modality \<times> OptimizationMode \<Rightarrow> 'f PlannerConfig" where
  "set_override c = (\<lambda>(modality, mode). c\<lparr>pc_modality_overrides := (pc_modality_overrides c)(modality \<mapsto> mode)\<rparr>)"

lemma foldl_set_override:
  "foldl set_override config adjustments = config\<lparr>pc_modality_overrides := pc_modality_overrides config ++ map_of (rev adjustments)\<rparr>"
proof (induction adjustments arbitrary: config)
  case (Cons a adjustments)
  then show ?case by (cases a) (auto simp: set_override_def map_add_def fun_eq_iff split: option.splits)
qed simp

lemma AdaptiveTuner_apply_overrides:
  assumes "pc_enable_adaptive config"
  shows "AdaptiveTuner_apply E tuner collector config =
    config\<lparr>pc_modality_overrides := pc_modality_overrides config ++ map_of (rev (suggest_adjustments E tuner collector config))\<rparr>"
  using assms foldl_set_override [of config "suggest_adjustments E tuner collector config"]
  by (simp add: AdaptiveTuner_apply_def Let_def set_override_def [abs_def])

lemma map_of_map_filter_distinct:
  assumes "distinct xs" and "\<And>x. f x = None \<or> (\<exists>v. f x = Some (x, v))"
  shows "map_of (rev (List.map_filter f xs)) x = (if x \<in> set xs then map_option snd (f x) else None)"
  using assms(1)
proof (induction xs)
  case (Cons y ys)
  then show ?case using assms(2) [of y]
    by (auto simp: map_filter_simps map_add_def split: option.splits)
qed (simp add: map_filter_simps)

lemma Modality_ALL_UNIV: "distinct Modality_ALL \<and> m \<in> set Modality_ALL"
  by (cases m) (simp_all add: Modality_ALL_def)

lemma suggestions_map:
  "map_of (rev (suggest_adjustments E tuner collector config)) m =
    (if enough_samples tuner collector m \<and> tuned_mode E tuner collector config m \<noteq> mode_for config m
     then Some (tuned_mode E tuner collector config m) else None)"
  unfolding suggest_adjustments_def
  by (subst map_of_map_filter_distinct) (auto simp: suggest_one_cases Modality_ALL_UNIV)

lemma mode_for_overrides:
  "mode_for (config\<lparr>pc_modality_overrides := f\<rparr>) m = (case f m of Some mode \<Rightarrow> mode | None \<Rightarrow> pc_global_mode config)"
  by (simp add: mode_for_def split: option.split)

text \<open>adaptive tuning, for every modality.  If it is disabled the configuration is returned as it is.  If it is
  enabled, a modality measured often enough gets the mode its ratio of measured to estimated time asks for,
  every other modality keeps its mode, and nothing else of the configuration changes.
\<close>

theorem tuner_apply_exact:
  "mode_for (AdaptiveTuner_apply E tuner collector config) m =
     (if pc_enable_adaptive config \<and> enough_samples tuner collector m then tuned_mode E tuner collector config m
      else mode_for config m)
   \<and> (AdaptiveTuner_apply E tuner collector config)\<lparr>pc_modality_overrides := pc_modality_overrides config\<rparr> = config"
proof (cases "pc_enable_adaptive config")
  case True
  then show ?thesis
    by (simp add: AdaptiveTuner_apply_overrides mode_for_overrides map_add_def suggestions_map) (simp add: mode_for_def)
next
  case False
  then show ?thesis by (simp add: AdaptiveTuner_apply_def)
qed

section \<open>Examples\<close>

definition example_plan :: LogicalPlan where
  "example_plan = \<lparr>lp_source = HexadSource,
     lp_nodes = [\<lparr>pn_modality = Graph, pn_conditions = [Traversal ''relates_to'' (Some 2)], pn_projections = [], pn_early_limit = None\<rparr>,
                 \<lparr>pn_modality = Vector, pn_conditions = [Similarity 10], pn_projections = [], pn_early_limit = Some 50\<rparr>],
     lp_post_processing = [Limit 10]\<rparr>"

definition example_planner :: "(rat, nat) QueryPlanner" where
  "example_planner = Planner_new rat_env 0 (PlannerConfig_default rat_env)"

lemma example_optimizes: "\<exists>plan. optimize rat_env example_planner example_plan = Some (Inr plan)"
proof -
  have "node_costs_of rat_env example_planner (lp_nodes example_plan) \<noteq> None"
    by (simp add: node_costs_of_None example_plan_def splits_character_def)
  then show ?thesis by (auto simp: optimize_def Let_def) (simp_all add: example_plan_def)
qed

theorem optimize_orders_nodes_witness:
  "\<exists>plan. optimize rat_env example_planner example_plan = Some (Inr plan)
    \<and> map ps_step (pp_steps plan) = [1, 2] \<and> sorted_wrt (runs_before rat_env) (pp_steps plan)
    \<and> pp_strategy plan = Parallel"
proof -
  obtain plan where p: "optimize rat_env example_planner example_plan = Some (Inr plan)"
    using example_optimizes by blast
  show ?thesis
    using optimize_orders_nodes [OF p weak_order_rat] p
    by (auto simp: example_plan_def example_planner_def Planner_new_def PlannerConfig_default_def upt_rec intro!: exI [of _ plan])
qed

text \<open>
  The default tuner does not settle.  A document store measured at 36 ms against the base of 80 ms is below half of
  the balanced estimate, so it becomes aggressive; against the aggressive estimate of 64 ms it is above
  half, so it becomes balanced again, for ever.
\<close>

definition document_stats :: "(rat, nat) StatisticsCollector" where
  "document_stats = [Document \<mapsto> \<lparr>ss_modality = Document, ss_total_rows = 0, ss_avg_latency_ms = 36,
     ss_avg_rows_returned = 1, ss_query_count = 10, ss_last_updated = 0\<rparr>]"

lemma tuner_oscillates:
  defines "step \<equiv> AdaptiveTuner_apply rat_env (AdaptiveTuner_new rat_env) document_stats"
  shows "mode_for ((step ^^ n) (PlannerConfig_default rat_env)) Document = (if even n then Balanced else Aggressive)"
proof -
  have enough: "enough_samples (AdaptiveTuner_new rat_env) document_stats Document"
    by (simp add: enough_samples_def document_stats_def AdaptiveTuner_new_def)
  have "pc_enable_adaptive ((step ^^ n) (PlannerConfig_default rat_env))
    \<and> mode_for ((step ^^ n) (PlannerConfig_default rat_env)) Document = (if even n then Balanced else Aggressive)"
  proof (induction n)
    case 0
    show ?case by (simp add: PlannerConfig_default_def mode_for_def)
  next
    case (Suc n)
    let ?c = "(step ^^ n) (PlannerConfig_default rat_env)"
    have "pc_enable_adaptive (step ?c)"
      using Suc by (simp add: step_def AdaptiveTuner_apply_overrides)
    moreover have "mode_for (step ?c) Document = tuned_mode rat_env (AdaptiveTuner_new rat_env) document_stats ?c Document"
      using Suc enough
      by (simp add: step_def AdaptiveTuner_apply_overrides mode_for_overrides map_add_def suggestions_map) (simp add: mode_for_def)
    moreover have "\<dots> = (if even (Suc n) then Balanced else Aggressive)"
      using Suc by (auto simp: tuned_mode_def rat_env_def document_stats_def AdaptiveTuner_new_def Let_def)
    ultimately show ?case by simp
  qed
  then show ?thesis ..
qed

text \<open>
  A collector always has an entry for every modality, so the estimate of a planner without statistics is never
  the documented fraction of 1000 rows: with no row counts recorded every step is estimated at one row.
\<close>

lemma fresh_planner_estimates_one_row:
  assumes "\<And>x. pf_to_u64 E (pf_max E (fo_mul E (pf_of_nat E 0) x) (pf_dec E 10 1)) = 1"
  shows "ce_estimated_rows (CostModel_estimate E node config (pl_stats (Planner_new E now config) (pn_modality node))) = 1"
proof -
  have "pl_stats (Planner_new E now config) m = Some (StoreStatistics_new E now m)" for m
    by (cases m) (simp_all add: Planner_new_def StatisticsCollector_new_def Modality_ALL_def)
  moreover have "ss_total_rows (StoreStatistics_new E now m) = 0" for m by (simp add: StoreStatistics_new_def)
  ultimately show ?thesis by (simp add: CostModel_estimate_def Let_def case_prod_unfold assms [simplified])
qed

text \<open>A full-text query of 21 bytes that ends in a two-byte character.\<close>

definition accented_plan :: LogicalPlan where
  "accented_plan = example_plan\<lparr>lp_nodes := [\<lparr>pn_modality = Document,
     pn_conditions = [Fulltext (replicate 19 (CHR ''a'') @ [CHR 0xC3, CHR 0xA9])], pn_projections = [], pn_early_limit = None\<rparr>]\<rparr>"

theorem optimize_outcome_witness:
  "optimize rat_env example_planner accented_plan = None
   \<and> optimize rat_env example_planner (example_plan\<lparr>lp_nodes := []\<rparr>) = Some (Inl EmptyPlan)"
proof -
  have "splits_character (Fulltext (replicate 19 (CHR ''a'') @ [CHR 0xC3, CHR 0xA9]))"
    by (simp add: splits_character_def) code_simp
  then have "optimize rat_env example_planner accented_plan = None"
    using optimize_outcome [of rat_env example_planner accented_plan] by (simp add: accented_plan_def)
  moreover have "optimize rat_env example_planner (example_plan\<lparr>lp_nodes := []\<rparr>) = Some (Inl EmptyPlan)"
    using optimize_outcome [of rat_env example_planner "example_plan\<lparr>lp_nodes := []\<rparr>" EmptyPlan] by simp
  ultimately show ?thesis ..
qed

end
