(* ===== verification/Vql_Plan.thy ===== *)
theory Vql_Plan
  imports Vql_Ast Planner_Optimize
begin

text \<open>
  From the VQL syntax tree to a logical plan (\<open>verisim-planner/src/vql_bridge.rs\<close>, second half): modalities are
  expanded, the WHERE clause is distributed over one node per modality, proofs go to the semantic node, and the rest
  of the query becomes post-processing.  The plan is shown equal to one read off the query directly, and followed
  through the optimiser.
\<close>

section \<open>Rendering\<close>

text \<open>The derived \<open>Debug\<close> of the syntax tree, which ends up in predicates; that of a modality is its tag.\<close>

definition opt_debug :: "('a \<Rightarrow> string) \<Rightarrow> 'a option \<Rightarrow> string" where
  "opt_debug f x = (case x of None \<Rightarrow> ''None'' | Some a \<Rightarrow> ''Some('' @ f a @ '')'')"

definition list_debug :: "('a \<Rightarrow> string) \<Rightarrow> 'a list \<Rightarrow> string" where
  "list_debug f xs = ''['' @ join_with '', '' (map f xs) @ '']''"

definition VqlFieldRef_debug :: "('f, 'n, 'z) vql_env_scheme \<Rightarrow> VqlFieldRef \<Rightarrow> string" where
  "VqlFieldRef_debug E r =
    ''VqlFieldRef { modality: '' @ opt_debug modality_tag (fr_modality r) @ '', field: '' @ pf_str_debug E (fr_field r) @ '' }''"

fun VqlSimpleCondition_debug :: "('f, 'n, 'z) vql_env_scheme \<Rightarrow> ('f, 'n) VqlSimpleCondition \<Rightarrow> string" where
  "VqlSimpleCondition_debug E (FulltextContains t) = ''FulltextContains('' @ pf_str_debug E t @ '')''"
| "VqlSimpleCondition_debug E (VectorSimilar e t) =
     ''VectorSimilar { embedding: '' @ list_debug (vb_f64_debug E) e @ '', threshold: '' @ vb_f64_debug E t @ '' }''"
| "VqlSimpleCondition_debug E (GraphPattern p d) =
     ''GraphPattern { predicate: '' @ pf_str_debug E p @ '', depth: '' @ opt_debug (\<lambda>n. dec_digits (unat n)) d @ '' }''"
| "VqlSimpleCondition_debug E (FieldCondition r op v) =
     ''FieldCondition { field: '' @ VqlFieldRef_debug E r @ '', operator: '' @ pf_str_debug E op
       @ '', value: '' @ vb_value_debug E v @ '' }''"
| "VqlSimpleCondition_debug E (CrossModalFieldCompare l op r) =
     ''CrossModalFieldCompare { left: '' @ VqlFieldRef_debug E l @ '', operator: '' @ pf_str_debug E op
       @ '', right: '' @ VqlFieldRef_debug E r @ '' }''"
| "VqlSimpleCondition_debug E (ModalityDrift m t) =
     ''ModalityDrift { modality: '' @ modality_tag m @ '', threshold: '' @ vb_f64_debug E t @ '' }''"
| "VqlSimpleCondition_debug E (ModalityExists m) = ''ModalityExists('' @ modality_tag m @ '')''"
| "VqlSimpleCondition_debug E (ModalityNotExists m) = ''ModalityNotExists('' @ modality_tag m @ '')''"
| "VqlSimpleCondition_debug E (ModalityConsistency ms t) =
     ''ModalityConsistency { modalities: '' @ list_debug modality_tag ms @ '', threshold: '' @ vb_f64_debug E t @ '' }''"

fun describe_condition :: "('f, 'n, 'z) vql_env_scheme \<Rightarrow> ('f, 'n) VqlCondition \<Rightarrow> string" where
  "describe_condition E (VqlAnd l r) = ''('' @ describe_condition E l @ '' AND '' @ describe_condition E r @ '')''"
| "describe_condition E (VqlOr l r) = ''('' @ describe_condition E l @ '' OR '' @ describe_condition E r @ '')''"
| "describe_condition E (VqlNot inner) = ''NOT('' @ describe_condition E inner @ '')''"
| "describe_condition E (VqlSimple s) = VqlSimpleCondition_debug E s"

definition field_ref_name :: "VqlFieldRef \<Rightarrow> string" where
  "field_ref_name f = (case fr_modality f of Some m \<Rightarrow> modality_tag m @ ''.'' @ fr_field f | None \<Rightarrow> fr_field f)"

section \<open>Modalities and source\<close>

definition all_not_expanded :: PlannerError where
  "all_not_expanded = InvalidConfig ''All modality should be expanded before individual mapping''"

fun vql_modality_to_planner :: "VqlModality \<Rightarrow> (PlannerError, Modality) rresult" where
  "vql_modality_to_planner VqlGraph = Inr Graph"
| "vql_modality_to_planner VqlVector = Inr Vector"
| "vql_modality_to_planner VqlTensor = Inr Tensor"
| "vql_modality_to_planner VqlSemantic = Inr Semantic"
| "vql_modality_to_planner VqlDocument = Inr Document"
| "vql_modality_to_planner VqlTemporal = Inr Temporal"
| "vql_modality_to_planner VqlAll = Inl all_not_expanded"

fun expand_modalities :: "VqlModality list \<Rightarrow> Modality list \<Rightarrow> (PlannerError, Modality list) rresult" where
  "expand_modalities [] result = Inr result"
| "expand_modalities (vm # vms) result =
    (case vm of
       VqlAll \<Rightarrow> expand_modalities vms (result @ Modality_ALL)
     | _ \<Rightarrow> rbind (vql_modality_to_planner vm) (\<lambda>m. expand_modalities vms (result @ [m])))"

text \<open>\<open>retain(|m| seen.insert(*m))\<close>: the first of equal elements stays.\<close>

fun retain_unseen :: "'a list \<Rightarrow> 'a set \<Rightarrow> 'a list" where
  "retain_unseen [] seen = []"
| "retain_unseen (x # xs) seen =
    (if x \<in> seen then retain_unseen xs seen else x # retain_unseen xs (insert x seen))"

definition resolve_modalities :: "VqlModality list \<Rightarrow> (PlannerError, Modality list) rresult" where
  "resolve_modalities vql_mods = rbind (expand_modalities vql_mods []) (\<lambda>result. Inr (retain_unseen result {}))"

fun map_source :: "VqlSource \<Rightarrow> (PlannerError, QuerySource) rresult" where
  "map_source (VqlHexad _) = Inr HexadSource"
| "map_source (VqlFederation nodes _) = Inr (Federation nodes)"
| "map_source (VqlStore m) = rbind (vql_modality_to_planner m) (\<lambda>m. Inr (Store m))"

section \<open>Conditions\<close>

fun map_simple_condition ::
  "('f, 'n, 'z) vql_env_scheme \<Rightarrow> ('f, 'n) VqlSimpleCondition \<Rightarrow> (PlannerError, Modality option \<times> ConditionKind) rresult" where
  "map_simple_condition E (FulltextContains t) = Inr (Some Document, Fulltext t)"
| "map_simple_condition E (VectorSimilar embedding _) = Inr (Some Vector, Similarity (length embedding))"
| "map_simple_condition E (GraphPattern predicate depth) = Inr (Some Graph, Traversal predicate depth)"
| "map_simple_condition E (FieldCondition field operator val) =
    (let target = Option.bind (fr_modality field) (\<lambda>vm. ok_of (vql_modality_to_planner vm));
         value_str = (case val of JString s \<Rightarrow> s | other \<Rightarrow> vb_value_display E other);
         kind = (if operator \<in> {''='', ''=='', ''!='', ''<>''} then Equality (fr_field field) value_str
                 else if operator \<in> {''>'', ''>='', ''<'', ''<='', ''BETWEEN''} then RangeFilter (fr_field field) value_str value_str
                 else Predicate (fr_field field @ '' '' @ operator @ '' '' @ value_str))
     in Inr (target, kind))"
| "map_simple_condition E (CrossModalFieldCompare left operator right) =
    (let name = (\<lambda>r. (case fr_modality r of Some m \<Rightarrow> modality_tag m | None \<Rightarrow> ''?'') @ ''.'' @ fr_field r)
     in Inr (None, Predicate (''cross_modal: '' @ name left @ '' '' @ operator @ '' '' @ name right)))"
| "map_simple_condition E (ModalityDrift modality threshold) =
    rbind (vql_modality_to_planner modality) (\<lambda>m.
      Inr (Some m, Predicate (''drift('' @ Modality_display m @ '') > '' @ vb_f64_display E threshold)))"
| "map_simple_condition E (ModalityExists modality) =
    rbind (vql_modality_to_planner modality) (\<lambda>m. Inr (Some m, Predicate (''exists('' @ Modality_display m @ '')'')))"
| "map_simple_condition E (ModalityNotExists modality) =
    rbind (vql_modality_to_planner modality) (\<lambda>m. Inr (Some m, Predicate (''not_exists('' @ Modality_display m @ '')'')))"
| "map_simple_condition E (ModalityConsistency modalities threshold) =
    (let names = map Modality_display (List.map_filter (\<lambda>vm. ok_of (vql_modality_to_planner vm)) modalities)
     in Inr (None, Predicate (''consistency('' @ join_with '', '' names @ '') > '' @ vb_f64_display E threshold)))"

type_synonym buckets = "Modality \<rightharpoonup> ConditionKind list"

text \<open>\<open>out.entry(m).or_default().push(c)\<close>, for one modality and for all active ones.\<close>

definition push_condition :: "ConditionKind \<Rightarrow> Modality \<Rightarrow> buckets \<Rightarrow> buckets" where
  "push_condition c m out = out(m \<mapsto> (case out m of None \<Rightarrow> [] | Some cs \<Rightarrow> cs) @ [c])"

definition broadcast :: "Modality list \<Rightarrow> ConditionKind \<Rightarrow> buckets \<Rightarrow> buckets" where
  "broadcast active c out = fold (push_condition c) active out"

fun flatten_conditions ::
  "('f, 'n, 'z) vql_env_scheme \<Rightarrow> ('f, 'n) VqlCondition \<Rightarrow> Modality list \<Rightarrow> buckets \<Rightarrow> (PlannerError, buckets) rresult" where
  "flatten_conditions E (VqlAnd lhs rhs) active out =
    rbind (flatten_conditions E lhs active out) (\<lambda>out. flatten_conditions E rhs active out)"
| "flatten_conditions E (VqlOr lhs rhs) active out =
    Inr (broadcast active (Predicate (''OR('' @ describe_condition E lhs @ '', '' @ describe_condition E rhs @ '')'')) out)"
| "flatten_conditions E (VqlNot inner) active out =
    Inr (broadcast active (Predicate (''NOT('' @ describe_condition E inner @ '')'')) out)"
| "flatten_conditions E (VqlSimple simple) active out =
    rbind (map_simple_condition E simple) (\<lambda>(target, kind).
      case target of
        Some m \<Rightarrow>
          if m \<in> dom out then Inr (push_condition kind m out)
          else Inr (broadcast active
            (Predicate (''target_modality='' @ Modality_display m @ '': '' @ ConditionKind_debug E kind)) out)
      | None \<Rightarrow> Inr (broadcast active kind out))"

section \<open>Projections and post-processing\<close>

definition push_projection :: "string \<Rightarrow> Modality \<Rightarrow> (Modality \<rightharpoonup> string list) \<Rightarrow> (Modality \<rightharpoonup> string list)" where
  "push_projection name m pm = pm(m \<mapsto> (case pm m of None \<Rightarrow> [] | Some ns \<Rightarrow> ns) @ [name])"

definition add_projection ::
  "Modality list \<Rightarrow> VqlProjection \<Rightarrow> (Modality \<rightharpoonup> string list) \<Rightarrow> (Modality \<rightharpoonup> string list)" where
  "add_projection modalities proj pm =
    (let field_name = (case vp_alias proj of Some a \<Rightarrow> a | None \<Rightarrow> fr_field (vp_field proj))
     in case fr_modality (vp_field proj) of
          Some vm \<Rightarrow>
            (case vql_modality_to_planner vm of
               Inr m \<Rightarrow> if m \<in> set modalities then push_projection field_name m pm else pm
             | Inl _ \<Rightarrow> pm)
        | None \<Rightarrow> fold (push_projection field_name) modalities pm)"

definition build_projection_map :: "Modality list \<Rightarrow> VqlProjection list option \<Rightarrow> (Modality \<rightharpoonup> string list)" where
  "build_projection_map modalities projections =
    (case projections of None \<Rightarrow> Map.empty | Some projs \<Rightarrow> fold (add_projection modalities) projs Map.empty)"

definition aggregate_name :: "VqlAggregate \<Rightarrow> string" where
  "aggregate_name a =
    va_function a @ ''('' @ (case va_field a of Some f \<Rightarrow> field_ref_name f | None \<Rightarrow> ''*'') @ '')''"

definition is_limit :: "PostProcessing \<Rightarrow> bool" where
  "is_limit p = (case p of Limit _ \<Rightarrow> True | _ \<Rightarrow> False)"

definition apply_offset :: "nat option \<Rightarrow> PostProcessing list \<Rightarrow> PostProcessing list" where
  "apply_offset offset pp =
    (case offset of
       None \<Rightarrow> pp
     | Some skip \<Rightarrow>
         if 0 < skip then
           (if list_ex is_limit pp then pp else pp @ [Limit (2 ^ 64 - 1 - skip)])
             @ [Project [''__offset='' @ dec_digits skip]]
         else pp)"

definition final_projection :: "('f, 'n) VqlQuery \<Rightarrow> PostProcessing list" where
  "final_projection query =
    (if vq_group_by query = None then
       (case vq_projections query of
          None \<Rightarrow> []
        | Some projs \<Rightarrow>
            (let columns = map (\<lambda>p. case vp_alias p of Some a \<Rightarrow> a | None \<Rightarrow> field_ref_name (vp_field p)) projs
             in if columns = [] then [] else [Project columns]))
     else [])"

definition build_post_processing :: "('f, 'n) VqlQuery \<Rightarrow> PostProcessing list" where
  "build_post_processing query =
    (let grouped = (case vq_group_by query of
           None \<Rightarrow> []
         | Some fs \<Rightarrow> [GroupBy (map field_ref_name fs) (case vq_aggregates query of None \<Rightarrow> [] | Some aggs \<Rightarrow> map aggregate_name aggs)]);
         ordered = (case vq_order_by query of
           None \<Rightarrow> []
         | Some os \<Rightarrow> [OrderBy (map (\<lambda>ob. (field_ref_name (vo_field ob), vo_direction ob = Asc)) os)]);
         limited = (case vq_limit query of None \<Rightarrow> [] | Some n \<Rightarrow> [Limit n])
     in apply_offset (vq_offset query) (grouped @ ordered @ limited) @ final_projection query)"

section \<open>The plan\<close>

text \<open>\<open>condition_map.remove(&m).unwrap_or_default()\<close> for each modality in turn.\<close>

fun assemble_nodes :: "Modality list \<Rightarrow> buckets \<Rightarrow> (Modality \<rightharpoonup> string list) \<Rightarrow> PlanNode list" where
  "assemble_nodes [] cm pm = []"
| "assemble_nodes (m # ms) cm pm =
    \<lparr>pn_modality = m, pn_conditions = (case cm m of Some cs \<Rightarrow> cs | None \<Rightarrow> []),
     pn_projections = (case pm m of Some ps \<Rightarrow> ps | None \<Rightarrow> []), pn_early_limit = None\<rparr>
    # assemble_nodes ms (cm(m := None)) pm"

definition init_buckets :: "Modality list \<Rightarrow> buckets" where
  "init_buckets ms = fold (\<lambda>m cm. if m \<in> dom cm then cm else cm(m \<mapsto> [])) ms Map.empty"

definition inject_proofs :: "VqlProofSpec list option \<Rightarrow> buckets \<Rightarrow> buckets" where
  "inject_proofs proofs cm =
    (case proofs of
       None \<Rightarrow> cm
     | Some specs \<Rightarrow> fold (\<lambda>spec. push_condition (ProofVerification (vs_contract_name spec)) Semantic) specs cm)"

fun to_logical_plan :: "('f, 'n, 'z) vql_env_scheme \<Rightarrow> ('f, 'n) VqlAst \<Rightarrow> (PlannerError, LogicalPlan) rresult" where
  "to_logical_plan E (Query query) =
    rbind (resolve_modalities (vq_modalities query)) (\<lambda>modalities.
    if modalities = [] then Inl EmptyPlan
    else
      rbind (map_source (vq_source query)) (\<lambda>source.
      rbind (case vq_where_clause query of
               None \<Rightarrow> Inr (init_buckets modalities)
             | Some cond \<Rightarrow> flatten_conditions E cond modalities (init_buckets modalities)) (\<lambda>cm.
      let condition_map = inject_proofs (vq_proof query) cm;
          projection_map = build_projection_map modalities (vq_projections query);
          nodes = sort_key (\<lambda>n. execution_priority (pn_modality n)) (assemble_nodes modalities condition_map projection_map)
      in Inr \<lparr>lp_source = source, lp_nodes = nodes, lp_post_processing = build_post_processing query\<rparr>)))"

section \<open>The plan read off the query\<close>

text \<open>
  A direct description of the plan: the requested modalities, the conjuncts of the WHERE clause, and for each modality
  the conditions that each conjunct gives it.
\<close>

fun expansion :: "VqlModality \<Rightarrow> Modality list" where
  "expansion VqlAll = Modality_ALL"
| "expansion VqlGraph = [Graph]"
| "expansion VqlVector = [Vector]"
| "expansion VqlTensor = [Tensor]"
| "expansion VqlSemantic = [Semantic]"
| "expansion VqlDocument = [Document]"
| "expansion VqlTemporal = [Temporal]"

definition requested :: "('f, 'n) VqlQuery \<Rightarrow> Modality list" where
  "requested q = retain_unseen (concat (map expansion (vq_modalities q))) {}"

fun conjuncts :: "('f, 'n) VqlCondition \<Rightarrow> ('f, 'n) VqlCondition list" where
  "conjuncts (VqlAnd l r) = conjuncts l @ conjuncts r"
| "conjuncts c = [c]"

definition where_conjuncts :: "('f, 'n) VqlQuery \<Rightarrow> ('f, 'n) VqlCondition list" where
  "where_conjuncts q = (case vq_where_clause q of None \<Rightarrow> [] | Some c \<Rightarrow> conjuncts c)"

fun names_all :: "('f, 'n) VqlCondition \<Rightarrow> bool" where
  "names_all (VqlSimple (ModalityDrift m _)) \<longleftrightarrow> m = VqlAll"
| "names_all (VqlSimple (ModalityExists m)) \<longleftrightarrow> m = VqlAll"
| "names_all (VqlSimple (ModalityNotExists m)) \<longleftrightarrow> m = VqlAll"
| "names_all _ \<longleftrightarrow> False"

fun node_share :: "('f, 'n, 'z) vql_env_scheme \<Rightarrow> Modality list \<Rightarrow> Modality \<Rightarrow> ('f, 'n) VqlCondition \<Rightarrow> ConditionKind list" where
  "node_share E active m (VqlAnd l r) = []"
| "node_share E active m (VqlOr l r) =
    [Predicate (''OR('' @ describe_condition E l @ '', '' @ describe_condition E r @ '')'')]"
| "node_share E active m (VqlNot c) = [Predicate (''NOT('' @ describe_condition E c @ '')'')]"
| "node_share E active m (VqlSimple s) =
    (case map_simple_condition E s of
       Inl _ \<Rightarrow> []
     | Inr (None, k) \<Rightarrow> [k]
     | Inr (Some t, k) \<Rightarrow>
         if t \<notin> set active then [Predicate (''target_modality='' @ Modality_display t @ '': '' @ ConditionKind_debug E k)]
         else if t = m then [k] else [])"

definition proofs_of :: "('f, 'n) VqlQuery \<Rightarrow> ConditionKind list" where
  "proofs_of q = (case vq_proof q of None \<Rightarrow> [] | Some specs \<Rightarrow> map (\<lambda>s. ProofVerification (vs_contract_name s)) specs)"

definition projected :: "Modality \<Rightarrow> VqlProjection \<Rightarrow> bool" where
  "projected m p \<longleftrightarrow> (case fr_modality (vp_field p) of None \<Rightarrow> True | Some vm \<Rightarrow> vql_modality_to_planner vm = Inr m)"

definition projection_name :: "VqlProjection \<Rightarrow> string" where
  "projection_name p = (case vp_alias p of Some a \<Rightarrow> a | None \<Rightarrow> fr_field (vp_field p))"

definition node_of :: "('f, 'n, 'z) vql_env_scheme \<Rightarrow> ('f, 'n) VqlQuery \<Rightarrow> Modality \<Rightarrow> PlanNode" where
  "node_of E q m =
    \<lparr>pn_modality = m,
     pn_conditions = concat (map (node_share E (requested q) m) (where_conjuncts q)) @ (if m = Semantic then proofs_of q else []),
     pn_projections = map projection_name (filter (projected m) (case vq_projections q of None \<Rightarrow> [] | Some ps \<Rightarrow> ps)),
     pn_early_limit = None\<rparr>"

definition source_of :: "VqlSource \<Rightarrow> QuerySource" where
  "source_of s = (case map_source s of Inr src \<Rightarrow> src | Inl _ \<Rightarrow> HexadSource)"

definition plan_of :: "('f, 'n, 'z) vql_env_scheme \<Rightarrow> ('f, 'n) VqlQuery \<Rightarrow> LogicalPlan" where
  "plan_of E q =
    \<lparr>lp_source = source_of (vq_source q),
     lp_nodes = map (node_of E q) (sort_key execution_priority (requested q)),
     lp_post_processing = build_post_processing q\<rparr>"

definition unexpandable :: "('f, 'n) VqlQuery \<Rightarrow> bool" where
  "unexpandable q \<longleftrightarrow> vq_source q = VqlStore VqlAll \<or> list_ex names_all (where_conjuncts q)"

section \<open>Equivalence\<close>

lemma retain_unseen_props:
  "distinct (retain_unseen xs seen) \<and> set (retain_unseen xs seen) = set xs - seen"
  by (induction xs arbitrary: seen) auto

lemma expand_modalities_eq: "expand_modalities vms acc = Inr (acc @ concat (map expansion vms))"
  by (induction vms arbitrary: acc) (auto split: VqlModality.splits)

lemma resolve_modalities_eq: "resolve_modalities (vq_modalities q) = Inr (requested q)"
  by (simp add: resolve_modalities_def expand_modalities_eq requested_def)

lemma distinct_requested [simp]: "distinct (requested q)"
  by (simp add: requested_def retain_unseen_props)

lemma set_requested: "set (requested q) = (\<Union>vm \<in> set (vq_modalities q). set (expansion vm))"
  by (simp add: requested_def retain_unseen_props)

lemma init_buckets_eq: "init_buckets ms = (\<lambda>m. if m \<in> set ms then Some [] else None)"
proof -
  have "fold (\<lambda>m cm. if m \<in> dom cm then cm else cm(m \<mapsto> [])) ms cm
      = (\<lambda>m. if m \<in> dom cm then cm m else if m \<in> set ms then Some [] else None)" for cm :: buckets
    by (induction ms arbitrary: cm) (auto simp: fun_eq_iff dom_def)
  then show ?thesis by (simp add: init_buckets_def)
qed

lemma broadcast_eq:
  "distinct active \<Longrightarrow> broadcast active c out =
    (\<lambda>m. if m \<in> set active then Some ((case out m of None \<Rightarrow> [] | Some cs \<Rightarrow> cs) @ [c]) else out m)"
  unfolding broadcast_def
  by (induction active arbitrary: out) (auto simp: push_condition_def fun_eq_iff)

lemma planner_modality_error:
  "rbind (vql_modality_to_planner m) (\<lambda>m. Inr (g m)) = Inl e \<longleftrightarrow> m = VqlAll \<and> e = all_not_expanded"
  by (cases m) auto

lemma map_simple_error: "map_simple_condition E s = Inl e \<longleftrightarrow> names_all (VqlSimple s) \<and> e = all_not_expanded"
  by (cases s) (simp_all add: planner_modality_error Let_def del: vql_modality_to_planner.simps)

lemma broadcast_dom:
  assumes "distinct active" "dom out = set active"
  shows "broadcast active c out = (\<lambda>m. map_option (\<lambda>cs. cs @ [c]) (out m))"
proof
  fix m
  have "m \<in> set active \<longleftrightarrow> out m \<noteq> None" using assms(2) by (metis domIff)
  then show "broadcast active c out m = map_option (\<lambda>cs. cs @ [c]) (out m)"
    by (cases "out m") (simp_all add: broadcast_eq [OF assms(1)])
qed

lemma flatten_eq:
  assumes "distinct active"
  shows "dom out = set active \<Longrightarrow> flatten_conditions E c active out =
    (if list_ex names_all (conjuncts c) then Inl all_not_expanded
     else Inr (\<lambda>m. map_option (\<lambda>cs. cs @ concat (map (node_share E active m) (conjuncts c))) (out m)))"
proof (induction c arbitrary: out)
  case (VqlAnd l r)
  let ?out = "\<lambda>m. map_option (\<lambda>cs. cs @ concat (map (node_share E active m) (conjuncts l))) (out m)"
  have "dom ?out = set active" using VqlAnd.prems by (auto simp: dom_def)
  with VqlAnd show ?case by (auto simp: option.map_comp comp_def)
next
  case (VqlSimple s)
  have out: "m \<in> set active \<longleftrightarrow> (\<exists>cs. out m = Some cs)" for m using VqlSimple by (auto simp: dom_def)
  show ?case
  proof (cases "map_simple_condition E s")
    case (Inl e) then show ?thesis using map_simple_error [of E s e] by simp
  next
    case (Inr tk)
    obtain t k where tk: "tk = (t, k)" by fastforce
    have "\<not> names_all (VqlSimple s)" using Inr map_simple_error [of E s all_not_expanded] by auto
    then show ?thesis using Inr tk out
      by (cases t) (auto simp: broadcast_dom [OF assms VqlSimple] push_condition_def fun_eq_iff dom_def option.map_ident
          split: option.splits)
  qed
qed (simp_all add: broadcast_dom [OF assms])

lemma inject_proofs_eq:
  "inject_proofs (vq_proof q) cm m =
    (if m = Semantic \<and> proofs_of q \<noteq> [] then Some ((case cm m of None \<Rightarrow> [] | Some cs \<Rightarrow> cs) @ proofs_of q) else cm m)"
proof -
  have "fold (\<lambda>spec. push_condition (ProofVerification (vs_contract_name spec)) Semantic) specs cm m =
    (if m = Semantic \<and> specs \<noteq> []
     then Some ((case cm m of None \<Rightarrow> [] | Some cs \<Rightarrow> cs) @ map (\<lambda>s. ProofVerification (vs_contract_name s)) specs)
     else cm m)" for specs :: "VqlProofSpec list"
    by (induction specs arbitrary: cm) (auto simp: push_condition_def)
  then show ?thesis by (cases "vq_proof q") (simp_all add: inject_proofs_def proofs_of_def)
qed

lemma fold_push_projection:
  "distinct ms \<Longrightarrow> fold (push_projection n) ms pm =
    (\<lambda>m. if m \<in> set ms then Some ((case pm m of None \<Rightarrow> [] | Some ns \<Rightarrow> ns) @ [n]) else pm m)"
  by (induction ms arbitrary: pm) (auto simp: push_projection_def fun_eq_iff)

lemma add_projection_eq:
  assumes "distinct ms" "m \<in> set ms"
  shows "(case add_projection ms p pm m of None \<Rightarrow> [] | Some ns \<Rightarrow> ns)
    = (case pm m of None \<Rightarrow> [] | Some ns \<Rightarrow> ns) @ (if projected m p then [projection_name p] else [])"
  using assms
  by (auto simp: add_projection_def projected_def projection_name_def fold_push_projection push_projection_def Let_def
      split: option.splits sum.splits)

lemma build_projection_map_eq:
  assumes "distinct ms" "m \<in> set ms"
  shows "(case build_projection_map ms projs m of None \<Rightarrow> [] | Some ns \<Rightarrow> ns)
    = map projection_name (filter (projected m) (case projs of None \<Rightarrow> [] | Some ps \<Rightarrow> ps))"
proof -
  have "(case fold (add_projection ms) ps pm m of None \<Rightarrow> [] | Some ns \<Rightarrow> ns)
      = (case pm m of None \<Rightarrow> [] | Some ns \<Rightarrow> ns) @ map projection_name (filter (projected m) ps)" for ps :: "VqlProjection list" and pm
    by (induction ps arbitrary: pm) (simp_all add: add_projection_eq [OF assms])
  then show ?thesis by (cases projs) (simp_all add: build_projection_map_def)
qed

lemma assemble_nodes_eq:
  "distinct ms \<Longrightarrow> assemble_nodes ms cm pm =
    map (\<lambda>m. \<lparr>pn_modality = m, pn_conditions = (case cm m of Some cs \<Rightarrow> cs | None \<Rightarrow> []),
      pn_projections = (case pm m of Some ps \<Rightarrow> ps | None \<Rightarrow> []), pn_early_limit = None\<rparr>) ms"
  by (induction ms arbitrary: cm) auto

lemma insort_key_map: "insort_key f (g x) (map g xs) = map g (insort_key (\<lambda>x. f (g x)) x xs)"
  by (induction xs) auto

lemma sort_key_map: "sort_key f (map g xs) = map g (sort_key (\<lambda>x. f (g x)) xs)"
  by (induction xs) (simp_all add: insort_key_map)

lemma map_source_eq:
  "map_source s = (if s = VqlStore VqlAll then Inl all_not_expanded else Inr (source_of s))"
proof (cases s)
  case (VqlStore m)
  then show ?thesis by (cases m) (simp_all add: source_of_def)
qed (simp_all add: source_of_def)

text \<open>The buckets after the WHERE clause: the conjuncts' shares, unless one of them cannot be mapped.\<close>

lemma where_buckets:
  "(case vq_where_clause q of
      None \<Rightarrow> Inr (init_buckets (requested q))
    | Some c \<Rightarrow> flatten_conditions E c (requested q) (init_buckets (requested q)))
   = (if list_ex names_all (where_conjuncts q) then Inl all_not_expanded
      else Inr (\<lambda>m. if m \<in> set (requested q)
        then Some (concat (map (node_share E (requested q) m) (where_conjuncts q))) else None))"
proof -
  have dom: "dom (init_buckets (requested q)) = set (requested q)" by (auto simp: init_buckets_eq dom_def)
  show ?thesis
    by (cases "vq_where_clause q") (simp_all add: where_conjuncts_def flatten_eq [OF distinct_requested dom],
        auto simp: init_buckets_eq fun_eq_iff where_conjuncts_def)
qed

lemma nodes_eq:
  "assemble_nodes (requested q)
     (inject_proofs (vq_proof q) (\<lambda>m. if m \<in> set (requested q)
        then Some (concat (map (node_share E (requested q) m) (where_conjuncts q))) else None))
     (build_projection_map (requested q) (vq_projections q)) = map (node_of E q) (requested q)"
  unfolding assemble_nodes_eq [OF distinct_requested]
  by (rule map_cong [OF refl]) (auto simp: node_of_def inject_proofs_eq build_projection_map_eq)

lemma planned: "requested q \<noteq> [] \<Longrightarrow> \<not> unexpandable q \<Longrightarrow> to_logical_plan E (Query q) = Inr (plan_of E q)"
proof -
  have "sort_key (\<lambda>n. execution_priority (pn_modality n)) (map (node_of E q) (requested q))
      = map (node_of E q) (sort_key execution_priority (requested q))"
    by (simp add: sort_key_map node_of_def)
  then show "requested q \<noteq> [] \<Longrightarrow> \<not> unexpandable q \<Longrightarrow> to_logical_plan E (Query q) = Inr (plan_of E q)"
    by (simp add: resolve_modalities_eq map_source_eq where_buckets nodes_eq unexpandable_def plan_of_def)
qed

lemma unplanned:
  "requested q = [] \<or> unexpandable q \<Longrightarrow>
    to_logical_plan E (Query q) = Inl (if requested q = [] then EmptyPlan else all_not_expanded)"
  by (auto simp: resolve_modalities_eq map_source_eq where_buckets unexpandable_def)

declare to_logical_plan.simps [simp del]

section \<open>Through the optimiser\<close>

lemma sorted_determined:
  fixes f :: "'a \<Rightarrow> 'b::linorder"
  assumes "mset xs = mset ys" "sorted (map f xs)" "inj f"
  shows "xs = sort_key f ys"
proof -
  have "mset (map f xs) = mset (map f (sort_key f ys))" using assms(1) by simp
  with assms(2) have "map f xs = map f (sort_key f ys)"
    by (metis properties_for_sort sorted_sort_key)
  then show ?thesis by (rule injD [OF inj_mapI [OF assms(3)]])
qed

lemma fulltext_share:
  "Fulltext t \<in> set (node_share E active m c) \<Longrightarrow> c = VqlSimple (FulltextContains t)"
proof (cases c)
  case (VqlSimple s)
  moreover assume "Fulltext t \<in> set (node_share E active m c)"
  ultimately show ?thesis
    by (cases s) (auto simp: Let_def rbind_def split: sum.splits option.splits if_splits)
qed auto

lemma fulltext_in_node:
  "Fulltext t \<in> set (pn_conditions (node_of E q m)) \<Longrightarrow> VqlSimple (FulltextContains t) \<in> set (where_conjuncts q)"
  by (auto simp: node_of_def proofs_of_def dest: fulltext_share split: if_splits option.splits)

lemma splits_fulltext: "splits_character c \<Longrightarrow> \<exists>t. c = Fulltext t"
  by (cases c) (auto simp: splits_character_def)

text \<open>A query from the WHERE clause to the physical plan, on numbers without NaN.  If no full-text conjunct is cut inside a
  character, every query that can be planned is optimised, with exactly one step for each requested modality, in
  the order of execution, and each step pushes down the conditions of its modality.\<close>

theorem query_optimized:
  assumes "weak_order (fo_lt E)" and "requested q \<noteq> []" and "\<not> unexpandable q"
    and "\<And>t. VqlSimple (FulltextContains t) \<in> set (where_conjuncts q) \<Longrightarrow> \<not> splits_character (Fulltext t)"
  shows "\<exists>lp plan. to_logical_plan E (Query q) = Inr lp \<and> optimize E pl lp = Some (Inr plan)
    \<and> map ps_modality (pp_steps plan) = sort_key execution_priority (requested q)
    \<and> (\<forall>s \<in> set (pp_steps plan).
         ps_pushed_predicates s = map (ConditionKind_debug E) (pn_conditions (node_of E q (ps_modality s))))"
proof -
  let ?lp = "plan_of E q"
  have lp: "to_logical_plan E (Query q) = Inr ?lp" using assms(2,3) by (rule planned)
  have nodes: "lp_nodes ?lp = map (node_of E q) (sort_key execution_priority (requested q))" by (simp add: plan_of_def)
  then have "lp_nodes ?lp \<noteq> []" using assms(2) by (metis length_0_conv length_map length_sort)
  moreover have "\<not> splits_character c" if "c \<in> set (pn_conditions (node_of E q m))" for c m
    using that assms(4) splits_fulltext [of c] fulltext_in_node [of _ E q m] by blast
  then have "optimize E pl ?lp \<noteq> None" by (auto simp: optimize_None_iff nodes)
  ultimately obtain plan where plan: "optimize E pl ?lp = Some (Inr plan)"
    by (metis optimize_error_iff old.sum.exhaust option.exhaust)
  note content = optimize_content [OF plan assms(1)]
  have "mset (map ps_modality (pp_steps plan)) = mset (requested q)"
    using arg_cong [OF content, of "image_mset (\<lambda>(_, m, _). m)"]
    by (simp add: nodes step_content_def node_content_def node_of_def image_mset.compositionality comp_def)
  moreover have "sorted (map execution_priority (map ps_modality (pp_steps plan)))"
    using optimize_order [OF plan assms(1)]
    by (auto simp: sorted_wrt_map runs_before_def elim!: sorted_wrt_mono_rel [rotated])
  ultimately have "map ps_modality (pp_steps plan) = sort_key execution_priority (requested q)"
    by (rule sorted_determined) (simp add: inj_def)
  moreover have "ps_pushed_predicates s = map (ConditionKind_debug E) (pn_conditions (node_of E q (ps_modality s)))"
    if "s \<in> set (pp_steps plan)" for s
  proof -
    have "step_content s \<in> set (map (node_content E pl) (lp_nodes ?lp))"
      using that content by (metis image_eqI mset_eq_setD set_map)
    then show ?thesis by (auto simp: nodes step_content_def node_content_def node_of_def)
  qed
  ultimately show ?thesis using lp plan by blast
qed

section \<open>Properties\<close>


text \<open>What the plan loses: the PROOF clause when the semantic modality is not requested, the difference between equality and
  inequality, the threshold of a similarity search, and the whole HAVING clause.\<close>

lemma same_plan:
  assumes "requested q = requested r" "unexpandable q = unexpandable r"
    and "requested r \<noteq> [] \<Longrightarrow> plan_of E q = plan_of E r"
  shows "to_logical_plan E (Query q) = to_logical_plan E (Query r)"
  by (cases "requested r = []"; cases "unexpandable r") (simp_all add: assms planned unplanned)

lemma proof_clause_dropped:
  assumes "Semantic \<notin> set (requested q)"
  shows "to_logical_plan E (Query (q\<lparr>vq_proof := p\<rparr>)) = to_logical_plan E (Query q)"
proof (rule same_plan)
  have r: "requested (q\<lparr>vq_proof := p\<rparr>) = requested q" and w: "where_conjuncts (q\<lparr>vq_proof := p\<rparr>) = where_conjuncts q"
    by (simp_all add: requested_def where_conjuncts_def)
  show "plan_of E (q\<lparr>vq_proof := p\<rparr>) = plan_of E q" using assms
    by (auto simp: plan_of_def r w node_of_def build_post_processing_def final_projection_def)
qed (simp_all add: requested_def unexpandable_def where_conjuncts_def)

lemma inequality_planned_as_equality:
  "map_simple_condition E (FieldCondition f ''!='' v) = map_simple_condition E (FieldCondition f ''='' v)"
  by simp

lemma similarity_threshold_ignored:
  "map_simple_condition E (VectorSimilar e t) = map_simple_condition E (VectorSimilar e u)"
  by simp

lemma having_ignored: "to_logical_plan E (Query (q\<lparr>vq_having := h\<rparr>)) = to_logical_plan E (Query q)"
proof (rule same_plan)
  have r: "requested (q\<lparr>vq_having := h\<rparr>) = requested q" and w: "where_conjuncts (q\<lparr>vq_having := h\<rparr>) = where_conjuncts q"
    by (simp_all add: requested_def where_conjuncts_def)
  show "plan_of E (q\<lparr>vq_having := h\<rparr>) = plan_of E q"
    by (auto simp: plan_of_def r w node_of_def proofs_of_def build_post_processing_def final_projection_def)
qed (simp_all add: requested_def unexpandable_def where_conjuncts_def)

text \<open>With a limit the offset adds no rows: the first \<open>n\<close> rows are kept and then \<open>skip\<close> of them are skipped.\<close>

lemma offset_keeps_limit: "0 < skip \<Longrightarrow> apply_offset (Some skip) [Limit n] = [Limit n, Project [''__offset='' @ dec_digits skip]]"
  by (simp add: apply_offset_def is_limit_def)

section \<open>Example\<close>

lemma demo_query_plannable: "requested demo_vql_query = [Document, Graph] \<and> \<not> unexpandable demo_vql_query"
  by (simp add: demo_vql_query_def demo_condition_def requested_def unexpandable_def where_conjuncts_def)

theorem query_optimized_witness:
  "\<exists>lp plan. to_logical_plan demo_vql_env (Query demo_vql_query) = Inr lp
     \<and> optimize demo_vql_env (Planner_new demo_vql_env (0 :: nat) (PlannerConfig_default demo_vql_env)) lp = Some (Inr plan)
     \<and> map ps_modality (pp_steps plan) = [Document, Graph]"
proof -
  let ?pl = "Planner_new demo_vql_env (0 :: nat) (PlannerConfig_default demo_vql_env)"
  have order: "weak_order (fo_lt demo_vql_env)"
    using weak_order_rat by (simp add: demo_vql_env_def rat_env_def plan_env.defs)
  have "\<not> splits_character (Fulltext t)" if "VqlSimple (FulltextContains t) \<in> set (where_conjuncts demo_vql_query)" for t
    using that by (simp add: demo_vql_query_def demo_condition_def where_conjuncts_def splits_character_def)
  from query_optimized [OF order, of demo_vql_query ?pl] this demo_query_plannable
  show ?thesis by auto
qed

end
