(* ===== verification/Circuit.thy ===== *)
theory Circuit
  imports Float_Env Keyed_Store
begin

text \<open>
  Custom proof circuits (\<open>verisim-semantic/src/circuit_registry.rs\<close>, \<open>circuit_compiler.rs\<close>): the R1CS form, the check of a
  witness, the registry of named circuits and the compiler from gates.  A hash map is an association list; the order in
  which a linear combination is summed, SHA-256 and the JSON encoder are parameters.  No operation panics while it
  holds the registry lock, so \<open>LockPoisoned\<close> does not occur.
\<close>

section \<open>Data\<close>

datatype CircuitError =
    CircuitNotFound string
  | CircuitAlreadyExists string
  | CompilationFailed string
  | VerificationFailed string
  | InvalidWitness string
  | CircuitLockPoisoned

fun CircuitError_display :: "CircuitError \<Rightarrow> string" where
  "CircuitError_display (CircuitNotFound n) = ''Circuit not found: '' @ n"
| "CircuitError_display (CircuitAlreadyExists n) = ''Circuit already registered: '' @ n"
| "CircuitError_display (CompilationFailed m) = ''Compilation failed: '' @ m"
| "CircuitError_display (VerificationFailed m) = ''Verification failed: '' @ m"
| "CircuitError_display (InvalidWitness m) = ''Invalid witness: '' @ m"
| "CircuitError_display CircuitLockPoisoned = ''Lock poisoned''"

datatype GateType = GateAnd | GateOr | GateXor | GateNot | LinearCombination

type_synonym 'g linear = "(nat \<times> 'g) list"

record 'g R1CSConstraint =
  r1_a :: "'g linear"
  r1_b :: "'g linear"
  r1_c :: "'g linear"

record 'g CircuitIR =
  ir_name :: string
  ir_num_public_inputs :: nat
  ir_num_witness_wires :: nat
  ir_num_wires :: nat
  ir_constraints :: "'g R1CSConstraint list"
  ir_parameter_map :: "(string \<times> nat) list"

record 'g CompiledCircuit =
  cc_ir :: "'g CircuitIR"
  cc_circuit_hash :: string
  cc_verification_key :: bytes

record 'g circuit_env = "'g plan_env" +
  cn_abs :: "'g \<Rightarrow> 'g"
  cn_order :: "'g linear \<Rightarrow> 'g linear"
  cn_sha256 :: "bytes \<Rightarrow> bytes"
  cn_json_ir :: "'g CircuitIR \<Rightarrow> (string, bytes) rresult"
  cn_json_constraint :: "'g R1CSConstraint \<Rightarrow> bytes option"

section \<open>Verification\<close>

definition eval_linear :: "('g, 'z) circuit_env_scheme \<Rightarrow> 'g linear \<Rightarrow> 'g list \<Rightarrow> 'g" where
  "eval_linear E terms assignment =
    fo_sum E (map (\<lambda>(wire, coeff). fo_mul E coeff (if wire < length assignment then assignment ! wire else pf_dec E 0 1))
      (cn_order E terms))"

definition constraint_holds :: "('g, 'z) circuit_env_scheme \<Rightarrow> 'g list \<Rightarrow> 'g R1CSConstraint \<Rightarrow> bool" where
  "constraint_holds E assignment c =
    (let product = fo_mul E (eval_linear E (r1_a c) assignment) (eval_linear E (r1_b c) assignment)
     in \<not> fo_lt E (pf_dec E 1 10) (cn_abs E (fo_sub E product (eval_linear E (r1_c c) assignment))))"

text \<open>The number of witness values is a \<open>usize\<close> difference, which wraps.\<close>

definition CompiledCircuit_verify ::
  "('g, 'z) circuit_env_scheme \<Rightarrow> 'g CompiledCircuit \<Rightarrow> 'g list \<Rightarrow> 'g list \<Rightarrow> (CircuitError, bool) rresult" where
  "CompiledCircuit_verify E circuit witness public_inputs =
    (let ir = cc_ir circuit;
         expected_witness_len = unat (of_nat (ir_num_wires ir) - of_nat (ir_num_public_inputs ir) :: u64)
     in if length public_inputs \<noteq> ir_num_public_inputs ir
        then Inl (InvalidWitness (''Expected '' @ dec_digits (ir_num_public_inputs ir) @ '' public inputs, got ''
          @ dec_digits (length public_inputs)))
        else if length witness \<noteq> expected_witness_len
        then Inl (InvalidWitness (''Expected '' @ dec_digits expected_witness_len @ '' witness values, got ''
          @ dec_digits (length witness)))
        else Inr (list_all (constraint_holds E (public_inputs @ witness)) (ir_constraints ir)))"

section \<open>The registry\<close>

type_synonym 'g CircuitRegistry = "(string \<times> 'g CompiledCircuit) list"

definition CircuitRegistry_new :: "'g CircuitRegistry" where
  "CircuitRegistry_new = []"

definition register_circuit ::
  "'g CircuitRegistry \<Rightarrow> string \<times> 'g CompiledCircuit \<Rightarrow> 'g CircuitRegistry \<times> (CircuitError, unit) rresult" where
  "register_circuit circuits = (\<lambda>(name, circuit).
    if map_of circuits name \<noteq> None then (circuits, Inl (CircuitAlreadyExists name))
    else (AList.update name circuit circuits, Inr ()))"

definition get_circuit :: "'g CircuitRegistry \<Rightarrow> string \<Rightarrow> (CircuitError, 'g CompiledCircuit option) rresult" where
  "get_circuit circuits name = Inr (map_of circuits name)"

definition verify_with_circuit ::
  "('g, 'z) circuit_env_scheme \<Rightarrow> 'g CircuitRegistry \<Rightarrow> string \<Rightarrow> 'g list \<Rightarrow> 'g list \<Rightarrow> (CircuitError, bool) rresult" where
  "verify_with_circuit E circuits name witness public_inputs =
    (case map_of circuits name of
       None \<Rightarrow> Inl (CircuitNotFound name)
     | Some circuit \<Rightarrow> CompiledCircuit_verify E circuit witness public_inputs)"

definition list_circuits :: "'g CircuitRegistry \<Rightarrow> string list" where
  "list_circuits circuits = map fst circuits"

definition unregister_circuit :: "'g CircuitRegistry \<Rightarrow> string \<Rightarrow> 'g CircuitRegistry \<times> bool" where
  "unregister_circuit circuits name = (AList.delete name circuits, map_of circuits name \<noteq> None)"

section \<open>The compiler\<close>

record WireDef =
  wd_name :: string
  wd_is_public :: bool
  wd_is_output :: bool

record GateDef =
  gd_gate_type :: GateType
  gd_inputs :: "string list"
  gd_output :: string

record CircuitDef =
  cd_name :: string
  cd_wires :: "WireDef list"
  cd_gates :: "GateDef list"
  cd_parameters :: "string list"

type_synonym wire_map = "(string \<times> nat) list"

text \<open>\<open>HashMap::from\<close>: a later pair replaces an earlier one with its key.\<close>

definition hash_from :: "('k \<times> 'v) list \<Rightarrow> ('k \<times> 'v) list" where
  "hash_from kvs = foldl (\<lambda>m (k, v). AList.update k v m) [] kvs"

definition add_wire :: "wire_map \<times> string list \<times> string list \<Rightarrow> WireDef \<Rightarrow> wire_map \<times> string list \<times> string list" where
  "add_wire = (\<lambda>(wire_map, public_inputs, witness_wires) wire.
    (AList.update (wd_name wire) (length wire_map) wire_map,
     if wd_is_public wire \<or> wd_is_output wire
     then (public_inputs @ [wd_name wire], witness_wires) else (public_inputs, witness_wires @ [wd_name wire])))"

definition resolve_wire :: "wire_map \<Rightarrow> string \<Rightarrow> (CircuitError, nat) rresult" where
  "resolve_wire wire_map name =
    (case map_of wire_map name of Some i \<Rightarrow> Inr i | None \<Rightarrow> Inl (CompilationFailed (''Unknown wire: '' @ name)))"

text \<open>The constant wire \<open>usize::MAX\<close>.\<close>

definition constant_wire :: nat where
  "constant_wire = 2 ^ 64 - 1"

text \<open>\<open>inputs[0]\<close> and \<open>inputs[1]\<close>, which panic when they are missing, resolved one after the other.\<close>

definition resolve_two :: "wire_map \<Rightarrow> string list \<Rightarrow> (CircuitError, nat \<times> nat) rresult option" where
  "resolve_two wire_map inputs =
    (case inputs of
       [] \<Rightarrow> None
     | x # rest \<Rightarrow>
         (case resolve_wire wire_map x of
            Inl e \<Rightarrow> Some (Inl e)
          | Inr a \<Rightarrow> (case rest of [] \<Rightarrow> None | y # _ \<Rightarrow> Some (rbind (resolve_wire wire_map y) (\<lambda>b. Inr (a, b))))))"

fun resolve_all :: "wire_map \<Rightarrow> string list \<Rightarrow> (CircuitError, nat list) rresult" where
  "resolve_all wire_map [] = Inr []"
| "resolve_all wire_map (x # xs) = rbind (resolve_wire wire_map x) (\<lambda>i. rbind (resolve_all wire_map xs) (\<lambda>is. Inr (i # is)))"

definition compile_gate ::
  "('g, 'z) plan_env_scheme \<Rightarrow> wire_map \<Rightarrow> GateDef \<Rightarrow> (CircuitError, 'g R1CSConstraint) rresult option" where
  "compile_gate E wire_map gate =
    (let one = pf_dec E 10 1; inputs = gd_inputs gate in
     case map_of wire_map (gd_output gate) of
       None \<Rightarrow> Some (Inl (CompilationFailed (''Unknown output wire: '' @ gd_output gate)))
     | Some output_idx \<Rightarrow>
         (case gd_gate_type gate of
            GateAnd \<Rightarrow>
              if length inputs \<noteq> 2 then Some (Inl (CompilationFailed ''AND gate requires exactly 2 inputs''))
              else map_option (\<lambda>r. rbind r (\<lambda>(a, b).
                     Inr \<lparr>r1_a = [(a, one)], r1_b = [(b, one)], r1_c = [(output_idx, one)]\<rparr>)) (resolve_two wire_map inputs)
          | GateOr \<Rightarrow>
              map_option (\<lambda>r. rbind r (\<lambda>(a, b).
                Inr \<lparr>r1_a = [(a, one)], r1_b = [(b, one)], r1_c = [(output_idx, one)]\<rparr>)) (resolve_two wire_map inputs)
          | GateXor \<Rightarrow>
              map_option (\<lambda>r. rbind r (\<lambda>(a, b).
                Inr \<lparr>r1_a = [(a, one)], r1_b = [(b, pf_dec E 20 1)],
                     r1_c = hash_from [(a, one), (b, one), (output_idx, pf_dec E (-10) 1)]\<rparr>)) (resolve_two wire_map inputs)
          | GateNot \<Rightarrow>
              if length inputs \<noteq> 1 then Some (Inl (CompilationFailed ''NOT gate requires exactly 1 input''))
              else Some (rbind (resolve_wire wire_map (hd inputs)) (\<lambda>a.
                     Inr \<lparr>r1_a = [(a, one)], r1_b = [(constant_wire, one)],
                          r1_c = hash_from [(a, one), (output_idx, pf_dec E (-10) 1)]\<rparr>))
          | LinearCombination \<Rightarrow>
              Some (rbind (resolve_all wire_map inputs) (\<lambda>is.
                Inr \<lparr>r1_a = hash_from (map (\<lambda>i. (i, one)) is), r1_b = [(constant_wire, one)], r1_c = [(output_idx, one)]\<rparr>))))"

fun compile_gates ::
  "('g, 'z) plan_env_scheme \<Rightarrow> wire_map \<Rightarrow> GateDef list \<Rightarrow> (CircuitError, 'g R1CSConstraint list) rresult option" where
  "compile_gates E wire_map [] = Some (Inr [])"
| "compile_gates E wire_map (g # gs) =
    (case compile_gate E wire_map g of
       None \<Rightarrow> None
     | Some (Inl e) \<Rightarrow> Some (Inl e)
     | Some (Inr c) \<Rightarrow> map_option (\<lambda>r. rbind r (\<lambda>cs. Inr (c # cs))) (compile_gates E wire_map gs))"

definition generate_verification_key :: "('g, 'z) circuit_env_scheme \<Rightarrow> 'g CircuitIR \<Rightarrow> bytes" where
  "generate_verification_key E ir =
    cn_sha256 E (as_bytes (ir_name ir) @ u64_to_le_bytes (of_nat (ir_num_public_inputs ir)) @ u64_to_le_bytes (of_nat (ir_num_wires ir))
      @ concat (map (\<lambda>c. case cn_json_constraint E c of Some b \<Rightarrow> b | None \<Rightarrow> []) (ir_constraints ir)))"

definition build_wires :: "CircuitDef \<Rightarrow> wire_map \<times> string list \<times> string list" where
  "build_wires def = foldl add_wire ([], [], []) (cd_wires def)"

definition compile_circuit ::
  "('g, 'z) circuit_env_scheme \<Rightarrow> CircuitDef \<Rightarrow> (CircuitError, 'g CompiledCircuit) rresult option" where
  "compile_circuit E def =
    (let (wire_map, public_inputs, witness_wires) = build_wires def in
     map_option (\<lambda>r. rbind r (\<lambda>constraints.
       let ir = \<lparr>ir_name = cd_name def, ir_num_public_inputs = length public_inputs,
                 ir_num_witness_wires = length witness_wires, ir_num_wires = length wire_map,
                 ir_constraints = constraints,
                 ir_parameter_map = hash_from (List.map_filter (\<lambda>p. map_option (\<lambda>i. (p, i)) (map_of wire_map p)) (cd_parameters def))\<rparr>
       in case cn_json_ir E ir of
            Inl e \<Rightarrow> Inl (CompilationFailed e)
          | Inr circuit_bytes \<Rightarrow>
              Inr \<lparr>cc_ir = ir, cc_circuit_hash = hex_string (cn_sha256 E circuit_bytes),
                   cc_verification_key = generate_verification_key E ir\<rparr>))
       (compile_gates E wire_map (cd_gates def)))"

section \<open>The registry as a keyed store\<close>

interpretation circuits: keyed_store register_circuit get_circuit fst snd map_of
  by unfold_locales (auto simp: register_circuit_def get_circuit_def update_conv' split: if_splits)

lemma registered_circuit_found:
  "register_circuit circuits (name, c) = (circuits', Inr ()) \<Longrightarrow>
    verify_with_circuit E circuits' name w p = CompiledCircuit_verify E c w p"
  using circuits.put_ok [of circuits "(name, c)" circuits'] by (simp add: verify_with_circuit_def)

lemma unregistered_circuit_gone:
  "verify_with_circuit E (fst (unregister_circuit circuits name)) name w p = Inl (CircuitNotFound name)"
  by (simp add: unregister_circuit_def verify_with_circuit_def delete_conv')

section \<open>What a compiled circuit checks\<close>

text \<open>Exact arithmetic: the operations of the environment are those of the rationals.\<close>

definition exact :: "(rat, 'z) circuit_env_scheme \<Rightarrow> bool" where
  "exact E \<longleftrightarrow> fo_mul E = (*) \<and> fo_sub E = (-) \<and> fo_sum E = sum_list \<and> cn_abs E = abs \<and> fo_lt E = (<)
    \<and> pf_dec E = (\<lambda>m k. of_int m / 10 ^ k) \<and> (\<forall>xs. mset (cn_order E xs) = mset xs)"

definition wire_value :: "wire_map \<Rightarrow> rat list \<Rightarrow> string \<Rightarrow> rat" where
  "wire_value wire_map assignment name =
    (case map_of wire_map name of Some i \<Rightarrow> if i < length assignment then assignment ! i else 0 | None \<Rightarrow> 0)"

text \<open>What the constraint of a gate says of the values of its wires, up to the tolerance of the check.\<close>

definition gate_relation :: "(string \<Rightarrow> rat) \<Rightarrow> GateDef \<Rightarrow> bool" where
  "gate_relation v g =
    (let x = v (gd_inputs g ! 0); y = v (gd_inputs g ! 1); z = v (gd_output g); tol = 1 / 10 ^ 10 in
     case gd_gate_type g of
       GateAnd \<Rightarrow> \<bar>x * y - z\<bar> \<le> tol
     | GateOr \<Rightarrow> \<bar>x * y - z\<bar> \<le> tol
     | GateXor \<Rightarrow> \<bar>2 * x * y - (x + y - z)\<bar> \<le> tol
     | GateNot \<Rightarrow> \<bar>x - z\<bar> \<le> tol
     | LinearCombination \<Rightarrow> \<bar>z\<bar> \<le> tol)"

text \<open>Gates whose wires the linear combinations of the constraint keep apart.\<close>

definition apart :: "wire_map \<Rightarrow> GateDef \<Rightarrow> bool" where
  "apart wire_map g =
    (let i = map_of wire_map in
     case gd_gate_type g of
       GateXor \<Rightarrow> distinct [i (gd_inputs g ! 0), i (gd_inputs g ! 1), i (gd_output g)]
     | GateNot \<Rightarrow> i (gd_inputs g ! 0) \<noteq> i (gd_output g)
     | _ \<Rightarrow> True)"

lemma eval_linear_exact:
  assumes "exact E"
  shows "eval_linear E terms a = (\<Sum>(i, c)\<leftarrow>terms. c * (if i < length a then a ! i else 0))"
proof -
  let ?f = "\<lambda>(i, c). c * (if i < length a then a ! i else 0) :: rat"
  have e: "fo_mul E = (*)" "fo_sum E = sum_list" "pf_dec E 0 1 = 0" "mset (cn_order E terms) = mset terms"
    using assms unfolding exact_def by simp_all
  have "mset (map ?f (cn_order E terms)) = mset (map ?f terms)" by (simp only: mset_map e(4))
  from arg_cong [OF this, of sum_mset] have "sum_list (map ?f (cn_order E terms)) = sum_list (map ?f terms)"
    by (simp only: sum_mset_sum_list)
  then show ?thesis by (simp only: eval_linear_def e)
qed

lemma resolve_wire_Inr: "resolve_wire wm n = Inr i \<longleftrightarrow> map_of wm n = Some i"
  by (simp add: resolve_wire_def split: option.splits)

lemma resolve_two_Inr:
  "resolve_two wm inputs = Some (Inr (a, b)) \<Longrightarrow> map_of wm (inputs ! 0) = Some a \<and> map_of wm (inputs ! 1) = Some b"
  by (auto simp: resolve_two_def resolve_wire_def split: list.splits sum.splits option.splits)

lemma gate_compiled:
  fixes E :: "(rat, 'z) circuit_env_scheme"
  assumes "exact E" and "compile_gate E wm g = Some (Inr c)" and "apart wm g" and "length a \<le> constant_wire"
  shows "constraint_holds E a c \<longleftrightarrow> gate_relation (wire_value wm a) g"
proof -
  note dec = assms(1) [unfolded exact_def]
  obtain z where z: "map_of wm (gd_output g) = Some z" using assms(2) by (auto simp: compile_gate_def Let_def split: option.splits)
  have holds: "constraint_holds E a \<lparr>r1_a = ta, r1_b = tb, r1_c = tc\<rparr>
      \<longleftrightarrow> \<bar>(\<Sum>(i, c)\<leftarrow>ta. c * (if i < length a then a ! i else 0)) * (\<Sum>(i, c)\<leftarrow>tb. c * (if i < length a then a ! i else 0))
           - (\<Sum>(i, c)\<leftarrow>tc. c * (if i < length a then a ! i else 0))\<bar> \<le> 1 / 10 ^ 10" for ta tb tc
    using dec by (simp add: constraint_holds_def eval_linear_exact [OF assms(1)] not_less)
  note defs = compile_gate_def Let_def gate_relation_def wire_value_def z
  show ?thesis
  proof (cases "gd_gate_type g")
    case GateAnd
    then obtain x y where xy: "resolve_two wm (gd_inputs g) = Some (Inr (x, y))"
      and c: "c = \<lparr>r1_a = [(x, 1)], r1_b = [(y, 1)], r1_c = [(z, 1)]\<rparr>"
      using assms(2) dec by (auto simp: defs rbind_Inr_iff split: if_splits)
    show ?thesis unfolding c holds using resolve_two_Inr [OF xy] GateAnd by (simp add: defs)
  next
    case GateOr
    then obtain x y where xy: "resolve_two wm (gd_inputs g) = Some (Inr (x, y))"
      and c: "c = \<lparr>r1_a = [(x, 1)], r1_b = [(y, 1)], r1_c = [(z, 1)]\<rparr>"
      using assms(2) dec by (auto simp: defs rbind_Inr_iff split: if_splits)
    show ?thesis unfolding c holds using resolve_two_Inr [OF xy] GateOr by (simp add: defs)
  next
    case GateXor
    then obtain x y where xy: "resolve_two wm (gd_inputs g) = Some (Inr (x, y))"
      and c: "c = \<lparr>r1_a = [(x, 1)], r1_b = [(y, 2)], r1_c = hash_from [(x, 1), (y, 1), (z, -1)]\<rparr>"
      using assms(2) dec by (auto simp: defs rbind_Inr_iff split: if_splits)
    have "x \<noteq> y" "x \<noteq> z" "y \<noteq> z" using assms(3) resolve_two_Inr [OF xy] z GateXor by (auto simp: apart_def)
    then show ?thesis unfolding c holds using resolve_two_Inr [OF xy] GateXor
      by (simp add: defs hash_from_def algebra_simps)
  next
    case GateNot
    then obtain x where x: "map_of wm (gd_inputs g ! 0) = Some x"
      and c: "c = \<lparr>r1_a = [(x, 1)], r1_b = [(constant_wire, 1)], r1_c = hash_from [(x, 1), (z, -1)]\<rparr>"
      using assms(2) dec by (auto simp: defs resolve_wire_Inr rbind_Inr_iff length_Suc_conv split: if_splits)
    have "x \<noteq> z" using assms(3) x z GateNot by (auto simp: apart_def)
    then show ?thesis unfolding c holds using x assms(4) GateNot by (auto simp: defs hash_from_def abs_minus_commute)
  next
    case LinearCombination
    then obtain ta where c: "c = \<lparr>r1_a = ta, r1_b = [(constant_wire, 1)], r1_c = [(z, 1)]\<rparr>"
      using assms(2) dec by (auto simp: defs rbind_Inr_iff split: if_splits)
    show ?thesis unfolding c holds using assms(4) LinearCombination by (simp add: defs)
  qed
qed

lemma gates_compiled:
  fixes E :: "(rat, 'z) circuit_env_scheme"
  assumes "exact E" and "compile_gates E wm gs = Some (Inr cs)" and "\<forall>g\<in>set gs. apart wm g" and "length a \<le> constant_wire"
  shows "list_all (constraint_holds E a) cs \<longleftrightarrow> list_all (gate_relation (wire_value wm a)) gs"
  using assms(2,3)
proof (induction gs arbitrary: cs)
  case (Cons g gs)
  then obtain c rest where "compile_gate E wm g = Some (Inr c)" "compile_gates E wm gs = Some (Inr rest)" "cs = c # rest"
    by (auto simp: rbind_Inr_iff split: option.splits sum.splits)
  with Cons gate_compiled [OF assms(1) _ _ assms(4)] show ?case by simp
qed simp

lemma update_new_key: "k \<notin> fst ` set al \<Longrightarrow> AList.update k v al = al @ [(k, v)]"
  by (induction al) auto

abbreviation exposed :: "WireDef \<Rightarrow> bool" where
  "exposed w \<equiv> wd_is_public w \<or> wd_is_output w"

lemma build_wires_distinct:
  assumes "distinct (map wd_name (cd_wires def))"
  shows "build_wires def = (zip (map wd_name (cd_wires def)) [0..<length (cd_wires def)],
    map wd_name (filter exposed (cd_wires def)), map wd_name (filter (\<lambda>w. \<not> exposed w) (cd_wires def)))"
proof -
  have "distinct (map wd_name ws) \<Longrightarrow> foldl add_wire ([], [], []) ws = (zip (map wd_name ws) [0..<length ws],
    map wd_name (filter exposed ws), map wd_name (filter (\<lambda>w. \<not> exposed w) ws))" for ws
  proof (induction ws rule: rev_induct)
    case (snoc w ws)
    have "wd_name w \<notin> fst ` set (zip (map wd_name ws) [0..<length ws])"
      using snoc.prems by (auto dest: set_zip_leftD)
    with snoc show ?case by (simp add: add_wire_def update_new_key)
  qed simp
  from this [OF assms] show ?thesis by (simp add: build_wires_def)
qed

lemma compiled_ir:
  assumes "compile_circuit E def = Some (Inr circuit)" and "build_wires def = (wm, pub, wit)"
  shows "compile_gates E wm (cd_gates def) = Some (Inr (ir_constraints (cc_ir circuit)))
    \<and> ir_num_public_inputs (cc_ir circuit) = length pub \<and> ir_num_wires (cc_ir circuit) = length wm"
proof (cases "compile_gates E wm (cd_gates def)")
  case (Some r)
  then show ?thesis using assms
    by (cases r) (simp_all add: compile_circuit_def Let_def split: sum.splits, auto)
qed (use assms in \<open>simp add: compile_circuit_def\<close>)


section \<open>Examples\<close>

definition demo_circuit_env :: "rat circuit_env" where
  "demo_circuit_env = plan_env.extend rat_env
    \<lparr>cn_abs = abs, cn_order = id, cn_sha256 = id, cn_json_ir = (\<lambda>_. Inr []), cn_json_constraint = (\<lambda>_. None)\<rparr>"

definition demo_wire :: "string \<Rightarrow> bool \<Rightarrow> WireDef" where
  "demo_wire name public = \<lparr>wd_name = name, wd_is_public = public, wd_is_output = False\<rparr>"

definition demo_circuit :: "string list \<Rightarrow> GateType \<Rightarrow> string list \<Rightarrow> CircuitDef" where
  "demo_circuit wires gate inputs =
    \<lparr>cd_name = ''c'', cd_wires = map (\<lambda>n. demo_wire n (n \<noteq> ''y'')) wires,
     cd_gates = [\<lparr>gd_gate_type = gate, gd_inputs = inputs, gd_output = ''z''\<rparr>], cd_parameters = []\<rparr>"

text \<open>The answer of a freshly compiled circuit on a witness and public inputs.\<close>

definition demo_check :: "CircuitDef \<Rightarrow> rat list \<Rightarrow> rat list \<Rightarrow> bool option" where
  "demo_check def w p =
    (case compile_circuit demo_circuit_env def of
       Some (Inr c) \<Rightarrow> (case CompiledCircuit_verify demo_circuit_env c w p of Inr b \<Rightarrow> Some b | Inl _ \<Rightarrow> None)
     | _ \<Rightarrow> None)"

lemma demo_exact: "exact demo_circuit_env"
  by (simp add: exact_def demo_circuit_env_def plan_env.extend_def rat_env_def)


text \<open>
  The constant wire is read as 0: a NOT gate accepts exactly equal wires and rejects the complement, a linear combination
  forces its output to 0, and an OR gate is compiled like an AND gate.
\<close>

lemma gates_miscompiled:
  fixes E :: "(rat, 'z) circuit_env_scheme"
  assumes "exact E" and "compile_gate E wm g = Some (Inr c)" and "apart wm g" and "length a \<le> constant_wire"
  defines "x \<equiv> wire_value wm a (gd_inputs g ! 0)" and "y \<equiv> wire_value wm a (gd_inputs g ! 1)" and "z \<equiv> wire_value wm a (gd_output g)"
  shows "gd_gate_type g = GateNot \<Longrightarrow> x = 1 \<Longrightarrow> z = 0 \<Longrightarrow> \<not> constraint_holds E a c"
    and "gd_gate_type g = GateNot \<Longrightarrow> x = z \<Longrightarrow> constraint_holds E a c"
    and "gd_gate_type g = LinearCombination \<Longrightarrow> z = 1 \<Longrightarrow> \<not> constraint_holds E a c"
    and "gd_gate_type g = GateOr \<Longrightarrow> x = 1 \<Longrightarrow> y = 0 \<Longrightarrow> z = 1 \<Longrightarrow> \<not> constraint_holds E a c"
  using gate_compiled [OF assms(1-4)] by (auto simp: gate_relation_def x_def y_def z_def)

text \<open>Wires are numbered as declared but assigned public inputs first, so a private wire declared first is misread.\<close>

lemma declaration_order_misread:
  "demo_check (demo_circuit [''x'', ''z'', ''y''] GateAnd [''x'', ''y'']) [4] [3, 12] = Some True"
  "demo_check (demo_circuit [''y'', ''x'', ''z''] GateAnd [''x'', ''y'']) [4] [3, 12] = Some False"
  by code_simp+

text \<open>An XOR or OR gate with one input panics the compiler instead of failing.\<close>

lemma missing_input_panics:
  "compile_circuit demo_circuit_env (demo_circuit [''x'', ''z''] GateXor [''x'']) = None"
  by code_simp

text \<open>A difference that is NaN compares as not above the tolerance, so every constraint holds for such an assignment.\<close>

lemma nan_satisfies_constraint:
  assumes "\<And>x y. fo_is_nan E y \<Longrightarrow> \<not> fo_lt E x y" and "\<And>x. fo_is_nan E x \<Longrightarrow> fo_is_nan E (cn_abs E x)"
    and "fo_is_nan E (fo_sub E (fo_mul E (eval_linear E (r1_a c) a) (eval_linear E (r1_b c) a)) (eval_linear E (r1_c c) a))"
  shows "constraint_holds E a c"
  using assms(1) [OF assms(2) [OF assms(3)]] by (simp add: constraint_holds_def)

end
