(* ===== verification/Verification_Keys.thy ===== *)
theory Verification_Keys
  imports Circuit
begin

text \<open>
  The keys that verify circuit proofs (\<open>verisim-semantic/src/verification_keys.rs\<close>): storing with rotation, and the exchange of
  keys between federated instances.  SHA-256 is the parameter \<open>sha\<close>, a clock reading as text the argument \<open>now\<close>; the iteration
  order of the map in an export is the order of the list.
\<close>

record VerificationKeyEntry =
  vk_circuit_name :: string
  vk_active_key :: bytes
  vk_version :: u64
  vk_fingerprint :: string
  vk_previous_key :: "bytes option"
  vk_created_at :: string

definition key_fingerprint :: "(bytes \<Rightarrow> bytes) \<Rightarrow> bytes \<Rightarrow> string" where
  "key_fingerprint sha key = hex_string (sha key)"

definition VerificationKeyEntry_new :: "(bytes \<Rightarrow> bytes) \<Rightarrow> string \<Rightarrow> string \<Rightarrow> bytes \<Rightarrow> VerificationKeyEntry" where
  "VerificationKeyEntry_new sha now circuit_name key =
    \<lparr>vk_circuit_name = circuit_name, vk_active_key = key, vk_version = 1, vk_fingerprint = key_fingerprint sha key,
     vk_previous_key = None, vk_created_at = now\<rparr>"

definition rotate_key :: "(bytes \<Rightarrow> bytes) \<Rightarrow> string \<Rightarrow> bytes \<Rightarrow> VerificationKeyEntry \<Rightarrow> VerificationKeyEntry" where
  "rotate_key sha now new_key e =
    e\<lparr>vk_previous_key := Some (vk_active_key e), vk_active_key := new_key, vk_fingerprint := key_fingerprint sha new_key,
      vk_version := vk_version e + 1, vk_created_at := now\<rparr>"

definition key_matches :: "VerificationKeyEntry \<Rightarrow> bytes \<Rightarrow> bool" where
  "key_matches e key \<longleftrightarrow> vk_active_key e = key \<or> (case vk_previous_key e of Some prev \<Rightarrow> prev = key | None \<Rightarrow> False)"

record ExportedKey =
  ek_circuit_name :: string
  ek_key :: bytes
  ek_version :: u64
  ek_fingerprint :: string

record KeyExportBundle =
  kb_source_instance :: string
  kb_keys :: "ExportedKey list"

record VerificationKeyStore =
  ks_keys :: "(string \<times> VerificationKeyEntry) list"
  ks_instance_id :: string

definition VerificationKeyStore_new :: "string \<Rightarrow> VerificationKeyStore" where
  "VerificationKeyStore_new instance_id = \<lparr>ks_keys = [], ks_instance_id = instance_id\<rparr>"

definition store_key :: "(bytes \<Rightarrow> bytes) \<Rightarrow> string \<Rightarrow> VerificationKeyStore \<Rightarrow> string \<Rightarrow> bytes \<Rightarrow> VerificationKeyStore" where
  "store_key sha now st circuit_name key =
    (case map_of (ks_keys st) circuit_name of
       Some e \<Rightarrow> st\<lparr>ks_keys := AList.update circuit_name (rotate_key sha now key e) (ks_keys st)\<rparr>
     | None \<Rightarrow> st\<lparr>ks_keys := AList.update circuit_name (VerificationKeyEntry_new sha now circuit_name key) (ks_keys st)\<rparr>)"

definition get_key :: "VerificationKeyStore \<Rightarrow> string \<Rightarrow> bytes option" where
  "get_key st circuit_name = map_option vk_active_key (map_of (ks_keys st) circuit_name)"

definition get_entry :: "VerificationKeyStore \<Rightarrow> string \<Rightarrow> VerificationKeyEntry option" where
  "get_entry st circuit_name = map_of (ks_keys st) circuit_name"

definition exported :: "VerificationKeyEntry \<Rightarrow> ExportedKey" where
  "exported e = \<lparr>ek_circuit_name = vk_circuit_name e, ek_key = vk_active_key e, ek_version = vk_version e,
     ek_fingerprint = vk_fingerprint e\<rparr>"

definition export_keys :: "VerificationKeyStore \<Rightarrow> KeyExportBundle" where
  "export_keys st = \<lparr>kb_source_instance = ks_instance_id st, kb_keys = map (\<lambda>(_, e). exported e) (ks_keys st)\<rparr>"

definition import_key ::
  "(bytes \<Rightarrow> bytes) \<Rightarrow> string \<Rightarrow> string \<Rightarrow> VerificationKeyStore \<times> nat \<Rightarrow> ExportedKey \<Rightarrow> VerificationKeyStore \<times> nat" where
  "import_key sha now source = (\<lambda>(st, imported) x.
    let federated_name = source @ '':'' @ ek_circuit_name x in
    case map_of (ks_keys st) federated_name of
      Some e \<Rightarrow>
        if vk_version e < ek_version x
        then (st\<lparr>ks_keys := AList.update federated_name (rotate_key sha now (ek_key x) e) (ks_keys st)\<rparr>, imported + 1)
        else (st, imported)
    | None \<Rightarrow>
        (st\<lparr>ks_keys := AList.update federated_name (VerificationKeyEntry_new sha now (ek_circuit_name x) (ek_key x)) (ks_keys st)\<rparr>,
         imported + 1))"

definition import_keys :: "(bytes \<Rightarrow> bytes) \<Rightarrow> string \<Rightarrow> VerificationKeyStore \<Rightarrow> KeyExportBundle \<Rightarrow> VerificationKeyStore \<times> nat" where
  "import_keys sha now st bundle = foldl (import_key sha now (kb_source_instance bundle)) (st, 0) (kb_keys bundle)"

definition key_list_circuits :: "VerificationKeyStore \<Rightarrow> string list" where
  "key_list_circuits st = map fst (ks_keys st)"

section \<open>Rotation\<close>

text \<open>Keys stored one after the other, each with its circuit.\<close>

definition store_all :: "(bytes \<Rightarrow> bytes) \<Rightarrow> string \<Rightarrow> string \<Rightarrow> (string \<times> bytes) list \<Rightarrow> VerificationKeyStore" where
  "store_all sha now inst ks = foldl (\<lambda>st (c, k). store_key sha now st c k) (VerificationKeyStore_new inst) ks"

definition keys_of :: "string \<Rightarrow> (string \<times> bytes) list \<Rightarrow> bytes list" where
  "keys_of c ks = map snd (filter (\<lambda>(d, _). d = c) ks)"

definition entry_of_history :: "(bytes \<Rightarrow> bytes) \<Rightarrow> string \<Rightarrow> string \<Rightarrow> bytes list \<Rightarrow> VerificationKeyEntry option" where
  "entry_of_history sha now c ks =
    (if ks = [] then None
     else Some \<lparr>vk_circuit_name = c, vk_active_key = last ks, vk_version = of_nat (length ks),
       vk_fingerprint = key_fingerprint sha (last ks),
       vk_previous_key = (if length ks = 1 then None else Some (last (butlast ks))), vk_created_at = now\<rparr>)"

lemma keys_of_snoc: "keys_of c (ks @ [(d, k)]) = (if d = c then keys_of c ks @ [k] else keys_of c ks)"
  by (simp add: keys_of_def)

text \<open>After any sequence of stored keys the entry of a circuit holds the last key stored for it as active, the one before as
  previous and the number of keys as its version; exactly these two keys match, and circuits do not affect each other.
\<close>

theorem key_rotation_history:
  "get_entry (store_all sha now inst ks) c = entry_of_history sha now c (keys_of c ks)
   \<and> (\<forall>e k. get_entry (store_all sha now inst ks) c = Some e \<longrightarrow>
        key_matches e k = (k \<in> set (drop (length (keys_of c ks) - 2) (keys_of c ks))))"
proof -
  have entry: "get_entry (store_all sha now inst ks) c = entry_of_history sha now c (keys_of c ks)" for c
  proof (induction ks rule: rev_induct)
    case Nil
    show ?case by (simp add: store_all_def keys_of_def entry_of_history_def get_entry_def VerificationKeyStore_new_def)
  next
    case (snoc x ks)
    obtain d k where x: "x = (d, k)" by fastforce
    have step: "store_all sha now inst (ks @ [(d, k)]) = store_key sha now (store_all sha now inst ks) d k"
      by (simp add: store_all_def)
    show ?case
    proof (cases "d = c")
      case True
      show ?thesis
      proof (cases "keys_of c ks" rule: rev_cases)
        case Nil
        then have "map_of (ks_keys (store_all sha now inst ks)) c = None"
          using snoc.IH by (simp add: get_entry_def entry_of_history_def)
        then show ?thesis unfolding x step
          by (simp add: True get_entry_def store_key_def keys_of_snoc Nil entry_of_history_def VerificationKeyEntry_new_def update_conv')
      next
        case (snoc ys y)
        with snoc.IH obtain e where "map_of (ks_keys (store_all sha now inst ks)) c = Some e"
          "entry_of_history sha now c (ys @ [y]) = Some e" by (simp add: get_entry_def entry_of_history_def)
        then show ?thesis unfolding x step
          by (auto simp: True get_entry_def store_key_def keys_of_snoc snoc entry_of_history_def rotate_key_def update_conv' butlast_append)
      qed
    next
      case False
      then show ?thesis unfolding x step using snoc.IH
        by (simp add: get_entry_def store_key_def keys_of_snoc update_conv' split: option.split)
    qed
  qed
  have "key_matches e k = (k \<in> set (drop (length xs - 2) xs))" if "entry_of_history sha now c xs = Some e" for e k xs
  proof (cases xs rule: rev_cases)
    case Nil
    with that show ?thesis by (simp add: entry_of_history_def)
  next
    case (snoc ys y)
    with that show ?thesis
      by (cases ys rule: rev_cases) (auto simp: entry_of_history_def key_matches_def butlast_append)
  qed
  with entry show ?thesis by simp
qed

theorem key_rotation_history_witness:
  "key_matches (the (get_entry (store_all id ''t'' ''i'' [(''c'', [1]), (''c'', [2]), (''d'', [9]), (''c'', [3])]) ''c'')) [2]
   \<and> \<not> key_matches (the (get_entry (store_all id ''t'' ''i'' [(''c'', [1]), (''c'', [2]), (''d'', [9]), (''c'', [3])]) ''c'')) [1]"
  using key_rotation_history [of id "''t''" "''i''" "[(''c'', [1]), (''c'', [2]), (''d'', [9]), (''c'', [3])]" "''c''"]
  by (simp add: keys_of_def entry_of_history_def)

text \<open>
  An imported key starts at version 1 whatever its version at the source, so importing the same bundle again rotates the key to
  itself and drops the previous key.
\<close>

lemma import_not_idempotent:
  assumes "1 < ek_version x" and "map_of (ks_keys st) (s @ '':'' @ ek_circuit_name x) = None"
  shows "snd (import_key sha now s (fst (import_key sha now s (st, 0) x), 0) x) = 1"
  using assms by (simp add: import_key_def Let_def VerificationKeyEntry_new_def update_conv')

end
