(* ===== verification/Query_Hexad.thy ===== *)
theory Query_Hexad
  imports Hexad_Store Text
begin

text \<open>
  Queries stored as entities (\<open>verisim-hexad/src/query_hexad.rs\<close>): the builder that turns a VQL query, its parse tree,
  embedding, costs, proof obligations and executions into the input of a create.  \<open>truncate\<close> slices the text at a byte
  position, so building can panic.
\<close>

record ('g, 'ts) QueryExecution =
  qe_executed_at :: 'ts
  qe_duration_ms :: u64
  qe_result_count :: nat
  qe_estimated_cost :: 'g

record ('f, 'g, 'ts) QueryHexadBuilder =
  qb_query_text :: string
  qb_query_id :: "string option"
  qb_parse_tree_triples :: "(string \<times> string \<times> string) list"
  qb_embedding :: "'f list option"
  qb_cost_vector :: "'g list option"
  qb_proof_obligations :: "string list"
  qb_executions :: "('g, 'ts) QueryExecution list"
  qb_metadata :: "string \<rightharpoonup> string"

definition QueryHexadBuilder_new :: "string \<Rightarrow> ('f, 'g, 'ts) QueryHexadBuilder" where
  "QueryHexadBuilder_new query_text =
    \<lparr>qb_query_text = query_text, qb_query_id = None, qb_parse_tree_triples = [], qb_embedding = None,
     qb_cost_vector = None, qb_proof_obligations = [], qb_executions = [], qb_metadata = Map.empty\<rparr>"

definition qb_with_id :: "string \<Rightarrow> ('f, 'g, 'ts) QueryHexadBuilder \<Rightarrow> ('f, 'g, 'ts) QueryHexadBuilder" where
  "qb_with_id i b = b\<lparr>qb_query_id := Some i\<rparr>"

definition qb_with_parse_tree ::
  "(string \<times> string \<times> string) list \<Rightarrow> ('f, 'g, 'ts) QueryHexadBuilder \<Rightarrow> ('f, 'g, 'ts) QueryHexadBuilder" where
  "qb_with_parse_tree triples b = b\<lparr>qb_parse_tree_triples := triples\<rparr>"

definition qb_with_embedding :: "'f list \<Rightarrow> ('f, 'g, 'ts) QueryHexadBuilder \<Rightarrow> ('f, 'g, 'ts) QueryHexadBuilder" where
  "qb_with_embedding embedding b = b\<lparr>qb_embedding := Some embedding\<rparr>"

definition qb_with_cost_vector :: "'g list \<Rightarrow> ('f, 'g, 'ts) QueryHexadBuilder \<Rightarrow> ('f, 'g, 'ts) QueryHexadBuilder" where
  "qb_with_cost_vector costs b = b\<lparr>qb_cost_vector := Some costs\<rparr>"

definition qb_with_proof_obligations :: "string list \<Rightarrow> ('f, 'g, 'ts) QueryHexadBuilder \<Rightarrow> ('f, 'g, 'ts) QueryHexadBuilder" where
  "qb_with_proof_obligations obligations b = b\<lparr>qb_proof_obligations := obligations\<rparr>"

definition qb_with_execution :: "('g, 'ts) QueryExecution \<Rightarrow> ('f, 'g, 'ts) QueryHexadBuilder \<Rightarrow> ('f, 'g, 'ts) QueryHexadBuilder" where
  "qb_with_execution execution b = b\<lparr>qb_executions := qb_executions b @ [execution]\<rparr>"

definition qb_with_metadata :: "string \<Rightarrow> string \<Rightarrow> ('f, 'g, 'ts) QueryHexadBuilder \<Rightarrow> ('f, 'g, 'ts) QueryHexadBuilder" where
  "qb_with_metadata k v b = b\<lparr>qb_metadata := (qb_metadata b)(k \<mapsto> v)\<rparr>"

definition truncate :: "string \<Rightarrow> nat \<Rightarrow> string option" where
  "truncate s max_len =
    (if length s \<le> max_len then Some s else map_option (\<lambda>p. p @ ''...'') (str_prefix s (max_len - 3)))"

definition query_fields :: "('ts \<Rightarrow> string) \<Rightarrow> ('f, 'g, 'ts) QueryHexadBuilder \<Rightarrow> string \<rightharpoonup> string" where
  "query_fields rfc3339 b =
    (let flds = [''type'' \<mapsto> ''vql_query'', ''query_text'' \<mapsto> qb_query_text b]
     in if qb_executions b \<noteq> []
        then flds(''last_executed'' \<mapsto> rfc3339 (qe_executed_at (last (qb_executions b))),
                  ''execution_count'' \<mapsto> dec_digits (length (qb_executions b)))
        else flds)"

definition query_build ::
  "('ts \<Rightarrow> string) \<Rightarrow> string \<Rightarrow> ('f, 'g, 'ts) QueryHexadBuilder \<Rightarrow> (HexadId \<times> ('f, 'g) HexadInput) option" where
  "query_build rfc3339 new_uuid b =
    (let i = (case qb_query_id b of Some i \<Rightarrow> i | None \<Rightarrow> ''query-'' @ new_uuid)
     in map_option (\<lambda>t.
       (i, HexadInput_default
         \<lparr>hi_document := Some \<lparr>di_title = ''VQL Query: '' @ t, di_body = qb_query_text b, di_fields = query_fields rfc3339 b\<rparr>,
          hi_graph := (if qb_parse_tree_triples b \<noteq> []
            then Some \<lparr>gi_relationships = map (\<lambda>(_, predicate, object). (predicate, object)) (qb_parse_tree_triples b)\<rparr> else None),
          hi_vector := map_option (\<lambda>e. \<lparr>vi_embedding = e, vi_model = Some ''query-embedding''\<rparr>) (qb_embedding b),
          hi_tensor := map_option (\<lambda>costs. \<lparr>ti_shape = [1, of_nat (length costs)], ti_data = costs\<rparr>) (qb_cost_vector b),
          hi_semantic := (if qb_proof_obligations b \<noteq> []
            then Some \<lparr>mi_types = qb_proof_obligations b, mi_properties = Map.empty\<rparr> else None),
          hi_metadata := qb_metadata b\<rparr>))
       (truncate (qb_query_text b) 80))"

section \<open>What is built\<close>

text \<open>A title is at most 91 bytes, and building panics exactly when byte 77 of a longer text lies inside a character.\<close>

lemma truncate_length: "truncate s n = Some t \<Longrightarrow> 3 \<le> n \<Longrightarrow> length t \<le> n"
  by (auto simp: truncate_def str_prefix_def split: if_splits)

lemma query_build_panics:
  "query_build rfc u b = None \<longleftrightarrow> 80 < length (qb_query_text b) \<and> continuation_byte (byte_of_char (qb_query_text b ! 77))"
  by (auto simp: query_build_def truncate_def str_prefix_def)

lemma built_title:
  assumes "query_build rfc u b = Some (i, input)"
  shows "\<exists>d. hi_document input = Some d \<and> prefix ''VQL Query:'' (di_title d) \<and> length (di_title d) \<le> 91
    \<and> di_body d = qb_query_text b"
proof -
  obtain t where t: "truncate (qb_query_text b) 80 = Some t" using assms by (auto simp: query_build_def)
  then have "length t \<le> 80" by (rule truncate_length) simp
  then show ?thesis using assms t by (auto simp: query_build_def HexadInput_default_def)
qed

end
