(* ===== verification/Profiler.thy ===== *)
theory Profiler
  imports Planner_Optimize
begin

text \<open>
  EXPLAIN ANALYZE (\<open>verisim-planner/src/profiler.rs\<close>): a profiler is filled with the measurements of a plan's steps, reports
  them against the estimates and feeds them into the planner's statistics.  Clock readings are arguments.
\<close>

section \<open>Profiles\<close>

record 'f prof_env = "'f plan_env" +
  pr_is_finite :: "'f \<Rightarrow> bool"

record ('f, 'ts) ProfileStep =
  pt_step_name :: string
  pt_modality :: Modality
  pt_estimated_ms :: 'f
  pt_actual_ms :: 'f
  pt_estimated_rows :: u64
  pt_actual_rows :: u64
  pt_started_at :: 'ts
  pt_ended_at :: 'ts

definition time_accuracy_ratio :: "('f, 'z) plan_env_scheme \<Rightarrow> ('f, 'ts) ProfileStep \<Rightarrow> 'f" where
  "time_accuracy_ratio E s =
    (if fo_le E (pt_estimated_ms s) (pf_dec E 0 1) then pf_infinity E else fo_div E (pt_actual_ms s) (pt_estimated_ms s))"

definition row_accuracy_ratio :: "('f, 'z) plan_env_scheme \<Rightarrow> ('f, 'ts) ProfileStep \<Rightarrow> 'f" where
  "row_accuracy_ratio E s =
    (if pt_estimated_rows s = 0 then pf_infinity E
     else fo_div E (pf_of_u64 E (pt_actual_rows s)) (pf_of_u64 E (pt_estimated_rows s)))"

record ('f, 'ts) QueryProfile =
  qp_plan_id :: string
  qp_steps :: "('f, 'ts) ProfileStep list"
  qp_total_estimated_ms :: 'f
  qp_total_actual_ms :: 'f
  qp_optimization_hints :: "string list"

definition total_time_accuracy_ratio :: "('f, 'z) plan_env_scheme \<Rightarrow> ('f, 'ts) QueryProfile \<Rightarrow> 'f" where
  "total_time_accuracy_ratio E p =
    (if fo_le E (qp_total_estimated_ms p) (pf_dec E 0 1) then pf_infinity E
     else fo_div E (qp_total_actual_ms p) (qp_total_estimated_ms p))"

definition render_profile_step :: "('f, 'z) plan_env_scheme \<Rightarrow> nat \<times> ('f, 'ts) ProfileStep \<Rightarrow> string" where
  "render_profile_step E = (\<lambda>(i, step).
    ''  Step '' @ dec_digits (i + 1) @ '': '' @ pt_step_name step @ '' ['' @ Modality_display (pt_modality step) @ '']'' @ nl
    @ ''    Estimated: '' @ pf_fmt E 1 (pt_estimated_ms step) @ ''ms / ~'' @ dec_digits (unat (pt_estimated_rows step)) @ '' rows'' @ nl
    @ ''    Actual:    '' @ pf_fmt E 1 (pt_actual_ms step) @ ''ms / '' @ dec_digits (unat (pt_actual_rows step)) @ '' rows'' @ nl
    @ ''    Time accuracy: '' @ pf_fmt E 2 (time_accuracy_ratio E step) @ ''x | Row accuracy: ''
    @ pf_fmt E 2 (row_accuracy_ratio E step) @ ''x'' @ nl)"

definition render_profile :: "('f, 'z) plan_env_scheme \<Rightarrow> ('f, 'ts) QueryProfile \<Rightarrow> 'f ExplainOutput \<Rightarrow> string" where
  "render_profile E p explain_out =
    ''=== VeriSimDB EXPLAIN ANALYZE ==='' @ nl @ nl
    @ ''Plan ID: '' @ qp_plan_id p @ nl
    @ ''Strategy: '' @ eo_strategy explain_out @ nl
    @ ''Total Estimated: '' @ pf_fmt E 1 (qp_total_estimated_ms p) @ ''ms | Total Actual: '' @ pf_fmt E 1 (qp_total_actual_ms p)
    @ ''ms | Accuracy: '' @ pf_fmt E 2 (total_time_accuracy_ratio E p) @ ''x'' @ nl @ nl
    @ ''--- Steps ---'' @ nl
    @ concat (map (render_profile_step E) (enumerate 0 (qp_steps p)))
    @ (if qp_optimization_hints p \<noteq> [] then
         nl @ ''--- Optimization Hints ---'' @ nl @ concat (map (\<lambda>h. ''  * '' @ h @ nl) (qp_optimization_hints p))
       else [])"

definition QueryProfile_display :: "('f, 'z) plan_env_scheme \<Rightarrow> ('f, 'ts) QueryProfile \<Rightarrow> string" where
  "QueryProfile_display E p =
    ''QueryProfile(plan='' @ qp_plan_id p @ '', steps='' @ dec_digits (length (qp_steps p)) @ '', estimated=''
    @ pf_fmt E 1 (qp_total_estimated_ms p) @ ''ms, actual='' @ pf_fmt E 1 (qp_total_actual_ms p) @ ''ms)''"

section \<open>Hints\<close>

text \<open>\<open>SLOW_THRESHOLD\<close>, \<open>FAST_THRESHOLD\<close>, \<open>ROW_OVER_THRESHOLD\<close> and \<open>ROW_UNDER_THRESHOLD\<close>.\<close>

definition SLOW_THRESHOLD :: "('f, 'z) plan_env_scheme \<Rightarrow> 'f" where "SLOW_THRESHOLD E = pf_dec E 20 1"
definition FAST_THRESHOLD :: "('f, 'z) plan_env_scheme \<Rightarrow> 'f" where "FAST_THRESHOLD E = pf_dec E 5 1"
definition ROW_OVER_THRESHOLD :: "('f, 'z) plan_env_scheme \<Rightarrow> 'f" where "ROW_OVER_THRESHOLD E = pf_dec E 30 1"
definition ROW_UNDER_THRESHOLD :: "('f, 'z) plan_env_scheme \<Rightarrow> 'f" where "ROW_UNDER_THRESHOLD E = pf_dec E 33 2"

definition overall_hint :: "('f, 'z) plan_env_scheme \<Rightarrow> 'f \<Rightarrow> 'f \<Rightarrow> string option" where
  "overall_hint E total_estimated_ms total_actual_ms =
    (if fo_lt E (pf_dec E 0 1) total_estimated_ms then
       (let overall_ratio = fo_div E total_actual_ms total_estimated_ms;
            numbers = '' than estimated ('' @ pf_fmt E 0 total_actual_ms @ ''ms actual vs ''
              @ pf_fmt E 0 total_estimated_ms @ ''ms estimated) '' @ em_dash
        in if fo_lt E (SLOW_THRESHOLD E) overall_ratio then
             Some (''Query was '' @ pf_fmt E 1 overall_ratio @ ''x slower'' @ numbers @ '' planner may be underestimating costs'')
           else if fo_lt E overall_ratio (FAST_THRESHOLD E) then
             Some (''Query was '' @ pf_fmt E 1 overall_ratio @ ''x faster'' @ numbers @ '' planner may be overestimating costs'')
           else None)
     else None)"

definition step_label :: "('f, 'ts) ProfileStep \<Rightarrow> string" where
  "step_label step = ''Step '' @ [CHR 0x27] @ pt_step_name step @ [CHR 0x27] @ '' ['' @ Modality_display (pt_modality step) @ '']: ''"

definition time_hint :: "('f, 'z) prof_env_scheme \<Rightarrow> ('f, 'ts) ProfileStep \<Rightarrow> string option" where
  "time_hint E step =
    (let time_ratio = time_accuracy_ratio E step;
         numbers = '' than estimated ('' @ pf_fmt E 0 (pt_actual_ms step) @ ''ms vs ''
           @ pf_fmt E 0 (pt_estimated_ms step) @ ''ms) '' @ em_dash
     in if fo_lt E (SLOW_THRESHOLD E) time_ratio \<and> pr_is_finite E time_ratio then
          Some (step_label step @ pf_fmt E 1 time_ratio @ ''x slower'' @ numbers @ '' consider updating cost model for this modality'')
        else if fo_lt E time_ratio (FAST_THRESHOLD E) then
          Some (step_label step @ pf_fmt E 1 time_ratio @ ''x faster'' @ numbers @ '' aggressive mode may be appropriate'')
        else None)"

definition row_hint :: "('f, 'z) prof_env_scheme \<Rightarrow> ('f, 'ts) ProfileStep \<Rightarrow> string option" where
  "row_hint E step =
    (let row_ratio = row_accuracy_ratio E step;
         numbers = '' rows than estimated ('' @ dec_digits (unat (pt_actual_rows step)) @ '' vs ''
           @ dec_digits (unat (pt_estimated_rows step)) @ '') '' @ em_dash
     in if fo_lt E (ROW_OVER_THRESHOLD E) row_ratio \<and> pr_is_finite E row_ratio then
          Some (step_label step @ ''returned '' @ pf_fmt E 1 row_ratio @ ''x more'' @ numbers @ '' selectivity estimate may be too low'')
        else if fo_lt E row_ratio (ROW_UNDER_THRESHOLD E) \<and> 0 < pt_estimated_rows step then
          Some (step_label step @ ''returned '' @ pf_fmt E 1 row_ratio @ ''x fewer'' @ numbers @ '' selectivity estimate may be too high'')
        else None)"

definition generate_hints :: "('f, 'z) prof_env_scheme \<Rightarrow> ('f, 'ts) ProfileStep list \<Rightarrow> 'f \<Rightarrow> 'f \<Rightarrow> string list" where
  "generate_hints E steps total_estimated_ms total_actual_ms =
    (case overall_hint E total_estimated_ms total_actual_ms of Some h \<Rightarrow> [h] | None \<Rightarrow> [])
    @ List.map_filter (time_hint E) steps @ List.map_filter (row_hint E) steps"

section \<open>The profiler\<close>

record ('f, 'ts) Profiler =
  pf_plan_id :: string
  pf_plan :: "'f PhysicalPlan"
  pf_recorded_steps :: "('f, 'ts) ProfileStep option list"

definition Profiler_new :: "string \<Rightarrow> 'f PhysicalPlan \<Rightarrow> ('f, 'ts) Profiler" where
  "Profiler_new plan_id plan =
    \<lparr>pf_plan_id = plan_id, pf_plan = plan, pf_recorded_steps = replicate (length (pp_steps plan)) None\<rparr>"

definition profile_step :: "'f PlanStep \<Rightarrow> 'f \<Rightarrow> u64 \<Rightarrow> 'ts \<Rightarrow> 'ts \<Rightarrow> ('f, 'ts) ProfileStep" where
  "profile_step plan_step actual_ms actual_rows started_at ended_at =
    \<lparr>pt_step_name = ps_operation plan_step, pt_modality = ps_modality plan_step,
     pt_estimated_ms = ce_time_ms (ps_cost plan_step), pt_actual_ms = actual_ms,
     pt_estimated_rows = ce_estimated_rows (ps_cost plan_step), pt_actual_rows = actual_rows,
     pt_started_at = started_at, pt_ended_at = ended_at\<rparr>"

text \<open>The assertion of \<open>record_step\<close> panics on an index out of range.\<close>

definition record_step ::
  "('f, 'ts) Profiler \<Rightarrow> nat \<Rightarrow> 'f \<Rightarrow> u64 \<Rightarrow> 'ts \<Rightarrow> 'ts \<Rightarrow> ('f, 'ts) Profiler option" where
  "record_step p step_index actual_ms actual_rows started_at ended_at =
    (if step_index < length (pp_steps (pf_plan p)) then
       Some (p\<lparr>pf_recorded_steps := (pf_recorded_steps p)[step_index :=
         Some (profile_step (pp_steps (pf_plan p) ! step_index) actual_ms actual_rows started_at ended_at)]\<rparr>)
     else None)"

definition recorded_or_zero ::
  "('f, 'z) plan_env_scheme \<Rightarrow> 'ts \<Rightarrow> 'f PhysicalPlan \<Rightarrow> nat \<times> ('f, 'ts) ProfileStep option \<Rightarrow> ('f, 'ts) ProfileStep" where
  "recorded_or_zero E now plan = (\<lambda>(i, recorded).
    case recorded of Some s \<Rightarrow> s | None \<Rightarrow> profile_step (pp_steps plan ! i) (pf_dec E 0 1) 0 now now)"

definition finish ::
  "('f, 'z) prof_env_scheme \<Rightarrow> 'ts \<Rightarrow> ('f, 'ts) Profiler \<Rightarrow> ('f, 'ts) StatisticsCollector
    \<Rightarrow> ('f, 'ts) StatisticsCollector \<times> ('f, 'ts) QueryProfile" where
  "finish E now p stats =
    (let steps = map (recorded_or_zero E now (pf_plan p)) (enumerate 0 (pf_recorded_steps p));
         stats = foldl (\<lambda>stats s. record_execution E now stats (pt_modality s) (pt_actual_ms s) (pt_actual_rows s)) stats steps;
         total_estimated_ms = fo_sum E (map pt_estimated_ms steps);
         total_actual_ms = fo_sum E (map pt_actual_ms steps)
     in (stats, \<lparr>qp_plan_id = pf_plan_id p, qp_steps = steps, qp_total_estimated_ms = total_estimated_ms,
           qp_total_actual_ms = total_actual_ms,
           qp_optimization_hints = generate_hints E steps total_estimated_ms total_actual_ms\<rparr>))"

record ('f, 'ts) ExplainAnalyzeOutput =
  ea_explain :: "'f ExplainOutput"
  ea_profile :: "('f, 'ts) QueryProfile"
  ea_combined_hints :: "PerformanceHint list"
  ea_text_output :: string

definition with_profile :: "('f, 'z) plan_env_scheme \<Rightarrow> 'f ExplainOutput \<Rightarrow> ('f, 'ts) QueryProfile \<Rightarrow> ('f, 'ts) ExplainAnalyzeOutput" where
  "with_profile E explain_out profile =
    \<lparr>ea_explain = explain_out, ea_profile = profile,
     ea_combined_hints = eo_performance_hints explain_out
       @ map (\<lambda>h. \<lparr>ph_severity = ''analyze'', ph_message = h\<rparr>) (qp_optimization_hints profile),
     ea_text_output = render_profile E profile explain_out\<rparr>"

section \<open>A profiled execution\<close>

text \<open>The measurements of an execution, in the order they are recorded.\<close>

type_synonym ('f, 'ts) measured = "nat \<times> 'f \<times> u64 \<times> 'ts \<times> 'ts"

fun record_all :: "('f, 'ts) measured list \<Rightarrow> ('f, 'ts) Profiler \<Rightarrow> ('f, 'ts) Profiler option" where
  "record_all [] p = Some p"
| "record_all ((i, ms, rows, b, e) # rs) p = Option.bind (record_step p i ms rows b e) (record_all rs)"

text \<open>The last measurement of a step.\<close>

definition last_measured :: "('f, 'ts) measured list \<Rightarrow> nat \<Rightarrow> ('f \<times> u64 \<times> 'ts \<times> 'ts) option" where
  "last_measured rs i = map_of (rev rs) i"

definition reported :: "('f, 'z) plan_env_scheme \<Rightarrow> 'ts \<Rightarrow> 'f PhysicalPlan \<Rightarrow> ('f, 'ts) measured list \<Rightarrow> nat \<Rightarrow> ('f, 'ts) ProfileStep" where
  "reported E now plan rs i =
    (case last_measured rs i of
       Some (ms, rows, b, e) \<Rightarrow> profile_step (pp_steps plan ! i) ms rows b e
     | None \<Rightarrow> profile_step (pp_steps plan ! i) (pf_dec E 0 1) 0 now now)"

lemma last_measured_Cons:
  "last_measured ((i, r) # rs) j = (case last_measured rs j of Some s \<Rightarrow> Some s | None \<Rightarrow> if j = i then Some r else None)"
  by (auto simp: last_measured_def map_add_def split: option.splits)

lemma record_all_recorded:
  assumes "record_all rs p = Some p'" "length (pf_recorded_steps p) = length (pp_steps (pf_plan p))"
  shows "pf_plan p' = pf_plan p \<and> pf_plan_id p' = pf_plan_id p
    \<and> length (pf_recorded_steps p') = length (pp_steps (pf_plan p))
    \<and> (\<forall>i < length (pp_steps (pf_plan p)). pf_recorded_steps p' ! i =
        (case last_measured rs i of
           Some (ms, rows, b, e) \<Rightarrow> Some (profile_step (pp_steps (pf_plan p) ! i) ms rows b e)
         | None \<Rightarrow> pf_recorded_steps p ! i))"
  using assms
proof (induction rs arbitrary: p)
  case (Cons r rs)
  obtain i ms rows b e where r: "r = (i, ms, rows, b, e)" by (cases r) auto
  with Cons.prems obtain p1 where p1: "record_step p i ms rows b e = Some p1" "record_all rs p1 = Some p'"
    by (auto simp: bind_eq_Some_conv)
  then have i: "i < length (pp_steps (pf_plan p))"
    and eq: "p1 = p\<lparr>pf_recorded_steps := (pf_recorded_steps p)[i := Some (profile_step (pp_steps (pf_plan p) ! i) ms rows b e)]\<rparr>"
    by (auto simp: record_step_def split: if_splits)
  show ?case using Cons.IH [OF p1(2)] Cons.prems(2) i
    by (auto simp: eq r last_measured_Cons nth_list_update split: option.splits)
qed (auto simp: last_measured_def)

lemma record_all_None_iff:
  "record_all rs p = None \<longleftrightarrow> (\<exists>r \<in> set rs. length (pp_steps (pf_plan p)) \<le> fst r)"
proof (induction rs arbitrary: p)
  case (Cons r rs)
  obtain i ms rows b e where "r = (i, ms, rows, b, e)" by (cases r) auto
  with Cons show ?case by (auto simp: record_step_def not_le)
qed simp

lemma record_execution_count:
  "(case record_execution E now stats m ms rows n of Some s \<Rightarrow> ss_query_count s | None \<Rightarrow> 0)
    = (case stats n of Some s \<Rightarrow> ss_query_count s | None \<Rightarrow> 0) + (if n = m then 1 else 0)"
  by (auto simp: record_execution_def Let_def StoreStatistics_new_def split: option.splits)

lemma foldl_record_count:
  "(case foldl (\<lambda>st s. record_execution E now st (pt_modality s) (pt_actual_ms s) (pt_actual_rows s)) stats steps m of
      Some s \<Rightarrow> ss_query_count s | None \<Rightarrow> 0)
    = (case stats m of Some s \<Rightarrow> ss_query_count s | None \<Rightarrow> 0) + of_nat (length (filter (\<lambda>s. pt_modality s = m) steps))"
  by (induction steps arbitrary: stats) (auto simp: record_execution_count)

lemma finish_steps:
  assumes "record_all rs (Profiler_new plan_id plan) = Some p"
  shows "qp_steps (snd (finish E now p stats)) = map (reported E now plan rs) [0..<length (pp_steps plan)]"
    and "qp_plan_id (snd (finish E now p stats)) = plan_id"
proof -
  have len: "length (pf_recorded_steps (Profiler_new plan_id plan)) = length (pp_steps (pf_plan (Profiler_new plan_id plan)))"
    by (simp add: Profiler_new_def)
  note rec = record_all_recorded [OF assms len]
  have plan: "pf_plan p = plan" "pf_plan_id p = plan_id" "length (pf_recorded_steps p) = length (pp_steps plan)"
    using rec by (simp_all add: Profiler_new_def)
  have "recorded_or_zero E now plan (i, pf_recorded_steps p ! i) = reported E now plan rs i" if "i < length (pp_steps plan)" for i
    using rec that by (cases "last_measured rs i") (auto simp: Profiler_new_def recorded_or_zero_def reported_def)
  then show "qp_steps (snd (finish E now p stats)) = map (reported E now plan rs) [0..<length (pp_steps plan)]"
    by (intro nth_equalityI) (simp_all add: finish_def Let_def plan nth_enumerate_eq)
  show "qp_plan_id (snd (finish E now p stats)) = plan_id" by (simp add: finish_def Let_def plan)
qed

lemma reported_modality: "pt_modality (reported E now plan rs i) = ps_modality (pp_steps plan ! i)"
  by (simp add: reported_def profile_step_def split: option.splits prod.splits)

lemma finish_counts:
  assumes "record_all rs (Profiler_new plan_id plan) = Some p"
  shows "(case fst (finish E now p stats) m of Some s \<Rightarrow> ss_query_count s | None \<Rightarrow> 0)
    = (case stats m of Some s \<Rightarrow> ss_query_count s | None \<Rightarrow> 0)
      + of_nat (length (filter (\<lambda>s. ps_modality s = m) (pp_steps plan)))"
proof -
  let ?steps = "qp_steps (snd (finish E now p stats))"
  have "map pt_modality ?steps = map ps_modality (pp_steps plan)"
    by (rule nth_equalityI) (simp_all add: finish_steps [OF assms] reported_modality)
  then have "length (filter (\<lambda>x. x = m) (map pt_modality ?steps)) = length (filter (\<lambda>x. x = m) (map ps_modality (pp_steps plan)))"
    by simp
  then have "length (filter (\<lambda>s. pt_modality s = m) ?steps) = length (filter (\<lambda>s. ps_modality s = m) (pp_steps plan))"
    by (simp add: filter_map comp_def)
  moreover have "fst (finish E now p stats)
      = foldl (\<lambda>st s. record_execution E now st (pt_modality s) (pt_actual_ms s) (pt_actual_rows s)) stats ?steps"
    by (simp add: finish_def Let_def)
  ultimately show ?thesis by (simp only: foldl_record_count)
qed

text \<open>An execution is reported as it was measured.  Recording fails exactly if an index is out of range; otherwise the
  profile has one entry for each step of the plan, in order, with the estimates of the plan and the last measurement
  of the step, zeros for a step that was not measured, and the statistics of each modality count one more query for
  each of its steps.\<close>

theorem profile_reports_execution:
  "(record_all rs (Profiler_new plan_id plan) = None \<longleftrightarrow> (\<exists>r \<in> set rs. length (pp_steps plan) \<le> fst r))
   \<and> (record_all rs (Profiler_new plan_id plan) = Some p \<longrightarrow>
       qp_steps (snd (finish E now p stats)) = map (reported E now plan rs) [0..<length (pp_steps plan)]
       \<and> qp_plan_id (snd (finish E now p stats)) = plan_id
       \<and> (\<forall>m. (case fst (finish E now p stats) m of Some s \<Rightarrow> ss_query_count s | None \<Rightarrow> 0)
            = (case stats m of Some s \<Rightarrow> ss_query_count s | None \<Rightarrow> 0)
              + of_nat (length (filter (\<lambda>s. ps_modality s = m) (pp_steps plan)))))"
  using finish_steps [of rs plan_id plan p] finish_counts [of rs plan_id plan p]
  by (auto simp: record_all_None_iff Profiler_new_def)

text \<open>A step that was never measured enters the statistics as an execution of zero milliseconds and no rows.\<close>

lemma unmeasured_step_counted_as_instant:
  assumes "pp_steps plan = [s]" "ss_query_count entry = 1" "stats (ps_modality s) = Some entry"
  shows "map_option ss_avg_latency_ms (fst (finish E now (Profiler_new plan_id plan) stats) (ps_modality s))
    = Some (fo_add E (fo_mul E (pf_dec E 1 1) (pf_dec E 0 1)) (fo_mul E (pf_dec E 9 1) (ss_avg_latency_ms entry)))"
  using assms by (simp add: finish_def Profiler_new_def recorded_or_zero_def profile_step_def record_execution_def Let_def)

section \<open>Example\<close>

definition demo_prof_env :: "rat prof_env" where
  "demo_prof_env = plan_env.extend rat_env \<lparr>pr_is_finite = (\<lambda>_. True)\<rparr>"

definition demo_step :: "Modality \<Rightarrow> rat PlanStep" where
  "demo_step m =
    \<lparr>ps_step = 1, ps_operation = ''search'', ps_modality = m,
     ps_cost = \<lparr>ce_time_ms = 5, ce_estimated_rows = 2, ce_selectivity = 1, ce_io_cost = 3, ce_cpu_cost = 2\<rparr>,
     ps_optimization_hint = None, ps_pushed_predicates = []\<rparr>"

definition demo_physical_plan :: "rat PhysicalPlan" where
  "demo_physical_plan =
    \<lparr>pp_steps = [demo_step Document, demo_step Graph], pp_strategy = Parallel, pp_total_cost = ps_cost (demo_step Document), pp_notes = []\<rparr>"

text \<open>The document step is measured twice, the graph step never.\<close>

theorem profile_reports_execution_witness:
  "\<exists>p. record_all [(0, 3, 2, 10, 13), (0, 4, 1, 20, 24)] (Profiler_new ''q'' demo_physical_plan) = Some p
     \<and> map (\<lambda>s. (pt_modality s, pt_actual_ms s, pt_actual_rows s)) (qp_steps (snd (finish demo_prof_env (99 :: nat) p Map.empty)))
       = [(Document, 4, 1), (Graph, pf_dec demo_prof_env 0 1, 0)]"
proof -
  let ?rs = "[(0, 3, 2, 10, 13), (0, 4, 1, 20, 24)] :: (rat, nat) measured list"
  have upt2: "[0..<2] = [0, 1 :: nat]" by (simp add: upt_rec)
  have len: "length (pp_steps demo_physical_plan) = 2" by (simp add: demo_physical_plan_def)
  have "record_all ?rs (Profiler_new ''q'' demo_physical_plan) \<noteq> None"
    using profile_reports_execution [of ?rs "''q''" demo_physical_plan, THEN conjunct1] by (simp add: len del: record_all.simps)
  then obtain p where p: "record_all ?rs (Profiler_new ''q'' demo_physical_plan) = Some p" by blast
  have "qp_steps (snd (finish demo_prof_env 99 p Map.empty)) = map (reported demo_prof_env 99 demo_physical_plan ?rs) [0..<2]"
    using profile_reports_execution [of ?rs "''q''" demo_physical_plan p demo_prof_env 99 Map.empty, THEN conjunct2, THEN mp, OF p,
      THEN conjunct1] by (simp only: len)
  also have "\<dots> = [reported demo_prof_env 99 demo_physical_plan ?rs 0, reported demo_prof_env 99 demo_physical_plan ?rs 1]"
    by (simp only: upt2 list.map)
  finally have steps: "qp_steps (snd (finish demo_prof_env 99 p Map.empty))
      = [reported demo_prof_env 99 demo_physical_plan ?rs 0, reported demo_prof_env 99 demo_physical_plan ?rs 1]" .
  have "last_measured ?rs 0 = Some (4, 1, 20, 24)" "last_measured ?rs 1 = None" by (simp_all add: last_measured_def)
  moreover have "pp_steps demo_physical_plan ! 0 = demo_step Document" "pp_steps demo_physical_plan ! 1 = demo_step Graph"
    by (simp_all add: demo_physical_plan_def)
  moreover have "ps_modality (demo_step m) = m" for m by (simp add: demo_step_def)
  ultimately have "map (\<lambda>s. (pt_modality s, pt_actual_ms s, pt_actual_rows s)) (qp_steps (snd (finish demo_prof_env 99 p Map.empty)))
      = [(Document, 4, 1), (Graph, pf_dec demo_prof_env 0 1, 0)]"
    by (simp only: steps list.map reported_def option.case prod.case profile_step_def ProfileStep.simps)
  with p show ?thesis by (intro exI conjI)
qed

end
