(* ===== verification/Plan_Cache.thy ===== *)
theory Plan_Cache
  imports Planner "HOL-Library.AList"
begin

text \<open>
  Prepared statements and the plan cache (\<open>verisim-planner/src/prepared.rs\<close>).  Instants and durations are
  nanoseconds; \<open>pk_seconds\<close> is \<open>chrono::Duration::seconds\<close>, which panics out of range (\<open>None\<close>).  The map of statements
  is an association list; where its iteration order decides, the order is the argument \<open>ord\<close>.  An operation that can
  panic returns an option; the panics come before anything is changed.
\<close>

section \<open>Types\<close>

record 'f cache_env = "'f plan_env" +
  pk_sha256 :: "bytes \<Rightarrow> bytes"
  pk_is_alphanumeric :: "string \<Rightarrow> bool"
  pk_seconds :: "int \<Rightarrow> int option"

datatype PreparedId = PreparedId (as_str: string)

definition PreparedId_display :: "PreparedId \<Rightarrow> string option" where
  "PreparedId_display i = map_option (\<lambda>p. ''prep_'' @ p) (str_prefix (as_str i) (min 12 (length (as_str i))))"

datatype ('f, 'g) ParamValue =
    StringValue string
  | IntValue i64
  | FloatValue 'f
  | BoolValue bool
  | VectorValue "'g list"
  | NullValue

fun ParamValue_display :: "('f, 'z) cache_env_scheme \<Rightarrow> ('f, 'g) ParamValue \<Rightarrow> string" where
  "ParamValue_display E (StringValue s) = quote2 s"
| "ParamValue_display E (IntValue i) =
     (if sint i < 0 then CHR ''-'' # dec_digits (nat (- sint i)) else dec_digits (nat (sint i)))"
| "ParamValue_display E (FloatValue v) = fo_display E v"
| "ParamValue_display E (BoolValue b) = (if b then ''true'' else ''false'')"
| "ParamValue_display E (VectorValue v) = ''vec['' @ dec_digits (length v) @ '']''"
| "ParamValue_display E NullValue = ''NULL''"

record 'f PreparedStatement =
  st_id :: PreparedId
  st_original_query :: string
  st_parameter_names :: "string list"
  st_logical_plan :: LogicalPlan
  st_cached_physical_plan :: "'f PhysicalPlan option"
  st_created_at :: int
  st_last_used :: int
  st_use_count :: u64
  st_avg_execution_ms :: 'f

record CacheConfig =
  cc_max_entries :: nat
  cc_ttl_seconds :: u64
  cc_enable_plan_cache :: bool
  cc_enable_result_cache :: bool
  cc_max_result_cache_bytes :: nat

definition CacheConfig_default :: CacheConfig where
  "CacheConfig_default =
    \<lparr>cc_max_entries = 1024, cc_ttl_seconds = 3600, cc_enable_plan_cache = True, cc_enable_result_cache = False,
     cc_max_result_cache_bytes = 64 * 1024 * 1024\<rparr>"

record 'f CacheStats =
  cs_total_entries :: nat
  cs_hit_count :: u64
  cs_miss_count :: u64
  cs_eviction_count :: u64
  cs_hit_ratio :: 'f
  cs_generation :: u64

datatype CacheError =
    NotFound string
  | ParameterMismatch "string list" "string list"
  | Expired string
  | CacheFull

definition str_list_debug :: "('f, 'z) cache_env_scheme \<Rightarrow> string list \<Rightarrow> string" where
  "str_list_debug E xs = ''['' @ join_with '', '' (map (pf_str_debug E) xs) @ '']''"

fun CacheError_display :: "('f, 'z) cache_env_scheme \<Rightarrow> CacheError \<Rightarrow> string" where
  "CacheError_display E (NotFound i) = ''prepared statement not found: '' @ i"
| "CacheError_display E (ParameterMismatch expected provided) =
     ''parameter mismatch: expected '' @ str_list_debug E expected @ '', provided '' @ str_list_debug E provided"
| "CacheError_display E (Expired i) = ''prepared statement expired: '' @ i"
| "CacheError_display E CacheFull = ''cache is full''"

type_synonym 'f statements = "(PreparedId \<times> 'f PreparedStatement) list"

record 'f PlanCache =
  ca_config :: CacheConfig
  ca_statements :: "'f statements"
  ca_fingerprints :: "string \<rightharpoonup> PreparedId"
  ca_generation :: u64
  ca_hit_count :: u64
  ca_miss_count :: u64
  ca_eviction_count :: u64

definition PlanCache_new :: "CacheConfig \<Rightarrow> 'f PlanCache" where
  "PlanCache_new config =
    \<lparr>ca_config = config, ca_statements = [], ca_fingerprints = Map.empty, ca_generation = 0, ca_hit_count = 0,
     ca_miss_count = 0, ca_eviction_count = 0\<rparr>"

definition bump_generation :: "'f PlanCache \<Rightarrow> 'f PlanCache" where
  "bump_generation c = c\<lparr>ca_generation := ca_generation c + 1\<rparr>"

definition bump_hit :: "'f PlanCache \<Rightarrow> 'f PlanCache" where
  "bump_hit c = c\<lparr>ca_hit_count := ca_hit_count c + 1\<rparr>"

definition bump_miss :: "'f PlanCache \<Rightarrow> 'f PlanCache" where
  "bump_miss c = c\<lparr>ca_miss_count := ca_miss_count c + 1\<rparr>"

definition bump_eviction :: "u64 \<Rightarrow> 'f PlanCache \<Rightarrow> 'f PlanCache" where
  "bump_eviction n c = c\<lparr>ca_eviction_count := ca_eviction_count c + n\<rparr>"

section \<open>Fingerprints and parameters\<close>

definition query_keywords :: "string list" where
  "query_keywords =
    [''SELECT'', ''WHERE'', ''FROM'', ''SEARCH'', ''LIMIT'', ''ORDER'', ''BY'', ''GROUP'',
     ''AND'', ''OR'', ''NOT'', ''JOIN'', ''ON'', ''AS'', ''HAVING'', ''INSERT'', ''UPDATE'',
     ''DELETE'', ''SET'', ''INTO'', ''VALUES'', ''WITH'', ''UNION'', ''INTERSECT'', ''EXCEPT'',
     ''EXISTS'', ''BETWEEN'', ''LIKE'', ''IN'', ''IS'', ''NULL'', ''TRUE'', ''FALSE'',
     ''ASC'', ''DESC'', ''DISTINCT'', ''ALL'', ''ANY'', ''SOME'', ''CASE'', ''WHEN'', ''THEN'',
     ''ELSE'', ''END'',
     ''PROOF'', ''VERIFY'', ''DRIFT'', ''HEXAD'', ''MODALITY'', ''TYPE'',
     ''GRAPH'', ''VECTOR'', ''TENSOR'', ''SEMANTIC'', ''DOCUMENT'', ''TEMPORAL'']"

definition normalize_token :: "('f, 'z) cache_env_scheme \<Rightarrow> string \<Rightarrow> string" where
  "normalize_token E token =
    (if pf_to_uppercase E token \<in> set query_keywords then pf_to_lowercase E token else token)"

definition normalize_query :: "('f, 'z) cache_env_scheme \<Rightarrow> string \<Rightarrow> string" where
  "normalize_query E query =
    (let collapsed = join_with '' '' (split_whitespace query)
     in join_with '' '' (map (normalize_token E) (split_char (CHR '' '') collapsed)))"

definition fingerprint :: "('f, 'z) cache_env_scheme \<Rightarrow> string \<Rightarrow> string" where
  "fingerprint E query = hex_string (pk_sha256 E (as_bytes (normalize_query E query)))"

definition word_char :: "('f, 'z) cache_env_scheme \<Rightarrow> string \<Rightarrow> bool" where
  "word_char E c \<longleftrightarrow> pk_is_alphanumeric E c \<or> c = ''_''"

text \<open>The scan of \<open>extract_parameters\<close> over the characters; \<open>params\<close> is also the set \<open>seen\<close>.\<close>

function extract_loop :: "('f, 'z) cache_env_scheme \<Rightarrow> string list \<Rightarrow> string list \<Rightarrow> string list" where
  "extract_loop E params [] = params"
| "extract_loop E params (ch # chars) =
    (if ch = ''$'' then
       (let name = ''$'' @ concat (takeWhile (word_char E) chars)
        in extract_loop E (if 1 < length name \<and> name \<notin> set params then params @ [name] else params)
             (dropWhile (word_char E) chars))
     else extract_loop E params chars)"
  by pat_completeness auto
termination
  by (relation "measure (length \<circ> snd \<circ> snd)") (auto simp: le_imp_less_Suc length_dropWhile_le)

definition extract_parameters :: "('f, 'z) cache_env_scheme \<Rightarrow> string \<Rightarrow> string list" where
  "extract_parameters E query = extract_loop E [] (utf8_chars query)"

section \<open>Eviction\<close>

text \<open>\<open>min_by_key\<close> of an iteration: the first of the least.\<close>

fun min_by_key :: "('a \<Rightarrow> int) \<Rightarrow> 'a list \<Rightarrow> 'a option" where
  "min_by_key f [] = None"
| "min_by_key f (x # xs) =
    (case min_by_key f xs of None \<Rightarrow> Some x | Some y \<Rightarrow> if f x \<le> f y then Some x else Some y)"

definition remove_statement :: "('f, 'z) cache_env_scheme \<Rightarrow> PreparedId \<Rightarrow> 'f PlanCache \<Rightarrow> 'f PlanCache" where
  "remove_statement E i c =
    (case map_of (ca_statements c) i of
       Some stmt \<Rightarrow>
         c\<lparr>ca_statements := AList.delete i (ca_statements c),
           ca_fingerprints := (ca_fingerprints c)(fingerprint E (st_original_query stmt) := None)\<rparr>
     | None \<Rightarrow> c)"

definition evict_lru_inner ::
  "('f, 'z) cache_env_scheme \<Rightarrow> ('f statements \<Rightarrow> 'f statements) \<Rightarrow> 'f PlanCache \<Rightarrow> 'f PlanCache \<times> nat" where
  "evict_lru_inner E ord c =
    (if ca_statements c = [] then (c, 0)
     else
       (case map_option fst (min_by_key (\<lambda>(_, stmt). st_last_used stmt) (ord (ca_statements c))) of
          Some i \<Rightarrow> (bump_generation (bump_eviction 1 (remove_statement E i c)), 1)
        | None \<Rightarrow> (c, 0)))"

definition evict_lru ::
  "('f, 'z) cache_env_scheme \<Rightarrow> ('f statements \<Rightarrow> 'f statements) \<Rightarrow> 'f PlanCache \<Rightarrow> 'f PlanCache \<times> nat" where
  "evict_lru E ord c =
    (if length (ca_statements c) \<le> cc_max_entries (ca_config c) then (c, 0) else evict_lru_inner E ord c)"

definition ttl_duration :: "('f, 'z) cache_env_scheme \<Rightarrow> 'f PlanCache \<Rightarrow> int option" where
  "ttl_duration E c = pk_seconds E (sint (cc_ttl_seconds (ca_config c)))"

definition is_expired :: "('f, 'z) cache_env_scheme \<Rightarrow> int \<Rightarrow> 'f PlanCache \<Rightarrow> 'f PreparedStatement \<Rightarrow> bool option" where
  "is_expired E now c stmt = map_option (\<lambda>ttl. ttl < now - st_created_at stmt) (ttl_duration E c)"

definition evict_expired ::
  "('f, 'z) cache_env_scheme \<Rightarrow> ('f statements \<Rightarrow> 'f statements) \<Rightarrow> int \<Rightarrow> 'f PlanCache \<Rightarrow> ('f PlanCache \<times> nat) option" where
  "evict_expired E ord now c =
    map_option (\<lambda>ttl.
      let expired_ids = map fst (filter (\<lambda>(_, stmt). ttl < now - st_created_at stmt) (ord (ca_statements c)));
          n = length expired_ids;
          c1 = bump_eviction (of_nat n) (foldl (\<lambda>c i. remove_statement E i c) c expired_ids)
      in (if 0 < n then bump_generation c1 else c1, n)) (ttl_duration E c)"

section \<open>Operations\<close>

definition prepare ::
  "('f, 'z) cache_env_scheme \<Rightarrow> ('f statements \<Rightarrow> 'f statements) \<Rightarrow> int \<Rightarrow> 'f PlanCache \<Rightarrow> string \<Rightarrow> LogicalPlan
    \<Rightarrow> 'f PlanCache \<times> PreparedId" where
  "prepare E ord now c query logical_plan =
    (let fp = fingerprint E query;
         i = PreparedId fp
     in case map_of (ca_statements c) i of
          Some stmt \<Rightarrow>
            (bump_generation (c\<lparr>ca_statements := AList.update i (stmt\<lparr>st_last_used := now\<rparr>) (ca_statements c)\<rparr>), i)
        | None \<Rightarrow>
            (let stmt = \<lparr>st_id = i, st_original_query = query, st_parameter_names = extract_parameters E query,
                         st_logical_plan = logical_plan, st_cached_physical_plan = None, st_created_at = now,
                         st_last_used = now, st_use_count = 0, st_avg_execution_ms = pf_dec E 0 1\<rparr>;
                 c1 = (if cc_max_entries (ca_config c) \<le> length (ca_statements c) then fst (evict_lru_inner E ord c) else c)
             in (bump_generation (c1\<lparr>ca_statements := AList.update i stmt (ca_statements c1),
                                     ca_fingerprints := (ca_fingerprints c1)(fp \<mapsto> i)\<rparr>), i)))"

definition get ::
  "('f, 'z) cache_env_scheme \<Rightarrow> int \<Rightarrow> 'f PlanCache \<Rightarrow> PreparedId \<Rightarrow> ('f PlanCache \<times> 'f PreparedStatement option) option" where
  "get E now c i =
    (case map_of (ca_statements c) i of
       Some stmt \<Rightarrow>
         map_option (\<lambda>expired. if expired then (bump_miss c, None) else (bump_hit c, Some stmt)) (is_expired E now c stmt)
     | None \<Rightarrow> Some (bump_miss c, None))"

definition execute_prepared ::
  "('f, 'z) cache_env_scheme \<Rightarrow> int \<Rightarrow> 'f PlanCache \<Rightarrow> PreparedId \<Rightarrow> (string \<times> ('f, 'g) ParamValue) list
    \<Rightarrow> ('f PlanCache \<times> (CacheError, 'f PreparedStatement) rresult) option" where
  "execute_prepared E now c i params =
    (case map_of (ca_statements c) i of
       None \<Rightarrow> Some (c, Inl (NotFound (as_str i)))
     | Some stmt \<Rightarrow>
         (case is_expired E now c stmt of
            None \<Rightarrow> None
          | Some True \<Rightarrow> Some (c\<lparr>ca_statements := AList.delete i (ca_statements c)\<rparr>, Inl (Expired (as_str i)))
          | Some False \<Rightarrow>
              (if st_parameter_names stmt \<noteq> [] \<and> sort (st_parameter_names stmt) \<noteq> sort (map fst params)
               then Some (c, Inl (ParameterMismatch (st_parameter_names stmt) (map fst params)))
               else
                 (let stmt' = stmt\<lparr>st_use_count := st_use_count stmt + 1, st_last_used := now\<rparr>
                  in Some (bump_generation (bump_hit (c\<lparr>ca_statements := AList.update i stmt' (ca_statements c)\<rparr>)), Inr stmt')))))"

definition invalidate :: "('f, 'z) cache_env_scheme \<Rightarrow> 'f PlanCache \<Rightarrow> PreparedId \<Rightarrow> 'f PlanCache \<times> bool" where
  "invalidate E c i =
    (case map_of (ca_statements c) i of
       Some _ \<Rightarrow> (bump_generation (bump_eviction 1 (remove_statement E i c)), True)
     | None \<Rightarrow> (c, False))"

definition invalidate_all :: "'f PlanCache \<Rightarrow> 'f PlanCache" where
  "invalidate_all c =
    bump_generation (bump_eviction (of_nat (length (ca_statements c))) (c\<lparr>ca_statements := [], ca_fingerprints := Map.empty\<rparr>))"

definition lookup_by_query ::
  "('f, 'z) cache_env_scheme \<Rightarrow> 'f PlanCache \<Rightarrow> string \<Rightarrow> 'f PlanCache \<times> PreparedId option" where
  "lookup_by_query E c query =
    (case ca_fingerprints c (fingerprint E query) of
       Some i \<Rightarrow> (bump_hit c, Some i)
     | None \<Rightarrow> (bump_miss c, None))"

definition cache_plan :: "'f PlanCache \<Rightarrow> PreparedId \<Rightarrow> 'f PhysicalPlan \<Rightarrow> 'f PlanCache" where
  "cache_plan c i plan =
    (case map_of (ca_statements c) i of
       Some stmt \<Rightarrow>
         bump_generation (c\<lparr>ca_statements := AList.update i (stmt\<lparr>st_cached_physical_plan := Some plan\<rparr>) (ca_statements c)\<rparr>)
     | None \<Rightarrow> c)"

definition cache_stats :: "('f, 'z) cache_env_scheme \<Rightarrow> 'f PlanCache \<Rightarrow> 'f CacheStats" where
  "cache_stats E c =
    (let hits = ca_hit_count c; misses = ca_miss_count c; total_lookups = hits + misses
     in \<lparr>cs_total_entries = 0, cs_hit_count = hits, cs_miss_count = misses, cs_eviction_count = ca_eviction_count c,
         cs_hit_ratio = (if 0 < total_lookups then fo_div E (pf_of_u64 E hits) (pf_of_u64 E total_lookups) else pf_dec E 0 1),
         cs_generation = ca_generation c\<rparr>)"

definition stats_async :: "('f, 'z) cache_env_scheme \<Rightarrow> 'f PlanCache \<Rightarrow> 'f CacheStats" where
  "stats_async E c = (cache_stats E c)\<lparr>cs_total_entries := length (ca_statements c)\<rparr>"

section \<open>Invariant\<close>

lemmas bump_defs = bump_generation_def bump_hit_def bump_miss_def bump_eviction_def

lemma bump_simps [simp]:
  "ca_statements (bump_generation c) = ca_statements c" "ca_fingerprints (bump_generation c) = ca_fingerprints c"
  "ca_config (bump_generation c) = ca_config c"
  "ca_statements (bump_hit c) = ca_statements c" "ca_fingerprints (bump_hit c) = ca_fingerprints c" "ca_config (bump_hit c) = ca_config c"
  "ca_statements (bump_miss c) = ca_statements c" "ca_fingerprints (bump_miss c) = ca_fingerprints c" "ca_config (bump_miss c) = ca_config c"
  "ca_statements (bump_eviction n c) = ca_statements c" "ca_fingerprints (bump_eviction n c) = ca_fingerprints c"
  "ca_config (bump_eviction n c) = ca_config c"
  by (simp_all add: bump_defs)

text \<open>
  A statement is kept under the fingerprint of its query, its identifier and parameters are those of the query, and
  the index finds it; the index maps a fingerprint to itself; the cache is bounded.
\<close>

definition statement_ok :: "('f, 'z) cache_env_scheme \<Rightarrow> (string \<rightharpoonup> PreparedId) \<Rightarrow> PreparedId \<Rightarrow> 'f PreparedStatement \<Rightarrow> bool" where
  "statement_ok E fps i s \<longleftrightarrow>
    st_id s = i \<and> i = PreparedId (fingerprint E (st_original_query s))
    \<and> st_parameter_names s = extract_parameters E (st_original_query s) \<and> fps (as_str i) = Some i"

definition tables_wf :: "('f, 'z) cache_env_scheme \<Rightarrow> nat \<Rightarrow> 'f statements \<Rightarrow> (string \<rightharpoonup> PreparedId) \<Rightarrow> bool" where
  "tables_wf E n stmts fps \<longleftrightarrow>
    distinct (map fst stmts)
    \<and> (\<forall>i s. map_of stmts i = Some s \<longrightarrow> statement_ok E fps i s)
    \<and> (\<forall>f i. fps f = Some i \<longrightarrow> i = PreparedId f)
    \<and> length stmts \<le> max 1 n"

definition cache_wf :: "('f, 'z) cache_env_scheme \<Rightarrow> 'f PlanCache \<Rightarrow> bool" where
  "cache_wf E c \<longleftrightarrow> tables_wf E (cc_max_entries (ca_config c)) (ca_statements c) (ca_fingerprints c)"

lemma tables_wfD:
  assumes "tables_wf E n stmts fps"
  shows "distinct (map fst stmts)" "map_of stmts i = Some s \<Longrightarrow> statement_ok E fps i s"
    "fps f = Some i \<Longrightarrow> i = PreparedId f" "length stmts \<le> max 1 n"
  using assms by (simp_all add: tables_wf_def)

lemma tables_wfI:
  assumes "distinct (map fst stmts)" "\<And>i s. map_of stmts i = Some s \<Longrightarrow> statement_ok E fps i s"
    "\<And>f i. fps f = Some i \<Longrightarrow> i = PreparedId f" "length stmts \<le> max 1 n"
  shows "tables_wf E n stmts fps"
  using assms by (simp add: tables_wf_def)

lemma cache_wf_bump [simp]:
  "cache_wf E (bump_generation c) = cache_wf E c" "cache_wf E (bump_hit c) = cache_wf E c"
  "cache_wf E (bump_miss c) = cache_wf E c" "cache_wf E (bump_eviction n c) = cache_wf E c"
  by (simp_all add: cache_wf_def)

lemma PlanCache_new_wf: "cache_wf E (PlanCache_new config)"
  by (simp add: cache_wf_def tables_wf_def PlanCache_new_def)

lemma length_update_present: "k \<in> fst ` set xs \<Longrightarrow> length (AList.update k v xs) = length xs"
  by (induction xs) auto

lemma length_update_absent: "k \<notin> fst ` set xs \<Longrightarrow> length (AList.update k v xs) = Suc (length xs)"
  by (induction xs) auto

lemma map_of_present: "map_of xs k = Some v \<Longrightarrow> k \<in> fst ` set xs"
  by (metis map_of_eq_None_iff option.distinct(1))

lemma length_delete_present:
  assumes "distinct (map fst xs)" "k \<in> fst ` set xs"
  shows "Suc (length (AList.delete k xs)) = length xs"
  using assms
proof (induction xs)
  case (Cons x xs)
  obtain a b where x: "x = (a, b)" by (cases x)
  show ?case
  proof (cases "a = k")
    case True
    with Cons.prems x have "k \<notin> fst ` set xs" by simp
    with True x show ?thesis by (simp add: delete_id)
  next
    case False
    with Cons x show ?thesis by simp
  qed
qed simp

lemma tables_wf_replace:
  assumes "tables_wf E n stmts fps" and "map_of stmts i = Some s"
    and "st_id s' = st_id s" "st_original_query s' = st_original_query s" "st_parameter_names s' = st_parameter_names s"
  shows "tables_wf E n (AList.update i s' stmts) fps"
proof (rule tables_wfI)
  fix j t assume "map_of (AList.update i s' stmts) j = Some t"
  then have "j = i \<and> t = s' \<or> map_of stmts j = Some t" by (cases "j = i") (simp_all add: update_conv')
  then consider "j = i" "t = s'" | "map_of stmts j = Some t" by (elim disjE conjE)
  then show "statement_ok E fps j t"
  proof cases
    case 1
    show ?thesis unfolding 1 using tables_wfD(2) [OF assms(1, 2)] unfolding statement_ok_def assms(3-5) .
  next
    case 2
    then show ?thesis by (rule tables_wfD(2) [OF assms(1)])
  qed
next
  show "distinct (map fst (AList.update i s' stmts))" using tables_wfD(1) [OF assms(1)] by (rule distinct_update)
  show "length (AList.update i s' stmts) \<le> max 1 n"
    using tables_wfD(4) [OF assms(1)] by (simp only: length_update_present [OF map_of_present [OF assms(2)]])
qed (rule tables_wfD(3) [OF assms(1)])

lemma tables_wf_delete:
  assumes "tables_wf E n stmts fps"
  shows "tables_wf E n (AList.delete i stmts) fps"
proof (rule tables_wfI)
  fix j t assume "map_of (AList.delete i stmts) j = Some t"
  then have "map_of stmts j = Some t" by (auto simp: delete_conv' split: if_splits)
  then show "statement_ok E fps j t" by (rule tables_wfD(2) [OF assms])
next
  show "length (AList.delete i stmts) \<le> max 1 n"
    using tables_wfD(4) [OF assms] length_delete_le [of i stmts] by simp
qed (use tables_wfD [OF assms] in \<open>simp_all add: distinct_delete\<close>)

lemma tables_wf_remove:
  assumes "tables_wf E n stmts fps" and "map_of stmts i = Some s"
  shows "tables_wf E n (AList.delete i stmts) (fps(fingerprint E (st_original_query s) := None))"
proof (rule tables_wfI)
  fix j t assume "map_of (AList.delete i stmts) j = Some t"
  then have "map_of stmts j = Some t" "j \<noteq> i" by (auto simp: delete_conv' split: if_splits)
  with tables_wfD(2) [OF assms] tables_wfD(2) [OF assms(1)]
  show "statement_ok E (fps(fingerprint E (st_original_query s) := None)) j t"
    by (fastforce simp: statement_ok_def)
qed (use tables_wfD [OF tables_wf_delete [OF assms(1), of i]] tables_wfD(3) [OF assms(1)] in \<open>simp_all split: if_splits\<close>)

lemma remove_statement_wf:
  assumes "cache_wf E c"
  shows "cache_wf E (remove_statement E i c)"
  using assms tables_wf_remove
  by (cases "map_of (ca_statements c) i") (simp_all add: remove_statement_def cache_wf_def)

lemma remove_statement_config [simp]: "ca_config (remove_statement E i c) = ca_config c"
  by (simp add: remove_statement_def split: option.splits)

lemma foldl_remove_wf: "cache_wf E c \<Longrightarrow> cache_wf E (foldl (\<lambda>c i. remove_statement E i c) c ids)"
  by (induction ids arbitrary: c) (simp_all add: remove_statement_wf)

lemma min_by_key_None: "min_by_key f xs = None \<longleftrightarrow> xs = []"
  by (cases xs) (auto split: option.splits)

lemma min_by_key_Some: "min_by_key f xs = Some x \<Longrightarrow> x \<in> set xs \<and> (\<forall>y \<in> set xs. f x \<le> f y)"
proof (induction xs arbitrary: x)
  case (Cons a xs)
  show ?case
  proof (cases "min_by_key f xs")
    case None
    with Cons.prems show ?thesis by (simp add: min_by_key_None)
  next
    case (Some y)
    with Cons.IH [OF Some] Cons.prems show ?thesis by (fastforce split: if_splits)
  qed
qed simp

lemma evict_lru_inner_cases:
  assumes "distinct (map fst (ca_statements c))" "ca_statements c \<noteq> []" and ord: "\<And>xs. mset (ord xs) = mset xs"
  obtains i s where "map_of (ca_statements c) i = Some s"
    and "\<And>j t. map_of (ca_statements c) j = Some t \<Longrightarrow> st_last_used s \<le> st_last_used t"
    and "evict_lru_inner E ord c = (bump_generation (bump_eviction 1 (remove_statement E i c)), 1)"
proof -
  have set: "set (ord xs) = set xs" for xs
    by (rule mset_eq_setD [OF ord])
  have "ord (ca_statements c) \<noteq> []" using set [of "ca_statements c"] assms(2) by auto
  then have "min_by_key (\<lambda>(_, stmt). st_last_used stmt) (ord (ca_statements c)) \<noteq> None" by (simp add: min_by_key_None)
  then obtain i s where x: "min_by_key (\<lambda>(_, stmt). st_last_used stmt) (ord (ca_statements c)) = Some (i, s)" by auto
  from min_by_key_Some [OF x] have mem: "(i, s) \<in> set (ca_statements c)"
    and least: "\<forall>(j, t) \<in> set (ca_statements c). st_last_used s \<le> st_last_used t"
    unfolding set by (simp_all add: case_prod_unfold)
  show thesis
  proof (rule that)
    show "map_of (ca_statements c) i = Some s" using assms(1) mem by simp
    show "st_last_used s \<le> st_last_used t" if "map_of (ca_statements c) j = Some t" for j t
      using bspec [OF least map_of_SomeD [OF that]] by simp
    show "evict_lru_inner E ord c = (bump_generation (bump_eviction 1 (remove_statement E i c)), 1)"
      using assms(2) by (simp add: evict_lru_inner_def x)
  qed
qed

lemma remove_statement_length:
  assumes "distinct (map fst (ca_statements c))" "map_of (ca_statements c) i = Some s"
  shows "Suc (length (ca_statements (remove_statement E i c))) = length (ca_statements c)"
  using length_delete_present [OF assms(1) map_of_present [OF assms(2)]] by (simp add: remove_statement_def assms(2))

lemma evict_lru_inner_wf:
  assumes "cache_wf E c" and ord: "\<And>xs. mset (ord xs) = mset xs"
  shows "cache_wf E (fst (evict_lru_inner E ord c))"
proof (cases "ca_statements c = []")
  case False
  have "distinct (map fst (ca_statements c))" using assms(1) by (simp add: cache_wf_def tables_wfD)
  from this False ord show ?thesis
    by (rule evict_lru_inner_cases [where E = E]) (simp add: remove_statement_wf assms(1))
qed (simp add: evict_lru_inner_def assms)

section \<open>Every operation keeps the invariant\<close>

lemma tables_wf_insert:
  assumes wf: "tables_wf E n stmts fps" and "length stmts < max 1 n"
    and "st_id s = PreparedId (fingerprint E (st_original_query s))" "st_parameter_names s = extract_parameters E (st_original_query s)"
  shows "tables_wf E n (AList.update (st_id s) s stmts) (fps(as_str (st_id s) \<mapsto> st_id s))"
proof (rule tables_wfI)
  fix j t assume "map_of (AList.update (st_id s) s stmts) j = Some t"
  then have "j = st_id s \<and> t = s \<or> map_of stmts j = Some t \<and> j \<noteq> st_id s"
    by (cases "j = st_id s") (simp_all add: update_conv')
  then show "statement_ok E (fps(as_str (st_id s) \<mapsto> st_id s)) j t"
  proof (elim disjE conjE)
    assume "map_of stmts j = Some t" "j \<noteq> st_id s"
    with tables_wfD(2) [OF wf \<open>map_of stmts j = Some t\<close>] show ?thesis
      by (auto simp: statement_ok_def PreparedId.expand)
  qed (simp add: statement_ok_def assms(3, 4))
next
  show "distinct (map fst (AList.update (st_id s) s stmts))" using tables_wfD(1) [OF wf] by (rule distinct_update)
  show "length (AList.update (st_id s) s stmts) \<le> max 1 n"
    using assms(2) by (cases "st_id s \<in> fst ` set stmts") (simp_all add: length_update_present length_update_absent)
  show "(fps(as_str (st_id s) \<mapsto> st_id s)) f = Some i \<Longrightarrow> i = PreparedId f" for f i
    using tables_wfD(3) [OF wf, of f i] by (auto split: if_splits)
qed

definition new_statement :: "('f, 'z) cache_env_scheme \<Rightarrow> int \<Rightarrow> string \<Rightarrow> LogicalPlan \<Rightarrow> 'f PreparedStatement" where
  "new_statement E now query logical_plan =
    \<lparr>st_id = PreparedId (fingerprint E query), st_original_query = query, st_parameter_names = extract_parameters E query,
     st_logical_plan = logical_plan, st_cached_physical_plan = None, st_created_at = now,
     st_last_used = now, st_use_count = 0, st_avg_execution_ms = pf_dec E 0 1\<rparr>"

lemma prepare_absent:
  assumes "map_of (ca_statements c) (PreparedId (fingerprint E query)) = None"
  shows "prepare E ord now c query logical_plan =
    (let c1 = (if cc_max_entries (ca_config c) \<le> length (ca_statements c) then fst (evict_lru_inner E ord c) else c)
     in (bump_generation (c1\<lparr>ca_statements := AList.update (PreparedId (fingerprint E query)) (new_statement E now query logical_plan) (ca_statements c1),
           ca_fingerprints := (ca_fingerprints c1)(fingerprint E query \<mapsto> PreparedId (fingerprint E query))\<rparr>), PreparedId (fingerprint E query)))"
  by (simp add: prepare_def assms new_statement_def Let_def)

lemma evict_lru_inner_config [simp]: "ca_config (fst (evict_lru_inner E ord c)) = ca_config c"
  by (simp add: evict_lru_inner_def split: option.splits)

lemma evict_lru_inner_room:
  assumes "cache_wf E c" and ord: "\<And>xs. mset (ord xs) = mset xs"
  shows "length (ca_statements (fst (evict_lru_inner E ord c))) < max 1 (cc_max_entries (ca_config c))"
proof (cases "ca_statements c = []")
  case False
  have d: "distinct (map fst (ca_statements c))" and le: "length (ca_statements c) \<le> max 1 (cc_max_entries (ca_config c))"
    using assms(1) tables_wfD(1, 4) unfolding cache_wf_def by blast+
  obtain i s where i: "map_of (ca_statements c) i = Some s"
    and e: "evict_lru_inner E ord c = (bump_generation (bump_eviction 1 (remove_statement E i c)), 1)"
    by (rule evict_lru_inner_cases [OF d False ord, where E = E])
  from remove_statement_length [OF d i, of E] le show ?thesis by (simp add: e)
qed (simp add: evict_lru_inner_def)

lemma prepare_wf:
  assumes wf: "cache_wf E c" and ord: "\<And>xs. mset (ord xs) = mset xs"
  shows "cache_wf E (fst (prepare E ord now c query logical_plan))"
proof (cases "map_of (ca_statements c) (PreparedId (fingerprint E query))")
  case None
  define c1 where "c1 = (if cc_max_entries (ca_config c) \<le> length (ca_statements c) then fst (evict_lru_inner E ord c) else c)"
  have "tables_wf E (cc_max_entries (ca_config c)) (ca_statements c1) (ca_fingerprints c1)"
    using wf evict_lru_inner_wf [OF wf ord] by (auto simp: cache_wf_def c1_def)
  moreover have "length (ca_statements c1) < max 1 (cc_max_entries (ca_config c))"
    using evict_lru_inner_room [OF wf ord] by (auto simp: c1_def)
  ultimately have "tables_wf E (cc_max_entries (ca_config c))
      (AList.update (PreparedId (fingerprint E query)) (new_statement E now query logical_plan) (ca_statements c1))
      ((ca_fingerprints c1)(fingerprint E query \<mapsto> PreparedId (fingerprint E query)))"
    using tables_wf_insert [of E _ "ca_statements c1" "ca_fingerprints c1" "new_statement E now query logical_plan"]
    by (simp add: new_statement_def)
  moreover have "ca_config c1 = ca_config c" by (simp add: c1_def)
  ultimately show ?thesis
    by (simp add: prepare_absent [OF None] Let_def flip: c1_def) (simp add: cache_wf_def)
next
  case (Some s)
  with wf tables_wf_replace [OF _ Some, of E _ _ "s\<lparr>st_last_used := now\<rparr>"] show ?thesis
    by (simp add: prepare_def Let_def cache_wf_def)
qed

lemma get_wf: "cache_wf E c \<Longrightarrow> get E now c i = Some (c', r) \<Longrightarrow> cache_wf E c'"
  by (auto simp: get_def split: option.splits if_splits)

lemma execute_prepared_wf:
  assumes "cache_wf E c" and "execute_prepared E now c i params = Some (c', r)"
  shows "cache_wf E c'"
proof (cases "map_of (ca_statements c) i")
  case None
  with assms show ?thesis by (simp add: execute_prepared_def)
next
  case (Some s)
  have upd: "cache_wf E (c\<lparr>ca_statements := AList.update i (s\<lparr>st_use_count := u, st_last_used := now\<rparr>) (ca_statements c)\<rparr>)" for u
    using assms(1) tables_wf_replace [OF _ Some, of E _ _ "s\<lparr>st_use_count := u, st_last_used := now\<rparr>"] by (simp add: cache_wf_def)
  have del: "cache_wf E (c\<lparr>ca_statements := AList.delete i (ca_statements c)\<rparr>)"
    using assms(1) by (simp add: cache_wf_def tables_wf_delete)
  from assms show ?thesis
    by (auto simp: execute_prepared_def Some Let_def upd del split: option.splits bool.splits if_splits)
qed

lemma cache_plan_wf:
  assumes "cache_wf E c"
  shows "cache_wf E (cache_plan c i plan)"
proof (cases "map_of (ca_statements c) i")
  case (Some s)
  with assms tables_wf_replace [OF _ Some, of E _ _ "s\<lparr>st_cached_physical_plan := Some plan\<rparr>"] show ?thesis
    by (simp add: cache_plan_def cache_wf_def)
qed (simp add: cache_plan_def assms)

lemma evict_expired_wf:
  assumes "cache_wf E c" "evict_expired E ord now c = Some (c', n)"
  shows "cache_wf E c'"
proof (cases "ttl_duration E c")
  case (Some ttl)
  have "cache_wf E (fst (the (evict_expired E ord now c)))"
    by (simp add: evict_expired_def Some Let_def foldl_remove_wf assms(1))
  then show ?thesis by (simp add: assms(2))
qed (use assms(2) in \<open>simp add: evict_expired_def\<close>)

text \<open>The operations as values, and what a client sees of a cache after a sequence of them.\<close>

datatype ('f, 'g) CacheOp =
    OpPrepare int string LogicalPlan
  | OpGet int PreparedId
  | OpExecute int PreparedId "(string \<times> ('f, 'g) ParamValue) list"
  | OpInvalidate PreparedId
  | OpInvalidateAll
  | OpLookup string
  | OpCachePlan PreparedId "'f PhysicalPlan"
  | OpEvictExpired int
  | OpEvictLru

definition after_panic :: "'f PlanCache \<Rightarrow> ('f PlanCache \<times> 'r) option \<Rightarrow> 'f PlanCache" where
  "after_panic c r = (case r of Some (c', _) \<Rightarrow> c' | None \<Rightarrow> c)"

fun cache_step ::
  "('f, 'z) cache_env_scheme \<Rightarrow> ('f statements \<Rightarrow> 'f statements) \<Rightarrow> 'f PlanCache \<Rightarrow> ('f, 'g) CacheOp \<Rightarrow> 'f PlanCache" where
  "cache_step E ord c (OpPrepare now q p) = fst (prepare E ord now c q p)"
| "cache_step E ord c (OpGet now i) = after_panic c (get E now c i)"
| "cache_step E ord c (OpExecute now i params) = after_panic c (execute_prepared E now c i params)"
| "cache_step E ord c (OpInvalidate i) = fst (invalidate E c i)"
| "cache_step E ord c OpInvalidateAll = invalidate_all c"
| "cache_step E ord c (OpLookup q) = fst (lookup_by_query E c q)"
| "cache_step E ord c (OpCachePlan i p) = cache_plan c i p"
| "cache_step E ord c (OpEvictExpired now) = after_panic c (evict_expired E ord now c)"
| "cache_step E ord c OpEvictLru = fst (evict_lru E ord c)"

lemma after_panic_wf:
  assumes "cache_wf E c" and "\<And>c' x. r = Some (c', x) \<Longrightarrow> cache_wf E c'"
  shows "cache_wf E (after_panic c r)"
proof (cases r)
  case (Some p)
  with assms(2) [of "fst p" "snd p"] show ?thesis by (simp add: after_panic_def case_prod_unfold)
qed (simp add: after_panic_def assms(1))

lemma cache_step_wf:
  assumes "cache_wf E c" and ord: "\<And>xs. mset (ord xs) = mset xs"
  shows "cache_wf E (cache_step E ord c op)"
proof (cases op)
  case (OpPrepare now q p)
  then show ?thesis using prepare_wf [OF assms] by simp
next
  case (OpGet now i)
  then show ?thesis by (simp add: after_panic_wf [OF assms(1) get_wf [OF assms(1)]])
next
  case (OpExecute now i params)
  then show ?thesis by (simp add: after_panic_wf [OF assms(1) execute_prepared_wf [OF assms(1)]])
next
  case (OpInvalidate i)
  then show ?thesis using remove_statement_wf [OF assms(1)] assms(1)
    by (cases "map_of (ca_statements c) i") (simp_all add: invalidate_def)
next
  case OpInvalidateAll
  then show ?thesis by (simp add: invalidate_all_def cache_wf_def tables_wf_def)
next
  case (OpLookup q)
  with assms(1) show ?thesis by (cases "ca_fingerprints c (fingerprint E q)") (simp_all add: lookup_by_query_def)
next
  case (OpCachePlan i p)
  then show ?thesis using cache_plan_wf [OF assms(1)] by simp
next
  case (OpEvictExpired now)
  then show ?thesis by (simp add: after_panic_wf [OF assms(1) evict_expired_wf [OF assms(1)]])
next
  case OpEvictLru
  then show ?thesis using evict_lru_inner_wf [OF assms] assms(1) by (simp add: evict_lru_def)
qed

section \<open>What the cache promises\<close>

text \<open>C32: the cache stays consistent and bounded.  After any sequence of operations, in any iteration order of its map,
  every statement is kept under the fingerprint of its query with the parameters of the query and is found by
  the fingerprint index, the index never points at another query, and there are at most \<open>max_entries\<close>
  statements (one if \<open>max_entries\<close> is 0).
\<close>

theorem plan_cache_consistent:
  assumes "\<And>xs. mset (ord xs) = mset xs"
  shows "cache_wf E (foldl (cache_step E ord) (PlanCache_new config) ops)"
proof (induction ops rule: rev_induct)
  case Nil
  show ?case by (simp add: PlanCache_new_wf)
next
  case (snoc op ops)
  then show ?case by (simp add: cache_step_wf assms)
qed

lemma remove_statement_statements:
  "map_of (ca_statements (remove_statement E i c)) = (map_of (ca_statements c))(i := None)"
  by (cases "map_of (ca_statements c) i") (auto simp: remove_statement_def delete_conv')

text \<open>preparing a new query in a full cache evicts a least recently used statement and nothing else.
\<close>

theorem prepare_evicts_least_recent:
  assumes wf: "cache_wf E c" and ord: "\<And>xs. mset (ord xs) = mset xs"
    and full: "cc_max_entries (ca_config c) \<le> length (ca_statements c)" "ca_statements c \<noteq> []"
    and new: "map_of (ca_statements c) (PreparedId (fingerprint E query)) = None"
  shows "\<exists>i s. map_of (ca_statements c) i = Some s
    \<and> (\<forall>j t. map_of (ca_statements c) j = Some t \<longrightarrow> st_last_used s \<le> st_last_used t)
    \<and> map_of (ca_statements (fst (prepare E ord now c query plan)))
        = (map_of (ca_statements c))(i := None, PreparedId (fingerprint E query) \<mapsto> new_statement E now query plan)"
proof -
  have d: "distinct (map fst (ca_statements c))" using wf by (simp add: cache_wf_def tables_wfD)
  obtain i s where i: "map_of (ca_statements c) i = Some s"
    and least: "\<And>j t. map_of (ca_statements c) j = Some t \<Longrightarrow> st_last_used s \<le> st_last_used t"
    and e: "evict_lru_inner E ord c = (bump_generation (bump_eviction 1 (remove_statement E i c)), 1)"
    by (rule evict_lru_inner_cases [OF d full(2) ord, where E = E]) (rule that)
  have "map_of (ca_statements (fst (prepare E ord now c query plan)))
      = (map_of (ca_statements c))(i := None, PreparedId (fingerprint E query) \<mapsto> new_statement E now query plan)"
    by (simp add: prepare_absent [OF new] Let_def full(1) e update_conv' remove_statement_statements)
  with i least show ?thesis by blast
qed

lemma prepare_present:
  assumes "map_of (ca_statements c) (PreparedId (fingerprint E query)) = Some s"
  shows "prepare E ord now c query plan =
    (bump_generation (c\<lparr>ca_statements := AList.update (PreparedId (fingerprint E query)) (s\<lparr>st_last_used := now\<rparr>) (ca_statements c)\<rparr>),
     PreparedId (fingerprint E query))"
  by (simp add: prepare_def assms Let_def)

lemma prepare_config: "ca_config (fst (prepare E ord now c query plan)) = ca_config c"
proof (cases "map_of (ca_statements c) (PreparedId (fingerprint E query))")
  case None
  then show ?thesis by (simp add: prepare_absent Let_def)
next
  case (Some s)
  then show ?thesis by (simp add: prepare_present)
qed

lemma prepare_keeps_new:
  assumes "map_of (ca_statements c) (PreparedId (fingerprint E query)) = None"
  shows "map_of (ca_statements (fst (prepare E ord now c query plan))) (PreparedId (fingerprint E query))
      = Some (new_statement E now query plan)"
    and "ca_fingerprints (fst (prepare E ord now c query plan)) (fingerprint E query) = Some (PreparedId (fingerprint E query))"
  by (simp_all add: prepare_absent [OF assms] Let_def update_conv')

text \<open>what is prepared can be used.  After preparing a query that was not in the cache, \<open>get\<close> with the returned identifier
  gives the statement with that query and plan until the time to live is over, and any text with the same
  normal form is found under that identifier.
\<close>

theorem prepare_then_get:
  assumes "map_of (ca_statements c) (PreparedId (fingerprint E query)) = None"
    and "prepare E ord now c query plan = (c', i)"
    and "ttl_duration E c = Some ttl" and "later - now \<le> ttl"
    and "normalize_query E query' = normalize_query E query"
  shows "get E later c' i = Some (bump_hit c', Some (new_statement E now query plan))
    \<and> lookup_by_query E c' query' = (bump_hit c', Some i)"
proof -
  have i: "i = PreparedId (fingerprint E query)"
    using assms(2) by (simp add: prepare_absent [OF assms(1)] Let_def)
  have c': "c' = fst (prepare E ord now c query plan)" using assms(2) by simp
  have "ttl_duration E c' = Some ttl" using assms(3) by (simp add: ttl_duration_def c' prepare_config)
  then have "is_expired E later c' (new_statement E now query plan) = Some False"
    using assms(4) by (simp add: is_expired_def new_statement_def)
  moreover have "map_of (ca_statements c') i = Some (new_statement E now query plan)"
    unfolding c' i by (rule prepare_keeps_new(1) [OF assms(1)])
  moreover have "ca_fingerprints c' (fingerprint E query') = Some i"
    using prepare_keeps_new(2) [OF assms(1)] assms(5) unfolding c' i by (simp add: fingerprint_def)
  ultimately show ?thesis by (simp add: get_def lookup_by_query_def)
qed

lemma extract_loop_distinct: "distinct params \<Longrightarrow> distinct (extract_loop E params chars)"
  by (induction E params chars rule: extract_loop.induct) (auto simp: Let_def)

lemma extract_parameters_distinct: "distinct (extract_parameters E query)"
  by (simp add: extract_parameters_def extract_loop_distinct)

lemma sort_eq_iff_set:
  fixes xs ys :: "'a::linorder list"
  assumes "distinct xs" "distinct ys"
  shows "sort xs = sort ys \<longleftrightarrow> set xs = set ys"
  using assms by (metis set_eq_iff_mset_eq_distinct mset_sort properties_for_sort sorted_sort)

text \<open>\<open>execute_prepared\<close> in every case.  An unknown statement is \<open>NotFound\<close>; one past its time to live is \<open>Expired\<close> and removed;
  a statement with parameters is refused unless exactly its parameters are given; otherwise the statement is
  returned and kept with its use counted, and every other statement stays as it is.
\<close>

theorem execute_prepared_exact:
  assumes wf: "cache_wf E c" and "distinct (map fst params)" and ttl: "ttl_duration E c = Some ttl"
    and "execute_prepared E now c i params = Some (c', r)"
  shows "case map_of (ca_statements c) i of
      None \<Rightarrow> r = Inl (NotFound (as_str i)) \<and> c' = c
    | Some s \<Rightarrow>
        if ttl < now - st_created_at s
        then r = Inl (Expired (as_str i)) \<and> map_of (ca_statements c') = (map_of (ca_statements c))(i := None)
        else if st_parameter_names s \<noteq> [] \<and> set (st_parameter_names s) \<noteq> set (map fst params)
        then r = Inl (ParameterMismatch (st_parameter_names s) (map fst params)) \<and> c' = c
        else (let s' = s\<lparr>st_use_count := st_use_count s + 1, st_last_used := now\<rparr>
              in r = Inr s' \<and> map_of (ca_statements c') = (map_of (ca_statements c))(i \<mapsto> s'))"
proof (cases "map_of (ca_statements c) i")
  case None
  with assms(4) show ?thesis by (simp add: execute_prepared_def)
next
  case (Some s)
  then have "st_parameter_names s = extract_parameters E (st_original_query s)"
    using wf tables_wfD(2) unfolding cache_wf_def statement_ok_def by blast
  then have names: "sort (st_parameter_names s) = sort (map fst params) \<longleftrightarrow> set (st_parameter_names s) = set (map fst params)"
    using sort_eq_iff_set [OF extract_parameters_distinct assms(2)] by metis
  have exp: "is_expired E now c s = Some (ttl < now - st_created_at s)" by (simp add: is_expired_def ttl)
  show ?thesis
  proof (cases "ttl < now - st_created_at s")
    case True
    then have "execute_prepared E now c i params
        = Some (c\<lparr>ca_statements := AList.delete i (ca_statements c)\<rparr>, Inl (Expired (as_str i)))"
      by (simp add: execute_prepared_def Some exp)
    with assms(4) have "c' = c\<lparr>ca_statements := AList.delete i (ca_statements c)\<rparr>" "r = Inl (Expired (as_str i))" by simp_all
    with True show ?thesis by (simp add: Some delete_conv')
  next
    case unexpired: False
    show ?thesis
    proof (cases "st_parameter_names s \<noteq> [] \<and> set (st_parameter_names s) \<noteq> set (map fst params)")
      case True
      then have "execute_prepared E now c i params = Some (c, Inl (ParameterMismatch (st_parameter_names s) (map fst params)))"
        unfolding names [symmetric] using unexpired by (simp add: execute_prepared_def Some exp)
      with assms(4) have "c' = c" "r = Inl (ParameterMismatch (st_parameter_names s) (map fst params))" by simp_all
      with True unexpired show ?thesis by (simp add: Some)
    next
      case False
      define s' where "s' = s\<lparr>st_use_count := st_use_count s + 1, st_last_used := now\<rparr>"
      from False have "execute_prepared E now c i params
          = Some (bump_generation (bump_hit (c\<lparr>ca_statements := AList.update i s' (ca_statements c)\<rparr>)), Inr s')"
        unfolding names [symmetric] using unexpired by (simp only: execute_prepared_def Some exp option.case s'_def Let_def bool.case if_False)
      with assms(4) have "ca_statements c' = AList.update i s' (ca_statements c)" "r = Inr s'" by auto
      with False unexpired show ?thesis by (simp only: Some option.case if_False Let_def update_conv' s'_def simp_thms)
    qed
  qed
qed

section \<open>Examples\<close>

definition demo_cache_env :: "rat cache_env" where
  "demo_cache_env = plan_env.extend rat_env
     (cache_env.fields (\<lambda>bs. bs) (\<lambda>c. c \<in> set (map (\<lambda>x. [x]) ''abcdefghijklmnopqrstuvwxyz0123456789'')) (\<lambda>s. Some (s * 1000000000)))"

definition demo_plan :: LogicalPlan where
  "demo_plan = \<lparr>lp_source = HexadSource, lp_nodes = [], lp_post_processing = []\<rparr>"

definition demo_config :: CacheConfig where
  "demo_config = CacheConfig_default\<lparr>cc_max_entries := 1, cc_ttl_seconds := 1\<rparr>"

definition demo_query :: string where
  "demo_query = ''FROM $t''"

definition demo_cache :: "rat PlanCache" where
  "demo_cache = fst (prepare demo_cache_env id 0 (PlanCache_new demo_config) demo_query demo_plan)"

lemma demo_ttl:
  "ttl_duration demo_cache_env (PlanCache_new demo_config) = Some 1000000000"
  "ttl_duration demo_cache_env demo_cache = Some 1000000000"
  by (simp_all add: ttl_duration_def PlanCache_new_def demo_config_def CacheConfig_default_def demo_cache_env_def
      plan_env.defs cache_env.defs demo_cache_def prepare_config)

lemma demo_cache_config: "ca_config demo_cache = demo_config"
  by (simp add: demo_cache_def prepare_config PlanCache_new_def)

lemma demo_cache_wf: "cache_wf demo_cache_env demo_cache"
  unfolding demo_cache_def by (rule prepare_wf [OF PlanCache_new_wf]) simp

lemma demo_prepared:
  "map_of (ca_statements demo_cache) (PreparedId (fingerprint demo_cache_env demo_query))
    = Some (new_statement demo_cache_env 0 demo_query demo_plan)"
  unfolding demo_cache_def by (rule prepare_keeps_new(1)) (simp add: PlanCache_new_def)

lemma demo_env_simps:
  "pk_is_alphanumeric demo_cache_env = (\<lambda>c. c \<in> set (map (\<lambda>x. [x]) ''abcdefghijklmnopqrstuvwxyz0123456789''))"
  "pf_to_lowercase demo_cache_env = to_ascii_lowercase" "pf_to_uppercase demo_cache_env = to_ascii_uppercase"
  "pk_sha256 demo_cache_env = (\<lambda>bs. bs)"
  by (simp_all add: demo_cache_env_def rat_env_def plan_env.defs cache_env.defs)

lemma demo_parameters: "extract_parameters demo_cache_env demo_query = [''$t'']"
proof -
  have "utf8_chars demo_query = [''F'', ''R'', ''O'', ''M'', '' '', ''$'', ''t'']" by code_simp
  then show ?thesis by (simp add: extract_parameters_def word_char_def demo_env_simps)
qed

lemma demo_normal_forms:
  "normalize_query demo_cache_env demo_query = ''from $t''" "normalize_query demo_cache_env ''from  $t'' = ''from $t''"
  "normalize_query demo_cache_env ''x'' = ''x''"
proof -
  have tokens: "split_whitespace demo_query = [''FROM'', ''$t'']" "split_whitespace ''from  $t'' = [''from'', ''$t'']"
    "split_whitespace ''x'' = [''x'']"
    by code_simp+
  have upper: "to_ascii_uppercase ''FROM'' = ''FROM''" "to_ascii_uppercase ''from'' = ''FROM''" "to_ascii_uppercase ''$t'' = ''$T''"
    "to_ascii_uppercase ''x'' = ''X''" "to_ascii_lowercase ''FROM'' = ''from''" "to_ascii_lowercase ''from'' = ''from''"
    by code_simp+
  have "normalize_token demo_cache_env ''FROM'' = ''from''" "normalize_token demo_cache_env ''from'' = ''from''"
    "normalize_token demo_cache_env ''$t'' = ''$t''" "normalize_token demo_cache_env ''x'' = ''x''"
    by (simp_all add: normalize_token_def demo_env_simps upper query_keywords_def)
  then show "normalize_query demo_cache_env demo_query = ''from $t''" "normalize_query demo_cache_env ''from  $t'' = ''from $t''"
    "normalize_query demo_cache_env ''x'' = ''x''"
    by (simp_all add: normalize_query_def tokens)
qed

theorem plan_cache_consistent_witness:
  "cache_wf demo_cache_env (foldl (cache_step demo_cache_env rev) (PlanCache_new demo_config)
     [OpPrepare 0 demo_query demo_plan, OpPrepare 1 ''SELECT'' demo_plan, OpEvictLru :: (rat, rat) CacheOp])"
  by (rule plan_cache_consistent) simp

theorem prepare_evicts_least_recent_witness:
  "map_of (ca_statements (fst (prepare demo_cache_env rev 5 demo_cache ''x'' demo_plan)))
    (PreparedId (fingerprint demo_cache_env demo_query)) = None"
proof -
  let ?i = "PreparedId (fingerprint demo_cache_env demo_query)"
  let ?j = "PreparedId (fingerprint demo_cache_env ''x'')"
  have ne: "?j \<noteq> ?i" by (simp add: fingerprint_def hex_string_inject demo_env_simps demo_normal_forms)
  have stmts: "ca_statements demo_cache = [(?i, new_statement demo_cache_env 0 demo_query demo_plan)]"
    by (simp add: demo_cache_def prepare_absent PlanCache_new_def Let_def demo_config_def evict_lru_inner_def)
  have new: "map_of (ca_statements demo_cache) ?j = None" using ne by (simp add: stmts)
  have "cc_max_entries (ca_config demo_cache) \<le> length (ca_statements demo_cache)"
    by (simp add: stmts demo_cache_config demo_config_def)
  from prepare_evicts_least_recent [OF demo_cache_wf _ this _ new, of rev 5 demo_plan]
  obtain i s where i: "map_of (ca_statements demo_cache) i = Some s"
    and eq: "map_of (ca_statements (fst (prepare demo_cache_env rev 5 demo_cache ''x'' demo_plan)))
        = (map_of (ca_statements demo_cache))(i := None, ?j \<mapsto> new_statement demo_cache_env 5 ''x'' demo_plan)"
    by (auto simp: stmts)
  from i have "i = ?i" by (simp add: stmts split: if_splits)
  then show ?thesis using ne by (simp add: eq)
qed

theorem prepare_then_get_witness:
  "get demo_cache_env 1000000000 demo_cache (PreparedId (fingerprint demo_cache_env demo_query))
     = Some (bump_hit demo_cache, Some (new_statement demo_cache_env 0 demo_query demo_plan))
   \<and> lookup_by_query demo_cache_env demo_cache ''from  $t''
     = (bump_hit demo_cache, Some (PreparedId (fingerprint demo_cache_env demo_query)))"
proof (rule prepare_then_get [where ttl = 1000000000])
  show "prepare demo_cache_env id 0 (PlanCache_new demo_config) demo_query demo_plan
      = (demo_cache, PreparedId (fingerprint demo_cache_env demo_query))"
    by (simp add: demo_cache_def prepare_absent PlanCache_new_def Let_def)
  show "normalize_query demo_cache_env ''from  $t'' = normalize_query demo_cache_env demo_query"
    by (simp add: demo_normal_forms)
qed (simp_all add: PlanCache_new_def demo_ttl [unfolded PlanCache_new_def])

theorem execute_prepared_exact_witness:
  "\<exists>c'. execute_prepared demo_cache_env 1 demo_cache (PreparedId (fingerprint demo_cache_env demo_query))
      [(''$t'', NullValue :: (rat, rat) ParamValue)]
    = Some (c', Inr ((new_statement demo_cache_env 0 demo_query demo_plan)\<lparr>st_use_count := 1, st_last_used := 1\<rparr>))"
proof -
  let ?i = "PreparedId (fingerprint demo_cache_env demo_query)"
  let ?p = "[(''$t'', NullValue :: (rat, rat) ParamValue)]"
  have "execute_prepared demo_cache_env 1 demo_cache ?i ?p \<noteq> None"
    by (simp add: execute_prepared_def demo_prepared is_expired_def demo_ttl new_statement_def Let_def)
  then obtain c' r where e: "execute_prepared demo_cache_env 1 demo_cache ?i ?p = Some (c', r)" by auto
  have "distinct (map fst ?p)" by simp
  from execute_prepared_exact [OF demo_cache_wf this demo_ttl(2) e]
  show ?thesis by (simp add: demo_prepared e) (simp add: new_statement_def demo_parameters Let_def)
qed

section \<open>Where the cache falls short\<close>

text \<open>Preparing a query whose statement has expired returns an identifier that \<open>get\<close> refuses.\<close>

lemma prepare_keeps_expired:
  assumes "map_of (ca_statements c) (PreparedId (fingerprint E query)) = Some s"
    and "ttl_duration E c = Some ttl" and "ttl < now - st_created_at s"
  shows "\<exists>c'. prepare E ord now c query plan = (c', PreparedId (fingerprint E query))
    \<and> get E now c' (PreparedId (fingerprint E query)) = Some (bump_miss c', None)"
  using assms
  by (simp add: prepare_present get_def update_conv' is_expired_def ttl_duration_def)

text \<open>A statement that \<open>execute_prepared\<close> finds expired is removed but stays in the index.\<close>

lemma expired_execution_leaves_index:
  assumes "cache_wf E c" "map_of (ca_statements c) i = Some s" "i = PreparedId (fingerprint E query)"
    and "ttl_duration E c = Some ttl" "ttl < now - st_created_at s"
  shows "\<exists>c'. execute_prepared E now c i params = Some (c', Inl (Expired (as_str i)))
    \<and> snd (lookup_by_query E c' query) = Some i \<and> map_of (ca_statements c') i = None"
proof -
  have "statement_ok E (ca_fingerprints c) i s"
    using assms(1) unfolding cache_wf_def by (rule tables_wfD(2)) (rule assms(2))
  then have "ca_fingerprints c (fingerprint E query) = Some i" unfolding statement_ok_def using assms(3) by auto
  then show ?thesis using assms(2, 4, 5)
    by (simp add: execute_prepared_def is_expired_def lookup_by_query_def delete_conv')
qed

text \<open>White space inside a string literal is collapsed too, so two different queries share a plan.\<close>

lemma literals_share_fingerprint:
  "fingerprint E (''WHERE title = '' @ quote2 ''a  b'') = fingerprint E (''WHERE title = '' @ quote2 ''a b'')"
proof -
  have "split_whitespace (''WHERE title = '' @ quote2 ''a  b'') = split_whitespace (''WHERE title = '' @ quote2 ''a b'')"
    by code_simp
  then show ?thesis by (simp only: fingerprint_def normalize_query_def)
qed

end
