(* ===== verification/Slow_Query.thy ===== *)
theory Slow_Query
  imports Planner
begin

text \<open>
  The slow-query log (\<open>verisim-planner/src/slow_query.rs\<close>): a bounded buffer of the executions that took at least the
  configured time or touched at least the configured number of modalities, with their bottleneck, and a
  summary.  The iteration order of the hash map in \<open>summary\<close> is the argument \<open>ord\<close>; the emitted log event is left out.
\<close>

section \<open>Types\<close>

record 'f SlowQueryConfig =
  sq_threshold_ms :: 'f
  sq_max_entries :: nat
  sq_enabled :: bool
  sq_multi_modality_threshold :: nat

definition SlowQueryConfig_default :: "('f, 'z) plan_env_scheme \<Rightarrow> 'f SlowQueryConfig" where
  "SlowQueryConfig_default E =
    \<lparr>sq_threshold_ms = pf_dec E 1000 1, sq_max_entries = 1000, sq_enabled = True, sq_multi_modality_threshold = 0\<rparr>"

record 'f BottleneckInfo =
  bi_modality :: Modality
  bi_operation :: string
  bi_time_ms :: 'f
  bi_percentage :: 'f

record ('f, 'ts) SlowQueryEntry =
  se_timestamp :: 'ts
  se_query_text :: "string option"
  se_actual_ms :: 'f
  se_estimated_ms :: 'f
  se_slowdown_ratio :: 'f
  se_strategy :: string
  se_modalities :: "Modality list"
  se_rows_returned :: nat
  se_bottleneck :: "'f BottleneckInfo option"

record ('f, 'ts) SlowQueryLog =
  sl_config :: "'f SlowQueryConfig"
  sl_entries :: "('f, 'ts) SlowQueryEntry list"

record 'f SlowQuerySummary =
  sm_total_count :: nat
  sm_avg_ms :: 'f
  sm_max_ms :: 'f
  sm_min_ms :: 'f
  sm_avg_slowdown_ratio :: 'f
  sm_top_bottleneck_modality :: "Modality option"

definition SlowQueryLog_new :: "'f SlowQueryConfig \<Rightarrow> ('f, 'ts) SlowQueryLog" where
  "SlowQueryLog_new config = \<lparr>sl_config = config, sl_entries = []\<rparr>"

section \<open>Recording\<close>

text \<open>\<open>max_by\<close>: the last of the greatest; incomparable values count as equal.\<close>

definition max_by :: "('a \<Rightarrow> 'a \<Rightarrow> bool) \<Rightarrow> 'a list \<Rightarrow> 'a option" where
  "max_by gt xs = (case xs of [] \<Rightarrow> None | x # xs' \<Rightarrow> Some (foldl (\<lambda>acc y. if gt acc y then acc else y) x xs'))"

definition find_bottleneck ::
  "('f, 'z) plan_env_scheme \<Rightarrow> 'f \<Rightarrow> (Modality \<times> 'f \<times> nat) list \<Rightarrow> 'f BottleneckInfo option" where
  "find_bottleneck E actual_ms step_times =
    map_option (\<lambda>(modality, time_ms, _).
        \<lparr>bi_modality = modality, bi_operation = Modality_display modality @ '' query'', bi_time_ms = time_ms,
         bi_percentage =
           (if fo_lt E (pf_dec E 0 1) actual_ms then fo_mul E (fo_div E time_ms actual_ms) (pf_dec E 1000 1) else pf_dec E 0 1)\<rparr>)
      (max_by (\<lambda>a b. fo_lt E (fst (snd b)) (fst (snd a))) step_times)"

definition slow_entry ::
  "('f, 'z) plan_env_scheme \<Rightarrow> 'ts \<Rightarrow> string option \<Rightarrow> 'f \<Rightarrow> 'f PhysicalPlan \<Rightarrow> (Modality \<times> 'f \<times> nat) list \<Rightarrow> ('f, 'ts) SlowQueryEntry" where
  "slow_entry E now query_text actual_ms plan step_times =
    (let estimated_ms = ce_time_ms (pp_total_cost plan)
     in \<lparr>se_timestamp = now, se_query_text = query_text, se_actual_ms = actual_ms, se_estimated_ms = estimated_ms,
         se_slowdown_ratio = (if fo_lt E (pf_dec E 0 1) estimated_ms then fo_div E actual_ms estimated_ms else pf_infinity E),
         se_strategy = (case pp_strategy plan of Sequential \<Rightarrow> ''sequential'' | Parallel \<Rightarrow> ''parallel''),
         se_modalities = map ps_modality (pp_steps plan),
         se_rows_returned = sum_list (map (\<lambda>(_, _, r). r) step_times) mod 2 ^ 64,
         se_bottleneck = find_bottleneck E actual_ms step_times\<rparr>)"

text \<open>The loop \<open>while entries.len() > max_entries { entries.pop_front(); }\<close>.\<close>

function trim_front :: "nat \<Rightarrow> 'a list \<Rightarrow> 'a list" where
  "trim_front max_entries entries = (if max_entries < length entries then trim_front max_entries (tl entries) else entries)"
  by pat_completeness auto
termination by (relation "measure (length \<circ> snd)") auto

declare trim_front.simps [simp del]

definition slow_record ::
  "('f, 'z) plan_env_scheme \<Rightarrow> 'ts \<Rightarrow> ('f, 'ts) SlowQueryLog \<Rightarrow> string option \<Rightarrow> 'f \<Rightarrow> 'f PhysicalPlan \<Rightarrow> (Modality \<times> 'f \<times> nat) list
    \<Rightarrow> ('f, 'ts) SlowQueryLog \<times> bool" where
  "slow_record E now slog query_text actual_ms plan step_times =
    (let config = sl_config slog in
     if \<not> sq_enabled config then (slog, False)
     else
       (let is_slow = fo_le E (sq_threshold_ms config) actual_ms;
            is_multi = (0 < sq_multi_modality_threshold config \<and> sq_multi_modality_threshold config \<le> length (pp_steps plan))
        in if \<not> is_slow \<and> \<not> is_multi then (slog, False)
           else (slog\<lparr>sl_entries := trim_front (sq_max_entries config)
                      (sl_entries slog @ [slow_entry E now query_text actual_ms plan step_times])\<rparr>, True)))"

section \<open>Reading\<close>

definition slow_recent :: "('f, 'ts) SlowQueryLog \<Rightarrow> nat \<Rightarrow> ('f, 'ts) SlowQueryEntry list" where
  "slow_recent slog limit = take limit (rev (sl_entries slog))"

definition slow_all :: "('f, 'ts) SlowQueryLog \<Rightarrow> ('f, 'ts) SlowQueryEntry list" where
  "slow_all slog = sl_entries slog"

definition slow_count :: "('f, 'ts) SlowQueryLog \<Rightarrow> nat" where
  "slow_count slog = length (sl_entries slog)"

definition slow_clear :: "('f, 'ts) SlowQueryLog \<Rightarrow> ('f, 'ts) SlowQueryLog" where
  "slow_clear slog = slog\<lparr>sl_entries := []\<rparr>"

definition slow_set_config :: "('f, 'ts) SlowQueryLog \<Rightarrow> 'f SlowQueryConfig \<Rightarrow> ('f, 'ts) SlowQueryLog" where
  "slow_set_config slog config = slog\<lparr>sl_config := config\<rparr>"

fun count_modality :: "Modality \<Rightarrow> (Modality \<times> u64) list \<Rightarrow> (Modality \<times> u64) list" where
  "count_modality m [] = [(m, 1)]"
| "count_modality m ((m', n) # cs) = (if m' = m then (m', n + 1) # cs else (m', n) # count_modality m cs)"

definition modality_counts :: "('f, 'ts) SlowQueryEntry list \<Rightarrow> (Modality \<times> u64) list" where
  "modality_counts entries =
    foldl (\<lambda>counts entry. case se_bottleneck entry of Some b \<Rightarrow> count_modality (bi_modality b) counts | None \<Rightarrow> counts) [] entries"

definition slow_summary ::
  "('f, 'z) plan_env_scheme \<Rightarrow> ((Modality \<times> u64) list \<Rightarrow> (Modality \<times> u64) list) \<Rightarrow> ('f, 'ts) SlowQueryLog \<Rightarrow> 'f SlowQuerySummary" where
  "slow_summary E ord slog =
    (let entries = sl_entries slog in
     if entries = [] then
       \<lparr>sm_total_count = 0, sm_avg_ms = pf_dec E 0 1, sm_max_ms = pf_dec E 0 1, sm_min_ms = pf_dec E 0 1,
        sm_avg_slowdown_ratio = pf_dec E 0 1, sm_top_bottleneck_modality = None\<rparr>
     else
       (let total = length entries
        in \<lparr>sm_total_count = total,
            sm_avg_ms = fo_div E (fo_sum E (map se_actual_ms entries)) (pf_of_nat E total),
            sm_max_ms = foldl (pf_max E) (pf_dec E 0 1) (map se_actual_ms entries),
            sm_min_ms = foldl (pf_min E) (pf_infinity E) (map se_actual_ms entries),
            sm_avg_slowdown_ratio = fo_div E (fo_sum E (map se_slowdown_ratio entries)) (pf_of_nat E total),
            sm_top_bottleneck_modality = map_option fst (max_by (\<lambda>a b. snd b < snd a) (ord (modality_counts entries)))\<rparr>))"

section \<open>What is recorded\<close>

lemma trim_front_drop: "trim_front n xs = drop (length xs - n) xs"
proof (induction n xs rule: trim_front.induct)
  case (1 n xs)
  show ?case
  proof (cases "n < length xs")
    case True
    then obtain y ys where xs: "xs = y # ys" by (cases xs) auto
    from 1 [OF True] True show ?thesis by (subst trim_front.simps) (simp add: xs Suc_diff_le)
  qed (simp add: trim_front.simps)
qed

lemma drop_keep_last: "drop (length (drop (length xs - n) xs @ [x]) - n) (drop (length xs - n) xs @ [x]) = drop (length (xs @ [x]) - n) (xs @ [x])"
  by (cases "n = 0"; cases "n \<le> length xs") (auto simp: Suc_diff_le)

text \<open>An execution as \<open>record\<close> gets it: the clock reading, the query text, the time, the plan and the step times.\<close>

type_synonym ('f, 'ts) execution = "'ts \<times> string option \<times> 'f \<times> 'f PhysicalPlan \<times> (Modality \<times> 'f \<times> nat) list"

definition record_one ::
  "('f, 'z) plan_env_scheme \<Rightarrow> ('f, 'ts) SlowQueryLog \<Rightarrow> ('f, 'ts) execution \<Rightarrow> ('f, 'ts) SlowQueryLog" where
  "record_one E slog = (\<lambda>(now, q, ms, plan, steps). fst (slow_record E now slog q ms plan steps))"

definition should_log :: "('f, 'z) plan_env_scheme \<Rightarrow> 'f SlowQueryConfig \<Rightarrow> ('f, 'ts) execution \<Rightarrow> bool" where
  "should_log E config = (\<lambda>(_, _, ms, plan, _).
    sq_enabled config \<and> (fo_le E (sq_threshold_ms config) ms
      \<or> 0 < sq_multi_modality_threshold config \<and> sq_multi_modality_threshold config \<le> length (pp_steps plan)))"

definition entry_of :: "('f, 'z) plan_env_scheme \<Rightarrow> ('f, 'ts) execution \<Rightarrow> ('f, 'ts) SlowQueryEntry" where
  "entry_of E = (\<lambda>(now, q, ms, plan, steps). slow_entry E now q ms plan steps)"

lemma record_one_effect:
  "record_one E slog x =
    (if should_log E (sl_config slog) x
     then slog\<lparr>sl_entries := drop (length (sl_entries slog @ [entry_of E x]) - sq_max_entries (sl_config slog)) (sl_entries slog @ [entry_of E x])\<rparr>
     else slog)"
  by (cases x) (simp add: record_one_def slow_record_def should_log_def entry_of_def trim_front_drop Let_def)

text \<open>the slow-query log after any sequence of executions holds, in order, exactly the newest \<open>max_entries\<close> of those
  that took at least the threshold or used at least the configured number of modalities.
\<close>

theorem slow_log_keeps_newest:
  "sl_entries (foldl (record_one E) (SlowQueryLog_new config) xs)
    = (let slow = map (entry_of E) (filter (should_log E config) xs)
       in drop (length slow - sq_max_entries config) slow)
   \<and> sl_config (foldl (record_one E) (SlowQueryLog_new config) xs) = config"
proof (induction xs rule: rev_induct)
  case Nil
  show ?case by (simp add: SlowQueryLog_new_def)
next
  case (snoc x xs)
  let ?slow = "map (entry_of E) (filter (should_log E config) xs)"
  define L where "L = foldl (record_one E) (SlowQueryLog_new config) xs"
  from snoc have entries: "sl_entries L = drop (length ?slow - sq_max_entries config) ?slow" and cfg: "sl_config L = config"
    unfolding L_def by (simp_all only: Let_def)
  have step: "foldl (record_one E) (SlowQueryLog_new config) (xs @ [x]) = record_one E L x" by (simp add: L_def)
  show ?case
  proof (cases "should_log E config x")
    case True
    then have "sl_entries (record_one E L x) = drop (length (?slow @ [entry_of E x]) - sq_max_entries config) (?slow @ [entry_of E x])"
      using drop_keep_last [of ?slow "sq_max_entries config" "entry_of E x"] by (simp only: record_one_effect cfg entries) simp
    with True show ?thesis unfolding step by (simp add: Let_def record_one_effect cfg)
  next
    case False
    then show ?thesis unfolding step by (simp add: Let_def record_one_effect cfg entries)
  qed
qed

text \<open>The bottleneck is a step no other step is slower than.\<close>

lemma max_by_greatest:
  assumes "weak_order lt" and "max_by (\<lambda>a b. lt (f b) (f a)) xs = Some x"
  shows "x \<in> set xs \<and> (\<forall>y \<in> set xs. \<not> lt (f x) (f y))"
proof -
  let ?g = "\<lambda>acc y. if lt (f y) (f acc) then acc else y"
  have "foldl ?g a ys \<in> insert a (set ys) \<and> (\<forall>y \<in> insert a (set ys). \<not> lt (f (foldl ?g a ys)) (f y))" for a ys
  proof (induction ys arbitrary: a)
    case Nil
    show ?case using weak_order_asym [OF assms(1)] by auto
  next
    case (Cons b ys)
    let ?r = "foldl ?g (?g a b) ys"
    from Cons.IH [of "?g a b"] have mem: "?r \<in> insert (?g a b) (set ys)"
      and up: "\<not> lt (f ?r) (f (?g a b))" and rest: "\<forall>y \<in> set ys. \<not> lt (f ?r) (f y)" by simp_all
    have "\<not> lt (f (?g a b)) (f a)" "\<not> lt (f (?g a b)) (f b)"
      using weak_order_asym [OF assms(1), of "f b" "f a"] weak_order_asym [OF assms(1), of "f b" "f b"]
        weak_order_asym [OF assms(1), of "f a" "f a"] by (auto split: if_splits)
    with up have "\<not> lt (f ?r) (f a)" "\<not> lt (f ?r) (f b)"
      using weak_order_le_trans [OF assms(1)] by blast+
    with mem rest show ?case by (auto split: if_splits)
  qed
  with assms(2) show ?thesis by (cases xs) (auto simp: max_by_def)
qed

end
