(* ===== verification/Rbac.thy ===== *)
theory Rbac
  imports Prelude "HOL-Library.AList"
begin

text \<open>
  Role-based access control of the API (\<open>verisim-api/src/rbac.rs\<close>; \<open>ClientIdentity\<close> and
  \<open>ClientRole\<close> of \<open>auth.rs\<close>): permissions derived from method and path, roles, entity ACLs, the
  bounded audit log, and \<open>check_access\<close>. A panic is \<open>None\<close>. The clock reading is an argument.
\<close>

section \<open>Types\<close>

datatype Permission = Read | Write | Admin | Execute

fun Permission_display :: "Permission \<Rightarrow> string" where
  "Permission_display Read = ''read''"
| "Permission_display Write = ''write''"
| "Permission_display Admin = ''admin''"
| "Permission_display Execute = ''execute''"

datatype ClientRole = RoleReader | RoleWriter | RoleAdmin

record ClientIdentity =
  ci_id :: string
  ci_role :: ClientRole

datatype Method = GET | HEAD | OPTIONS | POST | PUT | PATCH | DELETE | CONNECT | TRACE | Extension string

fun Method_display :: "Method \<Rightarrow> string" where
  "Method_display GET = ''GET''"
| "Method_display HEAD = ''HEAD''"
| "Method_display OPTIONS = ''OPTIONS''"
| "Method_display POST = ''POST''"
| "Method_display PUT = ''PUT''"
| "Method_display PATCH = ''PATCH''"
| "Method_display DELETE = ''DELETE''"
| "Method_display CONNECT = ''CONNECT''"
| "Method_display TRACE = ''TRACE''"
| "Method_display (Extension s) = s"

section \<open>Roles and policy\<close>

record RoleDefinition =
  rd_name :: string
  rd_global_permissions :: "Permission list"
  rd_modality_permissions :: "string \<rightharpoonup> Permission list"

definition has_global_permission :: "RoleDefinition \<Rightarrow> Permission \<Rightarrow> bool" where
  "has_global_permission rd permission \<longleftrightarrow> permission \<in> set (rd_global_permissions rd)"

definition has_modality_permission :: "RoleDefinition \<Rightarrow> string \<Rightarrow> Permission \<Rightarrow> bool" where
  "has_modality_permission rd modality permission =
    (if has_global_permission rd permission then True
     else case rd_modality_permissions rd modality of
            Some perms \<Rightarrow> permission \<in> set perms | None \<Rightarrow> False)"

record RbacPolicy =
  rp_roles :: "string \<rightharpoonup> RoleDefinition"
  rp_entity_acls :: "string \<rightharpoonup> (string \<times> Permission list) list"

definition RbacPolicy_default :: RbacPolicy where
  "RbacPolicy_default = \<lparr>rp_roles =
      [''reader'' \<mapsto> \<lparr>rd_name = ''reader'', rd_global_permissions = [Read, Execute], rd_modality_permissions = Map.empty\<rparr>,
       ''writer'' \<mapsto> \<lparr>rd_name = ''writer'', rd_global_permissions = [Read, Write, Execute], rd_modality_permissions = Map.empty\<rparr>,
       ''admin'' \<mapsto> \<lparr>rd_name = ''admin'', rd_global_permissions = [Read, Write, Admin, Execute], rd_modality_permissions = Map.empty\<rparr>],
     rp_entity_acls = Map.empty\<rparr>"

definition RbacPolicy_new :: RbacPolicy where
  "RbacPolicy_new = \<lparr>rp_roles = Map.empty, rp_entity_acls = Map.empty\<rparr>"

fun role_name :: "ClientRole \<Rightarrow> string" where
  "role_name RoleReader = ''reader''"
| "role_name RoleWriter = ''writer''"
| "role_name RoleAdmin = ''admin''"

definition role_for :: "RbacPolicy \<Rightarrow> ClientRole \<Rightarrow> RoleDefinition option" where
  "role_for policy client_role = rp_roles policy (role_name client_role)"

definition set_role :: "RbacPolicy \<Rightarrow> RoleDefinition \<Rightarrow> RbacPolicy" where
  "set_role policy role = policy\<lparr>rp_roles := (rp_roles policy)(rd_name role \<mapsto> role)\<rparr>"

definition add_entity_acl :: "RbacPolicy \<Rightarrow> string \<Rightarrow> string \<Rightarrow> Permission list \<Rightarrow> RbacPolicy" where
  "add_entity_acl policy entity_id client_id permissions =
    policy\<lparr>rp_entity_acls := (rp_entity_acls policy)(entity_id \<mapsto>
      (case rp_entity_acls policy entity_id of Some acls \<Rightarrow> acls | None \<Rightarrow> []) @ [(client_id, permissions)])\<rparr>"

definition check_entity_acl :: "RbacPolicy \<Rightarrow> string \<Rightarrow> string \<Rightarrow> Permission \<Rightarrow> bool" where
  "check_entity_acl policy entity_id client_id permission =
    (case rp_entity_acls policy entity_id of
       Some acls \<Rightarrow> list_ex (\<lambda>(cid, perms). cid = client_id \<and> permission \<in> set perms) acls
     | None \<Rightarrow> False)"

section \<open>The audit log\<close>

datatype AccessDecision = Allowed | Denied

record AuditEntry =
  ae_timestamp :: u64
  ae_client_id :: string
  ae_client_role :: string
  ae_resource_path :: string
  ae_method :: string
  ae_required_permission :: Permission
  ae_decision :: AccessDecision
  ae_reason :: "string option"

record AuditLog =
  al_entries :: "AuditEntry list"
  al_max_entries :: nat

definition AuditLog_new :: "nat \<Rightarrow> AuditLog" where
  "AuditLog_new max_entries = \<lparr>al_entries = [], al_max_entries = max_entries\<rparr>"

text \<open>\<open>Vec::remove(0)\<close> panics on an empty vector.\<close>

definition AuditLog_record :: "AuditLog \<Rightarrow> AuditEntry \<Rightarrow> AuditLog option" where
  "AuditLog_record log entry =
    (if al_max_entries log \<le> length (al_entries log)
     then (case al_entries log of
             [] \<Rightarrow> None
           | _ # rest \<Rightarrow> Some (log\<lparr>al_entries := rest @ [entry]\<rparr>))
     else Some (log\<lparr>al_entries := al_entries log @ [entry]\<rparr>))"

definition AuditLog_len :: "AuditLog \<Rightarrow> nat" where
  "AuditLog_len log = length (al_entries log)"

definition AuditLog_clear :: "AuditLog \<Rightarrow> AuditLog" where
  "AuditLog_clear log = log\<lparr>al_entries := []\<rparr>"

definition AuditLog_default :: AuditLog where
  "AuditLog_default = AuditLog_new 10000"

record RbacState =
  rs_policy :: RbacPolicy
  rs_audit_log :: AuditLog

definition RbacState_new :: "RbacPolicy \<Rightarrow> RbacState" where
  "RbacState_new policy = \<lparr>rs_policy = policy, rs_audit_log = AuditLog_default\<rparr>"

record AuthzError =
  az_error :: string
  az_code :: u16
  az_required_permission :: string

section \<open>Permissions from requests\<close>

definition str_starts_with :: "string \<Rightarrow> string \<Rightarrow> bool" where
  "str_starts_with s p \<longleftrightarrow> take (length p) s = p"

definition is_admin_path :: "Method \<Rightarrow> string \<Rightarrow> bool" where
  "is_admin_path meth path \<longleftrightarrow>
     str_starts_with path ''/normalizer/trigger'' \<and> meth = POST
     \<or> str_starts_with path ''/planner/config'' \<and> meth = PUT"

definition is_execute_path :: "Method \<Rightarrow> string \<Rightarrow> bool" where
  "is_execute_path meth path =
    (if meth \<noteq> POST then False
     else str_starts_with path ''/query/plan'' \<or> str_starts_with path ''/query/explain''
          \<or> str_starts_with path ''/queries/similar'' \<or> str_starts_with path ''/search/'')"

definition required_permission :: "Method \<Rightarrow> string \<Rightarrow> Permission" where
  "required_permission meth path =
    (if is_admin_path meth path then Admin
     else if is_execute_path meth path then Execute
     else if meth = GET \<or> meth = HEAD \<or> meth = OPTIONS then Read
     else Write)"

definition modality_from_path :: "string \<Rightarrow> string option" where
  "modality_from_path path =
    (if str_starts_with path ''/search/vector'' then Some ''vector''
     else if str_starts_with path ''/search/text'' then Some ''document''
     else if str_starts_with path ''/search/related'' then Some ''graph''
     else if str_starts_with path ''/drift'' then Some ''temporal''
     else None)"

text \<open>The first segment of what follows a prefix, when it is not empty.\<close>

definition segment_after :: "string \<Rightarrow> string \<Rightarrow> string option" where
  "segment_after p path =
    (case strip_prefix p path of
       None \<Rightarrow> None
     | Some rest \<Rightarrow> (let ident = takeWhile (\<lambda>c. c \<noteq> CHR ''/'') rest in if ident \<noteq> [] then Some ident else None))"

definition entity_from_path :: "string \<Rightarrow> string option" where
  "entity_from_path path =
    (case segment_after ''/hexads/'' path of
       Some ident \<Rightarrow> Some ident
     | None \<Rightarrow> (case segment_after ''/drift/entity/'' path of
                 Some ident \<Rightarrow> Some ident
               | None \<Rightarrow> segment_after ''/normalizer/trigger/'' path))"

section \<open>The access check\<close>

definition quote1 :: "string \<Rightarrow> string" where
  "quote1 s = [CHR 0x27] @ s @ [CHR 0x27]"

definition record_decision ::
  "u64 \<Rightarrow> ClientIdentity \<Rightarrow> string \<Rightarrow> Method \<Rightarrow> RbacState \<Rightarrow> AccessDecision \<Rightarrow> string option \<Rightarrow> RbacState option" where
  "record_decision now_secs identity resource_path meth rbac decision reason =
    (let entry = \<lparr>ae_timestamp = now_secs, ae_client_id = ci_id identity, ae_client_role = role_name (ci_role identity),
                  ae_resource_path = resource_path, ae_method = Method_display meth,
                  ae_required_permission = required_permission meth resource_path,
                  ae_decision = decision, ae_reason = reason\<rparr>
     in map_option (\<lambda>log. rbac\<lparr>rs_audit_log := log\<rparr>) (AuditLog_record (rs_audit_log rbac) entry))"

definition authz_error :: "string \<Rightarrow> Permission \<Rightarrow> AuthzError" where
  "authz_error reason permission =
     \<lparr>az_error = reason, az_code = 403, az_required_permission = Permission_display permission\<rparr>"

definition check_access ::
  "u64 \<Rightarrow> ClientIdentity \<Rightarrow> string \<Rightarrow> Method \<Rightarrow> RbacState \<Rightarrow> (RbacState \<times> (AuthzError, unit) rresult) option" where
  "check_access now_secs identity resource_path meth rbac =
    (let permission = required_permission meth resource_path;
         policy = rs_policy rbac;
         name = role_name (ci_role identity);
         allow = (\<lambda>reason. map_option (\<lambda>rbac. (rbac, Inr ()))
                   (record_decision now_secs identity resource_path meth rbac Allowed (Some reason)));
         deny = (\<lambda>reason. map_option (\<lambda>rbac. (rbac, Inl (authz_error reason permission)))
                   (record_decision now_secs identity resource_path meth rbac Denied (Some reason)))
     in
     if (case entity_from_path resource_path of
           Some entity_id \<Rightarrow> check_entity_acl policy entity_id (ci_id identity) permission | None \<Rightarrow> False)
     then allow ''entity ACL grant''
     else case role_for policy (ci_role identity) of
            None \<Rightarrow> deny (''No role definition found for '' @ quote1 name)
          | Some role_def \<Rightarrow>
              (case modality_from_path resource_path of
                 Some modality \<Rightarrow>
                   if has_modality_permission role_def modality permission
                   then allow (''modality '' @ quote1 modality @ '' grant'')
                   else if rd_modality_permissions role_def modality \<noteq> None
                   then deny (''Role '' @ quote1 name @ '' lacks '' @ quote1 (Permission_display permission)
                              @ '' permission on modality '' @ quote1 modality)
                   else if has_global_permission role_def permission then allow ''global role grant''
                   else deny (''Role '' @ quote1 name @ '' does not have '' @ quote1 (Permission_display permission) @ '' permission'')
               | None \<Rightarrow>
                   if has_global_permission role_def permission then allow ''global role grant''
                   else deny (''Role '' @ quote1 name @ '' does not have '' @ quote1 (Permission_display permission) @ '' permission'')))"

definition check_authorization ::
  "u64 \<Rightarrow> ClientIdentity \<Rightarrow> string \<Rightarrow> Method \<Rightarrow> RbacState \<Rightarrow> (RbacState \<times> (AuthzError, unit) rresult) option" where
  "check_authorization now_secs identity resource_path meth rbac = check_access now_secs identity resource_path meth rbac"

section \<open>The decision\<close>

text \<open>The specification: an ACL entry for the entity, or a global or modality grant of the role.\<close>

definition authorized :: "RbacPolicy \<Rightarrow> ClientIdentity \<Rightarrow> string \<Rightarrow> Method \<Rightarrow> bool" where
  "authorized policy identity path meth \<longleftrightarrow>
    (let p = required_permission meth path in
     (\<exists>ent acls perms. entity_from_path path = Some ent \<and> rp_entity_acls policy ent = Some acls
        \<and> (ci_id identity, perms) \<in> set acls \<and> p \<in> set perms)
     \<or> (\<exists>rd. role_for policy (ci_role identity) = Some rd
          \<and> (p \<in> set (rd_global_permissions rd)
             \<or> (\<exists>md perms. modality_from_path path = Some md \<and> rd_modality_permissions rd md = Some perms \<and> p \<in> set perms))))"

lemma audit_record_some:
  assumes "0 < al_max_entries log"
  shows "AuditLog_record log entry = Some (log\<lparr>al_entries :=
    (if al_max_entries log \<le> length (al_entries log) then tl (al_entries log) else al_entries log) @ [entry]\<rparr>)"
  using assms by (auto simp: AuditLog_record_def split: list.splits)

abbreviation allow_with :: "u64 \<Rightarrow> ClientIdentity \<Rightarrow> string \<Rightarrow> Method \<Rightarrow> RbacState \<Rightarrow> string
    \<Rightarrow> (RbacState \<times> (AuthzError, unit) rresult) option" where
  "allow_with now identity path meth rbac reason \<equiv>
     map_option (\<lambda>rbac. (rbac, Inr ())) (record_decision now identity path meth rbac Allowed (Some reason))"

abbreviation deny_with :: "u64 \<Rightarrow> ClientIdentity \<Rightarrow> string \<Rightarrow> Method \<Rightarrow> RbacState \<Rightarrow> string
    \<Rightarrow> (RbacState \<times> (AuthzError, unit) rresult) option" where
  "deny_with now identity path meth rbac reason \<equiv>
     map_option (\<lambda>rbac. (rbac, Inl (authz_error reason (required_permission meth path))))
       (record_decision now identity path meth rbac Denied (Some reason))"

definition acl_grants :: "RbacPolicy \<Rightarrow> ClientIdentity \<Rightarrow> string \<Rightarrow> Method \<Rightarrow> bool" where
  "acl_grants policy identity path meth \<longleftrightarrow> (case entity_from_path path of
     Some entity_id \<Rightarrow> check_entity_acl policy entity_id (ci_id identity) (required_permission meth path) | None \<Rightarrow> False)"

definition role_grants :: "RbacPolicy \<Rightarrow> ClientIdentity \<Rightarrow> string \<Rightarrow> Method \<Rightarrow> bool" where
  "role_grants policy identity path meth \<longleftrightarrow> (case role_for policy (ci_role identity) of
     None \<Rightarrow> False
   | Some rd \<Rightarrow> has_global_permission rd (required_permission meth path)
      \<or> (case modality_from_path path of None \<Rightarrow> False
         | Some md \<Rightarrow> has_modality_permission rd md (required_permission meth path)))"

lemma authorized_iff: "authorized policy identity path meth \<longleftrightarrow>
    acl_grants policy identity path meth \<or> role_grants policy identity path meth"
  by (auto simp: authorized_def acl_grants_def role_grants_def check_entity_acl_def list_ex_iff has_global_permission_def
      has_modality_permission_def Let_def split: option.splits if_splits)

lemma check_access_outcome:
  "\<exists>reason. check_access now identity path meth rbac =
     (if authorized (rs_policy rbac) identity path meth then allow_with now identity path meth rbac reason
      else deny_with now identity path meth rbac reason)"
proof (cases "acl_grants (rs_policy rbac) identity path meth")
  case True
  then show ?thesis
    unfolding authorized_iff by (intro exI [of _ "''entity ACL grant''"]) (simp add: check_access_def acl_grants_def Let_def)
next
  case False
  then have step: "check_access now identity path meth rbac = (case role_for (rs_policy rbac) (ci_role identity) of
      None \<Rightarrow> deny_with now identity path meth rbac (''No role definition found for '' @ quote1 (role_name (ci_role identity)))
    | Some rd \<Rightarrow> (case modality_from_path path of
        Some md \<Rightarrow>
          if has_modality_permission rd md (required_permission meth path)
          then allow_with now identity path meth rbac (''modality '' @ quote1 md @ '' grant'')
          else if rd_modality_permissions rd md \<noteq> None
          then deny_with now identity path meth rbac (''Role '' @ quote1 (role_name (ci_role identity)) @ '' lacks ''
            @ quote1 (Permission_display (required_permission meth path)) @ '' permission on modality '' @ quote1 md)
          else if has_global_permission rd (required_permission meth path)
          then allow_with now identity path meth rbac ''global role grant''
          else deny_with now identity path meth rbac (''Role '' @ quote1 (role_name (ci_role identity)) @ '' does not have ''
            @ quote1 (Permission_display (required_permission meth path)) @ '' permission'')
      | None \<Rightarrow>
          if has_global_permission rd (required_permission meth path)
          then allow_with now identity path meth rbac ''global role grant''
          else deny_with now identity path meth rbac (''Role '' @ quote1 (role_name (ci_role identity)) @ '' does not have ''
            @ quote1 (Permission_display (required_permission meth path)) @ '' permission'')))"
    by (simp add: check_access_def acl_grants_def Let_def)
  have global: "has_global_permission rd p \<Longrightarrow> has_modality_permission rd md p" for rd p md
    by (simp add: has_modality_permission_def)
  show ?thesis
    unfolding authorized_iff role_grants_def step using False global
    by (simp split: option.split if_split) blast
qed



text \<open>
  The built-in policy: readers may read and execute, writers everything but administration,
  administrators everything; no request is open to a lower role and closed to a higher one.
\<close>

theorem default_policy_roles:
  "authorized RbacPolicy_default identity path meth \<longleftrightarrow>
     (case ci_role identity of
        RoleReader \<Rightarrow> required_permission meth path \<in> {Read, Execute}
      | RoleWriter \<Rightarrow> required_permission meth path \<noteq> Admin
      | RoleAdmin \<Rightarrow> True)"
proof -
  have "p \<noteq> Admin \<longleftrightarrow> p \<in> {Read, Write, Execute}" "p \<in> {Read, Write, Admin, Execute}" for p
    by (cases p; simp)+
  then show ?thesis
    by (cases "ci_role identity") (auto simp: authorized_def RbacPolicy_default_def role_for_def Let_def)
qed

text \<open>
  The audit log is a ring buffer: after any number of recorded decisions it holds the newest
  ones, in order, as many as its capacity allows.
\<close>

theorem audit_log_ring:
  assumes "0 < n"
  shows "foldl (\<lambda>log e. Option.bind log (\<lambda>log. AuditLog_record log e)) (Some (AuditLog_new n)) es =
    Some \<lparr>al_entries = drop (length es - n) es, al_max_entries = n\<rparr>"
proof (induction es rule: rev_induct)
  case Nil
  then show ?case by (simp add: AuditLog_new_def)
next
  case (snoc e es)
  have "tl (drop (length es - n) es) = drop (Suc (length es) - n) es" if "n \<le> length es"
    using that by (simp add: tl_drop Suc_diff_le flip: drop_Suc)
  then show ?case
    using assms snoc.IH by (auto simp: audit_record_some)
qed

theorem audit_log_ring_witness:
  "\<forall>a b c. foldl (\<lambda>log e. Option.bind log (\<lambda>log. AuditLog_record log e)) (Some (AuditLog_new 2)) [a, b, c] =
    Some \<lparr>al_entries = [b, c], al_max_entries = 2\<rparr>"
  using audit_log_ring [of 2] by (auto simp del: foldl_Cons)

text \<open>
  A per-modality entry never restricts a role: whatever permissions a role lists for a modality,
  a permission it has globally is granted, although the comment in \<open>check_access\<close> calls an explicit
  modality configuration restrictive.
\<close>

theorem modality_config_never_restricts:
  assumes "0 < al_max_entries (rs_audit_log rbac)" and "role_for (rs_policy rbac) (ci_role identity) = Some rd"
    and "has_global_permission rd (required_permission meth path)"
  shows "\<exists>rbac'. check_access now identity path meth rbac = Some (rbac', Inr ())"
proof -
  have "authorized (rs_policy rbac) identity path meth"
    using assms(2,3) by (auto simp: authorized_def has_global_permission_def Let_def)
  then show ?thesis
    using check_access_outcome [of now identity path meth rbac]
    by (auto simp: record_decision_def audit_record_some [OF assms(1)] Let_def)
qed

definition no_vector_reader :: RbacState where
  "no_vector_reader = RbacState_new (set_role RbacPolicy_default
     \<lparr>rd_name = ''reader'', rd_global_permissions = [Read, Execute], rd_modality_permissions = [''vector'' \<mapsto> []]\<rparr>)"

theorem modality_config_never_restricts_witness:
  "\<exists>rbac'. check_access 1 \<lparr>ci_id = ''c'', ci_role = RoleReader\<rparr> ''/search/vector'' POST no_vector_reader = Some (rbac', Inr ())"
  by (rule modality_config_never_restricts [where rd = "\<lparr>rd_name = ''reader'', rd_global_permissions = [Read, Execute], rd_modality_permissions = [''vector'' \<mapsto> []]\<rparr>"])
     (simp_all add: no_vector_reader_def RbacState_new_def AuditLog_default_def AuditLog_new_def role_for_def set_role_def
       has_global_permission_def required_permission_def is_admin_path_def is_execute_path_def str_starts_with_def)

text \<open>
  Executing VQL asks for \<open>Write\<close>: the route \<open>/vql/execute\<close> is not among the execution paths, so
  the built-in reader role is refused, although \<open>Permission::Execute\<close> is documented as the
  permission of VQL execution.
\<close>

theorem vql_execution_needs_write:
  "required_permission POST ''/vql/execute'' = Write \<and>
   \<not> authorized RbacPolicy_default \<lparr>ci_id = cid, ci_role = RoleReader\<rparr> ''/vql/execute'' POST"
  by (simp add: authorized_def RbacPolicy_default_def role_for_def required_permission_def is_admin_path_def
      is_execute_path_def str_starts_with_def entity_from_path_def segment_after_def strip_prefix_def modality_from_path_def)

text \<open>
  An audit log of capacity zero panics on its first decision, so no request can be checked.
\<close>

theorem zero_capacity_audit_panics:
  "check_access now identity path meth \<lparr>rs_policy = policy, rs_audit_log = AuditLog_new 0\<rparr> = None"
  using check_access_outcome [of now identity path meth "\<lparr>rs_policy = policy, rs_audit_log = AuditLog_new 0\<rparr>"]
  by (auto simp: record_decision_def AuditLog_record_def AuditLog_new_def Let_def)

end
