(* ===== verification/Auth.thy ===== *)
theory Auth
  imports Rbac Text
begin

text \<open>
  Authentication and rate limiting (\<open>verisim-api/src/auth.rs\<close>): the registry of API keys, the sliding-window rate
  limiter, JWT validation with its own HMAC and base64 code, and the middleware that puts them in front of the
  access check of \<open>Rbac\<close>.  SHA-256, hex and the JSON parser are the fields of \<open>auth_env\<close>; instants are nanoseconds
  of a clock that does not go back, and \<open>duration_since\<close> stops at zero as subtraction on \<open>nat\<close> does.
\<close>

unbundle bit_operations_syntax

section \<open>Types\<close>

text \<open>What \<open>validate_jwt\<close> reads of the claims: \<open>exp\<close> as an \<open>i64\<close>, \<open>sub\<close> and \<open>role\<close> as strings, each if it is one.\<close>

record jwt_claims =
  jc_exp :: "i64 option"
  jc_sub :: "string option"
  jc_role :: "string option"

record auth_env =
  au_sha256 :: "bytes \<Rightarrow> bytes"
  au_hex_encode :: "bytes \<Rightarrow> string"
  au_json_claims :: "bytes \<Rightarrow> jwt_claims option"

record AuthConfig =
  ac_enabled :: bool
  ac_allow_public_health :: bool
  ac_rate_limit_per_minute :: u32
  ac_jwt_secret :: "string option"

definition AuthConfig_default :: AuthConfig where
  "AuthConfig_default =
    \<lparr>ac_enabled = False, ac_allow_public_health = True, ac_rate_limit_per_minute = 0, ac_jwt_secret = None\<rparr>"

record ApiKeyEntry =
  ak_key_hash :: string
  ak_label :: string
  ak_role :: ClientRole
  ak_active :: bool

type_synonym ApiKeyRegistry = "string \<rightharpoonup> ApiKeyEntry"

record RateLimiter =
  rl_windows :: "string \<rightharpoonup> nat list"
  rl_max_requests :: u32
  rl_window :: nat

record AuthState =
  as_config :: AuthConfig
  as_key_registry :: ApiKeyRegistry
  as_rate_limiter :: RateLimiter
  as_rbac :: RbacState

record AuthError =
  er_error :: string
  er_code :: u16

section \<open>API keys\<close>

definition hash_key :: "auth_env \<Rightarrow> string \<Rightarrow> string" where
  "hash_key env key = au_hex_encode env (au_sha256 env (as_bytes key))"

definition register :: "auth_env \<Rightarrow> ApiKeyRegistry \<Rightarrow> string \<Rightarrow> string \<Rightarrow> ClientRole \<Rightarrow> ApiKeyRegistry" where
  "register env keys plaintext_key label role =
    (let hash = hash_key env plaintext_key
     in keys(hash \<mapsto> \<lparr>ak_key_hash = hash, ak_label = label, ak_role = role, ak_active = True\<rparr>))"

definition validate :: "auth_env \<Rightarrow> ApiKeyRegistry \<Rightarrow> string \<Rightarrow> ApiKeyEntry option" where
  "validate env keys plaintext_key =
    (case keys (hash_key env plaintext_key) of
       Some entry \<Rightarrow> if ak_active entry then Some entry else None
     | None \<Rightarrow> None)"

definition revoke :: "ApiKeyRegistry \<Rightarrow> string \<Rightarrow> ApiKeyRegistry \<times> bool" where
  "revoke keys key_hash =
    (case keys key_hash of
       Some entry \<Rightarrow> (keys(key_hash \<mapsto> entry\<lparr>ak_active := False\<rparr>), True)
     | None \<Rightarrow> (keys, False))"

section \<open>Rate limiting\<close>

definition RateLimiter_new :: "u32 \<Rightarrow> RateLimiter" where
  "RateLimiter_new max_requests_per_minute =
    \<lparr>rl_windows = Map.empty, rl_max_requests = max_requests_per_minute, rl_window = 60 * 10 ^ 9\<rparr>"

definition window_of :: "RateLimiter \<Rightarrow> nat \<Rightarrow> string \<Rightarrow> nat list" where
  "window_of rl now client_id =
    filter (\<lambda>t. now - t < rl_window rl) (case rl_windows rl client_id of Some ts \<Rightarrow> ts | None \<Rightarrow> [])"

definition rate_check :: "RateLimiter \<Rightarrow> nat \<Rightarrow> string \<Rightarrow> RateLimiter \<times> bool" where
  "rate_check rl now client_id =
    (if rl_max_requests rl = 0 then (rl, True)
     else
       (let timestamps = window_of rl now client_id
        in if rl_max_requests rl \<le> of_nat (length timestamps)
           then (rl\<lparr>rl_windows := (rl_windows rl)(client_id \<mapsto> timestamps)\<rparr>, False)
           else (rl\<lparr>rl_windows := (rl_windows rl)(client_id \<mapsto> timestamps @ [now])\<rparr>, True)))"

definition rate_remaining :: "RateLimiter \<Rightarrow> nat \<Rightarrow> string \<Rightarrow> RateLimiter \<times> u32" where
  "rate_remaining rl now client_id =
    (if rl_max_requests rl = 0 then (rl, - 1)
     else
       (let timestamps = window_of rl now client_id;
            n = of_nat (length timestamps)
        in (rl\<lparr>rl_windows := (rl_windows rl)(client_id \<mapsto> timestamps)\<rparr>,
            if n \<le> rl_max_requests rl then rl_max_requests rl - n else 0)))"

definition AuthState_with_rbac :: "AuthConfig \<Rightarrow> RbacState \<Rightarrow> AuthState" where
  "AuthState_with_rbac config rbac =
    \<lparr>as_config = config, as_key_registry = Map.empty,
     as_rate_limiter = RateLimiter_new (ac_rate_limit_per_minute config), as_rbac = rbac\<rparr>"

definition AuthState_new :: "AuthConfig \<Rightarrow> AuthState" where
  "AuthState_new config =
    \<lparr>as_config = config, as_key_registry = Map.empty,
     as_rate_limiter = RateLimiter_new (ac_rate_limit_per_minute config), as_rbac = RbacState_new RbacPolicy_default\<rparr>"

section \<open>HMAC and base64\<close>

definition hmac_key_block :: "auth_env \<Rightarrow> bytes \<Rightarrow> bytes" where
  "hmac_key_block env key =
    (let k = (if 64 < length key then au_sha256 env key else key) in k @ replicate (64 - length k) 0)"

definition hmac_sha256 :: "auth_env \<Rightarrow> bytes \<Rightarrow> bytes \<Rightarrow> bytes" where
  "hmac_sha256 env data key =
    (let key_block = hmac_key_block env key;
         ipad = map (\<lambda>k. 0x36 XOR k) key_block;
         opad = map (\<lambda>k. 0x5c XOR k) key_block
     in au_sha256 env (opad @ au_sha256 env (ipad @ data)))"

definition CHARSET :: bytes where
  "CHARSET = as_bytes ''ABCDEFGHIJKLMNOPQRSTUVWXYZabcdefghijklmnopqrstuvwxyz0123456789+/''"

fun position :: "nat \<Rightarrow> u8 \<Rightarrow> bytes \<Rightarrow> nat option" where
  "position n c [] = None"
| "position n c (x # xs) = (if x = c then Some n else position (n + 1) c xs)"

definition char_to_val :: "u8 \<Rightarrow> (string, u8) rresult" where
  "char_to_val c =
    (if c = byte_of_char (CHR ''='') then Inr 0
     else (case position 0 c CHARSET of Some p \<Rightarrow> Inr (of_nat p) | None \<Rightarrow> Inl ''invalid base64 character''))"

fun decode_chunks :: "bytes \<Rightarrow> (string, bytes) rresult" where
  "decode_chunks (c0 # c1 # c2 # c3 # rest) =
    rbind (char_to_val c0) (\<lambda>a. rbind (char_to_val c1) (\<lambda>b. rbind (char_to_val c2) (\<lambda>c. rbind (char_to_val c3) (\<lambda>d.
      rbind (decode_chunks rest) (\<lambda>result.
        Inr ([push_bit 2 a OR drop_bit 4 b]
             @ (if c2 \<noteq> byte_of_char (CHR ''='') then [push_bit 4 b OR drop_bit 2 c] else [])
             @ (if c3 \<noteq> byte_of_char (CHR ''='') then [push_bit 6 c OR d] else [])
             @ result))))))"
| "decode_chunks _ = Inr []"

definition base64_decode :: "string \<Rightarrow> (string, bytes) rresult" where
  "base64_decode input =
    (let bs = as_bytes input
     in if length bs mod 4 \<noteq> 0 then Inl ''invalid base64 length'' else decode_chunks bs)"

definition from_url_char :: "char \<Rightarrow> char" where
  "from_url_char c = (if c = CHR ''-'' then CHR ''+'' else if c = CHR ''_'' then CHR ''/'' else c)"

definition base64url_decode :: "string \<Rightarrow> (string, bytes) rresult" where
  "base64url_decode input =
    (let m = length input mod 4
     in if m = 1 then Inl ''invalid base64url length''
        else
          (let padded = (if m = 2 then input @ ''=='' else if m = 3 then input @ ''='' else input)
           in base64_decode (map from_url_char padded)))"

section \<open>JWT\<close>

definition map_err :: "('e \<Rightarrow> 'd) \<Rightarrow> ('e, 'a) rresult \<Rightarrow> ('d, 'a) rresult" where
  "map_err f r = (case r of Inl e \<Rightarrow> Inl (f e) | Inr a \<Rightarrow> Inr a)"

definition claimed_identity :: "jwt_claims \<Rightarrow> ClientIdentity" where
  "claimed_identity claims =
    \<lparr>ci_id = (case jc_sub claims of Some s \<Rightarrow> s | None \<Rightarrow> ''unknown''),
     ci_role = (case jc_role claims of
        Some r \<Rightarrow> if r = ''admin'' then RoleAdmin else if r = ''writer'' then RoleWriter else RoleReader
      | None \<Rightarrow> RoleReader)\<rparr>"

definition validate_jwt :: "auth_env \<Rightarrow> i64 \<Rightarrow> string \<Rightarrow> AuthConfig \<Rightarrow> (string, ClientIdentity) rresult" where
  "validate_jwt env now token config =
    (case ac_jwt_secret config of
       None \<Rightarrow> Inl ''JWT authentication not configured''
     | Some secret \<Rightarrow>
         (case split_char (CHR ''.'') token of
            [p0, p1, p2] \<Rightarrow>
              rbind (map_err (\<lambda>_. ''Invalid JWT payload encoding'') (base64url_decode p1)) (\<lambda>payload_bytes.
              (let expected_sig = hmac_sha256 env (as_bytes (p0 @ ''.'' @ p1)) (as_bytes secret)
               in rbind (map_err (\<lambda>_. ''Invalid JWT signature encoding'') (base64url_decode p2)) (\<lambda>actual_sig.
                  if expected_sig \<noteq> actual_sig then Inl ''Invalid JWT signature''
                  else
                    (case au_json_claims env payload_bytes of
                       None \<Rightarrow> Inl ''Invalid JWT payload''
                     | Some claims \<Rightarrow>
                         (case jc_exp claims of
                            Some e \<Rightarrow> if sint e < sint now then Inl ''JWT token expired'' else Inr (claimed_identity claims)
                          | None \<Rightarrow> Inr (claimed_identity claims))))))
          | _ \<Rightarrow> Inl ''Invalid JWT format''))"

section \<open>The middleware\<close>

text \<open>The parts of a request it reads; a header is present when it is there and is visible ASCII (\<open>to_str\<close>).\<close>

record Request =
  rq_path :: string
  rq_method :: Method
  rq_x_api_key :: "string option"
  rq_authorization :: "string option"

datatype Response =
    Forwarded
  | Unauthorized AuthError
  | UnauthorizedChallenge string AuthError
  | TooManyRequests string string AuthError
  | Forbidden AuthzError

definition extract_identity :: "auth_env \<Rightarrow> i64 \<Rightarrow> Request \<Rightarrow> AuthState \<Rightarrow> (Response, ClientIdentity) rresult" where
  "extract_identity env now request auth =
    (case rq_x_api_key request of
       Some api_key \<Rightarrow>
         (case validate env (as_key_registry auth) api_key of
            Some entry \<Rightarrow> Inr \<lparr>ci_id = ak_key_hash entry, ci_role = ak_role entry\<rparr>
          | None \<Rightarrow> Inl (Unauthorized \<lparr>er_error = ''Invalid API key'', er_code = 401\<rparr>))
     | None \<Rightarrow>
         (case Option.bind (rq_authorization request) (strip_prefix ''Bearer '') of
            Some token \<Rightarrow> map_err (\<lambda>msg. Unauthorized \<lparr>er_error = msg, er_code = 401\<rparr>) (validate_jwt env now token (as_config auth))
          | None \<Rightarrow>
              Inl (UnauthorizedChallenge ''Bearer, ApiKey''
                \<lparr>er_error = ''Authentication required. Provide X-API-Key header or Authorization: Bearer <token>'', er_code = 401\<rparr>)))"

definition public_path :: "string \<Rightarrow> bool" where
  "public_path path \<longleftrightarrow> path = ''/health'' \<or> path = ''/ready'' \<or> path = ''/metrics''"

text \<open>
  \<open>now\<close> is the Unix time of the JWT check, \<open>t1\<close> and \<open>t2\<close> the instants of \<open>check\<close> and \<open>remaining\<close>, \<open>secs\<close> the time of the audit
  entry.  \<open>None\<close> is a panic of the audit log.
\<close>

definition auth_middleware ::
  "auth_env \<Rightarrow> i64 \<Rightarrow> nat \<Rightarrow> nat \<Rightarrow> u64 \<Rightarrow> AuthState \<Rightarrow> Request \<Rightarrow> (AuthState \<times> Response) option" where
  "auth_middleware env now t1 t2 secs auth request =
    (if \<not> ac_enabled (as_config auth) then Some (auth, Forwarded)
     else if ac_allow_public_health (as_config auth) \<and> public_path (rq_path request) then Some (auth, Forwarded)
     else
       (case extract_identity env now request auth of
          Inl response \<Rightarrow> Some (auth, response)
        | Inr identity \<Rightarrow>
            (case rate_check (as_rate_limiter auth) t1 (ci_id identity) of
               (rl, False) \<Rightarrow>
                 (case rate_remaining rl t2 (ci_id identity) of (rl', n) \<Rightarrow>
                    Some (auth\<lparr>as_rate_limiter := rl'\<rparr>,
                      TooManyRequests (dec_digits (unat n)) ''60'' \<lparr>er_error = ''Rate limit exceeded'', er_code = 429\<rparr>))
             | (rl, True) \<Rightarrow>
                 (case check_authorization secs identity (rq_path request) (rq_method request) (as_rbac auth) of
                    None \<Rightarrow> None
                  | Some (rbac, Inl authz_err) \<Rightarrow>
                      Some (auth\<lparr>as_rate_limiter := rl, as_rbac := rbac\<rparr>, Forbidden authz_err)
                  | Some (rbac, Inr _) \<Rightarrow> Some (auth\<lparr>as_rate_limiter := rl, as_rbac := rbac\<rparr>, Forwarded)))))"

section \<open>Base64 round trip\<close>

text \<open>The encoder of RFC 4648, section 5, without padding.\<close>

definition url_alphabet :: string where
  "url_alphabet = ''ABCDEFGHIJKLMNOPQRSTUVWXYZabcdefghijklmnopqrstuvwxyz0123456789-_''"

definition url_char :: "u8 \<Rightarrow> char" where
  "url_char v = url_alphabet ! unat v"

text \<open>The four six-bit groups of three bytes.\<close>

definition sextet0 :: "u8 \<Rightarrow> u8" where "sextet0 x = drop_bit 2 x"

definition sextet1 :: "u8 \<Rightarrow> u8 \<Rightarrow> u8" where "sextet1 x y = push_bit 4 (x AND 3) OR drop_bit 4 y"

definition sextet2 :: "u8 \<Rightarrow> u8 \<Rightarrow> u8" where "sextet2 y z = push_bit 2 (y AND 15) OR drop_bit 6 z"

definition sextet3 :: "u8 \<Rightarrow> u8" where "sextet3 z = z AND 63"

fun base64url_encode :: "bytes \<Rightarrow> string" where
  "base64url_encode (x # y # z # rest) =
    url_char (sextet0 x) # url_char (sextet1 x y) # url_char (sextet2 y z) # url_char (sextet3 z) # base64url_encode rest"
| "base64url_encode [x, y] = [url_char (sextet0 x), url_char (sextet1 x y), url_char (sextet2 y 0)]"
| "base64url_encode [x] = [url_char (sextet0 x), url_char (sextet1 x 0)]"
| "base64url_encode [] = []"

definition b64 :: "u8 \<Rightarrow> u8" where
  "b64 v = byte_of_char (from_url_char (url_char v))"

definition std_alphabet :: string where
  "std_alphabet = ''ABCDEFGHIJKLMNOPQRSTUVWXYZabcdefghijklmnopqrstuvwxyz0123456789+/''"

lemma std_alphabet_facts:
  "map from_url_char url_alphabet = std_alphabet" "length url_alphabet = 64"
  "length std_alphabet = 64" "distinct std_alphabet" "CHR ''='' \<notin> set std_alphabet"
  by code_simp+

lemma position_nth: "distinct xs \<Longrightarrow> i < length xs \<Longrightarrow> position n (xs ! i) xs = Some (n + i)"
  by (induction xs arbitrary: i n) (auto simp: nth_Cons split: nat.splits)

lemma byte_of_char_inject [simp]: "byte_of_char c = byte_of_char d \<longleftrightarrow> c = d"
  by (metis char_of_byte_of_char)

lemma b64_val:
  assumes "v < 64"
  shows "char_to_val (b64 v) = Inr v" "b64 v \<noteq> byte_of_char (CHR ''='')"
proof -
  have v: "unat v < 64" using assms unat_mono [of v 64] by simp
  then have b: "b64 v = byte_of_char (std_alphabet ! unat v)"
    by (simp add: b64_def url_char_def std_alphabet_facts(2) flip: std_alphabet_facts(1))
  show ne: "b64 v \<noteq> byte_of_char (CHR ''='')"
    unfolding b using v std_alphabet_facts(3, 5) by (metis byte_of_char_inject nth_mem)
  have "CHARSET = map byte_of_char std_alphabet" by (simp add: CHARSET_def std_alphabet_def as_bytes_def)
  moreover have "distinct (map byte_of_char std_alphabet)"
    using std_alphabet_facts(4) by (simp add: distinct_map inj_on_def)
  ultimately have "position 0 (b64 v) CHARSET = Some (0 + unat v)"
    using v std_alphabet_facts(3) by (metis b length_map nth_map position_nth)
  with ne show "char_to_val (b64 v) = Inr v" by (simp add: char_to_val_def)
qed

lemma u8_eqI:
  fixes v w :: u8
  assumes "bit v 0 = bit w 0" "bit v 1 = bit w 1" "bit v 2 = bit w 2" "bit v 3 = bit w 3"
    "bit v 4 = bit w 4" "bit v 5 = bit w 5" "bit v 6 = bit w 6" "bit v 7 = bit w 7"
  shows "v = w"
proof (rule bit_word_eqI)
  fix n assume "n < LENGTH(8)"
  then have "n \<in> {0, 1, 2, 3, 4, 5, 6, 7}" by auto
  with assms show "bit v n = bit w n" by (elim insertE emptyE) simp_all
qed

lemma u8_bit_out: "8 \<le> n \<Longrightarrow> \<not> bit (v :: u8) n"
  by (auto dest: bit_imp_le_length)

lemma sextet_bounds: "sextet0 x < 64" "sextet1 x y < 64" "sextet2 y z < 64" "sextet3 z < 64"
proof -
  have less: "v < 64" if "take_bit 6 v = v" for v :: u8
  proof -
    have "uint v = take_bit 6 (uint v)" using that by (metis unsigned_take_bit_eq)
    also have "\<dots> < 2 ^ 6" by (rule take_bit_int_less_exp)
    finally show ?thesis by (simp add: word_less_def)
  qed
  show "sextet0 x < 64" "sextet1 x y < 64" "sextet2 y z < 64" "sextet3 z < 64"
    unfolding sextet0_def sextet1_def sextet2_def sextet3_def
    by (rule less, rule u8_eqI; simp add: bit_simps bit_numeral_rec u8_bit_out)+
qed

lemma sextet_join:
  "push_bit 2 (sextet0 x) OR drop_bit 4 (sextet1 x y) = x"
  "push_bit 4 (sextet1 x y) OR drop_bit 2 (sextet2 y z) = y"
  "push_bit 6 (sextet2 y z) OR sextet3 z = z"
  unfolding sextet0_def sextet1_def sextet2_def sextet3_def
  by (rule u8_eqI; simp add: bit_simps bit_numeral_rec u8_bit_out)+

lemma padding_facts: "from_url_char (CHR ''='') = CHR ''=''" "char_to_val (byte_of_char (CHR ''='')) = Inr 0"
  by (simp_all add: from_url_char_def char_to_val_def)

definition pad_base64 :: "string \<Rightarrow> string" where
  "pad_base64 s = (if length s mod 4 = 2 then s @ ''=='' else if length s mod 4 = 3 then s @ ''='' else s)"

lemma decode_encode_chunks:
  "decode_chunks (as_bytes (map from_url_char (pad_base64 (base64url_encode bs)))) = Inr bs
   \<and> length (base64url_encode bs) mod 4 \<noteq> 1 \<and> length (pad_base64 (base64url_encode bs)) mod 4 = 0"
proof (induction bs rule: base64url_encode.induct)
  case (1 x y z rest)
  have "pad_base64 (base64url_encode (x # y # z # rest)) = url_char (sextet0 x) # url_char (sextet1 x y)
      # url_char (sextet2 y z) # url_char (sextet3 z) # pad_base64 (base64url_encode rest)"
    by (simp add: pad_base64_def)
  with 1 show ?case
    by (simp add: as_bytes_def b64_val sextet_bounds sextet_join flip: b64_def)
qed (simp_all add: as_bytes_def pad_base64_def b64_val sextet_bounds sextet_join padding_facts flip: b64_def)

text \<open>the hand-written base64url decoder inverts the encoding of RFC 4648 on every byte string.\<close>

theorem base64url_roundtrip: "base64url_decode (base64url_encode bs) = Inr bs"
  using decode_encode_chunks [of bs]
  by (simp add: base64url_decode_def base64_decode_def Let_def pad_base64_def split: if_splits)

section \<open>The rate limiter\<close>

text \<open>A run of checks, each by a client at an instant, and the requests that were let through.\<close>

definition rate_step :: "RateLimiter \<times> (string \<times> nat) list \<Rightarrow> string \<times> nat \<Rightarrow> RateLimiter \<times> (string \<times> nat) list" where
  "rate_step = (\<lambda>(rl, accepted) (client, now).
    case rate_check rl now client of (rl', ok) \<Rightarrow> (rl', if ok then accepted @ [(client, now)] else accepted))"

definition times_of :: "string \<Rightarrow> (string \<times> nat) list \<Rightarrow> nat list" where
  "times_of c accepted = map snd (filter (\<lambda>(d, _). d = c) accepted)"

definition within :: "nat \<Rightarrow> nat \<Rightarrow> nat list \<Rightarrow> nat list" where
  "within w t ts = filter (\<lambda>s. t \<le> s \<and> s < t + w) ts"

definition recent :: "nat \<Rightarrow> nat \<Rightarrow> nat list \<Rightarrow> nat list" where
  "recent w now ts = filter (\<lambda>t. now - t < w) ts"

definition rate_inv :: "RateLimiter \<times> (string \<times> nat) list \<Rightarrow> nat \<Rightarrow> bool" where
  "rate_inv st T \<longleftrightarrow> (\<forall>c.
    (\<forall>t \<in> set (times_of c (snd st)). t \<le> T)
    \<and> (\<forall>now \<ge> T. window_of (fst st) now c = recent (rl_window (fst st)) now (times_of c (snd st)))
    \<and> (\<forall>t. length (within (rl_window (fst st)) t (times_of c (snd st))) \<le> unat (rl_max_requests (fst st))))"

lemma times_of_append [simp]: "times_of c (acc @ [(d, t)]) = times_of c acc @ (if d = c then [t] else [])"
  by (simp add: times_of_def)

lemma recent_within:
  assumes "\<forall>t \<in> set ts. t \<le> now"
  shows "length (recent w now ts) \<le> length (within w (now + 1 - w) ts)"
proof -
  have "recent w now ts = filter (\<lambda>t. now - t < w) (within w (now + 1 - w) ts)"
    unfolding recent_def within_def filter_filter using assms by (intro filter_cong) auto
  then show ?thesis by simp
qed

lemma within_append:
  assumes "length (recent w now ts) < n" "\<And>t. length (within w t ts) \<le> n"
  shows "length (within w t (ts @ [now])) \<le> n"
proof (cases "t \<le> now \<and> now < t + w")
  case True
  have "within w t ts = filter (\<lambda>s. t \<le> s \<and> s < t + w) (recent w now ts)"
    unfolding recent_def within_def filter_filter using True by (intro filter_cong) auto
  then have "length (within w t ts) \<le> length (recent w now ts)" by simp
  with True assms(1) show ?thesis by (simp add: within_def)
qed (use assms(2) [of t] in \<open>auto simp: within_def\<close>)

lemma recent_recent: "T \<le> now \<Longrightarrow> recent w now (recent w T ts) = recent w now ts"
  unfolding recent_def filter_filter by (intro filter_cong) auto

lemma rate_check_decides:
  assumes inv: "rate_inv (rl, acc) T" and "T \<le> now" and "rl_max_requests rl \<noteq> 0"
  shows "snd (rate_check rl now c) \<longleftrightarrow> length (recent (rl_window rl) now (times_of c acc)) < unat (rl_max_requests rl)"
proof -
  let ?r = "recent (rl_window rl) now (times_of c acc)"
  have win: "window_of rl now c = ?r" using inv assms(2) by (simp add: rate_inv_def)
  have "\<forall>t \<in> set (times_of c acc). t \<le> now" using inv assms(2) by (fastforce simp: rate_inv_def)
  from recent_within [OF this] have "length ?r \<le> unat (rl_max_requests rl)"
    using inv by (fastforce simp: rate_inv_def intro: order_trans)
  moreover have "unat (rl_max_requests rl) < 2 ^ 32" using unat_bound [of "rl_max_requests rl"] by simp
  ultimately have "rl_max_requests rl \<le> of_nat (length ?r) \<longleftrightarrow> unat (rl_max_requests rl) \<le> length ?r"
    by (simp add: word_le_nat_alt unat_of_nat)
  then show ?thesis using assms(3) by (auto simp: rate_check_def win Let_def)
qed

lemma rate_check_params [simp]:
  "rl_window (fst (rate_check rl now c)) = rl_window rl" "rl_max_requests (fst (rate_check rl now c)) = rl_max_requests rl"
  by (simp_all add: rate_check_def Let_def)

lemma rate_check_window:
  assumes "rl_max_requests rl \<noteq> 0"
  shows "window_of (fst (rate_check rl now c)) later d =
    (if d = c then recent (rl_window rl) later (window_of rl now c @ (if snd (rate_check rl now c) then [now] else []))
     else window_of rl later d)"
  using assms by (simp add: rate_check_def Let_def) (simp add: window_of_def recent_def)

lemma rate_step_inv:
  assumes inv: "rate_inv (rl, acc) T" and "T \<le> now" and m: "rl_max_requests rl \<noteq> 0"
  shows "rate_inv (rate_step (rl, acc) (c, now)) now"
proof -
  let ?rl = "fst (rate_check rl now c)" and ?ok = "snd (rate_check rl now c)"
  let ?acc = "if ?ok then acc @ [(c, now)] else acc"
  have step: "rate_step (rl, acc) (c, now) = (?rl, ?acc)" by (simp add: rate_step_def case_prod_unfold)
  have old: "\<And>d. \<forall>t \<in> set (times_of d acc). t \<le> T" "\<And>d now. T \<le> now \<Longrightarrow> window_of rl now d = recent (rl_window rl) now (times_of d acc)"
    "\<And>d t. length (within (rl_window rl) t (times_of d acc)) \<le> unat (rl_max_requests rl)"
    using inv by (simp_all add: rate_inv_def)
  show ?thesis unfolding step rate_inv_def fst_conv snd_conv rate_check_params
  proof (intro allI conjI impI)
    fix d
    show "\<forall>t \<in> set (times_of d ?acc). t \<le> now"
      using old(1) [of d] assms(2) by (auto intro: order_trans)
    show "length (within (rl_window rl) t (times_of d ?acc)) \<le> unat (rl_max_requests rl)" for t
      using old(3) within_append [OF _ old(3)] rate_check_decides [OF inv assms(2) m] by simp
    fix later assume "now \<le> later"
    then have "T \<le> later" using assms(2) by simp
    then show "window_of ?rl later d = recent (rl_window rl) later (times_of d ?acc)"
      using old(2) [OF assms(2)] old(2) [OF \<open>T \<le> later\<close>] recent_recent [OF \<open>now \<le> later\<close>, of "rl_window rl" "times_of c acc"]
      by (simp add: rate_check_window [OF m]) (simp add: recent_def)
  qed
qed

lemma rate_run_inv:
  assumes "m \<noteq> 0" "sorted (map snd xs)"
  shows "rl_max_requests (fst (foldl rate_step (RateLimiter_new m, []) xs)) = m
    \<and> rl_window (fst (foldl rate_step (RateLimiter_new m, []) xs)) = 60 * 10 ^ 9
    \<and> (\<forall>T. (\<forall>x \<in> set xs. snd x \<le> T) \<longrightarrow> rate_inv (foldl rate_step (RateLimiter_new m, []) xs) T)"
  using assms(2)
proof (induction xs rule: rev_induct)
  case Nil
  show ?case by (simp add: RateLimiter_new_def rate_inv_def times_of_def within_def recent_def window_of_def)
next
  case (snoc x xs)
  obtain c now where x: "x = (c, now)" by (cases x)
  obtain rl acc where st: "foldl rate_step (RateLimiter_new m, []) xs = (rl, acc)" by (cases "foldl rate_step (RateLimiter_new m, []) xs")
  from snoc.prems have srt: "sorted (map snd xs)" and le: "\<forall>y \<in> set xs. snd y \<le> now" by (auto simp: sorted_append x)
  from snoc.IH [OF srt] le have p: "rl_max_requests rl = m" "rl_window rl = 60 * 10 ^ 9" and inv: "rate_inv (rl, acc) now"
    unfolding st by auto
  have next_inv: "rate_inv (rate_step (rl, acc) (c, now)) now" using rate_step_inv [OF inv] p assms(1) by simp
  have mono: "rate_inv st T \<Longrightarrow> T \<le> T' \<Longrightarrow> rate_inv st T'" for st T T'
    unfolding rate_inv_def by (meson order_trans)
  have "fst (rate_step (rl, acc) (c, now)) = fst (rate_check rl now c)" by (simp add: rate_step_def case_prod_unfold)
  with p next_inv mono show ?case by (simp add: st x)
qed

text \<open>C31: the rate limiter is an exact sliding window.  For any interleaving of clients whose requests come at
  non-decreasing instants, no client gets more than the limit through in any 60 seconds, and a request is let
  through exactly when fewer than the limit of that client's requests were let through in the last 60 seconds.
\<close>

theorem rate_limit_sliding_window:
  assumes "m \<noteq> 0" "sorted (map snd xs)" and run: "foldl rate_step (RateLimiter_new m, []) xs = (rl, accepted)"
  shows "(\<forall>c t. length (within (60 * 10 ^ 9) t (times_of c accepted)) \<le> unat m)
    \<and> (\<forall>c now. (\<forall>x \<in> set xs. snd x \<le> now) \<longrightarrow>
         (snd (rate_check rl now c) \<longleftrightarrow> length (recent (60 * 10 ^ 9) now (times_of c accepted)) < unat m))"
proof -
  from rate_run_inv [OF assms(1, 2)] have p: "rl_max_requests rl = m" "rl_window rl = 60 * 10 ^ 9"
    and inv: "\<And>T. (\<forall>x \<in> set xs. snd x \<le> T) \<Longrightarrow> rate_inv (rl, accepted) T"
    unfolding run by auto
  have "\<forall>x \<in> set xs. snd x \<le> Max (insert 0 (set (map snd xs)))" by (auto intro: Max_ge)
  from inv [OF this] have "length (within (60 * 10 ^ 9) t (times_of c accepted)) \<le> unat m" for c t
    by (simp add: rate_inv_def p)
  moreover have "snd (rate_check rl now c) \<longleftrightarrow> length (recent (60 * 10 ^ 9) now (times_of c accepted)) < unat m"
    if "\<forall>x \<in> set xs. snd x \<le> now" for c now
    using rate_check_decides [OF inv [OF that], of now c] assms(1) p by simp
  ultimately show ?thesis by blast
qed

theorem rate_limit_sliding_window_witness:
  "\<exists>rl accepted. foldl rate_step (RateLimiter_new 1, []) [(''a'', 0), (''a'', 5), (''b'', 5)] = (rl, accepted)
    \<and> accepted = [(''a'', 0), (''b'', 5)] \<and> \<not> snd (rate_check rl 7 ''a'') \<and> snd (rate_check rl (60 * 10 ^ 9) ''a'')"
proof -
  obtain rl accepted where run: "foldl rate_step (RateLimiter_new 1, []) [(''a'', 0), (''a'', 5), (''b'', 5)] = (rl, accepted)"
    by (cases "foldl rate_step (RateLimiter_new 1, []) [(''a'', 0), (''a'', 5), (''b'', 5)]")
  have acc: "accepted = [(''a'', 0), (''b'', 5)]"
    using arg_cong [OF run, of snd] by (simp add: rate_step_def rate_check_def RateLimiter_new_def window_of_def Let_def)
  have "\<not> snd (rate_check rl 7 ''a'')" "snd (rate_check rl (60 * 10 ^ 9) ''a'')"
    using rate_limit_sliding_window [OF _ _ run] by (simp_all add: acc times_of_def recent_def)
  with run acc show ?thesis by blast
qed

section \<open>Who gets through\<close>


definition identified :: "auth_env \<Rightarrow> i64 \<Rightarrow> Request \<Rightarrow> AuthState \<Rightarrow> ClientIdentity \<Rightarrow> bool" where
  "identified env now request auth identity \<longleftrightarrow> extract_identity env now request auth = Inr identity"

lemma check_authorization_cases:
  "check_authorization secs identity path meth rbac = None
   \<or> (\<exists>rbac' e. check_authorization secs identity path meth rbac = Some (rbac', Inl e) \<and> \<not> authorized (rs_policy rbac) identity path meth)
   \<or> (\<exists>rbac'. check_authorization secs identity path meth rbac = Some (rbac', Inr ()) \<and> authorized (rs_policy rbac) identity path meth)"
proof -
  obtain reason where "check_access secs identity path meth rbac =
     (if authorized (rs_policy rbac) identity path meth then allow_with secs identity path meth rbac reason
      else deny_with secs identity path meth rbac reason)"
    using check_access_outcome by blast
  then show ?thesis
    by (cases "authorized (rs_policy rbac) identity path meth";
        cases "record_decision secs identity path meth rbac Allowed (Some reason)";
        cases "record_decision secs identity path meth rbac Denied (Some reason)")
      (simp_all add: check_authorization_def)
qed

text \<open>The middleware past its two gates, and past the rate limit.\<close>

definition admit :: "nat \<Rightarrow> nat \<Rightarrow> u64 \<Rightarrow> AuthState \<Rightarrow> Request \<Rightarrow> ClientIdentity \<Rightarrow> (AuthState \<times> Response) option" where
  "admit t1 t2 secs auth request identity =
    (case rate_check (as_rate_limiter auth) t1 (ci_id identity) of
       (rl, False) \<Rightarrow>
         (case rate_remaining rl t2 (ci_id identity) of (rl', n) \<Rightarrow>
            Some (auth\<lparr>as_rate_limiter := rl'\<rparr>,
              TooManyRequests (dec_digits (unat n)) ''60'' \<lparr>er_error = ''Rate limit exceeded'', er_code = 429\<rparr>))
     | (rl, True) \<Rightarrow>
         (case check_authorization secs identity (rq_path request) (rq_method request) (as_rbac auth) of
            None \<Rightarrow> None
          | Some (rbac, Inl authz_err) \<Rightarrow>
              Some (auth\<lparr>as_rate_limiter := rl, as_rbac := rbac\<rparr>, Forbidden authz_err)
          | Some (rbac, Inr _) \<Rightarrow> Some (auth\<lparr>as_rate_limiter := rl, as_rbac := rbac\<rparr>, Forwarded)))"

lemma auth_middleware_gated:
  assumes "ac_enabled (as_config auth)" "\<not> (ac_allow_public_health (as_config auth) \<and> public_path (rq_path request))"
  shows "auth_middleware env now t1 t2 secs auth request =
    (case extract_identity env now request auth of Inl response \<Rightarrow> Some (auth, response) | Inr identity \<Rightarrow> admit t1 t2 secs auth request identity)"
  unfolding auth_middleware_def admit_def using assms by (simp only: if_False not_True_eq_False)

lemma admit_forwards:
  assumes "admit t1 t2 secs auth request identity = Some (auth', response)"
  shows "response = Forwarded \<longleftrightarrow> snd (rate_check (as_rate_limiter auth) t1 (ci_id identity))
    \<and> authorized (rs_policy (as_rbac auth)) identity (rq_path request) (rq_method request)"
proof (cases "rate_check (as_rate_limiter auth) t1 (ci_id identity)")
  case (Pair rl ok)
  show ?thesis
  proof (cases ok)
    case True
    with Pair assms check_authorization_cases [of secs identity "rq_path request" "rq_method request" "as_rbac auth"]
    show ?thesis unfolding admit_def by (elim disjE exE conjE) auto
  next
    case False
    with Pair assms show ?thesis unfolding admit_def by (simp add: case_prod_unfold) auto
  qed
qed

lemma middleware_decides:
  assumes "auth_middleware env now t1 t2 secs auth request = Some (auth', response)"
  shows "response = Forwarded \<longleftrightarrow>
    \<not> ac_enabled (as_config auth)
    \<or> ac_allow_public_health (as_config auth) \<and> public_path (rq_path request)
    \<or> (\<exists>identity. identified env now request auth identity
         \<and> snd (rate_check (as_rate_limiter auth) t1 (ci_id identity))
         \<and> authorized (rs_policy (as_rbac auth)) identity (rq_path request) (rq_method request))"
proof (cases "\<not> ac_enabled (as_config auth) \<or> ac_allow_public_health (as_config auth) \<and> public_path (rq_path request)")
  case True
  with assms show ?thesis by (auto simp: auth_middleware_def split: if_splits)
next
  case gate: False
  then have eq: "auth_middleware env now t1 t2 secs auth request = (case extract_identity env now request auth of
      Inl response \<Rightarrow> Some (auth, response) | Inr identity \<Rightarrow> admit t1 t2 secs auth request identity)"
    by (intro auth_middleware_gated) simp_all
  show ?thesis
  proof (cases "extract_identity env now request auth")
    case (Inl r)
    then have "r \<noteq> Forwarded"
      by (auto simp: extract_identity_def map_err_def split: option.splits sum.splits)
    moreover have "response = r" using assms unfolding eq Inl by simp
    ultimately show ?thesis using gate by (simp add: identified_def Inl)
  next
    case (Inr identity)
    then have "admit t1 t2 secs auth request identity = Some (auth', response)" using assms unfolding eq by simp
    from admit_forwards [OF this] gate show ?thesis by (auto simp: identified_def Inr)
  qed
qed

text \<open>a request reaches the handlers exactly if authentication is off, or it is a public health request, or its
  credential identifies a client that is within its rate limit and whom the policy authorizes.
\<close>

theorem middleware_forwards_exactly:
  assumes "auth_middleware env now t1 t2 secs auth request = Some (auth', response)"
  shows "response = Forwarded \<longleftrightarrow>
    \<not> ac_enabled (as_config auth)
    \<or> ac_allow_public_health (as_config auth) \<and> public_path (rq_path request)
    \<or> (\<exists>identity. identified env now request auth identity
         \<and> snd (rate_check (as_rate_limiter auth) t1 (ci_id identity))
         \<and> authorized (rs_policy (as_rbac auth)) identity (rq_path request) (rq_method request))"
  by (rule middleware_decides [OF assms])

definition demo_auth_env :: auth_env where
  "demo_auth_env = \<lparr>au_sha256 = (\<lambda>bs. [of_nat (length bs)]), au_hex_encode = hex_string,
     au_json_claims = (\<lambda>_. Some \<lparr>jc_exp = Some 10, jc_sub = Some ''alice'', jc_role = Some ''writer''\<rparr>)\<rparr>"

definition demo_auth_config :: AuthConfig where
  "demo_auth_config = \<lparr>ac_enabled = True, ac_allow_public_health = True, ac_rate_limit_per_minute = 1, ac_jwt_secret = Some ''k''\<rparr>"

definition demo_token :: string where
  "demo_token = ''aa.aa.'' @ base64url_encode (hmac_sha256 demo_auth_env (as_bytes ''aa.aa'') (as_bytes ''k''))"

lemma demo_token_valid:
  "validate_jwt demo_auth_env 5 demo_token demo_auth_config = Inr \<lparr>ci_id = ''alice'', ci_role = RoleWriter\<rparr>"
  by code_simp


definition demo_request :: Request where
  "demo_request = \<lparr>rq_path = ''/hexads/h1'', rq_method = DELETE, rq_x_api_key = None, rq_authorization = Some (''Bearer '' @ demo_token)\<rparr>"

lemma demo_request_runs:
  "\<exists>auth'. auth_middleware demo_auth_env 5 0 0 0 (AuthState_new demo_auth_config) demo_request = Some (auth', Forwarded)"
proof -
  let ?a = "AuthState_new demo_auth_config"
  have id: "extract_identity demo_auth_env 5 demo_request ?a = Inr \<lparr>ci_id = ''alice'', ci_role = RoleWriter\<rparr>"
    unfolding extract_identity_def demo_request_def AuthState_new_def
    by (simp only: Request.simps AuthState.simps option.case bind.bind_lunit strip_prefix_append demo_token_valid map_err_def sum.case)
  let ?w = "\<lparr>ci_id = ''alice'', ci_role = RoleWriter\<rparr>"
  have "role_grants RbacPolicy_default ?w ''/hexads/h1'' DELETE" by code_simp
  then have ok: "authorized (rs_policy (as_rbac ?a)) ?w ''/hexads/h1'' DELETE"
    by (simp add: authorized_iff AuthState_new_def RbacState_new_def)
  have "record_decision 0 ?w ''/hexads/h1'' DELETE (as_rbac ?a) Allowed r \<noteq> None" for r
    by (simp add: record_decision_def Let_def audit_record_some AuthState_new_def RbacState_new_def AuditLog_default_def AuditLog_new_def)
  then have "\<exists>rbac. check_authorization 0 ?w ''/hexads/h1'' DELETE (as_rbac ?a) = Some (rbac, Inr ())"
    using check_access_outcome [of 0 ?w "''/hexads/h1''" DELETE "as_rbac ?a"] ok
    unfolding check_authorization_def by fastforce
  then obtain rbac where z: "check_authorization 0 ?w ''/hexads/h1'' DELETE (as_rbac ?a) = Some (rbac, Inr ())" ..
  have rate: "snd (rate_check (as_rate_limiter ?a) 0 ''alice'')"
    by (simp add: AuthState_new_def demo_auth_config_def rate_check_def RateLimiter_new_def window_of_def Let_def)
  have "auth_middleware demo_auth_env 5 0 0 0 ?a demo_request = admit 0 0 0 ?a demo_request \<lparr>ci_id = ''alice'', ci_role = RoleWriter\<rparr>"
    by (subst auth_middleware_gated)
      (simp_all only: id sum.case, simp_all add: AuthState_new_def demo_auth_config_def demo_request_def public_path_def)
  with z rate show ?thesis
    by (cases "rate_check (as_rate_limiter ?a) 0 ''alice''") (simp add: admit_def demo_request_def)
qed

theorem middleware_forwards_exactly_witness:
  "\<exists>identity. identified demo_auth_env 5 demo_request (AuthState_new demo_auth_config) identity
    \<and> authorized RbacPolicy_default identity ''/hexads/h1'' DELETE"
proof -
  obtain auth' where "auth_middleware demo_auth_env 5 0 0 0 (AuthState_new demo_auth_config) demo_request = Some (auth', Forwarded)"
    using demo_request_runs by blast
  from middleware_forwards_exactly [OF this] show ?thesis
    by (auto simp: AuthState_new_def demo_auth_config_def demo_request_def public_path_def RbacState_new_def)
qed

text \<open>A token whose payload has no integer \<open>exp\<close> (none, or a fractional one) is accepted at any time.\<close>

lemma jwt_without_integer_expiry_never_expires:
  assumes "validate_jwt env now token config = Inr identity"
    and "\<And>bs claims. au_json_claims env bs = Some claims \<Longrightarrow> jc_exp claims = None"
  shows "validate_jwt env later token config = Inr identity"
  using assms
  by (auto simp: validate_jwt_def rbind_Inr_iff map_err_def Let_def
      split: option.splits list.splits sum.splits if_splits)

text \<open>A revoked key is refused; registering it again makes it valid again.\<close>

lemma revoked_key_refused: "validate env (fst (revoke keys (hash_key env key))) key = None"
  by (auto simp: validate_def revoke_def split: option.splits)

lemma validate_register:
  "validate env (register env keys key label role) key' =
    (if hash_key env key' = hash_key env key
     then Some \<lparr>ak_key_hash = hash_key env key, ak_label = label, ak_role = role, ak_active = True\<rparr>
     else validate env keys key')"
  by (simp add: validate_def register_def Let_def)

end
