(* ===== verification/Zkp.thy ===== *)
theory Zkp
  imports Circuit
begin

text \<open>
  Proofs about semantic claims (\<open>verisim-semantic/src/zkp.rs\<close>, \<open>zkp_bridge.rs\<close>): hash commitments, Merkle trees with inclusion
  proofs, and the bridge that generates and verifies a proof at a privacy level.  SHA-256 is the parameter \<open>sha\<close>; a 32-byte
  array is a byte list, and where a theorem needs its length that is a hypothesis.
\<close>

unbundle bit_operations_syntax

section \<open>Primitives\<close>

definition constant_time_eq :: "bytes \<Rightarrow> bytes \<Rightarrow> bool" where
  "constant_time_eq a b =
    (if length a \<noteq> length b then False else foldl (\<lambda>diff (x, y). diff OR (x XOR y)) 0 (zip a b) = 0)"

definition commit :: "(bytes \<Rightarrow> bytes) \<Rightarrow> bytes \<Rightarrow> bytes \<Rightarrow> bytes" where
  "commit sha claim secret = sha (claim @ secret)"

definition verify_commitment :: "(bytes \<Rightarrow> bytes) \<Rightarrow> bytes \<Rightarrow> bytes \<Rightarrow> bytes \<Rightarrow> bool" where
  "verify_commitment sha commitment claim secret = constant_time_eq commitment (commit sha claim secret)"

record MerklePathElement =
  me_hash :: bytes
  me_is_left :: bool

record MerkleProof =
  mp_leaf :: bytes
  mp_path :: "MerklePathElement list"
  mp_root :: bytes

definition hash_pair :: "(bytes \<Rightarrow> bytes) \<Rightarrow> bytes \<Rightarrow> bytes \<Rightarrow> bytes" where
  "hash_pair sha left right = sha (left @ right)"

section \<open>Merkle trees\<close>

text \<open>One level: the last node is repeated if their number is odd, then neighbours are hashed together (\<open>chunks(2)\<close>).\<close>

definition pad_even :: "'a list \<Rightarrow> 'a list" where
  "pad_even xs = (if length xs mod 2 \<noteq> 0 then xs @ [last xs] else xs)"

fun pair_up :: "(bytes \<Rightarrow> bytes) \<Rightarrow> bytes list \<Rightarrow> bytes list" where
  "pair_up sha (x # y # rest) = hash_pair sha x y # pair_up sha rest"
| "pair_up sha _ = []"

definition next_level :: "(bytes \<Rightarrow> bytes) \<Rightarrow> bytes list \<Rightarrow> bytes list" where
  "next_level sha xs = pair_up sha (pad_even xs)"

lemma length_pair_up [simp]: "length (pair_up sha xs) = length xs div 2"
  by (induction sha xs rule: pair_up.induct) simp_all

lemma length_pad_even: "length (pad_even xs) = 2 * ((length xs + 1) div 2)"
  by (auto simp: pad_even_def) presburger+

lemma length_next_level [simp]: "length (next_level sha xs) = (length xs + 1) div 2"
  by (simp add: next_level_def length_pad_even)

function collapse :: "(bytes \<Rightarrow> bytes) \<Rightarrow> bytes list \<Rightarrow> bytes list" where
  "collapse sha xs = (if 1 < length xs then collapse sha (next_level sha xs) else xs)"
  by pat_completeness auto
termination by (relation "measure (\<lambda>(_, xs). length xs)") auto

declare collapse.simps [simp del]

definition merkle_root :: "(bytes \<Rightarrow> bytes) \<Rightarrow> bytes list \<Rightarrow> bytes" where
  "merkle_root sha leaves = (if leaves = [] then replicate 32 0 else hd (collapse sha (map sha leaves)))"

function proof_path :: "(bytes \<Rightarrow> bytes) \<Rightarrow> bytes list \<Rightarrow> nat \<Rightarrow> MerklePathElement list" where
  "proof_path sha hashed idx =
    (if 1 < length hashed then
       (let padded = pad_even hashed;
            sibling_idx = (if idx mod 2 = 0 then idx + 1 else idx - 1)
        in \<lparr>me_hash = padded ! sibling_idx, me_is_left = (idx mod 2 \<noteq> 0)\<rparr> # proof_path sha (pair_up sha padded) (idx div 2))
     else [])"
  by pat_completeness auto
termination by (relation "measure (\<lambda>(_, xs, _). length xs)") (auto simp: length_pad_even)

declare proof_path.simps [simp del]

definition merkle_proof :: "(bytes \<Rightarrow> bytes) \<Rightarrow> bytes list \<Rightarrow> nat \<Rightarrow> MerkleProof option" where
  "merkle_proof sha leaves index =
    (if length leaves \<le> index \<or> leaves = [] then None
     else Some \<lparr>mp_leaf = leaves ! index, mp_path = proof_path sha (map sha leaves) index, mp_root = merkle_root sha leaves\<rparr>)"

definition climb :: "(bytes \<Rightarrow> bytes) \<Rightarrow> bytes \<Rightarrow> MerklePathElement \<Rightarrow> bytes" where
  "climb sha current e =
    (if me_is_left e then hash_pair sha (me_hash e) current else hash_pair sha current (me_hash e))"

definition verify_merkle_proof :: "(bytes \<Rightarrow> bytes) \<Rightarrow> MerkleProof \<Rightarrow> bool" where
  "verify_merkle_proof sha p = constant_time_eq (foldl (climb sha) (sha (mp_leaf p)) (mp_path p)) (mp_root p)"

section \<open>Verifiable proofs\<close>

datatype VerifiableProofData =
    Commitment bytes
  | Reveal bytes bytes
  | MerkleInclusion MerkleProof
  | ContentIntegrity bytes

fun verify_proof :: "(bytes \<Rightarrow> bytes) \<Rightarrow> VerifiableProofData \<Rightarrow> bytes \<Rightarrow> bool" where
  "verify_proof sha (Commitment _) claim = True"
| "verify_proof sha (Reveal commitment secret) claim = constant_time_eq commitment (commit sha claim secret)"
| "verify_proof sha (MerkleInclusion p) claim = verify_merkle_proof sha p"
| "verify_proof sha (ContentIntegrity content_hash) claim = constant_time_eq content_hash (sha claim)"

section \<open>The bridge\<close>

datatype PrivacyLevel = LevelPublic | LevelPrivate | LevelZeroKnowledge

definition PrivacyLevel_default :: PrivacyLevel where
  "PrivacyLevel_default = LevelPublic"

fun PrivacyLevel_display :: "PrivacyLevel \<Rightarrow> string" where
  "PrivacyLevel_display LevelPublic = ''Public''"
| "PrivacyLevel_display LevelPrivate = ''Private''"
| "PrivacyLevel_display LevelZeroKnowledge = ''ZeroKnowledge''"

record 'g ZkpProofRequest =
  zr_claim :: bytes
  zr_privacy_level :: PrivacyLevel
  zr_circuit_name :: "string option"
  zr_witness :: "'g list option"
  zr_public_inputs :: "'g list option"
  zr_membership_set :: "bytes list option"
  zr_membership_index :: "nat option"

record CircuitVerificationResult =
  cv_circuit_name :: string
  cv_satisfied :: bool
  cv_constraints_checked :: nat

record ZkpProof =
  zk_privacy_level :: PrivacyLevel
  zk_proof_data :: VerifiableProofData
  zk_blinding_nonce :: "bytes option"
  zk_commitment :: "bytes option"
  zk_merkle_root :: "bytes option"
  zk_circuit_result :: "CircuitVerificationResult option"
  zk_generated_at :: string

definition generate_nonce :: "(bytes \<Rightarrow> bytes) \<Rightarrow> bytes \<Rightarrow> bytes" where
  "generate_nonce sha claim = sha (sha claim @ as_bytes ''verisimdb-zkp-nonce-v1'')"

definition generate_public_proof :: "(bytes \<Rightarrow> bytes) \<Rightarrow> string \<Rightarrow> 'g ZkpProofRequest \<Rightarrow> (CircuitError, ZkpProof) rresult" where
  "generate_public_proof sha now request =
    Inr \<lparr>zk_privacy_level = LevelPublic, zk_proof_data = ContentIntegrity (sha (zr_claim request)), zk_blinding_nonce = None,
         zk_commitment = None, zk_merkle_root = None, zk_circuit_result = None, zk_generated_at = now\<rparr>"

text \<open>The membership part of the private and the zero-knowledge proof: \<open>leaves\<close> are what the tree is built over.\<close>

definition membership_part ::
  "(bytes \<Rightarrow> bytes) \<Rightarrow> bytes \<Rightarrow> (bytes list \<Rightarrow> bytes list) \<Rightarrow> 'g ZkpProofRequest
   \<Rightarrow> (CircuitError, VerifiableProofData \<times> bytes option) rresult" where
  "membership_part sha commitment leaves request =
    (case (zr_membership_set request, zr_membership_index request) of
       (Some st, Some index) \<Rightarrow>
         (case merkle_proof sha (leaves st) index of
            Some mp \<Rightarrow> Inr (MerkleInclusion mp, Some (merkle_root sha (leaves st)))
          | None \<Rightarrow> Inl (InvalidWitness (''Membership index '' @ dec_digits index @ '' out of bounds for set of size '' @ dec_digits (length st))))
     | _ \<Rightarrow> Inr (Commitment commitment, None))"

definition generate_private_proof :: "(bytes \<Rightarrow> bytes) \<Rightarrow> string \<Rightarrow> 'g ZkpProofRequest \<Rightarrow> (CircuitError, ZkpProof) rresult" where
  "generate_private_proof sha now request =
    (let nonce = generate_nonce sha (zr_claim request);
         commitment = commit sha (zr_claim request) nonce
     in rbind (membership_part sha commitment id request) (\<lambda>(proof_data, root).
          Inr \<lparr>zk_privacy_level = LevelPrivate, zk_proof_data = proof_data, zk_blinding_nonce = Some nonce,
               zk_commitment = Some commitment, zk_merkle_root = root, zk_circuit_result = None, zk_generated_at = now\<rparr>))"

definition generate_zk_proof :: "(bytes \<Rightarrow> bytes) \<Rightarrow> string \<Rightarrow> 'g ZkpProofRequest \<Rightarrow> (CircuitError, ZkpProof) rresult" where
  "generate_zk_proof sha now request =
    (let nonce = generate_nonce sha (zr_claim request);
         commitment = commit sha (zr_claim request) nonce
     in rbind (membership_part sha commitment (map (\<lambda>leaf. commit sha leaf nonce)) request) (\<lambda>(proof_data, root).
          Inr \<lparr>zk_privacy_level = LevelZeroKnowledge, zk_proof_data = proof_data, zk_blinding_nonce = Some nonce,
               zk_commitment = Some commitment, zk_merkle_root = root, zk_circuit_result = None, zk_generated_at = now\<rparr>))"

definition generate_zkp :: "(bytes \<Rightarrow> bytes) \<Rightarrow> string \<Rightarrow> 'g ZkpProofRequest \<Rightarrow> (CircuitError, ZkpProof) rresult" where
  "generate_zkp sha now request =
    (case zr_privacy_level request of
       LevelPublic \<Rightarrow> generate_public_proof sha now request
     | LevelPrivate \<Rightarrow> generate_private_proof sha now request
     | LevelZeroKnowledge \<Rightarrow> generate_zk_proof sha now request)"

definition verify_private_proof :: "(bytes \<Rightarrow> bytes) \<Rightarrow> ZkpProof \<Rightarrow> bytes \<Rightarrow> bool" where
  "verify_private_proof sha p claim =
    (if (case (zk_blinding_nonce p, zk_commitment p) of
           (Some nonce, Some commitment_hash) \<Rightarrow> commit sha claim nonce \<noteq> commitment_hash
         | _ \<Rightarrow> False)
     then False
     else (case zk_proof_data p of
             MerkleInclusion mp \<Rightarrow> verify_merkle_proof sha mp
           | Commitment _ \<Rightarrow> True
           | other \<Rightarrow> verify_proof sha other claim))"

definition verify_zk_proof :: "(bytes \<Rightarrow> bytes) \<Rightarrow> ZkpProof \<Rightarrow> bool" where
  "verify_zk_proof sha p =
    (case zk_proof_data p of
       MerkleInclusion mp \<Rightarrow> verify_merkle_proof sha mp
     | Commitment _ \<Rightarrow> True
     | _ \<Rightarrow> False)"

definition verify_zkp :: "(bytes \<Rightarrow> bytes) \<Rightarrow> ZkpProof \<Rightarrow> bytes \<Rightarrow> bool" where
  "verify_zkp sha p claim =
    (case zk_privacy_level p of
       LevelPublic \<Rightarrow> verify_proof sha (zk_proof_data p) claim
     | LevelPrivate \<Rightarrow> verify_private_proof sha p claim
     | LevelZeroKnowledge \<Rightarrow> verify_zk_proof sha p)"

definition generate_zkp_with_circuit ::
  "('g, 'z) circuit_env_scheme \<Rightarrow> string \<Rightarrow> 'g ZkpProofRequest \<Rightarrow> 'g CircuitRegistry \<Rightarrow> (CircuitError, ZkpProof) rresult" where
  "generate_zkp_with_circuit E now request registry =
    rbind (generate_zkp (cn_sha256 E) now request) (\<lambda>p.
      case zr_circuit_name request of
        None \<Rightarrow> Inr p
      | Some circuit_name \<Rightarrow>
          let witness = (case zr_witness request of Some w \<Rightarrow> w | None \<Rightarrow> []);
              public_inputs = (case zr_public_inputs request of Some i \<Rightarrow> i | None \<Rightarrow> [])
          in rbind (verify_with_circuit E registry circuit_name witness public_inputs) (\<lambda>satisfied.
             rbind (get_circuit registry circuit_name) (\<lambda>circuit.
               Inr (p\<lparr>zk_circuit_result := Some
                 \<lparr>cv_circuit_name = circuit_name, cv_satisfied = satisfied,
                  cv_constraints_checked = (case circuit of Some c \<Rightarrow> length (ir_constraints (cc_ir c)) | None \<Rightarrow> 0)\<rparr>\<rparr>))))"

section \<open>Comparison\<close>

lemma or_eq_zero: "(a OR b = 0) \<longleftrightarrow> a = 0 \<and> b = (0 :: 'a :: semiring_bit_operations)"
  by (auto simp: bit_eq_iff bit_simps)

lemma xor_eq_zero: "(x XOR y = 0) \<longleftrightarrow> x = (y :: u8)"
  by (auto simp: bit_eq_iff bit_simps)

lemma accumulated_difference:
  "foldl (\<lambda>diff (x, y). diff OR (x XOR y)) d ps = (0 :: u8) \<longleftrightarrow> d = 0 \<and> (\<forall>(x, y)\<in>set ps. x = y)"
  by (induction ps arbitrary: d) (auto simp: or_eq_zero xor_eq_zero)

lemma constant_time_eq_iff [simp]: "constant_time_eq a b \<longleftrightarrow> a = b"
proof (cases "length a = length b")
  case True
  then have "(\<forall>(x, y)\<in>set (zip a b). x = y) \<longleftrightarrow> a = b" by (induction a b rule: list_induct2) auto
  with True show ?thesis by (simp add: constant_time_eq_def accumulated_difference)
qed (auto simp: constant_time_eq_def)

section \<open>Inclusion proofs\<close>

lemma pair_up_nth:
  "2 * k + 1 < length xs \<Longrightarrow> pair_up sha xs ! k = hash_pair sha (xs ! (2 * k)) (xs ! (2 * k + 1))"
proof (induction sha xs arbitrary: k rule: pair_up.induct)
  case (1 sha x y rest)
  then show ?case by (cases k) simp_all
qed simp_all

lemma pad_even_nth: "i < length xs \<Longrightarrow> pad_even xs ! i = xs ! i"
  by (simp add: pad_even_def nth_append)

lemma set_pad_even: "xs \<noteq> [] \<Longrightarrow> set (pad_even xs) = set xs"
  by (auto simp: pad_even_def)

lemma climb_one_level:
  assumes "idx < length xs" and "1 < length xs"
  shows "climb sha (xs ! idx) \<lparr>me_hash = pad_even xs ! (if idx mod 2 = 0 then idx + 1 else idx - 1), me_is_left = (idx mod 2 \<noteq> 0)\<rparr>
    = pair_up sha (pad_even xs) ! (idx div 2)"
proof -
  have len: "2 * (idx div 2) + 1 < length (pad_even xs)" using assms by (simp add: length_pad_even) presburger
  have x: "xs ! idx = pad_even xs ! idx" using assms(1) by (simp add: pad_even_nth)
  show ?thesis
  proof (cases "idx mod 2 = 0")
    case True
    then have "2 * (idx div 2) = idx" by presburger
    with True len show ?thesis by (simp add: climb_def pair_up_nth x)
  next
    case False
    then have "2 * (idx div 2) = idx - 1" "2 * (idx div 2) + 1 = idx" by presburger+
    with False len show ?thesis by (simp add: climb_def pair_up_nth x)
  qed
qed

lemma path_reaches_root:
  "idx < length xs \<Longrightarrow> foldl (climb sha) (xs ! idx) (proof_path sha xs idx) = hd (collapse sha xs)"
proof (induction sha xs idx rule: proof_path.induct)
  case (1 sha xs idx)
  show ?case
  proof (cases "1 < length xs")
    case True
    have "idx div 2 < length (pair_up sha (pad_even xs))" using 1(2) by (simp add: length_pad_even)
    with 1(1) [OF True refl refl] True climb_one_level [OF 1(2) True, of sha] show ?thesis
      by (simp add: proof_path.simps [of sha xs] collapse.simps [of sha xs] next_level_def Let_def del: One_nat_def)
  next
    case False
    with 1(2) have "xs = [hd xs]" "idx = 0" by (cases xs; simp)+
    with False show ?thesis by (simp add: proof_path.simps collapse.simps) (metis list.sel(1) nth_Cons_0)
  qed
qed

text \<open>The height of a tree, and what is hashed in building it and in checking a proof.\<close>

function height :: "(bytes \<Rightarrow> bytes) \<Rightarrow> bytes list \<Rightarrow> nat" where
  "height sha xs = (if 1 < length xs then Suc (height sha (next_level sha xs)) else 0)"
  by pat_completeness auto
termination by (relation "measure (\<lambda>(_, xs). length xs)") auto

declare height.simps [simp del]

fun joined :: "bytes list \<Rightarrow> bytes set" where
  "joined (x # y # rest) = insert (x @ y) (joined rest)"
| "joined _ = {}"

function tree_inputs :: "(bytes \<Rightarrow> bytes) \<Rightarrow> bytes list \<Rightarrow> bytes set" where
  "tree_inputs sha xs = (if 1 < length xs then joined (pad_even xs) \<union> tree_inputs sha (next_level sha xs) else {})"
  by pat_completeness auto
termination by (relation "measure (\<lambda>(_, xs). length xs)") auto

declare tree_inputs.simps [simp del]

fun path_inputs :: "(bytes \<Rightarrow> bytes) \<Rightarrow> bytes \<Rightarrow> MerklePathElement list \<Rightarrow> bytes set" where
  "path_inputs sha current [] = {}"
| "path_inputs sha current (e # path) =
    insert (if me_is_left e then me_hash e @ current else current @ me_hash e) (path_inputs sha (climb sha current e) path)"

lemma pair_up_joined: "h \<in> set (pair_up sha xs) \<Longrightarrow> \<exists>x y. x @ y \<in> joined xs \<and> h = sha (x @ y) \<and> x \<in> set xs \<and> y \<in> set xs"
  by (induction sha xs rule: pair_up.induct) (auto simp: hash_pair_def)

lemma path_from_level:
  assumes "foldl (climb sha) current path = hd (collapse sha xs)" and "length path = height sha xs" and "xs \<noteq> []"
    and "inj_on sha (tree_inputs sha xs \<union> path_inputs sha current path)"
    and "\<And>x. length (sha x) = 32" and "\<forall>e\<in>set path. length (me_hash e) = 32" and "length current = 32"
    and "\<forall>x\<in>set xs. length x = 32"
  shows "current \<in> set xs"
  using assms
proof (induction sha xs arbitrary: current path rule: collapse.induct)
  case (1 sha xs)
  show ?case
  proof (cases "1 < length xs")
    case False
    with 1(2-4) show ?thesis by (cases xs) (simp_all add: collapse.simps height.simps)
  next
    case True
    then obtain e rest where path: "path = e # rest" using 1(3) by (cases path) (simp_all add: height.simps [of sha xs])
    define up inp where "up = climb sha current e" and "inp = (if me_is_left e then me_hash e @ current else current @ me_hash e)"
    have up: "up = sha inp" by (simp add: up_def inp_def climb_def hash_pair_def)
    have inputs: "tree_inputs sha xs = joined (pad_even xs) \<union> tree_inputs sha (next_level sha xs)"
      using True by (simp add: tree_inputs.simps [of sha xs])
    have pinputs: "path_inputs sha current path = insert inp (path_inputs sha up rest)" by (simp add: path up_def inp_def)
    have lens: "length x = 32" if "x \<in> set (next_level sha xs)" for x
      using pair_up_joined [of x sha "pad_even xs"] that 1(6) by (auto simp: next_level_def)
    have "up \<in> set (next_level sha xs)"
    proof (rule 1(1) [OF True])
      show "foldl (climb sha) up rest = hd (collapse sha (next_level sha xs))" "length rest = height sha (next_level sha xs)"
        using 1(2,3) True by (simp_all add: path up_def collapse.simps [of sha xs] height.simps [of sha xs])
      have "length (next_level sha xs) \<noteq> 0" using True by simp
      then show "next_level sha xs \<noteq> []" by fastforce
      show "inj_on sha (tree_inputs sha (next_level sha xs) \<union> path_inputs sha up rest)"
        by (rule inj_on_subset [OF 1(5)]) (simp add: inputs pinputs subset_iff)
      show "\<forall>e\<in>set rest. length (me_hash e) = 32" using 1(7) by (simp add: path)
    qed (use 1(6) lens in \<open>simp_all add: up\<close>)
    then obtain x y where xy: "x @ y \<in> joined (pad_even xs)" "up = sha (x @ y)" "x \<in> set xs" "y \<in> set xs"
      using pair_up_joined [of up sha "pad_even xs"] 1(4) by (auto simp: next_level_def set_pad_even)
    have "inp = x @ y" by (rule inj_onD [OF 1(5)]) (use xy(1,2) up in \<open>simp_all add: inputs pinputs\<close>)
    moreover have "length x = 32" "length (me_hash e) = 32" using xy(3) 1(7,9) by (simp_all add: path)
    ultimately have "current = y \<or> current = x" using 1(8) by (cases "me_is_left e") (simp_all add: inp_def)
    with xy(3,4) show ?thesis by blast
  qed
qed

lemma length_proof_path: "length (proof_path sha xs idx) = height sha xs"
  by (induction sha xs idx rule: proof_path.induct)
    (simp add: proof_path.simps height.simps next_level_def Let_def)

lemma generated_inclusion:
  assumes "i < length leaves"
  shows "\<exists>p. merkle_proof sha leaves i = Some p \<and> mp_leaf p = leaves ! i \<and> mp_root p = merkle_root sha leaves
    \<and> length (mp_path p) = height sha (map sha leaves) \<and> verify_merkle_proof sha p"
  using assms path_reaches_root [of i "map sha leaves" sha]
  by (auto simp: merkle_proof_def verify_merkle_proof_def merkle_root_def length_proof_path)

lemma merkle_proof_verifies: "merkle_proof sha leaves i = Some p \<Longrightarrow> verify_merkle_proof sha p"
  using generated_inclusion [of i leaves sha] by (auto simp: merkle_proof_def split: if_splits)

lemma collapse_rounds: "collapse sha xs = (next_level sha ^^ height sha xs) xs"
proof (induction sha xs rule: collapse.induct)
  case (1 sha xs)
  then show ?case by (simp add: collapse.simps [of sha xs] height.simps [of sha xs] funpow_swap1)
qed

lemma collapse_single: "xs \<noteq> [] \<Longrightarrow> length (collapse sha xs) = 1"
proof (induction sha xs rule: collapse.induct)
  case (1 sha xs)
  show ?case
  proof (cases "1 < length xs")
    case True
    then have "length (next_level sha xs) \<noteq> 0" by simp
    then have "next_level sha xs \<noteq> []" by fastforce
    with 1(1) True show ?thesis by (simp add: collapse.simps [of sha xs])
  next
    case False
    with 1(2) show ?thesis by (cases xs) (simp_all add: collapse.simps)
  qed
qed

lemma height_bounds:
  "xs \<noteq> [] \<Longrightarrow> length xs \<le> 2 ^ height sha xs \<and> (height sha xs \<noteq> 0 \<longrightarrow> 2 ^ (height sha xs - 1) < length xs)"
proof (induction sha xs rule: height.induct)
  case (1 sha xs)
  show ?case
  proof (cases "1 < length xs")
    case True
    let ?h = "height sha (next_level sha xs)"
    have "length (next_level sha xs) \<noteq> 0" using True by simp
    then have "next_level sha xs \<noteq> []" by fastforce
    from 1(1) [OF True this] have up: "(length xs + 1) div 2 \<le> 2 ^ ?h" and low: "?h \<noteq> 0 \<longrightarrow> 2 ^ (?h - 1) < (length xs + 1) div 2" by auto
    have "length xs \<le> 2 * 2 ^ ?h" using up by linarith
    moreover have "2 ^ ?h < length xs" using low True by (cases ?h) auto
    ultimately show ?thesis using True by (simp add: height.simps [of sha xs])
  next
    case False
    with 1(2) show ?thesis by (cases xs) (simp_all add: height.simps)
  qed
qed

text \<open>C25: The loop that builds the root ends with a single hash, after as many rounds as the number of leaves can be halved, rounding up:
  the least \<open>h\<close> with at most \<open>2 ^ h\<close> leaves.  This is also the length of every inclusion proof.
\<close>

theorem merkle_loop_ends:
  assumes "leaves \<noteq> []"
  shows "\<exists>h. length leaves \<le> 2 ^ h \<and> (h \<noteq> 0 \<longrightarrow> 2 ^ (h - 1) < length leaves)
    \<and> (next_level sha ^^ h) (map sha leaves) = [merkle_root sha leaves]
    \<and> (\<forall>i p. merkle_proof sha leaves i = Some p \<longrightarrow> length (mp_path p) = h)"
proof (intro exI [of _ "height sha (map sha leaves)"] conjI allI impI)
  let ?h = "height sha (map sha leaves)"
  show "2 ^ (?h - 1) < length leaves" if "?h \<noteq> 0"
    using height_bounds [of "map sha leaves" sha] assms that by simp
  show "length leaves \<le> 2 ^ ?h" using height_bounds [of "map sha leaves" sha] assms by simp
  show "(next_level sha ^^ ?h) (map sha leaves) = [merkle_root sha leaves]"
    using collapse_single [of "map sha leaves" sha] assms by (simp add: merkle_root_def flip: collapse_rounds) (metis length_0_conv length_Suc_conv list.sel(1))
  show "length (mp_path p) = ?h" if "merkle_proof sha leaves i = Some p" for i p
    using that by (auto simp: merkle_proof_def length_proof_path split: if_splits)
qed

theorem merkle_loop_ends_witness:
  "\<exists>h. h \<noteq> 0 \<and> 2 ^ (h - 1) < (3 :: nat) \<and> 3 \<le> (2 :: nat) ^ h \<and> (next_level id ^^ h) (map id [[1], [2], [3]]) = [merkle_root id [[1], [2], [3]]]"
proof -
  obtain h where h: "length [[1], [2], [3 :: u8]] \<le> 2 ^ h" "h \<noteq> 0 \<longrightarrow> 2 ^ (h - 1) < length [[1], [2], [3 :: u8]]"
    "(next_level id ^^ h) (map id [[1], [2], [3]]) = [merkle_root id [[1], [2], [3]]]"
    using merkle_loop_ends [of "[[1], [2], [3]]" id] by blast
  have "h \<noteq> 0" using h(1) by (cases h) auto
  with h show ?thesis by (intro exI [of _ h]) simp
qed

text \<open>C23: A Merkle inclusion proof is made for exactly the positions of the set and verifies against its root; conversely a proof that
  verifies against that root, with one path element per level, shows a member of the set, unless SHA-256 collides on what was
  hashed for the tree and for the proof.
\<close>

theorem inclusion_proof_exact:
  assumes "leaves \<noteq> []" and "\<And>x. length (sha x) = 32"
  shows "(\<forall>i. (\<exists>p. merkle_proof sha leaves i = Some p) \<longleftrightarrow> i < length leaves)
    \<and> (\<forall>i p. merkle_proof sha leaves i = Some p \<longrightarrow> verify_merkle_proof sha p \<and> mp_leaf p = leaves ! i
         \<and> mp_root p = merkle_root sha leaves \<and> length (mp_path p) = height sha (map sha leaves))
    \<and> (\<forall>p. verify_merkle_proof sha p \<longrightarrow> mp_root p = merkle_root sha leaves
         \<longrightarrow> length (mp_path p) = height sha (map sha leaves) \<longrightarrow> (\<forall>e\<in>set (mp_path p). length (me_hash e) = 32)
         \<longrightarrow> inj_on sha (insert (mp_leaf p) (set leaves) \<union> tree_inputs sha (map sha leaves) \<union> path_inputs sha (sha (mp_leaf p)) (mp_path p))
         \<longrightarrow> mp_leaf p \<in> set leaves)"
proof (intro conjI allI impI)
  show "(\<exists>p. merkle_proof sha leaves i = Some p) \<longleftrightarrow> i < length leaves" for i
    using assms(1) by (auto simp: merkle_proof_def)
  show "verify_merkle_proof sha p" "mp_leaf p = leaves ! i" "mp_root p = merkle_root sha leaves"
    "length (mp_path p) = height sha (map sha leaves)" if "merkle_proof sha leaves i = Some p" for i p
  proof -
    have "i < length leaves" using that by (simp add: merkle_proof_def split: if_splits)
    from generated_inclusion [OF this, of sha] that
    show "verify_merkle_proof sha p" "mp_leaf p = leaves ! i" "mp_root p = merkle_root sha leaves"
      "length (mp_path p) = height sha (map sha leaves)" by auto
  qed
  fix p
  assume v: "verify_merkle_proof sha p" "mp_root p = merkle_root sha leaves" "length (mp_path p) = height sha (map sha leaves)"
    "\<forall>e\<in>set (mp_path p). length (me_hash e) = 32"
    and inj: "inj_on sha (insert (mp_leaf p) (set leaves) \<union> tree_inputs sha (map sha leaves) \<union> path_inputs sha (sha (mp_leaf p)) (mp_path p))"
  have "sha (mp_leaf p) \<in> set (map sha leaves)"
  proof (rule path_from_level [where path = "mp_path p"])
    show "foldl (climb sha) (sha (mp_leaf p)) (mp_path p) = hd (collapse sha (map sha leaves))"
      using v(1,2) assms(1) by (simp add: verify_merkle_proof_def merkle_root_def)
    show "inj_on sha (tree_inputs sha (map sha leaves) \<union> path_inputs sha (sha (mp_leaf p)) (mp_path p))"
      by (rule inj_on_subset [OF inj]) blast
  qed (use assms v in simp_all)
  then obtain l where l: "l \<in> set leaves" "sha (mp_leaf p) = sha l" by auto
  have "mp_leaf p = l" by (rule inj_onD [OF inj l(2)]) (use l(1) in simp_all)
  with l(1) show "mp_leaf p \<in> set leaves" by simp
qed

section \<open>Generated proofs\<close>

definition membership_out_of_range :: "'g ZkpProofRequest \<Rightarrow> bool" where
  "membership_out_of_range request \<longleftrightarrow>
    (case (zr_membership_set request, zr_membership_index request) of (Some st, Some i) \<Rightarrow> length st \<le> i | _ \<Rightarrow> False)"

lemma membership_part_cases:
  assumes "\<And>st. length (leaves st) = length st"
  obtains (fails) m where "membership_out_of_range request" "membership_part sha c leaves request = Inl (InvalidWitness m)"
  | (included) mp r where "\<not> membership_out_of_range request" "membership_part sha c leaves request = Inr (MerkleInclusion mp, r)"
      "verify_merkle_proof sha mp"
  | (committed) "\<not> membership_out_of_range request" "membership_part sha c leaves request = Inr (Commitment c, None)"
proof (cases "\<exists>st i. zr_membership_set request = Some st \<and> zr_membership_index request = Some i")
  case True
  then obtain st i where req: "zr_membership_set request = Some st" "zr_membership_index request = Some i" by blast
  show thesis
  proof (cases "merkle_proof sha (leaves st) i")
    case None
    then have "membership_out_of_range request"
      using req assms [of st] by (auto simp: membership_out_of_range_def merkle_proof_def split: if_splits)
    then show thesis using None req by (intro fails) (simp_all add: membership_part_def)
  next
    case (Some mp)
    then have "\<not> membership_out_of_range request"
      using req assms [of st] by (auto simp: membership_out_of_range_def merkle_proof_def split: if_splits)
    then show thesis
      by (rule included) (use Some req merkle_proof_verifies [OF Some] in \<open>simp_all add: membership_part_def\<close>)
  qed
next
  case False
  then show thesis
    by (intro committed) (auto simp: membership_out_of_range_def membership_part_def split: option.splits)
qed

text \<open>C24: A proof is generated unless a membership index is out of range (which a public proof ignores), it carries the requested
  privacy level, and it verifies for its claim.
\<close>

theorem generated_proof_verifies:
  "((\<exists>e. generate_zkp sha now request = Inl e) \<longleftrightarrow> zr_privacy_level request \<noteq> LevelPublic \<and> membership_out_of_range request)
   \<and> (\<forall>p. generate_zkp sha now request = Inr p \<longrightarrow>
        zk_privacy_level p = zr_privacy_level request \<and> verify_zkp sha p (zr_claim request))"
proof (intro conjI allI impI)
  have priv: "(if membership_out_of_range request then \<exists>e. generate_private_proof sha now request = Inl e
      else \<exists>p. generate_private_proof sha now request = Inr p \<and> zk_privacy_level p = LevelPrivate \<and> verify_private_proof sha p (zr_claim request))"
    by (rule membership_part_cases [of id request sha "commit sha (zr_claim request) (generate_nonce sha (zr_claim request))"])
      (simp_all add: generate_private_proof_def verify_private_proof_def Let_def)
  let ?blind = "map (\<lambda>leaf. commit sha leaf (generate_nonce sha (zr_claim request)))"
  have zk: "(if membership_out_of_range request then \<exists>e. generate_zk_proof sha now request = Inl e
      else \<exists>p. generate_zk_proof sha now request = Inr p \<and> zk_privacy_level p = LevelZeroKnowledge \<and> verify_zk_proof sha p)"
    by (rule membership_part_cases [of ?blind request sha "commit sha (zr_claim request) (generate_nonce sha (zr_claim request))"])
      (simp_all add: generate_zk_proof_def verify_zk_proof_def Let_def)
  show "(\<exists>e. generate_zkp sha now request = Inl e) \<longleftrightarrow> zr_privacy_level request \<noteq> LevelPublic \<and> membership_out_of_range request"
    using priv zk by (cases "zr_privacy_level request")
      (auto simp: generate_zkp_def generate_public_proof_def split: if_splits)
  have "zk_privacy_level p = zr_privacy_level request \<and> verify_zkp sha p (zr_claim request)" if "generate_zkp sha now request = Inr p" for p
  proof (cases "zr_privacy_level request")
    case LevelPublic
    then show ?thesis using that by (auto simp: generate_zkp_def generate_public_proof_def verify_zkp_def)
  next
    case LevelPrivate
    then show ?thesis using that priv by (auto simp: generate_zkp_def verify_zkp_def split: if_splits)
  next
    case LevelZeroKnowledge
    then show ?thesis using that zk by (auto simp: generate_zkp_def verify_zkp_def split: if_splits)
  qed
  then show "zk_privacy_level p = zr_privacy_level request" "verify_zkp sha p (zr_claim request)"
    if "generate_zkp sha now request = Inr p" for p using that by blast+
qed

section \<open>What a verified proof does not say\<close>

text \<open>
  Leaves and inner nodes are hashed alike, so the concatenation of two node hashes passes as a leaf of a shorter path, and the
  padding gives a list and the list with its last element repeated the same root.
\<close>

lemma inner_node_accepted_as_leaf:
  "verify_merkle_proof sha \<lparr>mp_leaf = sha a @ sha b, mp_path = [], mp_root = merkle_root sha [a, b]\<rparr>"
  by (simp add: verify_merkle_proof_def merkle_root_def collapse.simps next_level_def pad_even_def hash_pair_def)

lemma padding_collides: "merkle_root sha [a, b, c] = merkle_root sha [a, b, c, c]"
  by (simp add: merkle_root_def collapse.simps [of sha "[sha a, sha b, sha c]"] collapse.simps [of sha "[sha a, sha b, sha c, sha c]"]
      next_level_def pad_even_def)

text \<open>
  Inclusion is not compared with the claim, and a zero-knowledge proof not with anything: any bytes called a commitment verify for
  every claim.  A commitment does not separate the claim from the secret.
\<close>

lemma inclusion_proof_for_any_claim: "verify_proof sha (MerkleInclusion mp) claim = verify_proof sha (MerkleInclusion mp) other"
  by simp

lemma forged_zero_knowledge_proof:
  "zk_privacy_level p = LevelZeroKnowledge \<Longrightarrow> zk_proof_data p = Commitment c \<Longrightarrow> verify_zkp sha p claim"
  by (simp add: verify_zkp_def verify_zk_proof_def)

lemma commitment_ambiguous: "commit sha (claim @ x) secret = commit sha claim (x @ secret)"
  by (simp add: commit_def)

section \<open>Examples\<close>

definition demo_sha :: "bytes \<Rightarrow> bytes" where
  "demo_sha x = replicate 31 0 @ [sum_list x]"

lemma demo_sha_length: "length (demo_sha x) = 32"
  by (simp add: demo_sha_def)

definition demo_leaves :: "bytes list" where
  "demo_leaves = [[1], [2]]"

theorem inclusion_proof_exact_witness:
  "\<exists>p. merkle_proof demo_sha demo_leaves 1 = Some p \<and> verify_merkle_proof demo_sha p \<and> mp_leaf p \<in> set demo_leaves"
proof -
  have "demo_leaves \<noteq> []" by (simp add: demo_leaves_def)
  note exact = inclusion_proof_exact [OF this demo_sha_length]
  obtain p where p: "merkle_proof demo_sha demo_leaves 1 = Some p" by (simp add: merkle_proof_def demo_leaves_def)
  have path: "mp_path p = [\<lparr>me_hash = demo_sha [1], me_is_left = True\<rparr>]" and leaf: "mp_leaf p = [2]"
    using p by (auto simp: merkle_proof_def demo_leaves_def proof_path.simps pad_even_def Let_def)
  have "insert (mp_leaf p) (set demo_leaves) \<union> tree_inputs demo_sha (map demo_sha demo_leaves)
      \<union> path_inputs demo_sha (demo_sha (mp_leaf p)) (mp_path p) = {[1], [2], demo_sha [1] @ demo_sha [2]}"
    by (auto simp: leaf path demo_leaves_def tree_inputs.simps pad_even_def next_level_def hash_pair_def)
  moreover have "inj_on demo_sha {[1], [2], demo_sha [1] @ demo_sha [2]}"
    by (simp add: demo_sha_def sum_list_replicate)
  ultimately have inj: "inj_on demo_sha (insert (mp_leaf p) (set demo_leaves) \<union> tree_inputs demo_sha (map demo_sha demo_leaves)
      \<union> path_inputs demo_sha (demo_sha (mp_leaf p)) (mp_path p))" by (simp only:)
  have v: "verify_merkle_proof demo_sha p" "mp_root p = merkle_root demo_sha demo_leaves"
    "length (mp_path p) = height demo_sha (map demo_sha demo_leaves)" 
    using exact [THEN conjunct2, THEN conjunct1, rule_format, OF p] by simp_all
  have e: "\<forall>e\<in>set (mp_path p). length (me_hash e) = 32" by (simp add: path demo_sha_length)
  have "mp_leaf p \<in> set demo_leaves"
    by (rule exact [THEN conjunct2, THEN conjunct2, rule_format, OF v _ inj]) (use e in blast)
  with p v(1) show ?thesis by blast
qed

definition demo_zkp_request :: "rat ZkpProofRequest" where
  "demo_zkp_request = \<lparr>zr_claim = [2], zr_privacy_level = LevelPrivate, zr_circuit_name = None, zr_witness = None,
     zr_public_inputs = None, zr_membership_set = Some demo_leaves, zr_membership_index = Some 1\<rparr>"

theorem generated_proof_verifies_witness:
  "\<exists>p. generate_zkp demo_sha ''now'' demo_zkp_request = Inr p \<and> verify_zkp demo_sha p [2]"
proof -
  have "\<not> membership_out_of_range demo_zkp_request"
    by (simp add: membership_out_of_range_def demo_zkp_request_def demo_leaves_def)
  then show ?thesis
    using generated_proof_verifies [of demo_sha "''now''" demo_zkp_request]
    by (cases "generate_zkp demo_sha ''now'' demo_zkp_request") (auto simp: demo_zkp_request_def)
qed

end
