(* ===== verification/Federation.thy ===== *)
theory Federation
  imports Float_Env Json "HOL-Library.AList"
begin

text \<open>
  The federation of stores (\<open>verisim-api/src/federation.rs\<close>): the registry of peers with their pre-shared keys, the drift
  policies and the query that fans out to peers.  An answer is \<open>Inl\<close> a status code or \<open>Inr\<close> a body with its code.  The
  iteration order of the peer map, SHA-256, the Unicode class of a character, the reading of JSON numbers and the
  answers of other servers are parameters.
\<close>

section \<open>Data\<close>

datatype DriftPolicy = PolicyStrict | PolicyRepair | PolicyTolerate | PolicyLatest

definition DriftPolicy_default :: DriftPolicy where
  "DriftPolicy_default = PolicyTolerate"

record 'g PeerStore =
  fp_store_id :: string
  fp_endpoint :: string
  fp_modalities :: "string list"
  fp_trust_level :: 'g
  fp_last_seen :: "string option"
  fp_response_time_ms :: "u64 option"
  fp_secret_hash :: "string option"

type_synonym 'g peer_map = "(string \<times> 'g PeerStore) list"

record 'f FederationQueryRequest =
  fq_pattern :: string
  fq_modalities :: "string list"
  fq_drift_policy :: DriftPolicy
  fq_limit :: "nat option"
  fq_text_query :: "string option"
  fq_vector_query :: "'f list option"

record ('g, 'n) FederationResult =
  fr_source_store :: string
  fr_hexad_id :: string
  fr_score :: 'g
  fr_drifted :: bool
  fr_data :: "'n json"

record ('g, 'n) FederationQueryResponse =
  fa_results :: "('g, 'n) FederationResult list"
  fa_stores_queried :: "string list"
  fa_stores_excluded :: "string list"
  fa_drift_policy :: DriftPolicy

record RegisterRequest =
  fg_store_id :: string
  fg_endpoint :: string
  fg_modalities :: "string list"
  fg_secret :: "string option"

record 'g HeartbeatRequest =
  fh_store_id :: string
  fh_drift_scores :: "(string \<times> 'g) list"

record 'g FederationState =
  fd_peers :: "'g peer_map"
  fd_self_store_id :: string
  fd_self_endpoint :: string
  fd_strict_drift_threshold :: 'g
  fd_federation_keys :: "(string \<times> string) list"

text \<open>A request to a peer, and what comes back: a transport error, or a status with the parsed body.\<close>

datatype 'f PeerRequest =
    PeerGet string "(string \<times> string) list"
  | PeerPost string "'f list" nat

type_synonym 'n peer_answer = "(string, u16 \<times> (string, 'n json list) rresult) rresult"

text \<open>How a spawned task ends.\<close>

datatype task_fate = TaskFinished | TaskTimedOut | TaskPanicked

record ('f, 'g, 'n) fed_env = "'g plan_env" +
  fe_order :: "'g peer_map \<Rightarrow> 'g peer_map"
  fe_sha256 :: "bytes \<Rightarrow> bytes"
  fe_is_alphanumeric :: "string \<Rightarrow> bool"
  fe_as_f64 :: "'n \<Rightarrow> 'g option"
  fe_send :: "'f PeerRequest \<Rightarrow> 'n peer_answer"
  fe_fate :: "string \<Rightarrow> task_fate"
  fe_status_display :: "u16 \<Rightarrow> string"

section \<open>Keys\<close>

text \<open>\<open>splitn(2, ':')\<close> with two parts.\<close>

definition key_entry :: "string \<Rightarrow> (string \<times> string) option" where
  "key_entry pair =
    (if CHR '':'' \<in> set pair
     then Some (trim (takeWhile (\<lambda>c. c \<noteq> CHR '':'') pair), trim (tl (dropWhile (\<lambda>c. c \<noteq> CHR '':'') pair)))
     else None)"

definition load_federation_keys :: "string option \<Rightarrow> (string \<times> string) list" where
  "load_federation_keys var =
    (case var of
       None \<Rightarrow> []
     | Some val \<Rightarrow>
         if val = [] then []
         else foldl (\<lambda>keys (i, k). AList.update i k keys) [] (List.map_filter key_entry (split_char (CHR '','') val)))"

definition FederationState_new :: "('g, 'z) plan_env_scheme \<Rightarrow> string option \<Rightarrow> string \<Rightarrow> string \<Rightarrow> 'g FederationState" where
  "FederationState_new E var self_store_id self_endpoint =
    \<lparr>fd_peers = [], fd_self_store_id = self_store_id, fd_self_endpoint = self_endpoint,
     fd_strict_drift_threshold = pf_dec E 3 1, fd_federation_keys = load_federation_keys var\<rparr>"

definition registration_enabled :: "'g FederationState \<Rightarrow> bool" where
  "registration_enabled st \<longleftrightarrow> fd_federation_keys st \<noteq> []"

definition validate_psk :: "'g FederationState \<Rightarrow> string \<Rightarrow> string \<Rightarrow> bool" where
  "validate_psk st store_id provided_secret =
    (case map_of (fd_federation_keys st) store_id of
       Some expected_key \<Rightarrow> expected_key = provided_secret
     | None \<Rightarrow> False)"

definition sha256_hex :: "('f, 'g, 'n, 'z) fed_env_scheme \<Rightarrow> string \<Rightarrow> string" where
  "sha256_hex E input = hex_string (fe_sha256 E (as_bytes input))"

text \<open>\<open>header\<close> is the value of \<open>X-Federation-PSK\<close> if it is there and readable as text.\<close>

definition validate_peer_header ::
  "('f, 'g, 'n, 'z) fed_env_scheme \<Rightarrow> 'g FederationState \<Rightarrow> string \<Rightarrow> string option \<Rightarrow> (u16, unit) rresult" where
  "validate_peer_header E st store_id header =
    (let psk = (case header of Some v \<Rightarrow> v | None \<Rightarrow> []) in
     if psk = [] then Inl 401
     else
       (case map_of (fd_peers st) store_id of
          Some peer \<Rightarrow>
            (case fp_secret_hash peer of
               Some stored_hash \<Rightarrow> if stored_hash = sha256_hex E psk then Inr () else Inl 401
             | None \<Rightarrow> Inl 401)
        | None \<Rightarrow> Inl 401))"

section \<open>Handlers\<close>

definition list_peers :: "('f, 'g, 'n, 'z) fed_env_scheme \<Rightarrow> 'g FederationState \<Rightarrow> string option \<Rightarrow> 'g PeerStore list" where
  "list_peers E st modality =
    filter (\<lambda>p. case modality of Some m \<Rightarrow> m \<in> set (fp_modalities p) | None \<Rightarrow> True) (map snd (fe_order E (fd_peers st)))"

definition valid_store_id :: "('f, 'g, 'n, 'z) fed_env_scheme \<Rightarrow> string \<Rightarrow> bool" where
  "valid_store_id E i \<longleftrightarrow> i \<noteq> [] \<and> length i \<le> 128
    \<and> list_all (\<lambda>c. fe_is_alphanumeric E c \<or> c = ''-'' \<or> c = ''_'' \<or> c = ''/'') (utf8_chars i)"

definition register_peer ::
  "('f, 'g, 'n, 'z) fed_env_scheme \<Rightarrow> string \<Rightarrow> 'g FederationState \<Rightarrow> RegisterRequest
   \<Rightarrow> 'g FederationState \<times> (u16, u16 \<times> 'g PeerStore) rresult" where
  "register_peer E now st request =
    (if \<not> registration_enabled st then (st, Inl 403)
     else if \<not> valid_store_id E (fg_store_id request) then (st, Inl 400)
     else
       (let secret = (case fg_secret request of Some s \<Rightarrow> s | None \<Rightarrow> []) in
        if \<not> validate_psk st (fg_store_id request) secret then (st, Inl 401)
        else
          (let peer = \<lparr>fp_store_id = fg_store_id request, fp_endpoint = fg_endpoint request,
                       fp_modalities = fg_modalities request, fp_trust_level = pf_dec E 10 1, fp_last_seen = Some now,
                       fp_response_time_ms = None, fp_secret_hash = Some (sha256_hex E secret)\<rparr>
           in (st\<lparr>fd_peers := AList.update (fg_store_id request) peer (fd_peers st)\<rparr>, Inr (201, peer)))))"

definition heartbeat ::
  "('f, 'g, 'n, 'z) fed_env_scheme \<Rightarrow> string \<Rightarrow> 'g FederationState \<Rightarrow> string option \<Rightarrow> 'g HeartbeatRequest
   \<Rightarrow> 'g FederationState \<times> (u16, u16) rresult" where
  "heartbeat E now st header request =
    (case validate_peer_header E st (fh_store_id request) header of
       Inl code \<Rightarrow> (st, Inl code)
     | Inr _ \<Rightarrow>
         (case map_of (fd_peers st) (fh_store_id request) of
            Some peer \<Rightarrow>
              (st\<lparr>fd_peers := AList.update (fh_store_id request) (peer\<lparr>fp_last_seen := Some now\<rparr>) (fd_peers st)\<rparr>, Inr 200)
          | None \<Rightarrow> (st, Inr 404)))"

definition deregister_peer :: "'g FederationState \<Rightarrow> string \<Rightarrow> 'g FederationState \<times> (u16, u16) rresult" where
  "deregister_peer st store_id =
    (st\<lparr>fd_peers := AList.delete store_id (fd_peers st)\<rparr>,
     Inr (if map_of (fd_peers st) store_id \<noteq> None then 200 else 404))"

section \<open>Queries\<close>

definition pattern_matches :: "string \<Rightarrow> string \<Rightarrow> bool" where
  "pattern_matches pattern store_id =
    (if pattern = ''*'' then True
     else (case strip_suffix ''/*'' pattern of
             Some p \<Rightarrow> prefix p store_id
           | None \<Rightarrow> pattern = store_id))"

definition matching_peers :: "('f, 'g, 'n, 'z) fed_env_scheme \<Rightarrow> 'g FederationState \<Rightarrow> 'f FederationQueryRequest \<Rightarrow> 'g PeerStore list" where
  "matching_peers E st request =
    filter (\<lambda>p. list_all (\<lambda>m. m \<in> set (fp_modalities p)) (fq_modalities request))
      (filter (\<lambda>p. pattern_matches (fq_pattern request) (fp_store_id p)) (map snd (fe_order E (fd_peers st))))"

definition policy_includes :: "('g, 'z) plan_env_scheme \<Rightarrow> 'g FederationState \<Rightarrow> DriftPolicy \<Rightarrow> 'g PeerStore \<Rightarrow> bool" where
  "policy_includes E st policy peer =
    (case policy of
       PolicyStrict \<Rightarrow> fo_le E (fo_sub E (pf_dec E 10 1) (fd_strict_drift_threshold st)) (fp_trust_level peer)
     | _ \<Rightarrow> True)"

definition peer_request :: "'g PeerStore \<Rightarrow> string option \<Rightarrow> 'f list option \<Rightarrow> nat \<Rightarrow> 'f PeerRequest" where
  "peer_request store text_query vector_query limit =
    (case text_query of
       Some q \<Rightarrow> PeerGet (fp_endpoint store @ ''/search/text'') [(''q'', q), (''limit'', dec_digits limit)]
     | None \<Rightarrow>
         (case vector_query of
            Some v \<Rightarrow> PeerPost (fp_endpoint store @ ''/search/vector'') v limit
          | None \<Rightarrow> PeerGet (fp_endpoint store @ ''/hexads'') [(''limit'', dec_digits limit)]))"

text \<open>\<open>value[k]\<close>: null outside objects and for absent keys.\<close>

definition json_index :: "'n json \<Rightarrow> string \<Rightarrow> 'n json" where
  "json_index v k = (case Option.bind (as_object v) (\<lambda>kvs. map_of kvs k) of Some x \<Rightarrow> x | None \<Rightarrow> JNull)"

definition peer_result :: "('f, 'g, 'n, 'z) fed_env_scheme \<Rightarrow> string \<Rightarrow> 'n json \<Rightarrow> ('g, 'n) FederationResult" where
  "peer_result E store_id item =
    \<lparr>fr_source_store = store_id,
     fr_hexad_id = (case as_str (json_index item ''id'') of Some i \<Rightarrow> i | None \<Rightarrow> ''unknown''),
     fr_score = (case Option.bind (as_number (json_index item ''score'')) (fe_as_f64 E) of Some x \<Rightarrow> x | None \<Rightarrow> pf_dec E 0 1),
     fr_drifted = False, fr_data = item\<rparr>"

definition query_single_peer ::
  "('f, 'g, 'n, 'z) fed_env_scheme \<Rightarrow> 'g PeerStore \<Rightarrow> string option \<Rightarrow> 'f list option \<Rightarrow> nat
   \<Rightarrow> (string, ('g, 'n) FederationResult list) rresult" where
  "query_single_peer E store text_query vector_query limit =
    (let store_id = fp_store_id store in
     case fe_send E (peer_request store text_query vector_query limit) of
       Inl e \<Rightarrow> Inl (''HTTP request to '' @ store_id @ '' failed: '' @ e)
     | Inr (status, body) \<Rightarrow>
         if \<not> (200 \<le> status \<and> status < 300)
         then Inl (''Peer '' @ store_id @ '' returned status '' @ fe_status_display E status)
         else
           (case body of
              Inl e \<Rightarrow> Inl (''Failed to parse response from '' @ store_id @ '': '' @ e)
            | Inr items \<Rightarrow> Inr (map (peer_result E store_id) items)))"

definition peer_results :: "('f, 'g, 'n, 'z) fed_env_scheme \<Rightarrow> string option \<Rightarrow> 'f list option \<Rightarrow> nat \<Rightarrow> 'g PeerStore
    \<Rightarrow> ('g, 'n) FederationResult list" where
  "peer_results E text_query vector_query limit store =
    (case fe_fate E (fp_store_id store) of
       TaskFinished \<Rightarrow> (case query_single_peer E store text_query vector_query limit of Inr rs \<Rightarrow> rs | Inl _ \<Rightarrow> [])
     | TaskTimedOut \<Rightarrow> []
     | TaskPanicked \<Rightarrow> [])"

definition federation_query ::
  "('f, 'g, 'n, 'z) fed_env_scheme \<Rightarrow> 'g FederationState \<Rightarrow> 'f FederationQueryRequest \<Rightarrow> ('g, 'n) FederationQueryResponse" where
  "federation_query E st request =
    (let limit = min (case fq_limit request of Some n \<Rightarrow> n | None \<Rightarrow> 100) 1000;
         others = filter (\<lambda>p. fp_store_id p \<noteq> fd_self_store_id st) (matching_peers E st request);
         included = filter (policy_includes E st (fq_drift_policy request)) others;
         excluded = filter (\<lambda>p. \<not> policy_includes E st (fq_drift_policy request) p) others;
         all_results = concat (map (peer_results E (fq_text_query request) (fq_vector_query request) limit) included);
         sorted = stable_sort (\<lambda>a b. \<not> fo_lt E (fr_score a) (fr_score b)) all_results
     in \<lparr>fa_results = take limit sorted, fa_stores_queried = map fp_store_id included,
         fa_stores_excluded = map fp_store_id excluded, fa_drift_policy = fq_drift_policy request\<rparr>)"

section \<open>The registry\<close>

text \<open>The operations that change the registry, and its reachable states from a new one.\<close>

inductive fed_step :: "('f, 'g, 'n, 'z) fed_env_scheme \<Rightarrow> 'g FederationState \<Rightarrow> 'g FederationState \<Rightarrow> bool" for E where
  fed_register: "fed_step E st (fst (register_peer E now st request))"
| fed_heartbeat: "fed_step E st (fst (heartbeat E now st header hb))"
| fed_deregister: "fed_step E st (fst (deregister_peer st i))"

inductive fed_reachable :: "('f, 'g, 'n, 'z) fed_env_scheme \<Rightarrow> 'g FederationState \<Rightarrow> bool" for E where
  fed_start: "fed_reachable E (FederationState_new E var i e)"
| fed_next: "fed_reachable E st \<Longrightarrow> fed_step E st st' \<Longrightarrow> fed_reachable E st'"

text \<open>A peer is registered under its own valid name, with the hash of the key configured for it and full trust.\<close>

definition peer_ok :: "('f, 'g, 'n, 'z) fed_env_scheme \<Rightarrow> 'g FederationState \<Rightarrow> string \<Rightarrow> 'g PeerStore \<Rightarrow> bool" where
  "peer_ok E st i p \<longleftrightarrow> fp_store_id p = i \<and> valid_store_id E i \<and> fp_trust_level p = pf_dec E 10 1
    \<and> (\<exists>k. map_of (fd_federation_keys st) i = Some k \<and> fp_secret_hash p = Some (sha256_hex E k))"

definition registry_ok :: "('f, 'g, 'n, 'z) fed_env_scheme \<Rightarrow> 'g FederationState \<Rightarrow> bool" where
  "registry_ok E st \<longleftrightarrow> distinct (map fst (fd_peers st)) \<and> (\<forall>i p. map_of (fd_peers st) i = Some p \<longrightarrow> peer_ok E st i p)"

lemma peer_ok_cong: "fd_federation_keys st' = fd_federation_keys st \<Longrightarrow> peer_ok E st' i p = peer_ok E st i p"
  by (simp add: peer_ok_def)

lemma registry_update:
  assumes "registry_ok E st" and "peer_ok E st i p"
  shows "registry_ok E (st\<lparr>fd_peers := AList.update i p (fd_peers st)\<rparr>)"
  using assms by (auto simp: registry_ok_def update_conv' distinct_update peer_ok_def)

lemma register_keeps_registry: "registry_ok E st \<Longrightarrow> registry_ok E (fst (register_peer E now st request))"
  by (auto simp: register_peer_def Let_def peer_ok_def validate_psk_def intro!: registry_update split: option.splits)

lemma heartbeat_keeps_registry:
  assumes "registry_ok E st" shows "registry_ok E (fst (heartbeat E now st header hb))"
proof -
  have "peer_ok E st i (p\<lparr>fp_last_seen := Some now\<rparr>)" if "map_of (fd_peers st) i = Some p" for i p
    using assms that by (auto simp: registry_ok_def peer_ok_def)
  then show ?thesis using assms by (auto simp: heartbeat_def intro!: registry_update split: sum.splits option.splits)
qed

lemma deregister_keeps_registry: "registry_ok E st \<Longrightarrow> registry_ok E (fst (deregister_peer st i))"
  by (auto simp: deregister_peer_def registry_ok_def delete_conv' distinct_delete peer_ok_def split: if_splits)

lemma reachable_registry: "fed_reachable E st \<Longrightarrow> registry_ok E st"
proof (induction rule: fed_reachable.induct)
  case (fed_start var i e)
  show ?case by (simp add: registry_ok_def FederationState_new_def)
next
  case (fed_next st st')
  from fed_next.hyps(2) show ?case
    by (cases rule: fed_step.cases)
      (simp_all add: fed_next.IH register_keeps_registry heartbeat_keeps_registry deregister_keeps_registry)
qed


text \<open>Anyone may deregister a peer: the operation asks for no key (and the routes are outside the authentication layer).\<close>

lemma deregistration_unauthenticated:
  "map_of (fd_peers st) i = Some p \<Longrightarrow> snd (deregister_peer st i) = Inr 200 \<and> map_of (fd_peers (fst (deregister_peer st i))) i = None"
  by (simp add: deregister_peer_def delete_conv')

text \<open>A trailing wildcard matches names that merely continue the last segment.\<close>

lemma wildcard_crosses_segment: "pattern_matches ''/universities/*'' ''/universities-test''"
  by code_simp

text \<open>Every reachable peer has full trust, so the strict policy never excludes one.\<close>

lemma strict_policy_excludes_nothing:
  assumes "fed_reachable E st" and "set (fe_order E (fd_peers st)) = set (fd_peers st)"
    and "fo_le E (fo_sub E (pf_dec E 10 1) (fd_strict_drift_threshold st)) (pf_dec E 10 1)"
  shows "fa_stores_excluded (federation_query E st request) = []"
proof -
  have reg: "registry_ok E st" by (rule reachable_registry [OF assms(1)])
  have "policy_includes E st (fq_drift_policy request) p" if "p \<in> set (matching_peers E st request)" for p
  proof -
    have "p \<in> snd ` set (fd_peers st)" using that by (simp add: matching_peers_def assms(2))
    then obtain i where "(i, p) \<in> set (fd_peers st)" by auto
    then have "map_of (fd_peers st) i = Some p" using reg by (simp add: registry_ok_def)
    then have "fp_trust_level p = pf_dec E 10 1" using reg by (simp add: registry_ok_def peer_ok_def)
    then show ?thesis using assms(3) by (simp add: policy_includes_def split: DriftPolicy.split)
  qed
  then show ?thesis by (simp add: federation_query_def Let_def filter_empty_conv)
qed

section \<open>Properties\<close>

lemma psk_iff: "validate_psk st i s \<longleftrightarrow> map_of (fd_federation_keys st) i = Some s"
  by (auto simp: validate_psk_def split: option.splits)

lemma header_iff:
  assumes "map_of (fd_peers st) i = Some p" and "fp_secret_hash p = Some h"
  shows "validate_peer_header E st i header = Inr () \<longleftrightarrow> (\<exists>psk. header = Some psk \<and> psk \<noteq> [] \<and> h = sha256_hex E psk)"
  using assms by (cases header) (simp_all add: validate_peer_header_def Let_def)

lemma heartbeat_iff:
  "snd (heartbeat E now st header hb) = Inr 200
    \<longleftrightarrow> validate_peer_header E st (fh_store_id hb) header = Inr () \<and> map_of (fd_peers st) (fh_store_id hb) \<noteq> None"
  by (simp add: heartbeat_def split: sum.splits option.splits)

text \<open>C21: The registry only ever holds peers that presented the key configured for their name, each under its own valid name;
  registration succeeds exactly for a valid name with the configured key, and a heartbeat exactly with a secret whose hash
  is that of the key of a registered peer.  Without configured keys no peer is ever registered.
\<close>

theorem federation_registry_authenticated:
  assumes "fed_reachable E st"
  shows "(\<forall>i p. map_of (fd_peers st) i = Some p \<longrightarrow> fp_store_id p = i \<and> valid_store_id E i
            \<and> (\<exists>k. map_of (fd_federation_keys st) i = Some k \<and> fp_secret_hash p = Some (sha256_hex E k)))
    \<and> (\<forall>now r. (\<exists>p. snd (register_peer E now st r) = Inr (201, p))
         \<longleftrightarrow> valid_store_id E (fg_store_id r)
             \<and> map_of (fd_federation_keys st) (fg_store_id r) = Some (case fg_secret r of Some s \<Rightarrow> s | None \<Rightarrow> []))
    \<and> (\<forall>now header hb. snd (heartbeat E now st header hb) = Inr 200
         \<longleftrightarrow> (\<exists>psk k. header = Some psk \<and> psk \<noteq> [] \<and> map_of (fd_peers st) (fh_store_id hb) \<noteq> None
               \<and> map_of (fd_federation_keys st) (fh_store_id hb) = Some k \<and> sha256_hex E psk = sha256_hex E k))
    \<and> (fd_federation_keys st = [] \<longrightarrow> fd_peers st = [])"
proof (intro conjI allI impI)
  have reg: "registry_ok E st" by (rule reachable_registry [OF assms])
  note peer = reg [unfolded registry_ok_def peer_ok_def, THEN conjunct2, rule_format]
  show "fp_store_id p = i" "valid_store_id E i"
    "\<exists>k. map_of (fd_federation_keys st) i = Some k \<and> fp_secret_hash p = Some (sha256_hex E k)"
    if "map_of (fd_peers st) i = Some p" for i p
    using peer [OF that] by blast+
  show "(\<exists>p. snd (register_peer E now st r) = Inr (201, p))
    \<longleftrightarrow> valid_store_id E (fg_store_id r)
        \<and> map_of (fd_federation_keys st) (fg_store_id r) = Some (case fg_secret r of Some s \<Rightarrow> s | None \<Rightarrow> [])" for now r
    by (simp add: register_peer_def Let_def psk_iff registration_enabled_def)
  show "snd (heartbeat E now st header hb) = Inr 200
    \<longleftrightarrow> (\<exists>psk k. header = Some psk \<and> psk \<noteq> [] \<and> map_of (fd_peers st) (fh_store_id hb) \<noteq> None
          \<and> map_of (fd_federation_keys st) (fh_store_id hb) = Some k \<and> sha256_hex E psk = sha256_hex E k)" for now header hb
  proof (cases "map_of (fd_peers st) (fh_store_id hb)")
    case None
    then show ?thesis by (simp add: heartbeat_iff)
  next
    case (Some p)
    with peer [OF Some] obtain k where k: "map_of (fd_federation_keys st) (fh_store_id hb) = Some k"
      and h: "fp_secret_hash p = Some (sha256_hex E k)" by blast
    show ?thesis unfolding heartbeat_iff header_iff [OF Some h] by (simp add: Some k eq_commute)
  qed
  show "fd_peers st = []" if "fd_federation_keys st = []"
  proof (rule ccontr)
    assume "fd_peers st \<noteq> []"
    then obtain i p where "map_of (fd_peers st) i = Some p" by (metis list.exhaust map_of_Cons_code(2) surj_pair)
    with peer [OF this] that show False by simp
  qed
qed

lemma weak_order_reverse: "weak_order lt \<Longrightarrow> weak_order (\<lambda>x y. lt y x)"
  unfolding weak_order_def by metis

lemma peer_results_source: "r \<in> set (peer_results E t v n store) \<Longrightarrow> fr_source_store r = fp_store_id store"
  by (auto simp: peer_results_def query_single_peer_def peer_result_def Let_def split: task_fate.splits sum.splits if_splits)


section \<open>Examples\<close>

definition demo_fed_env :: "(rat, rat, rat) fed_env" where
  "demo_fed_env = plan_env.extend rat_env
    \<lparr>fe_order = id, fe_sha256 = id, fe_is_alphanumeric = (\<lambda>_. True), fe_as_f64 = Some,
     fe_send = (\<lambda>_. Inr (200, Inr [JObject [(''id'', JString ''h1''), (''score'', JNumber 1)]])),
     fe_fate = (\<lambda>_. TaskFinished), fe_status_display = (\<lambda>_. [])\<rparr>"

definition demo_fed_new :: "rat FederationState" where
  "demo_fed_new = FederationState_new demo_fed_env (Some ''a:k1, b:k2'') ''self'' ''http://localhost''"

definition demo_registration :: RegisterRequest where
  "demo_registration = \<lparr>fg_store_id = ''b'', fg_endpoint = ''http://b'', fg_modalities = [''vector''], fg_secret = Some ''k2''\<rparr>"

definition demo_fed :: "rat FederationState" where
  "demo_fed = fst (register_peer demo_fed_env ''t'' demo_fed_new demo_registration)"

lemma demo_fed_reachable: "fed_reachable demo_fed_env demo_fed"
  unfolding demo_fed_def demo_fed_new_def by (rule fed_next [OF fed_start fed_register])

lemma demo_fed_env_fields [simp]:
  "fe_order demo_fed_env = id" "fo_lt demo_fed_env = (<)"
  by (simp_all add: demo_fed_env_def plan_env.extend_def rat_env_def)

theorem federation_registry_authenticated_witness:
  "fed_reachable demo_fed_env demo_fed \<and> map_of (fd_federation_keys demo_fed) ''b'' = Some ''k2''
    \<and> (\<exists>p. snd (register_peer demo_fed_env ''u'' demo_fed demo_registration) = Inr (201, p))"
proof -
  have k: "map_of (fd_federation_keys demo_fed) ''b'' = Some ''k2''" by code_simp
  have v: "valid_store_id demo_fed_env ''b''" by code_simp
  from k v show ?thesis
    using federation_registry_authenticated [OF demo_fed_reachable] demo_fed_reachable
    by (simp add: demo_registration_def)
qed

definition demo_fed_query :: "rat FederationQueryRequest" where
  "demo_fed_query = \<lparr>fq_pattern = ''*'', fq_modalities = [''vector''], fq_drift_policy = PolicyStrict, fq_limit = Some 5000,
     fq_text_query = Some ''q'', fq_vector_query = None\<rparr>"


end
