(* ===== verification/Api_Data.thy ===== *)
theory Api_Data
  imports Hexad_Runs Query_Hexad Normalizer Profiler Plan_Cache Slow_Query Auth Api_Transaction Drift Zkp Federation
begin

text \<open>
  The data of the HTTP interface (\<open>verisim-api/src/lib.rs\<close>): errors and their responses, configuration, validation of parameters,
  request and response bodies, and the state all handlers share.  A body is the value that is serialised; a status is its
  number.
\<close>

section \<open>Errors\<close>

datatype ApiError =
    ApiNotFound string
  | ApiBadRequest string
  | ApiInternal string
  | ApiSerialization string

record ErrorResponse =
  ee_error :: string
  ee_code :: u16

fun ApiError_into_response :: "ApiError \<Rightarrow> u16 \<times> ErrorResponse" where
  "ApiError_into_response (ApiNotFound msg) = (404, \<lparr>ee_error = msg, ee_code = 404\<rparr>)"
| "ApiError_into_response (ApiBadRequest msg) = (400, \<lparr>ee_error = msg, ee_code = 400\<rparr>)"
| "ApiError_into_response (ApiInternal msg) = (500, \<lparr>ee_error = ''Internal server error'', ee_code = 500\<rparr>)"
| "ApiError_into_response (ApiSerialization msg) = (500, \<lparr>ee_error = ''Internal server error'', ee_code = 500\<rparr>)"

fun HexadError_display :: "HexadError \<Rightarrow> string" where
  "HexadError_display (HexadNotFound i) = ''Entity not found: '' @ i"
| "HexadError_display (ModalityError modality message) = ''Modality error in '' @ modality @ '': '' @ message"
| "HexadError_display (ConsistencyViolation m) = ''Consistency violation: '' @ m"
| "HexadError_display (ValidationError m) = ''Validation error: '' @ m"

text \<open>\<open>map_err(|e| ApiError::Internal(e.to_string()))\<close> on a result of the hexad store.\<close>

definition internal :: "(HexadError, 'a) rresult \<Rightarrow> (ApiError, 'a) rresult" where
  "internal r = map_sum (\<lambda>e. ApiInternal (HexadError_display e)) id r"

section \<open>Configuration\<close>

record ApiConfig =
  ag_host :: string
  ag_port :: u16
  ag_enable_cors :: bool
  ag_version_prefix :: string
  ag_vector_dimension :: nat
  ag_persistence_dir :: "string option"

definition ApiConfig_default :: ApiConfig where
  "ApiConfig_default =
    \<lparr>ag_host = ''[::1]'', ag_port = 8080, ag_enable_cors = True, ag_version_prefix = ''/api/v1'', ag_vector_dimension = 384,
     ag_persistence_dir = None\<rparr>"

section \<open>State\<close>

text \<open>
  The planner is behind a \<open>std::sync::Mutex\<close>, which a panic in a handler that holds it poisons; \<open>app_planner_poisoned\<close> says whether
  that has happened.
\<close>

record ('f, 'g, 'ts, 'ix) AppState =
  app_start_time :: nat
  app_hexad_store :: "('f, 'g, 'ts, 'ix) hexad_store"
  app_drift_detector :: "('g, 'ts) DriftDetector"
  app_normalizer :: "('f, 'g, 'ts) Normalizer"
  app_planner :: "('g, 'ts) QueryPlanner"
  app_planner_poisoned :: bool
  app_plan_cache :: "'g PlanCache"
  app_slow_query_log :: "('g, 'ts) SlowQueryLog"
  app_transaction_manager :: ApiTransactionManager
  app_circuit_registry :: "'g CircuitRegistry"
  app_federation :: "'g FederationState"
  app_auth :: AuthState
  app_config :: ApiConfig

text \<open>What the handlers use of other crates; the hash-map orders that reach a response.\<close>

record ('f, 'g, 'ts, 'ix) http_env =
  hv_hexad :: "('f, 'g, 'ts, 'ix) hexad_env"
  hv_f32 :: "'f plan_env"
  hv_f64 :: "'g prof_env"
  hv_norm :: "('g, 'ts) norm_env"
  hv_cache :: "'g cache_env"
  hv_api :: api_env
  hv_auth :: auth_env
  hv_circuit :: "'g circuit_env"
  hv_is_finite :: "'f \<Rightarrow> bool"
  hv_is_alphanumeric :: "string \<Rightarrow> bool"
  hv_to_lowercase :: "string \<Rightarrow> string"
  hv_version :: string
  hv_drift_order :: "DriftType list"
  hv_cost_order :: "(Modality \<times> 'g) list \<Rightarrow> (Modality \<times> 'g) list"
  hv_count_order :: "(Modality \<times> u64) list \<Rightarrow> (Modality \<times> u64) list"
  hv_statement_order :: "'g statements \<Rightarrow> 'g statements"

text \<open>The readings of clocks and random identifiers one request makes.\<close>

record 'ts request_inputs =
  rx_clock :: "'ts clock"
  rx_hexad_id :: HexadId
  rx_txn :: uuid
  rx_uuid :: string
  rx_now :: 'ts
  rx_millis :: int
  rx_cache_now :: int
  rx_pid :: u32
  rx_txn_id_now :: int
  rx_txn_now :: int

text \<open>
  \<open>AppState::new_async\<close> without the \<open>persistent\<close> feature; \<open>document\<close> is the result of opening an in-memory index, \<open>keys\<close> the
  variable with the federation keys.
\<close>

definition AppState_new ::
  "('f, 'g, 'ts :: linorder, 'ix) http_env \<Rightarrow> string option \<Rightarrow> nat \<Rightarrow> 'ts \<Rightarrow> (DocumentError, 'ix TantivyDocumentStore) rresult \<Rightarrow> ApiConfig
   \<Rightarrow> (ApiError, ('f, 'g, 'ts, 'ix) AppState) rresult" where
  "AppState_new E keys instant now document config =
    (case document of
       Inl e \<Rightarrow> Inl (ApiInternal (DocumentError_display e))
     | Inr d \<Rightarrow>
         let hexad_config = HexadConfig_default\<lparr>hc_vector_dimension := ag_vector_dimension config\<rparr>;
             store = HexadStore_new hexad_config SimpleGraphStore_new (BruteForceVectorStore_new (ag_vector_dimension config) Cosine) d []
               InMemorySemanticStore_new Map.empty [] [];
             self_endpoint = ''http://'' @ ag_host config @ '':'' @ dec_digits (unat (ag_port config)) @ ag_version_prefix config
         in Inr \<lparr>app_start_time = instant, app_hexad_store = store,
              app_drift_detector = DriftDetector_new (hv_f64 E) now (DriftThresholds_default (hv_f64 E)),
              app_normalizer = create_default_normalizer (hv_norm E),
              app_planner = Planner_new (hv_f64 E) now (PlannerConfig_default (hv_f64 E)), app_planner_poisoned = False,
              app_plan_cache = PlanCache_new CacheConfig_default,
              app_slow_query_log = SlowQueryLog_new (SlowQueryConfig_default (hv_f64 E)),
              app_transaction_manager = AM_new TransactionConfig_default, app_circuit_registry = CircuitRegistry_new,
              app_federation = FederationState_new (hv_f64 E) keys ''self'' self_endpoint,
              app_auth = AuthState_new AuthConfig_default, app_config = config\<rparr>)"

section \<open>Validation\<close>

definition MAX_RESULT_LIMIT :: nat where
  "MAX_RESULT_LIMIT = 1000"

definition validate_limit :: "nat \<Rightarrow> nat" where
  "validate_limit limit = min limit MAX_RESULT_LIMIT"

definition validate_hexad_id :: "('f, 'g, 'ts, 'ix) http_env \<Rightarrow> string \<Rightarrow> (ApiError, unit) rresult" where
  "validate_hexad_id E i =
    (if i = [] then Inl (ApiBadRequest ''Hexad ID must not be empty'')
     else if 128 < length i then Inl (ApiBadRequest ''Hexad ID must be at most 128 characters'')
     else if \<not> list_all (\<lambda>c. hv_is_alphanumeric E c \<or> c = ''-'' \<or> c = ''_'') (utf8_chars i)
     then Inl (ApiBadRequest ''Hexad ID must contain only alphanumeric characters, dashes, and underscores'')
     else Inr ())"

definition validate_vector :: "('f, 'g, 'ts, 'ix) http_env \<Rightarrow> 'f list \<Rightarrow> (ApiError, unit) rresult" where
  "validate_vector E v =
    (if \<not> list_all (hv_is_finite E) v then Inl (ApiBadRequest ''Vector contains NaN or Inf values'') else Inr ())"

section \<open>Requests\<close>

record 'g TensorRequest =
  tq_shape :: "u64 list"
  tq_data :: "'g list"

record ProvenanceRequest =
  vr_event_type :: string
  vr_actor :: string
  vr_source :: "string option"
  vr_description :: string

record 'g SpatialRequest =
  gq_latitude :: 'g
  gq_longitude :: 'g
  gq_altitude :: "'g option"
  gq_geometry_type :: "string option"
  gq_srid :: "u32 option"
  gq_properties :: "(string \<rightharpoonup> string) option"

record ('f, 'g) HexadRequest =
  hr_title :: "string option"
  hr_body :: "string option"
  hr_embedding :: "'f list option"
  hr_types :: "string list option"
  hr_relationships :: "(string \<times> string) list option"
  hr_tensor :: "'g TensorRequest option"
  hr_provenance :: "ProvenanceRequest option"
  hr_spatial :: "'g SpatialRequest option"
  hr_metadata :: "(string \<rightharpoonup> string) option"

definition provenance_input :: "ProvenanceRequest \<Rightarrow> HexadProvenanceInput" where
  "provenance_input p = \<lparr>pi_event_type = vr_event_type p, pi_actor = vr_actor p, pi_source = vr_source p, pi_description = vr_description p\<rparr>"

definition to_hexad_input :: "('f, 'g) HexadRequest \<Rightarrow> ('f, 'g) HexadInput" where
  "to_hexad_input r =
    \<lparr>hi_graph = map_option (\<lambda>rels. \<lparr>gi_relationships = rels\<rparr>) (hr_relationships r),
     hi_vector = map_option (\<lambda>e. \<lparr>vi_embedding = e, vi_model = None\<rparr>) (hr_embedding r),
     hi_tensor = map_option (\<lambda>t. \<lparr>ti_shape = tq_shape t, ti_data = tq_data t\<rparr>) (hr_tensor r),
     hi_semantic = map_option (\<lambda>ts. \<lparr>mi_types = ts, mi_properties = Map.empty\<rparr>) (hr_types r),
     hi_document =
       (case (hr_title r, hr_body r) of
          (Some title, Some body) \<Rightarrow> Some \<lparr>di_title = title, di_body = body, di_fields = Map.empty\<rparr>
        | (Some title, None) \<Rightarrow> Some \<lparr>di_title = title, di_body = [], di_fields = Map.empty\<rparr>
        | _ \<Rightarrow> None),
     hi_provenance = map_option provenance_input (hr_provenance r),
     hi_spatial = map_option (\<lambda>s. \<lparr>pi_latitude = gq_latitude s, pi_longitude = gq_longitude s, pi_altitude = gq_altitude s,
       pi_geometry_type = gq_geometry_type s, pi_srid = gq_srid s,
       pi_properties = (case gq_properties s of Some m \<Rightarrow> m | None \<Rightarrow> Map.empty)\<rparr>) (hr_spatial r),
     hi_metadata = (case hr_metadata r of Some m \<Rightarrow> m | None \<Rightarrow> Map.empty)\<rparr>"

record ListQuery =
  lq_limit :: "nat option"
  lq_offset :: "nat option"

record SearchQuery =
  sq_q :: "string option"
  sq_limit :: "nat option"

record 'f VectorSearchRequest =
  vq_vector :: "'f list"
  vq_k :: "nat option"

record ('f, 'g) StoreQueryRequest =
  qr_query :: string
  qr_embedding :: "'f list option"
  qr_cost_vector :: "'g list option"
  qr_proof_obligations :: "string list option"

record 'g RadiusSearchRequest =
  rr_latitude :: 'g
  rr_longitude :: 'g
  rr_radius_km :: 'g
  rr_limit :: "nat option"

record 'g BoundsSearchRequest =
  bq_min_lat :: 'g
  bq_min_lon :: 'g
  bq_max_lat :: 'g
  bq_max_lon :: 'g
  bq_limit :: "nat option"

record 'g NearestSearchRequest =
  nq_latitude :: 'g
  nq_longitude :: 'g
  nq_k :: "nat option"

section \<open>Responses\<close>

record HexadStatusResponse =
  hz_created_at :: string
  hz_modified_at :: string
  hz_version :: u64

record HexadResponse =
  ho_id :: string
  ho_status :: HexadStatusResponse
  ho_has_graph :: bool
  ho_has_vector :: bool
  ho_has_tensor :: bool
  ho_has_semantic :: bool
  ho_has_document :: bool
  ho_has_provenance :: bool
  ho_has_spatial :: bool
  ho_version_count :: u64
  ho_provenance_chain_length :: u64

definition HexadResponse_from :: "('ts \<Rightarrow> string) \<Rightarrow> ('f, 'g, 'ts) Hexad \<Rightarrow> HexadResponse" where
  "HexadResponse_from rfc3339 h =
    \<lparr>ho_id = hd_id h,
     ho_status = \<lparr>hz_created_at = rfc3339 (hx_created_at (hd_status h)), hz_modified_at = rfc3339 (hx_modified_at (hd_status h)),
                  hz_version = hx_version (hd_status h)\<rparr>,
     ho_has_graph = (hd_graph_node h \<noteq> None), ho_has_vector = (hd_embedding h \<noteq> None), ho_has_tensor = (hd_tensor h \<noteq> None),
     ho_has_semantic = (hd_semantic h \<noteq> None), ho_has_document = (hd_document h \<noteq> None),
     ho_has_provenance = (0 < hd_provenance_chain_length h), ho_has_spatial = (hd_spatial_data h \<noteq> None),
     ho_version_count = hd_version_count h, ho_provenance_chain_length = hd_provenance_chain_length h\<rparr>"

record 'f SearchResultResponse =
  sx_id :: string
  sx_score :: 'f
  sx_title :: "string option"

record 'g DriftStatusResponse =
  dx_drift_type :: string
  dx_current_score :: 'g
  dx_moving_average :: 'g
  dx_max_score :: 'g
  dx_measurement_count :: u64

definition DriftStatusResponse_from_metrics :: "DriftType \<Rightarrow> ('g, 'ts) DriftMetrics \<Rightarrow> 'g DriftStatusResponse" where
  "DriftStatusResponse_from_metrics t m =
    \<lparr>dx_drift_type = DriftType_display t, dx_current_score = dm_current_score m, dx_moving_average = dm_moving_average m,
     dx_max_score = dm_max_score m, dx_measurement_count = dm_measurement_count m\<rparr>"

record HealthResponse =
  ht_status :: string
  ht_version :: string
  ht_uptime_seconds :: u64
  ht_degraded_reason :: "string option"

record 'g EntityDriftResponse =
  ed_entity_id :: string
  ed_score :: 'g
  ed_drift_type :: string
  ed_status :: string

record ProvenanceRecordResponse =
  po_event_type :: string
  po_actor :: string
  po_timestamp :: string
  po_source :: "string option"
  po_description :: string
  po_content_hash :: string

record ProvenanceChainResponse =
  pn_entity_id :: string
  pn_chain_length :: nat
  pn_chain_valid :: bool
  pn_records :: "ProvenanceRecordResponse list"

record 'g SpatialSearchResultResponse =
  so_entity_id :: string
  so_latitude :: 'g
  so_longitude :: 'g
  so_distance_km :: 'g

section \<open>A server for examples\<close>

definition demo_http_hexad :: "(rat, rat, i64, unit) hexad_env" where
  "demo_http_hexad = \<lparr>he_iter = (\<lambda>xs. xs), he_graph_iter = (\<lambda>xs. xs), he_uuid = (\<lambda>t. dec_digits (unat t)), he_wal = demo_env,
     he_prov = \<lparr>pe_sha256_hex = (\<lambda>b. map (char_of \<circ> unat) b), pe_json = (\<lambda>_. []), pe_rfc3339 = (\<lambda>_. [])\<rparr>,
     he_f32 = float_ops.truncate rat_env, he_f64 = float_ops.truncate rat_env, he_regex = (\<lambda>_ _. None),
     he_tantivy = \<lparr>tv_delete_term = (\<lambda>ix _. ix), tv_add_document = (\<lambda>ix _. Inr ix), tv_commit = (\<lambda>ix. (ix, Inr ())),
       tv_search = (\<lambda>_ _ _. Inr [])\<rparr>,
     he_json = (\<lambda>_. Some []), he_to_lowercase = (\<lambda>s. s), he_rfc3339 = (\<lambda>_. [])\<rparr>"

definition demo_http_env :: "(rat, rat, i64, unit) http_env" where
  "demo_http_env = \<lparr>hv_hexad = demo_http_hexad, hv_f32 = rat_env, hv_f64 = demo_prof_env,
     hv_norm = plan_env.extend rat_env (norm_env.fields (\<lambda>_. [])), hv_cache = demo_cache_env, hv_api = demo_api_env,
     hv_auth = demo_auth_env, hv_circuit = demo_circuit_env, hv_is_finite = (\<lambda>_. True),
     hv_is_alphanumeric = (\<lambda>c. c \<in> set (map (\<lambda>x. [x]) ''abcdefghijklmnopqrstuvwxyz0123456789'')), hv_to_lowercase = (\<lambda>s. s),
     hv_version = [], hv_drift_order = [], hv_cost_order = id, hv_count_order = id, hv_statement_order = id\<rparr>"

definition demo_inputs :: "i64 request_inputs" where
  "demo_inputs = \<lparr>rx_clock = demo_clock, rx_hexad_id = ''e'', rx_txn = 7, rx_uuid = ''q'', rx_now = 0, rx_millis = 0, rx_cache_now = 0,
     rx_pid = 0, rx_txn_id_now = 0, rx_txn_now = 0\<rparr>"

definition demo_app :: "(rat, rat, i64, unit) AppState" where
  "demo_app = projr (AppState_new demo_http_env None 0 0 (Inr \<lparr>td_index = (), td_documents = Map.empty\<rparr>)
     (ApiConfig_default\<lparr>ag_vector_dimension := 2\<rparr>))"

lemma demo_app_fields [simp]:
  "app_hexad_store demo_app = HexadStore_new (HexadConfig_default\<lparr>hc_vector_dimension := 2\<rparr>) SimpleGraphStore_new
     (BruteForceVectorStore_new 2 Cosine) \<lparr>td_index = (), td_documents = Map.empty\<rparr> [] InMemorySemanticStore_new Map.empty [] []"
  "\<not> app_planner_poisoned demo_app"
  "app_plan_cache demo_app = PlanCache_new CacheConfig_default"
  by (simp_all add: demo_app_def AppState_new_def Let_def ApiConfig_default_def)

end
