(* ===== verification/Api_Handlers.thy ===== *)
theory Api_Handlers
  imports Api_Data
begin

text \<open>
  The handlers of entities, searches, drift, stored queries, provenance and places (\<open>verisim-api/src/lib.rs\<close>).  A handler that
  changes state takes the state and returns it with its answer; an answer is \<open>Inl\<close> an error or \<open>Inr\<close> the body, with its status
  where it is not 200.  \<open>None\<close> for an answer is a panic of the handler.
\<close>

section \<open>Health\<close>

fun DriftType_debug :: "DriftType \<Rightarrow> string" where
  "DriftType_debug SemanticVectorDrift = ''SemanticVectorDrift''"
| "DriftType_debug GraphDocumentDrift = ''GraphDocumentDrift''"
| "DriftType_debug TemporalConsistencyDrift = ''TemporalConsistencyDrift''"
| "DriftType_debug TensorDrift = ''TensorDrift''"
| "DriftType_debug SchemaDrift = ''SchemaDrift''"
| "DriftType_debug ProvenanceDrift = ''ProvenanceDrift''"
| "DriftType_debug SpatialDrift = ''SpatialDrift''"
| "DriftType_debug QualityDrift = ''QualityDrift''"

text \<open>The drift detector takes its lock only for reading and plain writes, so its checks do not fail.\<close>

definition health_handler :: "('f, 'g, 'ts, 'ix) http_env \<Rightarrow> 'ts request_inputs \<Rightarrow> u64 \<Rightarrow> ('f, 'g, 'ts, 'ix) AppState \<Rightarrow> u16 \<times> HealthResponse" where
  "health_handler E rx uptime st =
    (let health = health_check (hv_f64 E) (hv_drift_order E) (rx_now rx) (app_drift_detector st);
         on = DriftType_debug (dh_worst_drift_type health) @ '': score '' @ pf_fmt (hv_f64 E) 3 (dh_worst_score health);
         (status_str, reason) =
           (case dh_status health of
              HealthCritical \<Rightarrow> (''degraded'', Some (''Critical drift on '' @ on))
            | Degraded \<Rightarrow> (''degraded'', Some (''Degraded drift on '' @ on))
            | HealthWarning \<Rightarrow> (''healthy'', None)
            | Healthy \<Rightarrow> (''healthy'', None))
     in (200, \<lparr>ht_status = status_str, ht_version = hv_version E, ht_uptime_seconds = uptime, ht_degraded_reason = reason\<rparr>))"

definition ready_handler :: "('f, 'g, 'ts, 'ix) AppState \<Rightarrow> u16" where
  "ready_handler st = (case hexad_list (app_hexad_store st) 1 0 of Inl _ \<Rightarrow> 503 | Inr _ \<Rightarrow> 200)"

section \<open>Entities\<close>

abbreviation response_of :: "('f, 'g, 'ts, 'ix) http_env \<Rightarrow> ('f, 'g, 'ts) Hexad \<Rightarrow> HexadResponse" where
  "response_of E \<equiv> HexadResponse_from (he_rfc3339 (hv_hexad E))"

definition list_hexads_handler ::
  "('f, 'g, 'ts, 'ix) http_env \<Rightarrow> ('f, 'g, 'ts, 'ix) AppState \<Rightarrow> ListQuery \<Rightarrow> (ApiError, HexadResponse list) rresult" where
  "list_hexads_handler E st params =
    (let limit = validate_limit (case lq_limit params of Some n \<Rightarrow> n | None \<Rightarrow> 100);
         offset = (case lq_offset params of Some n \<Rightarrow> n | None \<Rightarrow> 0)
     in rbind (internal (hexad_list (app_hexad_store st) limit offset)) (\<lambda>hexads. Inr (map (response_of E) hexads)))"

definition create_hexad_handler ::
  "('f, 'g, 'ts, 'ix) http_env \<Rightarrow> 'ts request_inputs \<Rightarrow> ('f, 'g, 'ts, 'ix) AppState \<Rightarrow> ('f, 'g) HexadRequest
   \<Rightarrow> ('f, 'g, 'ts, 'ix) AppState \<times> (ApiError, u16 \<times> HexadResponse) rresult" where
  "create_hexad_handler E rx st request =
    (case hexad_create (hv_hexad E) (rx_clock rx) (rx_hexad_id rx) (rx_txn rx) (app_hexad_store st) (to_hexad_input request) of
       (store, r) \<Rightarrow> (st\<lparr>app_hexad_store := store\<rparr>, rbind (internal r) (\<lambda>hexad. Inr (201, response_of E hexad))))"

text \<open>The lookup shared by the handlers of one entity: \<open>what\<close> is the noun of the error message.\<close>

definition find_hexad ::
  "string \<Rightarrow> ('f, 'g, 'ts, 'ix) AppState \<Rightarrow> string \<Rightarrow> (ApiError, ('f, 'g, 'ts) Hexad) rresult" where
  "find_hexad what st i =
    rbind (internal (hexad_get (app_hexad_store st) i)) (\<lambda>h.
      case h of Some hexad \<Rightarrow> Inr hexad | None \<Rightarrow> Inl (ApiNotFound (what @ '' '' @ i @ '' not found'')))"

definition get_hexad_handler ::
  "('f, 'g, 'ts, 'ix) http_env \<Rightarrow> ('f, 'g, 'ts, 'ix) AppState \<Rightarrow> string \<Rightarrow> (ApiError, HexadResponse) rresult" where
  "get_hexad_handler E st i =
    rbind (validate_hexad_id E i) (\<lambda>_. rbind (find_hexad ''Hexad'' st i) (\<lambda>hexad. Inr (response_of E hexad)))"

definition write_error :: "string \<Rightarrow> HexadError \<Rightarrow> ApiError" where
  "write_error i e =
    (case e of HexadNotFound _ \<Rightarrow> ApiNotFound (''Hexad '' @ i @ '' not found'') | _ \<Rightarrow> ApiInternal (HexadError_display e))"

definition update_hexad_handler ::
  "('f, 'g, 'ts, 'ix) http_env \<Rightarrow> 'ts request_inputs \<Rightarrow> ('f, 'g, 'ts, 'ix) AppState \<Rightarrow> string \<Rightarrow> ('f, 'g) HexadRequest
   \<Rightarrow> ('f, 'g, 'ts, 'ix) AppState \<times> (ApiError, HexadResponse) rresult" where
  "update_hexad_handler E rx st i request =
    (case validate_hexad_id E i of
       Inl e \<Rightarrow> (st, Inl e)
     | Inr _ \<Rightarrow>
         (case hexad_update (hv_hexad E) (rx_clock rx) (rx_txn rx) (app_hexad_store st) i (to_hexad_input request) of
            (store, r) \<Rightarrow> (st\<lparr>app_hexad_store := store\<rparr>, rbind (map_sum (write_error i) id r) (\<lambda>hexad. Inr (response_of E hexad)))))"

definition delete_hexad_handler ::
  "('f, 'g, 'ts, 'ix) http_env \<Rightarrow> 'ts request_inputs \<Rightarrow> ('f, 'g, 'ts, 'ix) AppState \<Rightarrow> string
   \<Rightarrow> ('f, 'g, 'ts, 'ix) AppState \<times> (ApiError, u16) rresult" where
  "delete_hexad_handler E rx st i =
    (case validate_hexad_id E i of
       Inl e \<Rightarrow> (st, Inl e)
     | Inr _ \<Rightarrow>
         (case hexad_delete (hv_hexad E) (rx_clock rx) (rx_txn rx) (app_hexad_store st) i of
            (store, r) \<Rightarrow> (st\<lparr>app_hexad_store := store\<rparr>, rbind (map_sum (write_error i) id r) (\<lambda>_. Inr 204))))"

section \<open>Searches\<close>

text \<open>The score of a result is made up from its rank.\<close>

definition rank_results :: "('f, 'g, 'ts, 'ix) http_env \<Rightarrow> ('f, 'g, 'ts) Hexad list \<Rightarrow> 'f SearchResultResponse list" where
  "rank_results E hexads =
    map (\<lambda>(i, h). \<lparr>sx_id = hd_id h,
        sx_score = fo_sub (hv_f32 E) (pf_dec (hv_f32 E) 10 1) (fo_mul (hv_f32 E) (pf_of_nat (hv_f32 E) i) (pf_dec (hv_f32 E) 1 1)),
        sx_title = map_option dc_title (hd_document h)\<rparr>) (enumerate 0 hexads)"

definition text_search_handler ::
  "('f, 'g, 'ts, 'ix) http_env \<Rightarrow> ('f, 'g, 'ts, 'ix) AppState \<Rightarrow> SearchQuery \<Rightarrow> (ApiError, 'f SearchResultResponse list) rresult" where
  "text_search_handler E st query =
    (case sq_q query of
       Some q \<Rightarrow>
         if q \<noteq> [] then
           (let limit = validate_limit (case sq_limit query of Some n \<Rightarrow> n | None \<Rightarrow> 10)
            in rbind (internal (search_text (hv_hexad E) (app_hexad_store st) q limit)) (\<lambda>hexads. Inr (rank_results E hexads)))
         else Inl (ApiBadRequest ''Query parameter 'q' must not be empty'')
     | None \<Rightarrow> Inl (ApiBadRequest ''Query parameter 'q' must not be empty''))"

definition check_dimension :: "('f, 'g, 'ts, 'ix) AppState \<Rightarrow> 'f list \<Rightarrow> (ApiError, unit) rresult" where
  "check_dimension st v =
    (if length v \<noteq> ag_vector_dimension (app_config st)
     then Inl (ApiBadRequest (''Vector dimension mismatch: expected '' @ dec_digits (ag_vector_dimension (app_config st)) @ '', got ''
       @ dec_digits (length v)))
     else Inr ())"

definition similar_hexads ::
  "('f, 'g, 'ts, 'ix) http_env \<Rightarrow> ('f, 'g, 'ts, 'ix) AppState \<Rightarrow> 'f VectorSearchRequest \<Rightarrow> (ApiError, ('f, 'g, 'ts) Hexad list) rresult" where
  "similar_hexads E st request =
    (let k = validate_limit (case vq_k request of Some n \<Rightarrow> n | None \<Rightarrow> 10)
     in rbind (check_dimension st (vq_vector request)) (\<lambda>_.
        rbind (validate_vector E (vq_vector request)) (\<lambda>_.
        internal (search_similar (hv_hexad E) (app_hexad_store st) (vq_vector request) k))))"

definition vector_search_handler ::
  "('f, 'g, 'ts, 'ix) http_env \<Rightarrow> ('f, 'g, 'ts, 'ix) AppState \<Rightarrow> 'f VectorSearchRequest \<Rightarrow> (ApiError, 'f SearchResultResponse list) rresult" where
  "vector_search_handler E st request =
    rbind (similar_hexads E st request) (\<lambda>hexads. Inr (rank_results E hexads))"

definition related_search_handler ::
  "('f, 'g, 'ts, 'ix) http_env \<Rightarrow> ('f, 'g, 'ts, 'ix) AppState \<Rightarrow> string \<Rightarrow> string option \<Rightarrow> (ApiError, HexadResponse list) rresult" where
  "related_search_handler E st i predicate =
    rbind (validate_hexad_id E i) (\<lambda>_.
    rbind (internal (query_related (hv_hexad E) (app_hexad_store st) i (case predicate of Some p \<Rightarrow> p | None \<Rightarrow> ''related'')))
      (\<lambda>hexads. Inr (map (response_of E) hexads)))"

section \<open>Drift and normalisation\<close>

definition all_metrics :: "('f, 'g, 'ts, 'ix) http_env \<Rightarrow> ('f, 'g, 'ts, 'ix) AppState \<Rightarrow> (DriftType \<times> ('g, 'ts) DriftMetrics) list" where
  "all_metrics E st =
    List.map_filter (\<lambda>t. map_option (\<lambda>m. (t, m)) (dd_metrics (app_drift_detector st) t)) (hv_drift_order E)"

definition drift_status_handler :: "('f, 'g, 'ts, 'ix) http_env \<Rightarrow> ('f, 'g, 'ts, 'ix) AppState \<Rightarrow> 'g DriftStatusResponse list" where
  "drift_status_handler E st = map (\<lambda>(t, m). DriftStatusResponse_from_metrics t m) (all_metrics E st)"

definition entity_drift_handler ::
  "('f, 'g, 'ts, 'ix) http_env \<Rightarrow> ('f, 'g, 'ts, 'ix) AppState \<Rightarrow> string \<Rightarrow> (ApiError, 'g EntityDriftResponse) rresult" where
  "entity_drift_handler E st i =
    rbind (validate_hexad_id E i) (\<lambda>_.
    rbind (find_hexad ''Hexad'' st i) (\<lambda>_.
      let F = hv_f64 E;
          (worst_type, worst_score) =
            (case max_by (\<lambda>a b. fo_lt F (dm_current_score (snd b)) (dm_current_score (snd a))) (all_metrics E st) of
               Some (t, m) \<Rightarrow> (DriftType_display t, dm_current_score m)
             | None \<Rightarrow> (''none'', pf_dec F 0 1));
          status = (if fo_le F (pf_dec F 7 1) worst_score then ''critical''
                    else if fo_le F (pf_dec F 3 1) worst_score then ''warning'' else ''healthy'')
      in Inr \<lparr>ed_entity_id = i, ed_score = worst_score, ed_drift_type = worst_type, ed_status = status\<rparr>))"

definition normalizer_status_handler :: "('f, 'g, 'ts, 'ix) AppState \<Rightarrow> 'ts NormalizerStatus" where
  "normalizer_status_handler st = nz_status (app_normalizer st)"

definition trigger_normalization_handler ::
  "('f, 'g, 'ts, 'ix) http_env \<Rightarrow> ('f, 'g, 'ts, 'ix) AppState \<Rightarrow> string \<Rightarrow> (ApiError, u16) rresult" where
  "trigger_normalization_handler E st i =
    rbind (validate_hexad_id E i) (\<lambda>_. rbind (find_hexad ''Hexad'' st i) (\<lambda>_. Inr 202))"

section \<open>Stored queries\<close>

definition store_query_handler ::
  "('f, 'g, 'ts, 'ix) http_env \<Rightarrow> 'ts request_inputs \<Rightarrow> ('f, 'g, 'ts, 'ix) AppState \<Rightarrow> ('f, 'g) StoreQueryRequest
   \<Rightarrow> ('f, 'g, 'ts, 'ix) AppState \<times> (ApiError, u16 \<times> HexadResponse) rresult option" where
  "store_query_handler E rx st request =
    (let rfc = he_rfc3339 (hv_hexad E);
         builder = QueryHexadBuilder_new (qr_query request)
     in case (case qr_embedding request of Some v \<Rightarrow> validate_vector E v | None \<Rightarrow> Inr ()) of
          Inl e \<Rightarrow> (st, Some (Inl e))
        | Inr _ \<Rightarrow>
            let builder = (case qr_embedding request of Some v \<Rightarrow> qb_with_embedding v builder | None \<Rightarrow> builder);
                builder = (case qr_cost_vector request of Some c \<Rightarrow> qb_with_cost_vector c builder | None \<Rightarrow> builder);
                builder = (case qr_proof_obligations request of Some p \<Rightarrow> qb_with_proof_obligations p builder | None \<Rightarrow> builder);
                builder = qb_with_metadata ''stored_at'' (rfc (rx_now rx)) builder
            in (case query_build rfc (rx_uuid rx) builder of
                  None \<Rightarrow> (st, None)
                | Some (_, input) \<Rightarrow>
                    (case hexad_create (hv_hexad E) (rx_clock rx) (rx_hexad_id rx) (rx_txn rx) (app_hexad_store st) input of
                       (store, r) \<Rightarrow>
                         (st\<lparr>app_hexad_store := store\<rparr>, Some (rbind (internal r) (\<lambda>hexad. Inr (201, response_of E hexad)))))))"

definition similar_queries_handler ::
  "('f, 'g, 'ts, 'ix) http_env \<Rightarrow> ('f, 'g, 'ts, 'ix) AppState \<Rightarrow> 'f VectorSearchRequest \<Rightarrow> (ApiError, 'f SearchResultResponse list) rresult" where
  "similar_queries_handler E st request =
    rbind (similar_hexads E st request) (\<lambda>hexads.
      Inr (rank_results E (filter (\<lambda>h. case hd_document h of Some d \<Rightarrow> prefix ''VQL Query:'' (dc_title d) | None \<Rightarrow> False) hexads)))"

text \<open>
  The cost vector of \<open>optimize_query_handler\<close>; \<open>None\<close> in place of an answer is a panic of the planner, which poisons its lock.
\<close>

definition optimize_query_handler ::
  "('f, 'g, 'ts, 'ix) http_env \<Rightarrow> 'ts request_inputs \<Rightarrow> ('f, 'g, 'ts, 'ix) AppState \<Rightarrow> string \<Rightarrow> LogicalPlan option
   \<Rightarrow> ('f, 'g, 'ts, 'ix) AppState \<times> (ApiError, HexadResponse) rresult option" where
  "optimize_query_handler E rx st i body =
    (let F = hv_f64 E;
         found = rbind (validate_hexad_id E i) (\<lambda>_. find_hexad ''Query hexad'' st i);
         finish = (\<lambda>cost_vector.
           let input = HexadInput_default
                 \<lparr>hi_tensor := Some \<lparr>ti_shape = [1, of_nat (length cost_vector)], ti_data = cost_vector\<rparr>,
                  hi_metadata := [''optimized_at'' \<mapsto> he_rfc3339 (hv_hexad E) (rx_now rx)]\<rparr>
           in case hexad_update (hv_hexad E) (rx_clock rx) (rx_txn rx) (app_hexad_store st) i input of
                (store, r) \<Rightarrow> (st\<lparr>app_hexad_store := store\<rparr>, Some (rbind (internal r) (\<lambda>updated. Inr (response_of E updated)))))
     in case found of
          Inl e \<Rightarrow> (st, Some (Inl e))
        | Inr hexad \<Rightarrow>
            (case body of
               Some logical_plan \<Rightarrow>
                 if app_planner_poisoned st then (st, Some (Inl (ApiInternal ''Planner lock poisoned'')))
                 else (case explain F (hv_cost_order E) (app_planner st) logical_plan of
                         None \<Rightarrow> (st\<lparr>app_planner_poisoned := True\<rparr>, None)
                       | Some (Inr ex) \<Rightarrow> finish (map es_estimated_cost_ms (eo_steps ex))
                       | Some (Inl _) \<Rightarrow> finish [pf_dec F 10 1, pf_dec F 0 1, pf_dec F 0 1])
             | None \<Rightarrow>
                 finish (case hd_tensor hexad of Some t \<Rightarrow> map (\<lambda>v. fo_mul F v (pf_dec F 95 2)) (tn_data t) | None \<Rightarrow> [pf_dec F 10 1])))"

section \<open>Provenance\<close>

text \<open>\<open>{:?}\<close> of an event type; \<open>debug\<close> renders the text of a custom one.\<close>

fun ProvenanceEventType_debug :: "(string \<Rightarrow> string) \<Rightarrow> ProvenanceEventType \<Rightarrow> string" where
  "ProvenanceEventType_debug dbg Created = ''Created''"
| "ProvenanceEventType_debug dbg Modified = ''Modified''"
| "ProvenanceEventType_debug dbg Imported = ''Imported''"
| "ProvenanceEventType_debug dbg Normalized = ''Normalized''"
| "ProvenanceEventType_debug dbg DriftRepaired = ''DriftRepaired''"
| "ProvenanceEventType_debug dbg Deleted = ''Deleted''"
| "ProvenanceEventType_debug dbg Merged = ''Merged''"
| "ProvenanceEventType_debug dbg (Custom s) = ''Custom('' @ dbg s @ '')''"

definition existing_status ::
  "('f, 'g, 'ts, 'ix) http_env \<Rightarrow> ('f, 'g, 'ts, 'ix) AppState \<Rightarrow> string \<Rightarrow> (ApiError, 'ts HexadStatus) rresult" where
  "existing_status E st i =
    rbind (validate_hexad_id E i) (\<lambda>_.
    rbind (internal (hexad_status (app_hexad_store st) i)) (\<lambda>s.
      case s of Some status \<Rightarrow> Inr status | None \<Rightarrow> Inl (ApiNotFound (''Entity '' @ i @ '' not found''))))"

definition provenance_get_chain_handler ::
  "('f, 'g, 'ts, 'ix) http_env \<Rightarrow> ('f, 'g, 'ts, 'ix) AppState \<Rightarrow> string \<Rightarrow> (ApiError, ProvenanceChainResponse) rresult" where
  "provenance_get_chain_handler E st i =
    rbind (existing_status E st i) (\<lambda>_.
      let store = hs_provenance (app_hexad_store st) in
      rbind (map_sum (\<lambda>e. ApiInternal (ProvenanceError_display e)) id (prov_get_chain store i)) (\<lambda>chain.
        let chain_valid = (case prov_verify_chain (he_prov (hv_hexad E)) store i of Inr b \<Rightarrow> b | Inl _ \<Rightarrow> False);
            records = map (\<lambda>r. \<lparr>po_event_type = ProvenanceEventType_debug (pf_str_debug (hv_f64 E)) (pr_event_type r), po_actor = pr_actor r,
              po_timestamp = he_rfc3339 (hv_hexad E) (pr_timestamp r), po_source = pr_source r, po_description = pr_description r,
              po_content_hash = pr_content_hash r\<rparr>) (pc_records chain)
        in Inr \<lparr>pn_entity_id = i, pn_chain_length = length records, pn_chain_valid = chain_valid, pn_records = records\<rparr>))"

text \<open>The bodies of the next two handlers are JSON objects: the identifier, the chain length and \<open>recorded\<close>, and the identifier,
  \<open>has_provenance\<close> and \<open>chain_valid\<close>.\<close>

definition provenance_record_handler ::
  "('f, 'g, 'ts, 'ix) http_env \<Rightarrow> 'ts request_inputs \<Rightarrow> ('f, 'g, 'ts, 'ix) AppState \<Rightarrow> string \<Rightarrow> ProvenanceRequest
   \<Rightarrow> ('f, 'g, 'ts, 'ix) AppState \<times> (ApiError, string \<times> u64 \<times> bool) rresult" where
  "provenance_record_handler E rx st i body =
    (case validate_hexad_id E i of
       Inl e \<Rightarrow> (st, Inl e)
     | Inr _ \<Rightarrow>
         (case hexad_update (hv_hexad E) (rx_clock rx) (rx_txn rx) (app_hexad_store st) i
                 (HexadInput_default\<lparr>hi_provenance := Some (provenance_input body)\<rparr>) of
            (store, r) \<Rightarrow>
              (st\<lparr>app_hexad_store := store\<rparr>, rbind (internal r) (\<lambda>hexad. Inr (i, hd_provenance_chain_length hexad, True)))))"

definition provenance_verify_handler ::
  "('f, 'g, 'ts, 'ix) http_env \<Rightarrow> ('f, 'g, 'ts, 'ix) AppState \<Rightarrow> string \<Rightarrow> (ApiError, string \<times> bool \<times> bool) rresult" where
  "provenance_verify_handler E st i =
    rbind (existing_status E st i) (\<lambda>status. Inr (i, ms_provenance (hx_modality_status status), True))"

section \<open>Places\<close>

definition spatial_responses :: "'g SpatialSearchResult list \<Rightarrow> 'g SpatialSearchResultResponse list" where
  "spatial_responses results =
    map (\<lambda>r. \<lparr>so_entity_id = sp_entity_id r, so_latitude = co_latitude (sd_coordinates (sp_data r)),
      so_longitude = co_longitude (sd_coordinates (sp_data r)), so_distance_km = sp_distance_km r\<rparr>) results"

text \<open>The searches of the in-memory spatial store never fail, so the handlers' error branch is not reached.\<close>

definition spatial_result :: "'g SpatialSearchResult list \<Rightarrow> (ApiError, 'g SpatialSearchResultResponse list) rresult" where
  "spatial_result r = Inr (spatial_responses r)"

definition invalid_point :: "'g float_ops \<Rightarrow> 'g \<Rightarrow> 'g \<Rightarrow> bool" where
  "invalid_point fo latitude longitude \<longleftrightarrow> \<not> in_range fo 90 latitude \<or> \<not> in_range fo 180 longitude"

definition spatial_radius_search_handler ::
  "('f, 'g, 'ts, 'ix) http_env \<Rightarrow> ('f, 'g, 'ts, 'ix) AppState \<Rightarrow> 'g RadiusSearchRequest \<Rightarrow> (ApiError, 'g SpatialSearchResultResponse list) rresult" where
  "spatial_radius_search_handler E st body =
    (let fo = he_f64 (hv_hexad E);
         limit = validate_limit (case rr_limit body of Some n \<Rightarrow> n | None \<Rightarrow> 100)
     in if invalid_point fo (rr_latitude body) (rr_longitude body) then Inl (ApiBadRequest ''Invalid coordinates'')
        else if fo_le fo (rr_radius_km body) (fo_lit fo 0) then Inl (ApiBadRequest ''Radius must be positive'')
        else spatial_result (search_radius fo (hs_spatial (app_hexad_store st))
               \<lparr>co_latitude = rr_latitude body, co_longitude = rr_longitude body, co_altitude = None\<rparr> (rr_radius_km body) limit))"

definition spatial_bounds_search_handler ::
  "('f, 'g, 'ts, 'ix) http_env \<Rightarrow> ('f, 'g, 'ts, 'ix) AppState \<Rightarrow> 'g BoundsSearchRequest \<Rightarrow> (ApiError, 'g SpatialSearchResultResponse list) rresult" where
  "spatial_bounds_search_handler E st body =
    (let fo = he_f64 (hv_hexad E);
         limit = validate_limit (case bq_limit body of Some n \<Rightarrow> n | None \<Rightarrow> 100)
     in if fo_lt fo (bq_max_lat body) (bq_min_lat body) \<or> fo_lt fo (bq_max_lon body) (bq_min_lon body)
        then Inl (ApiBadRequest ''min values must be less than max values'')
        else spatial_result (search_within fo (hs_spatial (app_hexad_store st))
               \<lparr>bb_min_lat = bq_min_lat body, bb_min_lon = bq_min_lon body, bb_max_lat = bq_max_lat body, bb_max_lon = bq_max_lon body\<rparr> limit))"

definition spatial_nearest_handler ::
  "('f, 'g, 'ts, 'ix) http_env \<Rightarrow> ('f, 'g, 'ts, 'ix) AppState \<Rightarrow> 'g NearestSearchRequest \<Rightarrow> (ApiError, 'g SpatialSearchResultResponse list) rresult" where
  "spatial_nearest_handler E st body =
    (let fo = he_f64 (hv_hexad E);
         k = min (case nq_k body of Some n \<Rightarrow> n | None \<Rightarrow> 10) MAX_RESULT_LIMIT
     in if invalid_point fo (nq_latitude body) (nq_longitude body) then Inl (ApiBadRequest ''Invalid coordinates'')
        else spatial_result (nearest fo (hs_spatial (app_hexad_store st))
               \<lparr>co_latitude = nq_latitude body, co_longitude = nq_longitude body, co_altitude = None\<rparr> k))"

section \<open>Runs of the server\<close>

text \<open>
  The requests that write to the hexad store, with generated identifiers; the state before the first one has new stores.
\<close>

definition fresh_inputs :: "'ts request_inputs \<Rightarrow> ('f, 'g, 'ts, 'ix) AppState \<Rightarrow> bool" where
  "fresh_inputs rx st \<longleftrightarrow> txn_of (hs_txn (app_hexad_store st)) (rx_txn rx) = None
     \<and> map_of (hs_hexads (app_hexad_store st)) (rx_hexad_id rx) = None \<and> hs_temporal (app_hexad_store st) (rx_hexad_id rx) = None"

inductive server_reachable :: "('f, 'g, 'ts, 'ix) http_env \<Rightarrow> ('f, 'g, 'ts, 'ix) AppState \<Rightarrow> bool" for E where
  start: "app_hexad_store st = HexadStore_new config graph vector document tensor semantic temporal provenance spatial \<Longrightarrow> server_reachable E st"
| create: "server_reachable E st \<Longrightarrow> fresh_inputs rx st \<Longrightarrow> server_reachable E (fst (create_hexad_handler E rx st request))"
| update: "server_reachable E st \<Longrightarrow> fresh_inputs rx st \<Longrightarrow> server_reachable E (fst (update_hexad_handler E rx st i request))"
| delete: "server_reachable E st \<Longrightarrow> fresh_inputs rx st \<Longrightarrow> server_reachable E (fst (delete_hexad_handler E rx st i))"
| record_event: "server_reachable E st \<Longrightarrow> fresh_inputs rx st \<Longrightarrow> server_reachable E (fst (provenance_record_handler E rx st i event))"
| store_query: "server_reachable E st \<Longrightarrow> fresh_inputs rx st \<Longrightarrow> server_reachable E (fst (store_query_handler E rx st query))"
| optimize: "server_reachable E st \<Longrightarrow> fresh_inputs rx st \<Longrightarrow> server_reachable E (fst (optimize_query_handler E rx st i body))"

lemma create_stays:
  assumes "hexad_reachable env st" and "fresh_op st (CreateHexad ck i t input)"
  shows "hexad_reachable env (fst (hexad_create env ck i t st input))"
  using hexad_reachable.step [OF assms(1,2), of "fst (hexad_create env ck i t st input)"]
  by (cases "hexad_create env ck i t st input") (simp add: apsnd_def map_prod_def)

lemma update_stays:
  assumes "hexad_reachable env st" and "txn_of (hs_txn st) t = None"
  shows "hexad_reachable env (fst (hexad_update env ck t st i input))"
  using hexad_reachable.step [OF assms(1), of "UpdateHexad ck t i input" "fst (hexad_update env ck t st i input)"] assms(2)
  by (cases "hexad_update env ck t st i input") (simp add: apsnd_def map_prod_def)

lemma delete_stays:
  assumes "hexad_reachable env st" and "txn_of (hs_txn st) t = None"
  shows "hexad_reachable env (fst (hexad_delete env ck t st i))"
  using hexad_reachable.step [OF assms(1), of "DeleteHexad ck t i" "fst (hexad_delete env ck t st i)"] assms(2)
  by (cases "hexad_delete env ck t st i") simp

lemma server_store_reachable: "server_reachable E st \<Longrightarrow> hexad_reachable (hv_hexad E) (app_hexad_store st)"
proof (induction rule: server_reachable.induct)
  case (start st config graph vector document tensor semantic temporal provenance spatial)
  then show ?case by (simp add: hexad_reachable.new)
next
  case (create st rx request)
  with create_stays [OF create(3), of "rx_clock rx" "rx_hexad_id rx" "rx_txn rx" "to_hexad_input request"] show ?case
    by (simp add: create_hexad_handler_def fresh_inputs_def case_prod_unfold)
next
  case (update st rx i request)
  with update_stays [OF update(3), of "rx_txn rx" "rx_clock rx" i "to_hexad_input request"] show ?case
    by (simp add: update_hexad_handler_def fresh_inputs_def case_prod_unfold split: sum.split)
next
  case (delete st rx i)
  with delete_stays [OF delete(3), of "rx_txn rx" "rx_clock rx" i] show ?case
    by (simp add: delete_hexad_handler_def fresh_inputs_def case_prod_unfold split: sum.split)
next
  case (record_event st rx i event)
  with update_stays [OF record_event(3), of "rx_txn rx" "rx_clock rx" i "HexadInput_default\<lparr>hi_provenance := Some (provenance_input event)\<rparr>"]
  show ?case by (simp add: provenance_record_handler_def fresh_inputs_def case_prod_unfold split: sum.split)
next
  case (store_query st rx query)
  then show ?case
    using create_stays [OF store_query(3), of "rx_clock rx" "rx_hexad_id rx" "rx_txn rx"]
    by (auto simp: store_query_handler_def fresh_inputs_def Let_def case_prod_unfold split: sum.split option.split)
next
  case (optimize st rx i body)
  then show ?case
    using update_stays [OF optimize(3), of "rx_txn rx" "rx_clock rx" i]
    by (auto simp: optimize_query_handler_def fresh_inputs_def Let_def case_prod_unfold split: sum.split option.split)
qed

section \<open>Reading and writing entities\<close>

lemma hexad_of_sel:
  "hd_id (hexad_of i s n p) = i" "hd_status (hexad_of i s n p) = s" "hd_graph_node (hexad_of i s n p) = hp_graph_node p"
  "hd_embedding (hexad_of i s n p) = hp_embedding p" "hd_tensor (hexad_of i s n p) = hp_tensor p" "hd_semantic (hexad_of i s n p) = hp_semantic p"
  "hd_document (hexad_of i s n p) = hp_document p" "hd_version_count (hexad_of i s n p) = n" "hd_spatial_data (hexad_of i s n p) = hp_spatial_data p"
  "hd_provenance_chain_length (hexad_of i s n p) = hp_provenance_chain_length p"
  by (simp_all add: hexad_of_def)

lemma find_hexad_eq:
  "find_hexad what st i = (case map_of (hs_hexads (app_hexad_store st)) i of
     None \<Rightarrow> Inl (ApiNotFound (what @ '' '' @ i @ '' not found''))
   | Some s \<Rightarrow> Inr (hexad_of i s (version_count (app_hexad_store st) i) (loaded (app_hexad_store st) i (hx_modality_status s))))"
  by (simp add: find_hexad_def internal_def hexad_get_def load_hexad_eq split: option.split)

lemma get_hexad_handler_eq:
  "get_hexad_handler E st i = rbind (validate_hexad_id E i) (\<lambda>_. rbind (find_hexad ''Hexad'' st i) (\<lambda>h. Inr (response_of E h)))"
  by (simp add: get_hexad_handler_def)

text \<open>C16: Reading an entity of a running server is never an internal error: an identifier that is not well formed is a 400, one that is
  not registered a 404, and a registered one answers its identifier, creation and modification time, version and exactly the
  modalities the registry lists.
\<close>

theorem http_get_exact:
  assumes "server_reachable E st"
  shows "get_hexad_handler E st i = (case validate_hexad_id E i of
      Inl e \<Rightarrow> Inl e
    | Inr _ \<Rightarrow>
        (case map_of (hs_hexads (app_hexad_store st)) i of
           None \<Rightarrow> Inl (ApiNotFound (''Hexad '' @ i @ '' not found''))
         | Some s \<Rightarrow>
             let m = hx_modality_status s; chain = (if ms_provenance m then of_nat (ProvenanceChain_len (the (chains_of (app_hexad_store st) i))) else 0)
             in Inr \<lparr>ho_id = i, ho_status = \<lparr>hz_created_at = he_rfc3339 (hv_hexad E) (hx_created_at s),
                 hz_modified_at = he_rfc3339 (hv_hexad E) (hx_modified_at s), hz_version = hx_version s\<rparr>,
               ho_has_graph = ms_graph m, ho_has_vector = ms_vector m, ho_has_tensor = ms_tensor m, ho_has_semantic = ms_semantic m,
               ho_has_document = ms_document m, ho_has_provenance = (0 < chain), ho_has_spatial = ms_spatial m,
               ho_version_count = version_count (app_hexad_store st) i, ho_provenance_chain_length = chain\<rparr>))"
proof -
  have ok: "entity_ok (app_hexad_store st) i"
    using reachable_inv [OF server_store_reachable [OF assms]] by (simp add: hexad_inv_def)
  show ?thesis
  proof (cases "validate_hexad_id E i")
    case (Inr u)
    show ?thesis
    proof (cases "map_of (hs_hexads (app_hexad_store st)) i")
      case (Some s)
      have parts: "(hp_graph_node p \<noteq> None) = ms_graph m" "(hp_embedding p \<noteq> None) = ms_vector m" "(hp_tensor p \<noteq> None) = ms_tensor m"
        "(hp_semantic p \<noteq> None) = ms_semantic m" "(hp_document p \<noteq> None) = ms_document m" "(hp_spatial_data p \<noteq> None) = ms_spatial m"
        "hp_provenance_chain_length p = (if ms_provenance m then of_nat (ProvenanceChain_len (the (chains_of (app_hexad_store st) i))) else 0)"
        if "m = hx_modality_status s" and "p = loaded (app_hexad_store st) i m" for m p
        using ok Some that by (auto simp: entity_ok_def stored_parts_def loaded_def)
      note sel = parts [OF refl refl]
      show ?thesis
        unfolding get_hexad_handler_eq find_hexad_eq Inr Some
        by (simp only: rbind_simps option.case sum.case HexadResponse_from_def hexad_of_sel sel Let_def)
    qed (simp add: get_hexad_handler_eq find_hexad_eq Inr)
  qed (simp add: get_hexad_handler_eq)
qed

lemma to_hexad_input_parts:
  "hi_graph (to_hexad_input r) = None \<longleftrightarrow> hr_relationships r = None" "hi_vector (to_hexad_input r) = None \<longleftrightarrow> hr_embedding r = None"
  "hi_tensor (to_hexad_input r) = None \<longleftrightarrow> hr_tensor r = None" "hi_semantic (to_hexad_input r) = None \<longleftrightarrow> hr_types r = None"
  "hi_document (to_hexad_input r) = None \<longleftrightarrow> hr_title r = None" "hi_spatial (to_hexad_input r) = None \<longleftrightarrow> hr_spatial r = None"
  by (simp_all add: to_hexad_input_def split: option.split)


section \<open>Sizes of answers\<close>

lemma load_all_length: "load_all st is = Inr hs \<Longrightarrow> length hs \<le> length is"
proof (induction "is" arbitrary: hs)
  case (Cons i "is")
  then show ?case by (fastforce simp: rbind_Inr_iff split: option.splits)
qed simp

lemma internal_Inr: "internal r = Inr x \<longleftrightarrow> r = Inr x"
  by (cases r) (auto simp: internal_def)

lemma modality_result_Inr_iff: "modality_result m d r = Inr x \<longleftrightarrow> r = Inr x"
  by (cases r) (auto simp: modality_result_def)

lemma limit_le [simp]: "min (length (f xs)) (validate_limit n) \<le> 1000" "validate_limit n \<le> 1000"
  by (simp_all add: validate_limit_def MAX_RESULT_LIMIT_def)

lemma load_all_bounded: "load_all st is = Inr hs \<Longrightarrow> length is \<le> n \<Longrightarrow> length hs \<le> n"
  using load_all_length le_trans by blast

lemma similar_hexads_bounded:
  assumes "similar_hexads E st request = Inr hs"
  shows "length hs \<le> 1000"
proof -
  let ?k = "validate_limit (case vq_k request of Some n \<Rightarrow> n | None \<Rightarrow> 10)"
  have "load_all (app_hexad_store st) (map sr_id (take ?k (stable_sort (\<lambda>a b. \<not> fo_lt (he_f32 (hv_hexad E)) (sr_score a) (sr_score b))
      (bf_scored (he_f32 (hv_hexad E)) (hs_vector (app_hexad_store st)) (vq_vector request))))) = Inr hs"
    using assms by (auto simp: similar_hexads_def Let_def rbind_Inr_iff internal_Inr search_similar_def bf_search_def modality_result_def
      split: sum.splits if_splits)
  then show ?thesis by (rule load_all_bounded) (simp add: min.coboundedI2)
qed

lemma list_bounded:
  assumes "list_hexads_handler E st params = Inr r"
  shows "length r \<le> 1000"
proof -
  let ?n = "validate_limit (case lq_limit params of Some n \<Rightarrow> n | None \<Rightarrow> 100)"
  obtain hs where l: "hexad_list (app_hexad_store st) ?n (case lq_offset params of Some n \<Rightarrow> n | None \<Rightarrow> 0) = Inr hs" and r: "length r = length hs"
    using assms by (auto simp: list_hexads_handler_def Let_def rbind_Inr_iff internal_Inr)
  from l have "length hs \<le> 1000" unfolding hexad_list_def by (rule load_all_bounded) (simp add: min.coboundedI2)
  with r show ?thesis by simp
qed

lemma text_bounded:
  assumes "\<And>ix q n ids. tv_search (he_tantivy (hv_hexad E)) ix q n = Inr ids \<Longrightarrow> length ids \<le> n"
    and "text_search_handler E st query = Inr r"
  shows "length r \<le> 1000"
proof -
  let ?n = "validate_limit (case sq_limit query of Some n \<Rightarrow> n | None \<Rightarrow> 10)"
  obtain q hs where "search_text (hv_hexad E) (app_hexad_store st) q ?n = Inr hs" and r: "length r = length hs"
    using assms(2) by (auto simp: text_search_handler_def Let_def rbind_Inr_iff internal_Inr rank_results_def split: option.splits if_splits)
  then obtain ids where "tv_search (he_tantivy (hv_hexad E)) (td_index (hs_document (app_hexad_store st))) q ?n = Inr ids"
    and "load_all (app_hexad_store st) ids = Inr hs"
    by (auto simp: search_text_def doc_search_def rbind_Inr_iff modality_result_Inr_iff)
  with assms(1) r show ?thesis using load_all_bounded limit_le(2) le_trans by metis
qed

lemma similarity_bounded:
  "vector_search_handler E st request = Inr r \<Longrightarrow> length r \<le> 1000"
  "similar_queries_handler E st request = Inr r \<Longrightarrow> length r \<le> 1000"
  using similar_hexads_bounded [of E st request]
  by (auto simp: vector_search_handler_def similar_queries_handler_def rbind_Inr_iff rank_results_def intro: le_trans [OF length_filter_le])

lemma spatial_bounded:
  "spatial_radius_search_handler E st circle = Inr r \<Longrightarrow> length r \<le> 1000"
  "spatial_bounds_search_handler E st box = Inr r \<Longrightarrow> length r \<le> 1000"
  "spatial_nearest_handler E st point = Inr r \<Longrightarrow> length r \<le> 1000"
  by (auto simp: spatial_radius_search_handler_def spatial_bounds_search_handler_def spatial_nearest_handler_def search_radius_def
    search_within_def nearest_def spatial_result_def spatial_responses_def closest_def Let_def MAX_RESULT_LIMIT_def split: if_splits)

text \<open>No listing, search by similarity, search of stored queries or search by place answers more than 1000 results, and no text search
  does when the index returns at most as many documents as it is asked for.
\<close>

theorem http_results_bounded:
  assumes "\<And>ix q n ids. tv_search (he_tantivy (hv_hexad E)) ix q n = Inr ids \<Longrightarrow> length ids \<le> n"
  shows "(\<forall>r. list_hexads_handler E st params = Inr r \<longrightarrow> length r \<le> 1000)
    \<and> (\<forall>r. text_search_handler E st query = Inr r \<longrightarrow> length r \<le> 1000)
    \<and> (\<forall>r. vector_search_handler E st request = Inr r \<longrightarrow> length r \<le> 1000)
    \<and> (\<forall>r. similar_queries_handler E st request = Inr r \<longrightarrow> length r \<le> 1000)
    \<and> (\<forall>r. spatial_radius_search_handler E st circle = Inr r \<longrightarrow> length r \<le> 1000)
    \<and> (\<forall>r. spatial_bounds_search_handler E st box = Inr r \<longrightarrow> length r \<le> 1000)
    \<and> (\<forall>r. spatial_nearest_handler E st point = Inr r \<longrightarrow> length r \<le> 1000)"
  using text_bounded [OF assms] by (intro conjI allI impI) (erule list_bounded similarity_bounded spatial_bounded, assumption?)+

section \<open>What the provenance endpoints do\<close>

text \<open>The verification endpoint never looks at the chain.\<close>

lemma verify_endpoint_always_valid: "provenance_verify_handler E st i = Inr (j, has, valid) \<Longrightarrow> valid"
  by (auto simp: provenance_verify_handler_def rbind_Inr_iff)

text \<open>An event for an entity that does not exist is an internal error, where updating that entity is a 404.\<close>

lemma event_for_missing_entity:
  assumes "map_of (hs_hexads (app_hexad_store st)) i = None" and "validate_hexad_id E i = Inr ()"
  shows "snd (provenance_record_handler E rx st i event) = Inl (ApiInternal (''Entity not found: '' @ i))"
    and "snd (update_hexad_handler E rx st i request) = Inl (ApiNotFound (''Hexad '' @ i @ '' not found''))"
  using assms by (simp_all add: provenance_record_handler_def update_hexad_handler_def hexad_update_def internal_def write_error_def)

text \<open>Triggering a normalisation only checks that the entity exists.\<close>

lemma trigger_normalizes_nothing:
  "trigger_normalization_handler E st i = Inr 202 \<longleftrightarrow> (\<exists>r. get_hexad_handler E st i = Inr r)"
  by (auto simp: trigger_normalization_handler_def get_hexad_handler_def rbind_Inr_iff)

section \<open>Examples\<close>

definition demo_http_request :: "(rat, rat) HexadRequest" where
  "demo_http_request = \<lparr>hr_title = Some ''T'', hr_body = None, hr_embedding = Some [1, 2], hr_types = None, hr_relationships = None,
     hr_tensor = None, hr_provenance = None, hr_spatial = None, hr_metadata = None\<rparr>"

lemma demo_server_reachable: "server_reachable demo_http_env demo_app"
  by (rule server_reachable.start) (rule demo_app_fields)

lemma demo_http_valid: "validate_hexad_id demo_http_env ''e'' = Inr ()"
  by code_simp

lemma demo_http_acceptable:
  "acceptable (hv_hexad demo_http_env) (app_hexad_store demo_app) (to_hexad_input demo_http_request)"
  by (simp add: acceptable_def to_hexad_input_def demo_http_request_def HexadStore_new_def HexadConfig_default_def BruteForceVectorStore_new_def
    demo_http_env_def demo_http_hexad_def commits_def)

lemma demo_http_fresh: "fresh_inputs demo_inputs demo_app"
  by (simp add: fresh_inputs_def demo_inputs_def HexadStore_new_def)


theorem http_get_exact_witness:
  "server_reachable demo_http_env demo_app \<and> get_hexad_handler demo_http_env demo_app ''e'' = Inl (ApiNotFound ''Hexad e not found'')"
  using http_get_exact [OF demo_server_reachable, of "''e''"] demo_server_reachable by (simp add: demo_http_valid HexadStore_new_def)

theorem http_results_bounded_witness:
  "\<forall>r. list_hexads_handler demo_http_env demo_app \<lparr>lq_limit = Some 5000, lq_offset = None\<rparr> = Inr r \<longrightarrow> length r \<le> 1000"
proof -
  have "tv_search (he_tantivy (hv_hexad demo_http_env)) ix q n = Inr ids \<Longrightarrow> length ids \<le> n" for ix q n ids
    by (simp add: demo_http_env_def demo_http_hexad_def)
  then show ?thesis by (rule http_results_bounded [THEN conjunct1])
qed

end
