(* ===== verification/Api_Planning.thy ===== *)
theory Api_Planning
  imports Api_Handlers
begin

text \<open>
  The handlers of the planner, of prepared statements, of the slow-query log, of buffered transactions and of proofs
  (\<open>verisim-api/src/lib.rs\<close>).  The planner is behind a standard mutex: a panic of the planner inside a handler poisons the lock,
  and every later handler that asks for it answers an internal error.  \<open>None\<close> in place of an answer is the panic.
\<close>

section \<open>The planner\<close>

definition poisoned_error :: ApiError where
  "poisoned_error = ApiInternal ''Planner lock poisoned''"

text \<open>\<open>planner.lock()\<close> and what the handler does with the planner, which returns it with an answer or panics.\<close>

definition with_planner ::
  "('f, 'g, 'ts, 'ix) AppState \<Rightarrow> (('g, 'ts) QueryPlanner \<Rightarrow> (('g, 'ts) QueryPlanner \<times> (ApiError, 'a) rresult) option)
   \<Rightarrow> ('f, 'g, 'ts, 'ix) AppState \<times> (ApiError, 'a) rresult option" where
  "with_planner st work =
    (if app_planner_poisoned st then (st, Some (Inl poisoned_error))
     else (case work (app_planner st) of
             None \<Rightarrow> (st\<lparr>app_planner_poisoned := True\<rparr>, None)
           | Some (planner, r) \<Rightarrow> (st\<lparr>app_planner := planner\<rparr>, Some r)))"

definition planned :: "(PlannerError \<Rightarrow> ApiError) \<Rightarrow> (PlannerError, 'a) rresult \<Rightarrow> (ApiError, 'a) rresult" where
  "planned err r = map_sum err id r"

abbreviation bad_plan :: "PlannerError \<Rightarrow> ApiError" where
  "bad_plan e \<equiv> ApiBadRequest (PlannerError_display e)"

definition query_plan_handler ::
  "('f, 'g, 'ts, 'ix) http_env \<Rightarrow> ('f, 'g, 'ts, 'ix) AppState \<Rightarrow> LogicalPlan
   \<Rightarrow> ('f, 'g, 'ts, 'ix) AppState \<times> (ApiError, 'g PhysicalPlan) rresult option" where
  "query_plan_handler E st plan =
    with_planner st (\<lambda>planner. map_option (\<lambda>r. (planner, planned bad_plan r)) (optimize (hv_f64 E) planner plan))"

definition query_explain_handler ::
  "('f, 'g, 'ts, 'ix) http_env \<Rightarrow> ('f, 'g, 'ts, 'ix) AppState \<Rightarrow> LogicalPlan
   \<Rightarrow> ('f, 'g, 'ts, 'ix) AppState \<times> (ApiError, 'g ExplainOutput) rresult option" where
  "query_explain_handler E st plan =
    with_planner st (\<lambda>planner. map_option (\<lambda>r. (planner, planned bad_plan r)) (explain (hv_f64 E) (hv_cost_order E) planner plan))"

definition get_planner_config_handler ::
  "('f, 'g, 'ts, 'ix) AppState \<Rightarrow> ('f, 'g, 'ts, 'ix) AppState \<times> (ApiError, 'g PlannerConfig) rresult option" where
  "get_planner_config_handler st = with_planner st (\<lambda>planner. Some (planner, Inr (pl_config planner)))"

definition put_planner_config_handler ::
  "('f, 'g, 'ts, 'ix) AppState \<Rightarrow> 'g PlannerConfig \<Rightarrow> ('f, 'g, 'ts, 'ix) AppState \<times> (ApiError, 'g PlannerConfig) rresult option" where
  "put_planner_config_handler st config =
    with_planner st (\<lambda>planner. let planner = Planner_set_config planner config in Some (planner, Inr (pl_config planner)))"

definition planner_stats_handler ::
  "('f, 'g, 'ts, 'ix) AppState \<Rightarrow> ('f, 'g, 'ts, 'ix) AppState \<times> (ApiError, ('g, 'ts) StatisticsCollector) rresult option" where
  "planner_stats_handler st = with_planner st (\<lambda>planner. Some (planner, Inr (pl_stats planner)))"

definition int_digits :: "int \<Rightarrow> string" where
  "int_digits i = (if i < 0 then ''-'' @ dec_digits (nat (- i)) else dec_digits (nat i))"

record 'g ExplainAnalyzeRequest =
  ar_plan :: LogicalPlan
  ar_simulated_timings :: "'g list option"

definition analyze_timing :: "('g, 'z) plan_env_scheme \<Rightarrow> 'g list option \<Rightarrow> nat \<Rightarrow> 'g PlanStep \<Rightarrow> 'g" where
  "analyze_timing F timings i step =
    (case Option.bind timings (\<lambda>t. if i < length t then Some (t ! i) else None) of
       Some ms \<Rightarrow> ms
     | None \<Rightarrow> fo_mul F (ce_time_ms (ps_cost step)) (pf_dec F 11 1))"

fun record_steps ::
  "('g, 'z) plan_env_scheme \<Rightarrow> 'g list option \<Rightarrow> 'ts \<Rightarrow> (nat \<times> 'g PlanStep) list \<Rightarrow> ('g, 'ts) Profiler \<Rightarrow> ('g, 'ts) Profiler option" where
  "record_steps F timings now [] p = Some p"
| "record_steps F timings now ((i, step) # steps) p =
     Option.bind (record_step p i (analyze_timing F timings i step) (ce_estimated_rows (ps_cost step)) now now) (record_steps F timings now steps)"

text \<open>\<open>finished\<close> is the reading of the clock \<open>Profiler::finish\<close> makes.\<close>

definition query_explain_analyze_handler ::
  "('f, 'g, 'ts, 'ix) http_env \<Rightarrow> 'ts request_inputs \<Rightarrow> 'ts \<Rightarrow> ('f, 'g, 'ts, 'ix) AppState \<Rightarrow> 'g ExplainAnalyzeRequest
   \<Rightarrow> ('f, 'g, 'ts, 'ix) AppState \<times> (ApiError, ('g, 'ts) ExplainAnalyzeOutput) rresult option" where
  "query_explain_analyze_handler E rx finished st request =
    with_planner st (\<lambda>planner.
      let F = hv_f64 E in
      case (explain F (hv_cost_order E) planner (ar_plan request), optimize F planner (ar_plan request)) of
        (Some (Inl e), _) \<Rightarrow> Some (planner, Inl (bad_plan e))
      | (Some (Inr ex), Some (Inl e)) \<Rightarrow> Some (planner, Inl (bad_plan e))
      | (Some (Inr ex), Some (Inr physical)) \<Rightarrow>
          map_option (\<lambda>profiler.
              let (stats, profile) = finish F finished profiler (pl_stats planner)
              in (planner\<lparr>pl_stats := stats\<rparr>, Inr (with_profile F ex profile)))
            (record_steps F (ar_simulated_timings request) (rx_now rx) (enumerate 0 (pp_steps physical))
               (Profiler_new (''analyze-'' @ int_digits (rx_millis rx)) physical))
      | _ \<Rightarrow> None)"

section \<open>Prepared statements\<close>

record PreparedCreateRequest =
  pq_query :: string
  pq_plan :: LogicalPlan

text \<open>\<open>prepare\<close> and \<open>get\<close> read the clock one after the other: \<open>rx_cache_now\<close> and \<open>later\<close>.\<close>

definition prepared_create_handler ::
  "('f, 'g, 'ts, 'ix) http_env \<Rightarrow> 'ts request_inputs \<Rightarrow> int \<Rightarrow> ('f, 'g, 'ts, 'ix) AppState \<Rightarrow> PreparedCreateRequest
   \<Rightarrow> ('f, 'g, 'ts, 'ix) AppState \<times> (ApiError, u16 \<times> 'g PreparedStatement) rresult option" where
  "prepared_create_handler E rx later st request =
    (case prepare (hv_cache E) (hv_statement_order E) (rx_cache_now rx) (app_plan_cache st) (pq_query request) (pq_plan request) of
       (c, i) \<Rightarrow>
         (case Plan_Cache.get (hv_cache E) later c i of
            None \<Rightarrow> (st\<lparr>app_plan_cache := c\<rparr>, None)
          | Some (c', None) \<Rightarrow>
              (st\<lparr>app_plan_cache := c'\<rparr>, Some (Inl (ApiInternal ''Failed to retrieve prepared statement after creation'')))
          | Some (c', Some stmt) \<Rightarrow> (st\<lparr>app_plan_cache := c'\<rparr>, Some (Inr (201, stmt)))))"

definition prepared_get_handler ::
  "('f, 'g, 'ts, 'ix) http_env \<Rightarrow> 'ts request_inputs \<Rightarrow> ('f, 'g, 'ts, 'ix) AppState \<Rightarrow> string
   \<Rightarrow> ('f, 'g, 'ts, 'ix) AppState \<times> (ApiError, 'g PreparedStatement) rresult option" where
  "prepared_get_handler E rx st i =
    (case Plan_Cache.get (hv_cache E) (rx_cache_now rx) (app_plan_cache st) (PreparedId i) of
       None \<Rightarrow> (st, None)
     | Some (c, r) \<Rightarrow>
         (st\<lparr>app_plan_cache := c\<rparr>,
          Some (case r of Some stmt \<Rightarrow> Inr stmt
                | None \<Rightarrow> Inl (ApiNotFound (''Prepared statement '' @ [CHR 0x27] @ i @ [CHR 0x27] @ '' not found'')))))"

text \<open>The bindings of the request come in the iteration order of a hash map.\<close>

definition prepared_execute_handler ::
  "('f, 'g, 'ts, 'ix) http_env \<Rightarrow> 'ts request_inputs \<Rightarrow> ('f, 'g, 'ts, 'ix) AppState \<Rightarrow> string \<Rightarrow> (string \<times> ('g, 'h) ParamValue) list
   \<Rightarrow> ('f, 'g, 'ts, 'ix) AppState \<times> (ApiError, 'g PhysicalPlan) rresult option" where
  "prepared_execute_handler E rx st i params =
    (case execute_prepared (hv_cache E) (rx_cache_now rx) (app_plan_cache st) (PreparedId i) params of
       None \<Rightarrow> (st, None)
     | Some (c, Inl e) \<Rightarrow> (st\<lparr>app_plan_cache := c\<rparr>, Some (Inl (ApiBadRequest (CacheError_display (hv_cache E) e))))
     | Some (c, Inr stmt) \<Rightarrow>
         (let st = st\<lparr>app_plan_cache := c\<rparr>;
              (st, r) = (case st_cached_physical_plan stmt of
                 Some cached \<Rightarrow> (st, Some (Inr cached))
               | None \<Rightarrow> with_planner st (\<lambda>planner. map_option
                   (\<lambda>r. (planner, planned (\<lambda>e. ApiInternal (PlannerError_display e)) r)) (optimize (hv_f64 E) planner (st_logical_plan stmt))))
          in (case r of
                Some (Inr physical) \<Rightarrow> (st\<lparr>app_plan_cache := cache_plan (app_plan_cache st) (PreparedId i) physical\<rparr>, r)
              | _ \<Rightarrow> (st, r))))"

definition prepared_stats_handler :: "('f, 'g, 'ts, 'ix) http_env \<Rightarrow> ('f, 'g, 'ts, 'ix) AppState \<Rightarrow> 'g CacheStats" where
  "prepared_stats_handler E st = stats_async (hv_cache E) (app_plan_cache st)"

definition slow_queries_handler :: "('f, 'g, 'ts, 'ix) http_env \<Rightarrow> ('f, 'g, 'ts, 'ix) AppState \<Rightarrow> 'g SlowQuerySummary" where
  "slow_queries_handler E st = slow_summary (hv_f64 E) (hv_count_order E) (app_slow_query_log st)"

section \<open>Transactions\<close>

definition txn_error :: "(string \<Rightarrow> ApiError) \<Rightarrow> ApiTransactionError \<Rightarrow> ApiError" where
  "txn_error other e =
    (case e of ApiTransactionError.NotFound _ \<Rightarrow> ApiNotFound (ApiTransactionError_display e)
     | _ \<Rightarrow> other (ApiTransactionError_display e))"

definition internal_status :: "ApiTransactionManager \<Rightarrow> TransactionId \<Rightarrow> (ApiError, TransactionStatus) rresult" where
  "internal_status m i = map_sum (\<lambda>e. ApiInternal (ApiTransactionError_display e)) id (AM_status m i)"

definition transaction_begin_handler ::
  "('f, 'g, 'ts, 'ix) http_env \<Rightarrow> 'ts request_inputs \<Rightarrow> ('f, 'g, 'ts, 'ix) AppState
   \<Rightarrow> ('f, 'g, 'ts, 'ix) AppState \<times> (ApiError, u16 \<times> TransactionStatus) rresult" where
  "transaction_begin_handler E rx st =
    (case AM_begin (hv_api E) (rx_pid rx) (rx_txn_id_now rx) (rx_txn_now rx) (app_transaction_manager st) of
       (m, Inl e) \<Rightarrow> (st\<lparr>app_transaction_manager := m\<rparr>, Inl (ApiInternal (ApiTransactionError_display e)))
     | (m, Inr i) \<Rightarrow> (st\<lparr>app_transaction_manager := m\<rparr>, rbind (internal_status m i) (\<lambda>status. Inr (201, status))))"

definition transaction_commit_handler ::
  "('f, 'g, 'ts, 'ix) http_env \<Rightarrow> 'ts request_inputs \<Rightarrow> ('f, 'g, 'ts, 'ix) AppState \<Rightarrow> string
   \<Rightarrow> ('f, 'g, 'ts, 'ix) AppState \<times> (ApiError, TransactionStatus) rresult" where
  "transaction_commit_handler E rx st i =
    (case AM_commit (hv_api E) (rx_txn_now rx) (app_transaction_manager st) i of
       (m, Inl e) \<Rightarrow> (st\<lparr>app_transaction_manager := m\<rparr>, Inl (txn_error ApiBadRequest e))
     | (m, Inr _) \<Rightarrow> (st\<lparr>app_transaction_manager := m\<rparr>, internal_status m i))"

definition transaction_rollback_handler ::
  "('f, 'g, 'ts, 'ix) http_env \<Rightarrow> 'ts request_inputs \<Rightarrow> ('f, 'g, 'ts, 'ix) AppState \<Rightarrow> string
   \<Rightarrow> ('f, 'g, 'ts, 'ix) AppState \<times> (ApiError, TransactionStatus) rresult" where
  "transaction_rollback_handler E rx st i =
    (case AM_rollback (hv_api E) (rx_txn_now rx) (app_transaction_manager st) i of
       (m, Inl e) \<Rightarrow> (st\<lparr>app_transaction_manager := m\<rparr>, Inl (txn_error ApiBadRequest e))
     | (m, Inr _) \<Rightarrow> (st\<lparr>app_transaction_manager := m\<rparr>, internal_status m i))"

definition transaction_status_handler :: "('f, 'g, 'ts, 'ix) AppState \<Rightarrow> string \<Rightarrow> (ApiError, TransactionStatus) rresult" where
  "transaction_status_handler st i = map_sum (txn_error ApiInternal) id (AM_status (app_transaction_manager st) i)"

section \<open>Proofs\<close>

record ProofGenerateRequest =
  gp_claim :: string
  gp_privacy_level :: "string option"
  gp_membership_set :: "string list option"
  gp_membership_index :: "nat option"

record ProofVerifyRequest =
  pv_proof :: ZkpProof
  pv_claim :: string

record 'g ProofWithCircuitRequest =
  wr_claim :: string
  wr_privacy_level :: "string option"
  wr_circuit_name :: string
  wr_witness :: "'g list option"
  wr_public_inputs :: "'g list option"

record ProofResponse =
  pz_success :: bool
  pz_proof :: "ZkpProof option"
  pz_verified :: "bool option"
  pz_error :: "string option"

definition parse_privacy_level :: "('f, 'g, 'ts, 'ix) http_env \<Rightarrow> string \<Rightarrow> (ApiError, PrivacyLevel) rresult" where
  "parse_privacy_level E s =
    (let l = hv_to_lowercase E s
     in if l = ''public'' then Inr LevelPublic
        else if l = ''private'' then Inr LevelPrivate
        else if l = ''zero_knowledge'' \<or> l = ''zeroknowledge'' \<or> l = ''zk'' then Inr LevelZeroKnowledge
        else Inl (ApiBadRequest (''Unknown privacy level: '' @ [CHR 0x27] @ l @ [CHR 0x27] @ ''. Use '' @ [CHR 0x27] @ ''public'' @ [CHR 0x27]
          @ '', '' @ [CHR 0x27] @ ''private'' @ [CHR 0x27] @ '', or '' @ [CHR 0x27] @ ''zero_knowledge'' @ [CHR 0x27])))"

definition requested_level :: "('f, 'g, 'ts, 'ix) http_env \<Rightarrow> string option \<Rightarrow> (ApiError, PrivacyLevel) rresult" where
  "requested_level E lvl = (case lvl of Some l \<Rightarrow> parse_privacy_level E l | None \<Rightarrow> Inr LevelPublic)"

definition proof_response :: "(CircuitError, ZkpProof) rresult \<Rightarrow> ProofResponse" where
  "proof_response r =
    (case r of
       Inr p \<Rightarrow> \<lparr>pz_success = True, pz_proof = Some p, pz_verified = None, pz_error = None\<rparr>
     | Inl e \<Rightarrow> \<lparr>pz_success = False, pz_proof = None, pz_verified = None, pz_error = Some (CircuitError_display e)\<rparr>)"

definition proof_generate_handler ::
  "('f, 'g, 'ts, 'ix) http_env \<Rightarrow> 'ts request_inputs \<Rightarrow> ProofGenerateRequest \<Rightarrow> (ApiError, ProofResponse) rresult" where
  "proof_generate_handler E rx request =
    rbind (requested_level E (gp_privacy_level request)) (\<lambda>lvl.
      let bridge_request = \<lparr>zr_claim = as_bytes (gp_claim request), zr_privacy_level = lvl, zr_circuit_name = None,
            zr_witness = None, zr_public_inputs = None, zr_membership_set = map_option (map as_bytes) (gp_membership_set request),
            zr_membership_index = gp_membership_index request\<rparr> :: 'g ZkpProofRequest
      in Inr (proof_response (generate_zkp (cn_sha256 (hv_circuit E)) (he_rfc3339 (hv_hexad E) (rx_now rx)) bridge_request)))"

definition proof_verify_handler :: "('f, 'g, 'ts, 'ix) http_env \<Rightarrow> ProofVerifyRequest \<Rightarrow> ProofResponse" where
  "proof_verify_handler E request =
    \<lparr>pz_success = True, pz_proof = None,
     pz_verified = Some (verify_zkp (cn_sha256 (hv_circuit E)) (pv_proof request) (as_bytes (pv_claim request))), pz_error = None\<rparr>"

definition proof_generate_with_circuit_handler ::
  "('f, 'g, 'ts, 'ix) http_env \<Rightarrow> 'ts request_inputs \<Rightarrow> ('f, 'g, 'ts, 'ix) AppState \<Rightarrow> 'g ProofWithCircuitRequest
   \<Rightarrow> (ApiError, ProofResponse) rresult" where
  "proof_generate_with_circuit_handler E rx st request =
    rbind (requested_level E (wr_privacy_level request)) (\<lambda>lvl.
      let bridge_request = \<lparr>zr_claim = as_bytes (wr_claim request), zr_privacy_level = lvl, zr_circuit_name = Some (wr_circuit_name request),
            zr_witness = wr_witness request, zr_public_inputs = wr_public_inputs request, zr_membership_set = None, zr_membership_index = None\<rparr>
      in Inr (proof_response (generate_zkp_with_circuit (hv_circuit E) (he_rfc3339 (hv_hexad E) (rx_now rx)) bridge_request
           (app_circuit_registry st))))"

section \<open>Availability of the planner\<close>

text \<open>A plan whose text preview is cut inside a character.\<close>

definition cuts_character :: "LogicalPlan \<Rightarrow> bool" where
  "cuts_character plan \<longleftrightarrow> (\<exists>node \<in> set (lp_nodes plan). \<exists>c \<in> set (pn_conditions node). splits_character c)"

lemma optimize_None: "optimize F pl plan = None \<longleftrightarrow> cuts_character plan"
  using node_costs_of_None [of F pl "lp_nodes plan"]
  by (cases "node_costs_of F pl (lp_nodes plan)") (auto simp: optimize_def cuts_character_def Let_def)

lemma optimize_Inl: "optimize F pl plan = Some (Inl e) \<longleftrightarrow> lp_nodes plan = [] \<and> e = EmptyPlan"
  by (auto simp: optimize_def Let_def split: option.splits)

lemma explain_None: "explain F ord pl plan = None \<longleftrightarrow> cuts_character plan"
  by (simp add: explain_def optimize_None)

lemma explain_Inl: "explain F ord pl plan = Some (Inl e) \<longleftrightarrow> lp_nodes plan = [] \<and> e = EmptyPlan"
proof (cases "optimize F pl plan")
  case None
  with optimize_None [of F pl plan] show ?thesis by (auto simp: explain_def cuts_character_def)
next
  case (Some r)
  with optimize_Inl [of F pl plan e] show ?thesis by (cases r) (auto simp: explain_def)
qed

lemma record_steps_enumerate:
  assumes "pp_steps (pf_plan p) = pre @ steps" and "pf_recorded_steps p = xs @ ys" and "length xs = length pre" and "length ys = length steps"
  shows "record_steps F timings now (enumerate (length pre) steps) p = Some (p\<lparr>pf_recorded_steps := xs @ map (\<lambda>(i, step).
    Some (profile_step step (analyze_timing F timings i step) (ce_estimated_rows (ps_cost step)) now now)) (enumerate (length pre) steps)\<rparr>)"
  using assms
proof (induction steps arbitrary: p pre xs ys)
  case Nil
  then show ?case by simp
next
  case (Cons step steps)
  obtain y ys' where ys: "ys = y # ys'" using Cons.prems(4) by (cases ys) auto
  let ?s = "Some (profile_step step (analyze_timing F timings (length pre) step) (ce_estimated_rows (ps_cost step)) now now)"
  let ?p = "p\<lparr>pf_recorded_steps := (xs @ [?s]) @ ys'\<rparr>"
  have "record_step p (length pre) (analyze_timing F timings (length pre) step) (ce_estimated_rows (ps_cost step)) now now = Some ?p"
    using Cons.prems(1,2,3) ys by (simp add: record_step_def list_update_append nth_append)
  moreover have "record_steps F timings now (enumerate (length (pre @ [step])) steps) ?p = Some (?p\<lparr>pf_recorded_steps := (xs @ [?s])
      @ map (\<lambda>(i, step). Some (profile_step step (analyze_timing F timings i step) (ce_estimated_rows (ps_cost step)) now now))
        (enumerate (length (pre @ [step])) steps)\<rparr>)"
    using Cons.prems ys by (intro Cons.IH [where ys = ys']) simp_all
  ultimately show ?case by simp
qed

text \<open>The requests to the endpoints of the planner; the body of the answer is left out.\<close>

datatype ('g, 'ts) planner_request =
    AskPlan LogicalPlan
  | AskExplain LogicalPlan
  | AskAnalyze "'ts request_inputs" 'ts "'g ExplainAnalyzeRequest"
  | AskConfig
  | SetConfig "'g PlannerConfig"
  | AskStats

abbreviation no_body :: "(ApiError, 'a) rresult option \<Rightarrow> (ApiError, unit) rresult option" where
  "no_body r \<equiv> map_option (map_sum id (\<lambda>_. ())) r"

fun planner_serve ::
  "('f, 'g, 'ts, 'ix) http_env \<Rightarrow> ('f, 'g, 'ts, 'ix) AppState \<Rightarrow> ('g, 'ts) planner_request
   \<Rightarrow> ('f, 'g, 'ts, 'ix) AppState \<times> (ApiError, unit) rresult option" where
  "planner_serve E st (AskPlan plan) = apsnd no_body (query_plan_handler E st plan)"
| "planner_serve E st (AskExplain plan) = apsnd no_body (query_explain_handler E st plan)"
| "planner_serve E st (AskAnalyze rx finished request) = apsnd no_body (query_explain_analyze_handler E rx finished st request)"
| "planner_serve E st AskConfig = apsnd no_body (get_planner_config_handler st)"
| "planner_serve E st (SetConfig config) = apsnd no_body (put_planner_config_handler st config)"
| "planner_serve E st AskStats = apsnd no_body (planner_stats_handler st)"

fun plan_of_request :: "('g, 'ts) planner_request \<Rightarrow> LogicalPlan option" where
  "plan_of_request (AskPlan plan) = Some plan"
| "plan_of_request (AskExplain plan) = Some plan"
| "plan_of_request (AskAnalyze rx finished request) = Some (ar_plan request)"
| "plan_of_request _ = None"

definition panics :: "('g, 'ts) planner_request \<Rightarrow> bool" where
  "panics r \<longleftrightarrow> (case plan_of_request r of Some plan \<Rightarrow> cuts_character plan | None \<Rightarrow> False)"

definition empty_plan :: "('g, 'ts) planner_request \<Rightarrow> bool" where
  "empty_plan r \<longleftrightarrow> (case plan_of_request r of Some plan \<Rightarrow> lp_nodes plan = [] | None \<Rightarrow> False)"

definition planner_run ::
  "('f, 'g, 'ts, 'ix) http_env \<Rightarrow> ('f, 'g, 'ts, 'ix) AppState \<Rightarrow> ('g, 'ts) planner_request list \<Rightarrow> ('f, 'g, 'ts, 'ix) AppState" where
  "planner_run E st rs = foldl (\<lambda>st r. fst (planner_serve E st r)) st rs"

lemma with_planner_poisoned: "app_planner_poisoned st \<Longrightarrow> with_planner st work = (st, Some (Inl poisoned_error))"
  by (simp add: with_planner_def)

lemma serve_poisoned: "app_planner_poisoned st \<Longrightarrow> planner_serve E st r = (st, Some (Inl poisoned_error))"
  by (cases r) (simp_all add: with_planner_poisoned query_plan_handler_def query_explain_handler_def query_explain_analyze_handler_def
    get_planner_config_handler_def put_planner_config_handler_def planner_stats_handler_def)

text \<open>The answer of a planner that is not poisoned: a panic, a refusal of the empty plan, or success.\<close>

definition planner_answer :: "('g, 'ts) planner_request \<Rightarrow> (ApiError, unit) rresult option" where
  "planner_answer r = (if panics r then None else if empty_plan r then Some (Inl (bad_plan EmptyPlan)) else Some (Inr ()))"

lemma with_planner_outcome:
  assumes "\<not> app_planner_poisoned st" and "with_planner st work = (st', a)"
  shows "a = map_option snd (work (app_planner st)) \<and> (app_planner_poisoned st' \<longleftrightarrow> a = None)"
  using assms by (auto simp: with_planner_def split: option.splits prod.splits)

lemma new_profiler_recorded:
  "record_steps F timings now (enumerate 0 (pp_steps plan)) (Profiler_new i plan) = Some \<lparr>pf_plan_id = i, pf_plan = plan,
     pf_recorded_steps = map (\<lambda>(i, step). Some (profile_step step (analyze_timing F timings i step) (ce_estimated_rows (ps_cost step)) now now))
       (enumerate 0 (pp_steps plan))\<rparr>"
  using record_steps_enumerate [of "Profiler_new i plan" "[]" "pp_steps plan" "[]" "replicate (length (pp_steps plan)) None" F timings now]
  by (simp add: Profiler_new_def)

lemma optimize_cases:
  obtains (cut) "cuts_character plan" "optimize F pl plan = None" "explain F ord pl plan = None"
  | (none) "\<not> cuts_character plan" "lp_nodes plan = []" "optimize F pl plan = Some (Inl EmptyPlan)" "explain F ord pl plan = Some (Inl EmptyPlan)"
  | (physical) p where "\<not> cuts_character plan" "lp_nodes plan \<noteq> []" "optimize F pl plan = Some (Inr p)"
      "explain F ord pl plan = Some (Inr (from_physical_plan F ord p))"
proof (cases "optimize F pl plan")
  case None
  then show thesis using optimize_None [of F pl plan] by (intro cut) (simp_all add: explain_def)
next
  case (Some r)
  then have n: "\<not> cuts_character plan" using optimize_None [of F pl plan] by simp
  show thesis
  proof (cases r)
    case (Inl e)
    with Some n show thesis using optimize_Inl [of F pl plan e] by (intro none) (simp_all add: explain_def)
  next
    case (Inr p)
    with Some n show thesis using optimize_Inl [of F pl plan EmptyPlan] by (intro physical [of p]) (simp_all add: explain_def)
  qed
qed

lemma serve_sound:
  assumes "\<not> app_planner_poisoned st" and "planner_serve E st r = (st', a)"
  shows "a = planner_answer r \<and> (app_planner_poisoned st' \<longleftrightarrow> panics r)"
proof (cases r)
  case (AskPlan plan)
  show ?thesis
    using assms by (cases rule: optimize_cases [of plan "hv_f64 E" "app_planner st" "hv_cost_order E"])
      (auto simp: AskPlan query_plan_handler_def with_planner_def planned_def planner_answer_def panics_def empty_plan_def)
next
  case (AskExplain plan)
  show ?thesis
    using assms by (cases rule: optimize_cases [of plan "hv_f64 E" "app_planner st" "hv_cost_order E"])
      (auto simp: AskExplain query_explain_handler_def with_planner_def planned_def planner_answer_def panics_def empty_plan_def)
next
  case (AskAnalyze rx finished request)
  show ?thesis
    using assms by (cases rule: optimize_cases [of "ar_plan request" "hv_f64 E" "app_planner st" "hv_cost_order E"])
      (auto simp: AskAnalyze query_explain_analyze_handler_def with_planner_def planner_answer_def panics_def empty_plan_def
        new_profiler_recorded Let_def split: prod.splits)
qed (use assms in \<open>auto simp: with_planner_def planner_answer_def panics_def empty_plan_def get_planner_config_handler_def
  put_planner_config_handler_def planner_stats_handler_def Let_def\<close>)

lemma run_poisoned: "app_planner_poisoned (planner_run E st rs) \<longleftrightarrow> app_planner_poisoned st \<or> (\<exists>r \<in> set rs. panics r)"
proof (induction rs arbitrary: st)
  case (Cons r rs)
  obtain st' a where s: "planner_serve E st r = (st', a)" by fastforce
  have "app_planner_poisoned st' \<longleftrightarrow> app_planner_poisoned st \<or> panics r"
    using serve_sound [OF _ s] serve_poisoned [of st E r] s by auto
  with Cons [of st'] s show ?case by (auto simp: planner_run_def)
qed (simp add: planner_run_def)


section \<open>EXPLAIN ANALYZE\<close>

text \<open>The step a profile reports for a step of the plan.\<close>

definition analyzed :: "('g, 'z) plan_env_scheme \<Rightarrow> 'g list option \<Rightarrow> 'ts \<Rightarrow> nat \<times> 'g PlanStep \<Rightarrow> ('g, 'ts) ProfileStep" where
  "analyzed F timings now = (\<lambda>(i, step). profile_step step (analyze_timing F timings i step) (ce_estimated_rows (ps_cost step)) now now)"

lemma map_recorded:
  "map (recorded_or_zero F now plan) (enumerate n (map (\<lambda>x. Some (f x)) xs)) = map f xs"
  by (induction xs arbitrary: n) (simp_all add: recorded_or_zero_def)

text \<open>EXPLAIN ANALYZE reports, for every step of the plan in execution order, the caller's timing or, where there is none, the estimate
  plus ten per cent, and it feeds exactly these measurements into the planner's statistics; nothing else of the server changes.
\<close>

theorem explain_analyze_exact:
  assumes "query_explain_analyze_handler E rx finished st request = (st', Some (Inr out))"
  shows "\<exists>physical. optimize (hv_f64 E) (app_planner st) (ar_plan request) = Some (Inr physical)
    \<and> qp_steps (ea_profile out) = map (analyzed (hv_f64 E) (ar_simulated_timings request) (rx_now rx)) (enumerate 0 (pp_steps physical))
    \<and> ea_explain out = from_physical_plan (hv_f64 E) (hv_cost_order E) physical
    \<and> st' = st\<lparr>app_planner := (app_planner st)\<lparr>pl_stats := foldl (\<lambda>stats s. record_execution (hv_f64 E) finished stats
           (pt_modality s) (pt_actual_ms s) (pt_actual_rows s)) (pl_stats (app_planner st)) (qp_steps (ea_profile out))\<rparr>\<rparr>"
proof (cases rule: optimize_cases [of "ar_plan request" "hv_f64 E" "app_planner st" "hv_cost_order E"])
  case (physical p)
  let ?m = "analyzed (hv_f64 E) (ar_simulated_timings request) (rx_now rx)"
  have split: "(\<lambda>(i, step). Some (profile_step step (analyze_timing (hv_f64 E) (ar_simulated_timings request) i step)
      (ce_estimated_rows (ps_cost step)) (rx_now rx) (rx_now rx))) = (\<lambda>x. Some (?m x))"
    by (auto simp: analyzed_def)
  from assms physical(3,4) show ?thesis
    by (intro exI [of _ p]) (auto simp: query_explain_analyze_handler_def with_planner_def new_profiler_recorded finish_def with_profile_def
      split map_recorded Let_def split: if_splits)
qed (use assms in \<open>auto simp: query_explain_analyze_handler_def with_planner_def split: if_splits\<close>)

section \<open>Executing prepared statements\<close>

definition bindings_fit :: "'g PreparedStatement \<Rightarrow> (string \<times> ('g, 'h) ParamValue) list \<Rightarrow> bool" where
  "bindings_fit stmt params \<longleftrightarrow> st_parameter_names stmt = [] \<or> sort (st_parameter_names stmt) = sort (map fst params)"

definition executable_at :: "('f, 'g, 'ts, 'ix) http_env \<Rightarrow> 'ts request_inputs \<Rightarrow> 'g PlanCache \<Rightarrow> 'g PreparedStatement \<Rightarrow> bool" where
  "executable_at E rx c stmt \<longleftrightarrow> Plan_Cache.is_expired (hv_cache E) (rx_cache_now rx) c stmt = Some False"

lemma execute_cached:
  assumes "map_of (ca_statements (app_plan_cache st)) (PreparedId i) = Some stmt" and "executable_at E rx (app_plan_cache st) stmt"
    and "bindings_fit stmt params" and "st_cached_physical_plan stmt = Some physical"
  shows "snd (prepared_execute_handler E rx st i params) = Some (Inr physical)"
  using assms by (auto simp: prepared_execute_handler_def execute_prepared_def executable_at_def bindings_fit_def Let_def)

lemma execute_uncached:
  assumes "map_of (ca_statements (app_plan_cache st)) (PreparedId i) = Some stmt" and "executable_at E rx (app_plan_cache st) stmt"
    and "bindings_fit stmt params" and "st_cached_physical_plan stmt = None" and "\<not> app_planner_poisoned st"
    and "optimize (hv_f64 E) (app_planner st) (st_logical_plan stmt) = Some (Inr physical)"
  shows "\<exists>c stmt'. prepared_execute_handler E rx st i params = (st\<lparr>app_plan_cache := c\<rparr>, Some (Inr physical))
    \<and> map_of (ca_statements c) (PreparedId i) = Some stmt' \<and> st_cached_physical_plan stmt' = Some physical
    \<and> st_parameter_names stmt' = st_parameter_names stmt \<and> st_created_at stmt' = st_created_at stmt
    \<and> ca_config c = ca_config (app_plan_cache st)"
  using assms
  by (auto simp: prepared_execute_handler_def execute_prepared_def executable_at_def bindings_fit_def Let_def with_planner_def planned_def
    cache_plan_def update_conv')


section \<open>Transactions over HTTP\<close>

text \<open>A commit hands the buffered operations to nobody: the handler leaves every store as it is.\<close>

lemma commit_applies_nothing:
  "\<exists>m. fst (transaction_commit_handler E rx st i) = st\<lparr>app_transaction_manager := m\<rparr>"
  by (simp add: transaction_commit_handler_def split: prod.splits sum.splits) metis

section \<open>Examples\<close>

text \<open>A plan of one text search, and one whose text has a two-byte character at bytes 19 and 20.\<close>

definition demo_text_plan :: "string \<Rightarrow> LogicalPlan" where
  "demo_text_plan q = \<lparr>lp_source = HexadSource, lp_nodes = [\<lparr>pn_modality = Document, pn_conditions = [Fulltext q], pn_projections = [],
     pn_early_limit = None\<rparr>], lp_post_processing = []\<rparr>"

definition demo_cut_plan :: LogicalPlan where
  "demo_cut_plan = demo_text_plan (replicate 19 (CHR ''a'') @ [CHR 0xC3, CHR 0xA9])"

lemma demo_plans: "cuts_character demo_cut_plan" "\<not> cuts_character (demo_text_plan ''q'')" "lp_nodes (demo_text_plan ''q'') \<noteq> []"
  by (simp_all add: cuts_character_def demo_cut_plan_def demo_text_plan_def splits_character_def) code_simp


lemma demo_analyze:
  "\<exists>st' out. query_explain_analyze_handler demo_http_env demo_inputs 9 demo_app \<lparr>ar_plan = demo_text_plan ''q'', ar_simulated_timings = Some [3]\<rparr>
     = (st', Some (Inr out))"
proof -
  let ?r = "\<lparr>ar_plan = demo_text_plan ''q'', ar_simulated_timings = Some [3]\<rparr> :: rat ExplainAnalyzeRequest"
  obtain st' a where s: "planner_serve demo_http_env demo_app (AskAnalyze demo_inputs 9 ?r) = (st', a)" by fastforce
  have "a = Some (Inr ())"
    using serve_sound [OF demo_app_fields(2) s] by (simp add: planner_answer_def panics_def empty_plan_def demo_plans)
  moreover obtain b where b: "query_explain_analyze_handler demo_http_env demo_inputs 9 demo_app ?r = (st', b)" "a = no_body b"
    using s by (cases "query_explain_analyze_handler demo_http_env demo_inputs 9 demo_app ?r") simp
  ultimately obtain z where "b = Some z" "map_sum id (\<lambda>_. ()) z = (Inr () :: (ApiError, unit) rresult)" by auto
  with b show ?thesis by (cases z) auto
qed

theorem explain_analyze_exact_witness:
  "\<exists>st' out. query_explain_analyze_handler demo_http_env demo_inputs 9 demo_app \<lparr>ar_plan = demo_text_plan ''q'', ar_simulated_timings = Some [3]\<rparr>
     = (st', Some (Inr out)) \<and> app_planner_poisoned st' = app_planner_poisoned demo_app"
proof -
  from demo_analyze obtain st' out where o: "query_explain_analyze_handler demo_http_env demo_inputs 9 demo_app
      \<lparr>ar_plan = demo_text_plan ''q'', ar_simulated_timings = Some [3]\<rparr> = (st', Some (Inr out))" by (elim exE)
  from explain_analyze_exact [OF o] have "app_planner_poisoned st' = app_planner_poisoned demo_app" by auto
  with o show ?thesis by blast
qed

definition demo_prepared :: "(rat, rat, i64, unit) AppState" where
  "demo_prepared = demo_app\<lparr>app_plan_cache := fst (prepare demo_cache_env id 0 (PlanCache_new CacheConfig_default) ''FROM t'' (demo_text_plan ''q''))\<rparr>"

lemma demo_prepared_statement:
  "\<exists>i stmt. map_of (ca_statements (app_plan_cache demo_prepared)) (PreparedId i) = Some stmt
    \<and> executable_at demo_http_env demo_inputs (app_plan_cache demo_prepared) stmt \<and> st_parameter_names stmt = []
    \<and> st_cached_physical_plan stmt = None \<and> st_logical_plan stmt = demo_text_plan ''q''"
proof -
  have names: "extract_parameters demo_cache_env ''FROM t'' = []" by code_simp
  have ttl: "ttl_duration demo_cache_env (PlanCache_new CacheConfig_default) = Some 3600000000000"
    by (simp add: ttl_duration_def PlanCache_new_def CacheConfig_default_def demo_cache_env_def plan_env.defs cache_env.defs)
  show ?thesis
    by (rule exI [of _ "fingerprint demo_cache_env ''FROM t''"])
      (use ttl in \<open>simp add: demo_prepared_def prepare_def Let_def names executable_at_def Plan_Cache.is_expired_def ttl_duration_def demo_http_env_def
        demo_inputs_def PlanCache_new_def CacheConfig_default_def bump_defs\<close>)
qed


end
