(* ===== verification/Vql_Exec.thy ===== *)
theory Vql_Exec
  imports Api_Handlers
begin

text \<open>
  The endpoint that takes queries as text (\<open>verisim-api/src/vql.rs\<close>): a tokeniser, the scanners for clauses, and one function per
  statement that runs it against the stores.  Text is UTF-8; the tokeniser and the scanners only look for ASCII characters, so they
  read bytes.  Case conversion is the \<open>plan_env\<close>'s, and \<open>parse_f32\<close> is the parser of floats.  \<open>None\<close> in place of an answer is a
  panic: a slice out of range or inside a character.
\<close>

section \<open>Tokens\<close>

definition apostrophe :: char where
  "apostrophe = CHR 0x27"

definition quotation :: char where
  "quotation = CHR 0x22"

definition blank :: "char \<Rightarrow> bool" where
  "blank c \<longleftrightarrow> c = CHR '' '' \<or> c = CHR 0x09 \<or> c = CHR 0x0A"

fun tokenize_loop :: "bool \<Rightarrow> bool \<Rightarrow> string \<Rightarrow> string \<Rightarrow> string list" where
  "tokenize_loop single double current [] = (if current = [] then [] else [current])"
| "tokenize_loop single double current (c # cs) =
    (if c = apostrophe \<and> \<not> double then tokenize_loop (\<not> single) double (current @ [c]) cs
     else if c = quotation \<and> \<not> single then tokenize_loop single (\<not> double) (current @ [c]) cs
     else if blank c \<and> \<not> single \<and> \<not> double
     then (if current = [] then tokenize_loop single double [] cs else current # tokenize_loop single double [] cs)
     else tokenize_loop single double (current @ [c]) cs)"

definition tokenize :: "string \<Rightarrow> string list" where
  "tokenize input = tokenize_loop False False [] input"

definition unquote :: "string \<Rightarrow> string option" where
  "unquote s =
    (if prefix [apostrophe] s \<and> suffix [apostrophe] s \<or> prefix [quotation] s \<and> suffix [quotation] s
     then (if length s < 2 then None else Some (butlast (tl s)))
     else Some s)"

fun limit_clause :: "(string \<Rightarrow> string) \<Rightarrow> nat \<Rightarrow> string list \<Rightarrow> (nat \<times> nat) option" where
  "limit_clause up i [] = None"
| "limit_clause up i (t # ts) =
    (case (if up t = ''LIMIT'' then (case ts of n # _ \<Rightarrow> parse_u64 n | [] \<Rightarrow> None) else None) of
       Some n \<Rightarrow> Some (min (unat n) 1000, i)
     | None \<Rightarrow> limit_clause up (i + 1) ts)"

definition parse_limit :: "(string \<Rightarrow> string) \<Rightarrow> string list \<Rightarrow> nat \<times> nat" where
  "parse_limit up tokens = (case limit_clause up 0 tokens of Some r \<Rightarrow> r | None \<Rightarrow> (100, length tokens))"

fun find_where_id :: "(string \<Rightarrow> string) \<Rightarrow> (string \<Rightarrow> string) \<Rightarrow> string list \<Rightarrow> string option option" where
  "find_where_id up low [] = Some None"
| "find_where_id up low (t # ts) =
    (case ts of
       column # equals # val # _ \<Rightarrow>
         if up t = ''WHERE'' \<and> low column = ''id'' \<and> equals = ''='' then map_option Some (unquote val) else find_where_id up low ts
     | _ \<Rightarrow> find_where_id up low ts)"

section \<open>Text\<close>

definition trim_start_char :: "char \<Rightarrow> string \<Rightarrow> string" where
  "trim_start_char c s = dropWhile ((=) c) s"

definition trim_end_char :: "char \<Rightarrow> string \<Rightarrow> string" where
  "trim_end_char c s = rev (dropWhile ((=) c) (rev s))"

definition replace_char :: "char \<Rightarrow> char \<Rightarrow> string \<Rightarrow> string" where
  "replace_char a b s = map (\<lambda>c. if c = a then b else c) s"

fun str_find :: "string \<Rightarrow> string \<Rightarrow> nat option" where
  "str_find t [] = (if t = [] then Some 0 else None)"
| "str_find t (c # cs) = (if prefix t (c # cs) then Some 0 else map_option Suc (str_find t cs))"

text \<open>\<open>&s[n..]\<close>.\<close>

definition str_suffix :: "string \<Rightarrow> nat \<Rightarrow> string option" where
  "str_suffix s n =
    (if n = length s \<or> n < length s \<and> \<not> continuation_byte (byte_of_char (s ! n)) then Some (drop n s) else None)"

section \<open>Results\<close>

text \<open>The rows and objects the statements answer, before they become JSON.\<close>

record 'g VqlTextHit =
  vt_id :: string
  vt_score :: 'g
  vt_title :: "string option"
  vt_has_graph :: bool
  vt_has_vector :: bool
  vt_has_document :: bool

datatype ('g, 'ts) VqlData =
    VqlHexads "HexadResponse list"
  | VqlTextHits "'g VqlTextHit list"
  | VqlHits "'g SearchResultResponse list"
  | VqlNull
  | VqlStatus HealthResponse
  | VqlDrift "'g DriftStatusResponse list"
  | VqlNormalizer "'ts NormalizerStatus"
  | VqlCount nat
  | VqlExplain string "nat json"

record ('g, 'ts) VqlExecuteResponse =
  vx_success :: bool
  vx_statement_type :: string
  vx_row_count :: nat
  vx_data :: "('g, 'ts) VqlData"
  vx_message :: "string option"

type_synonym ('g, 'ts) vql_answer = "(ApiError, ('g, 'ts) VqlExecuteResponse) rresult option"

abbreviation upper :: "('f, 'g, 'ts, 'ix) http_env \<Rightarrow> string \<Rightarrow> string" where
  "upper E \<equiv> pf_to_uppercase (hv_f64 E)"

definition quoted :: "string \<Rightarrow> string" where
  "quoted s = [apostrophe] @ s @ [apostrophe]"

definition not_found :: "string \<Rightarrow> ApiError" where
  "not_found i = ApiNotFound (''Hexad '' @ quoted i @ '' not found'')"

definition hexad_rows :: "('f, 'g, 'ts, 'ix) http_env \<Rightarrow> string \<Rightarrow> ('f, 'g, 'ts) Hexad list \<Rightarrow> ('g, 'ts) VqlExecuteResponse" where
  "hexad_rows E statement hexads =
    \<lparr>vx_success = True, vx_statement_type = statement, vx_row_count = length hexads, vx_data = VqlHexads (map (response_of E) hexads),
     vx_message = None\<rparr>"

section \<open>SELECT and SEARCH\<close>

definition execute_select :: "('f, 'g, 'ts, 'ix) http_env \<Rightarrow> ('f, 'g, 'ts, 'ix) AppState \<Rightarrow> string list \<Rightarrow> ('g, 'ts) vql_answer" where
  "execute_select E st tokens =
    (let limit = fst (parse_limit (upper E) tokens)
     in map_option (\<lambda>where_id.
          case where_id of
            Some i \<Rightarrow>
              rbind (internal (hexad_get (app_hexad_store st) i)) (\<lambda>h.
                case h of
                  None \<Rightarrow> Inl (not_found i)
                | Some hexad \<Rightarrow> Inr (hexad_rows E ''SELECT'' [hexad]))
          | None \<Rightarrow> rbind (internal (hexad_list (app_hexad_store st) limit 0)) (\<lambda>hexads. Inr (hexad_rows E ''SELECT'' hexads)))
        (find_where_id (upper E) (hv_to_lowercase E) tokens))"

definition rank_score :: "('f, 'g, 'ts, 'ix) http_env \<Rightarrow> nat \<Rightarrow> 'g" where
  "rank_score E i = fo_sub (hv_f64 E) (pf_dec (hv_f64 E) 10 1) (fo_mul (hv_f64 E) (pf_of_nat (hv_f64 E) i) (pf_dec (hv_f64 E) 1 1))"

definition search_text_statement ::
  "('f, 'g, 'ts, 'ix) http_env \<Rightarrow> ('f, 'g, 'ts, 'ix) AppState \<Rightarrow> string list \<Rightarrow> string \<Rightarrow> ('g, 'ts) vql_answer" where
  "search_text_statement E st tokens arg =
    map_option (\<lambda>query_text.
      let limit = fst (parse_limit (upper E) tokens)
      in rbind (internal (search_text (hv_hexad E) (app_hexad_store st) query_text limit)) (\<lambda>hexads.
        let results = map (\<lambda>(i, h). \<lparr>vt_id = hd_id h, vt_score = rank_score E i, vt_title = map_option dc_title (hd_document h),
              vt_has_graph = (hd_graph_node h \<noteq> None), vt_has_vector = (hd_embedding h \<noteq> None), vt_has_document = (hd_document h \<noteq> None)\<rparr>)
              (enumerate 0 hexads)
        in Inr \<lparr>vx_success = True, vx_statement_type = ''SEARCH TEXT'', vx_row_count = length results, vx_data = VqlTextHits results,
             vx_message = None\<rparr>)) (unquote arg)"

text \<open>\<open>collect\<close> into a result stops at the first error.\<close>

fun parse_all :: "(string \<Rightarrow> (string, 'f) rresult) \<Rightarrow> string list \<Rightarrow> (string, 'f list) rresult" where
  "parse_all parse_f32 [] = Inr []"
| "parse_all parse_f32 (s # ss) = rbind (parse_f32 s) (\<lambda>x. rbind (parse_all parse_f32 ss) (\<lambda>xs. Inr (x # xs)))"

definition parse_vector :: "(string \<Rightarrow> (string, 'f) rresult) \<Rightarrow> string \<Rightarrow> (ApiError, 'f list) rresult" where
  "parse_vector parse_f32 s =
    (let cleaned = replace_char (CHR '','') (CHR '' '') (trim_end_char (CHR '']'') (trim_start_char (CHR ''['') (trim s)))
     in map_sum (\<lambda>e. ApiBadRequest (''Invalid vector: '' @ e)) id
          (parse_all parse_f32 (filter (\<lambda>s. s \<noteq> []) (split_whitespace cleaned))))"

definition search_vector_statement ::
  "('f, 'g, 'ts, 'ix) http_env \<Rightarrow> (string \<Rightarrow> (string, 'f) rresult) \<Rightarrow> ('f, 'g, 'ts, 'ix) AppState \<Rightarrow> string list
   \<Rightarrow> (ApiError, ('g, 'ts) VqlExecuteResponse) rresult" where
  "search_vector_statement E parse_f32 st tokens =
    (case parse_limit (upper E) tokens of
       (limit, limit_idx) \<Rightarrow>
         rbind (parse_vector parse_f32 (join_with '' '' (subslice tokens 2 limit_idx))) (\<lambda>vector.
         rbind (check_dimension st vector) (\<lambda>_.
         rbind (internal (search_similar (hv_hexad E) (app_hexad_store st) vector limit)) (\<lambda>hexads.
           let results = map (\<lambda>(i, h). \<lparr>sx_id = hd_id h, sx_score = rank_score E i, sx_title = map_option dc_title (hd_document h)\<rparr>)
                 (enumerate 0 hexads)
           in Inr \<lparr>vx_success = True, vx_statement_type = ''SEARCH VECTOR'', vx_row_count = length results, vx_data = VqlHits results,
                vx_message = None\<rparr>))))"

fun by_clause :: "(string \<Rightarrow> string) \<Rightarrow> string list \<Rightarrow> string option" where
  "by_clause up [] = None"
| "by_clause up (t # ts) = (if up t = ''BY'' then (case ts of p # _ \<Rightarrow> Some p | [] \<Rightarrow> None) else by_clause up ts)"

definition search_related_statement ::
  "('f, 'g, 'ts, 'ix) http_env \<Rightarrow> ('f, 'g, 'ts, 'ix) AppState \<Rightarrow> string list \<Rightarrow> string \<Rightarrow> ('g, 'ts) vql_answer" where
  "search_related_statement E st tokens arg =
    Option.bind (unquote arg) (\<lambda>i.
    map_option (\<lambda>predicate.
        rbind (internal (query_related (hv_hexad E) (app_hexad_store st) i predicate)) (\<lambda>hexads. Inr (hexad_rows E ''SEARCH RELATED'' hexads)))
      (case by_clause (upper E) tokens of Some p \<Rightarrow> unquote p | None \<Rightarrow> Some ''related''))"

definition execute_search ::
  "('f, 'g, 'ts, 'ix) http_env \<Rightarrow> (string \<Rightarrow> (string, 'f) rresult) \<Rightarrow> ('f, 'g, 'ts, 'ix) AppState \<Rightarrow> string list \<Rightarrow> ('g, 'ts) vql_answer" where
  "execute_search E parse_f32 st tokens =
    (case tokens of
       _ # kind # arg # _ \<Rightarrow>
         (let k = upper E kind
          in if k = ''TEXT'' then search_text_statement E st tokens arg
             else if k = ''VECTOR'' then Some (search_vector_statement E parse_f32 st tokens)
             else if k = ''RELATED'' then search_related_statement E st tokens arg
             else Some (Inl (ApiBadRequest (''Unknown SEARCH type: '' @ quoted k @ ''. Use TEXT, VECTOR, or RELATED.''))))
     | _ \<Rightarrow> Some (Inl (ApiBadRequest (''SEARCH requires at least: SEARCH TEXT '' @ quoted ''<query>'' @ '' or SEARCH VECTOR [...]''))))"

section \<open>INSERT and DELETE\<close>

definition insert_usage :: string where
  "insert_usage = ''INSERT requires: INSERT INTO hexads (title, body) VALUES ('' @ quoted ''<title>'' @ '', '' @ quoted ''<body>'' @ '')''"

definition nth_value :: "string list \<Rightarrow> nat \<Rightarrow> string option" where
  "nth_value tokens i = (if i < length tokens then unquote (tokens ! i) else Some [])"

definition parse_insert_values :: "(string \<Rightarrow> string) \<Rightarrow> string \<Rightarrow> (ApiError, string \<times> string) rresult option" where
  "parse_insert_values up raw =
    (case str_find ''VALUES'' (up raw) of
       None \<Rightarrow> Some (Inl (ApiBadRequest ''INSERT INTO requires a VALUES clause''))
     | Some values_idx \<Rightarrow>
         Option.bind (str_suffix raw (values_idx + 6)) (\<lambda>part.
           let values_part = trim_end_char (CHR '')'') (trim_start_char (CHR ''('') (trim part));
               value_tokens = tokenize (replace_char (CHR '','') (CHR '' '') values_part)
           in Option.bind (nth_value value_tokens 0) (\<lambda>title.
              map_option (\<lambda>body. Inr (title, body)) (nth_value value_tokens 1))))"

definition insert_fields :: "(string \<Rightarrow> string) \<Rightarrow> string \<Rightarrow> (ApiError, string \<times> string) rresult option" where
  "insert_fields up raw =
    (if prefix ''INSERT INTO'' (up raw) then parse_insert_values up raw
     else (case tokenize raw of
             _ # title # body # _ \<Rightarrow> Option.bind (unquote title) (\<lambda>t. map_option (\<lambda>b. Inr (t, b)) (unquote body))
           | _ \<Rightarrow> Some (Inl (ApiBadRequest insert_usage))))"

definition execute_insert ::
  "('f, 'g, 'ts, 'ix) http_env \<Rightarrow> 'ts request_inputs \<Rightarrow> ('f, 'g, 'ts, 'ix) AppState \<Rightarrow> string
   \<Rightarrow> ('f, 'g, 'ts, 'ix) AppState \<times> ('g, 'ts) vql_answer" where
  "execute_insert E rx st raw =
    (case insert_fields (upper E) raw of
       None \<Rightarrow> (st, None)
     | Some (Inl e) \<Rightarrow> (st, Some (Inl e))
     | Some (Inr (title, body)) \<Rightarrow>
         (let input = HexadInput_default\<lparr>hi_document := Some \<lparr>di_title = title, di_body = body, di_fields = Map.empty\<rparr>\<rparr>
          in case hexad_create (hv_hexad E) (rx_clock rx) (rx_hexad_id rx) (rx_txn rx) (app_hexad_store st) input of
               (store, r) \<Rightarrow>
                 (st\<lparr>app_hexad_store := store\<rparr>, Some (rbind (internal r) (\<lambda>hexad.
                    Inr ((hexad_rows E ''INSERT'' [hexad])\<lparr>vx_message := Some (''Inserted hexad '' @ quoted (hd_id hexad))\<rparr>))))))"

definition execute_delete ::
  "('f, 'g, 'ts, 'ix) http_env \<Rightarrow> 'ts request_inputs \<Rightarrow> ('f, 'g, 'ts, 'ix) AppState \<Rightarrow> string list
   \<Rightarrow> ('f, 'g, 'ts, 'ix) AppState \<times> ('g, 'ts) vql_answer" where
  "execute_delete E rx st tokens =
    (case find_where_id (upper E) (hv_to_lowercase E) tokens of
       None \<Rightarrow> (st, None)
     | Some None \<Rightarrow> (st, Some (Inl (ApiBadRequest (''DELETE requires: DELETE FROM hexads WHERE id = '' @ quoted ''<id>''))))
     | Some (Some i) \<Rightarrow>
         (case hexad_delete (hv_hexad E) (rx_clock rx) (rx_txn rx) (app_hexad_store st) i of
            (store, r) \<Rightarrow>
              (st\<lparr>app_hexad_store := store\<rparr>,
               Some (case r of
                  Inl e \<Rightarrow> Inl (case e of HexadNotFound _ \<Rightarrow> not_found i | _ \<Rightarrow> ApiInternal (HexadError_display e))
                | Inr _ \<Rightarrow> Inr \<lparr>vx_success = True, vx_statement_type = ''DELETE'', vx_row_count = 1, vx_data = VqlNull,
                    vx_message = Some (''Deleted hexad '' @ quoted i)\<rparr>))))"

section \<open>SHOW, COUNT and EXPLAIN\<close>

text \<open>As in \<open>health_handler\<close>, the health check of the drift detector does not fail.\<close>

definition show_status :: "('f, 'g, 'ts, 'ix) http_env \<Rightarrow> 'ts request_inputs \<Rightarrow> u64 \<Rightarrow> ('f, 'g, 'ts, 'ix) AppState \<Rightarrow> HealthResponse" where
  "show_status E rx uptime st =
    (let h = health_check (hv_f64 E) (hv_drift_order E) (rx_now rx) (app_drift_detector st);
         bad = (dh_status h = HealthCritical \<or> dh_status h = Degraded)
     in \<lparr>ht_status = (if bad then ''degraded'' else ''healthy''), ht_version = hv_version E, ht_uptime_seconds = uptime,
         ht_degraded_reason = (if bad then Some (DriftType_debug (dh_worst_drift_type h) @ '': '' @ pf_fmt (hv_f64 E) 3 (dh_worst_score h)) else None)\<rparr>)"

definition execute_show ::
  "('f, 'g, 'ts, 'ix) http_env \<Rightarrow> 'ts request_inputs \<Rightarrow> u64 \<Rightarrow> ('f, 'g, 'ts, 'ix) AppState \<Rightarrow> string list
   \<Rightarrow> (ApiError, ('g, 'ts) VqlExecuteResponse) rresult" where
  "execute_show E rx uptime st tokens =
    (case tokens of
       _ # target # _ \<Rightarrow>
         (let k = upper E target;
              answer = (\<lambda>statement n data. Inr \<lparr>vx_success = True, vx_statement_type = statement, vx_row_count = n, vx_data = data, vx_message = None\<rparr>)
          in if k = ''STATUS'' \<or> k = ''HEALTH'' then answer ''SHOW STATUS'' 1 (VqlStatus (show_status E rx uptime st))
             else if k = ''DRIFT'' then (let results = drift_status_handler E st in answer ''SHOW DRIFT'' (length results) (VqlDrift results))
             else if k = ''NORMALIZER'' then answer ''SHOW NORMALIZER'' 1 (VqlNormalizer (nz_status (app_normalizer st)))
             else if k = ''HEXADS''
             then rbind (internal (hexad_list (app_hexad_store st) (fst (parse_limit (upper E) tokens)) 0))
                    (\<lambda>hexads. Inr (hexad_rows E ''SHOW HEXADS'' hexads))
             else Inl (ApiBadRequest (''Unknown SHOW target: '' @ quoted k @ ''. Use STATUS, DRIFT, NORMALIZER, or HEXADS.'')))
     | _ \<Rightarrow> Inl (ApiBadRequest ''SHOW requires: SHOW STATUS | SHOW DRIFT | SHOW NORMALIZER | SHOW HEXADS''))"

definition execute_count :: "('f, 'g, 'ts, 'ix) AppState \<Rightarrow> (ApiError, ('g, 'ts) VqlExecuteResponse) rresult" where
  "execute_count st =
    rbind (internal (hexad_list (app_hexad_store st) 1000 0)) (\<lambda>hexads.
      Inr \<lparr>vx_success = True, vx_statement_type = ''COUNT'', vx_row_count = 1, vx_data = VqlCount (length hexads), vx_message = None\<rparr>)"

definition explain_plan :: "(string \<Rightarrow> string) \<Rightarrow> string list \<Rightarrow> string option \<Rightarrow> nat json" where
  "explain_plan up tokens where_id =
    (let statement = up (hd tokens);
         limit = fst (parse_limit up tokens);
         search = (case tokens of _ # t # _ \<Rightarrow> up t | _ \<Rightarrow> [])
     in if statement = ''SELECT'' then
          (if where_id \<noteq> None then
             JObject [(''operation'', JString ''Point Lookup''), (''target'', JString ''hexad_store''), (''method'', JString ''get_by_id''),
               (''cost'', JString ''O(1)''), (''estimated_rows'', JNumber 1)]
           else
             JObject [(''operation'', JString ''Sequential Scan''), (''target'', JString ''hexad_store''), (''method'', JString ''list''),
               (''limit'', JNumber limit), (''cost'', JString ''O(n)''), (''estimated_rows'', JNumber limit)])
        else if statement = ''SEARCH'' then
          (if search = ''TEXT'' then
             JObject [(''operation'', JString ''Full-Text Search''), (''target'', JString ''tantivy_document_store''), (''method'', JString ''search_text''),
               (''limit'', JNumber limit), (''cost'', JString ''O(log n)''), (''index'', JString ''tantivy_inverted_index'')]
           else if search = ''VECTOR'' then
             JObject [(''operation'', JString ''Approximate Nearest Neighbor''), (''target'', JString ''hnsw_vector_store''),
               (''method'', JString ''search_similar''), (''limit'', JNumber limit), (''cost'', JString ''O(log n)''), (''index'', JString ''hnsw_graph'')]
           else if search = ''RELATED'' then
             JObject [(''operation'', JString ''Graph Traversal''), (''target'', JString ''oxigraph_store''), (''method'', JString ''query_related''),
               (''cost'', JString ''O(degree)''), (''index'', JString ''rdf_triple_index'')]
           else JObject [(''operation'', JString ''Unknown search type'')])
        else if statement = ''INSERT'' then
          JObject [(''operation'', JString ''Multi-Modal Insert''),
            (''targets'', JArray (map JString [''document_store'', ''graph_store'', ''vector_store'', ''semantic_store'', ''temporal_store''])),
            (''method'', JString ''create''), (''cost'', JString ''O(1) per modality'')]
        else if statement = ''DELETE'' then
          JObject [(''operation'', JString ''Multi-Modal Delete''), (''targets'', JArray [JString ''all_modality_stores'']),
            (''method'', JString ''delete''), (''cost'', JString ''O(1)'')]
        else JObject [(''operation'', JString (''Unrecognized: '' @ statement))])"

definition execute_explain :: "('f, 'g, 'ts, 'ix) http_env \<Rightarrow> string list \<Rightarrow> string \<Rightarrow> ('g, 'ts) vql_answer" where
  "execute_explain E tokens raw =
    (if length tokens < 2 then Some (Inl (ApiBadRequest ''EXPLAIN requires a query to explain''))
     else
       Option.bind (str_find ''EXPLAIN'' (upper E raw)) (\<lambda>i.
       Option.bind (str_suffix raw (i + 7)) (\<lambda>rest.
         let inner_query = trim rest;
             inner_tokens = tokenize inner_query
         in if inner_tokens = [] then Some (Inl (ApiBadRequest ''EXPLAIN requires a query''))
            else map_option (\<lambda>where_id.
                Inr \<lparr>vx_success = True, vx_statement_type = ''EXPLAIN'', vx_row_count = 1,
                     vx_data = VqlExplain inner_query (explain_plan (upper E) inner_tokens where_id), vx_message = None\<rparr>)
              (find_where_id (upper E) (hv_to_lowercase E) inner_tokens))))"

section \<open>The endpoint\<close>

definition vql_execute_handler ::
  "('f, 'g, 'ts, 'ix) http_env \<Rightarrow> (string \<Rightarrow> (string, 'f) rresult) \<Rightarrow> 'ts request_inputs \<Rightarrow> u64 \<Rightarrow> ('f, 'g, 'ts, 'ix) AppState \<Rightarrow> string
   \<Rightarrow> ('f, 'g, 'ts, 'ix) AppState \<times> ('g, 'ts) vql_answer" where
  "vql_execute_handler E parse_f32 rx uptime st request =
    (let trimmed = trim request
     in if trimmed = [] then (st, Some (Inl (ApiBadRequest ''Empty query'')))
        else
          (let query = trim (trim_end_char (CHR '';'') trimmed);
               tokens = tokenize query
           in if tokens = [] then (st, Some (Inl (ApiBadRequest ''Empty query after parsing'')))
              else
                (let s = upper E (hd tokens)
                 in if s = ''SELECT'' then (st, execute_select E st tokens)
                    else if s = ''SEARCH'' then (st, execute_search E parse_f32 st tokens)
                    else if s = ''INSERT'' then execute_insert E rx st query
                    else if s = ''DELETE'' then execute_delete E rx st tokens
                    else if s = ''SHOW'' then (st, Some (execute_show E rx uptime st tokens))
                    else if s = ''COUNT'' then (st, Some (execute_count st))
                    else if s = ''EXPLAIN'' then (st, execute_explain E tokens query)
                    else (st, Some (Inl (ApiBadRequest (''Unknown VQL statement: '' @ quoted s
                           @ ''. Supported: SELECT, SEARCH, INSERT, DELETE, SHOW, COUNT, EXPLAIN'')))))))"

section \<open>Tokens and statements\<close>

text \<open>Reading a token: \<open>None\<close> at a blank outside quotes, else whether a quote is open at the end.\<close>

fun scan :: "bool \<Rightarrow> bool \<Rightarrow> string \<Rightarrow> (bool \<times> bool) option" where
  "scan single double [] = Some (single, double)"
| "scan single double (c # cs) =
    (if c = apostrophe \<and> \<not> double then scan (\<not> single) double cs
     else if c = quotation \<and> \<not> single then scan single (\<not> double) cs
     else if blank c \<and> \<not> single \<and> \<not> double then None
     else scan single double cs)"

definition token_ok :: "string \<Rightarrow> bool" where
  "token_ok t \<longleftrightarrow> t \<noteq> [] \<and> scan False False t = Some (False, False)"

lemma tokenize_scan:
  "scan single double t = Some (s, d) \<Longrightarrow> tokenize_loop single double current (t @ cs) = tokenize_loop s d (current @ t) cs"
  by (induction t arbitrary: single double current) (auto split: if_splits)

lemma tokenize_join: "\<forall>t \<in> set ts. token_ok t \<Longrightarrow> tokenize (join_with '' '' ts) = ts"
proof (induction "'' '' :: string" ts rule: join_with.induct)
  case (2 x)
  then show ?case using tokenize_scan [of False False x False False "[]" "[]"] by (simp add: tokenize_def token_ok_def)
next
  case (3 x y xs)
  then have "tokenize (x @ '' '' @ join_with '' '' (y # xs)) = x # tokenize (join_with '' '' (y # xs))"
    using tokenize_scan [of False False x False False "[]" "'' '' @ join_with '' '' (y # xs)"]
    by (simp add: tokenize_def token_ok_def blank_def apostrophe_def quotation_def)
  with 3 show ?case by simp
qed (simp add: tokenize_def)

lemma scan_inside: "apostrophe \<notin> set s \<Longrightarrow> scan True False (s @ cs) = scan True False cs"
  by (induction s) auto

lemma token_ok_quoted: "apostrophe \<notin> set s \<Longrightarrow> token_ok (quoted s)"
  by (simp add: token_ok_def quoted_def scan_inside)

lemma unquote_quoted [simp]: "unquote (quoted s) = Some s"
proof -
  have "suffix [apostrophe] (quoted s)" by (rule suffixI [of _ "apostrophe # s"]) (simp add: quoted_def)
  then show ?thesis by (simp add: unquote_def quoted_def)
qed

lemma trim_ascii:
  assumes "ascii_string s" and "s \<noteq> []" and "\<not> is_whitespace [hd s]" and "\<not> is_whitespace [last s]"
  shows "trim s = s"
proof -
  obtain c cs where c: "s = c # cs" using assms(2) by (cases s) auto
  obtain l ls where l: "rev s = l # ls" using assms(2) by (cases "rev s") auto
  have first: "dropWhile is_whitespace (map (\<lambda>c. [c]) s) = map (\<lambda>c. [c]) s" using assms(3) by (simp add: c)
  have "l = last s" using l by (metis hd_rev list.sel(1))
  then have "dropWhile is_whitespace (rev (map (\<lambda>c. [c]) s)) = rev (map (\<lambda>c. [c]) s)" using assms(4) by (simp add: rev_map l)
  moreover have "concat (map (\<lambda>c. [c]) s) = s" by (induction s) auto
  ultimately show ?thesis by (simp add: trim_def utf8_chars_ascii [OF assms(1)] first)
qed

text \<open>On ASCII text the conversions of case are those of ASCII.\<close>

definition ascii_case :: "('f, 'g, 'ts, 'ix) http_env \<Rightarrow> bool" where
  "ascii_case E \<longleftrightarrow> (\<forall>s. ascii_string s \<longrightarrow> upper E s = to_ascii_uppercase s \<and> hv_to_lowercase E s = to_ascii_lowercase s)"

definition plain :: "string \<Rightarrow> bool" where
  "plain s \<longleftrightarrow> ascii_string s \<and> apostrophe \<notin> set s"

definition select_query :: "string \<Rightarrow> string" where
  "select_query i = join_with '' '' [''SELECT'', ''*'', ''FROM'', ''hexads'', ''WHERE'', ''id'', ''='', quoted i]"

definition delete_query :: "string \<Rightarrow> string" where
  "delete_query i = join_with '' '' [''DELETE'', ''FROM'', ''hexads'', ''WHERE'', ''id'', ''='', quoted i]"

definition insert_query :: "string \<Rightarrow> string \<Rightarrow> string" where
  "insert_query title body = join_with '' '' [''INSERT'', quoted title, quoted body]"

lemma ascii_append [simp]: "ascii_string (s @ t) \<longleftrightarrow> ascii_string s \<and> ascii_string t"
  by (simp add: ascii_string_def)

lemma ascii_quoted [simp]: "ascii_string (quoted s) \<longleftrightarrow> ascii_string s"
  by (simp add: quoted_def ascii_string_def apostrophe_def byte_of_char_def)

lemma last_quoted [simp]: "last (xs @ quoted s) = apostrophe" "quoted s \<noteq> []"
  by (simp_all add: quoted_def)

lemma join_snoc: "ts \<noteq> [] \<Longrightarrow> join_with sep (ts @ [x]) = join_with sep ts @ sep @ x"
  by (induction sep ts rule: join_with.induct) (auto simp: neq_Nil_conv)

lemma ascii_join: "\<forall>t \<in> set ts. ascii_string t \<Longrightarrow> ascii_string (join_with '' '' ts)"
  by (induction "'' '' :: string" ts rule: join_with.induct) (auto simp: ascii_string_def byte_of_char_def)

lemma hd_join: "ts \<noteq> [] \<Longrightarrow> hd ts \<noteq> [] \<Longrightarrow> join_with sep ts \<noteq> [] \<and> hd (join_with sep ts) = hd (hd ts)"
  by (induction sep ts rule: join_with.induct) auto

text \<open>A statement that ends in a quoted value survives the clean-up of the endpoint and has the tokens it was made of.\<close>

definition clean_query :: "string \<Rightarrow> string list \<Rightarrow> bool" where
  "clean_query q ts \<longleftrightarrow> trim q = q \<and> trim (trim_end_char (CHR '';'') q) = q \<and> q \<noteq> [] \<and> tokenize q = ts"

lemma clean_statement:
  assumes "\<forall>t \<in> set ts. token_ok t \<and> ascii_string t" and "ts \<noteq> []" and "\<not> is_whitespace [hd (hd ts)]" and "plain i"
  shows "clean_query (join_with '' '' (ts @ [quoted i])) (ts @ [quoted i])"
proof -
  let ?q = "join_with '' '' (ts @ [quoted i])"
  have q: "?q = (join_with '' '' ts @ '' '' @ apostrophe # i) @ [apostrophe]" using assms(2) by (simp add: join_snoc quoted_def)
  have n: "hd ts \<noteq> []" using assms(1,2) by (cases ts) (auto simp: token_ok_def)
  have a: "ascii_string ?q" using assms(1,4) by (intro ascii_join) (simp add: plain_def)
  have first: "hd ?q = hd (hd ts)" "?q \<noteq> []" using hd_join [of "ts @ [quoted i]" "'' ''"] n assms(2) by simp_all
  have final: "last ?q = apostrophe" by (simp only: q last_snoc)
  have w: "\<not> is_whitespace [apostrophe]" by code_simp
  have t: "trim ?q = ?q" using trim_ascii [OF a first(2)] first(1) final w assms(3) by simp
  moreover have "trim_end_char (CHR '';'') ?q = ?q" unfolding q by (simp add: trim_end_char_def apostrophe_def)
  moreover have "tokenize ?q = ts @ [quoted i]" using assms(1,4) by (intro tokenize_join) (auto simp: plain_def token_ok_quoted)
  ultimately show ?thesis using first(2) by (simp add: clean_query_def)
qed

lemma literal_ok:
  "token_ok t \<and> ascii_string t" if "t \<in> {''SELECT'', ''*'', ''FROM'', ''hexads'', ''WHERE'', ''id'', ''='', ''DELETE'', ''INSERT''}"
proof -
  have "list_all (\<lambda>t. token_ok t \<and> ascii_string t) [''SELECT'', ''*'', ''FROM'', ''hexads'', ''WHERE'', ''id'', ''='', ''DELETE'', ''INSERT'']"
    by code_simp
  with that show ?thesis by (auto simp: list_all_iff)
qed

lemma letter_ok: "\<not> is_whitespace [CHR ''S'']" "\<not> is_whitespace [CHR ''D'']" "\<not> is_whitespace [CHR ''I'']"
  by code_simp+

lemma clean_queries:
  assumes "plain i"
  shows "clean_query (select_query i) [''SELECT'', ''*'', ''FROM'', ''hexads'', ''WHERE'', ''id'', ''='', quoted i]"
    and "clean_query (delete_query i) [''DELETE'', ''FROM'', ''hexads'', ''WHERE'', ''id'', ''='', quoted i]"
    and "plain title \<Longrightarrow> clean_query (insert_query title i) [''INSERT'', quoted title, quoted i]"
  using clean_statement [of "[''SELECT'', ''*'', ''FROM'', ''hexads'', ''WHERE'', ''id'', ''='']" i]
    clean_statement [of "[''DELETE'', ''FROM'', ''hexads'', ''WHERE'', ''id'', ''='']" i]
    clean_statement [of "[''INSERT'', quoted title]" i] assms
  by (simp_all add: literal_ok letter_ok select_query_def delete_query_def insert_query_def token_ok_quoted plain_def)

lemma literal_case:
  assumes "ascii_case E"
  shows "upper E ''SELECT'' = ''SELECT''" "upper E ''*'' = ''*''" "upper E ''FROM'' = ''FROM''" "upper E ''hexads'' = ''HEXADS''"
    "upper E ''WHERE'' = ''WHERE''" "upper E ''DELETE'' = ''DELETE''" "upper E ''INSERT'' = ''INSERT''" "hv_to_lowercase E ''id'' = ''id''"
proof -
  have up: "upper E s = to_ascii_uppercase s" and low: "hv_to_lowercase E s = to_ascii_lowercase s" if "ascii_string s" for s
    using assms that by (auto simp: ascii_case_def)
  show "upper E ''SELECT'' = ''SELECT''" by (subst up, code_simp, code_simp)
  show "upper E ''*'' = ''*''" by (subst up, code_simp, code_simp)
  show "upper E ''FROM'' = ''FROM''" by (subst up, code_simp, code_simp)
  show "upper E ''hexads'' = ''HEXADS''" by (subst up, code_simp, code_simp)
  show "upper E ''WHERE'' = ''WHERE''" by (subst up, code_simp, code_simp)
  show "upper E ''DELETE'' = ''DELETE''" by (subst up, code_simp, code_simp)
  show "upper E ''INSERT'' = ''INSERT''" by (subst up, code_simp, code_simp)
  show "hv_to_lowercase E ''id'' = ''id''" by (subst low, code_simp, code_simp)
qed

lemma select_runs:
  assumes "ascii_case E" and "plain i"
  shows "vql_execute_handler E parse_f32 rx uptime st (select_query i) = (st, Some (
    rbind (internal (hexad_get (app_hexad_store st) i)) (\<lambda>h. case h of
      None \<Rightarrow> Inl (not_found i) | Some hexad \<Rightarrow> Inr (hexad_rows E ''SELECT'' [hexad]))))"
proof -
  have "clean_query (select_query i) [''SELECT'', ''*'', ''FROM'', ''hexads'', ''WHERE'', ''id'', ''='', quoted i]" by (rule clean_queries(1) [OF assms(2)])
  then show ?thesis
    using literal_case [OF assms(1)] by (simp add: clean_query_def vql_execute_handler_def Let_def execute_select_def)
qed

lemma delete_runs:
  assumes "ascii_case E" and "plain i"
  shows "vql_execute_handler E parse_f32 rx uptime st (delete_query i) =
    (case hexad_delete (hv_hexad E) (rx_clock rx) (rx_txn rx) (app_hexad_store st) i of (store, r) \<Rightarrow>
      (st\<lparr>app_hexad_store := store\<rparr>, Some (case r of
         Inl e \<Rightarrow> Inl (case e of HexadNotFound _ \<Rightarrow> not_found i | _ \<Rightarrow> ApiInternal (HexadError_display e))
       | Inr _ \<Rightarrow> Inr \<lparr>vx_success = True, vx_statement_type = ''DELETE'', vx_row_count = 1, vx_data = VqlNull,
           vx_message = Some (''Deleted hexad '' @ quoted i)\<rparr>)))"
proof -
  have "clean_query (delete_query i) [''DELETE'', ''FROM'', ''hexads'', ''WHERE'', ''id'', ''='', quoted i]" by (rule clean_queries(2) [OF assms(2)])
  then show ?thesis
    using literal_case [OF assms(1)] by (simp add: clean_query_def vql_execute_handler_def Let_def execute_delete_def)
qed

text \<open>The request that creates the document of an INSERT.\<close>

definition document_request :: "string \<Rightarrow> string \<Rightarrow> ('f, 'g) HexadRequest" where
  "document_request title body = \<lparr>hr_title = Some title, hr_body = Some body, hr_embedding = None, hr_types = None, hr_relationships = None,
     hr_tensor = None, hr_provenance = None, hr_spatial = None, hr_metadata = None\<rparr>"

lemma document_request_input:
  "to_hexad_input (document_request title body) =
    HexadInput_default\<lparr>hi_document := Some \<lparr>di_title = title, di_body = body, di_fields = Map.empty\<rparr>\<rparr>"
  by (simp add: to_hexad_input_def document_request_def HexadInput_default_def)

lemma execute_insert_eq:
  "insert_fields (upper E) raw = Some (Inr (title, body)) \<Longrightarrow> execute_insert E rx st raw =
    (case create_hexad_handler E rx st (document_request title body) of (st', r) \<Rightarrow> (st', Some (rbind r (\<lambda>(_, h). Inr
       \<lparr>vx_success = True, vx_statement_type = ''INSERT'', vx_row_count = 1, vx_data = VqlHexads [h],
        vx_message = Some (''Inserted hexad '' @ quoted (ho_id h))\<rparr>))))"
  by (auto simp: execute_insert_def create_hexad_handler_def document_request_input internal_def hexad_rows_def HexadResponse_from_def
    rbind_def split: prod.splits sum.splits)

lemma insert_runs:
  assumes "ascii_case E" and "plain title" and "plain body"
  shows "vql_execute_handler E parse_f32 rx uptime st (insert_query title body) =
    (case create_hexad_handler E rx st (document_request title body) of (st', r) \<Rightarrow> (st', Some (rbind r (\<lambda>(_, h). Inr
       \<lparr>vx_success = True, vx_statement_type = ''INSERT'', vx_row_count = 1, vx_data = VqlHexads [h],
        vx_message = Some (''Inserted hexad '' @ quoted (ho_id h))\<rparr>))))"
proof -
  let ?q = "insert_query title body"
  have clean: "clean_query ?q [''INSERT'', quoted title, quoted body]" by (rule clean_queries(3) [OF assms(3,2)])
  have "ascii_string ?q" using assms(2,3) unfolding insert_query_def by (intro ascii_join) (simp add: plain_def literal_ok)
  then have "upper E ?q = to_ascii_uppercase ?q" using assms(1) by (simp add: ascii_case_def)
  then have "\<not> prefix ''INSERT INTO'' (upper E ?q)"
    by (simp add: insert_query_def quoted_def to_ascii_uppercase_def apostrophe_def ascii_upper_char_def Let_def)
  then have "insert_fields (upper E) ?q = Some (Inr (title, body))"
    using clean by (simp add: insert_fields_def clean_query_def)
  from execute_insert_eq [OF this] show ?thesis
    using clean literal_case [OF assms(1)] by (simp add: clean_query_def vql_execute_handler_def Let_def)
qed

section \<open>The text endpoint against the others\<close>


text \<open>The statement keyword of a request.\<close>

definition vql_statement :: "('f, 'g, 'ts, 'ix) http_env \<Rightarrow> string \<Rightarrow> string" where
  "vql_statement E request = upper E (hd (tokenize (trim (trim_end_char (CHR '';'') (trim request)))))"


section \<open>Where the endpoint departs from its description\<close>

text \<open>A lone quote is taken for a quoted string.\<close>

lemma lone_quote_panics:
  "unquote [apostrophe] = None" "unquote [quotation] = None"
  by code_simp+

lemma load_all_registered:
  "set is \<subseteq> fst ` set (hs_hexads st) \<Longrightarrow> \<exists>hs. load_all st is = Inr hs \<and> length hs = length is"
proof (induction "is")
  case (Cons i "is")
  then obtain hs where "load_all st is = Inr hs" "length hs = length is" by auto
  moreover have "map_of (hs_hexads st) i \<noteq> None" using Cons.prems by (auto simp: map_of_eq_None_iff)
  ultimately show ?case by (auto simp: load_hexad_eq)
qed simp

text \<open>\<open>COUNT\<close> stops at a thousand.\<close>

lemma count_saturates:
  "\<exists>r. execute_count st = Inr r \<and> vx_data r = VqlCount (min 1000 (length (hs_hexads (app_hexad_store st))))"
proof -
  let ?is = "take 1000 (map fst (hs_hexads (app_hexad_store st)))"
  have "set ?is \<subseteq> fst ` set (hs_hexads (app_hexad_store st))" by (metis set_map set_take_subset)
  from load_all_registered [OF this] obtain hs where "load_all (app_hexad_store st) ?is = Inr hs"
    "length hs = min 1000 (length (hs_hexads (app_hexad_store st)))" by (auto simp: min.commute)
  then show ?thesis by (simp add: execute_count_def hexad_list_def internal_def)
qed

text \<open>Commas inside quotes are lost, and the columns of an \<open>INSERT INTO\<close> are not read.\<close>

lemma insert_values_lossy:
  "parse_insert_values to_ascii_uppercase (''INSERT INTO hexads (title, body) VALUES ('' @ quoted ''a,b'' @ '', '' @ quoted ''c'' @ '')'')
     = Some (Inr (''a b'', ''c''))"
  "parse_insert_values to_ascii_uppercase (''INSERT INTO hexads (body, title) VALUES ('' @ quoted ''b'' @ '', '' @ quoted ''t'' @ '')'')
     = Some (Inr (''b'', ''t''))"
  by code_simp+

section \<open>Example\<close>

definition demo_vql_http :: "(rat, rat, i64, unit) http_env" where
  "demo_vql_http = demo_http_env\<lparr>hv_f64 := demo_prof_env\<lparr>pf_to_uppercase := to_ascii_uppercase\<rparr>, hv_to_lowercase := to_ascii_lowercase\<rparr>"


end
