(* ===== verification/Api_Router.thy ===== *)
theory Api_Router
  imports Api_Planning Vql_Exec
begin

text \<open>
  The router of the HTTP interface (\<open>build_router\<close> of \<open>verisim-api/src/lib.rs\<close> and \<open>federation_router\<close>): which endpoint calls which
  handler, and which of them the authentication layer is in front of.  A request is an endpoint with the arguments its extractors
  produce, and the headers the layer reads.  Path matching is axum's; \<open>/metrics\<close> (prometheus), \<open>/graphql\<close> and \<open>/graphiql\<close> are left out.
\<close>

section \<open>Endpoints\<close>

datatype ('f, 'g, 'ts) Endpoint =
    EHealth
  | EReady
  | EListHexads ListQuery
  | ECreateHexad "('f, 'g) HexadRequest"
  | EGetHexad string
  | EUpdateHexad string "('f, 'g) HexadRequest"
  | EDeleteHexad string
  | ESearchText SearchQuery
  | ESearchVector "'f VectorSearchRequest"
  | ESearchRelated string "string option"
  | EDriftStatus
  | EEntityDrift string
  | ENormalizerStatus
  | ETriggerNormalization string
  | EStoreQuery "('f, 'g) StoreQueryRequest"
  | ESimilarQueries "'f VectorSearchRequest"
  | EOptimizeQuery string "LogicalPlan option"
  | EQueryPlan LogicalPlan
  | EQueryExplain LogicalPlan
  | EGetPlannerConfig
  | EPutPlannerConfig "'g PlannerConfig"
  | EPlannerStats
  | EExplainAnalyze "'g ExplainAnalyzeRequest"
  | EPreparedCreate PreparedCreateRequest
  | EPreparedGet string
  | EPreparedExecute string "(string \<times> ('g, 'g) ParamValue) list"
  | EPreparedStats
  | ESlowQueries
  | ETransactionBegin
  | ETransactionCommit string
  | ETransactionRollback string
  | ETransactionStatus string
  | EProofGenerate ProofGenerateRequest
  | EProofVerify ProofVerifyRequest
  | EProofWithCircuit "'g ProofWithCircuitRequest"
  | EProvenanceChain string
  | EProvenanceRecord string ProvenanceRequest
  | EProvenanceVerify string
  | ESpatialRadius "'g RadiusSearchRequest"
  | ESpatialBounds "'g BoundsSearchRequest"
  | ESpatialNearest "'g NearestSearchRequest"
  | EVqlExecute string
  | EFederationPeers "string option"
  | EFederationRegister RegisterRequest
  | EFederationHeartbeat "string option" "'g HeartbeatRequest"
  | EFederationQuery "'f FederationQueryRequest"
  | EFederationDeregister string

fun route :: "('f, 'g, 'ts) Endpoint \<Rightarrow> Method \<times> string" where
  "route EHealth = (GET, ''/health'')"
| "route EReady = (GET, ''/ready'')"
| "route (EListHexads q) = (GET, ''/hexads'')"
| "route (ECreateHexad r) = (POST, ''/hexads'')"
| "route (EGetHexad i) = (GET, ''/hexads/'' @ i)"
| "route (EUpdateHexad i r) = (PUT, ''/hexads/'' @ i)"
| "route (EDeleteHexad i) = (DELETE, ''/hexads/'' @ i)"
| "route (ESearchText q) = (GET, ''/search/text'')"
| "route (ESearchVector r) = (POST, ''/search/vector'')"
| "route (ESearchRelated i p) = (GET, ''/search/related/'' @ i)"
| "route EDriftStatus = (GET, ''/drift/status'')"
| "route (EEntityDrift i) = (GET, ''/drift/entity/'' @ i)"
| "route ENormalizerStatus = (GET, ''/normalizer/status'')"
| "route (ETriggerNormalization i) = (POST, ''/normalizer/trigger/'' @ i)"
| "route (EStoreQuery r) = (POST, ''/queries'')"
| "route (ESimilarQueries r) = (POST, ''/queries/similar'')"
| "route (EOptimizeQuery i b) = (PUT, ''/queries/'' @ i @ ''/optimize'')"
| "route (EQueryPlan p) = (POST, ''/query/plan'')"
| "route (EQueryExplain p) = (POST, ''/query/explain'')"
| "route EGetPlannerConfig = (GET, ''/planner/config'')"
| "route (EPutPlannerConfig c) = (PUT, ''/planner/config'')"
| "route EPlannerStats = (GET, ''/planner/stats'')"
| "route (EExplainAnalyze r) = (POST, ''/query/explain-analyze'')"
| "route (EPreparedCreate r) = (POST, ''/prepared'')"
| "route (EPreparedGet i) = (GET, ''/prepared/'' @ i)"
| "route (EPreparedExecute i ps) = (POST, ''/prepared/'' @ i @ ''/execute'')"
| "route EPreparedStats = (GET, ''/prepared/stats'')"
| "route ESlowQueries = (GET, ''/planner/slow-queries'')"
| "route ETransactionBegin = (POST, ''/transactions/begin'')"
| "route (ETransactionCommit i) = (POST, ''/transactions/'' @ i @ ''/commit'')"
| "route (ETransactionRollback i) = (POST, ''/transactions/'' @ i @ ''/rollback'')"
| "route (ETransactionStatus i) = (GET, ''/transactions/'' @ i)"
| "route (EProofGenerate r) = (POST, ''/proofs/generate'')"
| "route (EProofVerify r) = (POST, ''/proofs/verify'')"
| "route (EProofWithCircuit r) = (POST, ''/proofs/generate-with-circuit'')"
| "route (EProvenanceChain i) = (GET, ''/provenance/'' @ i)"
| "route (EProvenanceRecord i e) = (POST, ''/provenance/'' @ i @ ''/record'')"
| "route (EProvenanceVerify i) = (GET, ''/provenance/'' @ i @ ''/verify'')"
| "route (ESpatialRadius r) = (POST, ''/spatial/search/radius'')"
| "route (ESpatialBounds r) = (POST, ''/spatial/search/bounds'')"
| "route (ESpatialNearest r) = (POST, ''/spatial/search/nearest'')"
| "route (EVqlExecute q) = (POST, ''/vql/execute'')"
| "route (EFederationPeers m) = (GET, ''/federation/peers'')"
| "route (EFederationRegister r) = (POST, ''/federation/register'')"
| "route (EFederationHeartbeat h r) = (POST, ''/federation/heartbeat'')"
| "route (EFederationQuery r) = (POST, ''/federation/query'')"
| "route (EFederationDeregister i) = (POST, ''/federation/deregister/'' @ i)"

text \<open>The routes merged after the layer was added are not behind it.\<close>

fun guarded :: "('f, 'g, 'ts) Endpoint \<Rightarrow> bool" where
  "guarded (EFederationPeers m) = False"
| "guarded (EFederationRegister r) = False"
| "guarded (EFederationHeartbeat h r) = False"
| "guarded (EFederationQuery r) = False"
| "guarded (EFederationDeregister i) = False"
| "guarded _ = True"

section \<open>Answers\<close>

datatype ('f, 'g, 'ts, 'n) Body =
    NoBody
  | BodyError ErrorResponse
  | BodyHealth HealthResponse
  | BodyHexad HexadResponse
  | BodyHexads "HexadResponse list"
  | BodySearch "'f SearchResultResponse list"
  | BodyDrift "'g DriftStatusResponse list"
  | BodyEntityDrift "'g EntityDriftResponse"
  | BodyNormalizer "'ts NormalizerStatus"
  | BodyPlan "'g PhysicalPlan"
  | BodyExplain "'g ExplainOutput"
  | BodyPlannerConfig "'g PlannerConfig"
  | BodyPlannerStats "('g, 'ts) StatisticsCollector"
  | BodyAnalyze "('g, 'ts) ExplainAnalyzeOutput"
  | BodyPrepared "'g PreparedStatement"
  | BodyCacheStats "'g CacheStats"
  | BodySlowQueries "'g SlowQuerySummary"
  | BodyTransaction TransactionStatus
  | BodyProof ProofResponse
  | BodyChain ProvenanceChainResponse
  | BodyRecorded "string \<times> u64 \<times> bool"
  | BodyVerified "string \<times> bool \<times> bool"
  | BodySpatial "'g SpatialSearchResultResponse list"
  | BodyVql "('g, 'ts) VqlExecuteResponse"
  | BodyPeers "'g PeerStore list"
  | BodyPeer "'g PeerStore"
  | BodyFederation "('g, 'n) FederationQueryResponse"

text \<open>\<open>into_response\<close> of a handler's result.\<close>

definition answer :: "('a \<Rightarrow> u16 \<times> ('f, 'g, 'ts, 'n) Body) \<Rightarrow> (ApiError, 'a) rresult \<Rightarrow> u16 \<times> ('f, 'g, 'ts, 'n) Body" where
  "answer ok r = (case r of Inr x \<Rightarrow> ok x | Inl e \<Rightarrow> (case ApiError_into_response e of (status, body) \<Rightarrow> (status, BodyError body)))"

abbreviation ok_body :: "('a \<Rightarrow> ('f, 'g, 'ts, 'n) Body) \<Rightarrow> 'a \<Rightarrow> u16 \<times> ('f, 'g, 'ts, 'n) Body" where
  "ok_body con x \<equiv> (200, con x)"

section \<open>Dispatch\<close>

text \<open>
  What a request reads beside its arguments: the clocks and identifiers of \<open>request_inputs\<close>, the second readings of some handlers, the
  uptime, and of the layer the Unix time, two instants and the time of the audit entry.
\<close>

record 'ts server_inputs =
  sv_inputs :: "'ts request_inputs"
  sv_finished :: 'ts
  sv_cache_later :: int
  sv_uptime :: u64
  sv_unix_now :: i64
  sv_instant1 :: nat
  sv_instant2 :: nat
  sv_audit_secs :: u64

record ('f, 'g, 'ts, 'ix, 'n) server_env =
  se_http :: "('f, 'g, 'ts, 'ix) http_env"
  se_fed :: "('f, 'g, 'n) fed_env"
  se_parse_f32 :: "string \<Rightarrow> (string, 'f) rresult"

abbreviation reads :: "'s \<Rightarrow> 'b \<Rightarrow> 's \<times> 'b option" where
  "reads st b \<equiv> (st, Some b)"

fun handle ::
  "('f, 'g, 'ts, 'ix, 'n) server_env \<Rightarrow> 'ts server_inputs \<Rightarrow> ('f, 'g, 'ts, 'ix) AppState \<Rightarrow> ('f, 'g, 'ts) Endpoint
   \<Rightarrow> ('f, 'g, 'ts, 'ix) AppState \<times> (u16 \<times> ('f, 'g, 'ts, 'n) Body) option" where
  "handle S v st EHealth = reads st (apsnd BodyHealth (health_handler (se_http S) (sv_inputs v) (sv_uptime v) st))"
| "handle S v st EReady = reads st (ready_handler st, NoBody)"
| "handle S v st (EListHexads q) = reads st (answer (ok_body BodyHexads) (list_hexads_handler (se_http S) st q))"
| "handle S v st (ECreateHexad r) = apsnd (\<lambda>a. Some (answer (apsnd BodyHexad) a)) (create_hexad_handler (se_http S) (sv_inputs v) st r)"
| "handle S v st (EGetHexad i) = reads st (answer (ok_body BodyHexad) (get_hexad_handler (se_http S) st i))"
| "handle S v st (EUpdateHexad i r) = apsnd (\<lambda>a. Some (answer (ok_body BodyHexad) a)) (update_hexad_handler (se_http S) (sv_inputs v) st i r)"
| "handle S v st (EDeleteHexad i) = apsnd (\<lambda>a. Some (answer (\<lambda>code. (code, NoBody)) a)) (delete_hexad_handler (se_http S) (sv_inputs v) st i)"
| "handle S v st (ESearchText q) = reads st (answer (ok_body BodySearch) (text_search_handler (se_http S) st q))"
| "handle S v st (ESearchVector r) = reads st (answer (ok_body BodySearch) (vector_search_handler (se_http S) st r))"
| "handle S v st (ESearchRelated i p) = reads st (answer (ok_body BodyHexads) (related_search_handler (se_http S) st i p))"
| "handle S v st EDriftStatus = reads st (200, BodyDrift (drift_status_handler (se_http S) st))"
| "handle S v st (EEntityDrift i) = reads st (answer (ok_body BodyEntityDrift) (entity_drift_handler (se_http S) st i))"
| "handle S v st ENormalizerStatus = reads st (200, BodyNormalizer (normalizer_status_handler st))"
| "handle S v st (ETriggerNormalization i) = reads st (answer (\<lambda>code. (code, NoBody)) (trigger_normalization_handler (se_http S) st i))"
| "handle S v st (EStoreQuery r) = apsnd (map_option (answer (apsnd BodyHexad))) (store_query_handler (se_http S) (sv_inputs v) st r)"
| "handle S v st (ESimilarQueries r) = reads st (answer (ok_body BodySearch) (similar_queries_handler (se_http S) st r))"
| "handle S v st (EOptimizeQuery i b) = apsnd (map_option (answer (ok_body BodyHexad))) (optimize_query_handler (se_http S) (sv_inputs v) st i b)"
| "handle S v st (EQueryPlan p) = apsnd (map_option (answer (ok_body BodyPlan))) (query_plan_handler (se_http S) st p)"
| "handle S v st (EQueryExplain p) = apsnd (map_option (answer (ok_body BodyExplain))) (query_explain_handler (se_http S) st p)"
| "handle S v st EGetPlannerConfig = apsnd (map_option (answer (ok_body BodyPlannerConfig))) (get_planner_config_handler st)"
| "handle S v st (EPutPlannerConfig c) = apsnd (map_option (answer (ok_body BodyPlannerConfig))) (put_planner_config_handler st c)"
| "handle S v st EPlannerStats = apsnd (map_option (answer (ok_body BodyPlannerStats))) (planner_stats_handler st)"
| "handle S v st (EExplainAnalyze r) =
     apsnd (map_option (answer (ok_body BodyAnalyze))) (query_explain_analyze_handler (se_http S) (sv_inputs v) (sv_finished v) st r)"
| "handle S v st (EPreparedCreate r) =
     apsnd (map_option (answer (apsnd BodyPrepared))) (prepared_create_handler (se_http S) (sv_inputs v) (sv_cache_later v) st r)"
| "handle S v st (EPreparedGet i) = apsnd (map_option (answer (ok_body BodyPrepared))) (prepared_get_handler (se_http S) (sv_inputs v) st i)"
| "handle S v st (EPreparedExecute i ps) =
     apsnd (map_option (answer (ok_body BodyPlan))) (prepared_execute_handler (se_http S) (sv_inputs v) st i ps)"
| "handle S v st EPreparedStats = reads st (200, BodyCacheStats (prepared_stats_handler (se_http S) st))"
| "handle S v st ESlowQueries = reads st (200, BodySlowQueries (slow_queries_handler (se_http S) st))"
| "handle S v st ETransactionBegin = apsnd (\<lambda>a. Some (answer (apsnd BodyTransaction) a)) (transaction_begin_handler (se_http S) (sv_inputs v) st)"
| "handle S v st (ETransactionCommit i) =
     apsnd (\<lambda>a. Some (answer (ok_body BodyTransaction) a)) (transaction_commit_handler (se_http S) (sv_inputs v) st i)"
| "handle S v st (ETransactionRollback i) =
     apsnd (\<lambda>a. Some (answer (ok_body BodyTransaction) a)) (transaction_rollback_handler (se_http S) (sv_inputs v) st i)"
| "handle S v st (ETransactionStatus i) = reads st (answer (ok_body BodyTransaction) (transaction_status_handler st i))"
| "handle S v st (EProofGenerate r) = reads st (answer (ok_body BodyProof) (proof_generate_handler (se_http S) (sv_inputs v) r))"
| "handle S v st (EProofVerify r) = reads st (200, BodyProof (proof_verify_handler (se_http S) r))"
| "handle S v st (EProofWithCircuit r) =
     reads st (answer (ok_body BodyProof) (proof_generate_with_circuit_handler (se_http S) (sv_inputs v) st r))"
| "handle S v st (EProvenanceChain i) = reads st (answer (ok_body BodyChain) (provenance_get_chain_handler (se_http S) st i))"
| "handle S v st (EProvenanceRecord i e) =
     apsnd (\<lambda>a. Some (answer (ok_body BodyRecorded) a)) (provenance_record_handler (se_http S) (sv_inputs v) st i e)"
| "handle S v st (EProvenanceVerify i) = reads st (answer (ok_body BodyVerified) (provenance_verify_handler (se_http S) st i))"
| "handle S v st (ESpatialRadius r) = reads st (answer (ok_body BodySpatial) (spatial_radius_search_handler (se_http S) st r))"
| "handle S v st (ESpatialBounds r) = reads st (answer (ok_body BodySpatial) (spatial_bounds_search_handler (se_http S) st r))"
| "handle S v st (ESpatialNearest r) = reads st (answer (ok_body BodySpatial) (spatial_nearest_handler (se_http S) st r))"
| "handle S v st (EVqlExecute q) =
     apsnd (map_option (answer (ok_body BodyVql))) (vql_execute_handler (se_http S) (se_parse_f32 S) (sv_inputs v) (sv_uptime v) st q)"
| "handle S v st (EFederationPeers m) = reads st (200, BodyPeers (list_peers (se_fed S) (app_federation st) m))"
| "handle S v st (EFederationRegister r) =
     (case register_peer (se_fed S) (he_rfc3339 (hv_hexad (se_http S)) (rx_now (sv_inputs v))) (app_federation st) r of (fed, a) \<Rightarrow>
        (st\<lparr>app_federation := fed\<rparr>, Some (case a of Inl code \<Rightarrow> (code, NoBody) | Inr (code, peer) \<Rightarrow> (code, BodyPeer peer))))"
| "handle S v st (EFederationHeartbeat h r) =
     (case heartbeat (se_fed S) (he_rfc3339 (hv_hexad (se_http S)) (rx_now (sv_inputs v))) (app_federation st) h r of (fed, a) \<Rightarrow>
        (st\<lparr>app_federation := fed\<rparr>, Some (case a of Inl code \<Rightarrow> (code, NoBody) | Inr code \<Rightarrow> (code, NoBody))))"
| "handle S v st (EFederationQuery r) = reads st (200, BodyFederation (federation_query (se_fed S) (app_federation st) r))"
| "handle S v st (EFederationDeregister i) =
     (case deregister_peer (app_federation st) i of (fed, a) \<Rightarrow>
        (st\<lparr>app_federation := fed\<rparr>, Some (case a of Inl code \<Rightarrow> (code, NoBody) | Inr code \<Rightarrow> (code, NoBody))))"

record Credentials =
  cr_x_api_key :: "string option"
  cr_authorization :: "string option"

datatype ('f, 'g, 'ts, 'n) Outcome =
    Panicked
  | Refused Response
  | Answered u16 "('f, 'g, 'ts, 'n) Body"

definition raw_request :: "Credentials \<Rightarrow> ('f, 'g, 'ts) Endpoint \<Rightarrow> Request" where
  "raw_request cred ep = \<lparr>rq_path = snd (route ep), rq_method = fst (route ep), rq_x_api_key = cr_x_api_key cred, rq_authorization = cr_authorization cred\<rparr>"

definition run_handler ::
  "('f, 'g, 'ts, 'ix, 'n) server_env \<Rightarrow> 'ts server_inputs \<Rightarrow> ('f, 'g, 'ts, 'ix) AppState \<Rightarrow> ('f, 'g, 'ts) Endpoint
   \<Rightarrow> ('f, 'g, 'ts, 'ix) AppState \<times> ('f, 'g, 'ts, 'n) Outcome" where
  "run_handler S v st ep = apsnd (\<lambda>a. case a of None \<Rightarrow> Panicked | Some (status, body) \<Rightarrow> Answered status body) (handle S v st ep)"

definition serve_request ::
  "('f, 'g, 'ts, 'ix, 'n) server_env \<Rightarrow> 'ts server_inputs \<Rightarrow> ('f, 'g, 'ts, 'ix) AppState \<Rightarrow> Credentials \<Rightarrow> ('f, 'g, 'ts) Endpoint
   \<Rightarrow> ('f, 'g, 'ts, 'ix) AppState \<times> ('f, 'g, 'ts, 'n) Outcome" where
  "serve_request S v st cred ep =
    (if \<not> guarded ep then run_handler S v st ep
     else (case auth_middleware (hv_auth (se_http S)) (sv_unix_now v) (sv_instant1 v) (sv_instant2 v) (sv_audit_secs v) (app_auth st)
                  (raw_request cred ep) of
             None \<Rightarrow> (st, Panicked)
           | Some (auth, Forwarded) \<Rightarrow> run_handler S v (st\<lparr>app_auth := auth\<rparr>) ep
           | Some (auth, refusal) \<Rightarrow> (st\<lparr>app_auth := auth\<rparr>, Refused refusal)))"

section \<open>Who is served\<close>

definition admitted ::
  "('f, 'g, 'ts, 'ix, 'n) server_env \<Rightarrow> 'ts server_inputs \<Rightarrow> ('f, 'g, 'ts, 'ix) AppState \<Rightarrow> Credentials \<Rightarrow> ('f, 'g, 'ts) Endpoint \<Rightarrow> bool" where
  "admitted S v st cred ep \<longleftrightarrow>
    \<not> ac_enabled (as_config (app_auth st))
    \<or> ac_allow_public_health (as_config (app_auth st)) \<and> public_path (snd (route ep))
    \<or> (\<exists>identity. identified (hv_auth (se_http S)) (sv_unix_now v) (raw_request cred ep) (app_auth st) identity
         \<and> snd (rate_check (as_rate_limiter (app_auth st)) (sv_instant1 v) (ci_id identity))
         \<and> authorized (rs_policy (as_rbac (app_auth st))) identity (snd (route ep)) (fst (route ep)))"

lemma middleware_on_route:
  assumes "auth_middleware (hv_auth (se_http S)) (sv_unix_now v) t1 t2 secs (app_auth st) (raw_request cred ep) = Some (auth, response)"
    and "t1 = sv_instant1 v"
  shows "response = Forwarded \<longleftrightarrow> admitted S v st cred ep"
  using middleware_decides [OF assms(1)] assms(2) by (simp add: admitted_def raw_request_def)


lemma get_keeps_statements:
  "Plan_Cache.get E now c i = Some (c', r) \<Longrightarrow> ca_statements c' = ca_statements c"
  by (auto simp: Plan_Cache.get_def bump_defs split: option.splits if_splits)

lemma handle_get:
  assumes "fst (route ep) = GET"
  shows "\<exists>c. fst (handle S v st ep) = st\<lparr>app_plan_cache := c\<rparr> \<and> ca_statements c = ca_statements (app_plan_cache st)"
proof -
  have here: "\<exists>c. st = st\<lparr>app_plan_cache := c\<rparr> \<and> ca_statements c = ca_statements (app_plan_cache st)"
    by (intro exI [of _ "app_plan_cache st"]) simp
  show ?thesis
  proof (cases ep)
    case (EPreparedGet i)
    show ?thesis
    proof (cases "Plan_Cache.get (hv_cache (se_http S)) (rx_cache_now (sv_inputs v)) (app_plan_cache st) (PreparedId i)")
      case (Some x)
      obtain c r where "x = (c, r)" by fastforce
      with Some get_keeps_statements [of "hv_cache (se_http S)" "rx_cache_now (sv_inputs v)" "app_plan_cache st" "PreparedId i" c r] show ?thesis
        by (auto simp: EPreparedGet prepared_get_handler_def)
    qed (use here in \<open>simp add: EPreparedGet prepared_get_handler_def\<close>)
  qed (use assms here in \<open>simp_all add: get_planner_config_handler_def planner_stats_handler_def with_planner_def\<close>)
qed

text \<open>C14: Requests with the method GET are safe: whoever sends one, every store, registry, log and configuration of the server is as
  before, and the plan cache holds the same statements; only its counters and the state of the authentication layer move.
\<close>

theorem get_requests_safe:
  assumes "fst (route ep) = GET"
  shows "\<exists>auth cache. fst (serve_request S v st cred ep) = st\<lparr>app_auth := auth, app_plan_cache := cache\<rparr>
    \<and> ca_statements cache = ca_statements (app_plan_cache st)"
proof -
  have here: "\<exists>auth cache. st\<lparr>app_auth := a\<rparr> = st\<lparr>app_auth := auth, app_plan_cache := cache\<rparr> \<and> ca_statements cache = ca_statements (app_plan_cache st)"
    for a by (intro exI [of _ a] exI [of _ "app_plan_cache st"]) simp
  have run: "\<exists>auth cache. fst (run_handler S v (st\<lparr>app_auth := a\<rparr>) ep) = st\<lparr>app_auth := auth, app_plan_cache := cache\<rparr>
      \<and> ca_statements cache = ca_statements (app_plan_cache st)" for a
    using handle_get [OF assms, of S v "st\<lparr>app_auth := a\<rparr>"] by (auto simp: run_handler_def)
  show ?thesis
    using run [of "app_auth st"] run here here [of "app_auth st"]
    by (simp add: serve_request_def split: option.split prod.split Response.split)
qed

section \<open>What is open\<close>

text \<open>The server starts with authentication off, and no operation turns it on.\<close>

lemma new_server_open:
  assumes "AppState_new E keys instant now document config = Inr st"
  shows "auth_middleware env time t1 t2 secs (app_auth st) request = Some (app_auth st, Forwarded)"
  using assms by (auto simp: AppState_new_def auth_middleware_def AuthState_new_def AuthConfig_default_def Let_def split: sum.splits)

lemma federation_ignores_credentials:
  "serve_request S v st cred (EFederationDeregister i) = run_handler S v st (EFederationDeregister i)"
  by (simp add: serve_request_def)

section \<open>Examples\<close>

definition demo_server :: "(rat, rat, i64, unit, rat) server_env" where
  "demo_server = \<lparr>se_http = demo_http_env, se_fed = demo_fed_env, se_parse_f32 = (\<lambda>_. Inl [])\<rparr>"

definition demo_server_inputs :: "i64 server_inputs" where
  "demo_server_inputs = \<lparr>sv_inputs = demo_inputs, sv_finished = 0, sv_cache_later = 0, sv_uptime = 0, sv_unix_now = 5, sv_instant1 = 0,
     sv_instant2 = 0, sv_audit_secs = 0\<rparr>"

definition demo_locked :: "(rat, rat, i64, unit) AppState" where
  "demo_locked = demo_app\<lparr>app_auth := AuthState_new demo_auth_config\<rparr>"


theorem get_requests_safe_witness:
  "app_hexad_store (fst (serve_request demo_server demo_server_inputs demo_locked \<lparr>cr_x_api_key = None, cr_authorization = None\<rparr> (EGetHexad ''e'')))
    = app_hexad_store demo_locked"
proof -
  have "fst (route (EGetHexad ''e'' :: (rat, rat, i64) Endpoint)) = GET" by simp
  from get_requests_safe [OF this, of demo_server demo_server_inputs demo_locked "\<lparr>cr_x_api_key = None, cr_authorization = None\<rparr>"]
  show ?thesis by auto
qed

end
