(* ===== verification/Spec2Isabelle.thy ===== *)
theory Spec2Isabelle
  imports Wal_Limits Transaction_Concurrent Storage Conflict Api_Transaction Hexad_Wal
    Regeneration Vql_Plan Verification_Keys Api_Router
begin

text \<open>
  VeriSimDB is a database whose entities span eight modalities.  Its Rust core (\<open>rust-core/\<close>) is a set
  of crates: a write-ahead log, a transaction manager with locks and versions, one store per modality, the
  hexad store that writes an entity through all of them, a key-value storage layer, a query planner with a
  cache of prepared statements, drift detection, a normalizer that settles conflicts between modalities and
  regenerates drifted ones, proofs about semantic claims, and a server whose router puts authentication and access
  control in front of handlers for all of these, with a federation of such servers beside it.  This development
  models the parts that carry the core's own logic and proves what makes them correct.

  \<^bold>\<open>Theories.\<close>

  \<^item> \<open>Prelude\<close>: machine integers, results as sums, little-endian bytes, UTF-8 and decimal text.  \<open>Text\<close>: the
    string functions of the standard library.  \<open>Ranking\<close> and \<open>Float_Env\<close>: floating point as a parameter, stable
    sorting by a score.  \<open>BTreeMap\<close>: the ordered map of the standard library.
  \<^item> \<open>Wal_Entry\<close> (\<open>verisim-wal/src/entry.rs\<close>, \<open>error.rs\<close>), \<open>Wal_Segment\<close> (\<open>segment.rs\<close>), \<open>Wal_Reader\<close>
    (\<open>reader.rs\<close>), \<open>Wal_Writer\<close> (\<open>writer.rs\<close>): the log's codec, files, reader and writer, one definition per
    function.  \<open>Wal_Log\<close> relates a directory and a writer to the logical log they hold; \<open>Wal_Limits\<close> is about
    damage and pruning.
  \<^item> \<open>Lock_Table\<close>, \<open>Transaction\<close>, \<open>Transaction_Concurrent\<close> (\<open>verisim-hexad/src/transaction.rs\<close>): the lock
    table with its deadlock detector, the manager's operations run alone, and their critical sections
    interleaved (\<open>conc_step\<close>).
  \<^item> The modality stores, one theory each over the \<open>src/lib.rs\<close> of their crates: \<open>Graph\<close>, \<open>Vector_Store\<close>,
    \<open>Tensor_Store\<close>, \<open>Semantic_Store\<close>, \<open>Document_Store\<close>, \<open>Temporal\<close> (with \<open>diff.rs\<close>), \<open>Provenance\<close>,
    \<open>Spatial_Store\<close>; \<open>Keyed_Store\<close> holds the contract those keyed by an entity share.
  \<^item> \<open>Hexad\<close> (\<open>verisim-hexad/src/lib.rs\<close>) and \<open>Hexad_Store\<close> (\<open>store.rs\<close>): entities, inputs and the operations
    of the store over the log, the transaction manager and the eight modality stores.  \<open>Hexad_Steps\<close>,
    \<open>Hexad_Txn\<close>, \<open>Hexad_Laws\<close>, \<open>Hexad_Runs\<close> and \<open>Hexad_Wal\<close> prove how each phase of an operation acts on each
    part of the state, and what follows for single operations, for runs and for the log.
  \<^item> \<open>Storage\<close> (\<open>verisim-storage/src/backend.rs\<close>, \<open>memory.rs\<close>, \<open>typed.rs\<close>, \<open>error.rs\<close>): the in-memory backend and the
    typed store over any backend.
  \<^item> \<open>Planner\<close> (\<open>verisim-planner/src/lib.rs\<close>, \<open>plan.rs\<close>, \<open>config.rs\<close>, \<open>cost.rs\<close>, \<open>error.rs\<close>), \<open>Planner_Optimize\<close>
    (\<open>optimizer.rs\<close>, \<open>stats.rs\<close>, \<open>explain.rs\<close>), \<open>Plan_Cache\<close> (\<open>prepared.rs\<close>), \<open>Slow_Query\<close> (\<open>slow_query.rs\<close>),
    \<open>Profiler\<close> (\<open>profiler.rs\<close>), and \<open>Json\<close>, \<open>Vql_Ast\<close>, \<open>Vql_Plan\<close> (\<open>vql_bridge.rs\<close>): how the syntax tree of a query
    is read from JSON and becomes a logical plan.  \<open>Query_Hexad\<close> (\<open>verisim-hexad/src/query_hexad.rs\<close>) stores
    queries as entities.
  \<^item> \<open>Drift\<close> (\<open>verisim-drift/src/lib.rs\<close>, \<open>calculator.rs\<close>), \<open>Normalizer\<close> (\<open>verisim-normalizer/src/lib.rs\<close>),
    \<open>Conflict\<close> (\<open>conflict.rs\<close>) and \<open>Regeneration\<close> (\<open>regeneration.rs\<close>).
  \<^item> \<open>Rbac\<close> (\<open>verisim-api/src/rbac.rs\<close>), \<open>Auth\<close> (\<open>auth.rs\<close>) and \<open>Api_Transaction\<close> (\<open>transaction.rs\<close>): the
    server's access decision and audit log, its credentials and rate limits, and its buffering transactions.
  \<^item> \<open>Circuit\<close> (\<open>verisim-semantic/src/circuit_registry.rs\<close>, \<open>circuit_compiler.rs\<close>), \<open>Zkp\<close> (\<open>zkp.rs\<close>, \<open>zkp_bridge.rs\<close>) and
    \<open>Verification_Keys\<close> (\<open>verification_keys.rs\<close>): circuits and their compiler, commitments with Merkle proofs, and the
    keys with their rotation.
  \<^item> \<open>Api_Data\<close>, \<open>Api_Handlers\<close>, \<open>Api_Planning\<close>, \<open>Api_Router\<close> (\<open>verisim-api/src/lib.rs\<close>): the state of the server, its
    handlers and its router; \<open>Vql_Exec\<close> (\<open>vql.rs\<close>): queries as text; \<open>Federation\<close> (\<open>federation.rs\<close>): the registry
    of peers and federated queries.  The handlers call the definitions of the theories above; \<open>app_state\<close> holds their
    states, and \<open>serve_request\<close> is one request through the router.

  \<^bold>\<open>How the code is read.\<close>  A struct is a record and an enum a datatype, with a prefix on field names.
  A method that changes its receiver takes the state and returns it with its result; an \<open>Err\<close> is \<open>Inl\<close>; a
  panic, where one can occur, is \<open>None\<close>.  \<open>u64\<close> and \<open>u32\<close> values are words and wrap, as in the release profile.  A
  hash map is a map or an association list, and where its iteration order reaches a result the order is a
  parameter.  Clock readings and random identifiers are arguments of the operation that reads them.  A trait
  with pluggable implementations (normalisation strategies, regenerators) is a record of functions.
  Code of other crates is a parameter: checksum and timestamp conversion (\<open>wal_env\<close>), hashing and text of
  records (\<open>prov_env\<close>), JSON (\<open>json_codec\<close>), chrono, sha2 and hex (\<open>api_env\<close>, \<open>cache_env\<close>, \<open>auth_env\<close>, \<open>circuit_env\<close>),
  the answers of other servers (\<open>fed_env\<close>); \<open>http_env\<close> and \<open>server_env\<close> collect what the handlers and the router need.
  A standard mutex that a panic can poison has a flag for it (the planner's, in \<open>app_state\<close>).
  Floating point is a parameter as well (\<open>float_ops\<close>, \<open>f64_ops\<close>, \<open>plan_env\<close>, \<open>drift_env\<close>, \<open>norm_env\<close>): the arithmetic
  of the code is translated operation by operation, and what a theorem needs of the operations is a hypothesis.
  A theorem that needs something of a parameter says so as a hypothesis, and its witness instantiates it.

  \<^bold>\<open>Interfaces.\<close>  \<open>lock_service\<close> is what the transaction manager relies on of the lock table,
  \<open>storage_backend\<close> what the typed store relies on of a backend, \<open>provenance_store\<close> and \<open>temporal_store\<close>
  are the traits of those names, \<open>keyed_store\<close> and \<open>deleting_store\<close> what the hexad store relies on of the stores of
  single modalities (and the users of circuits on the registry of circuits); each is interpreted on the model of the code
  that provides it.  What sorting by a score needs of the comparison is the predicate \<open>weak_order\<close>.

  \<^bold>\<open>What is shown.\<close>

  \<^item> Log: entries decode to what was encoded; for every sequence of appends, checkpoints and syncs,
    over any number of segments, replay returns the acknowledged entries in order; after a crash that keeps
    the synced bytes, replay returns a prefix with at least the synced entries; the last checkpoint is found;
    a reopened log continues.  A damaged entry costs only itself.  Pruning is characterised, with the condition
    under which it is safe; three runs show where acknowledged entries are lost (pruning inside a segment,
    rotating twice, resuming behind a torn write).
  \<^item> Transactions: holders of a lock are compatible and active; an exclusive lock excludes all
    others until released; the deadlock detector finds a cycle exactly when there is one; a serializable
    commit succeeds only if nothing it read was written since; the undo log restores the data; completed
    transactions stay completed.  Under interleaving, compatibility still holds, and a lock can outlive its
    transaction.
  \<^item> Modality stores: the graph store is a set of triples and its neighbourhood the reachable nodes; vector
    and spatial searches return the best entries in order; annotations are validated; versions are the history
    that was appended; a provenance chain that verifies is determined by its last hash.
  \<^item> Hexad store: what is created is read back, an update replaces exactly what it names, a deleted entity is
    gone, a failed creation is invisible, acceptable input succeeds, every operation returns its locks, reachable
    states load, and every acknowledged operation is in the log.
  \<^item> Storage: scans return exactly the keys with the prefix, in order; typed stores of colon-free
    namespaces do not interfere.
  \<^item> Planner: the physical plan holds every node once, ordered by priority and cost; the only failures are an
    empty plan and a preview cut inside a character.  The cache's two tables stay consistent, a prepared statement
    is found until it expires, the least recently used one is evicted, the slow-query log keeps the newest entries.
    Reading a VQL tree inverts writing it, and the plan made of a query is the one read off it clause by clause.
  \<^item> Drift and normalisation: scores stay within the unit interval, the metrics follow the measurements;
    the default normaliser repairs exactly the drifts it has a strategy for; every regeneration is audited.
  \<^item> Server: a request is forwarded exactly if its credential, rate and role allow it; no
    client exceeds its rate in any window; an accepted token carries a valid signature and is not expired; decoding
    inverts base64url.  \<open>check_access\<close> allows exactly what the policy grants and records every decision in a
    bounded log.  A bounded number of transactions is active, and a commit delivers its buffer whole and once.
  \<^item> Requests: a handler outside the federation runs only for an admitted request; GET requests change no data; an
    entity created over HTTP is read back, and reading one is never an internal error; lists and searches are bounded.
    The text endpoint agrees with the endpoints of single entities and has no other effect than one creation or
    deletion.  Endpoints of the planner answer as if each request came alone until one panics, from which on they all
    fail; executions of a prepared statement answer the plan of its first.
  \<^item> Federation: the registry holds only peers that presented their key; a query asks exactly the peers that match and
    answers the best of their results within the limit.
  \<^item> Proofs: the Merkle loop ends after logarithmically many rounds; an inclusion proof verifies exactly for members
    unless the hash collides; generated proofs verify; a compiled circuit accepts exactly the assignments that satisfy
    its gates; rotation keeps the history of keys.  Further lemmas show what these proofs do not give (an inner node
    passes as a leaf, a zero-knowledge proof can be forged, some gates compile to the wrong constraint).

  \<^bold>\<open>Loops.\<close>  Every loop is a total function: the scans of segment files decrease the bytes left, the
  breadth-first search decreases the unvisited nodes and then the queue, a round of the Merkle tree halves the
  hashes, the scanners of query text decrease the bytes left; no fuel is used.

  \<^bold>\<open>Not modelled.\<close>  I/O failures of the operating system, log messages and the rounding of floating-point operations.
  Back ends that are calls into libraries: redb, oxigraph, tantivy, ndarray.  The HNSW index, whose layers are drawn
  at random and whose answers are approximate.  The storage metrics and the prometheus page, counters that nothing reads back.  The
  GraphQL and gRPC servers, whose code is generated or maps to the same handlers.  The bridges to external provers
  (\<open>proven_bridge.rs\<close>, \<open>sanctify_bridge.rs\<close>), which exchange files with other programs.  The command-line client, the
  Erlang binding, the Rust client library and the other languages of the repository.
\<close>

end
